(* ===== verification/Go_Base.thy ===== *)
theory Go_Base
  imports Main "HOL-Library.Word" "HOL-Library.AList" "HOL-Library.Monad_Syntax"
begin

text \<open>
  The prelude of the development: the Go types the components share, Go maps and
  sets, the library function \<open>sort.Search\<close>, byte strings, and the collections of
  simplification rules that the component theories extend.

  Conventions used in every theory.
  \<^item> A Go panic (a nil dereference, an explicit \<open>panic\<close>, a slice out of range) is the
    value \<open>None\<close> of an \<open>option\<close> result; an error value is an \<open>error\<close>.
  \<^item> \<open>uint32\<close> and \<open>uint64\<close> are words; \<open>big.Int\<close> is \<open>int\<close>; \<open>common.Address\<close> and
    \<open>common.Hash\<close> are words of 160 and 256 bits.
  \<^item> A Go map is an association list read with \<open>map_of\<close>. The order of the list is the
    order in which a \<open>range\<close> loop visits the map. Theorems quantify over all lists, so
    they hold for every order in which Go may visit the same map.
\<close>

section \<open>Go types\<close>

type_synonym u8 = "8 word"
type_synonym u32 = "32 word"
type_synonym u64 = "64 word"
type_synonym bytes = "u8 list"
type_synonym address = "160 word"
type_synonym hash = "256 word"

text \<open>Go's \<open>error\<close>: \<open>nil\<close> is \<open>None\<close>, otherwise the message.\<close>

type_synonym error = string

type_synonym ('k, 'v) gomap = "('k \<times> 'v) list"

abbreviation gm_get :: "('k, 'v) gomap \<Rightarrow> 'k \<Rightarrow> 'v option" where
  "gm_get m k \<equiv> map_of m k"

abbreviation gm_set :: "'k \<Rightarrow> 'v \<Rightarrow> ('k, 'v) gomap \<Rightarrow> ('k, 'v) gomap" where
  "gm_set k v m \<equiv> AList.update k v m"

abbreviation gm_del :: "'k \<Rightarrow> ('k, 'v) gomap \<Rightarrow> ('k, 'v) gomap" where
  "gm_del k m \<equiv> AList.delete k m"

abbreviation gm_keys :: "('k, 'v) gomap \<Rightarrow> 'k list" where
  "gm_keys m \<equiv> map fst m"

text \<open>Reading a missing key of a Go map gives the zero value of the element type.\<close>

definition gm_getd :: "'v \<Rightarrow> ('k, 'v) gomap \<Rightarrow> 'k \<Rightarrow> 'v" where
  "gm_getd z m k = (case gm_get m k of None \<Rightarrow> z | Some v \<Rightarrow> v)"

text \<open>\<open>map[K]struct{}\<close>, a set visited in list order.\<close>

abbreviation gs_add :: "'k \<Rightarrow> 'k list \<Rightarrow> 'k list" where
  "gs_add k s \<equiv> List.insert k s"

abbreviation gs_del :: "'k \<Rightarrow> 'k list \<Rightarrow> 'k list" where
  "gs_del k s \<equiv> removeAll k s"

named_theorems gomap_simps \<open>rewriting Go maps to functions\<close>
named_theorems sdb_defs \<open>definitions of the account state operations\<close>
named_theorems lm_defs \<open>definitions of the load map operations\<close>
named_theorems pool_defs \<open>definitions of the commit pool operations\<close>

declare update_conv' [gomap_simps] delete_conv' [gomap_simps]

lemma gm_get_set [simp, gomap_simps]:
  "gm_get (gm_set k v m) k' = (if k' = k then Some v else gm_get m k')"
  by (simp add: update_conv)

lemma gm_get_del [simp, gomap_simps]:
  "gm_get (gm_del k m) k' = (if k' = k then None else gm_get m k')"
  by (simp add: delete_conv)

lemma gm_getd_set [simp]: "gm_getd z (gm_set k v m) k' = (if k' = k then v else gm_getd z m k')"
  by (simp add: gm_getd_def)

lemma gm_getd_del [simp]: "gm_getd z (gm_del k m) k' = (if k' = k then z else gm_getd z m k')"
  by (simp add: gm_getd_def)

lemma gm_getd_Nil [simp]: "gm_getd z [] k = z"
  by (simp add: gm_getd_def)

lemma gm_get_keys: "gm_get m k = Some v \<Longrightarrow> k \<in> set (gm_keys m)"
  by (force dest: map_of_SomeD)

lemma gm_keys_get: "k \<in> set (gm_keys m) \<Longrightarrow> \<exists>v. gm_get m k = Some v"
  by (metis domD dom_map_of_conv_image_fst list.set_map)

lemma gm_keys_iff: "k \<in> set (gm_keys m) \<longleftrightarrow> gm_get m k \<noteq> None"
  by (metis gm_get_keys gm_keys_get not_None_eq)

section \<open>Loops\<close>

text \<open>A \<open>range\<close> loop whose body updates a state and may panic.\<close>

fun range_loop :: "('a \<Rightarrow> 's \<Rightarrow> 's option) \<Rightarrow> 'a list \<Rightarrow> 's \<Rightarrow> 's option" where
  "range_loop f [] s = Some s"
| "range_loop f (x # xs) s = (case f x s of None \<Rightarrow> None | Some s' \<Rightarrow> range_loop f xs s')"

lemma range_loop_append:
  "range_loop f (xs @ ys) s = Option.bind (range_loop f xs s) (range_loop f ys)"
  by (induction xs arbitrary: s) (auto split: option.split)

lemma range_loop_inv:
  assumes "range_loop f xs s = Some s'" and "P s"
    and "\<And>x s s'. x \<in> set xs \<Longrightarrow> P s \<Longrightarrow> f x s = Some s' \<Longrightarrow> P s'"
  shows "P s'"
  using assms
proof (induction xs arbitrary: s)
  case (Cons x xs)
  then obtain s1 where s1: "f x s = Some s1" "range_loop f xs s1 = Some s'"
    by (auto split: option.splits)
  with Cons.prems have "P s1" by (metis list.set_intros(1))
  with Cons.IH [OF s1(2)] Cons.prems(3) show ?case by (metis list.set_intros(2))
qed simp

lemma range_loop_total:
  assumes "P s" and "\<And>x s. x \<in> set xs \<Longrightarrow> P s \<Longrightarrow> \<exists>s'. f x s = Some s' \<and> P s'"
  shows "\<exists>s'. range_loop f xs s = Some s' \<and> P s'"
  using assms
proof (induction xs arbitrary: s)
  case (Cons x xs)
  from Cons.prems(2) [of x] Cons.prems(1) obtain s1 where "f x s = Some s1" "P s1" by auto
  with Cons.IH [OF \<open>P s1\<close>] Cons.prems(2) show ?case by auto
qed simp

section \<open>\<open>sort.Search\<close>\<close>

text \<open>The binary search of Go's \<open>sort\<close> package, with its loop \<open>for i < j\<close>.\<close>

function sort_search_loop :: "(nat \<Rightarrow> bool) \<Rightarrow> nat \<Rightarrow> nat \<Rightarrow> nat" where
  "sort_search_loop f i j =
     (if i < j
      then (let h = (i + j) div 2
            in if \<not> f h then sort_search_loop f (h + 1) j else sort_search_loop f i h)
      else i)"
  by pat_completeness auto
termination
  by (relation "measure (\<lambda>(f, i, j). j - i)") auto

declare sort_search_loop.simps [simp del]

definition sort_Search :: "nat \<Rightarrow> (nat \<Rightarrow> bool) \<Rightarrow> nat" where
  "sort_Search n f = sort_search_loop f 0 n"

definition up_closed :: "nat \<Rightarrow> (nat \<Rightarrow> bool) \<Rightarrow> bool" where
  "up_closed n f \<longleftrightarrow> (\<forall>a b. a \<le> b \<longrightarrow> b < n \<longrightarrow> f a \<longrightarrow> f b)"

lemma sort_search_loop_spec:
  assumes "up_closed n f" and "i \<le> j" and "j \<le> n"
    and "\<forall>a < i. \<not> f a" and "\<forall>a. j \<le> a \<longrightarrow> a < n \<longrightarrow> f a"
  shows "i \<le> sort_search_loop f i j \<and> sort_search_loop f i j \<le> j
    \<and> (\<forall>a < sort_search_loop f i j. \<not> f a)
    \<and> (\<forall>a. sort_search_loop f i j \<le> a \<longrightarrow> a < n \<longrightarrow> f a)"
  using assms
proof (induction f i j rule: sort_search_loop.induct)
  case (1 f i j)
  show ?case
  proof (cases "i < j")
    case True
    define h where "h = (i + j) div 2"
    have h: "i \<le> h" "h < j" using True by (auto simp: h_def)
    show ?thesis
    proof (cases "f h")
      case fh: True
      have "sort_search_loop f i j = sort_search_loop f i h"
        using True fh by (subst sort_search_loop.simps) (simp add: h_def Let_def)
      moreover have "\<forall>a. h \<le> a \<longrightarrow> a < n \<longrightarrow> f a"
        using "1.prems"(1) fh by (auto simp: up_closed_def)
      ultimately show ?thesis
        using "1.IH"(2) [OF True h_def _ "1.prems"(1) h(1) _ "1.prems"(4)] fh h "1.prems"(3)
        by fastforce
    next
      case fh: False
      have "sort_search_loop f i j = sort_search_loop f (h + 1) j"
        using True fh by (subst sort_search_loop.simps) (simp add: h_def Let_def)
      moreover have "\<forall>a < h + 1. \<not> f a"
      proof (intro allI impI)
        fix a assume "a < h + 1"
        then have "a \<le> h" by simp
        with "1.prems"(1,3) fh h show "\<not> f a" by (auto simp: up_closed_def)
      qed
      ultimately show ?thesis
        using "1.IH"(1) [OF True h_def fh "1.prems"(1) _ "1.prems"(3) _ "1.prems"(5)] h
        by fastforce
    qed
  next
    case False
    then have "sort_search_loop f i j = i" by (subst sort_search_loop.simps) simp
    then show ?thesis using "1.prems" False by auto
  qed
qed

lemma sort_search_loop_cong:
  assumes "\<And>a. a < j \<Longrightarrow> f a = g a"
  shows "sort_search_loop f i j = sort_search_loop g i j"
  using assms
proof (induction f i j rule: sort_search_loop.induct)
  case (1 f i j)
  have "f ((i + j) div 2) = g ((i + j) div 2)" if "i < j"
    using "1.prems" that by auto
  with "1" show ?case
    by (simp add: sort_search_loop.simps [of f i j] sort_search_loop.simps [of g i j] Let_def)
qed

lemma sort_Search_spec:
  assumes "up_closed n f"
  shows "sort_Search n f \<le> n" and "a < sort_Search n f \<Longrightarrow> \<not> f a"
    and "sort_Search n f \<le> a \<Longrightarrow> a < n \<Longrightarrow> f a"
  using sort_search_loop_spec [of n f 0 n] assms by (auto simp: sort_Search_def)

text \<open>Searching a strictly increasing list for an element it holds finds its index.\<close>

lemma sort_Search_nth:
  assumes "sorted_wrt (<) (xs :: nat list)" and "i < length xs"
  shows "sort_Search (length xs) (\<lambda>k. xs ! i \<le> xs ! k) = i"
proof -
  let ?f = "\<lambda>k. xs ! i \<le> xs ! k"
  have less: "a < b \<Longrightarrow> b < length xs \<Longrightarrow> xs ! a < xs ! b" for a b
    using assms(1) by (auto simp: sorted_wrt_iff_nth_less)
  then have mono: "up_closed (length xs) ?f"
    unfolding up_closed_def by (metis le_neq_implies_less less_imp_le_nat order_trans)
  have "sort_Search (length xs) ?f \<le> i"
    using sort_Search_spec(2) [OF mono, of i] by (meson not_le order_refl)
  moreover have "\<not> sort_Search (length xs) ?f < i"
    using sort_Search_spec(3) [OF mono, of "sort_Search (length xs) ?f"] less [of _ i] assms(2)
    by (meson linorder_not_le order_less_trans order_refl)
  ultimately show ?thesis by simp
qed

section \<open>Bytes and hashes\<close>

text \<open>
  \<open>common.BytesToHash\<close>: the last 32 bytes, read big-endian, padded with zeroes on the left;
  \<open>hash_bytes\<close> is the slice \<open>h[:]\<close> of a hash.
\<close>

definition BytesToHash :: "bytes \<Rightarrow> hash" where
  "BytesToHash b = word_rcat (drop (length b - 32) b)"

definition hash_bytes :: "hash \<Rightarrow> bytes" where
  "hash_bytes h = map (\<lambda>i. ucast (drop_bit (8 * i) h)) (rev [0..<32])"

lemma length_hash_bytes [simp]: "length (hash_bytes h) = 32"
  by (simp add: hash_bytes_def)

lemma hash_bytes_BytesToHash [simp]:
  assumes "length b = 32"
  shows "hash_bytes (BytesToHash b) = b"
proof (rule nth_equalityI)
  show "length (hash_bytes (BytesToHash b)) = length b" using assms by simp
next
  fix i assume "i < length (hash_bytes (BytesToHash b))"
  then have i: "i < 32" by simp
  have "hash_bytes (BytesToHash b) ! i = ucast (drop_bit (8 * (31 - i)) (BytesToHash b))"
    using i by (simp add: hash_bytes_def rev_nth)
  also have "\<dots> = b ! i"
  proof (rule bit_word_eqI)
    fix n assume n: "n < LENGTH(8)"
    then have n: "n < 8" by simp
    have d: "(8 * (31 - i) + n) div 8 = 31 - i" "(8 * (31 - i) + n) mod 8 = n"
      using n by auto
    have lt: "8 * (31 - i) + n < 256" using i n by arith
    have "bit (BytesToHash b) (8 * (31 - i) + n) = bit (rev b ! (31 - i)) n"
      using assms lt d
      by (simp add: BytesToHash_def word_rcat_def bit_word_of_int_iff
          bit_horner_sum_uint_exp_iff [where 'a = 8, simplified])
    also have "rev b ! (31 - i) = b ! i"
      using assms i by (simp add: rev_nth)
    finally show "bit (ucast (drop_bit (8 * (31 - i)) (BytesToHash b)) :: u8) n = bit (b ! i) n"
      using n by (simp add: bit_ucast_iff bit_drop_bit_eq)
  qed
  finally show "hash_bytes (BytesToHash b) ! i = b ! i" .
qed

end
