(* ===== verification/Undo_Log.thy ===== *)
theory Undo_Log
  imports Go_Base
begin

text \<open>
  The change journal that \<open>core/state/journal.go\<close> and \<open>shard/mapping/load/journal.go\<close>
  both implement, and the contract it offers to a store that is built on it.

  The first section models the journal itself: its entries, the dirty counts, the
  backwards loop of \<open>journal.revert\<close> and the search for a revision in
  \<open>RevertToSnapshot\<close>. The second section states the interface between a store and its
  journal as three locales. \<open>undo_log\<close> says what undoing one entry has to respect;
  \<open>snapshot_store\<close> adds snapshots and the store's own operations; \<open>journalled_store\<close> adds
  the dirty counts. The lemmas proved in them, \<open>revert_restores\<close> and \<open>revert_dirties\<close>, are
  used twice, by the account state and by the load map.
\<close>

section \<open>The journal\<close>

record 'e journal =
  entries :: "'e list"
  dirties :: "(address, int) gomap"

definition newJournal :: "'e journal" where
  "newJournal = \<lparr>entries = [], dirties = []\<rparr>"

definition journal_dirty :: "address \<Rightarrow> 'e journal \<Rightarrow> 'e journal" where
  "journal_dirty addr j = j\<lparr>dirties := gm_set addr (gm_getd 0 (dirties j) addr + 1) (dirties j)\<rparr>"

text \<open>\<open>journal.append\<close>; \<open>dirtied\<close> is the entry's method of that name.\<close>

definition journal_append :: "('e \<Rightarrow> address option) \<Rightarrow> 'e \<Rightarrow> 'e journal \<Rightarrow> 'e journal" where
  "journal_append dirtied e j =
     (let j = j\<lparr>entries := entries j @ [e]\<rparr>
      in case dirtied e of None \<Rightarrow> j | Some addr \<Rightarrow> journal_dirty addr j)"

definition journal_length :: "'e journal \<Rightarrow> nat" where
  "journal_length j = length (entries j)"

text \<open>The second half of the loop body of \<open>journal.revert\<close>: drop the dirty tracking.\<close>

definition journal_undirty :: "('e \<Rightarrow> address option) \<Rightarrow> 'e \<Rightarrow> 'e journal \<Rightarrow> 'e journal" where
  "journal_undirty dirtied e j =
     (case dirtied e of
        None \<Rightarrow> j
      | Some addr \<Rightarrow>
          let c = gm_getd 0 (dirties j) addr - 1
          in j\<lparr>dirties := (if c = 0 then gm_del addr (dirties j) else gm_set addr c (dirties j))\<rparr>)"

text \<open>
  The loop of \<open>journal.revert\<close>, over the entries to undo, newest first. \<open>undo1\<close> is the
  loop body; a panic in an entry's \<open>revert\<close> method ends the loop.
\<close>

abbreviation undo_entries :: "('e \<Rightarrow> 's \<Rightarrow> 's option) \<Rightarrow> 'e list \<Rightarrow> 's \<Rightarrow> 's option" where
  "undo_entries undo1 es s \<equiv> range_loop undo1 es s"

text \<open>A \<open>revision\<close>, and the search for one by its identifier in \<open>RevertToSnapshot\<close>;
  \<open>None\<close> is the panic \<open>revision id cannot be reverted\<close>.\<close>

record revision =
  rev_id :: nat
  journalIndex :: nat

definition find_revision :: "revision list \<Rightarrow> nat \<Rightarrow> nat option" where
  "find_revision rs revid =
     (let idx = sort_Search (length rs) (\<lambda>i. revid \<le> rev_id (rs ! i))
      in if idx = length rs \<or> rev_id (rs ! idx) \<noteq> revid then None else Some idx)"

text \<open>The revisions a store keeps have increasing identifiers, all already handed out.\<close>

definition revisions_ok :: "revision list \<Rightarrow> nat \<Rightarrow> bool" where
  "revisions_ok rs n \<longleftrightarrow> sorted_wrt (<) (map rev_id rs) \<and> (\<forall>r \<in> set rs. rev_id r < n)"

lemma revisions_ok_Nil [simp]: "revisions_ok [] n"
  by (simp add: revisions_ok_def)

lemma revisions_ok_take: "revisions_ok rs n \<Longrightarrow> revisions_ok (take i rs) n"
  by (auto simp: revisions_ok_def take_map [symmetric] dest: in_set_takeD intro: sorted_wrt_take)

lemma entries_journal_dirty [simp]: "entries (journal_dirty a j) = entries j"
  by (simp add: journal_dirty_def)

lemma entries_journal_append [simp]: "entries (journal_append d e j) = entries j @ [e]"
  by (simp add: journal_append_def Let_def split: option.split)

lemma entries_journal_undirty [simp]: "entries (journal_undirty d e j) = entries j"
  by (simp add: journal_undirty_def Let_def split: option.split)

lemma entries_newJournal [simp]: "entries newJournal = []"
  by (simp add: newJournal_def)

text \<open>
  The dirty counts are exact outside a set of addresses when they say how often each address is
  dirtied by the entries, with no count of zero. Appending an entry keeps that, and so does
  taking the last entry away together with its count.
\<close>

definition dirties_match ::
    "('e \<Rightarrow> address option) \<Rightarrow> address set \<Rightarrow> 'e list \<Rightarrow> (address, int) gomap \<Rightarrow> bool" where
  "dirties_match dirtied X es m \<longleftrightarrow> (\<forall>a. a \<notin> X \<longrightarrow>
     gm_get m a = (let n = count_list (map dirtied es) (Some a) in if n = 0 then None else Some (int n)))"

abbreviation journal_exact :: "('e \<Rightarrow> address option) \<Rightarrow> address set \<Rightarrow> 'e journal \<Rightarrow> bool" where
  "journal_exact dirtied X j \<equiv> dirties_match dirtied X (entries j) (dirties j)"

lemma dirties_match_eq:
  "dirties_match d X es m \<Longrightarrow> dirties_match d X es m' \<Longrightarrow> a \<notin> X \<Longrightarrow> gm_get m a = gm_get m' a"
  by (simp add: dirties_match_def)

lemma journal_exact_empty [simp]: "dirties_match d X [] (dirties newJournal)"
  by (simp add: dirties_match_def newJournal_def)

lemma journal_exact_dirty: "journal_exact d X j \<Longrightarrow> a \<in> X \<Longrightarrow> journal_exact d X (journal_dirty a j)"
  by (auto simp: dirties_match_def journal_dirty_def)

lemma journal_exact_append [simp]:
  "journal_exact d X j \<Longrightarrow> dirties_match d X (entries j @ [e]) (dirties (journal_append d e j))"
  by (auto simp: dirties_match_def journal_append_def journal_dirty_def gm_getd_def Let_def split: option.split)

lemma dirties_match_undirty:
  assumes "dirties_match d X (es @ [e]) (dirties j)"
  shows "dirties_match d X es (dirties (journal_undirty d e j))"
  using assms
  by (auto simp: dirties_match_def journal_undirty_def gm_getd_def Let_def split: option.splits if_splits)

lemma find_revision_nth:
  assumes "sorted_wrt (<) (map rev_id rs)" and "i < length rs"
  shows "find_revision rs (rev_id (rs ! i)) = Some i"
proof -
  have "sort_Search (length rs) (\<lambda>k. rev_id (rs ! i) \<le> map rev_id rs ! k) = i"
    using sort_Search_nth [of "map rev_id rs" i] assms by simp
  moreover have "sort_Search (length rs) (\<lambda>k. rev_id (rs ! i) \<le> map rev_id rs ! k)
      = sort_Search (length rs) (\<lambda>k. rev_id (rs ! i) \<le> rev_id (rs ! k))"
    unfolding sort_Search_def using assms(2)
    by (intro sort_search_loop_cong) auto
  ultimately show ?thesis using assms(2) by (simp add: find_revision_def)
qed

section \<open>The contract between a store and its journal\<close>

text \<open>
  \<open>logged\<close>: the second state comes from the first by changes that the journal records,
  and undoing the new entries gives back a state that cannot be told from the first.
\<close>

definition logged ::
    "('e \<Rightarrow> 's \<Rightarrow> 's option) \<Rightarrow> ('s \<Rightarrow> 'e list) \<Rightarrow> ('s \<Rightarrow> 's \<Rightarrow> bool) \<Rightarrow> 's \<Rightarrow> 's \<Rightarrow> bool" where
  "logged undo1 log_of sim s s' \<longleftrightarrow>
     (\<exists>es t. log_of s' = log_of s @ es \<and> undo_entries undo1 (rev es) s' = Some t \<and> sim t s)"

text \<open>
  Runs of a store between a snapshot and the point where it is reverted or kept: its own
  operations, snapshots that are kept, and properly nested snapshots that are reverted,
  as the EVM nests its calls.
\<close>

inductive nested :: "('op \<Rightarrow> 's \<Rightarrow> 's option) \<Rightarrow> ('s \<Rightarrow> nat \<times> 's) \<Rightarrow> (nat \<Rightarrow> 's \<Rightarrow> 's option)
    \<Rightarrow> 's \<Rightarrow> 's \<Rightarrow> bool" for step snap revert where
  nested_refl: "nested step snap revert s s"
| nested_step: "nested step snap revert s t \<Longrightarrow> step x t = Some u \<Longrightarrow> nested step snap revert s u"
| nested_snap: "nested step snap revert s t \<Longrightarrow> snap t = (i, u) \<Longrightarrow> nested step snap revert s u"
| nested_revert: "nested step snap revert s t \<Longrightarrow> snap t = (i, u) \<Longrightarrow>
    nested step snap revert u v \<Longrightarrow> revert i v = Some w \<Longrightarrow> nested step snap revert s w"

locale undo_log =
  fixes undo1 :: "'e \<Rightarrow> 's \<Rightarrow> 's option"
    and log_of :: "'s \<Rightarrow> 'e list"
    and trunc :: "nat \<Rightarrow> 's \<Rightarrow> 's"
    and sim :: "'s \<Rightarrow> 's \<Rightarrow> bool"
    and inv :: "'s \<Rightarrow> bool"
  assumes sim_refl: "sim s s"
    and sim_sym: "sim s t \<Longrightarrow> sim t s"
    and sim_trans: "sim s t \<Longrightarrow> sim t u \<Longrightarrow> sim s u"
    and undo1_sim: "sim s t \<Longrightarrow> undo1 e s = Some s' \<Longrightarrow> \<exists>t'. undo1 e t = Some t' \<and> sim s' t'"
    and undo1_log: "undo1 e s = Some s' \<Longrightarrow> log_of s' = log_of s"
    and undo1_inv: "inv s \<Longrightarrow> e \<in> set (log_of s) \<Longrightarrow> undo1 e s = Some s' \<Longrightarrow> inv s'"
    and trunc_log: "log_of (trunc n s) = take n (log_of s)"
    and trunc_sim: "sim (trunc n s) s"
    and trunc_inv: "inv s \<Longrightarrow> inv (trunc n s)"
begin

lemma undo_entries_sim:
  "sim s t \<Longrightarrow> undo_entries undo1 es s = Some s' \<Longrightarrow>
    \<exists>t'. undo_entries undo1 es t = Some t' \<and> sim s' t'"
proof (induction es arbitrary: s t)
  case (Cons e es)
  then obtain s1 where s1: "undo1 e s = Some s1" "undo_entries undo1 es s1 = Some s'"
    by (auto split: option.splits)
  from undo1_sim [OF Cons.prems(1) s1(1)] obtain t1 where "undo1 e t = Some t1" "sim s1 t1"
    by blast
  with Cons.IH [OF _ s1(2)] show ?case by auto
qed simp

lemma undo_entries_log: "undo_entries undo1 es s = Some s' \<Longrightarrow> log_of s' = log_of s"
  by (induction es arbitrary: s) (auto split: option.splits dest: undo1_log)

lemma undo_entries_inv:
  "inv s \<Longrightarrow> set es \<subseteq> set (log_of s) \<Longrightarrow> undo_entries undo1 es s = Some s' \<Longrightarrow> inv s'"
proof (induction es arbitrary: s)
  case (Cons e es)
  then obtain s1 where s1: "undo1 e s = Some s1" "undo_entries undo1 es s1 = Some s'"
    by (auto split: option.splits)
  moreover have "inv s1" using undo1_inv s1(1) Cons.prems by auto
  moreover have "set es \<subseteq> set (log_of s1)" using undo1_log [OF s1(1)] Cons.prems(2) by simp
  ultimately show ?case by (blast intro: Cons.IH)
qed simp

lemma logged_refl: "logged undo1 log_of sim s s"
  unfolding logged_def using sim_refl by (intro exI [of _ "[]"]) auto

lemma logged_trans:
  assumes "logged undo1 log_of sim s t" and "logged undo1 log_of sim t u"
  shows "logged undo1 log_of sim s u"
proof -
  obtain es t' where es: "log_of t = log_of s @ es" "undo_entries undo1 (rev es) t = Some t'"
      "sim t' s" using assms(1) by (auto simp: logged_def)
  obtain fs u' where fs: "log_of u = log_of t @ fs" "undo_entries undo1 (rev fs) u = Some u'"
      "sim u' t" using assms(2) by (auto simp: logged_def)
  obtain v where "undo_entries undo1 (rev es) u' = Some v" "sim t' v"
    using undo_entries_sim [OF sim_sym [OF fs(3)] es(2)] by blast
  then have "undo_entries undo1 (rev (es @ fs)) u = Some v \<and> sim v s"
    using fs(2) es(3) by (auto simp: range_loop_append intro: sim_trans sim_sym)
  then show ?thesis using es(1) fs(1) by (auto simp: logged_def)
qed

lemma logged_silent: "sim t s \<Longrightarrow> log_of t = log_of s \<Longrightarrow> logged undo1 log_of sim s t"
  unfolding logged_def by (intro exI [of _ "[]"] exI [of _ t]) auto

lemma logged_revert:
  assumes "logged undo1 log_of sim s s'"
  obtains t where "undo_entries undo1 (rev (drop (length (log_of s)) (log_of s'))) s' = Some t"
    and "sim (trunc (length (log_of s)) t) s"
    and "log_of (trunc (length (log_of s)) t) = log_of s"
    and "inv s' \<Longrightarrow> inv (trunc (length (log_of s)) t)"
proof -
  obtain es t where es: "log_of s' = log_of s @ es" "undo_entries undo1 (rev es) s' = Some t"
      "sim t s" using assms by (auto simp: logged_def)
  show thesis
  proof (rule that)
    show "undo_entries undo1 (rev (drop (length (log_of s)) (log_of s'))) s' = Some t"
      using es by simp
    show "sim (trunc (length (log_of s)) t) s" using es(3) trunc_sim sim_trans by blast
    show "log_of (trunc (length (log_of s)) t) = log_of s"
      using undo_entries_log [OF es(2)] es(1) by (simp add: trunc_log)
    show "inv s' \<Longrightarrow> inv (trunc (length (log_of s)) t)"
      using undo_entries_inv [OF _ _ es(2)] es(1) by (simp add: trunc_inv)
  qed
qed

end

text \<open>A store with snapshots: the laws its operations, \<open>Snapshot\<close> and
  \<open>RevertToSnapshot\<close> obey.\<close>

locale snapshot_store = undo_log undo1 log_of trunc sim inv
  for undo1 :: "'e \<Rightarrow> 's \<Rightarrow> 's option" and log_of trunc sim inv +
  fixes revs :: "'s \<Rightarrow> revision list"
    and next_rev :: "'s \<Rightarrow> nat"
    and set_revs :: "revision list \<Rightarrow> 's \<Rightarrow> 's"
    and snap :: "'s \<Rightarrow> nat \<times> 's"
    and revert :: "nat \<Rightarrow> 's \<Rightarrow> 's option"
    and step :: "'op \<Rightarrow> 's \<Rightarrow> 's option"
  assumes undo1_revs: "undo1 e s = Some s' \<Longrightarrow> revs s' = revs s \<and> next_rev s' = next_rev s"
    and trunc_revs: "revs (trunc n s) = revs s \<and> next_rev (trunc n s) = next_rev s"
    and set_revs: "revs (set_revs rs s) = rs \<and> next_rev (set_revs rs s) = next_rev s \<and>
      log_of (set_revs rs s) = log_of s \<and> sim (set_revs rs s) s \<and> inv (set_revs rs s) = inv s"
    and snap_id: "fst (snap s) = next_rev s"
    and snap_revs: "revs (snd (snap s)) =
      revs s @ [\<lparr>rev_id = next_rev s, journalIndex = length (log_of s)\<rparr>]"
    and snap_next: "next_rev (snd (snap s)) = Suc (next_rev s)"
    and snap_log: "log_of (snd (snap s)) = log_of s"
    and snap_sim: "sim (snd (snap s)) s"
    and snap_inv: "inv s \<Longrightarrow> inv (snd (snap s))"
    and revert_eq: "revert i s = (case find_revision (revs s) i of None \<Rightarrow> None
      | Some idx \<Rightarrow> let n = journalIndex (revs s ! idx) in
          map_option (\<lambda>t. set_revs (take idx (revs s)) (trunc n t))
            (undo_entries undo1 (rev (drop n (log_of s))) s))"
    and step_inv: "inv s \<Longrightarrow> step x s = Some s' \<Longrightarrow> inv s'"
    and step_logged: "inv s \<Longrightarrow> step x s = Some s' \<Longrightarrow> logged undo1 log_of sim s s'"
    and step_revs: "inv s \<Longrightarrow> step x s = Some s' \<Longrightarrow> revs s' = revs s \<and> next_rev s' = next_rev s"
begin

abbreviation revs_ok :: "'s \<Rightarrow> bool" where
  "revs_ok s \<equiv> revisions_ok (revs s) (next_rev s)"

definition grown :: "'s \<Rightarrow> 's \<Rightarrow> bool" where
  "grown s t \<longleftrightarrow> inv t \<and> logged undo1 log_of sim s t \<and> revs_ok t
     \<and> (\<exists>rs. revs t = revs s @ rs) \<and> next_rev s \<le> next_rev t"

lemma undo_entries_revs:
  "undo_entries undo1 es s = Some s' \<Longrightarrow> revs s' = revs s \<and> next_rev s' = next_rev s"
  by (induction es arbitrary: s) (auto split: option.splits dest: undo1_revs)

lemma snap_revs_ok: "revs_ok s \<Longrightarrow> revs_ok (snd (snap s))"
  by (auto simp: revisions_ok_def snap_revs snap_next sorted_wrt_append less_Suc_eq)

lemma grown_snap: "inv s \<Longrightarrow> revs_ok s \<Longrightarrow> grown s (snd (snap s))"
  using snap_revs_ok [of s]
  by (simp add: grown_def snap_inv snap_revs snap_next logged_silent snap_sim snap_log)

text \<open>Reverting to the snapshot that a run started from.\<close>

lemma revert_grown:
  assumes "grown (snd (snap s)) v"
  obtains w where "revert (fst (snap s)) v = Some w" and "sim w s" and "log_of w = log_of s"
    and "revs w = revs s" and "next_rev w = next_rev v" and "inv w"
proof -
  let ?u = "snd (snap s)"
  obtain rs where rs: "revs v = revs s @ \<lparr>rev_id = next_rev s, journalIndex = length (log_of s)\<rparr> # rs"
    using assms by (auto simp: grown_def snap_revs)
  have "find_revision (revs v) (rev_id (revs v ! length (revs s))) = Some (length (revs s))"
    using assms by (intro find_revision_nth) (auto simp: grown_def revisions_ok_def rs)
  then have found: "find_revision (revs v) (fst (snap s)) = Some (length (revs s))"
    by (simp add: rs snap_id)
  obtain t where t: "undo_entries undo1 (rev (drop (length (log_of s)) (log_of v))) v = Some t"
      "sim (trunc (length (log_of s)) t) ?u" "log_of (trunc (length (log_of s)) t) = log_of s"
      "inv (trunc (length (log_of s)) t)"
    using assms logged_revert [of ?u v] by (auto simp: grown_def snap_log)
  let ?w = "set_revs (revs s) (trunc (length (log_of s)) t)"
  show thesis
  proof (rule that)
    show "revert (fst (snap s)) v = Some ?w"
      using found t(1) by (simp add: revert_eq rs)
    show "sim ?w s" using t(2) set_revs snap_sim sim_trans by blast
    show "log_of ?w = log_of s" "revs ?w = revs s" "inv ?w" using t(3,4) set_revs by auto
    show "next_rev ?w = next_rev v" using set_revs trunc_revs undo_entries_revs [OF t(1)] by auto
  qed
qed

text \<open>Reverting to any valid revision keeps the invariant, nested properly or not.\<close>

lemma revert_inv:
  assumes "inv s" and "revs_ok s" and "revert i s = Some s'"
  shows "inv s' \<and> revs_ok s'"
proof -
  from assms(3) obtain idx n t where "s' = set_revs (take idx (revs s)) (trunc n t)"
      and t: "undo_entries undo1 (rev (drop n (log_of s))) s = Some t"
    by (auto simp: revert_eq Let_def split: option.splits)
  moreover have "inv t" using undo_entries_inv [OF assms(1) _ t] by (auto dest: in_set_dropD)
  ultimately show ?thesis
    using assms(2) set_revs trunc_inv trunc_revs undo_entries_revs [OF t]
    by (simp add: revisions_ok_take)
qed

lemma nested_grown:
  "nested step snap revert s t \<Longrightarrow> inv s \<Longrightarrow> revs_ok s \<Longrightarrow> grown s t"
proof (induction rule: nested.induct)
  case (nested_refl s)
  then show ?case by (simp add: grown_def logged_refl)
next
  case (nested_step s t x u)
  then have t: "grown s t" by simp
  then show ?case
    using step_inv step_logged step_revs nested_step.hyps(2)
    by (auto simp: grown_def revisions_ok_def intro: logged_trans)
next
  case (nested_snap s t i u)
  then have t: "grown s t" by simp
  then have "grown t u" using grown_snap [of t] nested_snap.hyps(2) by (auto simp: grown_def)
  with t show ?case by (auto simp: grown_def intro: logged_trans)
next
  case (nested_revert s t i u v w)
  then have t: "grown s t" by simp
  then have "inv u" "revs_ok u"
    using nested_revert.hyps(2) snap_inv [of t] snap_revs_ok [of t] by (auto simp: grown_def)
  then have "grown (snd (snap t)) v" using nested_revert.IH(2) nested_revert.hyps(2) by simp
  from revert_grown [OF this] obtain w' where w': "revert (fst (snap t)) v = Some w'"
      "sim w' t" "log_of w' = log_of t" "revs w' = revs t" "next_rev w' = next_rev v" "inv w'"
    by blast
  have "w' = w" using w'(1) nested_revert.hyps(2,4) by simp
  moreover have "next_rev t \<le> next_rev v"
    using \<open>grown (snd (snap t)) v\<close> snap_next [of t] by (simp add: grown_def)
  ultimately show ?case
    using t w'(2-6) logged_silent [of w' t]
    by (fastforce simp: grown_def revisions_ok_def intro: logged_trans)
qed

theorem revert_restores:
  assumes "inv s" and "revs_ok s" and "snap s = (i, u)" and "nested step snap revert u v"
  shows "\<exists>w. revert i v = Some w \<and> sim w s \<and> log_of w = log_of s \<and> revs w = revs s \<and> inv w"
proof -
  have "grown (snd (snap s)) v"
    using nested_grown [of u v] assms snap_inv [of s] snap_revs_ok [of s] by auto
  from revert_grown [OF this] assms(3) show ?thesis by auto
qed

end

text \<open>A store that counts the dirty addresses in its journal: what the counts have to obey so
  that reverting gives them back, outside a set of addresses that the store dirties by hand.\<close>

locale journalled_store = snapshot_store undo1 log_of trunc sim inv revs next_rev set_revs snap revert step
  for undo1 :: "'e \<Rightarrow> 's \<Rightarrow> 's option" and log_of trunc sim inv revs next_rev set_revs snap revert
    and step :: "'op \<Rightarrow> 's \<Rightarrow> 's option" +
  fixes journal_of :: "'s \<Rightarrow> 'e journal"
    and dirtied :: "'e \<Rightarrow> address option"
    and by_hand :: "address set"
  assumes log_journal: "log_of s = entries (journal_of s)"
    and undo1_dirties: "undo1 e s = Some s' \<Longrightarrow>
      dirties (journal_of s') = dirties (journal_undirty dirtied e (journal_of s))"
    and trunc_dirties: "dirties (journal_of (trunc n s)) = dirties (journal_of s)"
    and set_revs_dirties: "dirties (journal_of (set_revs rs s)) = dirties (journal_of s)"
    and snap_dirties: "dirties (journal_of (snd (snap s))) = dirties (journal_of s)"
    and step_exact: "inv s \<Longrightarrow> journal_exact dirtied by_hand (journal_of s) \<Longrightarrow> step x s = Some s' \<Longrightarrow>
      journal_exact dirtied by_hand (journal_of s')"
begin

abbreviation exact :: "'s \<Rightarrow> bool" where
  "exact s \<equiv> journal_exact dirtied by_hand (journal_of s)"

lemma undo_entries_match:
  "undo_entries undo1 (rev fs) s = Some t \<Longrightarrow> dirties_match dirtied by_hand (es @ fs) (dirties (journal_of s)) \<Longrightarrow>
    dirties_match dirtied by_hand es (dirties (journal_of t))"
proof (induction fs arbitrary: s rule: rev_induct)
  case (snoc e fs)
  then obtain u where u: "undo1 e s = Some u" "undo_entries undo1 (rev fs) u = Some t"
    by (auto split: option.splits)
  have "dirties_match dirtied by_hand (es @ fs) (dirties (journal_of u))"
    using dirties_match_undirty [of dirtied by_hand "es @ fs" e "journal_of s"] snoc.prems(2) undo1_dirties [OF u(1)]
    by simp
  with snoc.IH [OF u(2)] show ?case .
qed simp

lemma revert_exact:
  assumes "exact s" and "revert i s = Some s'"
  shows "exact s'"
proof -
  from assms(2) obtain idx n t where s': "s' = set_revs (take idx (revs s)) (trunc n t)"
      and t: "undo_entries undo1 (rev (drop n (log_of s))) s = Some t"
    by (auto simp: revert_eq Let_def split: option.splits)
  have "dirties_match dirtied by_hand (take n (log_of s)) (dirties (journal_of t))"
    using undo_entries_match [OF t, of "take n (log_of s)"] assms(1) by (simp add: log_journal)
  moreover have "entries (journal_of s') = take n (log_of s)"
    using set_revs trunc_log undo_entries_log [OF t] unfolding s' log_journal [symmetric] by metis
  ultimately show ?thesis by (simp add: s' set_revs_dirties trunc_dirties)
qed

lemma snap_exact: "exact s \<Longrightarrow> exact (snd (snap s))"
  using snap_log [of s] by (simp add: log_journal snap_dirties)

lemma nested_exact:
  "nested step snap revert s t \<Longrightarrow> inv s \<Longrightarrow> revs_ok s \<Longrightarrow> exact s \<Longrightarrow> exact t"
proof (induction rule: nested.induct)
  case (nested_step s t x u)
  then show ?case using step_exact nested_grown [OF nested_step.hyps(1)] by (auto simp: grown_def)
next
  case (nested_snap s t i u)
  then show ?case using snap_exact [of t] by auto
next
  case (nested_revert s t i u v w)
  have t: "exact t" "inv t" "revs_ok t"
    using nested_revert nested_grown [OF nested_revert.hyps(1)] by (auto simp: grown_def)
  then have "exact u" "inv u" "revs_ok u"
    using nested_revert.hyps(2) snap_exact [of t] snap_inv [of t] snap_revs_ok [of t] by auto
  then have "exact v" using nested_revert.IH(2) by simp
  then show ?case using revert_exact nested_revert.hyps(4) by blast
qed

theorem revert_dirties:
  assumes "inv s" and "revs_ok s" and "exact s" and "snap s = (i, u)" and "nested step snap revert u v"
    and "revert i v = Some w" and "a \<notin> by_hand"
  shows "gm_get (dirties (journal_of w)) a = gm_get (dirties (journal_of s)) a"
proof -
  have "exact u" "inv u" "revs_ok u"
    using assms(1-4) snap_exact [of s] snap_inv [of s] snap_revs_ok [of s] by auto
  then have "exact w" using revert_exact [OF nested_exact [OF assms(5)] assms(6)] by blast
  moreover have "log_of w = log_of s" using revert_restores [OF assms(1,2,4,5)] assms(6) by auto
  ultimately show ?thesis using dirties_match_eq assms(3,7) by (metis log_journal)
qed

end

end
