(* ===== verification/Trie_Env.thy ===== *)
theory Trie_Env
  imports Undo_Log
begin

text \<open>
  The interface \<open>Trie\<close> and the part of the interface \<open>Database\<close> of
  \<open>core/state/database.go\<close> that the account state and the load map call, as a record of
  functions, and \<open>types.Log\<close>. The implementation behind the interface is go-ethereum's
  trie package and the key-value database below it, which are not part of the repository:
  every operation takes the record as its first argument.

  \<open>'d\<close> is the database handle and \<open>'tr\<close> a trie. \<open>CopyTrie\<close> has no field, because tries
  are values here: a trie that is updated is a new value and the old one is kept.
  The slices \<open>addr[:]\<close> and \<open>key[:]\<close> that the code passes as keys are the address and
  the hash themselves.
\<close>

record ('d, 'tr) trie_env =
  OpenTrie :: "'d \<Rightarrow> hash \<Rightarrow> error + 'tr"
  TryGet :: "'tr \<Rightarrow> address \<Rightarrow> bytes \<times> error option"
  TryUpdate :: "'tr \<Rightarrow> address \<Rightarrow> bytes \<Rightarrow> error option \<times> 'tr"
  TryDelete :: "'tr \<Rightarrow> address \<Rightarrow> error option \<times> 'tr"
  TrieHash :: "'tr \<Rightarrow> hash"
  TrieCommit :: "'tr \<Rightarrow> (bytes \<Rightarrow> hash \<Rightarrow> 'd \<Rightarrow> 'd) \<Rightarrow> 'd \<Rightarrow> (hash \<times> error option) \<times> 'tr \<times> 'd"
  Keccak256Address :: "address \<Rightarrow> hash"

text \<open>What the code relies on when it reads an account trie back: the documented behaviour
  of \<open>TryGet\<close>, \<open>TryUpdate\<close> and \<open>TryDelete\<close> when no node is missing.\<close>

definition trie_stores :: "('d, 'tr, 'z) trie_env_scheme \<Rightarrow> bool" where
  "trie_stores E \<longleftrightarrow>
     (\<forall>t k v t'. TryUpdate E t k v = (None, t') \<longrightarrow> v \<noteq> [] \<longrightarrow>
        (\<forall>k'. TryGet E t' k' = (if k' = k then (v, None) else TryGet E t k')))
   \<and> (\<forall>t k t'. TryDelete E t k = (None, t') \<longrightarrow>
        (\<forall>k'. TryGet E t' k' = (if k' = k then ([], None) else TryGet E t k')))"

definition trie_total :: "('d, 'tr, 'z) trie_env_scheme \<Rightarrow> bool" where
  "trie_total E \<longleftrightarrow> (\<forall>t k v. fst (TryUpdate E t k v) = None \<and> fst (TryDelete E t k) = None)"

record Log =
  log_Address :: address
  log_Topics :: "hash list"
  log_Data :: bytes
  log_BlockNumber :: u64
  log_TxHash :: hash
  log_TxIndex :: u64
  log_BlockHash :: hash
  log_Index :: u64
  log_Removed :: bool

end
