(* ===== verification/Load_Map.thy ===== *)
theory Load_Map
  imports Trie_Env
begin

text \<open>
  The load map, \<open>shard/mapping/load\<close>: which shard an address has been moved to. It is a
  cache of objects over a trie, with a journal, snapshots, finalisation and commit, and a
  stripped copy of the account state's database.

  Objects are values. The Go code holds pointers, but an object is reachable only through
  the map \<open>loadMapObjects\<close> under its own address, or from a journal entry
  \<open>resetObjectChange\<close> after it was replaced in that map, when nothing writes it any more.
\<close>

section \<open>Objects (\<open>load_map.go\<close>)\<close>

record MapAccount =
  TargetShardID :: u32

record loadMapObject =
  lo_address :: address
  lo_addrHash :: hash
  lo_data :: MapAccount
  lo_suicided :: bool
  lo_deleted :: bool

definition IniShardID :: u32 where
  "IniShardID = 5001"

text \<open>The environment of the load map: the trie, and the RLP encoding of an object and
  decoding of an account, which the go-ethereum \<open>rlp\<close> package derives from the types.\<close>

record ('d, 'tr) lm_env = "('d, 'tr) trie_env" +
  EncodeLoadMapObject :: "loadMapObject \<Rightarrow> error + bytes"
  DecodeMapAccount :: "bytes \<Rightarrow> error + MapAccount"

definition lm_newObject :: "('d, 'tr) lm_env \<Rightarrow> address \<Rightarrow> MapAccount \<Rightarrow> loadMapObject" where
  "lm_newObject E addr data =
     (let data = data\<lparr>TargetShardID := IniShardID\<rparr>
      in \<lparr>lo_address = addr, lo_addrHash = Keccak256Address E addr, lo_data = data,
          lo_suicided = False, lo_deleted = False\<rparr>)"

definition lo_setTargetShardID :: "u32 \<Rightarrow> loadMapObject \<Rightarrow> loadMapObject" where
  "lo_setTargetShardID i l = l\<lparr>lo_data := (lo_data l)\<lparr>TargetShardID := i\<rparr>\<rparr>"

definition lo_TargetShardID :: "loadMapObject \<Rightarrow> u32" where
  "lo_TargetShardID l = TargetShardID (lo_data l)"

definition lo_empty :: "loadMapObject \<Rightarrow> bool" where
  "lo_empty l \<longleftrightarrow> TargetShardID (lo_data l) = IniShardID"

definition lo_markSuicided :: "loadMapObject \<Rightarrow> loadMapObject" where
  "lo_markSuicided l = l\<lparr>lo_suicided := True\<rparr>"

definition lo_deepCopy :: "('d, 'tr) lm_env \<Rightarrow> loadMapObject \<Rightarrow> loadMapObject" where
  "lo_deepCopy E l =
     (lm_newObject E (lo_address l) (lo_data l))
       \<lparr>lo_suicided := lo_suicided l, lo_deleted := lo_deleted l\<rparr>"

section \<open>Journal entries (\<open>journal.go\<close>)\<close>

datatype lm_entry =
    lm_createObjectChange address
  | lm_resetObjectChange loadMapObject
  | lm_suicideChange address bool u32
  | lm_targetShardIDChange address u32
  | lm_addLogChange hash

fun lm_dirtied :: "lm_entry \<Rightarrow> address option" where
  "lm_dirtied (lm_createObjectChange a) = Some a"
| "lm_dirtied (lm_resetObjectChange _) = None"
| "lm_dirtied (lm_suicideChange a _ _) = Some a"
| "lm_dirtied (lm_targetShardIDChange a _) = Some a"
| "lm_dirtied (lm_addLogChange _) = None"

section \<open>The database (\<open>load_map_db.go\<close>)\<close>

record ('d, 'tr) LoadMapDB =
  lm_db :: 'd
  lm_trie :: 'tr
  loadMapObjects :: "(address, loadMapObject) gomap"
  loadMapObjectsPending :: "address list"
  loadMapObjectsDirty :: "address list"
  lm_dbErr :: "error option"
  lm_refund :: u64
  lm_thash :: hash
  lm_bhash :: hash
  lm_rhash :: hash
  lm_txIndex :: int
  lm_logs :: "(hash, Log list) gomap"
  lm_logSize :: u64
  lm_journal :: "lm_entry journal"
  lm_validRevisions :: "revision list"
  lm_nextRevisionId :: nat

definition lm_New :: "('d, 'tr) lm_env \<Rightarrow> hash \<Rightarrow> 'd \<Rightarrow> error + ('d, 'tr) LoadMapDB" where
  "lm_New E root db =
     (case OpenTrie E db root of
        Inl err \<Rightarrow> Inl err
      | Inr tr \<Rightarrow> Inr \<lparr>lm_db = db, lm_trie = tr, loadMapObjects = [],
          loadMapObjectsPending = [], loadMapObjectsDirty = [], lm_dbErr = None, lm_refund = 0,
          lm_thash = 0, lm_bhash = 0, lm_rhash = 0, lm_txIndex = 0, lm_logs = [], lm_logSize = 0,
          lm_journal = newJournal, lm_validRevisions = [], lm_nextRevisionId = 0\<rparr>)"

definition lm_append :: "lm_entry \<Rightarrow> ('d, 'tr) LoadMapDB \<Rightarrow> ('d, 'tr) LoadMapDB" where
  "lm_append e l = l\<lparr>lm_journal := journal_append lm_dirtied e (lm_journal l)\<rparr>"

definition lm_setError :: "error option \<Rightarrow> ('d, 'tr) LoadMapDB \<Rightarrow> ('d, 'tr) LoadMapDB" where
  "lm_setError err l = (if lm_dbErr l = None then l\<lparr>lm_dbErr := err\<rparr> else l)"

definition lm_setLoadMapObject ::
    "loadMapObject \<Rightarrow> ('d, 'tr) LoadMapDB \<Rightarrow> ('d, 'tr) LoadMapDB" where
  "lm_setLoadMapObject ob l = l\<lparr>loadMapObjects := gm_set (lo_address ob) ob (loadMapObjects l)\<rparr>"

text \<open>A method call that writes the object at \<open>addr\<close>, through the pointer held in the map.\<close>

definition lm_write ::
    "address \<Rightarrow> (loadMapObject \<Rightarrow> loadMapObject) \<Rightarrow> ('d, 'tr) LoadMapDB \<Rightarrow> ('d, 'tr) LoadMapDB" where
  "lm_write addr f l = (case gm_get (loadMapObjects l) addr of
      None \<Rightarrow> l
    | Some ob \<Rightarrow> l\<lparr>loadMapObjects := gm_set addr (f ob) (loadMapObjects l)\<rparr>)"

definition lm_getDeletedLoadMapObject ::
    "('d, 'tr) lm_env \<Rightarrow> address \<Rightarrow> ('d, 'tr) LoadMapDB \<Rightarrow>
      loadMapObject option \<times> ('d, 'tr) LoadMapDB" where
  "lm_getDeletedLoadMapObject E addr l =
     (case gm_get (loadMapObjects l) addr of
        Some ob \<Rightarrow> (Some ob, l)
      | None \<Rightarrow>
          (case TryGet E (lm_trie l) addr of
             (_, Some err) \<Rightarrow> (None, lm_setError (Some (''getDeletedLoadMapObject: '' @ err)) l)
           | (enc, None) \<Rightarrow>
               if enc = [] then (None, l)
               else case DecodeMapAccount E enc of
                 Inl err \<Rightarrow> (None, l)
               | Inr data \<Rightarrow>
                   let ob = lm_newObject E addr data
                   in (Some ob, lm_setLoadMapObject ob l)))"

definition lm_getLoadMapObject ::
    "('d, 'tr) lm_env \<Rightarrow> address \<Rightarrow> ('d, 'tr) LoadMapDB \<Rightarrow>
      loadMapObject option \<times> ('d, 'tr) LoadMapDB" where
  "lm_getLoadMapObject E addr l =
     (case lm_getDeletedLoadMapObject E addr l of
        (Some ob, l') \<Rightarrow> (if \<not> lo_deleted ob then Some ob else None, l')
      | (None, l') \<Rightarrow> (None, l'))"

definition lm_createObject ::
    "('d, 'tr) lm_env \<Rightarrow> address \<Rightarrow> ('d, 'tr) LoadMapDB \<Rightarrow>
      (loadMapObject \<times> loadMapObject option) \<times> ('d, 'tr) LoadMapDB" where
  "lm_createObject E addr l =
     (let (prev, l) = lm_getDeletedLoadMapObject E addr l;
          newobj = lo_setTargetShardID IniShardID (lm_newObject E addr \<lparr>TargetShardID = 0\<rparr>);
          l = (case prev of
                 None \<Rightarrow> lm_append (lm_createObjectChange addr) l
               | Some p \<Rightarrow> lm_append (lm_resetObjectChange p) l)
      in ((newobj, prev), lm_setLoadMapObject newobj l))"

definition lm_CreateMapAccount ::
    "('d, 'tr) lm_env \<Rightarrow> address \<Rightarrow> ('d, 'tr) LoadMapDB \<Rightarrow> ('d, 'tr) LoadMapDB" where
  "lm_CreateMapAccount E addr l =
     (let ((newObj, prev), l) = lm_createObject E addr l
      in case prev of
           None \<Rightarrow> l
         | Some p \<Rightarrow> lm_write addr (lo_setTargetShardID (TargetShardID (lo_data p))) l)"

definition lm_GetOrNewLoadMapObject ::
    "('d, 'tr) lm_env \<Rightarrow> address \<Rightarrow> ('d, 'tr) LoadMapDB \<Rightarrow>
      loadMapObject \<times> ('d, 'tr) LoadMapDB" where
  "lm_GetOrNewLoadMapObject E addr l =
     (case lm_getLoadMapObject E addr l of
        (Some ob, l) \<Rightarrow> (ob, l)
      | (None, l) \<Rightarrow> let ((ob, _), l) = lm_createObject E addr l in (ob, l))"

text \<open>The object's method \<open>SetTargetShardID\<close>: journal the old value, then write.\<close>

definition lo_SetTargetShardID ::
    "loadMapObject \<Rightarrow> u32 \<Rightarrow> ('d, 'tr) LoadMapDB \<Rightarrow> ('d, 'tr) LoadMapDB" where
  "lo_SetTargetShardID ob i l =
     lm_write (lo_address ob) (lo_setTargetShardID i)
       (lm_append (lm_targetShardIDChange (lo_address ob) (TargetShardID (lo_data ob))) l)"

definition lm_SetTargetShardID ::
    "('d, 'tr) lm_env \<Rightarrow> address \<Rightarrow> u32 \<Rightarrow> ('d, 'tr) LoadMapDB \<Rightarrow> ('d, 'tr) LoadMapDB" where
  "lm_SetTargetShardID E addr i l =
     (let (ob, l) = lm_GetOrNewLoadMapObject E addr l in lo_SetTargetShardID ob i l)"

definition lm_Suicide ::
    "('d, 'tr) lm_env \<Rightarrow> address \<Rightarrow> ('d, 'tr) LoadMapDB \<Rightarrow> bool \<times> ('d, 'tr) LoadMapDB" where
  "lm_Suicide E addr l =
     (case lm_getLoadMapObject E addr l of
        (None, l) \<Rightarrow> (False, l)
      | (Some ob, l) \<Rightarrow>
          (True, lm_write addr (\<lambda>ob. lo_setTargetShardID IniShardID (lo_markSuicided ob))
             (lm_append (lm_suicideChange addr (lo_suicided ob) (lo_TargetShardID ob)) l)))"

definition lm_Exist :: "('d, 'tr) lm_env \<Rightarrow> address \<Rightarrow> ('d, 'tr) LoadMapDB \<Rightarrow> bool \<times> ('d, 'tr) LoadMapDB" where
  "lm_Exist E addr l = (case lm_getLoadMapObject E addr l of (ob, l) \<Rightarrow> (ob \<noteq> None, l))"

definition lm_Empty :: "('d, 'tr) lm_env \<Rightarrow> address \<Rightarrow> ('d, 'tr) LoadMapDB \<Rightarrow> bool \<times> ('d, 'tr) LoadMapDB" where
  "lm_Empty E addr l =
     (case lm_getLoadMapObject E addr l of
        (None, l) \<Rightarrow> (True, l) | (Some so, l) \<Rightarrow> (lo_empty so, l))"

definition lm_GetTargetShardID ::
    "('d, 'tr) lm_env \<Rightarrow> address \<Rightarrow> ('d, 'tr) LoadMapDB \<Rightarrow> u32 \<times> ('d, 'tr) LoadMapDB" where
  "lm_GetTargetShardID E addr l =
     (case lm_getLoadMapObject E addr l of
        (Some ob, l) \<Rightarrow> (lo_TargetShardID ob, l) | (None, l) \<Rightarrow> (IniShardID, l))"

definition lm_AddLog :: "Log \<Rightarrow> ('d, 'tr) LoadMapDB \<Rightarrow> ('d, 'tr) LoadMapDB" where
  "lm_AddLog lg l =
     (let l = lm_append (lm_addLogChange (lm_thash l)) l;
          lg = lg\<lparr>log_TxHash := lm_thash l, log_BlockHash := lm_bhash l,
                  log_TxIndex := word_of_int (lm_txIndex l), log_Index := lm_logSize l\<rparr>
      in l\<lparr>lm_logs := gm_set (lm_thash l) (gm_getd [] (lm_logs l) (lm_thash l) @ [lg]) (lm_logs l),
           lm_logSize := lm_logSize l + 1\<rparr>)"

definition lm_GetLogs :: "hash \<Rightarrow> ('d, 'tr) LoadMapDB \<Rightarrow> Log list" where
  "lm_GetLogs h l = gm_getd [] (lm_logs l) h"

definition lm_Logs :: "('d, 'tr) LoadMapDB \<Rightarrow> Log list" where
  "lm_Logs l = concat (map snd (lm_logs l))"

subsection \<open>Undoing\<close>

text \<open>The \<open>revert\<close> methods of the journal entries. Undoing \<open>targetShardIDChange\<close>
  dereferences the object, which panics when there is none.\<close>

fun lm_revert_entry ::
    "('d, 'tr) lm_env \<Rightarrow> lm_entry \<Rightarrow> ('d, 'tr) LoadMapDB \<Rightarrow> ('d, 'tr) LoadMapDB option" where
  "lm_revert_entry E (lm_createObjectChange a) l =
     Some (l\<lparr>loadMapObjects := gm_del a (loadMapObjects l),
             loadMapObjectsDirty := gs_del a (loadMapObjectsDirty l)\<rparr>)"
| "lm_revert_entry E (lm_resetObjectChange prev) l = Some (lm_setLoadMapObject prev l)"
| "lm_revert_entry E (lm_suicideChange a prev previd) l =
     (case lm_getLoadMapObject E a l of
        (None, l) \<Rightarrow> Some l
      | (Some _, l) \<Rightarrow>
          Some (lm_write a (\<lambda>ob. lo_setTargetShardID previd (ob\<lparr>lo_suicided := prev\<rparr>)) l))"
| "lm_revert_entry E (lm_targetShardIDChange a prev) l =
     (case lm_getLoadMapObject E a l of
        (None, l) \<Rightarrow> None
      | (Some _, l) \<Rightarrow> Some (lm_write a (lo_setTargetShardID prev) l))"
| "lm_revert_entry E (lm_addLogChange h) l =
     (let logs = gm_getd [] (lm_logs l) h
      in if length logs = 1
         then Some (l\<lparr>lm_logs := gm_del h (lm_logs l), lm_logSize := lm_logSize l - 1\<rparr>)
         else if logs = [] then None
         else Some (l\<lparr>lm_logs := gm_set h (butlast logs) (lm_logs l), lm_logSize := lm_logSize l - 1\<rparr>))"

definition lm_undo1 ::
    "('d, 'tr) lm_env \<Rightarrow> lm_entry \<Rightarrow> ('d, 'tr) LoadMapDB \<Rightarrow> ('d, 'tr) LoadMapDB option" where
  "lm_undo1 E e l =
     map_option (\<lambda>l. l\<lparr>lm_journal := journal_undirty lm_dirtied e (lm_journal l)\<rparr>)
       (lm_revert_entry E e l)"

definition lm_truncate :: "nat \<Rightarrow> ('d, 'tr) LoadMapDB \<Rightarrow> ('d, 'tr) LoadMapDB" where
  "lm_truncate n l = l\<lparr>lm_journal := (lm_journal l)\<lparr>entries := take n (entries (lm_journal l))\<rparr>\<rparr>"

definition lm_journal_revert ::
    "('d, 'tr) lm_env \<Rightarrow> nat \<Rightarrow> ('d, 'tr) LoadMapDB \<Rightarrow> ('d, 'tr) LoadMapDB option" where
  "lm_journal_revert E n l =
     map_option (lm_truncate n)
       (undo_entries (lm_undo1 E) (rev (drop n (entries (lm_journal l)))) l)"

definition lm_Snapshot :: "('d, 'tr) LoadMapDB \<Rightarrow> nat \<times> ('d, 'tr) LoadMapDB" where
  "lm_Snapshot l =
     (let i = lm_nextRevisionId l
      in (i, l\<lparr>lm_nextRevisionId := i + 1,
               lm_validRevisions := lm_validRevisions l
                 @ [\<lparr>rev_id = i, journalIndex = journal_length (lm_journal l)\<rparr>]\<rparr>))"

definition lm_set_revisions ::
    "revision list \<Rightarrow> ('d, 'tr) LoadMapDB \<Rightarrow> ('d, 'tr) LoadMapDB" where
  "lm_set_revisions rs l = l\<lparr>lm_validRevisions := rs\<rparr>"

definition lm_RevertToSnapshot ::
    "('d, 'tr) lm_env \<Rightarrow> nat \<Rightarrow> ('d, 'tr) LoadMapDB \<Rightarrow> ('d, 'tr) LoadMapDB option" where
  "lm_RevertToSnapshot E revid l =
     (case find_revision (lm_validRevisions l) revid of
        None \<Rightarrow> None
      | Some idx \<Rightarrow>
          let snapshot = journalIndex (lm_validRevisions l ! idx)
          in map_option (lm_set_revisions (take idx (lm_validRevisions l)))
               (lm_journal_revert E snapshot l))"

subsection \<open>Finalising and committing\<close>

definition lm_clearJournalAndRefund :: "('d, 'tr) LoadMapDB \<Rightarrow> ('d, 'tr) LoadMapDB" where
  "lm_clearJournalAndRefund l =
     (let l = (if entries (lm_journal l) \<noteq> [] then l\<lparr>lm_journal := newJournal, lm_refund := 0\<rparr> else l)
      in l\<lparr>lm_validRevisions := []\<rparr>)"

text \<open>The loop body of \<open>Finalise\<close> for one dirty address.\<close>

definition lm_finalise1 ::
    "bool \<Rightarrow> address \<Rightarrow> ('d, 'tr) LoadMapDB \<Rightarrow> ('d, 'tr) LoadMapDB" where
  "lm_finalise1 deleteEmptyObjects addr l =
     (case gm_get (loadMapObjects l) addr of
        None \<Rightarrow> l
      | Some ob \<Rightarrow>
          let l = (if lo_suicided ob \<or> (deleteEmptyObjects \<and> lo_empty ob)
                   then lm_write addr (\<lambda>ob. ob\<lparr>lo_deleted := True\<rparr>) l else l)
          in l\<lparr>loadMapObjectsPending := gs_add addr (loadMapObjectsPending l),
               loadMapObjectsDirty := gs_add addr (loadMapObjectsDirty l)\<rparr>)"

definition lm_Finalise :: "bool \<Rightarrow> ('d, 'tr) LoadMapDB \<Rightarrow> ('d, 'tr) LoadMapDB" where
  "lm_Finalise deleteEmptyObjects l =
     lm_clearJournalAndRefund
       (fold (lm_finalise1 deleteEmptyObjects) (gm_keys (dirties (lm_journal l))) l)"

definition lm_updateLoadMapObject ::
    "('d, 'tr) lm_env \<Rightarrow> loadMapObject \<Rightarrow> ('d, 'tr) LoadMapDB \<Rightarrow> ('d, 'tr) LoadMapDB option" where
  "lm_updateLoadMapObject E ob l =
     (case EncodeLoadMapObject E ob of
        Inl err \<Rightarrow> None
      | Inr data \<Rightarrow>
          (case TryUpdate E (lm_trie l) (lo_address ob) data of
             (None, tr) \<Rightarrow> Some (l\<lparr>lm_trie := tr\<rparr>)
           | (Some err, tr) \<Rightarrow>
               Some (lm_setError (Some (''updateStateObject: '' @ err)) (l\<lparr>lm_trie := tr\<rparr>))))"

definition lm_deleteLoadMapObject ::
    "('d, 'tr) lm_env \<Rightarrow> loadMapObject \<Rightarrow> ('d, 'tr) LoadMapDB \<Rightarrow> ('d, 'tr) LoadMapDB" where
  "lm_deleteLoadMapObject E ob l =
     (case TryDelete E (lm_trie l) (lo_address ob) of
        (None, tr) \<Rightarrow> l\<lparr>lm_trie := tr\<rparr>
      | (Some err, tr) \<Rightarrow> lm_setError (Some (''deleteStateObject: '' @ err)) (l\<lparr>lm_trie := tr\<rparr>))"

text \<open>The loop body of \<open>IntermediateRoot\<close>; a pending address without an object panics.\<close>

definition lm_flush1 ::
    "('d, 'tr) lm_env \<Rightarrow> address \<Rightarrow> ('d, 'tr) LoadMapDB \<Rightarrow> ('d, 'tr) LoadMapDB option" where
  "lm_flush1 E addr l =
     (case gm_get (loadMapObjects l) addr of
        None \<Rightarrow> None
      | Some ob \<Rightarrow> if lo_deleted ob then Some (lm_deleteLoadMapObject E ob l)
                  else lm_updateLoadMapObject E ob l)"

definition lm_IntermediateRoot ::
    "('d, 'tr) lm_env \<Rightarrow> bool \<Rightarrow> ('d, 'tr) LoadMapDB \<Rightarrow> (hash \<times> ('d, 'tr) LoadMapDB) option" where
  "lm_IntermediateRoot E deleteEmptyObjects l =
     (let l = lm_Finalise deleteEmptyObjects l
      in map_option (\<lambda>l. let l = l\<lparr>loadMapObjectsPending := []\<rparr> in (TrieHash E (lm_trie l), l))
           (range_loop (lm_flush1 E) (loadMapObjectsPending l) l))"

text \<open>\<open>Commit\<close>; its leaf callback decodes the leaf and ignores the result.\<close>

definition lm_Commit ::
    "('d, 'tr) lm_env \<Rightarrow> bool \<Rightarrow> ('d, 'tr) LoadMapDB \<Rightarrow>
      ((hash \<times> error option) \<times> ('d, 'tr) LoadMapDB) option" where
  "lm_Commit E deleteEmptyObjects l =
     (case lm_dbErr l of
        Some err \<Rightarrow> Some ((0, Some (''commit aborted due to earlier error: '' @ err)), l)
      | None \<Rightarrow>
          (case lm_IntermediateRoot E deleteEmptyObjects l of
             None \<Rightarrow> None
           | Some (_, l) \<Rightarrow>
               let l = l\<lparr>loadMapObjectsDirty := []\<rparr>;
                   (res, tr, db) = TrieCommit E (lm_trie l) (\<lambda>leaf parent db. db) (lm_db l)
               in Some (res, l\<lparr>lm_trie := tr, lm_db := db\<rparr>)))"

definition lm_Reset ::
    "('d, 'tr) lm_env \<Rightarrow> hash \<Rightarrow> ('d, 'tr) LoadMapDB \<Rightarrow> error option \<times> ('d, 'tr) LoadMapDB" where
  "lm_Reset E root l =
     (case OpenTrie E (lm_db l) root of
        Inl err \<Rightarrow> (Some err, l)
      | Inr tr \<Rightarrow>
          (None, lm_clearJournalAndRefund
             (l\<lparr>lm_trie := tr, loadMapObjects := [], loadMapObjectsPending := [],
                loadMapObjectsDirty := [], lm_thash := 0, lm_bhash := 0, lm_txIndex := 0,
                lm_logs := [], lm_logSize := 0\<rparr>)))"

subsection \<open>\<open>Copy\<close>\<close>

text \<open>The three loops of \<open>Copy\<close>; the source database is the first argument after the
  environment, the copy the last.\<close>

definition lm_copy_journalled ::
    "('d, 'tr) lm_env \<Rightarrow> ('d, 'tr) LoadMapDB \<Rightarrow> address \<Rightarrow> ('d, 'tr) LoadMapDB \<Rightarrow> ('d, 'tr) LoadMapDB" where
  "lm_copy_journalled E l addr c =
     (case gm_get (loadMapObjects l) addr of
        None \<Rightarrow> c
      | Some ob \<Rightarrow> c\<lparr>loadMapObjects := gm_set addr (lo_deepCopy E ob) (loadMapObjects c),
                     loadMapObjectsPending := gs_add addr (loadMapObjectsPending c),
                     loadMapObjectsDirty := gs_add addr (loadMapObjectsDirty c)\<rparr>)"

definition lm_copy_pending ::
    "('d, 'tr) lm_env \<Rightarrow> ('d, 'tr) LoadMapDB \<Rightarrow> address \<Rightarrow> ('d, 'tr) LoadMapDB \<Rightarrow>
      ('d, 'tr) LoadMapDB option" where
  "lm_copy_pending E l addr c =
     (if gm_get (loadMapObjects c) addr \<noteq> None then Some c
      else case gm_get (loadMapObjects l) addr of
        None \<Rightarrow> None
      | Some ob \<Rightarrow> Some (c\<lparr>loadMapObjects := gm_set addr (lo_deepCopy E ob) (loadMapObjects c),
                     loadMapObjectsPending := gs_add addr (loadMapObjectsPending c)\<rparr>))"

definition lm_copy_dirty ::
    "('d, 'tr) lm_env \<Rightarrow> ('d, 'tr) LoadMapDB \<Rightarrow> address \<Rightarrow> ('d, 'tr) LoadMapDB \<Rightarrow>
      ('d, 'tr) LoadMapDB option" where
  "lm_copy_dirty E l addr c =
     map_option (\<lambda>c. c\<lparr>loadMapObjectsDirty := gs_add addr (loadMapObjectsDirty c)\<rparr>)
       (if gm_get (loadMapObjects c) addr \<noteq> None then Some c
        else case gm_get (loadMapObjects l) addr of
          None \<Rightarrow> None
        | Some ob \<Rightarrow> Some (c\<lparr>loadMapObjects := gm_set addr (lo_deepCopy E ob) (loadMapObjects c)\<rparr>))"

definition lm_Copy ::
    "('d, 'tr) lm_env \<Rightarrow> ('d, 'tr) LoadMapDB \<Rightarrow> ('d, 'tr) LoadMapDB option" where
  "lm_Copy E l =
     (let c = \<lparr>lm_db = lm_db l, lm_trie = lm_trie l, loadMapObjects = [],
               loadMapObjectsPending = [], loadMapObjectsDirty = [], lm_dbErr = None,
               lm_refund = lm_refund l, lm_thash = 0, lm_bhash = 0, lm_rhash = 0, lm_txIndex = 0,
               lm_logs = [], lm_logSize = lm_logSize l, lm_journal = newJournal,
               lm_validRevisions = [], lm_nextRevisionId = 0\<rparr>;
          c = fold (lm_copy_journalled E l) (gm_keys (dirties (lm_journal l))) c
      in map_option (\<lambda>c. c\<lparr>lm_logs := lm_logs l\<rparr>)
           (Option.bind (range_loop (lm_copy_pending E l) (loadMapObjectsPending l) c)
             (range_loop (lm_copy_dirty E l) (loadMapObjectsDirty l))))"

end
