(* ===== verification/Load_Map_Undo.thy ===== *)
theory Load_Map_Undo
  imports Load_Map
begin

text \<open>
  The load map keeps the journal's contract: \<open>lm_sim\<close> says when two databases cannot be
  told apart, \<open>lm_inv\<close> what every operation keeps, and the interpretations \<open>lmdb\<close> of the
  locale \<open>snapshot_store\<close> and \<open>lmjournal\<close> of the locale \<open>journalled_store\<close> discharge the
  laws for the load map's own operations.
\<close>

section \<open>What can be observed\<close>

text \<open>The object a lookup of \<open>addr\<close> gives, deleted or not, read without caching.\<close>

definition lm_peek :: "('d, 'tr) lm_env \<Rightarrow> ('d, 'tr) LoadMapDB \<Rightarrow> address \<Rightarrow> loadMapObject option" where
  "lm_peek E l addr = fst (lm_getDeletedLoadMapObject E addr l)"

definition lm_live :: "('d, 'tr) lm_env \<Rightarrow> ('d, 'tr) LoadMapDB \<Rightarrow> address \<Rightarrow> loadMapObject option" where
  "lm_live E l addr = (case lm_peek E l addr of
     Some ob \<Rightarrow> if lo_deleted ob then None else Some ob | None \<Rightarrow> None)"

text \<open>The fields no journalled operation writes.\<close>

definition lm_frame :: "('d, 'tr) LoadMapDB \<Rightarrow>
    'd \<times> 'tr \<times> u64 \<times> hash \<times> hash \<times> hash \<times> int" where
  "lm_frame l = (lm_db l, lm_trie l, lm_refund l, lm_thash l, lm_bhash l, lm_rhash l, lm_txIndex l)"

definition lm_sim :: "('d, 'tr) lm_env \<Rightarrow> ('d, 'tr) LoadMapDB \<Rightarrow> ('d, 'tr) LoadMapDB \<Rightarrow> bool" where
  "lm_sim E s t \<longleftrightarrow> lm_peek E s = lm_peek E t \<and> lm_frame s = lm_frame t
     \<and> (\<lambda>h. lm_GetLogs h s) = (\<lambda>h. lm_GetLogs h t) \<and> lm_logSize s = lm_logSize t
     \<and> loadMapObjectsPending s = loadMapObjectsPending t
     \<and> set (loadMapObjectsDirty s) = set (loadMapObjectsDirty t)"

fun lm_entry_ok :: "address set \<Rightarrow> lm_entry \<Rightarrow> bool" where
  "lm_entry_ok A (lm_createObjectChange a) = (a \<notin> A)"
| "lm_entry_ok A _ = True"

text \<open>
  The invariant: objects sit under their own address, a pending or dirty address has an
  object, and no journal entry can remove the object of such an address.
\<close>

definition lm_scheduled :: "('d, 'tr) LoadMapDB \<Rightarrow> address set" where
  "lm_scheduled l = set (loadMapObjectsPending l) \<union> set (loadMapObjectsDirty l)"

definition lm_inv :: "('d, 'tr) LoadMapDB \<Rightarrow> bool" where
  "lm_inv l \<longleftrightarrow> (\<forall>a ob. gm_get (loadMapObjects l) a = Some ob \<longrightarrow> lo_address ob = a)
     \<and> (\<forall>a \<in> lm_scheduled l. gm_get (loadMapObjects l) a \<noteq> None)
     \<and> (\<forall>e \<in> set (entries (lm_journal l)). lm_entry_ok (lm_scheduled l) e)"

section \<open>Reading\<close>

lemma lm_trie_read_address: "lo_address (lm_newObject E a data) = a"
  by (simp add: lm_newObject_def)

lemma lm_setError_sel [simp]:
  "loadMapObjects (lm_setError e l) = loadMapObjects l" "lm_trie (lm_setError e l) = lm_trie l"
  "lm_frame (lm_setError e l) = lm_frame l" "lm_logs (lm_setError e l) = lm_logs l"
  "lm_logSize (lm_setError e l) = lm_logSize l" "lm_journal (lm_setError e l) = lm_journal l"
  "loadMapObjectsPending (lm_setError e l) = loadMapObjectsPending l"
  "loadMapObjectsDirty (lm_setError e l) = loadMapObjectsDirty l"
  "lm_validRevisions (lm_setError e l) = lm_validRevisions l"
  "lm_nextRevisionId (lm_setError e l) = lm_nextRevisionId l"
  by (auto simp: lm_setError_def lm_frame_def)

lemma lm_peek_cached: "gm_get (loadMapObjects l) a = Some ob \<Longrightarrow> lm_peek E l a = Some ob"
  by (simp add: lm_peek_def lm_getDeletedLoadMapObject_def)

lemma lm_peek_cong:
  "lm_trie s = lm_trie t \<Longrightarrow> gm_get (loadMapObjects s) a = gm_get (loadMapObjects t) a \<Longrightarrow>
    lm_peek E s a = lm_peek E t a"
  by (simp add: lm_peek_def lm_getDeletedLoadMapObject_def Let_def split: option.split prod.split sum.split)

text \<open>A lookup returns the object \<open>lm_peek\<close> names and changes nothing but the cache.\<close>

definition lm_loaded :: "('d, 'tr) lm_env \<Rightarrow> address \<Rightarrow> ('d, 'tr) LoadMapDB \<Rightarrow> ('d, 'tr) LoadMapDB" where
  "lm_loaded E a l = snd (lm_getDeletedLoadMapObject E a l)"

lemma lm_getDeleted_eq: "lm_getDeletedLoadMapObject E a l = (lm_peek E l a, lm_loaded E a l)"
  by (simp add: lm_peek_def lm_loaded_def)

lemma lm_get_eq: "lm_getLoadMapObject E a l = (lm_live E l a, lm_loaded E a l)"
  by (simp add: lm_getLoadMapObject_def lm_getDeleted_eq lm_live_def split: option.split)

lemma lm_loaded_objects:
  "gm_get (loadMapObjects (lm_loaded E a l)) b =
     (if b = a then lm_peek E l a else gm_get (loadMapObjects l) b)"
  by (auto simp: lm_peek_def lm_loaded_def lm_getDeletedLoadMapObject_def Let_def
      lm_setLoadMapObject_def lm_trie_read_address split: option.split prod.split sum.split)

lemma lm_loaded_sel [simp]:
  "lm_frame (lm_loaded E a l) = lm_frame l" "lm_trie (lm_loaded E a l) = lm_trie l"
  "lm_logs (lm_loaded E a l) = lm_logs l" "lm_logSize (lm_loaded E a l) = lm_logSize l"
  "lm_journal (lm_loaded E a l) = lm_journal l"
  "loadMapObjectsPending (lm_loaded E a l) = loadMapObjectsPending l"
  "loadMapObjectsDirty (lm_loaded E a l) = loadMapObjectsDirty l"
  "lm_validRevisions (lm_loaded E a l) = lm_validRevisions l"
  "lm_nextRevisionId (lm_loaded E a l) = lm_nextRevisionId l"
  by (auto simp: lm_loaded_def lm_getDeletedLoadMapObject_def Let_def lm_setLoadMapObject_def
      lm_frame_def lm_setError_def split: option.split prod.split sum.split)

lemma lm_peek_address: "lm_inv l \<Longrightarrow> lm_peek E l a = Some ob \<Longrightarrow> lo_address ob = a"
  by (auto simp: lm_peek_def lm_getDeletedLoadMapObject_def lm_inv_def Let_def lm_trie_read_address
      split: option.splits prod.splits sum.splits if_splits)

lemma lm_peek_loaded [simp]: "lm_peek E (lm_loaded E a l) = lm_peek E l"
proof
  fix b show "lm_peek E (lm_loaded E a l) b = lm_peek E l b"
  proof (cases "gm_get (loadMapObjects (lm_loaded E a l)) b = gm_get (loadMapObjects l) b")
    case True then show ?thesis by (intro lm_peek_cong) auto
  next
    case False
    then have "b = a" by (simp add: lm_loaded_objects split: if_splits)
    with False show ?thesis
      by (cases "lm_peek E l a")
        (auto simp: lm_loaded_objects lm_peek_def lm_getDeletedLoadMapObject_def
          split: option.splits prod.splits sum.splits if_splits)
  qed
qed

lemma lm_loaded_scheduled [simp]: "lm_scheduled (lm_loaded E a l) = lm_scheduled l"
  by (simp add: lm_scheduled_def)

lemma lm_loaded_inv: "lm_inv l \<Longrightarrow> lm_inv (lm_loaded E a l)"
  using lm_peek_address [of l E a] lm_peek_cached [of l a _ E]
  by (fastforce simp: lm_inv_def lm_loaded_objects)

lemma lm_sim_peekI:
  assumes "lm_peek E s = lm_peek E t" and "lm_frame s = lm_frame t" and "lm_logs s = lm_logs t"
    and "lm_logSize s = lm_logSize t" and "loadMapObjectsPending s = loadMapObjectsPending t"
    and "set (loadMapObjectsDirty s) = set (loadMapObjectsDirty t)"
  shows "lm_sim E s t"
  using assms by (simp add: lm_sim_def lm_GetLogs_def)

lemma lm_loaded_sim: "lm_sim E (lm_loaded E a l) l"
  by (simp add: lm_sim_peekI)

lemma lm_live_loaded [simp]: "lm_live E (lm_loaded E a l) = lm_live E l"
  by (simp add: lm_live_def fun_eq_iff)

lemma lm_live_cached:
  assumes "lm_live E l a = Some ob"
  shows "gm_get (loadMapObjects (lm_loaded E a l)) a = Some ob" and "\<not> lo_deleted ob"
  using assms by (auto simp: lm_live_def lm_loaded_objects split: option.splits if_splits)

lemma lm_frame_trie: "lm_frame s = lm_frame t \<Longrightarrow> lm_trie s = lm_trie t"
  by (simp add: lm_frame_def)

lemma lm_simI:
  assumes "map_of (loadMapObjects s) = map_of (loadMapObjects t)" and "lm_frame s = lm_frame t"
    and "\<And>h. lm_GetLogs h s = lm_GetLogs h t" and "lm_logSize s = lm_logSize t"
    and "loadMapObjectsPending s = loadMapObjectsPending t"
    and "set (loadMapObjectsDirty s) = set (loadMapObjectsDirty t)"
  shows "lm_sim E s t"
  using assms lm_peek_cong [of s t _ E] lm_frame_trie [OF assms(2)]
  by (auto simp: lm_sim_def fun_eq_iff)

section \<open>Writing\<close>

lemma lm_append_sel [simp]:
  "lm_frame (lm_append e l) = lm_frame l" "lm_trie (lm_append e l) = lm_trie l"
  "loadMapObjects (lm_append e l) = loadMapObjects l"
  "lm_logs (lm_append e l) = lm_logs l" "lm_logSize (lm_append e l) = lm_logSize l"
  "entries (lm_journal (lm_append e l)) = entries (lm_journal l) @ [e]"
  "loadMapObjectsPending (lm_append e l) = loadMapObjectsPending l"
  "loadMapObjectsDirty (lm_append e l) = loadMapObjectsDirty l"
  "lm_validRevisions (lm_append e l) = lm_validRevisions l"
  "lm_nextRevisionId (lm_append e l) = lm_nextRevisionId l"
  "lm_thash (lm_append e l) = lm_thash l" "lm_bhash (lm_append e l) = lm_bhash l"
  "lm_txIndex (lm_append e l) = lm_txIndex l"
  by (simp_all add: lm_append_def lm_frame_def)

lemma lm_write_sel [simp]:
  "lm_frame (lm_write a f l) = lm_frame l" "lm_trie (lm_write a f l) = lm_trie l"
  "lm_logs (lm_write a f l) = lm_logs l" "lm_logSize (lm_write a f l) = lm_logSize l"
  "lm_journal (lm_write a f l) = lm_journal l"
  "loadMapObjectsPending (lm_write a f l) = loadMapObjectsPending l"
  "loadMapObjectsDirty (lm_write a f l) = loadMapObjectsDirty l"
  "lm_validRevisions (lm_write a f l) = lm_validRevisions l"
  "lm_nextRevisionId (lm_write a f l) = lm_nextRevisionId l"
  by (auto simp: lm_write_def lm_frame_def split: option.split)

lemma lm_write_objects:
  "gm_get (loadMapObjects (lm_write a f l)) b =
     (if b = a then map_option f (gm_get (loadMapObjects l) a) else gm_get (loadMapObjects l) b)"
  by (simp add: lm_write_def split: option.split)

lemma lm_setObject_sel [simp]:
  "lm_frame (lm_setLoadMapObject ob l) = lm_frame l" "lm_trie (lm_setLoadMapObject ob l) = lm_trie l"
  "lm_logs (lm_setLoadMapObject ob l) = lm_logs l" "lm_logSize (lm_setLoadMapObject ob l) = lm_logSize l"
  "lm_journal (lm_setLoadMapObject ob l) = lm_journal l"
  "loadMapObjectsPending (lm_setLoadMapObject ob l) = loadMapObjectsPending l"
  "loadMapObjectsDirty (lm_setLoadMapObject ob l) = loadMapObjectsDirty l"
  "lm_validRevisions (lm_setLoadMapObject ob l) = lm_validRevisions l"
  "lm_nextRevisionId (lm_setLoadMapObject ob l) = lm_nextRevisionId l"
  "gm_get (loadMapObjects (lm_setLoadMapObject ob l)) b =
     (if b = lo_address ob then Some ob else gm_get (loadMapObjects l) b)"
  by (simp_all add: lm_setLoadMapObject_def lm_frame_def)

lemma lm_journal_update_sel [simp]:
  "lm_frame (l\<lparr>lm_journal := j\<rparr>) = lm_frame l"
  "lm_peek E (l\<lparr>lm_journal := j\<rparr>) = lm_peek E l"
  "lm_GetLogs h (l\<lparr>lm_journal := j\<rparr>) = lm_GetLogs h l"
  "lm_scheduled (l\<lparr>lm_journal := j\<rparr>) = lm_scheduled l"
  by (auto simp: lm_frame_def lm_GetLogs_def lm_scheduled_def intro!: ext lm_peek_cong)

lemma lm_peek_setObject:
  "lm_peek E (lm_setLoadMapObject ob l) = (lm_peek E l)(lo_address ob := Some ob)"
  by (rule ext) (auto intro: lm_peek_cached lm_peek_cong)

lemma lm_peek_write_loaded:
  assumes "lm_live E l a = Some ob"
  shows "lm_peek E (lm_write a f (lm_loaded E a l)) = (lm_peek E l)(a := Some (f ob))"
proof
  fix b
  note cached = lm_live_cached [OF assms]
  show "lm_peek E (lm_write a f (lm_loaded E a l)) b = ((lm_peek E l)(a := Some (f ob))) b"
  proof (cases "b = a")
    case True
    then show ?thesis by (simp add: lm_peek_cached lm_write_objects cached)
  next
    case False
    then show ?thesis
      by (simp add: lm_write_objects lm_loaded_objects
          lm_peek_cong [of "lm_write a f (lm_loaded E a l)" l])
  qed
qed

definition lm_forget :: "address \<Rightarrow> ('d, 'tr) LoadMapDB \<Rightarrow> ('d, 'tr) LoadMapDB" where
  "lm_forget a l = l\<lparr>loadMapObjects := gm_del a (loadMapObjects l),
     loadMapObjectsDirty := gs_del a (loadMapObjectsDirty l)\<rparr>"

lemma lm_peek_forget:
  "lm_peek E (lm_forget a l) = (lm_peek E l)(a := lm_peek E (l\<lparr>loadMapObjects := []\<rparr>) a)"
  by (rule ext) (auto simp: lm_forget_def intro: lm_peek_cong)

lemma lm_peek_empty:
  "lm_trie s = lm_trie t \<Longrightarrow>
    lm_peek E (s\<lparr>loadMapObjects := []\<rparr>) = lm_peek E (t\<lparr>loadMapObjects := []\<rparr>)"
  by (rule ext, rule lm_peek_cong) auto

lemma lm_forget_sel [simp]:
  "lm_frame (lm_forget a l) = lm_frame l" "lm_logs (lm_forget a l) = lm_logs l"
  "lm_logSize (lm_forget a l) = lm_logSize l" "lm_journal (lm_forget a l) = lm_journal l"
  "loadMapObjectsPending (lm_forget a l) = loadMapObjectsPending l"
  "loadMapObjectsDirty (lm_forget a l) = gs_del a (loadMapObjectsDirty l)"
  "loadMapObjects (lm_forget a l) = gm_del a (loadMapObjects l)"
  "lm_validRevisions (lm_forget a l) = lm_validRevisions l"
  "lm_nextRevisionId (lm_forget a l) = lm_nextRevisionId l"
  by (simp_all add: lm_forget_def lm_frame_def)

text \<open>The log part of undoing: the last log of a transaction is dropped.\<close>

definition lm_unlog :: "hash \<Rightarrow> ('d, 'tr) LoadMapDB \<Rightarrow> ('d, 'tr) LoadMapDB" where
  "lm_unlog h l = (if length (lm_GetLogs h l) = 1
     then l\<lparr>lm_logs := gm_del h (lm_logs l), lm_logSize := lm_logSize l - 1\<rparr>
     else l\<lparr>lm_logs := gm_set h (butlast (lm_GetLogs h l)) (lm_logs l), lm_logSize := lm_logSize l - 1\<rparr>)"

lemma lm_unlog_sel [simp]:
  "lm_frame (lm_unlog h l) = lm_frame l" "lm_trie (lm_unlog h l) = lm_trie l"
  "loadMapObjects (lm_unlog h l) = loadMapObjects l"
  "lm_logSize (lm_unlog h l) = lm_logSize l - 1" "lm_journal (lm_unlog h l) = lm_journal l"
  "loadMapObjectsPending (lm_unlog h l) = loadMapObjectsPending l"
  "loadMapObjectsDirty (lm_unlog h l) = loadMapObjectsDirty l"
  "lm_validRevisions (lm_unlog h l) = lm_validRevisions l"
  "lm_nextRevisionId (lm_unlog h l) = lm_nextRevisionId l"
  by (simp_all add: lm_unlog_def lm_frame_def)

lemma lm_peek_unlog [simp]: "lm_peek E (lm_unlog h l) = lm_peek E l"
  by (rule ext, rule lm_peek_cong) auto

lemma lm_GetLogs_unlog:
  "lm_GetLogs k (lm_unlog h l) = (if k = h then butlast (lm_GetLogs h l) else lm_GetLogs k l)"
  by (cases "lm_GetLogs h l" rule: rev_cases) (auto simp: lm_unlog_def lm_GetLogs_def)

text \<open>The \<open>revert\<close> methods, restated over these functions.\<close>

lemma lm_revert_entry_eqs:
  "lm_revert_entry E (lm_createObjectChange a) l = Some (lm_forget a l)"
  "lm_revert_entry E (lm_resetObjectChange p) l = Some (lm_setLoadMapObject p l)"
  "lm_revert_entry E (lm_suicideChange a b i) l = Some (case lm_live E l a of
      None \<Rightarrow> lm_loaded E a l
    | Some _ \<Rightarrow> lm_write a (\<lambda>ob. lo_setTargetShardID i (ob\<lparr>lo_suicided := b\<rparr>)) (lm_loaded E a l))"
  "lm_revert_entry E (lm_targetShardIDChange a i) l = (case lm_live E l a of
      None \<Rightarrow> None | Some _ \<Rightarrow> Some (lm_write a (lo_setTargetShardID i) (lm_loaded E a l)))"
  "lm_revert_entry E (lm_addLogChange h) l =
     (if lm_GetLogs h l = [] then None else Some (lm_unlog h l))"
  by (auto simp: lm_forget_def lm_get_eq lm_unlog_def lm_GetLogs_def Let_def split: option.split)

declare lm_revert_entry.simps [simp del]

lemma lm_revert_entry_frame:
  assumes "lm_revert_entry E e l = Some l'"
  shows "lm_frame l' = lm_frame l" and "lm_journal l' = lm_journal l"
    and "loadMapObjectsPending l' = loadMapObjectsPending l"
    and "lm_validRevisions l' = lm_validRevisions l"
    and "lm_nextRevisionId l' = lm_nextRevisionId l"
  using assms by (cases e; auto simp: lm_revert_entry_eqs split: option.splits if_splits)+

lemma lm_sim_live: "lm_sim E s t \<Longrightarrow> lm_live E s = lm_live E t"
  by (simp add: lm_sim_def lm_live_def fun_eq_iff)

lemma lm_sim_logs: "lm_sim E s t \<Longrightarrow> lm_GetLogs h s = lm_GetLogs h t"
  by (metis lm_sim_def)

lemma lm_sim_write_loaded:
  assumes "lm_sim E s t" and "lm_live E t a = Some ob"
  shows "lm_sim E (lm_write a f (lm_loaded E a s)) (lm_write a f (lm_loaded E a t))"
proof -
  have "lm_live E s a = Some ob" using lm_sim_live [OF assms(1)] assms(2) by simp
  with assms show ?thesis
    by (simp add: lm_sim_def lm_peek_write_loaded lm_GetLogs_def)
qed

lemma lm_sim_loaded: "lm_sim E s t \<Longrightarrow> lm_sim E (lm_loaded E a s) (lm_loaded E a t)"
  by (simp add: lm_sim_def lm_GetLogs_def)

lemma lm_sim_forget: "lm_sim E s t \<Longrightarrow> lm_sim E (lm_forget a s) (lm_forget a t)"
  using lm_peek_empty [of s t E] lm_frame_trie [of s t]
  by (simp add: lm_sim_def lm_peek_forget lm_GetLogs_def)

lemma lm_sim_setObject:
  "lm_sim E s t \<Longrightarrow> lm_sim E (lm_setLoadMapObject p s) (lm_setLoadMapObject p t)"
  by (simp add: lm_sim_def lm_peek_setObject lm_GetLogs_def)

lemma lm_sim_unlog: "lm_sim E s t \<Longrightarrow> lm_sim E (lm_unlog h s) (lm_unlog h t)"
  by (simp add: lm_sim_def lm_GetLogs_unlog fun_eq_iff)

lemma lm_revert_entry_sim:
  assumes "lm_sim E s t" and "lm_revert_entry E e s = Some s'"
  shows "\<exists>t'. lm_revert_entry E e t = Some t' \<and> lm_sim E s' t'"
proof (cases e)
  case (lm_suicideChange a b i)
  then show ?thesis
    using assms lm_sim_live [OF assms(1)] lm_sim_write_loaded [OF assms(1)] lm_sim_loaded
    by (cases "lm_live E t a") (auto simp: lm_revert_entry_eqs)
next
  case (lm_targetShardIDChange a i)
  then show ?thesis
    using assms lm_sim_live [OF assms(1)] lm_sim_write_loaded [OF assms(1)]
    by (cases "lm_live E t a") (auto simp: lm_revert_entry_eqs)
next
  case (lm_addLogChange h)
  then show ?thesis
    using assms lm_sim_logs [OF assms(1)] lm_sim_unlog
    by (auto simp: lm_revert_entry_eqs split: if_splits)
qed (use assms lm_sim_forget lm_sim_setObject in \<open>auto simp: lm_revert_entry_eqs\<close>)

lemma lm_write_inv:
  assumes "lm_inv l" and "\<And>ob. lo_address (f ob) = lo_address ob"
  shows "lm_inv (lm_write a f l)"
  using assms by (auto simp: lm_inv_def lm_scheduled_def lm_write_objects split: if_splits)

lemma lo_setTargetShardID_sel [simp]:
  "lo_address (lo_setTargetShardID i ob) = lo_address ob"
  "lo_deleted (lo_setTargetShardID i ob) = lo_deleted ob"
  "lo_suicided (lo_setTargetShardID i ob) = lo_suicided ob"
  "lo_TargetShardID (lo_setTargetShardID i ob) = i"
  by (simp_all add: lo_setTargetShardID_def lo_TargetShardID_def)

lemma lm_revert_entry_inv:
  assumes "lm_inv l" and "e \<in> set (entries (lm_journal l))" and "lm_revert_entry E e l = Some l'"
  shows "lm_inv l'"
proof (cases e)
  case (lm_createObjectChange a)
  then have a: "a \<notin> lm_scheduled l" using assms by (force simp: lm_inv_def)
  have l': "l' = lm_forget a l" using assms(3) lm_createObjectChange by (simp add: lm_revert_entry_eqs)
  have "lm_scheduled l' = lm_scheduled l" using a by (auto simp: l' lm_scheduled_def)
  with a assms(1) show ?thesis by (auto simp: lm_inv_def l')
next
  case (lm_resetObjectChange p)
  then show ?thesis
    using assms by (auto simp: lm_revert_entry_eqs lm_inv_def lm_scheduled_def split: if_splits)
next
  case (lm_suicideChange a b i)
  then show ?thesis
    using assms lm_loaded_inv [OF assms(1), of E a]
    by (auto simp: lm_revert_entry_eqs split: option.splits intro!: lm_write_inv)
next
  case (lm_targetShardIDChange a i)
  then show ?thesis
    using assms lm_loaded_inv [OF assms(1), of E a]
    by (auto simp: lm_revert_entry_eqs split: option.splits intro!: lm_write_inv)
next
  case (lm_addLogChange h)
  then show ?thesis
    using assms by (auto simp: lm_revert_entry_eqs lm_inv_def lm_scheduled_def split: if_splits)
qed

section \<open>The operations are logged\<close>

abbreviation lm_log :: "('d, 'tr) LoadMapDB \<Rightarrow> lm_entry list" where
  "lm_log l \<equiv> entries (lm_journal l)"

abbreviation lm_logged :: "('d, 'tr) lm_env \<Rightarrow> ('d, 'tr) LoadMapDB \<Rightarrow> ('d, 'tr) LoadMapDB \<Rightarrow> bool" where
  "lm_logged E \<equiv> logged (lm_undo1 E) (\<lambda>l. entries (lm_journal l)) (lm_sim E)"

lemma lm_sim_equivp: "lm_sim E s s" "lm_sim E s t \<Longrightarrow> lm_sim E t s"
  "lm_sim E s t \<Longrightarrow> lm_sim E t u \<Longrightarrow> lm_sim E s u"
  by (auto simp: lm_sim_def)

lemma lm_sim_journal: "lm_sim E (l\<lparr>lm_journal := j\<rparr>) l"
  by (simp add: lm_sim_peekI)

lemma lm_undo1_Some:
  "lm_undo1 E e l = Some l' \<longleftrightarrow> (\<exists>t. lm_revert_entry E e l = Some t \<and>
     l' = t\<lparr>lm_journal := journal_undirty lm_dirtied e (lm_journal t)\<rparr>)"
  by (auto simp: lm_undo1_def)

interpretation lmlog: undo_log "lm_undo1 E" "\<lambda>l. entries (lm_journal l)" lm_truncate "lm_sim E" lm_inv
  for E :: "('d, 'tr) lm_env"
proof
  show "lm_sim E s s" for s by (rule lm_sim_equivp)
  show "lm_sim E s t \<Longrightarrow> lm_sim E t s" for s t by (rule lm_sim_equivp)
  show "lm_sim E s t \<Longrightarrow> lm_sim E t u \<Longrightarrow> lm_sim E s u" for s t u by (rule lm_sim_equivp)
  show "\<exists>t'. lm_undo1 E e t = Some t' \<and> lm_sim E s' t'"
    if st: "lm_sim E s t" "lm_undo1 E e s = Some s'" for s t e s'
  proof -
    obtain u where u: "lm_revert_entry E e s = Some u"
        "s' = u\<lparr>lm_journal := journal_undirty lm_dirtied e (lm_journal u)\<rparr>"
      using st(2) by (auto simp: lm_undo1_Some)
    obtain v where v: "lm_revert_entry E e t = Some v" "lm_sim E u v"
      using lm_revert_entry_sim [OF st(1) u(1)] by blast
    then have "lm_sim E s' (v\<lparr>lm_journal := journal_undirty lm_dirtied e (lm_journal v)\<rparr>)"
      using u(2) by (metis lm_sim_journal lm_sim_equivp(2,3))
    with v(1) show ?thesis by (auto simp: lm_undo1_Some)
  qed
  show "entries (lm_journal s') = entries (lm_journal s)" if "lm_undo1 E e s = Some s'" for e s s'
    using that lm_revert_entry_frame(2) by (fastforce simp: lm_undo1_Some)
  show "lm_inv s'"
    if i: "lm_inv s" "e \<in> set (entries (lm_journal s))" "lm_undo1 E e s = Some s'" for s e s'
  proof -
    obtain u where "lm_revert_entry E e s = Some u"
        "s' = u\<lparr>lm_journal := journal_undirty lm_dirtied e (lm_journal u)\<rparr>"
      using i(3) by (auto simp: lm_undo1_Some)
    with lm_revert_entry_inv [OF i(1,2)] show ?thesis by (auto simp: lm_inv_def)
  qed
  show "entries (lm_journal (lm_truncate n s)) = take n (entries (lm_journal s))" for n s
    by (simp add: lm_truncate_def)
  show "lm_sim E (lm_truncate n s) s" for n s by (simp add: lm_truncate_def lm_sim_journal)
  show "lm_inv (lm_truncate n s)" if "lm_inv s" for n s
    using that by (auto simp: lm_inv_def lm_truncate_def dest: in_set_takeD)
qed

lemma lm_logged1:
  assumes "lm_log l' = lm_log l @ [e]" and "lm_revert_entry E e l' = Some t" and "lm_sim E t l"
  shows "lm_logged E l l'"
  unfolding logged_def using assms lm_sim_equivp(3) [OF lm_sim_journal assms(3)]
  by (intro exI [of _ "[e]"]) (auto simp: lm_undo1_def)

lemma lm_peek_None: "lm_peek E l a = None \<Longrightarrow> lm_peek E (l\<lparr>loadMapObjects := []\<rparr>) a = None"
  by (auto simp: lm_peek_def lm_getDeletedLoadMapObject_def Let_def
      split: option.splits prod.splits sum.splits if_splits)

text \<open>
  Replacing the object at an address after \<open>createObject\<close> has journalled the old one, by
  whatever object: undoing the entry gives the old object back.
\<close>

definition lm_replaced ::
    "('d, 'tr) lm_env \<Rightarrow> loadMapObject \<Rightarrow> ('d, 'tr) LoadMapDB \<Rightarrow> ('d, 'tr) LoadMapDB" where
  "lm_replaced E ob l =
     lm_setLoadMapObject ob (lm_append (case lm_peek E l (lo_address ob) of
        None \<Rightarrow> lm_createObjectChange (lo_address ob)
      | Some p \<Rightarrow> lm_resetObjectChange p) (lm_loaded E (lo_address ob) l))"

lemma lm_peek_append [simp]: "lm_peek E (lm_append e l) = lm_peek E l"
  by (rule ext, rule lm_peek_cong) auto

lemma lm_replaced_sel [simp]:
  "lm_frame (lm_replaced E ob l) = lm_frame l" "lm_logs (lm_replaced E ob l) = lm_logs l"
  "lm_logSize (lm_replaced E ob l) = lm_logSize l"
  "loadMapObjectsPending (lm_replaced E ob l) = loadMapObjectsPending l"
  "loadMapObjectsDirty (lm_replaced E ob l) = loadMapObjectsDirty l"
  "lm_validRevisions (lm_replaced E ob l) = lm_validRevisions l"
  "lm_nextRevisionId (lm_replaced E ob l) = lm_nextRevisionId l"
  "lm_peek E (lm_replaced E ob l) = (lm_peek E l)(lo_address ob := Some ob)"
  "gm_get (loadMapObjects (lm_replaced E ob l)) b =
     (if b = lo_address ob then Some ob else gm_get (loadMapObjects l) b)"
  by (simp_all add: lm_replaced_def lm_peek_setObject lm_loaded_objects)

lemma lm_replaced_logged:
  assumes "lm_inv l"
  shows "lm_logged E l (lm_replaced E ob l)"
proof (cases "lm_peek E l (lo_address ob)")
  case None
  let ?a = "lo_address ob"
  have "?a \<notin> lm_scheduled l"
    using assms None lm_peek_cached [of l ?a _ E] by (force simp: lm_inv_def)
  then have "lm_sim E (lm_forget ?a (lm_replaced E ob l)) l"
    using None lm_peek_None [OF None]
      lm_peek_empty [OF lm_frame_trie, of "lm_replaced E ob l" l E]
    by (intro lm_sim_peekI) (auto simp: lm_peek_forget lm_scheduled_def)
  then show ?thesis
    using None by (intro lm_logged1 [where e = "lm_createObjectChange ?a"])
      (auto simp: lm_replaced_def lm_revert_entry_eqs)
next
  case (Some p)
  have p: "lo_address p = lo_address ob" using assms Some by (rule lm_peek_address)
  have "lm_sim E (lm_setLoadMapObject p (lm_replaced E ob l)) l"
    using Some p by (intro lm_sim_peekI) (auto simp: lm_peek_setObject)
  then show ?thesis
    using Some by (intro lm_logged1 [where e = "lm_resetObjectChange p"])
      (auto simp: lm_replaced_def lm_revert_entry_eqs)
qed

lemma lm_append_inv:
  "lm_inv l \<Longrightarrow> lm_entry_ok (lm_scheduled l) e \<Longrightarrow> lm_inv (lm_append e l)"
  by (simp add: lm_inv_def lm_scheduled_def)

lemma lm_replaced_inv:
  assumes "lm_inv l"
  shows "lm_inv (lm_replaced E ob l)"
proof (cases "lm_peek E l (lo_address ob)")
  case None
  then have "lo_address ob \<notin> lm_scheduled l"
    using assms lm_peek_cached [of l "lo_address ob" _ E] by (force simp: lm_inv_def)
  with None assms show ?thesis
    by (auto simp: lm_inv_def lm_scheduled_def lm_replaced_def lm_loaded_objects split: if_splits)
next
  case (Some p)
  with assms show ?thesis
    by (auto simp: lm_inv_def lm_scheduled_def lm_replaced_def lm_loaded_objects split: if_splits)
qed

text \<open>\<open>createObject\<close>, \<open>CreateMapAccount\<close> and \<open>GetOrNewLoadMapObject\<close> in these terms.\<close>

definition lm_fresh :: "('d, 'tr) lm_env \<Rightarrow> address \<Rightarrow> loadMapObject" where
  "lm_fresh E a = lo_setTargetShardID IniShardID (lm_newObject E a \<lparr>TargetShardID = 0\<rparr>)"

lemma lm_fresh_sel [simp]:
  "lo_address (lm_fresh E a) = a" "lo_deleted (lm_fresh E a) = False"
  "lo_suicided (lm_fresh E a) = False" "lo_TargetShardID (lm_fresh E a) = IniShardID"
  by (simp_all add: lm_fresh_def lm_newObject_def Let_def)

lemma lm_createObject_eq:
  "lm_createObject E a l = ((lm_fresh E a, lm_peek E l a), lm_replaced E (lm_fresh E a) l)"
  by (simp add: lm_createObject_def lm_getDeleted_eq lm_replaced_def lm_fresh_def [symmetric] Let_def
      split: option.split)

lemma lm_write_replaced:
  assumes "lo_address ob = a" and "lo_address (f ob) = a"
  shows "lm_write a f (lm_replaced E ob l) = lm_replaced E (f ob) l"
  using assms
  by (cases "lm_peek E l a") (simp_all add: lm_write_def lm_replaced_def lm_setLoadMapObject_def)

lemma lm_CreateMapAccount_eq:
  "lm_CreateMapAccount E a l = lm_replaced E (case lm_peek E l a of
      None \<Rightarrow> lm_fresh E a
    | Some p \<Rightarrow> lo_setTargetShardID (TargetShardID (lo_data p)) (lm_fresh E a)) l"
  by (auto simp: lm_CreateMapAccount_def lm_createObject_eq lm_write_replaced split: option.split)

lemma lm_GetOrNew_eq:
  "lm_GetOrNewLoadMapObject E a l = (case lm_live E l a of
      Some ob \<Rightarrow> (ob, lm_loaded E a l)
    | None \<Rightarrow> (lm_fresh E a, lm_replaced E (lm_fresh E a) (lm_loaded E a l)))"
  by (simp add: lm_GetOrNewLoadMapObject_def lm_get_eq lm_createObject_eq split: option.split)

text \<open>Writing a live, cached object after an entry that undoes the write.\<close>

lemma lm_write_logged:
  assumes "lm_live E l a = Some ob" and "gm_get (loadMapObjects l) a = Some ob"
    and "lo_address (f ob) = a" and "\<not> lo_deleted (f ob)"
    and "\<And>l'. lm_live E l' a = Some (f ob) \<Longrightarrow>
          lm_revert_entry E e l' = Some (lm_write a g (lm_loaded E a l'))"
    and "g (f ob) = ob"
  shows "lm_logged E l (lm_write a f (lm_append e l))"
proof -
  let ?l' = "lm_write a f (lm_append e l)"
  have peek: "lm_peek E ?l' = (lm_peek E l)(a := Some (f ob))"
    using assms(2) by (auto simp: fun_eq_iff lm_write_objects intro: lm_peek_cached lm_peek_cong)
  then have live: "lm_live E ?l' a = Some (f ob)" using assms(4) by (simp add: lm_live_def)
  have "lm_sim E (lm_write a g (lm_loaded E a ?l')) l"
    using assms(6) lm_peek_cached [OF assms(2), of E]
    by (intro lm_sim_peekI) (auto simp: lm_peek_write_loaded [OF live] peek)
  with assms(5) [OF live] show ?thesis by (intro lm_logged1) auto
qed

section \<open>Runs\<close>

text \<open>The operations a caller can make between a snapshot and its revert: the writing
  methods, and the reading ones, which fill the cache.\<close>

datatype lm_op =
    LmSetTargetShardID address u32
  | LmCreateMapAccount address
  | LmSuicide address
  | LmAddLog Log
  | LmGetTargetShardID address
  | LmExist address
  | LmEmpty address

fun lm_step :: "('d, 'tr) lm_env \<Rightarrow> lm_op \<Rightarrow> ('d, 'tr) LoadMapDB \<Rightarrow> ('d, 'tr) LoadMapDB option" where
  "lm_step E (LmSetTargetShardID a i) l = Some (lm_SetTargetShardID E a i l)"
| "lm_step E (LmCreateMapAccount a) l = Some (lm_CreateMapAccount E a l)"
| "lm_step E (LmSuicide a) l = Some (snd (lm_Suicide E a l))"
| "lm_step E (LmAddLog lg) l = Some (lm_AddLog lg l)"
| "lm_step E (LmGetTargetShardID a) l = Some (snd (lm_GetTargetShardID E a l))"
| "lm_step E (LmExist a) l = Some (snd (lm_Exist E a l))"
| "lm_step E (LmEmpty a) l = Some (snd (lm_Empty E a l))"

lemma lm_loaded_logged: "lm_logged E l (lm_loaded E a l)"
  using lmlog.logged_silent [OF lm_loaded_sim] by simp

lemma lm_read_eq:
  "snd (lm_GetTargetShardID E a l) = lm_loaded E a l" "snd (lm_Exist E a l) = lm_loaded E a l"
  "snd (lm_Empty E a l) = lm_loaded E a l"
  by (auto simp: lm_GetTargetShardID_def lm_Exist_def lm_Empty_def lm_get_eq split: option.split)

text \<open>After \<open>GetOrNewLoadMapObject\<close> the returned object is live and cached.\<close>

lemma lm_GetOrNew_spec:
  assumes "lm_inv l" and "lm_GetOrNewLoadMapObject E a l = (ob, l')"
  shows "lm_logged E l l'" and "lm_inv l'" and "gm_get (loadMapObjects l') a = Some ob"
    and "lm_live E l' a = Some ob" and "lo_address ob = a"
    and "lm_validRevisions l' = lm_validRevisions l \<and> lm_nextRevisionId l' = lm_nextRevisionId l"
proof -
  have inv: "lm_inv (lm_loaded E a l)" using assms(1) by (rule lm_loaded_inv)
  show "lm_logged E l l'"
    using assms(2) lm_loaded_logged lm_replaced_logged [OF inv, of E "lm_fresh E a"]
    by (auto simp: lm_GetOrNew_eq split: option.splits intro: lmlog.logged_trans)
  show "lm_inv l'" using assms(2) inv lm_replaced_inv [OF inv]
    by (auto simp: lm_GetOrNew_eq split: option.splits)
  show c: "gm_get (loadMapObjects l') a = Some ob"
    using assms(2) lm_live_cached by (auto simp: lm_GetOrNew_eq split: option.splits)
  show "lm_live E l' a = Some ob"
    using assms(2) by (auto simp: lm_GetOrNew_eq lm_live_def split: option.splits)
  show "lo_address ob = a" using \<open>lm_inv l'\<close> c by (simp add: lm_inv_def)
  show "lm_validRevisions l' = lm_validRevisions l \<and> lm_nextRevisionId l' = lm_nextRevisionId l"
    using assms(2) by (auto simp: lm_GetOrNew_eq split: option.splits)
qed

lemma lm_SetTargetShardID_step:
  assumes "lm_inv l"
  shows "lm_logged E l (lm_SetTargetShardID E a i l)" and "lm_inv (lm_SetTargetShardID E a i l)"
proof -
  obtain ob l' where g: "lm_GetOrNewLoadMapObject E a l = (ob, l')" by fastforce
  note sp = lm_GetOrNew_spec [OF assms g]
  have eq: "lm_SetTargetShardID E a i l = lm_write a (lo_setTargetShardID i)
      (lm_append (lm_targetShardIDChange a (TargetShardID (lo_data ob))) l')"
    using sp(5) by (simp add: lm_SetTargetShardID_def g lo_SetTargetShardID_def)
  have "\<not> lo_deleted ob" using sp(4) by (auto simp: lm_live_def split: option.splits if_splits)
  then have "lm_logged E l' (lm_SetTargetShardID E a i l)"
    unfolding eq using sp(3,4,5)
    by (intro lm_write_logged [where g = "lo_setTargetShardID (TargetShardID (lo_data ob))"])
      (auto simp: lm_revert_entry_eqs lo_setTargetShardID_def)
  with sp(1) show "lm_logged E l (lm_SetTargetShardID E a i l)" by (rule lmlog.logged_trans)
  show "lm_inv (lm_SetTargetShardID E a i l)"
    unfolding eq using sp(2) by (intro lm_write_inv lm_append_inv) auto
qed

lemma lm_Suicide_step:
  assumes "lm_inv l"
  shows "lm_logged E l (snd (lm_Suicide E a l))" and "lm_inv (snd (lm_Suicide E a l))"
proof -
  let ?f = "\<lambda>ob. lo_setTargetShardID IniShardID (lo_markSuicided ob)"
  have inv: "lm_inv (lm_loaded E a l)" using assms by (rule lm_loaded_inv)
  have "lm_logged E (lm_loaded E a l) (lm_write a ?f
      (lm_append (lm_suicideChange a (lo_suicided ob) (lo_TargetShardID ob)) (lm_loaded E a l)))"
    if live: "lm_live E l a = Some ob" for ob
    using lm_live_cached [OF live] live inv
    by (intro lm_write_logged [where
          g = "\<lambda>o'. lo_setTargetShardID (lo_TargetShardID ob) (o'\<lparr>lo_suicided := lo_suicided ob\<rparr>)"])
      (auto simp: lm_revert_entry_eqs lo_setTargetShardID_def lo_markSuicided_def
        lo_TargetShardID_def lm_inv_def)
  then show "lm_logged E l (snd (lm_Suicide E a l))"
    using lm_loaded_logged [of E l a]
    by (auto simp: lm_Suicide_def lm_get_eq split: option.split
        intro: lmlog.logged_trans [OF lm_loaded_logged])
  show "lm_inv (snd (lm_Suicide E a l))"
    using inv by (auto simp: lm_Suicide_def lm_get_eq lo_markSuicided_def split: option.split
        intro!: lm_write_inv lm_append_inv)
qed

lemma lm_AddLog_step:
  assumes "lm_inv l"
  shows "lm_logged E l (lm_AddLog lg l)" and "lm_inv (lm_AddLog lg l)"
proof -
  let ?l' = "lm_AddLog lg l"
  define lg' where "lg' = lg\<lparr>log_TxHash := lm_thash l, log_BlockHash := lm_bhash l,
    log_TxIndex := word_of_int (lm_txIndex l), log_Index := lm_logSize l\<rparr>"
  have logs: "lm_GetLogs h ?l' =
      (if h = lm_thash l then lm_GetLogs h l @ [lg'] else lm_GetLogs h l)" for h
    by (simp add: lm_AddLog_def lm_GetLogs_def Let_def lg'_def)
  have sel: "lm_frame ?l' = lm_frame l" "loadMapObjects ?l' = loadMapObjects l"
    "loadMapObjectsPending ?l' = loadMapObjectsPending l" "lm_logSize ?l' = lm_logSize l + 1"
    "loadMapObjectsDirty ?l' = loadMapObjectsDirty l"
    "entries (lm_journal ?l') = entries (lm_journal l) @ [lm_addLogChange (lm_thash l)]"
    by (simp_all add: lm_AddLog_def lm_frame_def Let_def lm_append_def)
  have "lm_sim E (lm_unlog (lm_thash l) ?l') l"
    by (rule lm_simI) (simp_all add: sel logs lm_GetLogs_unlog)
  then show "lm_logged E l ?l'"
    by (intro lm_logged1 [where e = "lm_addLogChange (lm_thash l)"])
      (simp_all add: sel logs lm_revert_entry_eqs)
  show "lm_inv ?l'" using assms by (simp add: lm_inv_def lm_scheduled_def sel)
qed

lemma lm_step_ok:
  assumes "lm_inv l" and "lm_step E x l = Some l'"
  shows "lm_inv l' \<and> lm_logged E l l'"
proof (cases x)
  case (LmSetTargetShardID a i)
  with assms show ?thesis using lm_SetTargetShardID_step [OF assms(1)] by auto
next
  case (LmCreateMapAccount a)
  with assms show ?thesis
    using lm_replaced_logged [OF assms(1)] lm_replaced_inv [OF assms(1)]
    by (auto simp: lm_CreateMapAccount_eq)
next
  case (LmSuicide a)
  with assms show ?thesis using lm_Suicide_step [OF assms(1)] by auto
next
  case (LmAddLog lg)
  with assms show ?thesis using lm_AddLog_step [OF assms(1)] by auto
qed (use assms lm_loaded_logged lm_loaded_inv [OF assms(1)] in \<open>auto simp: lm_read_eq\<close>)

lemma lm_step_revisions:
  assumes "lm_step E x l = Some l'"
  shows "lm_validRevisions l' = lm_validRevisions l" and "lm_nextRevisionId l' = lm_nextRevisionId l"
  using assms
  by (cases x; auto simp: lm_CreateMapAccount_eq lm_read_eq lm_SetTargetShardID_def lm_GetOrNew_eq
      lo_SetTargetShardID_def lm_Suicide_def lm_get_eq lm_AddLog_def Let_def split: option.splits)+

interpretation lmdb: snapshot_store "lm_undo1 E" "\<lambda>l. entries (lm_journal l)" lm_truncate "lm_sim E"
    lm_inv lm_validRevisions lm_nextRevisionId lm_set_revisions lm_Snapshot "lm_RevertToSnapshot E"
    "lm_step E"
  for E :: "('d, 'tr) lm_env"
proof
  have set: "lm_sim E (lm_set_revisions rs s) s" "lm_inv (lm_set_revisions rs s) = lm_inv s" for rs s
    by (auto simp: lm_set_revisions_def lm_frame_def lm_inv_def lm_scheduled_def
        intro!: lm_sim_peekI ext lm_peek_cong)
  have snap: "lm_sim E (snd (lm_Snapshot s)) s" "lm_inv (snd (lm_Snapshot s)) = lm_inv s" for s
    by (auto simp: lm_Snapshot_def lm_frame_def lm_inv_def lm_scheduled_def Let_def
        intro!: lm_sim_peekI ext lm_peek_cong)
  show "lm_validRevisions s' = lm_validRevisions s \<and> lm_nextRevisionId s' = lm_nextRevisionId s"
    if "lm_undo1 E e s = Some s'" for e s s'
    using that lm_revert_entry_frame(4,5) by (fastforce simp: lm_undo1_Some)
  show "lm_validRevisions (lm_truncate n s) = lm_validRevisions s
      \<and> lm_nextRevisionId (lm_truncate n s) = lm_nextRevisionId s" for n s
    by (simp add: lm_truncate_def)
  show "lm_validRevisions (lm_set_revisions rs s) = rs
      \<and> lm_nextRevisionId (lm_set_revisions rs s) = lm_nextRevisionId s
      \<and> entries (lm_journal (lm_set_revisions rs s)) = entries (lm_journal s)
      \<and> lm_sim E (lm_set_revisions rs s) s \<and> lm_inv (lm_set_revisions rs s) = lm_inv s" for rs s
    using set by (simp add: lm_set_revisions_def)
  show "fst (lm_Snapshot s) = lm_nextRevisionId s" for s :: "('d, 'tr) LoadMapDB"
    by (simp add: lm_Snapshot_def Let_def)
  show "lm_validRevisions (snd (lm_Snapshot s)) = lm_validRevisions s
      @ [\<lparr>rev_id = lm_nextRevisionId s, journalIndex = length (entries (lm_journal s))\<rparr>]"
    for s :: "('d, 'tr) LoadMapDB"
    by (simp add: lm_Snapshot_def Let_def journal_length_def)
  show "lm_nextRevisionId (snd (lm_Snapshot s)) = Suc (lm_nextRevisionId s)"
      "entries (lm_journal (snd (lm_Snapshot s))) = entries (lm_journal s)"
    for s :: "('d, 'tr) LoadMapDB"
    by (simp_all add: lm_Snapshot_def Let_def)
  show "lm_sim E (snd (lm_Snapshot s)) s" "lm_inv s \<Longrightarrow> lm_inv (snd (lm_Snapshot s))" for s
    using snap by auto
  show "lm_RevertToSnapshot E i s = (case find_revision (lm_validRevisions s) i of None \<Rightarrow> None
      | Some idx \<Rightarrow> let n = journalIndex (lm_validRevisions s ! idx) in
          map_option (\<lambda>t. lm_set_revisions (take idx (lm_validRevisions s)) (lm_truncate n t))
            (undo_entries (lm_undo1 E) (rev (drop n (entries (lm_journal s)))) s))" for i s
    by (simp add: lm_RevertToSnapshot_def lm_journal_revert_def option.map_comp comp_def Let_def
        split: option.split)
  show "lm_inv s'" "lm_logged E s s'" if "lm_inv s" "lm_step E x s = Some s'" for s x s'
    using lm_step_ok [OF that] by auto
  show "lm_validRevisions s' = lm_validRevisions s \<and> lm_nextRevisionId s' = lm_nextRevisionId s"
    if "lm_inv s" "lm_step E x s = Some s'" for s x s'
    using lm_step_revisions [OF that(2)] by auto
qed

text \<open>The dirty counts of the load map's journal are exact for every address.\<close>

abbreviation lm_exact :: "('d, 'tr) LoadMapDB \<Rightarrow> bool" where
  "lm_exact l \<equiv> journal_exact lm_dirtied {} (lm_journal l)"

lemma lm_append_exact [simp]: "lm_exact l \<Longrightarrow> lm_exact (lm_append e l)"
  by (simp add: lm_append_def)

lemma lm_replaced_exact: "lm_exact l \<Longrightarrow> lm_exact (lm_replaced E ob l)"
  by (simp add: lm_replaced_def lm_append_def)

lemma lm_GetOrNew_exact: "lm_GetOrNewLoadMapObject E a l = (ob, l') \<Longrightarrow> lm_exact l \<Longrightarrow> lm_exact l'"
  using lm_replaced_exact [of "lm_loaded E a l"] by (auto simp: lm_GetOrNew_eq split: option.splits)

lemma lm_step_exact:
  assumes "lm_step E x l = Some l'" and "lm_exact l"
  shows "lm_exact l'"
proof (cases x)
  case (LmSetTargetShardID a i)
  obtain ob m where "lm_GetOrNewLoadMapObject E a l = (ob, m)" by fastforce
  with LmSetTargetShardID assms lm_GetOrNew_exact [of E a l ob m] show ?thesis
    by (auto simp: lm_SetTargetShardID_def lo_SetTargetShardID_def lm_append_def)
next
  case (LmAddLog lg)
  with assms show ?thesis
    by (auto simp: lm_AddLog_def lm_append_def Let_def)
qed (use assms in \<open>auto simp: lm_CreateMapAccount_eq lm_read_eq lm_Suicide_def lm_get_eq lm_append_def
    lm_replaced_exact split: option.splits\<close>)

interpretation lmjournal: journalled_store "lm_undo1 E" "\<lambda>l. entries (lm_journal l)" lm_truncate "lm_sim E"
    lm_inv lm_validRevisions lm_nextRevisionId lm_set_revisions lm_Snapshot "lm_RevertToSnapshot E"
    "lm_step E" lm_journal lm_dirtied "{}"
  for E :: "('d, 'tr) lm_env"
proof
  show "dirties (lm_journal s') = dirties (journal_undirty lm_dirtied e (lm_journal s))"
    if "lm_undo1 E e s = Some s'" for e s s'
    using that lm_revert_entry_frame(2) by (fastforce simp: lm_undo1_Some)
  show "lm_exact s'" if "lm_inv s" "lm_exact s" "lm_step E x s = Some s'" for s x s'
    using lm_step_exact [OF that(3,2)] .
qed (simp_all add: lm_truncate_def lm_set_revisions_def lm_Snapshot_def Let_def)

end
