(* ===== verification/Load_Map_Props.thy ===== *)
theory Load_Map_Props
  imports Load_Map_Undo
begin

text \<open>
  The load map from the outside: the databases that can be reached through its methods,
  the invariant that holds in all of them, and what the methods do to the mapping.
\<close>

section \<open>Reachable databases\<close>

inductive lm_reachable :: "('d, 'tr) lm_env \<Rightarrow> ('d, 'tr) LoadMapDB \<Rightarrow> bool" for E where
  lm_new: "lm_New E root db = Inr l \<Longrightarrow> lm_reachable E l"
| lm_op: "lm_reachable E l \<Longrightarrow> lm_step E x l = Some l' \<Longrightarrow> lm_reachable E l'"
| lm_snapshot: "lm_reachable E l \<Longrightarrow> lm_reachable E (snd (lm_Snapshot l))"
| lm_revert: "lm_reachable E l \<Longrightarrow> lm_RevertToSnapshot E i l = Some l' \<Longrightarrow> lm_reachable E l'"
| lm_finalise: "lm_reachable E l \<Longrightarrow> lm_reachable E (lm_Finalise b l)"
| lm_root: "lm_reachable E l \<Longrightarrow> lm_IntermediateRoot E b l = Some (h, l') \<Longrightarrow> lm_reachable E l'"
| lm_commit: "lm_reachable E l \<Longrightarrow> lm_Commit E b l = Some (r, l') \<Longrightarrow> lm_reachable E l'"
| lm_reset: "lm_reachable E l \<Longrightarrow> lm_Reset E root l = (r, l') \<Longrightarrow> lm_reachable E l'"
| lm_copy: "lm_reachable E l \<Longrightarrow> lm_Copy E l = Some l' \<Longrightarrow> lm_reachable E l'"

text \<open>The part of the invariant that does not mention the journal.\<close>

definition lm_inv0 :: "('d, 'tr) LoadMapDB \<Rightarrow> bool" where
  "lm_inv0 l \<longleftrightarrow> (\<forall>a ob. gm_get (loadMapObjects l) a = Some ob \<longrightarrow> lo_address ob = a)
     \<and> (\<forall>a \<in> lm_scheduled l. gm_get (loadMapObjects l) a \<noteq> None)"

lemma lm_inv_inv0: "lm_inv l \<Longrightarrow> lm_inv0 l"
  by (simp add: lm_inv_def lm_inv0_def)

lemma lm_inv0_inv: "lm_inv0 l \<Longrightarrow> entries (lm_journal l) = [] \<Longrightarrow> lm_inv l"
  by (simp add: lm_inv_def lm_inv0_def)

lemma lm_clear_sel [simp]:
  "loadMapObjects (lm_clearJournalAndRefund l) = loadMapObjects l"
  "loadMapObjectsPending (lm_clearJournalAndRefund l) = loadMapObjectsPending l"
  "loadMapObjectsDirty (lm_clearJournalAndRefund l) = loadMapObjectsDirty l"
  "entries (lm_journal (lm_clearJournalAndRefund l)) = []"
  "lm_validRevisions (lm_clearJournalAndRefund l) = []"
  "lm_trie (lm_clearJournalAndRefund l) = lm_trie l"
  by (simp_all add: lm_clearJournalAndRefund_def Let_def)

lemma lm_clear_inv: "lm_inv0 l \<Longrightarrow> lm_inv (lm_clearJournalAndRefund l)"
  by (rule lm_inv0_inv) (simp_all add: lm_inv0_def lm_scheduled_def)

lemma lm_finalise1_inv0: "lm_inv0 l \<Longrightarrow> lm_inv0 (lm_finalise1 b a l)"
  by (auto simp: lm_inv0_def lm_finalise1_def Let_def lm_scheduled_def lm_write_objects
      split: option.splits if_splits)

lemma lm_Finalise_inv: "lm_inv0 l \<Longrightarrow> lm_inv (lm_Finalise b l)"
  unfolding lm_Finalise_def
  by (rule lm_clear_inv, rule fold_invariant [where Q = "\<lambda>_. True"]) (auto intro: lm_finalise1_inv0)

lemma lm_flush1_sel:
  assumes "lm_flush1 E a l = Some l'"
  shows "loadMapObjects l' = loadMapObjects l" "loadMapObjectsPending l' = loadMapObjectsPending l"
    "loadMapObjectsDirty l' = loadMapObjectsDirty l" "lm_journal l' = lm_journal l"
    "lm_validRevisions l' = lm_validRevisions l" "lm_nextRevisionId l' = lm_nextRevisionId l"
  using assms
  by (auto simp: lm_flush1_def lm_deleteLoadMapObject_def lm_updateLoadMapObject_def
      split: option.splits if_splits sum.splits prod.splits)

definition lm_same_objects :: "('d, 'tr) LoadMapDB \<Rightarrow> ('d, 'tr) LoadMapDB \<Rightarrow> bool" where
  "lm_same_objects l l' \<longleftrightarrow> loadMapObjects l' = loadMapObjects l
     \<and> loadMapObjectsPending l' = loadMapObjectsPending l
     \<and> loadMapObjectsDirty l' = loadMapObjectsDirty l \<and> lm_journal l' = lm_journal l
     \<and> lm_validRevisions l' = lm_validRevisions l \<and> lm_nextRevisionId l' = lm_nextRevisionId l"

lemma lm_flush_sel: "range_loop (lm_flush1 E) as l = Some l' \<Longrightarrow> lm_same_objects l l'"
  by (erule range_loop_inv) (auto simp: lm_same_objects_def lm_flush1_sel)

lemma lm_IntermediateRoot_inv:
  assumes "lm_inv0 l" and "lm_IntermediateRoot E b l = Some (h, l')"
  shows "lm_inv l'" and "lm_validRevisions l' = []"
proof -
  obtain m where m: "range_loop (lm_flush1 E) (loadMapObjectsPending (lm_Finalise b l))
      (lm_Finalise b l) = Some m" "l' = m\<lparr>loadMapObjectsPending := []\<rparr>"
    using assms(2) by (auto simp: lm_IntermediateRoot_def Let_def)
  note same = lm_flush_sel [OF m(1), unfolded lm_same_objects_def]
  have "lm_inv (lm_Finalise b l)" using assms(1) by (rule lm_Finalise_inv)
  then show "lm_inv l'"
    using same m(2) by (intro lm_inv0_inv) (auto simp: lm_inv_def lm_inv0_def lm_scheduled_def lm_Finalise_def)
  show "lm_validRevisions l' = []" using same m(2) by (simp add: lm_Finalise_def)
qed

lemma lm_Commit_inv:
  assumes "lm_inv l" and "revisions_ok (lm_validRevisions l) (lm_nextRevisionId l)"
    and "lm_Commit E b l = Some (r, l')"
  shows "lm_inv l' \<and> revisions_ok (lm_validRevisions l') (lm_nextRevisionId l')"
proof (cases "lm_dbErr l")
  case None
  then obtain h m where m: "lm_IntermediateRoot E b l = Some (h, m)"
      and l': "l' = m\<lparr>loadMapObjectsDirty := [], lm_trie := lm_trie l', lm_db := lm_db l'\<rparr>"
    using assms(3) by (auto simp: lm_Commit_def split: option.splits prod.splits)
  have "lm_inv m" "lm_validRevisions m = []"
    using lm_IntermediateRoot_inv [OF lm_inv_inv0 [OF assms(1)] m] by auto
  then show ?thesis by (subst l', subst (2 3) l') (auto simp: lm_inv_def lm_scheduled_def
      elim!: lm_entry_ok.elims)
qed (use assms in \<open>auto simp: lm_Commit_def\<close>)

text \<open>\<open>Copy\<close>: every object of the copy is a \<open>deepCopy\<close> of the source's object.\<close>

definition lm_copies :: "('d, 'tr) lm_env \<Rightarrow> ('d, 'tr) LoadMapDB \<Rightarrow> ('d, 'tr) LoadMapDB \<Rightarrow> bool" where
  "lm_copies E l c \<longleftrightarrow> (\<forall>a ob. gm_get (loadMapObjects c) a = Some ob \<longrightarrow>
       (\<exists>p. gm_get (loadMapObjects l) a = Some p \<and> ob = lo_deepCopy E p))
     \<and> (\<forall>a \<in> lm_scheduled c. gm_get (loadMapObjects c) a \<noteq> None)
     \<and> lm_journal c = newJournal \<and> lm_validRevisions c = [] \<and> lm_trie c = lm_trie l"

lemma lm_copies_journalled: "lm_copies E l c \<Longrightarrow> lm_copies E l (lm_copy_journalled E l a c)"
  by (auto simp: lm_copies_def lm_copy_journalled_def lm_scheduled_def split: option.splits if_splits)

lemma lm_copies_pending:
  "lm_copies E l c \<Longrightarrow> lm_copy_pending E l a c = Some c' \<Longrightarrow> lm_copies E l c'"
  by (auto simp: lm_copies_def lm_copy_pending_def lm_scheduled_def split: option.splits if_splits)

lemma lm_copies_dirty:
  "lm_copies E l c \<Longrightarrow> lm_copy_dirty E l a c = Some c' \<Longrightarrow> lm_copies E l c'"
  by (auto simp: lm_copies_def lm_copy_dirty_def lm_scheduled_def split: option.splits if_splits)

definition lm_copy_start :: "('d, 'tr) LoadMapDB \<Rightarrow> ('d, 'tr) LoadMapDB" where
  "lm_copy_start l = \<lparr>lm_db = lm_db l, lm_trie = lm_trie l, loadMapObjects = [],
     loadMapObjectsPending = [], loadMapObjectsDirty = [], lm_dbErr = None,
     lm_refund = lm_refund l, lm_thash = 0, lm_bhash = 0, lm_rhash = 0, lm_txIndex = 0,
     lm_logs = [], lm_logSize = lm_logSize l, lm_journal = newJournal,
     lm_validRevisions = [], lm_nextRevisionId = 0\<rparr>"

lemma lm_copies_start:
  "lm_copies E l (fold (lm_copy_journalled E l) as (lm_copy_start l))"
proof (rule fold_invariant [where Q = "\<lambda>_. True"])
  show "lm_copies E l (lm_copy_start l)"
    by (simp add: lm_copies_def lm_copy_start_def lm_scheduled_def)
qed (auto intro: lm_copies_journalled)

lemma lm_Copy_copies:
  assumes "lm_Copy E l = Some c"
  shows "lm_copies E l c"
proof -
  let ?c0 = "fold (lm_copy_journalled E l) (gm_keys (dirties (lm_journal l))) (lm_copy_start l)"
  obtain c1 c2 where
    c1: "range_loop (lm_copy_pending E l) (loadMapObjectsPending l) ?c0 = Some c1" and
    c2: "range_loop (lm_copy_dirty E l) (loadMapObjectsDirty l) c1 = Some c2" and
    c: "c = c2\<lparr>lm_logs := lm_logs l\<rparr>"
    using assms
    by (auto simp: lm_Copy_def lm_copy_start_def Let_def bind_eq_Some_conv)
  have "lm_copies E l c1"
    by (rule range_loop_inv [where P = "lm_copies E l", OF c1 lm_copies_start]) (rule lm_copies_pending)
  then have "lm_copies E l c2"
    by (rule range_loop_inv [where P = "lm_copies E l", OF c2]) (rule lm_copies_dirty)
  then show ?thesis by (simp add: c lm_copies_def lm_scheduled_def)
qed

lemma lm_copies_inv: "lm_inv l \<Longrightarrow> lm_copies E l c \<Longrightarrow> lm_inv c"
  by (rule lm_inv0_inv)
    (fastforce simp: lm_inv0_def lm_inv_def lm_copies_def lo_deepCopy_def lm_newObject_def Let_def)+

lemma lm_reachable_inv:
  "lm_reachable E l \<Longrightarrow> lm_inv l \<and> revisions_ok (lm_validRevisions l) (lm_nextRevisionId l)"
proof (induction rule: lm_reachable.induct)
  case (lm_new root db l)
  then show ?case by (auto simp: lm_New_def lm_inv_def lm_scheduled_def split: sum.splits)
next
  case (lm_op l x l')
  then show ?case using lm_step_ok [of l E x l'] lm_step_revisions [of E x l l'] by auto
next
  case (lm_snapshot l)
  then show ?case using lmdb.snap_inv [of l] lmdb.snap_revs_ok [of l] by auto
next
  case (lm_revert l i l')
  then show ?case using lmdb.revert_inv [of l E i l'] by auto
next
  case (lm_finalise l b)
  then show ?case using lm_Finalise_inv lm_inv_inv0 by (auto simp: lm_Finalise_def)
next
  case (lm_root l b h l')
  then show ?case using lm_IntermediateRoot_inv [of l E b h l'] lm_inv_inv0 by auto
next
  case (lm_commit l b r l')
  then show ?case using lm_Commit_inv by blast
next
  case (lm_reset l root r l')
  then show ?case
    by (auto simp: lm_Reset_def intro!: lm_clear_inv split: sum.splits)
      (auto simp: lm_inv0_def lm_scheduled_def)
next
  case (lm_copy l l')
  then show ?case
    using lm_copies_inv [OF _ lm_Copy_copies] lm_Copy_copies [of E l l'] by (auto simp: lm_copies_def)
qed

text \<open>The dirty counts are exact in every reachable database.\<close>

lemma lm_clear_exact: "lm_exact l \<Longrightarrow> lm_exact (lm_clearJournalAndRefund l)"
  by (auto simp: lm_clearJournalAndRefund_def Let_def)

lemma lm_Finalise_exact: "lm_exact l \<Longrightarrow> lm_exact (lm_Finalise b l)"
  unfolding lm_Finalise_def
  by (rule lm_clear_exact, rule fold_invariant [where Q = "\<lambda>_. True"])
    (auto simp: lm_finalise1_def Let_def split: option.split)

lemma lm_IntermediateRoot_exact:
  assumes "lm_IntermediateRoot E b l = Some (h, l')" and "lm_exact l"
  shows "lm_exact l'"
proof -
  obtain m where "range_loop (lm_flush1 E) (loadMapObjectsPending (lm_Finalise b l)) (lm_Finalise b l) = Some m"
      "l' = m\<lparr>loadMapObjectsPending := []\<rparr>"
    using assms(1) by (auto simp: lm_IntermediateRoot_def Let_def)
  with lm_flush_sel lm_Finalise_exact [OF assms(2)] show ?thesis by (fastforce simp: lm_same_objects_def)
qed

lemma lm_Commit_exact: "lm_Commit E b l = Some (r, l') \<Longrightarrow> lm_exact l \<Longrightarrow> lm_exact l'"
  using lm_IntermediateRoot_exact
  by (fastforce simp: lm_Commit_def Let_def split: option.splits prod.splits)

lemma lm_reachable_exact: "lm_reachable E l \<Longrightarrow> lm_exact l"
proof (induction rule: lm_reachable.induct)
  case (lm_new root db l)
  then show ?case by (auto simp: lm_New_def split: sum.splits)
next
  case (lm_op l x l')
  then show ?case using lm_step_exact by blast
next
  case (lm_snapshot l)
  then show ?case using lmjournal.snap_exact by blast
next
  case (lm_revert l i l')
  then show ?case using lmjournal.revert_exact by blast
next
  case (lm_reset l root r l')
  then show ?case by (auto simp: lm_Reset_def intro!: lm_clear_exact split: sum.splits)
next
  case (lm_copy l l')
  then show ?case using lm_Copy_copies [of E l l'] by (simp add: lm_copies_def)
qed (blast intro: lm_Finalise_exact lm_IntermediateRoot_exact lm_Commit_exact)+

section \<open>Snapshots\<close>

text \<open>(C13) In every database that can be reached through the load map's methods: take a
  snapshot, run any methods, keep or revert any properly nested snapshots, then revert to the
  snapshot. The revert does not panic, every lookup, the logs and the scheduled writes are as
  they were, and the journal, both its entries and its dirty counts, and the list of revisions
  are the ones before the snapshot.\<close>

theorem lm_revert_to_snapshot_restores:
  assumes "lm_reachable E l" and "lm_Snapshot l = (i, u)"
    and "nested (lm_step E) lm_Snapshot (lm_RevertToSnapshot E) u v"
  shows "\<exists>w. lm_RevertToSnapshot E i v = Some w \<and> lm_sim E w l
    \<and> entries (lm_journal w) = entries (lm_journal l)
    \<and> gm_get (dirties (lm_journal w)) = gm_get (dirties (lm_journal l))
    \<and> lm_validRevisions w = lm_validRevisions l"
proof -
  note r = lm_reachable_inv [OF assms(1)]
  obtain w where w: "lm_RevertToSnapshot E i v = Some w" "lm_sim E w l"
      "entries (lm_journal w) = entries (lm_journal l)" "lm_validRevisions w = lm_validRevisions l"
    using lmdb.revert_restores [of l i u E v] r assms(2,3) by blast
  with lmjournal.revert_dirties [OF _ _ lm_reachable_exact [OF assms(1)] assms(2,3) w(1)] r show ?thesis
    by auto
qed

section \<open>The mapping\<close>

text \<open>\<open>lm_obj\<close> is the object a method works on, the live one or a fresh one.\<close>

definition lm_obj :: "('d, 'tr) lm_env \<Rightarrow> ('d, 'tr) LoadMapDB \<Rightarrow> address \<Rightarrow> loadMapObject" where
  "lm_obj E l a = (case lm_live E l a of Some ob \<Rightarrow> ob | None \<Rightarrow> lm_fresh E a)"

lemma lm_fresh_obj [simp]:
  "lo_TargetShardID (lm_fresh E a) = IniShardID" "\<not> lo_suicided (lm_fresh E a)" "\<not> lo_deleted (lm_fresh E a)"
  by (simp_all add: lm_fresh_def lo_setTargetShardID_def lo_TargetShardID_def lm_newObject_def Let_def)

lemma lm_GetTargetShardID_obj: "fst (lm_GetTargetShardID E a l) = lo_TargetShardID (lm_obj E l a)"
  by (simp add: lm_GetTargetShardID_def lm_get_eq lm_obj_def split: option.split)

lemma lm_obj_upd:
  assumes "lm_peek E l' = (lm_peek E l)(a := Some ob)" and "\<not> lo_deleted ob"
  shows "lm_obj E l' c = (if c = a then ob else lm_obj E l c)"
  using assms by (simp add: lm_obj_def lm_live_def)

lemma lm_SetTargetShardID_obj:
  assumes "lm_inv l"
  shows "lm_obj E (lm_SetTargetShardID E a i l) c =
    (if c = a then lo_setTargetShardID i (lm_obj E l a) else lm_obj E l c)"
proof -
  obtain ob l' where g: "lm_GetOrNewLoadMapObject E a l = (ob, l')" by fastforce
  note sp = lm_GetOrNew_spec [OF assms g]
  let ?m = "lm_append (lm_targetShardIDChange a (TargetShardID (lo_data ob))) l'"
  have eq: "lm_SetTargetShardID E a i l = lm_write a (lo_setTargetShardID i) ?m"
    using sp(5) by (simp add: lm_SetTargetShardID_def g lo_SetTargetShardID_def)
  have "lm_peek E (lm_SetTargetShardID E a i l) a = Some (lo_setTargetShardID i ob)"
    using sp(3) by (simp add: eq lm_peek_cached lm_write_objects)
  moreover have "lm_peek E (lm_SetTargetShardID E a i l) b = lm_peek E l b" if "b \<noteq> a" for b
  proof -
    have "lm_peek E (lm_SetTargetShardID E a i l) b = lm_peek E l' b"
      unfolding eq by (rule lm_peek_cong) (simp_all add: lm_write_objects that)
    also have "\<dots> = lm_peek E l b"
      using g that by (auto simp: lm_GetOrNew_eq split: option.splits)
    finally show ?thesis .
  qed
  ultimately have "lm_peek E (lm_SetTargetShardID E a i l) = (lm_peek E l)(a := Some (lo_setTargetShardID i ob))"
    by (simp add: fun_eq_iff)
  moreover have "ob = lm_obj E l a" using g by (simp add: lm_GetOrNew_eq lm_obj_def split: option.splits)
  moreover have "\<not> lo_deleted ob" using sp(4) by (auto simp: lm_live_def split: option.splits if_splits)
  ultimately show ?thesis using lm_obj_upd by fastforce
qed

text \<open>In a reachable database \<open>SetTargetShardID\<close> makes \<open>GetTargetShardID\<close> of the
  address return the new shard and of every other address what it returned before.\<close>

lemma lm_get_set_target:
  assumes "lm_reachable E l"
  shows "fst (lm_GetTargetShardID E b (lm_SetTargetShardID E a i l)) =
    (if b = a then i else fst (lm_GetTargetShardID E b l))"
  using lm_reachable_inv [OF assms] by (simp add: lm_GetTargetShardID_obj lm_SetTargetShardID_obj)

text \<open>
  Objects read back from the trie, and copies of objects, lose the shard they map to:
  \<open>newObject\<close> overwrites \<open>TargetShardID\<close> with \<open>IniShardID\<close> whatever account it is given.
\<close>

lemma lm_newObject_target [simp]: "lo_TargetShardID (lm_newObject E a data) = IniShardID"
  by (simp add: lm_newObject_def lo_TargetShardID_def Let_def)

lemma lo_deepCopy_target [simp]: "lo_TargetShardID (lo_deepCopy E ob) = IniShardID"
  by (simp add: lo_deepCopy_def lm_newObject_def lo_TargetShardID_def Let_def)

lemma lm_peek_uncached_target:
  "gm_get (loadMapObjects l) a = None \<Longrightarrow> lm_peek E l a = Some ob \<Longrightarrow>
    lo_TargetShardID ob = IniShardID"
  by (auto simp: lm_peek_def lm_getDeletedLoadMapObject_def Let_def
      split: option.splits prod.splits sum.splits if_splits)

lemma lm_GetTargetShardID_ini:
  assumes "\<And>ob. gm_get (loadMapObjects l) a = Some ob \<Longrightarrow> lo_TargetShardID ob = IniShardID"
  shows "fst (lm_GetTargetShardID E a l) = IniShardID"
proof -
  have "lo_TargetShardID ob = IniShardID" if "lm_peek E l a = Some ob" for ob
    using that assms lm_peek_cached [of l a _ E] lm_peek_uncached_target [of l a E ob]
    by (cases "gm_get (loadMapObjects l) a") auto
  then show ?thesis
    by (auto simp: lm_GetTargetShardID_def lm_get_eq lm_live_def split: option.splits)
qed

text \<open>(C32) A database opened at any root over any trie answers \<open>IniShardID\<close> for every
  address: a mapping that was committed is not found again after a reload.\<close>

theorem lm_reload_forgets_mapping:
  assumes "lm_New E root db = Inr l"
  shows "fst (lm_GetTargetShardID E a l) = IniShardID"
  using assms by (intro lm_GetTargetShardID_ini) (auto simp: lm_New_def split: sum.splits)

text \<open>In a copy of a database every address maps to \<open>IniShardID\<close>, although \<open>Copy\<close> is
  meant to carry over the changes that are not yet committed.\<close>

lemma lm_copy_forgets_mapping:
  assumes "lm_Copy E l = Some c"
  shows "fst (lm_GetTargetShardID E a c) = IniShardID"
proof (rule lm_GetTargetShardID_ini)
  fix ob assume "gm_get (loadMapObjects c) a = Some ob"
  with lm_Copy_copies [OF assms] obtain p where "ob = lo_deepCopy E p"
    unfolding lm_copies_def by blast
  then show "lo_TargetShardID ob = IniShardID" by simp
qed

section \<open>Finalising and writing to the trie\<close>

text \<open>What \<open>Finalise\<close> does to the object at one address.\<close>

definition lm_finalised :: "bool \<Rightarrow> loadMapObject \<Rightarrow> loadMapObject" where
  "lm_finalised b ob = (if lo_suicided ob \<or> (b \<and> lo_empty ob) then ob\<lparr>lo_deleted := True\<rparr> else ob)"

lemma lm_finalised_idem [simp]: "lm_finalised b (lm_finalised b ob) = lm_finalised b ob"
  by (simp add: lm_finalised_def lo_empty_def)

lemma lm_finalise1_objects:
  "gm_get (loadMapObjects (lm_finalise1 b a l)) c =
     (if c = a then map_option (lm_finalised b) (gm_get (loadMapObjects l) a)
      else gm_get (loadMapObjects l) c)"
  by (auto simp: lm_finalise1_def lm_finalised_def Let_def lm_write_objects split: option.splits)

lemma lm_finalise1_pending:
  "set (loadMapObjectsPending (lm_finalise1 b a l)) =
     set (loadMapObjectsPending l) \<union> (if gm_get (loadMapObjects l) a = None then {} else {a})"
  by (auto simp: lm_finalise1_def Let_def split: option.splits)

lemma lm_finalise_fold_objects:
  "gm_get (loadMapObjects (fold (lm_finalise1 b) as l)) c =
     (if c \<in> set as then map_option (lm_finalised b) (gm_get (loadMapObjects l) c)
      else gm_get (loadMapObjects l) c)"
  by (induction as arbitrary: l) (auto simp: lm_finalise1_objects option.map_comp comp_def)

lemma lm_finalise_fold_pending:
  "set (loadMapObjectsPending (fold (lm_finalise1 b) as l)) =
     set (loadMapObjectsPending l) \<union> {a \<in> set as. gm_get (loadMapObjects l) a \<noteq> None}"
  by (induction as arbitrary: l) (auto simp: lm_finalise1_objects lm_finalise1_pending split: if_splits)

lemma lm_Finalise_objects:
  "gm_get (loadMapObjects (lm_Finalise b l)) a =
     (if a \<in> set (gm_keys (dirties (lm_journal l)))
      then map_option (lm_finalised b) (gm_get (loadMapObjects l) a)
      else gm_get (loadMapObjects l) a)"
  by (simp add: lm_Finalise_def lm_finalise_fold_objects)

text \<open>One write of the loop of \<open>IntermediateRoot\<close>, on a trie that stores what it is given.\<close>

definition lm_encodes :: "('d, 'tr) lm_env \<Rightarrow> bool" where
  "lm_encodes E \<longleftrightarrow> (\<forall>ob. \<exists>data. data \<noteq> [] \<and> EncodeLoadMapObject E ob = Inr data)"

definition lm_leaf :: "('d, 'tr) lm_env \<Rightarrow> loadMapObject \<Rightarrow> bytes" where
  "lm_leaf E ob = (if lo_deleted ob then [] else
     case EncodeLoadMapObject E ob of Inl _ \<Rightarrow> [] | Inr data \<Rightarrow> data)"

lemma lm_flush1_spec:
  assumes "trie_stores E" and "trie_total E" and "lm_encodes E"
    and "gm_get (loadMapObjects l) a = Some ob" and "lo_address ob = a"
  obtains l' where "lm_flush1 E a l = Some l'"
    and "\<And>k. TryGet E (lm_trie l') k = (if k = a then (lm_leaf E ob, None) else TryGet E (lm_trie l) k)"
proof (cases "lo_deleted ob")
  case True
  obtain tr where "TryDelete E (lm_trie l) a = (None, tr)"
    using assms(2) by (metis trie_total_def prod.collapse)
  moreover from this have "TryGet E tr k = (if k = a then ([], None) else TryGet E (lm_trie l) k)" for k
    using assms(1) by (simp add: trie_stores_def)
  ultimately show thesis
    using True assms(4,5)
    by (intro that [of "l\<lparr>lm_trie := tr\<rparr>"])
      (auto simp: lm_flush1_def lm_deleteLoadMapObject_def lm_leaf_def)
next
  case False
  obtain data where data: "data \<noteq> []" "EncodeLoadMapObject E ob = Inr data"
    using assms(3) by (metis lm_encodes_def)
  obtain tr where "TryUpdate E (lm_trie l) a data = (None, tr)"
    using assms(2) by (metis trie_total_def prod.collapse)
  moreover from this data have
    "TryGet E tr k = (if k = a then (data, None) else TryGet E (lm_trie l) k)" for k
    using assms(1) by (simp add: trie_stores_def)
  ultimately show thesis
    using False data assms(4,5)
    by (intro that [of "l\<lparr>lm_trie := tr\<rparr>"])
      (auto simp: lm_flush1_def lm_updateLoadMapObject_def lm_leaf_def)
qed

lemma lm_flush_spec:
  assumes "trie_stores E" and "trie_total E" and "lm_encodes E" and "lm_inv0 l"
    and "\<forall>a \<in> set as. gm_get (loadMapObjects l) a \<noteq> None"
  shows "\<exists>l'. range_loop (lm_flush1 E) as l = Some l' \<and> lm_same_objects l l' \<and>
    (\<forall>k. TryGet E (lm_trie l') k = (if k \<in> set as
       then (lm_leaf E (the (gm_get (loadMapObjects l) k)), None) else TryGet E (lm_trie l) k))"
  using assms(4,5)
proof (induction as arbitrary: l)
  case Nil
  then show ?case by (simp add: lm_same_objects_def)
next
  case (Cons a as)
  then obtain ob where ob: "gm_get (loadMapObjects l) a = Some ob" by auto
  with Cons.prems(1) have "lo_address ob = a" by (simp add: lm_inv0_def)
  from lm_flush1_spec [OF assms(1-3) ob this] obtain l1 where l1: "lm_flush1 E a l = Some l1"
      "\<And>k. TryGet E (lm_trie l1) k = (if k = a then (lm_leaf E ob, None) else TryGet E (lm_trie l) k)"
    by blast
  note sel = lm_flush1_sel [OF l1(1)]
  have "lm_inv0 l1" using Cons.prems(1) by (simp add: lm_inv0_def lm_scheduled_def sel)
  moreover have "\<forall>a \<in> set as. gm_get (loadMapObjects l1) a \<noteq> None" using Cons.prems(2) by (simp add: sel)
  ultimately obtain l' where "range_loop (lm_flush1 E) as l1 = Some l'" "lm_same_objects l1 l'"
      "\<forall>k. TryGet E (lm_trie l') k = (if k \<in> set as
         then (lm_leaf E (the (gm_get (loadMapObjects l1) k)), None) else TryGet E (lm_trie l1) k)"
    using Cons.IH by blast
  then show ?case
    using l1 ob by (intro exI [of _ l']) (auto simp: lm_same_objects_def sel)
qed

text \<open>(C25) \<open>IntermediateRoot\<close> of a reachable database returns, without a panic, the hash of a
  trie in which every object that was finalised since the last call has its encoding, or no
  entry if it was deleted, and every other address is unchanged; nothing stays pending. The
  trie is assumed to store what it is given and the encoding to succeed.\<close>

theorem lm_intermediate_root_writes:
  assumes "lm_reachable E l" and "trie_stores E" and "trie_total E" and "lm_encodes E"
  shows "\<exists>l'. lm_IntermediateRoot E b l = Some (TrieHash E (lm_trie l'), l')
    \<and> loadMapObjectsPending l' = []
    \<and> (\<forall>a. TryGet E (lm_trie l') a =
        (if a \<in> set (loadMapObjectsPending (lm_Finalise b l))
         then (lm_leaf E (the (gm_get (loadMapObjects (lm_Finalise b l)) a)), None)
         else TryGet E (lm_trie l) a))"
proof -
  have inv: "lm_inv0 l" using lm_reachable_inv [OF assms(1)] lm_inv_inv0 by blast
  let ?f = "lm_Finalise b l"
  have "lm_inv0 ?f" using lm_Finalise_inv [OF inv] by (rule lm_inv_inv0)
  moreover from this have "\<forall>a \<in> set (loadMapObjectsPending ?f). gm_get (loadMapObjects ?f) a \<noteq> None"
    by (simp add: lm_inv0_def lm_scheduled_def)
  ultimately obtain l' where l': "range_loop (lm_flush1 E) (loadMapObjectsPending ?f) ?f = Some l'"
      "\<forall>k. TryGet E (lm_trie l') k = (if k \<in> set (loadMapObjectsPending ?f)
         then (lm_leaf E (the (gm_get (loadMapObjects ?f) k)), None) else TryGet E (lm_trie ?f) k)"
    using lm_flush_spec [OF assms(2-4)] by blast
  have "lm_trie (fold (lm_finalise1 b) as l) = lm_trie l" for as
    by (induction as arbitrary: l) (auto simp: lm_finalise1_def Let_def split: option.split)
  then have "lm_trie ?f = lm_trie l" by (simp add: lm_Finalise_def)
  with l' show ?thesis
    by (intro exI [of _ "l'\<lparr>loadMapObjectsPending := []\<rparr>"]) (simp add: lm_IntermediateRoot_def Let_def)
qed

section \<open>A concrete load map\<close>

text \<open>An environment over association lists, in which the hypotheses above hold.\<close>

definition lm_demo_env :: "(unit, (address, bytes) gomap) lm_env" where
  "lm_demo_env = \<lparr>OpenTrie = (\<lambda>_ _. Inr [(9, [7])]),
     TryGet = (\<lambda>t k. (gm_getd [] t k, None)),
     TryUpdate = (\<lambda>t k v. (None, gm_set k v t)),
     TryDelete = (\<lambda>t k. (None, gm_del k t)),
     TrieHash = (\<lambda>t. of_nat (length t)),
     TrieCommit = (\<lambda>t f d. ((of_nat (length t), None), t, d)),
     Keccak256Address = ucast,
     EncodeLoadMapObject = (\<lambda>ob. Inr [ucast (lo_TargetShardID ob)]),
     DecodeMapAccount = (\<lambda>b. case b of [] \<Rightarrow> Inl ''EOF'' | x # _ \<Rightarrow> Inr \<lparr>TargetShardID = ucast x\<rparr>)\<rparr>"

definition lm_demo :: "(unit, (address, bytes) gomap) LoadMapDB" where
  "lm_demo = projr (lm_New lm_demo_env 0 ())"

lemma lm_demo_new: "lm_New lm_demo_env 0 () = Inr lm_demo"
  by (simp add: lm_demo_def lm_New_def lm_demo_env_def)

lemma lm_demo_reachable: "lm_reachable lm_demo_env lm_demo"
  by (rule lm_reachable.lm_new [OF lm_demo_new])

lemma lm_demo_laws: "trie_stores lm_demo_env" "trie_total lm_demo_env" "lm_encodes lm_demo_env"
  by (auto simp: trie_stores_def trie_total_def lm_encodes_def lm_demo_env_def)

theorem lm_revert_to_snapshot_restores_witness:
  "\<exists>w. lm_RevertToSnapshot lm_demo_env 0
      (lm_SetTargetShardID lm_demo_env 5 3 (snd (lm_Snapshot lm_demo))) = Some w
    \<and> lm_sim lm_demo_env w lm_demo \<and> entries (lm_journal w) = entries (lm_journal lm_demo)
    \<and> gm_get (dirties (lm_journal w)) = gm_get (dirties (lm_journal lm_demo))
    \<and> lm_validRevisions w = lm_validRevisions lm_demo"
proof -
  have "lm_Snapshot lm_demo = (0, snd (lm_Snapshot lm_demo))"
    by (simp add: lm_Snapshot_def lm_demo_def lm_New_def lm_demo_env_def Let_def)
  moreover have "nested (lm_step lm_demo_env) lm_Snapshot (lm_RevertToSnapshot lm_demo_env)
      (snd (lm_Snapshot lm_demo)) (lm_SetTargetShardID lm_demo_env 5 3 (snd (lm_Snapshot lm_demo)))"
    by (rule nested_step [OF nested_refl, where x = "LmSetTargetShardID 5 3"]) simp
  ultimately show ?thesis by (rule lm_revert_to_snapshot_restores [OF lm_demo_reachable])
qed

lemma lm_get_set_target_example:
  "fst (lm_GetTargetShardID lm_demo_env 5 (lm_SetTargetShardID lm_demo_env 5 3 lm_demo)) = 3"
  using lm_get_set_target [OF lm_demo_reachable, of 5 5 3] by simp

theorem lm_reload_forgets_mapping_witness:
  "DecodeMapAccount lm_demo_env (fst (TryGet lm_demo_env (lm_trie lm_demo) 9)) =
     Inr \<lparr>TargetShardID = 7\<rparr>
   \<and> fst (lm_GetTargetShardID lm_demo_env 9 lm_demo) = 5001"
proof
  show "DecodeMapAccount lm_demo_env (fst (TryGet lm_demo_env (lm_trie lm_demo) 9)) =
     Inr \<lparr>TargetShardID = 7\<rparr>"
    by (simp add: lm_demo_def lm_New_def lm_demo_env_def gm_getd_def)
  show "fst (lm_GetTargetShardID lm_demo_env 9 lm_demo) = 5001"
    using lm_reload_forgets_mapping [OF lm_demo_new, of 9] by (simp add: IniShardID_def)
qed

theorem lm_intermediate_root_writes_witness:
  "\<exists>l'. lm_IntermediateRoot lm_demo_env True lm_demo = Some (TrieHash lm_demo_env (lm_trie l'), l')
    \<and> loadMapObjectsPending l' = []"
  using lm_intermediate_root_writes [OF lm_demo_reachable lm_demo_laws, of True] by blast

end
