(* ===== verification/State_Object.thy ===== *)
theory State_Object
  imports Trie_Env
begin

text \<open>
  One account of the state, \<open>core/state/state_object.go\<close>: its consensus data, its cached
  contract code, the three layers of its storage cache above the storage trie, and the
  freeze flag that dynamic sharding adds. The methods here touch the object only; those
  that also write the journal are in the theory of the database.

  \<open>Account\<close> has pointers that are nil in the zero value \<open>Account{}\<close>; \<open>newObject\<close> replaces
  them. \<open>RawAccount\<close> is the Go type with the nil values, \<open>Account\<close> what an object holds.
  A nil slice of code is \<open>None\<close>. A nil storage trie is \<open>None\<close>, and a call on it panics.
\<close>

section \<open>Accounts and objects\<close>

record RawAccount =
  raw_Nonce :: u64
  raw_Balance :: "int option"
  raw_Root :: hash
  raw_CodeHash :: "bytes option"

record Account =
  acc_Nonce :: u64
  acc_Balance :: int
  acc_Root :: hash
  acc_CodeHash :: bytes

type_synonym Storage = "(hash, hash) gomap"

record 'tr Object =
  so_address :: address
  so_addrHash :: hash
  so_data :: Account
  so_freeze :: bool
  so_dbErr :: "error option"
  so_trie :: "'tr option"
  so_code :: "bytes option"
  so_originStorage :: Storage
  so_pendingStorage :: Storage
  so_dirtyStorage :: Storage
  so_fakeStorage :: "Storage option"
  so_dirtyCode :: bool
  so_suicided :: bool
  so_deleted :: bool

text \<open>
  The environment of the account state. It extends the trie interface with storage tries,
  whose keys are 32-byte slices, with contract code, the node database behind \<open>TrieDB()\<close>,
  Keccak, the RLP coding of accounts and storage values, and the validator wrapper \<open>'v\<close>
  with its sanity check and coding.
\<close>

record ('d, 'tr, 'v) sdb_env = "('d, 'tr) trie_env" +
  OpenStorageTrie :: "'d \<Rightarrow> hash \<Rightarrow> hash \<Rightarrow> error + 'tr"
  TryGetSlot :: "'tr \<Rightarrow> hash \<Rightarrow> bytes \<times> error option"
  TryUpdateSlot :: "'tr \<Rightarrow> hash \<Rightarrow> bytes \<Rightarrow> error option \<times> 'tr"
  TryDeleteSlot :: "'tr \<Rightarrow> hash \<Rightarrow> error option \<times> 'tr"
  ContractCode :: "'d \<Rightarrow> hash \<Rightarrow> hash \<Rightarrow> bytes option \<times> error option"
  ContractCodeSize :: "'d \<Rightarrow> hash \<Rightarrow> hash \<Rightarrow> int \<times> error option"
  InsertBlob :: "'d \<Rightarrow> hash \<Rightarrow> bytes \<Rightarrow> 'd"
  Reference :: "'d \<Rightarrow> hash \<Rightarrow> hash \<Rightarrow> 'd"
  Keccak256Hash :: "bytes \<Rightarrow> hash"
  EncodeAccount :: "Account \<Rightarrow> error + bytes"
  DecodeAccount :: "bytes \<Rightarrow> error + RawAccount"
  RlpSplit :: "bytes \<Rightarrow> bytes \<times> error option"
  RlpEncodeBytes :: "bytes \<Rightarrow> bytes"
  ValidatorSanityCheck :: "'v \<Rightarrow> error option"
  EncodeValidator :: "'v \<Rightarrow> error + bytes"
  DecodeValidator :: "bytes \<Rightarrow> error + 'v"

definition emptyRoot :: hash where
  "emptyRoot = 0x56e81f171bcc55a6ff8345e692c0f86e5b48e01b996cadc001622fb5e363b421"

definition emptyCodeHash :: "('d, 'tr, 'v) sdb_env \<Rightarrow> bytes" where
  "emptyCodeHash E = hash_bytes (Keccak256Hash E [])"

definition so_empty :: "('d, 'tr, 'v) sdb_env \<Rightarrow> 'tr Object \<Rightarrow> bool" where
  "so_empty E s \<longleftrightarrow> acc_Nonce (so_data s) = 0 \<and> acc_Balance (so_data s) = 0
     \<and> acc_CodeHash (so_data s) = emptyCodeHash E"

definition so_newObject :: "('d, 'tr, 'v) sdb_env \<Rightarrow> address \<Rightarrow> RawAccount \<Rightarrow> 'tr Object" where
  "so_newObject E addr data =
     (let d = \<lparr>acc_Nonce = raw_Nonce data,
               acc_Balance = (case raw_Balance data of None \<Rightarrow> 0 | Some b \<Rightarrow> b),
               acc_Root = (if raw_Root data = 0 then emptyRoot else raw_Root data),
               acc_CodeHash = (case raw_CodeHash data of None \<Rightarrow> emptyCodeHash E | Some c \<Rightarrow> c)\<rparr>
      in \<lparr>so_address = addr, so_addrHash = Keccak256Address E addr, so_data = d,
          so_freeze = False, so_dbErr = None, so_trie = None, so_code = None,
          so_originStorage = [], so_pendingStorage = [], so_dirtyStorage = [],
          so_fakeStorage = None, so_dirtyCode = False, so_suicided = False, so_deleted = False\<rparr>)"

text \<open>The composite literal \<open>Account{}\<close>, and an object's data passed as an \<open>Account\<close>.\<close>

definition zeroAccount :: RawAccount where
  "zeroAccount = \<lparr>raw_Nonce = 0, raw_Balance = None, raw_Root = 0, raw_CodeHash = None\<rparr>"

definition raw_of :: "Account \<Rightarrow> RawAccount" where
  "raw_of d = \<lparr>raw_Nonce = acc_Nonce d, raw_Balance = Some (acc_Balance d),
     raw_Root = acc_Root d, raw_CodeHash = Some (acc_CodeHash d)\<rparr>"

definition so_setError :: "error option \<Rightarrow> 'tr Object \<Rightarrow> 'tr Object" where
  "so_setError err s = (if so_dbErr s = None then s\<lparr>so_dbErr := err\<rparr> else s)"

definition so_markSuicided :: "'tr Object \<Rightarrow> 'tr Object" where
  "so_markSuicided s = s\<lparr>so_suicided := True\<rparr>"

definition so_setBalance :: "int \<Rightarrow> 'tr Object \<Rightarrow> 'tr Object" where
  "so_setBalance amount s = s\<lparr>so_data := (so_data s)\<lparr>acc_Balance := amount\<rparr>\<rparr>"

definition so_setNonce :: "u64 \<Rightarrow> 'tr Object \<Rightarrow> 'tr Object" where
  "so_setNonce n s = s\<lparr>so_data := (so_data s)\<lparr>acc_Nonce := n\<rparr>\<rparr>"

definition so_setCode :: "hash \<Rightarrow> bytes option \<Rightarrow> 'tr Object \<Rightarrow> 'tr Object" where
  "so_setCode h c s =
     s\<lparr>so_code := c, so_data := (so_data s)\<lparr>acc_CodeHash := hash_bytes h\<rparr>, so_dirtyCode := True\<rparr>"

definition so_setState :: "hash \<Rightarrow> hash \<Rightarrow> 'tr Object \<Rightarrow> 'tr Object" where
  "so_setState key v s = s\<lparr>so_dirtyStorage := gm_set key v (so_dirtyStorage s)\<rparr>"

definition so_setFreezeState :: "bool \<Rightarrow> 'tr Object \<Rightarrow> 'tr Object" where
  "so_setFreezeState isFreeze s = s\<lparr>so_freeze := isFreeze\<rparr>"

definition so_FreezeState :: "'tr Object \<Rightarrow> bool" where
  "so_FreezeState s = so_freeze s"

definition so_Balance :: "'tr Object \<Rightarrow> int" where
  "so_Balance s = acc_Balance (so_data s)"

definition so_Nonce :: "'tr Object \<Rightarrow> u64" where
  "so_Nonce s = acc_Nonce (so_data s)"

definition so_CodeHash :: "'tr Object \<Rightarrow> bytes" where
  "so_CodeHash s = acc_CodeHash (so_data s)"

text \<open>\<open>SetStorage\<close>, for debugging: from then on only the fake storage is read.\<close>

definition so_SetStorage :: "Storage \<Rightarrow> 'tr Object \<Rightarrow> 'tr Object" where
  "so_SetStorage storage s =
     (let fake = (case so_fakeStorage s of None \<Rightarrow> [] | Some f \<Rightarrow> f)
      in s\<lparr>so_fakeStorage := Some (fold (\<lambda>(k, v). gm_set k v) storage fake)\<rparr>)"

section \<open>Reading storage and code\<close>

text \<open>\<open>getTrie\<close>: the storage trie, opened on first use; if its root cannot be opened, an
  empty trie in its place and an error.\<close>

definition so_getTrie ::
    "('d, 'tr, 'v) sdb_env \<Rightarrow> 'd \<Rightarrow> 'tr Object \<Rightarrow> 'tr option \<times> 'tr Object" where
  "so_getTrie E d s =
     (case so_trie s of
        Some t \<Rightarrow> (Some t, s)
      | None \<Rightarrow>
          (case OpenStorageTrie E d (so_addrHash s) (acc_Root (so_data s)) of
             Inr t \<Rightarrow> (Some t, s\<lparr>so_trie := Some t\<rparr>)
           | Inl err \<Rightarrow>
               let t = (case OpenStorageTrie E d (so_addrHash s) 0 of Inr t \<Rightarrow> Some t | Inl _ \<Rightarrow> None)
               in (t, so_setError (Some (''can't create storage trie: '' @ err)) (s\<lparr>so_trie := t\<rparr>))))"

definition so_GetCommittedState ::
    "('d, 'tr, 'v) sdb_env \<Rightarrow> 'd \<Rightarrow> hash \<Rightarrow> 'tr Object \<Rightarrow> (hash \<times> 'tr Object) option" where
  "so_GetCommittedState E d key s =
     (case so_fakeStorage s of
        Some f \<Rightarrow> Some (gm_getd 0 f key, s)
      | None \<Rightarrow>
     (case gm_get (so_pendingStorage s) key of
        Some v \<Rightarrow> Some (v, s)
      | None \<Rightarrow>
     (case gm_get (so_originStorage s) key of
        Some v \<Rightarrow> Some (v, s)
      | None \<Rightarrow>
     (case so_getTrie E d s of
        (None, _) \<Rightarrow> None
      | (Some tr, s) \<Rightarrow>
          (case TryGetSlot E tr key of
             (_, Some err) \<Rightarrow> Some (0, so_setError (Some err) s)
           | (enc, None) \<Rightarrow>
               let (v, s) = (if enc = [] then (0, s)
                             else case RlpSplit E enc of
                               (content, Some err) \<Rightarrow> (BytesToHash content, so_setError (Some err) s)
                             | (content, None) \<Rightarrow> (BytesToHash content, s))
               in Some (v, s\<lparr>so_originStorage := gm_set key v (so_originStorage s)\<rparr>))))))"

definition so_GetState ::
    "('d, 'tr, 'v) sdb_env \<Rightarrow> 'd \<Rightarrow> hash \<Rightarrow> 'tr Object \<Rightarrow> (hash \<times> 'tr Object) option" where
  "so_GetState E d key s =
     (case so_fakeStorage s of
        Some f \<Rightarrow> Some (gm_getd 0 f key, s)
      | None \<Rightarrow>
          (case gm_get (so_dirtyStorage s) key of
             Some v \<Rightarrow> Some (v, s)
           | None \<Rightarrow> so_GetCommittedState E d key s))"

definition so_Code ::
    "('d, 'tr, 'v) sdb_env \<Rightarrow> 'd \<Rightarrow> 'tr Object \<Rightarrow> bytes option \<times> 'tr Object" where
  "so_Code E d s =
     (case so_code s of
        Some c \<Rightarrow> (Some c, s)
      | None \<Rightarrow>
          if so_CodeHash s = emptyCodeHash E then (None, s)
          else
            let (code, err) = ContractCode E d (so_addrHash s) (BytesToHash (so_CodeHash s));
                s = (case err of None \<Rightarrow> s
                     | Some e \<Rightarrow> so_setError (Some (''can't load code hash: '' @ e)) s)
            in (code, s\<lparr>so_code := code\<rparr>))"

definition ascii :: "string \<Rightarrow> bytes" where
  "ascii s = map (\<lambda>c. of_nat (of_char c)) s"

definition IsValidatorKey :: "('d, 'tr, 'v) sdb_env \<Rightarrow> hash" where
  "IsValidatorKey E = Keccak256Hash E (ascii ''Harmony/IsValidator/Key/v1'')"

definition IsValidatorValue :: "('d, 'tr, 'v) sdb_env \<Rightarrow> hash" where
  "IsValidatorValue E = Keccak256Hash E (ascii ''Harmony/IsValidator/Value/v1'')"

definition FirstElectionEpochKey :: "('d, 'tr, 'v) sdb_env \<Rightarrow> hash" where
  "FirstElectionEpochKey E = Keccak256Hash E (ascii ''Harmony/FirstElectionEpoch/Key/v1'')"

definition so_IsValidator ::
    "('d, 'tr, 'v) sdb_env \<Rightarrow> 'd \<Rightarrow> 'tr Object \<Rightarrow> (bool \<times> 'tr Object) option" where
  "so_IsValidator E d s =
     (case so_GetState E d (IsValidatorKey E) s of
        None \<Rightarrow> None | Some (v, s) \<Rightarrow> Some (v \<noteq> 0, s))"

section \<open>Finalising and writing the storage trie\<close>

definition so_finalise :: "'tr Object \<Rightarrow> 'tr Object" where
  "so_finalise s =
     s\<lparr>so_pendingStorage := fold (\<lambda>(k, v). gm_set k v) (so_dirtyStorage s) (so_pendingStorage s),
       so_dirtyStorage := []\<rparr>"

text \<open>The loop body of \<open>updateTrie\<close> for one pending slot; \<open>tr\<close> and \<open>s.trie\<close> are the same
  pointer.\<close>

definition so_update_slot ::
    "('d, 'tr, 'v) sdb_env \<Rightarrow> hash \<times> hash \<Rightarrow> 'tr \<times> 'tr Object \<Rightarrow> 'tr \<times> 'tr Object" where
  "so_update_slot E kv trs =
     (case kv of (key, v) \<Rightarrow> case trs of (tr, s) \<Rightarrow>
        if v = gm_getd 0 (so_originStorage s) key then (tr, s)
        else
          let s = s\<lparr>so_originStorage := gm_set key v (so_originStorage s)\<rparr>;
              (err, tr) = (if v = 0 then TryDeleteSlot E tr key
                           else TryUpdateSlot E tr key
                                  (RlpEncodeBytes E (dropWhile (\<lambda>b. b = 0) (hash_bytes v))))
          in (tr, so_setError err s))"

definition so_updateTrie ::
    "('d, 'tr, 'v) sdb_env \<Rightarrow> 'd \<Rightarrow> 'tr Object \<Rightarrow> ('tr option \<times> 'tr Object) option" where
  "so_updateTrie E d s =
     (let s = so_finalise s;
          (tr, s) = so_getTrie E d s
      in case tr of
           None \<Rightarrow> if \<forall>(k, v) \<in> set (so_pendingStorage s). v = gm_getd 0 (so_originStorage s) k
                  then Some (None, s\<lparr>so_pendingStorage := []\<rparr>) else None
         | Some tr \<Rightarrow>
             let (tr, s) = fold (so_update_slot E) (so_pendingStorage s) (tr, s)
             in Some (Some tr, s\<lparr>so_trie := Some tr, so_pendingStorage := []\<rparr>))"

definition so_updateRoot ::
    "('d, 'tr, 'v) sdb_env \<Rightarrow> 'd \<Rightarrow> 'tr Object \<Rightarrow> 'tr Object option" where
  "so_updateRoot E d s =
     (case so_updateTrie E d s of
        Some (Some tr, s) \<Rightarrow> Some (s\<lparr>so_data := (so_data s)\<lparr>acc_Root := TrieHash E tr\<rparr>\<rparr>)
      | _ \<Rightarrow> None)"

definition so_CommitTrie ::
    "('d, 'tr, 'v) sdb_env \<Rightarrow> 'd \<Rightarrow> 'tr Object \<Rightarrow> (error option \<times> 'tr Object \<times> 'd) option" where
  "so_CommitTrie E d s =
     (case so_updateTrie E d s of
        None \<Rightarrow> None
      | Some (tr, s) \<Rightarrow>
          (case so_dbErr s of
             Some err \<Rightarrow> Some (Some err, s, d)
           | None \<Rightarrow>
               (case tr of
                  None \<Rightarrow> None
                | Some tr \<Rightarrow>
                    let ((root, err), tr, d) = TrieCommit E tr (\<lambda>leaf parent d. d) d;
                        s = s\<lparr>so_trie := Some tr\<rparr>;
                        s = (if err = None then s\<lparr>so_data := (so_data s)\<lparr>acc_Root := root\<rparr>\<rparr> else s)
                    in Some (err, s, d))))"

definition so_deepCopy :: "('d, 'tr, 'v) sdb_env \<Rightarrow> 'tr Object \<Rightarrow> 'tr Object" where
  "so_deepCopy E s =
     (so_newObject E (so_address s) (raw_of (so_data s)))
       \<lparr>so_trie := so_trie s, so_code := so_code s, so_dirtyStorage := so_dirtyStorage s,
        so_originStorage := so_originStorage s, so_pendingStorage := so_pendingStorage s,
        so_suicided := so_suicided s, so_dirtyCode := so_dirtyCode s, so_deleted := so_deleted s\<rparr>"

end
