(* ===== verification/State_DB.thy ===== *)
theory State_DB
  imports State_Object
begin

text \<open>
  The account state, \<open>core/state/statedb.go\<close> and \<open>core/state/journal.go\<close>: a cache of
  objects over the account trie, with a journal, snapshots, finalisation and commit, the
  cache of validator wrappers, and the freeze flag that guards the setters.

  Objects are values. The Go code holds pointers, but an object is reachable only through
  the map \<open>stateObjects\<close> under its own address, or from a journal entry
  \<open>resetObjectChange\<close> after it was replaced in that map, when nothing writes it any more.
  Balances are never changed in place, so sharing a \<open>big.Int\<close> is not visible.
\<close>

section \<open>Journal entries (\<open>journal.go\<close>)\<close>

datatype 'tr st_entry =
    createObjectChange address
  | resetObjectChange "'tr Object"
  | suicideChange address bool int
  | balanceChange address int
  | nonceChange address u64
  | storageChange address hash hash
  | codeChange address bytes "bytes option"
  | freezeChange address bool
  | refundChange u64
  | addLogChange hash
  | addPreimageChange hash
  | touchChange address

fun st_dirtied :: "'tr st_entry \<Rightarrow> address option" where
  "st_dirtied (createObjectChange a) = Some a"
| "st_dirtied (resetObjectChange _) = None"
| "st_dirtied (suicideChange a _ _) = Some a"
| "st_dirtied (balanceChange a _) = Some a"
| "st_dirtied (nonceChange a _) = Some a"
| "st_dirtied (storageChange a _ _) = Some a"
| "st_dirtied (codeChange a _ _) = Some a"
| "st_dirtied (freezeChange a _) = Some a"
| "st_dirtied (refundChange _) = None"
| "st_dirtied (addLogChange _) = None"
| "st_dirtied (addPreimageChange _) = None"
| "st_dirtied (touchChange a) = Some a"

definition ripemd :: address where
  "ripemd = 3"

section \<open>The database (\<open>statedb.go\<close>)\<close>

record ('d, 'tr, 'v) DB =
  sdb_db :: 'd
  sdb_trie :: 'tr
  stateObjects :: "(address, 'tr Object) gomap"
  stateObjectsPending :: "address list"
  stateObjectsDirty :: "address list"
  stateValidators :: "(address, 'v) gomap"
  sdb_dbErr :: "error option"
  sdb_refund :: u64
  sdb_thash :: hash
  sdb_bhash :: hash
  sdb_txIndex :: int
  sdb_logs :: "(hash, Log list) gomap"
  sdb_logSize :: u64
  sdb_preimages :: "(hash, bytes) gomap"
  sdb_journal :: "'tr st_entry journal"
  sdb_validRevisions :: "revision list"
  sdb_nextRevisionID :: nat

definition sdb_New :: "('d, 'tr, 'v) sdb_env \<Rightarrow> hash \<Rightarrow> 'd \<Rightarrow> error + ('d, 'tr, 'v) DB" where
  "sdb_New E root db =
     (case OpenTrie E db root of
        Inl err \<Rightarrow> Inl err
      | Inr tr \<Rightarrow> Inr \<lparr>sdb_db = db, sdb_trie = tr, stateObjects = [], stateObjectsPending = [],
          stateObjectsDirty = [], stateValidators = [], sdb_dbErr = None, sdb_refund = 0,
          sdb_thash = 0, sdb_bhash = 0, sdb_txIndex = 0, sdb_logs = [], sdb_logSize = 0,
          sdb_preimages = [], sdb_journal = newJournal, sdb_validRevisions = [],
          sdb_nextRevisionID = 0\<rparr>)"

definition sdb_append :: "'tr st_entry \<Rightarrow> ('d, 'tr, 'v) DB \<Rightarrow> ('d, 'tr, 'v) DB" where
  "sdb_append e l = l\<lparr>sdb_journal := journal_append st_dirtied e (sdb_journal l)\<rparr>"

definition sdb_setError :: "error option \<Rightarrow> ('d, 'tr, 'v) DB \<Rightarrow> ('d, 'tr, 'v) DB" where
  "sdb_setError err l = (if sdb_dbErr l = None then l\<lparr>sdb_dbErr := err\<rparr> else l)"

definition sdb_setStateObject :: "'tr Object \<Rightarrow> ('d, 'tr, 'v) DB \<Rightarrow> ('d, 'tr, 'v) DB" where
  "sdb_setStateObject ob l = l\<lparr>stateObjects := gm_set (so_address ob) ob (stateObjects l)\<rparr>"

text \<open>A method call that writes the object at \<open>addr\<close>, through the pointer held in the map.\<close>

definition sdb_write ::
    "address \<Rightarrow> ('tr Object \<Rightarrow> 'tr Object) \<Rightarrow> ('d, 'tr, 'v) DB \<Rightarrow> ('d, 'tr, 'v) DB" where
  "sdb_write addr f l = (case gm_get (stateObjects l) addr of
      None \<Rightarrow> l
    | Some ob \<Rightarrow> l\<lparr>stateObjects := gm_set addr (f ob) (stateObjects l)\<rparr>)"

definition sdb_getDeletedStateObject ::
    "('d, 'tr, 'v) sdb_env \<Rightarrow> address \<Rightarrow> ('d, 'tr, 'v) DB \<Rightarrow>
      'tr Object option \<times> ('d, 'tr, 'v) DB" where
  "sdb_getDeletedStateObject E addr l =
     (case gm_get (stateObjects l) addr of
        Some ob \<Rightarrow> (Some ob, l)
      | None \<Rightarrow>
          (case TryGet E (sdb_trie l) addr of
             (enc, err) \<Rightarrow>
               if enc = [] then (None, sdb_setError err l)
               else case DecodeAccount E enc of
                 Inl err \<Rightarrow> (None, l)
               | Inr data \<Rightarrow>
                   let ob = so_newObject E addr data
                   in (Some ob, sdb_setStateObject ob l)))"

definition sdb_getStateObject ::
    "('d, 'tr, 'v) sdb_env \<Rightarrow> address \<Rightarrow> ('d, 'tr, 'v) DB \<Rightarrow>
      'tr Object option \<times> ('d, 'tr, 'v) DB" where
  "sdb_getStateObject E addr l =
     (case sdb_getDeletedStateObject E addr l of
        (Some ob, l') \<Rightarrow> (if \<not> so_deleted ob then Some ob else None, l')
      | (None, l') \<Rightarrow> (None, l'))"

definition sdb_createObject ::
    "('d, 'tr, 'v) sdb_env \<Rightarrow> address \<Rightarrow> ('d, 'tr, 'v) DB \<Rightarrow>
      ('tr Object \<times> 'tr Object option) \<times> ('d, 'tr, 'v) DB" where
  "sdb_createObject E addr l =
     (let (prev, l) = sdb_getDeletedStateObject E addr l;
          newobj = so_setNonce 0 (so_newObject E addr zeroAccount);
          l = (case prev of
                 None \<Rightarrow> sdb_append (createObjectChange addr) l
               | Some p \<Rightarrow> sdb_append (resetObjectChange p) l)
      in ((newobj, prev), sdb_setStateObject newobj l))"

definition sdb_CreateAccount ::
    "('d, 'tr, 'v) sdb_env \<Rightarrow> address \<Rightarrow> ('d, 'tr, 'v) DB \<Rightarrow> ('d, 'tr, 'v) DB" where
  "sdb_CreateAccount E addr l =
     (let ((newObj, prev), l) = sdb_createObject E addr l
      in case prev of
           None \<Rightarrow> l
         | Some p \<Rightarrow> sdb_write addr (so_setBalance (acc_Balance (so_data p))) l)"

definition sdb_GetOrNewStateObject ::
    "('d, 'tr, 'v) sdb_env \<Rightarrow> address \<Rightarrow> ('d, 'tr, 'v) DB \<Rightarrow> 'tr Object \<times> ('d, 'tr, 'v) DB" where
  "sdb_GetOrNewStateObject E addr l =
     (case sdb_getStateObject E addr l of
        (Some ob, l) \<Rightarrow> (ob, l)
      | (None, l) \<Rightarrow> let ((ob, _), l) = sdb_createObject E addr l in (ob, l))"

section \<open>Object methods that journal (\<open>state_object.go\<close>)\<close>

definition so_touch :: "'tr Object \<Rightarrow> ('d, 'tr, 'v) DB \<Rightarrow> ('d, 'tr, 'v) DB" where
  "so_touch s l =
     (let l = sdb_append (touchChange (so_address s)) l
      in if so_address s = ripemd then l\<lparr>sdb_journal := journal_dirty (so_address s) (sdb_journal l)\<rparr>
         else l)"

definition so_SetBalance :: "'tr Object \<Rightarrow> int \<Rightarrow> ('d, 'tr, 'v) DB \<Rightarrow> ('d, 'tr, 'v) DB" where
  "so_SetBalance s amount l =
     sdb_write (so_address s) (so_setBalance amount)
       (sdb_append (balanceChange (so_address s) (acc_Balance (so_data s))) l)"

definition so_AddBalance ::
    "('d, 'tr, 'v) sdb_env \<Rightarrow> 'tr Object \<Rightarrow> int \<Rightarrow> ('d, 'tr, 'v) DB \<Rightarrow> ('d, 'tr, 'v) DB" where
  "so_AddBalance E s amount l =
     (if amount = 0 then (if so_empty E s then so_touch s l else l)
      else so_SetBalance s (so_Balance s + amount) l)"

definition so_SubBalance :: "'tr Object \<Rightarrow> int \<Rightarrow> ('d, 'tr, 'v) DB \<Rightarrow> ('d, 'tr, 'v) DB" where
  "so_SubBalance s amount l =
     (if amount = 0 then l else so_SetBalance s (so_Balance s - amount) l)"

definition so_SetNonce :: "'tr Object \<Rightarrow> u64 \<Rightarrow> ('d, 'tr, 'v) DB \<Rightarrow> ('d, 'tr, 'v) DB" where
  "so_SetNonce s n l =
     sdb_write (so_address s) (so_setNonce n)
       (sdb_append (nonceChange (so_address s) (acc_Nonce (so_data s))) l)"

text \<open>\<open>SetCode\<close> first loads the old code, which caches it in the object.\<close>

definition so_SetCode ::
    "('d, 'tr, 'v) sdb_env \<Rightarrow> 'tr Object \<Rightarrow> hash \<Rightarrow> bytes option \<Rightarrow>
      ('d, 'tr, 'v) DB \<Rightarrow> ('d, 'tr, 'v) DB" where
  "so_SetCode E s h code l =
     (let (prevcode, s) = so_Code E (sdb_db l) s;
          l = sdb_write (so_address s) (\<lambda>_. s) l
      in sdb_write (so_address s) (so_setCode h code)
           (sdb_append (codeChange (so_address s) (so_CodeHash s) prevcode) l))"

definition so_SetState ::
    "('d, 'tr, 'v) sdb_env \<Rightarrow> 'tr Object \<Rightarrow> hash \<Rightarrow> hash \<Rightarrow>
      ('d, 'tr, 'v) DB \<Rightarrow> ('d, 'tr, 'v) DB option" where
  "so_SetState E s key v l =
     (case so_fakeStorage s of
        Some f \<Rightarrow> Some (sdb_write (so_address s) (\<lambda>s. s\<lparr>so_fakeStorage := Some (gm_set key v f)\<rparr>) l)
      | None \<Rightarrow>
          (case so_GetState E (sdb_db l) key s of
             None \<Rightarrow> None
           | Some (prev, s) \<Rightarrow>
               let l = sdb_write (so_address s) (\<lambda>_. s) l
               in if prev = v then Some l
                  else Some (sdb_write (so_address s) (so_setState key v)
                         (sdb_append (storageChange (so_address s) key prev) l))))"

definition so_SetFreezeState :: "'tr Object \<Rightarrow> bool \<Rightarrow> ('d, 'tr, 'v) DB \<Rightarrow> ('d, 'tr, 'v) DB" where
  "so_SetFreezeState s isFreeze l =
     sdb_write (so_address s) (so_setFreezeState isFreeze)
       (sdb_append (freezeChange (so_address s) (so_freeze s)) l)"

section \<open>Setters\<close>

text \<open>\<open>getFreezeState\<close> of the object, nil counting as frozen; the setters look it up or
  create it, so it is never nil there.\<close>

definition sdb_getFreezeState :: "'tr Object option \<Rightarrow> bool" where
  "sdb_getFreezeState ob = (case ob of None \<Rightarrow> True | Some s \<Rightarrow> so_FreezeState s)"

definition sdb_AddBalance ::
    "('d, 'tr, 'v) sdb_env \<Rightarrow> address \<Rightarrow> int \<Rightarrow> ('d, 'tr, 'v) DB \<Rightarrow> ('d, 'tr, 'v) DB" where
  "sdb_AddBalance E addr amount l =
     (let (s, l) = sdb_GetOrNewStateObject E addr l
      in if sdb_getFreezeState (Some s) then l else so_AddBalance E s amount l)"

definition sdb_SubBalance ::
    "('d, 'tr, 'v) sdb_env \<Rightarrow> address \<Rightarrow> int \<Rightarrow> ('d, 'tr, 'v) DB \<Rightarrow> ('d, 'tr, 'v) DB" where
  "sdb_SubBalance E addr amount l =
     (let (s, l) = sdb_GetOrNewStateObject E addr l
      in if sdb_getFreezeState (Some s) then l else so_SubBalance s amount l)"

definition sdb_SetBalance ::
    "('d, 'tr, 'v) sdb_env \<Rightarrow> address \<Rightarrow> int \<Rightarrow> ('d, 'tr, 'v) DB \<Rightarrow> ('d, 'tr, 'v) DB" where
  "sdb_SetBalance E addr amount l =
     (let (s, l) = sdb_GetOrNewStateObject E addr l
      in if sdb_getFreezeState (Some s) then l else so_SetBalance s amount l)"

definition sdb_SetNonce ::
    "('d, 'tr, 'v) sdb_env \<Rightarrow> address \<Rightarrow> u64 \<Rightarrow> ('d, 'tr, 'v) DB \<Rightarrow> ('d, 'tr, 'v) DB" where
  "sdb_SetNonce E addr n l =
     (let (s, l) = sdb_GetOrNewStateObject E addr l
      in if sdb_getFreezeState (Some s) then l else so_SetNonce s n l)"

definition sdb_SetCode ::
    "('d, 'tr, 'v) sdb_env \<Rightarrow> address \<Rightarrow> bytes option \<Rightarrow> ('d, 'tr, 'v) DB \<Rightarrow> ('d, 'tr, 'v) DB" where
  "sdb_SetCode E addr code l =
     (let (s, l) = sdb_GetOrNewStateObject E addr l
      in if sdb_getFreezeState (Some s) then l
         else so_SetCode E s (Keccak256Hash E (case code of None \<Rightarrow> [] | Some c \<Rightarrow> c)) code l)"

definition sdb_SetState ::
    "('d, 'tr, 'v) sdb_env \<Rightarrow> address \<Rightarrow> hash \<Rightarrow> hash \<Rightarrow> ('d, 'tr, 'v) DB \<Rightarrow>
      ('d, 'tr, 'v) DB option" where
  "sdb_SetState E addr key v l =
     (let (s, l) = sdb_GetOrNewStateObject E addr l
      in if sdb_getFreezeState (Some s) then Some l else so_SetState E s key v l)"

definition sdb_SetFreezeState ::
    "('d, 'tr, 'v) sdb_env \<Rightarrow> address \<Rightarrow> bool \<Rightarrow> ('d, 'tr, 'v) DB \<Rightarrow> ('d, 'tr, 'v) DB" where
  "sdb_SetFreezeState E addr isFreeze l =
     (let (s, l) = sdb_GetOrNewStateObject E addr l in so_SetFreezeState s isFreeze l)"

definition sdb_GetFreezeState ::
    "('d, 'tr, 'v) sdb_env \<Rightarrow> address \<Rightarrow> ('d, 'tr, 'v) DB \<Rightarrow> bool \<times> ('d, 'tr, 'v) DB" where
  "sdb_GetFreezeState E addr l =
     (let (s, l) = sdb_GetOrNewStateObject E addr l in (sdb_getFreezeState (Some s), l))"

definition sdb_Suicide ::
    "('d, 'tr, 'v) sdb_env \<Rightarrow> address \<Rightarrow> ('d, 'tr, 'v) DB \<Rightarrow> bool \<times> ('d, 'tr, 'v) DB" where
  "sdb_Suicide E addr l =
     (case sdb_getStateObject E addr l of
        (None, l) \<Rightarrow> (False, l)
      | (Some s, l) \<Rightarrow>
          (True, sdb_write addr (\<lambda>s. so_setBalance 0 (so_markSuicided s))
             (sdb_append (suicideChange addr (so_suicided s) (so_Balance s)) l)))"

definition sdb_AddLog :: "Log \<Rightarrow> ('d, 'tr, 'v) DB \<Rightarrow> ('d, 'tr, 'v) DB" where
  "sdb_AddLog lg l =
     (let l = sdb_append (addLogChange (sdb_thash l)) l;
          lg = lg\<lparr>log_TxHash := sdb_thash l, log_BlockHash := sdb_bhash l,
                  log_TxIndex := word_of_int (sdb_txIndex l), log_Index := sdb_logSize l\<rparr>
      in l\<lparr>sdb_logs := gm_set (sdb_thash l) (gm_getd [] (sdb_logs l) (sdb_thash l) @ [lg]) (sdb_logs l),
           sdb_logSize := sdb_logSize l + 1\<rparr>)"

definition sdb_AddPreimage :: "hash \<Rightarrow> bytes \<Rightarrow> ('d, 'tr, 'v) DB \<Rightarrow> ('d, 'tr, 'v) DB" where
  "sdb_AddPreimage h preimage l =
     (if gm_get (sdb_preimages l) h = None
      then (sdb_append (addPreimageChange h) l)\<lparr>sdb_preimages := gm_set h preimage (sdb_preimages l)\<rparr>
      else l)"

definition sdb_AddRefund :: "u64 \<Rightarrow> ('d, 'tr, 'v) DB \<Rightarrow> ('d, 'tr, 'v) DB" where
  "sdb_AddRefund gas l =
     (sdb_append (refundChange (sdb_refund l)) l)\<lparr>sdb_refund := sdb_refund l + gas\<rparr>"

text \<open>\<open>SubRefund\<close> panics when the counter would go below zero.\<close>

definition sdb_SubRefund :: "u64 \<Rightarrow> ('d, 'tr, 'v) DB \<Rightarrow> ('d, 'tr, 'v) DB option" where
  "sdb_SubRefund gas l =
     (if gas > sdb_refund l then None
      else Some ((sdb_append (refundChange (sdb_refund l)) l)\<lparr>sdb_refund := sdb_refund l - gas\<rparr>))"

definition sdb_Prepare :: "hash \<Rightarrow> hash \<Rightarrow> int \<Rightarrow> ('d, 'tr, 'v) DB \<Rightarrow> ('d, 'tr, 'v) DB" where
  "sdb_Prepare thash bhash ti l = l\<lparr>sdb_thash := thash, sdb_bhash := bhash, sdb_txIndex := ti\<rparr>"

section \<open>Getters\<close>

definition sdb_Exist ::
    "('d, 'tr, 'v) sdb_env \<Rightarrow> address \<Rightarrow> ('d, 'tr, 'v) DB \<Rightarrow> bool \<times> ('d, 'tr, 'v) DB" where
  "sdb_Exist E addr l = (case sdb_getStateObject E addr l of (s, l) \<Rightarrow> (s \<noteq> None, l))"

definition sdb_Empty ::
    "('d, 'tr, 'v) sdb_env \<Rightarrow> address \<Rightarrow> ('d, 'tr, 'v) DB \<Rightarrow> bool \<times> ('d, 'tr, 'v) DB" where
  "sdb_Empty E addr l =
     (case sdb_getStateObject E addr l of (None, l) \<Rightarrow> (True, l) | (Some s, l) \<Rightarrow> (so_empty E s, l))"

definition sdb_GetBalance ::
    "('d, 'tr, 'v) sdb_env \<Rightarrow> address \<Rightarrow> ('d, 'tr, 'v) DB \<Rightarrow> int \<times> ('d, 'tr, 'v) DB" where
  "sdb_GetBalance E addr l =
     (case sdb_getStateObject E addr l of (Some s, l) \<Rightarrow> (so_Balance s, l) | (None, l) \<Rightarrow> (0, l))"

definition sdb_GetNonce ::
    "('d, 'tr, 'v) sdb_env \<Rightarrow> address \<Rightarrow> ('d, 'tr, 'v) DB \<Rightarrow> u64 \<times> ('d, 'tr, 'v) DB" where
  "sdb_GetNonce E addr l =
     (case sdb_getStateObject E addr l of (Some s, l) \<Rightarrow> (so_Nonce s, l) | (None, l) \<Rightarrow> (0, l))"

definition sdb_GetCode ::
    "('d, 'tr, 'v) sdb_env \<Rightarrow> address \<Rightarrow> ('d, 'tr, 'v) DB \<Rightarrow> bytes option \<times> ('d, 'tr, 'v) DB" where
  "sdb_GetCode E addr l =
     (case sdb_getStateObject E addr l of
        (None, l) \<Rightarrow> (None, l)
      | (Some s, l) \<Rightarrow> let (c, s) = so_Code E (sdb_db l) s in (c, sdb_write addr (\<lambda>_. s) l))"

definition sdb_GetCodeSize ::
    "('d, 'tr, 'v) sdb_env \<Rightarrow> address \<Rightarrow> ('d, 'tr, 'v) DB \<Rightarrow> int \<times> ('d, 'tr, 'v) DB" where
  "sdb_GetCodeSize E addr l =
     (case sdb_getStateObject E addr l of
        (None, l) \<Rightarrow> (0, l)
      | (Some s, l) \<Rightarrow>
          (case so_code s of
             Some c \<Rightarrow> (int (length c), l)
           | None \<Rightarrow>
               let (size, err) = ContractCodeSize E (sdb_db l) (so_addrHash s) (BytesToHash (so_CodeHash s))
               in (size, if err = None then l else sdb_setError err l)))"

definition sdb_GetCodeHash ::
    "('d, 'tr, 'v) sdb_env \<Rightarrow> address \<Rightarrow> ('d, 'tr, 'v) DB \<Rightarrow> hash \<times> ('d, 'tr, 'v) DB" where
  "sdb_GetCodeHash E addr l =
     (case sdb_getStateObject E addr l of
        (None, l) \<Rightarrow> (0, l) | (Some s, l) \<Rightarrow> (BytesToHash (so_CodeHash s), l))"

definition sdb_GetState ::
    "('d, 'tr, 'v) sdb_env \<Rightarrow> address \<Rightarrow> hash \<Rightarrow> ('d, 'tr, 'v) DB \<Rightarrow>
      (hash \<times> ('d, 'tr, 'v) DB) option" where
  "sdb_GetState E addr key l =
     (case sdb_getStateObject E addr l of
        (None, l) \<Rightarrow> Some (0, l)
      | (Some s, l) \<Rightarrow>
          map_option (\<lambda>(v, s). (v, sdb_write addr (\<lambda>_. s) l)) (so_GetState E (sdb_db l) key s))"

definition sdb_GetCommittedState ::
    "('d, 'tr, 'v) sdb_env \<Rightarrow> address \<Rightarrow> hash \<Rightarrow> ('d, 'tr, 'v) DB \<Rightarrow>
      (hash \<times> ('d, 'tr, 'v) DB) option" where
  "sdb_GetCommittedState E addr key l =
     (case sdb_getStateObject E addr l of
        (None, l) \<Rightarrow> Some (0, l)
      | (Some s, l) \<Rightarrow>
          map_option (\<lambda>(v, s). (v, sdb_write addr (\<lambda>_. s) l)) (so_GetCommittedState E (sdb_db l) key s))"

text \<open>\<open>StorageTrie\<close> works on a copy of the object; a nil trie is \<open>None\<close> inside.\<close>

definition sdb_StorageTrie ::
    "('d, 'tr, 'v) sdb_env \<Rightarrow> address \<Rightarrow> ('d, 'tr, 'v) DB \<Rightarrow>
      ('tr option \<times> ('d, 'tr, 'v) DB) option" where
  "sdb_StorageTrie E addr l =
     (case sdb_getStateObject E addr l of
        (None, l) \<Rightarrow> Some (None, l)
      | (Some s, l) \<Rightarrow>
          map_option (\<lambda>(tr, _). (tr, l)) (so_updateTrie E (sdb_db l) (so_deepCopy E s)))"

definition sdb_HasSuicided ::
    "('d, 'tr, 'v) sdb_env \<Rightarrow> address \<Rightarrow> ('d, 'tr, 'v) DB \<Rightarrow> bool \<times> ('d, 'tr, 'v) DB" where
  "sdb_HasSuicided E addr l =
     (case sdb_getStateObject E addr l of (Some s, l) \<Rightarrow> (so_suicided s, l) | (None, l) \<Rightarrow> (False, l))"

definition sdb_GetLogs :: "hash \<Rightarrow> ('d, 'tr, 'v) DB \<Rightarrow> Log list" where
  "sdb_GetLogs h l = gm_getd [] (sdb_logs l) h"

definition sdb_Logs :: "('d, 'tr, 'v) DB \<Rightarrow> Log list" where
  "sdb_Logs l = concat (map snd (sdb_logs l))"

definition sdb_GetRefund :: "('d, 'tr, 'v) DB \<Rightarrow> u64" where
  "sdb_GetRefund l = sdb_refund l"

section \<open>Validators\<close>

definition errAddressNotPresent :: error where
  "errAddressNotPresent = ''address not present in state''"

definition sdb_ValidatorWrapperCopy ::
    "('d, 'tr, 'v) sdb_env \<Rightarrow> address \<Rightarrow> ('d, 'tr, 'v) DB \<Rightarrow> (error + 'v) \<times> ('d, 'tr, 'v) DB" where
  "sdb_ValidatorWrapperCopy E addr l =
     (let (by, l) = sdb_GetCode E addr l
      in case by of
           None \<Rightarrow> (Inl errAddressNotPresent, l)
         | Some by \<Rightarrow>
             if by = [] then (Inl errAddressNotPresent, l)
             else (case DecodeValidator E by of
                     Inl err \<Rightarrow> (Inl (''could not decode: '' @ err), l)
                   | Inr val \<Rightarrow> (Inr val, l)))"

definition sdb_ValidatorWrapper ::
    "('d, 'tr, 'v) sdb_env \<Rightarrow> address \<Rightarrow> ('d, 'tr, 'v) DB \<Rightarrow> (error + 'v) \<times> ('d, 'tr, 'v) DB" where
  "sdb_ValidatorWrapper E addr l =
     (case gm_get (stateValidators l) addr of
        Some cached \<Rightarrow> (Inr cached, l)
      | None \<Rightarrow>
          (case sdb_ValidatorWrapperCopy E addr l of
             (Inl err, l) \<Rightarrow> (Inl err, l)
           | (Inr val, l) \<Rightarrow> (Inr val, l\<lparr>stateValidators := gm_set addr val (stateValidators l)\<rparr>)))"

definition sdb_UpdateValidatorWrapper ::
    "('d, 'tr, 'v) sdb_env \<Rightarrow> address \<Rightarrow> 'v \<Rightarrow> ('d, 'tr, 'v) DB \<Rightarrow>
      error option \<times> ('d, 'tr, 'v) DB" where
  "sdb_UpdateValidatorWrapper E addr val l =
     (case ValidatorSanityCheck E val of
        Some err \<Rightarrow> (Some err, l)
      | None \<Rightarrow>
          (case EncodeValidator E val of
             Inl err \<Rightarrow> (Some err, l)
           | Inr by \<Rightarrow>
               let l = sdb_SetCode E addr (Some by) l
               in (None, l\<lparr>stateValidators := gm_set addr val (stateValidators l)\<rparr>)))"

text \<open>\<open>GetValidatorFirstElectionEpoch\<close> dereferences the object without a check.\<close>

definition sdb_GetValidatorFirstElectionEpoch ::
    "('d, 'tr, 'v) sdb_env \<Rightarrow> address \<Rightarrow> ('d, 'tr, 'v) DB \<Rightarrow> (int \<times> ('d, 'tr, 'v) DB) option" where
  "sdb_GetValidatorFirstElectionEpoch E addr l =
     (case sdb_getStateObject E addr l of
        (None, l) \<Rightarrow> None
      | (Some s, l) \<Rightarrow>
          map_option (\<lambda>(v, s). (uint v, sdb_write addr (\<lambda>_. s) l))
            (so_GetState E (sdb_db l) (FirstElectionEpochKey E) s))"

definition sdb_SetValidatorFirstElectionEpoch ::
    "('d, 'tr, 'v) sdb_env \<Rightarrow> address \<Rightarrow> int \<Rightarrow> ('d, 'tr, 'v) DB \<Rightarrow> ('d, 'tr, 'v) DB option" where
  "sdb_SetValidatorFirstElectionEpoch E addr epoch l =
     (case sdb_GetValidatorFirstElectionEpoch E addr l of
        None \<Rightarrow> None
      | Some (firstEpoch, l) \<Rightarrow>
          if (word_of_int firstEpoch :: u64) = 0
          then sdb_SetState E addr (FirstElectionEpochKey E) (word_of_int \<bar>epoch\<bar>) l
          else Some l)"

definition sdb_SetValidatorFlag ::
    "('d, 'tr, 'v) sdb_env \<Rightarrow> address \<Rightarrow> ('d, 'tr, 'v) DB \<Rightarrow> ('d, 'tr, 'v) DB option" where
  "sdb_SetValidatorFlag E addr l = sdb_SetState E addr (IsValidatorKey E) (IsValidatorValue E) l"

definition sdb_UnsetValidatorFlag ::
    "('d, 'tr, 'v) sdb_env \<Rightarrow> address \<Rightarrow> ('d, 'tr, 'v) DB \<Rightarrow> ('d, 'tr, 'v) DB option" where
  "sdb_UnsetValidatorFlag E addr l = sdb_SetState E addr (IsValidatorKey E) 0 l"

definition sdb_IsValidator ::
    "('d, 'tr, 'v) sdb_env \<Rightarrow> address \<Rightarrow> ('d, 'tr, 'v) DB \<Rightarrow> (bool \<times> ('d, 'tr, 'v) DB) option" where
  "sdb_IsValidator E addr l =
     (case sdb_getStateObject E addr l of
        (None, l) \<Rightarrow> Some (False, l)
      | (Some s, l) \<Rightarrow>
          map_option (\<lambda>(v, s). (v, sdb_write addr (\<lambda>_. s) l)) (so_IsValidator E (sdb_db l) s))"

section \<open>Undoing\<close>

text \<open>The \<open>revert\<close> methods of the journal entries. Most dereference the object, which
  panics when there is none.\<close>

definition sdb_on_object ::
    "('d, 'tr, 'v) sdb_env \<Rightarrow> address \<Rightarrow> ('tr Object \<Rightarrow> 'tr Object) \<Rightarrow> ('d, 'tr, 'v) DB \<Rightarrow>
      ('d, 'tr, 'v) DB option" where
  "sdb_on_object E a f l =
     (case sdb_getStateObject E a l of (None, l) \<Rightarrow> None | (Some _, l) \<Rightarrow> Some (sdb_write a f l))"

fun st_revert_entry ::
    "('d, 'tr, 'v) sdb_env \<Rightarrow> 'tr st_entry \<Rightarrow> ('d, 'tr, 'v) DB \<Rightarrow> ('d, 'tr, 'v) DB option" where
  "st_revert_entry E (createObjectChange a) l =
     Some (l\<lparr>stateObjects := gm_del a (stateObjects l),
             stateObjectsDirty := gs_del a (stateObjectsDirty l)\<rparr>)"
| "st_revert_entry E (resetObjectChange prev) l = Some (sdb_setStateObject prev l)"
| "st_revert_entry E (suicideChange a prev prevbalance) l =
     (case sdb_getStateObject E a l of
        (None, l) \<Rightarrow> Some l
      | (Some _, l) \<Rightarrow>
          Some (sdb_write a (\<lambda>s. so_setBalance prevbalance (s\<lparr>so_suicided := prev\<rparr>)) l))"
| "st_revert_entry E (balanceChange a prev) l = sdb_on_object E a (so_setBalance prev) l"
| "st_revert_entry E (nonceChange a prev) l = sdb_on_object E a (so_setNonce prev) l"
| "st_revert_entry E (storageChange a key prev) l = sdb_on_object E a (so_setState key prev) l"
| "st_revert_entry E (codeChange a prevhash prevcode) l =
     sdb_on_object E a (so_setCode (BytesToHash prevhash) prevcode) l"
| "st_revert_entry E (freezeChange a prev) l = sdb_on_object E a (so_setFreezeState prev) l"
| "st_revert_entry E (refundChange prev) l = Some (l\<lparr>sdb_refund := prev\<rparr>)"
| "st_revert_entry E (addLogChange h) l =
     (let logs = gm_getd [] (sdb_logs l) h
      in if length logs = 1
         then Some (l\<lparr>sdb_logs := gm_del h (sdb_logs l), sdb_logSize := sdb_logSize l - 1\<rparr>)
         else if logs = [] then None
         else Some (l\<lparr>sdb_logs := gm_set h (butlast logs) (sdb_logs l),
                      sdb_logSize := sdb_logSize l - 1\<rparr>))"
| "st_revert_entry E (addPreimageChange h) l =
     Some (l\<lparr>sdb_preimages := gm_del h (sdb_preimages l)\<rparr>)"
| "st_revert_entry E (touchChange a) l = Some l"

definition sdb_undo1 ::
    "('d, 'tr, 'v) sdb_env \<Rightarrow> 'tr st_entry \<Rightarrow> ('d, 'tr, 'v) DB \<Rightarrow> ('d, 'tr, 'v) DB option" where
  "sdb_undo1 E e l =
     map_option (\<lambda>l. l\<lparr>sdb_journal := journal_undirty st_dirtied e (sdb_journal l)\<rparr>)
       (st_revert_entry E e l)"

definition sdb_truncate :: "nat \<Rightarrow> ('d, 'tr, 'v) DB \<Rightarrow> ('d, 'tr, 'v) DB" where
  "sdb_truncate n l =
     l\<lparr>sdb_journal := (sdb_journal l)\<lparr>entries := take n (entries (sdb_journal l))\<rparr>\<rparr>"

definition sdb_journal_revert ::
    "('d, 'tr, 'v) sdb_env \<Rightarrow> nat \<Rightarrow> ('d, 'tr, 'v) DB \<Rightarrow> ('d, 'tr, 'v) DB option" where
  "sdb_journal_revert E n l =
     map_option (sdb_truncate n)
       (undo_entries (sdb_undo1 E) (rev (drop n (entries (sdb_journal l)))) l)"

definition sdb_Snapshot :: "('d, 'tr, 'v) DB \<Rightarrow> nat \<times> ('d, 'tr, 'v) DB" where
  "sdb_Snapshot l =
     (let i = sdb_nextRevisionID l
      in (i, l\<lparr>sdb_nextRevisionID := i + 1,
               sdb_validRevisions := sdb_validRevisions l
                 @ [\<lparr>rev_id = i, journalIndex = journal_length (sdb_journal l)\<rparr>]\<rparr>))"

definition sdb_set_revisions ::
    "revision list \<Rightarrow> ('d, 'tr, 'v) DB \<Rightarrow> ('d, 'tr, 'v) DB" where
  "sdb_set_revisions rs l = l\<lparr>sdb_validRevisions := rs\<rparr>"

definition sdb_RevertToSnapshot ::
    "('d, 'tr, 'v) sdb_env \<Rightarrow> nat \<Rightarrow> ('d, 'tr, 'v) DB \<Rightarrow> ('d, 'tr, 'v) DB option" where
  "sdb_RevertToSnapshot E revid l =
     (case find_revision (sdb_validRevisions l) revid of
        None \<Rightarrow> None
      | Some idx \<Rightarrow>
          let snapshot = journalIndex (sdb_validRevisions l ! idx)
          in map_option (sdb_set_revisions (take idx (sdb_validRevisions l)))
               (sdb_journal_revert E snapshot l))"

section \<open>Finalising and committing\<close>

definition sdb_clearJournalAndRefund :: "('d, 'tr, 'v) DB \<Rightarrow> ('d, 'tr, 'v) DB" where
  "sdb_clearJournalAndRefund l =
     (let l = (if entries (sdb_journal l) \<noteq> []
               then l\<lparr>sdb_journal := newJournal, sdb_refund := 0\<rparr> else l)
      in l\<lparr>sdb_validRevisions := []\<rparr>)"

definition sdb_Reset ::
    "('d, 'tr, 'v) sdb_env \<Rightarrow> hash \<Rightarrow> ('d, 'tr, 'v) DB \<Rightarrow> error option \<times> ('d, 'tr, 'v) DB" where
  "sdb_Reset E root l =
     (case OpenTrie E (sdb_db l) root of
        Inl err \<Rightarrow> (Some err, l)
      | Inr tr \<Rightarrow>
          (None, sdb_clearJournalAndRefund
             (l\<lparr>sdb_trie := tr, stateObjects := [], stateObjectsPending := [],
                stateObjectsDirty := [], stateValidators := [], sdb_thash := 0, sdb_bhash := 0,
                sdb_txIndex := 0, sdb_logs := [], sdb_logSize := 0, sdb_preimages := []\<rparr>)))"

text \<open>The two loop bodies of \<open>Finalise\<close>: writing back one cached validator, and
  finalising one dirty address.\<close>

definition sdb_flush_validator ::
    "('d, 'tr, 'v) sdb_env \<Rightarrow> address \<times> 'v \<Rightarrow> ('d, 'tr, 'v) DB \<Rightarrow> ('d, 'tr, 'v) DB" where
  "sdb_flush_validator E av l = snd (sdb_UpdateValidatorWrapper E (fst av) (snd av) l)"

definition sdb_finalise1 ::
    "('d, 'tr, 'v) sdb_env \<Rightarrow> bool \<Rightarrow> address \<Rightarrow> ('d, 'tr, 'v) DB \<Rightarrow> ('d, 'tr, 'v) DB" where
  "sdb_finalise1 E deleteEmptyObjects addr l =
     (case gm_get (stateObjects l) addr of
        None \<Rightarrow> l
      | Some ob \<Rightarrow>
          let l = (if so_suicided ob \<or> (deleteEmptyObjects \<and> so_empty E ob)
                   then sdb_write addr (\<lambda>ob. ob\<lparr>so_deleted := True\<rparr>) l
                   else sdb_write addr so_finalise l)
          in l\<lparr>stateObjectsPending := gs_add addr (stateObjectsPending l),
               stateObjectsDirty := gs_add addr (stateObjectsDirty l)\<rparr>)"

definition sdb_Finalise ::
    "('d, 'tr, 'v) sdb_env \<Rightarrow> bool \<Rightarrow> ('d, 'tr, 'v) DB \<Rightarrow> ('d, 'tr, 'v) DB" where
  "sdb_Finalise E deleteEmptyObjects l =
     (let l = fold (sdb_flush_validator E) (stateValidators l) l
      in sdb_clearJournalAndRefund
           (fold (sdb_finalise1 E deleteEmptyObjects) (gm_keys (dirties (sdb_journal l))) l))"

definition sdb_updateStateObject ::
    "('d, 'tr, 'v) sdb_env \<Rightarrow> 'tr Object \<Rightarrow> ('d, 'tr, 'v) DB \<Rightarrow> ('d, 'tr, 'v) DB option" where
  "sdb_updateStateObject E ob l =
     (case EncodeAccount E (so_data ob) of
        Inl err \<Rightarrow> None
      | Inr data \<Rightarrow>
          (case TryUpdate E (sdb_trie l) (so_address ob) data of
             (err, tr) \<Rightarrow> Some (sdb_setError err (l\<lparr>sdb_trie := tr\<rparr>))))"

definition sdb_deleteStateObject ::
    "('d, 'tr, 'v) sdb_env \<Rightarrow> 'tr Object \<Rightarrow> ('d, 'tr, 'v) DB \<Rightarrow> ('d, 'tr, 'v) DB" where
  "sdb_deleteStateObject E ob l =
     (case TryDelete E (sdb_trie l) (so_address ob) of
        (err, tr) \<Rightarrow> sdb_setError err (l\<lparr>sdb_trie := tr\<rparr>))"

text \<open>The loop body of \<open>IntermediateRoot\<close>; a pending address without an object panics.\<close>

definition sdb_flush1 ::
    "('d, 'tr, 'v) sdb_env \<Rightarrow> address \<Rightarrow> ('d, 'tr, 'v) DB \<Rightarrow> ('d, 'tr, 'v) DB option" where
  "sdb_flush1 E addr l =
     (case gm_get (stateObjects l) addr of
        None \<Rightarrow> None
      | Some ob \<Rightarrow>
          if so_deleted ob then Some (sdb_deleteStateObject E ob l)
          else (case so_updateRoot E (sdb_db l) ob of
                  None \<Rightarrow> None
                | Some ob \<Rightarrow> sdb_updateStateObject E ob (sdb_write addr (\<lambda>_. ob) l)))"

definition sdb_IntermediateRoot ::
    "('d, 'tr, 'v) sdb_env \<Rightarrow> bool \<Rightarrow> ('d, 'tr, 'v) DB \<Rightarrow> (hash \<times> ('d, 'tr, 'v) DB) option" where
  "sdb_IntermediateRoot E deleteEmptyObjects l =
     (let l = sdb_Finalise E deleteEmptyObjects l
      in map_option (\<lambda>l. let l = l\<lparr>stateObjectsPending := []\<rparr> in (TrieHash E (sdb_trie l), l))
           (range_loop (sdb_flush1 E) (stateObjectsPending l) l))"

text \<open>The loop of \<open>Commit\<close> over the dirty addresses; an error ends it and the method.\<close>

definition sdb_commit_code ::
    "('d, 'tr, 'v) sdb_env \<Rightarrow> 'tr Object \<Rightarrow> 'd \<Rightarrow> 'tr Object \<times> 'd" where
  "sdb_commit_code E ob d =
     (case so_code ob of
        Some c \<Rightarrow> if so_dirtyCode ob
                  then (ob\<lparr>so_dirtyCode := False\<rparr>, InsertBlob E d (BytesToHash (so_CodeHash ob)) c)
                  else (ob, d)
      | None \<Rightarrow> (ob, d))"

fun sdb_commit_loop ::
    "('d, 'tr, 'v) sdb_env \<Rightarrow> address list \<Rightarrow> ('d, 'tr, 'v) DB \<Rightarrow>
      (error option \<times> ('d, 'tr, 'v) DB) option" where
  "sdb_commit_loop E [] l = Some (None, l)"
| "sdb_commit_loop E (addr # as) l =
     (case gm_get (stateObjects l) addr of
        None \<Rightarrow> None
      | Some ob \<Rightarrow>
          if so_deleted ob then sdb_commit_loop E as l
          else
            let (ob, d) = sdb_commit_code E ob (sdb_db l)
            in (case so_CommitTrie E d ob of
                  None \<Rightarrow> None
                | Some (err, ob, d) \<Rightarrow>
                    let l = (sdb_write addr (\<lambda>_. ob) l)\<lparr>sdb_db := d\<rparr>
                    in (case err of
                          Some e \<Rightarrow> Some (Some e, l)
                        | None \<Rightarrow> sdb_commit_loop E as l)))"

definition sdb_commit_leaf ::
    "('d, 'tr, 'v) sdb_env \<Rightarrow> bytes \<Rightarrow> hash \<Rightarrow> 'd \<Rightarrow> 'd" where
  "sdb_commit_leaf E leaf parent d =
     (case DecodeAccount E leaf of
        Inl err \<Rightarrow> d
      | Inr account \<Rightarrow>
          let d = (if raw_Root account \<noteq> emptyRoot then Reference E d (raw_Root account) parent else d);
              code = BytesToHash (case raw_CodeHash account of None \<Rightarrow> [] | Some c \<Rightarrow> c)
          in if code \<noteq> Keccak256Hash E [] then Reference E d code parent else d)"

definition sdb_Commit ::
    "('d, 'tr, 'v) sdb_env \<Rightarrow> bool \<Rightarrow> ('d, 'tr, 'v) DB \<Rightarrow>
      ((hash \<times> error option) \<times> ('d, 'tr, 'v) DB) option" where
  "sdb_Commit E deleteEmptyObjects l =
     (case sdb_IntermediateRoot E deleteEmptyObjects l of
        None \<Rightarrow> None
      | Some (_, l) \<Rightarrow>
          (case sdb_commit_loop E (stateObjectsDirty l) l of
             None \<Rightarrow> None
           | Some (Some err, l) \<Rightarrow> Some ((0, Some err), l)
           | Some (None, l) \<Rightarrow>
               let l = l\<lparr>stateObjectsDirty := []\<rparr>;
                   (res, tr, d) = TrieCommit E (sdb_trie l) (sdb_commit_leaf E) (sdb_db l)
               in Some (res, l\<lparr>sdb_trie := tr, sdb_db := d\<rparr>)))"

section \<open>\<open>Copy\<close>\<close>

text \<open>The loops of \<open>Copy\<close>; the source database is the first argument after the
  environment, the copy the last.\<close>

definition sdb_copy_journalled ::
    "('d, 'tr, 'v) sdb_env \<Rightarrow> ('d, 'tr, 'v) DB \<Rightarrow> address \<Rightarrow> ('d, 'tr, 'v) DB \<Rightarrow> ('d, 'tr, 'v) DB" where
  "sdb_copy_journalled E l addr c =
     (case gm_get (stateObjects l) addr of
        None \<Rightarrow> c
      | Some ob \<Rightarrow> c\<lparr>stateObjects := gm_set addr (so_deepCopy E ob) (stateObjects c),
                     stateObjectsPending := gs_add addr (stateObjectsPending c),
                     stateObjectsDirty := gs_add addr (stateObjectsDirty c)\<rparr>)"

definition sdb_copy_object ::
    "('d, 'tr, 'v) sdb_env \<Rightarrow> ('d, 'tr, 'v) DB \<Rightarrow> address \<Rightarrow> ('d, 'tr, 'v) DB \<Rightarrow>
      ('d, 'tr, 'v) DB option" where
  "sdb_copy_object E l addr c =
     (if gm_get (stateObjects c) addr \<noteq> None then Some c
      else case gm_get (stateObjects l) addr of
        None \<Rightarrow> None
      | Some ob \<Rightarrow> Some (c\<lparr>stateObjects := gm_set addr (so_deepCopy E ob) (stateObjects c)\<rparr>))"

definition sdb_copy_pending ::
    "('d, 'tr, 'v) sdb_env \<Rightarrow> ('d, 'tr, 'v) DB \<Rightarrow> address \<Rightarrow> ('d, 'tr, 'v) DB \<Rightarrow>
      ('d, 'tr, 'v) DB option" where
  "sdb_copy_pending E l addr c =
     map_option (\<lambda>c. c\<lparr>stateObjectsPending := gs_add addr (stateObjectsPending c)\<rparr>)
       (sdb_copy_object E l addr c)"

definition sdb_copy_dirty ::
    "('d, 'tr, 'v) sdb_env \<Rightarrow> ('d, 'tr, 'v) DB \<Rightarrow> address \<Rightarrow> ('d, 'tr, 'v) DB \<Rightarrow>
      ('d, 'tr, 'v) DB option" where
  "sdb_copy_dirty E l addr c =
     map_option (\<lambda>c. c\<lparr>stateObjectsDirty := gs_add addr (stateObjectsDirty c)\<rparr>)
       (sdb_copy_object E l addr c)"

definition sdb_Copy ::
    "('d, 'tr, 'v) sdb_env \<Rightarrow> ('d, 'tr, 'v) DB \<Rightarrow> ('d, 'tr, 'v) DB option" where
  "sdb_Copy E l =
     (let c = \<lparr>sdb_db = sdb_db l, sdb_trie = sdb_trie l, stateObjects = [],
               stateObjectsPending = [], stateObjectsDirty = [], stateValidators = [],
               sdb_dbErr = None, sdb_refund = sdb_refund l, sdb_thash = 0, sdb_bhash = 0,
               sdb_txIndex = 0, sdb_logs = [], sdb_logSize = sdb_logSize l, sdb_preimages = [],
               sdb_journal = newJournal, sdb_validRevisions = [], sdb_nextRevisionID = 0\<rparr>;
          c = fold (sdb_copy_journalled E l) (gm_keys (dirties (sdb_journal l))) c
      in map_option (\<lambda>c. c\<lparr>sdb_logs := sdb_logs l, sdb_preimages := sdb_preimages l\<rparr>)
           (Option.bind (range_loop (sdb_copy_pending E l) (stateObjectsPending l) c)
             (range_loop (sdb_copy_dirty E l) (stateObjectsDirty l))))"

end
