(* ===== verification/State_DB_View.thy ===== *)
theory State_DB_View
  imports State_DB
begin

text \<open>
  What callers can observe of the account state. \<open>so_view\<close> is everything an object answers
  through its methods, \<open>sdb_view\<close> the view of every address, read without caching. Loading
  an object, a storage slot or a contract's code fills a cache and changes no view.
\<close>

section \<open>Views of an object\<close>

definition so_trie_view :: "('d, 'tr, 'v) sdb_env \<Rightarrow> 'd \<Rightarrow> 'tr Object \<Rightarrow> 'tr option" where
  "so_trie_view E d s = fst (so_getTrie E d s)"

definition so_state_view :: "('d, 'tr, 'v) sdb_env \<Rightarrow> 'd \<Rightarrow> 'tr Object \<Rightarrow> hash \<Rightarrow> hash option" where
  "so_state_view E d s key = map_option fst (so_GetState E d key s)"

definition so_committed_view :: "('d, 'tr, 'v) sdb_env \<Rightarrow> 'd \<Rightarrow> 'tr Object \<Rightarrow> hash \<Rightarrow> hash option" where
  "so_committed_view E d s key = map_option fst (so_GetCommittedState E d key s)"

definition so_code_view :: "('d, 'tr, 'v) sdb_env \<Rightarrow> 'd \<Rightarrow> 'tr Object \<Rightarrow> bytes option" where
  "so_code_view E d s = fst (so_Code E d s)"

text \<open>The fields that reading never writes.\<close>

definition so_head :: "'tr Object \<Rightarrow> address \<times> hash \<times> Account \<times> bool \<times> Storage option \<times> bool \<times> bool" where
  "so_head s = (so_address s, so_addrHash s, so_data s, so_freeze s, so_fakeStorage s,
     so_suicided s, so_deleted s)"

definition so_view :: "('d, 'tr, 'v) sdb_env \<Rightarrow> 'd \<Rightarrow> 'tr Object \<Rightarrow>
    (address \<times> hash \<times> Account \<times> bool \<times> Storage option \<times> bool \<times> bool) \<times> bytes option \<times>
    (hash \<Rightarrow> hash option) \<times> (hash \<Rightarrow> hash option)" where
  "so_view E d s = (so_head s, so_code_view E d s, so_state_view E d s, so_committed_view E d s)"

lemma so_setError_sel [simp]:
  "so_head (so_setError e s) = so_head s" "so_trie (so_setError e s) = so_trie s"
  "so_code (so_setError e s) = so_code s" "so_originStorage (so_setError e s) = so_originStorage s"
  "so_pendingStorage (so_setError e s) = so_pendingStorage s"
  "so_dirtyStorage (so_setError e s) = so_dirtyStorage s"
  "so_fakeStorage (so_setError e s) = so_fakeStorage s" "so_address (so_setError e s) = so_address s"
  "so_addrHash (so_setError e s) = so_addrHash s" "so_data (so_setError e s) = so_data s"
  "so_suicided (so_setError e s) = so_suicided s" "so_deleted (so_setError e s) = so_deleted s"
  "so_freeze (so_setError e s) = so_freeze s" "so_dirtyCode (so_setError e s) = so_dirtyCode s"
  by (auto simp: so_setError_def so_head_def)

lemma so_head_sel:
  assumes "so_head s = so_head t"
  shows "so_address s = so_address t" "so_addrHash s = so_addrHash t" "so_data s = so_data t"
    "so_freeze s = so_freeze t" "so_fakeStorage s = so_fakeStorage t"
    "so_suicided s = so_suicided t" "so_deleted s = so_deleted t"
  using assms by (simp_all add: so_head_def)

lemma so_view_sel:
  assumes "so_view E d s = so_view E d t"
  shows "so_head s = so_head t" "so_code_view E d s = so_code_view E d t"
    "so_state_view E d s = so_state_view E d t" "so_committed_view E d s = so_committed_view E d t"
  using assms by (simp_all add: so_view_def)

text \<open>The views in closed form.\<close>

definition so_slot_value :: "('d, 'tr, 'v) sdb_env \<Rightarrow> 'tr \<Rightarrow> hash \<Rightarrow> hash" where
  "so_slot_value E tr key = (case TryGetSlot E tr key of
     (_, Some err) \<Rightarrow> 0
   | (enc, None) \<Rightarrow> if enc = [] then 0 else BytesToHash (fst (RlpSplit E enc)))"

lemma so_committed_view_eq:
  "so_committed_view E d s key =
     (case so_fakeStorage s of
        Some f \<Rightarrow> Some (gm_getd 0 f key)
      | None \<Rightarrow> (case gm_get (so_pendingStorage s) key of Some v \<Rightarrow> Some v
      | None \<Rightarrow> (case gm_get (so_originStorage s) key of Some v \<Rightarrow> Some v
      | None \<Rightarrow> map_option (\<lambda>tr. so_slot_value E tr key) (so_trie_view E d s))))"
  by (auto simp: so_committed_view_def so_GetCommittedState_def so_trie_view_def so_slot_value_def
      Let_def split: option.split prod.split)

lemma so_state_view_eq:
  "so_state_view E d s key =
     (case so_fakeStorage s of
        Some f \<Rightarrow> Some (gm_getd 0 f key)
      | None \<Rightarrow> (case gm_get (so_dirtyStorage s) key of Some v \<Rightarrow> Some v
      | None \<Rightarrow> so_committed_view E d s key))"
  by (simp add: so_state_view_def so_GetState_def so_committed_view_def split: option.split)

lemma so_code_view_eq:
  "so_code_view E d s =
     (case so_code s of Some c \<Rightarrow> Some c
      | None \<Rightarrow> if so_CodeHash s = emptyCodeHash E then None
               else fst (ContractCode E d (so_addrHash s) (BytesToHash (so_CodeHash s))))"
  by (simp add: so_code_view_def so_Code_def Let_def split: option.split prod.split)

lemma so_trie_view_eq:
  "so_trie_view E d s =
     (case so_trie s of Some t \<Rightarrow> Some t
      | None \<Rightarrow> (case OpenStorageTrie E d (so_addrHash s) (acc_Root (so_data s)) of Inr t \<Rightarrow> Some t
      | Inl _ \<Rightarrow> (case OpenStorageTrie E d (so_addrHash s) 0 of Inr t \<Rightarrow> Some t | Inl _ \<Rightarrow> None)))"
  by (simp add: so_trie_view_def so_getTrie_def Let_def split: option.split sum.split)

lemmas view_congs = option.case_cong sum.case_cong if_cong

lemma so_trie_view_cong:
  assumes "so_trie s = so_trie t" and "so_addrHash s = so_addrHash t"
    and "acc_Root (so_data s) = acc_Root (so_data t)"
  shows "so_trie_view E d s = so_trie_view E d t"
  using assms by (simp add: so_trie_view_eq cong: view_congs)

lemma so_code_view_cong:
  assumes "so_code s = so_code t" and "so_addrHash s = so_addrHash t"
    and "acc_CodeHash (so_data s) = acc_CodeHash (so_data t)"
  shows "so_code_view E d s = so_code_view E d t"
  using assms by (simp add: so_code_view_eq so_CodeHash_def cong: view_congs)

lemma so_committed_view_cong:
  assumes "so_fakeStorage s = so_fakeStorage t" and "so_pendingStorage s = so_pendingStorage t"
    and "so_originStorage s = so_originStorage t" and "so_trie_view E d s = so_trie_view E d t"
  shows "so_committed_view E d s = so_committed_view E d t"
  using assms by (simp add: so_committed_view_eq fun_eq_iff cong: view_congs)

lemma so_state_view_cong:
  assumes "so_fakeStorage s = so_fakeStorage t" and "so_dirtyStorage s = so_dirtyStorage t"
    and "so_committed_view E d s = so_committed_view E d t"
  shows "so_state_view E d s = so_state_view E d t"
  using assms by (simp add: so_state_view_eq fun_eq_iff cong: view_congs)

text \<open>Reading does not change the view.\<close>

lemma so_getTrie_sel:
  assumes "so_getTrie E d s = (tr, s')"
  shows "so_head s' = so_head s" "so_code s' = so_code s" "so_originStorage s' = so_originStorage s"
    "so_pendingStorage s' = so_pendingStorage s" "so_dirtyStorage s' = so_dirtyStorage s"
    "so_trie s' = tr" "so_trie_view E d s' = tr" "so_trie_view E d s = tr"
    "so_dirtyCode s' = so_dirtyCode s"
  using assms
  by (cases "so_trie s"; auto simp: so_getTrie_def so_trie_view_eq so_head_def Let_def
      split: option.splits sum.splits)+

lemma so_view_eqI:
  assumes "so_head s = so_head t" "so_code_view E d s = so_code_view E d t"
    "so_dirtyStorage s = so_dirtyStorage t" "so_committed_view E d s = so_committed_view E d t"
  shows "so_view E d s = so_view E d t"
  using assms so_state_view_cong [of s t E d] so_head_sel [OF assms(1)] by (simp add: so_view_def)

lemma so_Code_view:
  assumes "so_Code E d s = (c, s')"
  shows "so_view E d s' = so_view E d s" "c = so_code_view E d s" "so_code s' = c"
proof -
  have c: "so_code s' = c" "so_head s' = so_head s" "so_trie s' = so_trie s"
      "so_originStorage s' = so_originStorage s" "so_pendingStorage s' = so_pendingStorage s"
      "so_dirtyStorage s' = so_dirtyStorage s"
    using assms
    by (auto simp: so_Code_def Let_def so_head_def split: option.splits if_splits prod.splits)
  note h = so_head_sel [OF c(2)]
  show cv: "c = so_code_view E d s" using assms by (simp add: so_code_view_def)
  have "so_code_view E d s' = so_code_view E d s"
  proof (cases c)
    case None
    then have "so_code s = None"
      using assms by (auto simp: so_Code_def split: option.splits)
    with None c h show ?thesis by (intro so_code_view_cong) auto
  next
    case (Some x)
    with c have "so_code s' = Some x" by simp
    then have "so_code_view E d s' = Some x" by (simp add: so_code_view_eq)
    with Some cv show ?thesis by simp
  qed
  moreover have "so_trie_view E d s' = so_trie_view E d s" by (rule so_trie_view_cong) (simp_all add: c h)
  ultimately show "so_view E d s' = so_view E d s"
    using c h by (intro so_view_eqI so_committed_view_cong) auto
  show "so_code s' = c" by (rule c)
qed

lemma so_GetCommittedState_view:
  assumes "so_GetCommittedState E d key s = Some (v, s')"
  shows "so_view E d s' = so_view E d s" "so_committed_view E d s key = Some v"
    "so_fakeStorage s = None \<Longrightarrow> so_pendingStorage s' = so_pendingStorage s"
proof -
  show v: "so_committed_view E d s key = Some v" using assms by (simp add: so_committed_view_def)
  consider "s' = s"
    | tr s1 where "so_getTrie E d s = (Some tr, s1)" "so_fakeStorage s = None"
      "gm_get (so_pendingStorage s) key = None" "gm_get (so_originStorage s) key = None"
      "so_head s' = so_head s1" "so_code s' = so_code s1" "so_trie s' = so_trie s1"
      "so_pendingStorage s' = so_pendingStorage s1" "so_dirtyStorage s' = so_dirtyStorage s1"
      "so_originStorage s' = so_originStorage s1 \<or>
         so_originStorage s' = gm_set key (so_slot_value E tr key) (so_originStorage s1)"
  proof (cases "so_fakeStorage s = None \<and> gm_get (so_pendingStorage s) key = None
      \<and> gm_get (so_originStorage s) key = None")
    case True
    obtain tr s1 where g: "so_getTrie E d s = (Some tr, s1)"
      using assms True by (cases "so_getTrie E d s"; cases "fst (so_getTrie E d s)")
        (auto simp: so_GetCommittedState_def)
    obtain enc err where enc: "TryGetSlot E tr key = (enc, err)" by fastforce
    obtain content err' where sp: "RlpSplit E enc = (content, err')" by fastforce
    show thesis
      using True g enc sp assms
      by (intro that(2) [of tr s1]; cases err; cases err'; cases "enc = []")
        (auto simp: so_GetCommittedState_def so_slot_value_def so_head_def)
  next
    case False
    with assms show thesis
      by (intro that(1)) (auto simp: so_GetCommittedState_def split: option.splits)
  qed
  then have "so_view E d s' = so_view E d s \<and> so_pendingStorage s' = so_pendingStorage s"
  proof cases
    case (2 tr s1)
    note g = so_getTrie_sel [OF 2(1)]
    have h: "so_head s' = so_head s" using 2 g by simp
    note hs = so_head_sel [OF h]
    have tv: "so_trie_view E d s' = Some tr" using 2(7) g by (simp add: so_trie_view_eq)
    have "so_code_view E d s' = so_code_view E d s"
      using 2(6) g hs by (intro so_code_view_cong) auto
    moreover have "so_committed_view E d s' = so_committed_view E d s"
    proof
      fix k show "so_committed_view E d s' k = so_committed_view E d s k"
        using 2 g(3,4,8) hs(5) tv
        by (cases "k = key"; cases "gm_get (so_pendingStorage s) k"; cases "gm_get (so_originStorage s) k")
          (auto simp: so_committed_view_eq)
    qed
    ultimately show ?thesis using 2 g h by (auto intro: so_view_eqI)
  qed auto
  then show "so_view E d s' = so_view E d s"
    "so_fakeStorage s = None \<Longrightarrow> so_pendingStorage s' = so_pendingStorage s" by auto
qed

lemma so_GetState_view:
  assumes "so_GetState E d key s = Some (v, s')"
  shows "so_view E d s' = so_view E d s" "so_state_view E d s key = Some v"
proof -
  have "s' = s \<or> so_GetCommittedState E d key s = Some (v, s')"
    using assms by (auto simp: so_GetState_def split: option.splits)
  then show "so_view E d s' = so_view E d s" using so_GetCommittedState_view(1) by metis
  show "so_state_view E d s key = Some v" using assms by (simp add: so_state_view_def)
qed

text \<open>Writers act on the view.\<close>

definition view_cong :: "('d, 'tr, 'v) sdb_env \<Rightarrow> ('tr Object \<Rightarrow> 'tr Object) \<Rightarrow> bool" where
  "view_cong E f \<longleftrightarrow>
     (\<forall>d s t. so_view E d s = so_view E d t \<longrightarrow> so_view E d (f s) = so_view E d (f t))"

lemma so_setBalance_view:
  "so_view E d (so_setBalance b s) =
     ((so_address s, so_addrHash s, (so_data s)\<lparr>acc_Balance := b\<rparr>, so_freeze s, so_fakeStorage s,
       so_suicided s, so_deleted s), so_code_view E d s, so_state_view E d s, so_committed_view E d s)"
  by (auto simp: so_view_def so_head_def so_setBalance_def
      intro!: so_code_view_cong so_state_view_cong so_committed_view_cong so_trie_view_cong)

lemma so_setNonce_view:
  "so_view E d (so_setNonce n s) =
     ((so_address s, so_addrHash s, (so_data s)\<lparr>acc_Nonce := n\<rparr>, so_freeze s, so_fakeStorage s,
       so_suicided s, so_deleted s), so_code_view E d s, so_state_view E d s, so_committed_view E d s)"
  by (auto simp: so_view_def so_head_def so_setNonce_def
      intro!: so_code_view_cong so_state_view_cong so_committed_view_cong so_trie_view_cong)

lemma so_setFreezeState_view:
  "so_view E d (so_setFreezeState b s) =
     ((so_address s, so_addrHash s, so_data s, b, so_fakeStorage s, so_suicided s, so_deleted s),
      so_code_view E d s, so_state_view E d s, so_committed_view E d s)"
  by (auto simp: so_view_def so_head_def so_setFreezeState_def
      intro!: so_code_view_cong so_state_view_cong so_committed_view_cong so_trie_view_cong)

lemma so_suicided_view:
  "so_view E d (s\<lparr>so_suicided := b\<rparr>) =
     ((so_address s, so_addrHash s, so_data s, so_freeze s, so_fakeStorage s, b, so_deleted s),
      so_code_view E d s, so_state_view E d s, so_committed_view E d s)"
  by (auto simp: so_view_def so_head_def
      intro!: so_code_view_cong so_state_view_cong so_committed_view_cong so_trie_view_cong)

lemma so_setState_view:
  "so_view E d (so_setState key v s) =
     (so_head s, so_code_view E d s,
      (if so_fakeStorage s = None then (so_state_view E d s)(key := Some v) else so_state_view E d s),
      so_committed_view E d s)"
proof -
  let ?t = "so_setState key v s"
  have c: "so_committed_view E d ?t = so_committed_view E d s" "so_code_view E d ?t = so_code_view E d s"
    by (auto simp: so_setState_def intro!: so_committed_view_cong so_trie_view_cong so_code_view_cong)
  have "so_state_view E d ?t k = (if so_fakeStorage s = None \<and> k = key then Some v
      else so_state_view E d s k)" for k
    unfolding so_state_view_eq c
    by (cases "so_fakeStorage s"; cases "gm_get (so_dirtyStorage s) k") (simp_all add: so_setState_def)
  with c show ?thesis by (auto simp: so_view_def so_head_def so_setState_def fun_eq_iff)
qed

lemma so_setCode_view:
  "so_view E d (so_setCode h c s) =
     ((so_address s, so_addrHash s, (so_data s)\<lparr>acc_CodeHash := hash_bytes h\<rparr>, so_freeze s,
       so_fakeStorage s, so_suicided s, so_deleted s),
      (case c of Some c \<Rightarrow> Some c | None \<Rightarrow> if hash_bytes h = emptyCodeHash E then None
         else fst (ContractCode E d (so_addrHash s) (BytesToHash (hash_bytes h)))),
      so_state_view E d s, so_committed_view E d s)"
  by (auto simp: so_view_def so_head_def so_setCode_def so_code_view_eq so_CodeHash_def split: option.split
      intro!: so_state_view_cong so_committed_view_cong so_trie_view_cong)

lemmas so_write_views = so_setBalance_view so_setNonce_view so_setFreezeState_view so_suicided_view
  so_setState_view so_setCode_view

lemma view_cong_writers:
  "view_cong E (so_setBalance b)" "view_cong E (so_setNonce n)" "view_cong E (so_setFreezeState z)"
  "view_cong E (so_setState key v)" "view_cong E (so_setCode h c)"
  unfolding view_cong_def so_write_views by (simp_all add: so_view_def so_head_def split: option.split)

lemma view_cong_suicided: "view_cong E (\<lambda>s. s\<lparr>so_suicided := z\<rparr>)"
  unfolding view_cong_def so_write_views by (simp add: so_view_def so_head_def)

lemma view_cong_suicide: "view_cong E (\<lambda>s. so_setBalance b (s\<lparr>so_suicided := z\<rparr>))"
  using view_cong_suicided view_cong_writers(1) unfolding view_cong_def by metis

end
