(* ===== verification/State_DB_Undo.thy ===== *)
theory State_DB_Undo
  imports State_DB_View
begin

text \<open>
  The account state keeps the journal's contract: \<open>sdb_sim\<close> says when two databases
  cannot be told apart, \<open>sdb_inv\<close> what every operation keeps, and the interpretation \<open>stdb\<close>
  of the locale \<open>snapshot_store\<close> discharges the laws for the state's own operations.

  The cache of validator wrappers is not journalled by the code, and is not part of
  \<open>sdb_sim\<close>; see \<open>sdb_revert_keeps_validator\<close>.
\<close>

section \<open>What can be observed\<close>

definition sdb_peek :: "('d, 'tr, 'v) sdb_env \<Rightarrow> ('d, 'tr, 'v) DB \<Rightarrow> address \<Rightarrow> 'tr Object option" where
  "sdb_peek E l addr = fst (sdb_getDeletedStateObject E addr l)"

definition sdb_live :: "('d, 'tr, 'v) sdb_env \<Rightarrow> ('d, 'tr, 'v) DB \<Rightarrow> address \<Rightarrow> 'tr Object option" where
  "sdb_live E l addr = (case sdb_peek E l addr of
     Some ob \<Rightarrow> if so_deleted ob then None else Some ob | None \<Rightarrow> None)"

text \<open>The fields no journalled operation writes.\<close>

definition sdb_frame :: "('d, 'tr, 'v) DB \<Rightarrow> 'd \<times> 'tr \<times> hash \<times> hash \<times> int" where
  "sdb_frame l = (sdb_db l, sdb_trie l, sdb_thash l, sdb_bhash l, sdb_txIndex l)"

text \<open>Counters and records that journalled operations write besides the objects.\<close>

definition sdb_side :: "('d, 'tr, 'v) DB \<Rightarrow>
    u64 \<times> (hash \<Rightarrow> Log list) \<times> u64 \<times> (hash \<Rightarrow> bytes option)" where
  "sdb_side l = (sdb_refund l, \<lambda>h. sdb_GetLogs h l, sdb_logSize l, map_of (sdb_preimages l))"

definition sdb_view where
  "sdb_view E l addr = map_option (so_view E (sdb_db l)) (sdb_peek E l addr)"

definition sdb_sim :: "('d, 'tr, 'v) sdb_env \<Rightarrow> ('d, 'tr, 'v) DB \<Rightarrow> ('d, 'tr, 'v) DB \<Rightarrow> bool" where
  "sdb_sim E s t \<longleftrightarrow> sdb_view E s = sdb_view E t \<and> sdb_frame s = sdb_frame t
     \<and> sdb_side s = sdb_side t
     \<and> stateObjectsPending s = stateObjectsPending t
     \<and> set (stateObjectsDirty s) = set (stateObjectsDirty t)"

text \<open>
  The invariant: objects sit under their own address, have a 32-byte code hash and no fake
  storage; a pending or dirty address has an object; no journal entry can remove the object
  of such an address; and the accounts in the trie have 32-byte code hashes.
\<close>

definition so_ok :: "'tr Object \<Rightarrow> bool" where
  "so_ok s \<longleftrightarrow> length (acc_CodeHash (so_data s)) = 32 \<and> so_fakeStorage s = None"

fun st_entry_ok :: "address set \<Rightarrow> 'tr st_entry \<Rightarrow> bool" where
  "st_entry_ok A (createObjectChange a) = (a \<notin> A)"
| "st_entry_ok A (resetObjectChange p) = so_ok p"
| "st_entry_ok A _ = True"

definition so_trie_ok :: "('d, 'tr, 'v) sdb_env \<Rightarrow> 'tr \<Rightarrow> bool" where
  "so_trie_ok E tr \<longleftrightarrow> (\<forall>a data ch. DecodeAccount E (fst (TryGet E tr a)) = Inr data \<longrightarrow>
     raw_CodeHash data = Some ch \<longrightarrow> length ch = 32)"

definition sdb_scheduled :: "('d, 'tr, 'v) DB \<Rightarrow> address set" where
  "sdb_scheduled l = set (stateObjectsPending l) \<union> set (stateObjectsDirty l)"

definition sdb_inv :: "('d, 'tr, 'v) sdb_env \<Rightarrow> ('d, 'tr, 'v) DB \<Rightarrow> bool" where
  "sdb_inv E l \<longleftrightarrow> (\<forall>a ob. gm_get (stateObjects l) a = Some ob \<longrightarrow> so_address ob = a \<and> so_ok ob)
     \<and> (\<forall>a \<in> sdb_scheduled l. gm_get (stateObjects l) a \<noteq> None)
     \<and> (\<forall>e \<in> set (entries (sdb_journal l)). st_entry_ok (sdb_scheduled l) e)
     \<and> so_trie_ok E (sdb_trie l)"

section \<open>Reading\<close>

lemma so_newObject_sel [simp]:
  "so_address (so_newObject E a data) = a" "so_fakeStorage (so_newObject E a data) = None"
  "so_deleted (so_newObject E a data) = False" "so_freeze (so_newObject E a data) = False"
  "so_suicided (so_newObject E a data) = False"
  "acc_Nonce (so_data (so_newObject E a data)) = raw_Nonce data"
  by (simp_all add: so_newObject_def Let_def)

lemma sdb_setError_sel [simp]:
  "stateObjects (sdb_setError e l) = stateObjects l" "sdb_trie (sdb_setError e l) = sdb_trie l"
  "sdb_frame (sdb_setError e l) = sdb_frame l" "sdb_side (sdb_setError e l) = sdb_side l"
  "sdb_journal (sdb_setError e l) = sdb_journal l" "sdb_db (sdb_setError e l) = sdb_db l"
  "stateObjectsPending (sdb_setError e l) = stateObjectsPending l"
  "stateObjectsDirty (sdb_setError e l) = stateObjectsDirty l"
  "sdb_validRevisions (sdb_setError e l) = sdb_validRevisions l"
  "sdb_nextRevisionID (sdb_setError e l) = sdb_nextRevisionID l"
  "stateValidators (sdb_setError e l) = stateValidators l"
  by (auto simp: sdb_setError_def sdb_frame_def sdb_side_def sdb_GetLogs_def)

lemma sdb_frame_sel:
  assumes "sdb_frame s = sdb_frame t"
  shows "sdb_trie s = sdb_trie t" "sdb_db s = sdb_db t"
  using assms by (simp_all add: sdb_frame_def)

lemma sdb_peek_cached: "gm_get (stateObjects l) a = Some ob \<Longrightarrow> sdb_peek E l a = Some ob"
  by (simp add: sdb_peek_def sdb_getDeletedStateObject_def)

lemma sdb_peek_cong:
  "sdb_trie s = sdb_trie t \<Longrightarrow> gm_get (stateObjects s) a = gm_get (stateObjects t) a \<Longrightarrow>
    sdb_peek E s a = sdb_peek E t a"
  by (simp add: sdb_peek_def sdb_getDeletedStateObject_def Let_def
      split: option.split prod.split sum.split)

lemma sdb_peek_uncached:
  assumes "gm_get (stateObjects l) a = None" and "sdb_peek E l a = Some ob"
  obtains data where "DecodeAccount E (fst (TryGet E (sdb_trie l) a)) = Inr data"
    and "ob = so_newObject E a data"
  using assms
  by (auto simp: sdb_peek_def sdb_getDeletedStateObject_def Let_def
      split: option.splits prod.splits sum.splits if_splits)

definition sdb_loaded ::
    "('d, 'tr, 'v) sdb_env \<Rightarrow> address \<Rightarrow> ('d, 'tr, 'v) DB \<Rightarrow> ('d, 'tr, 'v) DB" where
  "sdb_loaded E a l = snd (sdb_getDeletedStateObject E a l)"

lemma sdb_getDeleted_eq: "sdb_getDeletedStateObject E a l = (sdb_peek E l a, sdb_loaded E a l)"
  by (simp add: sdb_peek_def sdb_loaded_def)

lemma sdb_get_eq: "sdb_getStateObject E a l = (sdb_live E l a, sdb_loaded E a l)"
  by (simp add: sdb_getStateObject_def sdb_getDeleted_eq sdb_live_def split: option.split)

lemma sdb_loaded_objects:
  "gm_get (stateObjects (sdb_loaded E a l)) b =
     (if b = a then sdb_peek E l a else gm_get (stateObjects l) b)"
  by (auto simp: sdb_peek_def sdb_loaded_def sdb_getDeletedStateObject_def Let_def
      sdb_setStateObject_def split: option.split prod.split sum.split)

lemma sdb_loaded_sel [simp]:
  "sdb_frame (sdb_loaded E a l) = sdb_frame l" "sdb_trie (sdb_loaded E a l) = sdb_trie l"
  "sdb_db (sdb_loaded E a l) = sdb_db l" "sdb_side (sdb_loaded E a l) = sdb_side l"
  "sdb_journal (sdb_loaded E a l) = sdb_journal l"
  "stateObjectsPending (sdb_loaded E a l) = stateObjectsPending l"
  "stateObjectsDirty (sdb_loaded E a l) = stateObjectsDirty l"
  "sdb_validRevisions (sdb_loaded E a l) = sdb_validRevisions l"
  "sdb_nextRevisionID (sdb_loaded E a l) = sdb_nextRevisionID l"
  "stateValidators (sdb_loaded E a l) = stateValidators l"
  by (auto simp: sdb_loaded_def sdb_getDeletedStateObject_def Let_def sdb_setStateObject_def
      sdb_frame_def sdb_side_def sdb_GetLogs_def sdb_setError_def
      split: option.split prod.split sum.split)

lemma emptyCodeHash_length [simp]: "length (emptyCodeHash E) = 32"
  by (simp add: emptyCodeHash_def)

lemma so_newObject_ok:
  "(\<And>ch. raw_CodeHash data = Some ch \<Longrightarrow> length ch = 32) \<Longrightarrow> so_ok (so_newObject E a data)"
  by (simp add: so_ok_def so_newObject_def Let_def split: option.split)

lemma sdb_peek_ok:
  assumes "sdb_inv E l" and "sdb_peek E l a = Some ob"
  shows "so_address ob = a \<and> so_ok ob"
proof (cases "gm_get (stateObjects l) a")
  case None
  from sdb_peek_uncached [OF None assms(2)] obtain data where
    "DecodeAccount E (fst (TryGet E (sdb_trie l) a)) = Inr data" "ob = so_newObject E a data" by blast
  with assms(1) show ?thesis by (auto simp: sdb_inv_def so_trie_ok_def intro!: so_newObject_ok)
next
  case (Some ob')
  with assms show ?thesis using sdb_peek_cached [OF Some, of E] by (auto simp: sdb_inv_def)
qed

lemma sdb_peek_loaded [simp]: "sdb_peek E (sdb_loaded E a l) = sdb_peek E l"
proof
  fix b show "sdb_peek E (sdb_loaded E a l) b = sdb_peek E l b"
  proof (cases "gm_get (stateObjects (sdb_loaded E a l)) b = gm_get (stateObjects l) b")
    case True then show ?thesis by (intro sdb_peek_cong) auto
  next
    case False
    then have "b = a" by (simp add: sdb_loaded_objects split: if_splits)
    with False show ?thesis
      by (cases "sdb_peek E l a")
        (auto simp: sdb_loaded_objects sdb_peek_def sdb_getDeletedStateObject_def
          split: option.splits prod.splits sum.splits if_splits)
  qed
qed

lemma sdb_view_loaded [simp]: "sdb_view E (sdb_loaded E a l) = sdb_view E l"
  by (simp add: sdb_view_def fun_eq_iff)

lemma sdb_loaded_scheduled [simp]: "sdb_scheduled (sdb_loaded E a l) = sdb_scheduled l"
  by (simp add: sdb_scheduled_def)

lemma sdb_loaded_inv:
  assumes "sdb_inv E l"
  shows "sdb_inv E (sdb_loaded E a l)"
proof -
  have "gm_get (stateObjects (sdb_loaded E a l)) b \<noteq> None" if "gm_get (stateObjects l) b \<noteq> None" for b
    using that sdb_peek_cached [of l b _ E] by (auto simp: sdb_loaded_objects)
  with assms sdb_peek_ok [OF assms, of a] show ?thesis
    unfolding sdb_inv_def by (simp add: sdb_loaded_objects)
qed

lemma sdb_loaded_sim: "sdb_sim E (sdb_loaded E a l) l"
  by (simp add: sdb_sim_def)

lemma sdb_live_loaded [simp]: "sdb_live E (sdb_loaded E a l) = sdb_live E l"
  by (simp add: sdb_live_def fun_eq_iff)

lemma sdb_live_peek: "sdb_live E l a = Some ob \<longleftrightarrow> sdb_peek E l a = Some ob \<and> \<not> so_deleted ob"
  by (auto simp: sdb_live_def split: option.splits if_splits)

lemma sdb_live_cached:
  assumes "sdb_live E l a = Some ob"
  shows "gm_get (stateObjects (sdb_loaded E a l)) a = Some ob" and "\<not> so_deleted ob"
  using assms by (auto simp: sdb_live_peek sdb_loaded_objects)

section \<open>Writing\<close>

lemma sdb_append_sel [simp]:
  "sdb_frame (sdb_append e l) = sdb_frame l" "sdb_trie (sdb_append e l) = sdb_trie l"
  "sdb_db (sdb_append e l) = sdb_db l" "sdb_side (sdb_append e l) = sdb_side l"
  "stateObjects (sdb_append e l) = stateObjects l"
  "sdb_journal (sdb_append e l) = journal_append st_dirtied e (sdb_journal l)"
  "stateObjectsPending (sdb_append e l) = stateObjectsPending l"
  "stateObjectsDirty (sdb_append e l) = stateObjectsDirty l"
  "sdb_validRevisions (sdb_append e l) = sdb_validRevisions l"
  "sdb_nextRevisionID (sdb_append e l) = sdb_nextRevisionID l"
  "stateValidators (sdb_append e l) = stateValidators l"
  by (simp_all add: sdb_append_def sdb_frame_def sdb_side_def sdb_GetLogs_def)

lemma sdb_write_sel [simp]:
  "sdb_frame (sdb_write a f l) = sdb_frame l" "sdb_trie (sdb_write a f l) = sdb_trie l"
  "sdb_db (sdb_write a f l) = sdb_db l" "sdb_side (sdb_write a f l) = sdb_side l"
  "sdb_journal (sdb_write a f l) = sdb_journal l"
  "stateObjectsPending (sdb_write a f l) = stateObjectsPending l"
  "stateObjectsDirty (sdb_write a f l) = stateObjectsDirty l"
  "sdb_validRevisions (sdb_write a f l) = sdb_validRevisions l"
  "sdb_nextRevisionID (sdb_write a f l) = sdb_nextRevisionID l"
  "stateValidators (sdb_write a f l) = stateValidators l"
  by (auto simp: sdb_write_def sdb_frame_def sdb_side_def sdb_GetLogs_def split: option.split)

lemma sdb_write_objects:
  "gm_get (stateObjects (sdb_write a f l)) b =
     (if b = a then map_option f (gm_get (stateObjects l) a) else gm_get (stateObjects l) b)"
  by (simp add: sdb_write_def split: option.split)

lemma sdb_setObject_sel [simp]:
  "sdb_frame (sdb_setStateObject ob l) = sdb_frame l" "sdb_trie (sdb_setStateObject ob l) = sdb_trie l"
  "sdb_db (sdb_setStateObject ob l) = sdb_db l" "sdb_side (sdb_setStateObject ob l) = sdb_side l"
  "sdb_journal (sdb_setStateObject ob l) = sdb_journal l"
  "stateObjectsPending (sdb_setStateObject ob l) = stateObjectsPending l"
  "stateObjectsDirty (sdb_setStateObject ob l) = stateObjectsDirty l"
  "sdb_validRevisions (sdb_setStateObject ob l) = sdb_validRevisions l"
  "sdb_nextRevisionID (sdb_setStateObject ob l) = sdb_nextRevisionID l"
  "stateValidators (sdb_setStateObject ob l) = stateValidators l"
  "gm_get (stateObjects (sdb_setStateObject ob l)) b =
     (if b = so_address ob then Some ob else gm_get (stateObjects l) b)"
  by (simp_all add: sdb_setStateObject_def sdb_frame_def sdb_side_def sdb_GetLogs_def)

text \<open>Updates of fields the objects do not depend on.\<close>

lemma sdb_peek_other [simp]:
  "sdb_peek E (l\<lparr>sdb_journal := j\<rparr>) = sdb_peek E l" "sdb_peek E (l\<lparr>sdb_refund := r\<rparr>) = sdb_peek E l"
  "sdb_peek E (l\<lparr>sdb_preimages := p\<rparr>) = sdb_peek E l"
  "sdb_peek E (l\<lparr>stateValidators := v\<rparr>) = sdb_peek E l"
  "sdb_peek E (l\<lparr>sdb_validRevisions := rs\<rparr>) = sdb_peek E l"
  "sdb_peek E (sdb_append e l) = sdb_peek E l" "sdb_peek E (sdb_setError err l) = sdb_peek E l"
  by (auto intro!: ext sdb_peek_cong)

lemma sdb_view_other [simp]:
  "sdb_view E (l\<lparr>sdb_journal := j\<rparr>) = sdb_view E l" "sdb_view E (l\<lparr>sdb_refund := r\<rparr>) = sdb_view E l"
  "sdb_view E (l\<lparr>sdb_preimages := p\<rparr>) = sdb_view E l"
  "sdb_view E (l\<lparr>stateValidators := v\<rparr>) = sdb_view E l"
  "sdb_view E (l\<lparr>sdb_validRevisions := rs\<rparr>) = sdb_view E l"
  "sdb_view E (sdb_append e l) = sdb_view E l" "sdb_view E (sdb_setError err l) = sdb_view E l"
  by (simp_all add: sdb_view_def fun_eq_iff)

lemma sdb_frame_other [simp]:
  "sdb_frame (l\<lparr>sdb_journal := j\<rparr>) = sdb_frame l" "sdb_frame (l\<lparr>sdb_refund := r\<rparr>) = sdb_frame l"
  "sdb_frame (l\<lparr>sdb_preimages := p\<rparr>) = sdb_frame l"
  "sdb_frame (l\<lparr>stateValidators := v\<rparr>) = sdb_frame l"
  "sdb_frame (l\<lparr>sdb_validRevisions := rs\<rparr>) = sdb_frame l"
  by (simp_all add: sdb_frame_def)

lemma sdb_side_other [simp]:
  "sdb_side (l\<lparr>sdb_journal := j\<rparr>) = sdb_side l"
  "sdb_side (l\<lparr>stateValidators := v\<rparr>) = sdb_side l"
  "sdb_side (l\<lparr>sdb_validRevisions := rs\<rparr>) = sdb_side l"
  by (simp_all add: sdb_side_def sdb_GetLogs_def)

lemma sdb_inv_other [simp]:
  "sdb_inv E (l\<lparr>sdb_refund := r\<rparr>) = sdb_inv E l" "sdb_inv E (l\<lparr>sdb_preimages := p\<rparr>) = sdb_inv E l"
  "sdb_inv E (l\<lparr>stateValidators := v\<rparr>) = sdb_inv E l"
  "sdb_inv E (l\<lparr>sdb_validRevisions := rs\<rparr>) = sdb_inv E l"
  "sdb_inv E (sdb_setError err l) = sdb_inv E l"
  by (simp_all add: sdb_inv_def sdb_scheduled_def)

lemma sdb_peek_setObject:
  "sdb_peek E (sdb_setStateObject ob l) = (sdb_peek E l)(so_address ob := Some ob)"
  by (rule ext) (auto intro: sdb_peek_cached sdb_peek_cong)

lemma sdb_peek_write:
  assumes "gm_get (stateObjects l) a = Some ob"
  shows "sdb_peek E (sdb_write a f l) = (sdb_peek E l)(a := Some (f ob))"
  using assms by (auto simp: fun_eq_iff sdb_write_objects intro: sdb_peek_cached sdb_peek_cong)

lemma sdb_view_upd:
  assumes "sdb_peek E s = (sdb_peek E t)(a := Some ob)" and "sdb_db s = sdb_db t"
  shows "sdb_view E s = (sdb_view E t)(a := Some (so_view E (sdb_db t) ob))"
  using assms by (simp add: sdb_view_def fun_eq_iff)

lemma sdb_peek_write_loaded:
  assumes "sdb_live E l a = Some ob"
  shows "sdb_peek E (sdb_write a f (sdb_loaded E a l)) = (sdb_peek E l)(a := Some (f ob))"
  using sdb_peek_write [OF sdb_live_cached(1) [OF assms], of E f] by simp

definition sdb_forget :: "address \<Rightarrow> ('d, 'tr, 'v) DB \<Rightarrow> ('d, 'tr, 'v) DB" where
  "sdb_forget a l = l\<lparr>stateObjects := gm_del a (stateObjects l),
     stateObjectsDirty := gs_del a (stateObjectsDirty l)\<rparr>"

lemma sdb_forget_sel [simp]:
  "sdb_frame (sdb_forget a l) = sdb_frame l" "sdb_side (sdb_forget a l) = sdb_side l"
  "sdb_db (sdb_forget a l) = sdb_db l" "sdb_trie (sdb_forget a l) = sdb_trie l"
  "sdb_journal (sdb_forget a l) = sdb_journal l"
  "stateObjectsPending (sdb_forget a l) = stateObjectsPending l"
  "stateObjectsDirty (sdb_forget a l) = gs_del a (stateObjectsDirty l)"
  "stateObjects (sdb_forget a l) = gm_del a (stateObjects l)"
  "sdb_validRevisions (sdb_forget a l) = sdb_validRevisions l"
  "sdb_nextRevisionID (sdb_forget a l) = sdb_nextRevisionID l"
  "stateValidators (sdb_forget a l) = stateValidators l"
  by (simp_all add: sdb_forget_def sdb_frame_def sdb_side_def sdb_GetLogs_def)

text \<open>What the trie alone answers.\<close>

definition sdb_trie_peek where
  "sdb_trie_peek E l = sdb_peek E (l\<lparr>stateObjects := []\<rparr>)"

lemma sdb_trie_peek_cong: "sdb_trie s = sdb_trie t \<Longrightarrow> sdb_trie_peek E s = sdb_trie_peek E t"
  by (rule ext) (simp add: sdb_trie_peek_def sdb_peek_cong [of "s\<lparr>stateObjects := []\<rparr>" "t\<lparr>stateObjects := []\<rparr>"])

lemma sdb_peek_forget:
  "sdb_peek E (sdb_forget a l) = (sdb_peek E l)(a := sdb_trie_peek E l a)"
  by (rule ext) (auto simp: sdb_trie_peek_def intro: sdb_peek_cong)

lemma sdb_trie_peek_None: "sdb_peek E l a = None \<Longrightarrow> sdb_trie_peek E l a = None"
  by (auto simp: sdb_trie_peek_def sdb_peek_def sdb_getDeletedStateObject_def Let_def
      split: option.splits prod.splits sum.splits if_splits)

definition sdb_unlog :: "hash \<Rightarrow> ('d, 'tr, 'v) DB \<Rightarrow> ('d, 'tr, 'v) DB" where
  "sdb_unlog h l = (if length (sdb_GetLogs h l) = 1
     then l\<lparr>sdb_logs := gm_del h (sdb_logs l), sdb_logSize := sdb_logSize l - 1\<rparr>
     else l\<lparr>sdb_logs := gm_set h (butlast (sdb_GetLogs h l)) (sdb_logs l),
            sdb_logSize := sdb_logSize l - 1\<rparr>)"

lemma sdb_unlog_sel [simp]:
  "sdb_frame (sdb_unlog h l) = sdb_frame l" "sdb_trie (sdb_unlog h l) = sdb_trie l"
  "sdb_db (sdb_unlog h l) = sdb_db l" "stateObjects (sdb_unlog h l) = stateObjects l"
  "sdb_journal (sdb_unlog h l) = sdb_journal l"
  "stateObjectsPending (sdb_unlog h l) = stateObjectsPending l"
  "stateObjectsDirty (sdb_unlog h l) = stateObjectsDirty l"
  "sdb_validRevisions (sdb_unlog h l) = sdb_validRevisions l"
  "sdb_nextRevisionID (sdb_unlog h l) = sdb_nextRevisionID l"
  "stateValidators (sdb_unlog h l) = stateValidators l"
  by (simp_all add: sdb_unlog_def sdb_frame_def)

lemma sdb_peek_unlog [simp]: "sdb_peek E (sdb_unlog h l) = sdb_peek E l"
  by (rule ext, rule sdb_peek_cong) auto

lemma sdb_view_unlog [simp]: "sdb_view E (sdb_unlog h l) = sdb_view E l"
  by (simp add: sdb_view_def fun_eq_iff)

lemma sdb_side_unlog:
  "sdb_side (sdb_unlog h l) = (case sdb_side l of (r, logs, n, p) \<Rightarrow>
     (r, logs(h := butlast (logs h)), n - 1, p))"
  by (cases "sdb_GetLogs h l" rule: rev_cases)
    (auto simp: sdb_side_def sdb_unlog_def sdb_GetLogs_def fun_eq_iff)

end
