(* ===== verification/State_DB_Store.thy ===== *)
theory State_DB_Store
  imports State_DB_Undo
begin

text \<open>
  The account state as a store with snapshots: undoing an entry respects what can be
  observed, every operation is undone by the entries it journals, and the interpretations
  of \<open>undo_log\<close> and \<open>snapshot_store\<close>.
\<close>

section \<open>Undoing one entry\<close>

definition sdb_upd :: "('d, 'tr, 'v) sdb_env \<Rightarrow> address \<Rightarrow> ('tr Object \<Rightarrow> 'tr Object) \<Rightarrow>
    ('d, 'tr, 'v) DB \<Rightarrow> ('d, 'tr, 'v) DB" where
  "sdb_upd E a f l = sdb_write a f (sdb_loaded E a l)"

lemma sdb_upd_sel [simp]:
  "sdb_frame (sdb_upd E a f l) = sdb_frame l" "sdb_trie (sdb_upd E a f l) = sdb_trie l"
  "sdb_db (sdb_upd E a f l) = sdb_db l" "sdb_side (sdb_upd E a f l) = sdb_side l"
  "sdb_journal (sdb_upd E a f l) = sdb_journal l"
  "stateObjectsPending (sdb_upd E a f l) = stateObjectsPending l"
  "stateObjectsDirty (sdb_upd E a f l) = stateObjectsDirty l"
  "sdb_validRevisions (sdb_upd E a f l) = sdb_validRevisions l"
  "sdb_nextRevisionID (sdb_upd E a f l) = sdb_nextRevisionID l"
  "stateValidators (sdb_upd E a f l) = stateValidators l"
  by (simp_all add: sdb_upd_def)

lemma sdb_upd_view:
  assumes "sdb_live E l a = Some ob"
  shows "sdb_view E (sdb_upd E a f l) = (sdb_view E l)(a := Some (so_view E (sdb_db l) (f ob)))"
  using sdb_view_upd [OF sdb_peek_write_loaded [OF assms]] by (simp add: sdb_upd_def)

lemma st_revert_entry_eqs:
  "st_revert_entry E (createObjectChange a) l = Some (sdb_forget a l)"
  "st_revert_entry E (resetObjectChange p) l = Some (sdb_setStateObject p l)"
  "st_revert_entry E (suicideChange a z b) l = Some (case sdb_live E l a of
      None \<Rightarrow> sdb_loaded E a l
    | Some _ \<Rightarrow> sdb_upd E a (\<lambda>s. so_setBalance b (s\<lparr>so_suicided := z\<rparr>)) l)"
  "st_revert_entry E (addLogChange h) l =
     (if sdb_GetLogs h l = [] then None else Some (sdb_unlog h l))"
  by (auto simp: sdb_forget_def sdb_get_eq sdb_unlog_def sdb_GetLogs_def sdb_upd_def Let_def
      split: option.split)

lemma sdb_on_object_eq:
  "sdb_on_object E a f l = (case sdb_live E l a of None \<Rightarrow> None | Some _ \<Rightarrow> Some (sdb_upd E a f l))"
  by (simp add: sdb_on_object_def sdb_get_eq sdb_upd_def split: option.split)

text \<open>The entries whose \<open>revert\<close> writes one field of the object.\<close>

fun st_writer :: "'tr st_entry \<Rightarrow> (address \<times> ('tr Object \<Rightarrow> 'tr Object)) option" where
  "st_writer (balanceChange a b) = Some (a, so_setBalance b)"
| "st_writer (nonceChange a n) = Some (a, so_setNonce n)"
| "st_writer (storageChange a k v) = Some (a, so_setState k v)"
| "st_writer (codeChange a h c) = Some (a, so_setCode (BytesToHash h) c)"
| "st_writer (freezeChange a z) = Some (a, so_setFreezeState z)"
| "st_writer _ = None"

lemma st_revert_writer:
  "st_writer e = Some (a, f) \<Longrightarrow> st_revert_entry E e l =
     (case sdb_live E l a of None \<Rightarrow> None | Some _ \<Rightarrow> Some (sdb_upd E a f l))"
  by (cases e) (auto simp: sdb_on_object_eq)

lemma st_writer_cong: "st_writer e = Some (a, f) \<Longrightarrow> view_cong E f"
  by (cases e) (auto intro: view_cong_writers)

text \<open>A writer keeps the address, the fake storage and the length of the code hash.\<close>

definition so_keeps :: "('tr Object \<Rightarrow> 'tr Object) \<Rightarrow> bool" where
  "so_keeps f \<longleftrightarrow> (\<forall>s. so_address (f s) = so_address s \<and> so_deleted (f s) = so_deleted s
     \<and> (so_ok s \<longrightarrow> so_ok (f s)))"

lemma so_keeps_writers [intro]:
  "so_keeps (so_setBalance b)" "so_keeps (so_setNonce n)" "so_keeps (so_setState k v)"
  "so_keeps (so_setCode h c)" "so_keeps (so_setFreezeState z)"
  "so_keeps (\<lambda>s. so_setBalance b (s\<lparr>so_suicided := z\<rparr>))"
  "so_keeps (\<lambda>s. so_setBalance b (so_markSuicided s))"
  by (simp_all add: so_keeps_def so_ok_def so_setBalance_def so_setNonce_def so_setState_def
      so_setCode_def so_setFreezeState_def so_markSuicided_def)

lemma st_writer_keeps: "st_writer e = Some (a, f) \<Longrightarrow> so_keeps f"
  by (cases e) auto

lemma st_entry_cases:
  obtains (writer) a f where "st_writer e = Some (a, f)"
  | (create) a where "e = createObjectChange a"
  | (reset) p where "e = resetObjectChange p"
  | (suicide) a z b where "e = suicideChange a z b"
  | (refund) r where "e = refundChange r"
  | (log) h where "e = addLogChange h"
  | (preimage) h where "e = addPreimageChange h"
  | (touch) a where "e = touchChange a"
  by (cases e) auto

declare st_revert_entry.simps [simp del]

lemmas st_revert_simps = st_revert_entry_eqs st_revert_entry.simps(9,11,12)

lemma st_revert_entry_frame:
  assumes "st_revert_entry E e l = Some l'"
  shows "sdb_frame l' = sdb_frame l" and "sdb_journal l' = sdb_journal l"
    and "stateObjectsPending l' = stateObjectsPending l"
    and "sdb_validRevisions l' = sdb_validRevisions l"
    and "sdb_nextRevisionID l' = sdb_nextRevisionID l" and "stateValidators l' = stateValidators l"
  using assms
  by (cases e rule: st_entry_cases;
      auto simp: st_revert_simps st_revert_writer split: option.splits if_splits)+

lemma sdb_sim_frame:
  assumes "sdb_sim E s t"
  shows "sdb_db s = sdb_db t" "sdb_trie s = sdb_trie t"
  using assms by (simp_all add: sdb_sim_def sdb_frame_def)

lemma sdb_sim_live:
  assumes "sdb_sim E s t"
  shows "map_option (so_view E (sdb_db t)) (sdb_live E s a) =
    map_option (so_view E (sdb_db t)) (sdb_live E t a)"
proof -
  have "sdb_view E s a = sdb_view E t a" using assms by (simp add: sdb_sim_def)
  with sdb_sim_frame(1) [OF assms] show ?thesis
    by (cases "sdb_peek E s a"; cases "sdb_peek E t a")
      (auto simp: sdb_view_def sdb_live_def dest: so_head_sel(7) [OF so_view_sel(1)])
qed

lemma sdb_sim_upd:
  assumes "sdb_sim E s t" and "view_cong E f" and "sdb_live E s a = Some ob"
  shows "\<exists>ob'. sdb_live E t a = Some ob'" and "sdb_sim E (sdb_upd E a f s) (sdb_upd E a f t)"
proof -
  obtain ob' where ob': "sdb_live E t a = Some ob'" "so_view E (sdb_db t) ob = so_view E (sdb_db t) ob'"
    using sdb_sim_live [OF assms(1), of a] assms(3) by (cases "sdb_live E t a") auto
  then show "\<exists>ob'. sdb_live E t a = Some ob'" by blast
  note db = sdb_sim_frame(1) [OF assms(1)]
  have "so_view E (sdb_db t) (f ob) = so_view E (sdb_db t) (f ob')"
    using assms(2) ob'(2) unfolding view_cong_def by blast
  with assms(1) show "sdb_sim E (sdb_upd E a f s) (sdb_upd E a f t)"
    by (simp add: sdb_sim_def sdb_upd_view [OF assms(3)] sdb_upd_view [OF ob'(1)] db)
qed

lemma sdb_sim_loaded: "sdb_sim E s t \<Longrightarrow> sdb_sim E (sdb_loaded E a s) (sdb_loaded E a t)"
  by (simp add: sdb_sim_def)

lemma sdb_sim_forget:
  assumes "sdb_sim E s t"
  shows "sdb_sim E (sdb_forget a s) (sdb_forget a t)"
proof -
  note fr = sdb_sim_frame(2,1) [OF assms]
  have "sdb_view E (sdb_forget a u) = (sdb_view E u)(a := map_option (so_view E (sdb_db u)) (sdb_trie_peek E u a))"
    for u :: "('a, 'b, 'c) DB"
    by (simp add: sdb_view_def sdb_peek_forget fun_eq_iff)
  with assms fr sdb_trie_peek_cong [OF fr(1), of E] show ?thesis by (simp add: sdb_sim_def)
qed

lemma sdb_sim_setObject:
  assumes "sdb_sim E s t"
  shows "sdb_sim E (sdb_setStateObject p s) (sdb_setStateObject p t)"
  using assms sdb_view_upd [OF sdb_peek_setObject, of p s E] sdb_view_upd [OF sdb_peek_setObject, of p t E]
    sdb_sim_frame(1) [OF assms]
  by (simp add: sdb_sim_def)

lemma sdb_sim_unlog: "sdb_sim E s t \<Longrightarrow> sdb_sim E (sdb_unlog h s) (sdb_unlog h t)"
  by (simp add: sdb_sim_def sdb_side_unlog)

lemma sdb_sim_logs: "sdb_sim E s t \<Longrightarrow> sdb_GetLogs h s = sdb_GetLogs h t"
  by (simp add: sdb_sim_def sdb_side_def fun_eq_iff)

lemma sdb_sim_refund: "sdb_sim E s t \<Longrightarrow> sdb_sim E (s\<lparr>sdb_refund := r\<rparr>) (t\<lparr>sdb_refund := r\<rparr>)"
  by (simp add: sdb_sim_def sdb_side_def sdb_GetLogs_def)

lemma sdb_sim_preimage:
  "sdb_sim E s t \<Longrightarrow> sdb_sim E (s\<lparr>sdb_preimages := gm_del h (sdb_preimages s)\<rparr>)
     (t\<lparr>sdb_preimages := gm_del h (sdb_preimages t)\<rparr>)"
  by (simp add: sdb_sim_def sdb_side_def sdb_GetLogs_def delete_conv')

lemma st_revert_entry_sim:
  assumes "sdb_sim E s t" and "st_revert_entry E e s = Some s'"
  shows "\<exists>t'. st_revert_entry E e t = Some t' \<and> sdb_sim E s' t'"
proof (cases e rule: st_entry_cases)
  case (writer a f)
  then obtain ob where "sdb_live E s a = Some ob" "s' = sdb_upd E a f s"
    using assms(2) by (auto simp: st_revert_writer split: option.splits)
  with sdb_sim_upd [OF assms(1) st_writer_cong [OF writer] this(1)] show ?thesis
    by (auto simp: st_revert_writer [OF writer])
next
  case (suicide a z b)
  show ?thesis
  proof (cases "sdb_live E s a")
    case None
    then have "sdb_live E t a = None" using sdb_sim_live [OF assms(1), of a] by simp
    with None suicide assms sdb_sim_loaded [OF assms(1)] show ?thesis
      by (auto simp: st_revert_simps)
  next
    case (Some ob)
    from sdb_sim_upd [OF assms(1) view_cong_suicide Some] suicide assms(2) Some show ?thesis
      by (auto simp: st_revert_simps)
  qed
next
  case (log h)
  then show ?thesis
    using assms sdb_sim_logs [OF assms(1)] sdb_sim_unlog [OF assms(1)]
    by (auto simp: st_revert_simps split: if_splits)
qed (use assms sdb_sim_forget sdb_sim_setObject sdb_sim_refund sdb_sim_preimage in
    \<open>auto simp: st_revert_simps\<close>)

lemma sdb_write_inv:
  assumes "sdb_inv E l" and "so_keeps f"
  shows "sdb_inv E (sdb_write a f l)"
  using assms unfolding sdb_inv_def
  by (auto simp: sdb_scheduled_def sdb_write_objects so_keeps_def split: if_splits)

lemma sdb_upd_inv: "sdb_inv E l \<Longrightarrow> so_keeps f \<Longrightarrow> sdb_inv E (sdb_upd E a f l)"
  unfolding sdb_upd_def by (intro sdb_write_inv sdb_loaded_inv)

lemma sdb_setObject_inv:
  "sdb_inv E l \<Longrightarrow> so_ok p \<Longrightarrow> sdb_inv E (sdb_setStateObject p l)"
  unfolding sdb_inv_def by (auto simp: sdb_scheduled_def split: if_splits)

lemma st_revert_entry_inv:
  assumes "sdb_inv E l" and "e \<in> set (entries (sdb_journal l))" and "st_revert_entry E e l = Some l'"
  shows "sdb_inv E l'"
proof (cases e rule: st_entry_cases)
  case (writer a f)
  then show ?thesis
    using assms st_writer_keeps [OF writer] by (auto simp: st_revert_writer sdb_upd_inv split: option.splits)
next
  case (create a)
  then have a: "a \<notin> sdb_scheduled l" using assms by (force simp: sdb_inv_def)
  have l': "l' = sdb_forget a l" using assms(3) create by (simp add: st_revert_simps)
  have "sdb_scheduled l' = sdb_scheduled l" using a by (auto simp: l' sdb_scheduled_def)
  with a assms(1) show ?thesis by (auto simp: sdb_inv_def l')
next
  case (reset p)
  then have "so_ok p" using assms(1,2) by (force simp: sdb_inv_def)
  with reset assms show ?thesis by (auto simp: st_revert_simps sdb_setObject_inv)
next
  case (suicide a z b)
  with assms show ?thesis
    by (auto simp: st_revert_simps split: option.splits intro!: sdb_upd_inv sdb_loaded_inv)
next
  case (log h)
  with assms show ?thesis
    by (auto simp: st_revert_simps sdb_inv_def sdb_scheduled_def split: if_splits)
qed (use assms in \<open>auto simp: st_revert_simps\<close>)

section \<open>The journal's contract\<close>

abbreviation sdb_logged ::
    "('d, 'tr, 'v) sdb_env \<Rightarrow> ('d, 'tr, 'v) DB \<Rightarrow> ('d, 'tr, 'v) DB \<Rightarrow> bool" where
  "sdb_logged E \<equiv> logged (sdb_undo1 E) (\<lambda>l. entries (sdb_journal l)) (sdb_sim E)"

lemma sdb_sim_equivp: "sdb_sim E s s" "sdb_sim E s t \<Longrightarrow> sdb_sim E t s"
  "sdb_sim E s t \<Longrightarrow> sdb_sim E t u \<Longrightarrow> sdb_sim E s u"
  by (auto simp: sdb_sim_def)

lemma sdb_sim_journal: "sdb_sim E (l\<lparr>sdb_journal := j\<rparr>) l"
  by (simp add: sdb_sim_def)

lemma sdb_undo1_Some:
  "sdb_undo1 E e l = Some l' \<longleftrightarrow> (\<exists>t. st_revert_entry E e l = Some t \<and>
     l' = t\<lparr>sdb_journal := journal_undirty st_dirtied e (sdb_journal t)\<rparr>)"
  by (auto simp: sdb_undo1_def)

lemma sdb_inv_journal:
  "sdb_inv E l \<Longrightarrow> set (entries j) \<subseteq> set (entries (sdb_journal l)) \<Longrightarrow>
    sdb_inv E (l\<lparr>sdb_journal := j\<rparr>)"
  by (auto simp: sdb_inv_def sdb_scheduled_def)

interpretation stlog: undo_log "sdb_undo1 E" "\<lambda>l. entries (sdb_journal l)" sdb_truncate "sdb_sim E"
    "sdb_inv E"
  for E :: "('d, 'tr, 'v) sdb_env"
proof
  show "sdb_sim E s s" for s by (rule sdb_sim_equivp)
  show "sdb_sim E s t \<Longrightarrow> sdb_sim E t s" for s t by (rule sdb_sim_equivp)
  show "sdb_sim E s t \<Longrightarrow> sdb_sim E t u \<Longrightarrow> sdb_sim E s u" for s t u by (rule sdb_sim_equivp)
  show "\<exists>t'. sdb_undo1 E e t = Some t' \<and> sdb_sim E s' t'"
    if st: "sdb_sim E s t" "sdb_undo1 E e s = Some s'" for s t e s'
  proof -
    obtain u where u: "st_revert_entry E e s = Some u"
        "s' = u\<lparr>sdb_journal := journal_undirty st_dirtied e (sdb_journal u)\<rparr>"
      using st(2) by (auto simp: sdb_undo1_Some)
    obtain v where v: "st_revert_entry E e t = Some v" "sdb_sim E u v"
      using st_revert_entry_sim [OF st(1) u(1)] by blast
    then have "sdb_sim E s' (v\<lparr>sdb_journal := journal_undirty st_dirtied e (sdb_journal v)\<rparr>)"
      using u(2) by (metis sdb_sim_journal sdb_sim_equivp(2,3))
    with v(1) show ?thesis by (auto simp: sdb_undo1_Some)
  qed
  show "entries (sdb_journal s') = entries (sdb_journal s)" if "sdb_undo1 E e s = Some s'" for e s s'
    using that st_revert_entry_frame(2) by (fastforce simp: sdb_undo1_Some)
  show "sdb_inv E s'"
    if i: "sdb_inv E s" "e \<in> set (entries (sdb_journal s))" "sdb_undo1 E e s = Some s'" for s e s'
  proof -
    obtain u where "st_revert_entry E e s = Some u"
        "s' = u\<lparr>sdb_journal := journal_undirty st_dirtied e (sdb_journal u)\<rparr>"
      using i(3) by (auto simp: sdb_undo1_Some)
    with st_revert_entry_inv [OF i(1,2)] show ?thesis by (auto intro: sdb_inv_journal)
  qed
  show "entries (sdb_journal (sdb_truncate n s)) = take n (entries (sdb_journal s))"
    for n and s :: "('d, 'tr, 'v) DB"
    by (simp add: sdb_truncate_def)
  show "sdb_sim E (sdb_truncate n s) s" for n s by (simp add: sdb_truncate_def sdb_sim_journal)
  show "sdb_inv E (sdb_truncate n s)" if "sdb_inv E s" for n s
    unfolding sdb_truncate_def using that by (rule sdb_inv_journal) (auto dest: in_set_takeD)
qed

section \<open>Safe changes\<close>

text \<open>The dirty counts of the journal are exact for every address but that of the precompiled
  contract that \<open>touch\<close> dirties by hand.\<close>

abbreviation sdb_exact :: "('d, 'tr, 'v) DB \<Rightarrow> bool" where
  "sdb_exact l \<equiv> journal_exact st_dirtied {ripemd} (sdb_journal l)"

text \<open>A change that keeps the invariant, is undone by the entries it appends, keeps the dirty
  counts exact, and leaves the revisions alone.\<close>

definition sdb_safe ::
    "('d, 'tr, 'v) sdb_env \<Rightarrow> ('d, 'tr, 'v) DB \<Rightarrow> ('d, 'tr, 'v) DB \<Rightarrow> bool" where
  "sdb_safe E l l' \<longleftrightarrow> sdb_inv E l' \<and> sdb_logged E l l' \<and> (sdb_exact l \<longrightarrow> sdb_exact l')
     \<and> sdb_validRevisions l' = sdb_validRevisions l \<and> sdb_nextRevisionID l' = sdb_nextRevisionID l"

lemma sdb_safe_trans: "sdb_safe E l m \<Longrightarrow> sdb_safe E m n \<Longrightarrow> sdb_safe E l n"
  unfolding sdb_safe_def using stlog.logged_trans by metis

lemma sdb_safe_refl: "sdb_inv E l \<Longrightarrow> sdb_safe E l l"
  by (simp add: sdb_safe_def stlog.logged_refl)

lemma sdb_safe_silent:
  assumes "sdb_inv E l'" and "sdb_sim E l' l" and "sdb_journal l' = sdb_journal l"
    and "sdb_validRevisions l' = sdb_validRevisions l" and "sdb_nextRevisionID l' = sdb_nextRevisionID l"
  shows "sdb_safe E l l'"
  using assms stlog.logged_silent [OF assms(2)] by (simp add: sdb_safe_def)

lemma sdb_safe1:
  assumes "sdb_inv E l'" and "entries (sdb_journal l') = entries (sdb_journal l) @ [e]"
    and "st_revert_entry E e l' = Some t" and "sdb_sim E t l"
    and "sdb_validRevisions l' = sdb_validRevisions l" and "sdb_nextRevisionID l' = sdb_nextRevisionID l"
    and "sdb_exact l \<Longrightarrow> sdb_exact l'"
  shows "sdb_safe E l l'"
proof -
  have "sdb_logged E l l'"
    unfolding logged_def using assms(2,3) sdb_sim_equivp(3) [OF sdb_sim_journal assms(4)]
    by (intro exI [of _ "[e]"]) (auto simp: sdb_undo1_def)
  with assms show ?thesis by (simp add: sdb_safe_def)
qed

lemma sdb_loaded_safe: "sdb_inv E l \<Longrightarrow> sdb_safe E l (sdb_loaded E a l)"
  by (rule sdb_safe_silent) (simp_all add: sdb_loaded_inv sdb_loaded_sim)

lemma sdb_append_inv:
  "sdb_inv E l \<Longrightarrow> st_entry_ok (sdb_scheduled l) e \<Longrightarrow> sdb_inv E (sdb_append e l)"
  by (simp add: sdb_inv_def sdb_scheduled_def)

lemma st_writer_entry_ok: "st_writer e = Some af \<Longrightarrow> st_entry_ok A e"
  by (cases e) auto

text \<open>Caching into an object.\<close>

lemma so_ok_view: "so_view E d s = so_view E d t \<Longrightarrow> so_ok s = so_ok t"
  by (auto simp: so_ok_def so_view_def so_head_def)

lemma sdb_cache_safe:
  assumes "sdb_inv E l" and "gm_get (stateObjects l) a = Some s"
    and "so_view E (sdb_db l) s' = so_view E (sdb_db l) s"
  shows "sdb_safe E l (sdb_write a (\<lambda>_. s') l)"
proof (rule sdb_safe_silent)
  have s': "so_address s' = so_address s" "so_ok s' = so_ok s"
    using so_head_sel(1) [OF so_view_sel(1) [OF assms(3)]] so_ok_view [OF assms(3)] by auto
  show "sdb_inv E (sdb_write a (\<lambda>_. s') l)"
    using assms(1,2) s' unfolding sdb_inv_def
    by (auto simp: sdb_scheduled_def sdb_write_objects split: if_splits)
  have "sdb_view E l a = Some (so_view E (sdb_db l) s)"
    using sdb_peek_cached [OF assms(2), of E] by (simp add: sdb_view_def)
  then show "sdb_sim E (sdb_write a (\<lambda>_. s') l) l"
    using sdb_view_upd [OF sdb_peek_write [OF assms(2), of E "\<lambda>_. s'"]] assms(3)
    by (auto simp: sdb_sim_def fun_upd_idem)
qed simp_all

text \<open>Writing an object after an entry that undoes the write.\<close>

lemma sdb_write_safe:
  assumes "sdb_inv E l" and "gm_get (stateObjects l) a = Some s" and "\<not> so_deleted s"
    and "so_keeps f" and "st_writer e = Some (a, g)"
    and "so_view E (sdb_db l) (g (f s)) = so_view E (sdb_db l) s"
  shows "sdb_safe E l (sdb_write a f (sdb_append e l))"
proof -
  let ?l' = "sdb_write a f (sdb_append e l)"
  have peek: "sdb_peek E ?l' = (sdb_peek E l)(a := Some (f s))"
    using sdb_peek_write [of "sdb_append e l" a s E f] assms(2) by simp
  have live: "sdb_live E ?l' a = Some (f s)"
    using assms(3,4) by (simp add: sdb_live_peek peek so_keeps_def)
  have "sdb_view E l a = Some (so_view E (sdb_db l) s)"
    using sdb_peek_cached [OF assms(2), of E] by (simp add: sdb_view_def)
  moreover have "sdb_view E ?l' = (sdb_view E l)(a := Some (so_view E (sdb_db l) (f s)))"
    by (rule sdb_view_upd [OF peek]) simp
  ultimately have "sdb_sim E (sdb_upd E a g ?l') l"
    using assms(6) by (simp add: sdb_sim_def sdb_upd_view [OF live] fun_upd_idem)
  moreover have "sdb_inv E ?l'"
    using assms(1,4,5) by (intro sdb_write_inv sdb_append_inv) (auto intro: st_writer_entry_ok)
  ultimately show ?thesis
    by (intro sdb_safe1 [where e = e and t = "sdb_upd E a g ?l'"])
      (auto simp: st_revert_writer [OF assms(5)] live)
qed

text \<open>Replacing the object at an address after \<open>createObject\<close> has journalled the old one.\<close>

definition sdb_replaced ::
    "('d, 'tr, 'v) sdb_env \<Rightarrow> 'tr Object \<Rightarrow> ('d, 'tr, 'v) DB \<Rightarrow> ('d, 'tr, 'v) DB" where
  "sdb_replaced E ob l =
     sdb_setStateObject ob (sdb_append (case sdb_peek E l (so_address ob) of
        None \<Rightarrow> createObjectChange (so_address ob)
      | Some p \<Rightarrow> resetObjectChange p) (sdb_loaded E (so_address ob) l))"

lemma sdb_replaced_sel [simp]:
  "sdb_frame (sdb_replaced E ob l) = sdb_frame l" "sdb_side (sdb_replaced E ob l) = sdb_side l"
  "sdb_db (sdb_replaced E ob l) = sdb_db l" "sdb_trie (sdb_replaced E ob l) = sdb_trie l"
  "stateObjectsPending (sdb_replaced E ob l) = stateObjectsPending l"
  "stateObjectsDirty (sdb_replaced E ob l) = stateObjectsDirty l"
  "sdb_validRevisions (sdb_replaced E ob l) = sdb_validRevisions l"
  "sdb_nextRevisionID (sdb_replaced E ob l) = sdb_nextRevisionID l"
  "stateValidators (sdb_replaced E ob l) = stateValidators l"
  "sdb_peek E (sdb_replaced E ob l) = (sdb_peek E l)(so_address ob := Some ob)"
  "gm_get (stateObjects (sdb_replaced E ob l)) b =
     (if b = so_address ob then Some ob else gm_get (stateObjects l) b)"
  by (simp_all add: sdb_replaced_def sdb_peek_setObject sdb_loaded_objects)

lemma sdb_replaced_safe:
  assumes "sdb_inv E l" and "so_ok ob"
  shows "sdb_safe E l (sdb_replaced E ob l)"
proof (cases "sdb_peek E l (so_address ob)")
  case None
  let ?a = "so_address ob"
  let ?e = "createObjectChange ?a :: 'b st_entry"
  have a: "?a \<notin> sdb_scheduled l"
    using assms None sdb_peek_cached [of l ?a _ E] by (force simp: sdb_inv_def)
  have "sdb_trie_peek E (sdb_replaced E ob l) ?a = None"
    using sdb_trie_peek_None [OF None] sdb_trie_peek_cong [of "sdb_replaced E ob l" l E] by simp
  then have "sdb_peek E (sdb_forget ?a (sdb_replaced E ob l)) = sdb_peek E l"
    using None by (simp add: sdb_peek_forget fun_upd_idem)
  then have sim: "sdb_sim E (sdb_forget ?a (sdb_replaced E ob l)) l"
    using a by (auto simp: sdb_sim_def sdb_view_def sdb_scheduled_def fun_eq_iff)
  have eq: "sdb_replaced E ob l = sdb_setStateObject ob (sdb_append ?e (sdb_loaded E ?a l))"
    using None by (simp add: sdb_replaced_def)
  have "sdb_inv E (sdb_replaced E ob l)"
    unfolding eq using assms a by (intro sdb_setObject_inv sdb_append_inv sdb_loaded_inv) auto
  then show ?thesis
    by (rule sdb_safe1 [where e = ?e, OF _ _ _ sim]) (simp_all add: eq st_revert_simps)
next
  case (Some p)
  let ?e = "resetObjectChange p"
  have p: "so_address p = so_address ob" "so_ok p" using sdb_peek_ok [OF assms(1) Some] by auto
  have "sdb_peek E (sdb_setStateObject p (sdb_replaced E ob l)) = sdb_peek E l"
    using Some p by (simp add: sdb_peek_setObject fun_upd_idem)
  then have sim: "sdb_sim E (sdb_setStateObject p (sdb_replaced E ob l)) l"
    by (simp add: sdb_sim_def sdb_view_def fun_eq_iff)
  have eq: "sdb_replaced E ob l = sdb_setStateObject ob (sdb_append ?e (sdb_loaded E (so_address ob) l))"
    using Some by (simp add: sdb_replaced_def)
  have "sdb_inv E (sdb_replaced E ob l)"
    unfolding eq using assms p by (intro sdb_setObject_inv sdb_append_inv sdb_loaded_inv) auto
  then show ?thesis
    by (rule sdb_safe1 [where e = ?e, OF _ _ _ sim]) (simp_all add: eq st_revert_simps)
qed

text \<open>\<open>createObject\<close>, \<open>CreateAccount\<close> and \<open>GetOrNewStateObject\<close> in these terms.\<close>

definition sdb_fresh :: "('d, 'tr, 'v) sdb_env \<Rightarrow> address \<Rightarrow> 'tr Object" where
  "sdb_fresh E a = so_setNonce 0 (so_newObject E a zeroAccount)"

lemma sdb_fresh_sel [simp]:
  "so_address (sdb_fresh E a) = a" "so_deleted (sdb_fresh E a) = False"
  "so_freeze (sdb_fresh E a) = False" "so_suicided (sdb_fresh E a) = False"
  "so_Nonce (sdb_fresh E a) = 0" "so_Balance (sdb_fresh E a) = 0" "so_ok (sdb_fresh E a)"
  "so_empty E (sdb_fresh E a)"
  by (simp_all add: sdb_fresh_def so_setNonce_def so_newObject_def zeroAccount_def so_ok_def
      so_Nonce_def so_Balance_def so_empty_def Let_def)

lemma sdb_createObject_eq:
  "sdb_createObject E a l = ((sdb_fresh E a, sdb_peek E l a), sdb_replaced E (sdb_fresh E a) l)"
  by (simp add: sdb_createObject_def sdb_getDeleted_eq sdb_replaced_def sdb_fresh_def [symmetric]
      Let_def split: option.split)

lemma sdb_write_replaced:
  assumes "so_address ob = a" and "so_address (f ob) = a"
  shows "sdb_write a f (sdb_replaced E ob l) = sdb_replaced E (f ob) l"
  using assms
  by (cases "sdb_peek E l a") (simp_all add: sdb_write_def sdb_replaced_def sdb_setStateObject_def)

lemma so_setters_address [simp]:
  "so_address (so_setBalance b s) = so_address s" "so_address (so_setNonce n s) = so_address s"
  "so_address (so_setState k v s) = so_address s" "so_address (so_setCode h c s) = so_address s"
  "so_address (so_setFreezeState z s) = so_address s"
  by (simp_all add: so_setBalance_def so_setNonce_def so_setState_def so_setCode_def
      so_setFreezeState_def)

lemma so_ok_setters [simp]:
  "so_ok (so_setBalance b s) = so_ok s" "so_ok (so_setNonce n s) = so_ok s"
  "so_ok (so_setFreezeState z s) = so_ok s" "so_ok (so_setState k v s) = so_ok s"
  by (simp_all add: so_ok_def so_setBalance_def so_setNonce_def so_setFreezeState_def so_setState_def)

lemma sdb_CreateAccount_eq:
  "sdb_CreateAccount E a l = sdb_replaced E (case sdb_peek E l a of
      None \<Rightarrow> sdb_fresh E a
    | Some p \<Rightarrow> so_setBalance (acc_Balance (so_data p)) (sdb_fresh E a)) l"
  by (auto simp: sdb_CreateAccount_def sdb_createObject_eq sdb_write_replaced split: option.split)

lemma sdb_CreateAccount_safe: "sdb_inv E l \<Longrightarrow> sdb_safe E l (sdb_CreateAccount E a l)"
  unfolding sdb_CreateAccount_eq by (rule sdb_replaced_safe) (auto split: option.split)

lemma sdb_GetOrNew_eq:
  "sdb_GetOrNewStateObject E a l = (case sdb_live E l a of
      Some ob \<Rightarrow> (ob, sdb_loaded E a l)
    | None \<Rightarrow> (sdb_fresh E a, sdb_replaced E (sdb_fresh E a) (sdb_loaded E a l)))"
  by (simp add: sdb_GetOrNewStateObject_def sdb_get_eq sdb_createObject_eq split: option.split)

text \<open>After \<open>GetOrNewStateObject\<close> the returned object is live and cached.\<close>

lemma sdb_GetOrNew_spec:
  assumes "sdb_inv E l" and "sdb_GetOrNewStateObject E a l = (s, l')"
  shows "sdb_safe E l l'" and "gm_get (stateObjects l') a = Some s" and "\<not> so_deleted s"
    and "so_address s = a" and "so_ok s" and "sdb_inv E l'"
    and "sdb_peek E l' = (sdb_peek E l)(a := Some s)"
proof -
  have inv: "sdb_inv E (sdb_loaded E a l)" using assms(1) by (rule sdb_loaded_inv)
  have "sdb_safe E (sdb_loaded E a l) (sdb_replaced E (sdb_fresh E a) (sdb_loaded E a l))"
    using inv by (rule sdb_replaced_safe) simp
  with sdb_loaded_safe [OF assms(1), of a] show safe: "sdb_safe E l l'"
    using assms(2) by (auto simp: sdb_GetOrNew_eq split: option.splits intro: sdb_safe_trans)
  then show inv': "sdb_inv E l'" by (simp add: sdb_safe_def)
  show c: "gm_get (stateObjects l') a = Some s"
    using assms(2) sdb_live_cached(1) by (auto simp: sdb_GetOrNew_eq split: option.splits)
  show "\<not> so_deleted s"
    using assms(2) sdb_live_cached(2) by (auto simp: sdb_GetOrNew_eq split: option.splits)
  show "so_address s = a" "so_ok s" using inv' c by (auto simp: sdb_inv_def)
  show "sdb_peek E l' = (sdb_peek E l)(a := Some s)"
    using assms(2) by (auto simp: sdb_GetOrNew_eq sdb_live_peek fun_eq_iff split: option.splits)
qed

section \<open>The operations are safe\<close>

text \<open>A handle on an object: what a method receives as \<open>s\<close> when called through the map.\<close>

definition sdb_holds :: "('d, 'tr, 'v) sdb_env \<Rightarrow> 'tr Object \<Rightarrow> ('d, 'tr, 'v) DB \<Rightarrow> bool" where
  "sdb_holds E s l \<longleftrightarrow> sdb_inv E l \<and> gm_get (stateObjects l) (so_address s) = Some s \<and> \<not> so_deleted s"

lemma sdb_holds_GetOrNew:
  "sdb_inv E l \<Longrightarrow> sdb_GetOrNewStateObject E a l = (s, l') \<Longrightarrow> sdb_holds E s l'"
  using sdb_GetOrNew_spec [of E l a s l'] by (simp add: sdb_holds_def)

lemma sdb_holds_live: "sdb_inv E l \<Longrightarrow> sdb_live E l a = Some s \<Longrightarrow> sdb_holds E s (sdb_loaded E a l) \<and> so_address s = a"
  using sdb_loaded_inv [of E l a] sdb_live_cached [of E l a s] sdb_peek_ok [of E l a s]
  by (simp add: sdb_holds_def sdb_live_peek)

text \<open>An operation that takes a handle from \<open>GetOrNewStateObject\<close> and continues safely.\<close>

lemma sdb_setter_safe:
  assumes "sdb_inv E l" and "sdb_GetOrNewStateObject E a l = (s, l')"
    and "sdb_holds E s l' \<Longrightarrow> sdb_safe E l' l''"
  shows "sdb_safe E l l''"
  using sdb_safe_trans [OF sdb_GetOrNew_spec(1) [OF assms(1,2)] assms(3)]
    sdb_holds_GetOrNew [OF assms(1,2)] by blast

lemma so_SetBalance_safe: "sdb_holds E s l \<Longrightarrow> sdb_safe E l (so_SetBalance s b l)"
  unfolding so_SetBalance_def sdb_holds_def
  by (rule sdb_write_safe [where g = "so_setBalance (acc_Balance (so_data s))"])
    (auto simp: so_setBalance_def)

lemma so_SetNonce_safe: "sdb_holds E s l \<Longrightarrow> sdb_safe E l (so_SetNonce s n l)"
  unfolding so_SetNonce_def sdb_holds_def
  by (rule sdb_write_safe [where g = "so_setNonce (acc_Nonce (so_data s))"])
    (auto simp: so_setNonce_def)

lemma so_SetFreezeState_safe: "sdb_holds E s l \<Longrightarrow> sdb_safe E l (so_SetFreezeState s z l)"
  unfolding so_SetFreezeState_def sdb_holds_def
  by (rule sdb_write_safe [where g = "so_setFreezeState (so_freeze s)"])
    (auto simp: so_setFreezeState_def)

lemma so_touch_safe:
  assumes "sdb_inv E l"
  shows "sdb_safe E l (so_touch s l)"
proof -
  have sel: "entries (sdb_journal (so_touch s l)) = entries (sdb_journal l) @ [touchChange (so_address s)]"
    "\<And>E. sdb_sim E (so_touch s l) l" "sdb_validRevisions (so_touch s l) = sdb_validRevisions l"
    "sdb_nextRevisionID (so_touch s l) = sdb_nextRevisionID l"
    by (simp_all add: so_touch_def Let_def sdb_sim_def)
  have "sdb_exact l \<Longrightarrow> sdb_exact (so_touch s l)"
    using journal_exact_append [of st_dirtied "{ripemd}" "sdb_journal l" "touchChange (so_address s)"]
      journal_exact_dirty [of st_dirtied "{ripemd}" "journal_append st_dirtied (touchChange (so_address s)) (sdb_journal l)"]
    by (auto simp: so_touch_def Let_def)
  note exact = this
  have "sdb_inv E (sdb_append (touchChange (so_address s)) l)" using assms by (rule sdb_append_inv) simp
  then have "sdb_inv E (so_touch s l)"
    by (auto simp: so_touch_def Let_def intro: sdb_inv_journal)
  then show ?thesis
    by (rule sdb_safe1 [where e = "touchChange (so_address s)" and t = "so_touch s l"])
      (use exact in \<open>simp_all add: sel st_revert_simps\<close>)
qed

lemma so_AddBalance_safe: "sdb_holds E s l \<Longrightarrow> sdb_safe E l (so_AddBalance E s b l)"
  using so_touch_safe [of E l s] so_SetBalance_safe [of E s l] sdb_safe_refl [of E l]
  by (simp add: so_AddBalance_def sdb_holds_def)

lemma so_SubBalance_safe: "sdb_holds E s l \<Longrightarrow> sdb_safe E l (so_SubBalance s b l)"
  using so_SetBalance_safe [of E s l] sdb_safe_refl [of E l]
  by (simp add: so_SubBalance_def sdb_holds_def)

lemma so_setState_undo:
  assumes "so_fakeStorage s = None" and "so_state_view E d s key = Some prev"
  shows "so_view E d (so_setState key prev (so_setState key v s)) = so_view E d s"
proof -
  let ?t = "so_setState key v s"
  have t: "so_head ?t = so_head s" "so_code_view E d ?t = so_code_view E d s"
      "so_state_view E d ?t = (so_state_view E d s)(key := Some v)"
      "so_committed_view E d ?t = so_committed_view E d s"
    using so_setState_view [of E d key v s] assms(1) by (simp_all add: so_view_def)
  have "so_fakeStorage ?t = None" using assms(1) by (simp add: so_setState_def)
  then show ?thesis
    using assms(2) unfolding so_setState_view [of E d key prev] t
    by (simp add: so_view_def fun_upd_idem)
qed

lemma so_setCode_undo:
  assumes "length (so_CodeHash s) = 32"
  shows "so_view E d (so_setCode (BytesToHash (so_CodeHash s)) (so_code_view E d s) (so_setCode h c s)) =
    so_view E d s"
proof -
  let ?t = "so_setCode h c s"
  have t: "so_address ?t = so_address s" "so_addrHash ?t = so_addrHash s" "so_freeze ?t = so_freeze s"
      "so_fakeStorage ?t = so_fakeStorage s" "so_suicided ?t = so_suicided s"
      "so_deleted ?t = so_deleted s" "so_data ?t = (so_data s)\<lparr>acc_CodeHash := hash_bytes h\<rparr>"
    by (simp_all add: so_setCode_def)
  have v: "so_state_view E d ?t = so_state_view E d s" "so_committed_view E d ?t = so_committed_view E d s"
    using so_setCode_view [of E d h c s] by (simp_all add: so_view_def)
  have "(case so_code_view E d s of Some c \<Rightarrow> Some c | None \<Rightarrow>
      if so_CodeHash s = emptyCodeHash E then None
      else fst (ContractCode E d (so_addrHash s) (BytesToHash (so_CodeHash s)))) = so_code_view E d s"
    by (cases "so_code s") (auto simp: so_code_view_eq split: option.split)
  with assms show ?thesis
    unfolding so_setCode_view [of E d "BytesToHash (so_CodeHash s)"] t v
      hash_bytes_BytesToHash [OF assms]
    by (simp add: so_view_def so_head_def so_CodeHash_def cong: view_congs)
qed

lemma so_SetCode_safe:
  assumes "sdb_holds E s l"
  shows "sdb_safe E l (so_SetCode E s h c l)"
proof -
  note a = assms [unfolded sdb_holds_def]
  obtain pc s' where sc: "so_Code E (sdb_db l) s = (pc, s')" by fastforce
  note v = so_Code_view [OF sc]
  have s': "so_address s' = so_address s" "so_deleted s' = so_deleted s" "so_CodeHash s' = so_CodeHash s"
    using so_head_sel [OF so_view_sel(1) [OF v(1)]] by (simp_all add: so_CodeHash_def)
  let ?m = "sdb_write (so_address s) (\<lambda>_. s') l"
  have m: "sdb_safe E l ?m" using a v(1) by (intro sdb_cache_safe) auto
  have pc: "pc = so_code_view E (sdb_db l) s'" using v(2) so_view_sel(2) [OF v(1)] by simp
  have "length (so_CodeHash s') = 32"
    using a s'(3) by (auto simp: sdb_inv_def so_ok_def so_CodeHash_def)
  then have "sdb_safe E ?m (sdb_write (so_address s) (so_setCode h c)
      (sdb_append (codeChange (so_address s) (so_CodeHash s') pc) ?m))"
    using m a s' pc so_setCode_undo [of s' E "sdb_db l" h c]
    by (intro sdb_write_safe [where s = s'
          and g = "so_setCode (BytesToHash (so_CodeHash s')) pc"])
      (auto simp: sdb_safe_def sdb_write_objects)
  with m show ?thesis using sdb_safe_trans by (auto simp: so_SetCode_def sc s')
qed

lemma so_SetState_safe:
  assumes "sdb_holds E s l" and "so_SetState E s key v l = Some l'"
  shows "sdb_safe E l l'"
proof -
  note a = assms(1) [unfolded sdb_holds_def]
  have fake: "so_fakeStorage s = None" using a by (auto simp: sdb_inv_def so_ok_def)
  then obtain prev s' where g: "so_GetState E (sdb_db l) key s = Some (prev, s')"
    using assms(2) by (auto simp: so_SetState_def split: option.splits)
  note w = so_GetState_view [OF g]
  have s': "so_address s' = so_address s" "so_deleted s' = so_deleted s" "so_fakeStorage s' = None"
    using so_head_sel [OF so_view_sel(1) [OF w(1)]] fake by auto
  have sv: "so_state_view E (sdb_db l) s' key = Some prev" using w so_view_sel(3) [OF w(1)] by simp
  let ?m = "sdb_write (so_address s) (\<lambda>_. s') l"
  have m: "sdb_safe E l ?m" using a w(1) by (intro sdb_cache_safe) auto
  have "sdb_safe E ?m (sdb_write (so_address s) (so_setState key v)
      (sdb_append (storageChange (so_address s) key prev) ?m))"
    using m a s' so_setState_undo [OF s'(3) sv]
    by (intro sdb_write_safe [where s = s' and g = "so_setState key prev"])
      (auto simp: sdb_safe_def sdb_write_objects)
  with m show ?thesis
    using assms(2) fake sdb_safe_trans by (auto simp: so_SetState_def g s' Let_def split: if_splits)
qed

end
