(* ===== verification/State_DB_Ops.thy ===== *)
theory State_DB_Ops
  imports State_DB_Store
begin

text \<open>
  Every method of the account state that is called between a snapshot and its revert is
  safe, and the state interprets \<open>snapshot_store\<close> and \<open>journalled_store\<close>.
\<close>

section \<open>Setters\<close>

lemma sdb_setters_safe:
  assumes "sdb_inv E l"
  shows "sdb_safe E l (sdb_AddBalance E a b l)" and "sdb_safe E l (sdb_SubBalance E a b l)"
    and "sdb_safe E l (sdb_SetBalance E a b l)" and "sdb_safe E l (sdb_SetNonce E a n l)"
    and "sdb_safe E l (sdb_SetCode E a c l)" and "sdb_safe E l (sdb_SetFreezeState E a z l)"
    and "sdb_safe E l (snd (sdb_GetFreezeState E a l))"
proof -
  obtain s l' where g: "sdb_GetOrNewStateObject E a l = (s, l')" by fastforce
  note set = sdb_setter_safe [OF assms g]
  have refl: "sdb_holds E s l' \<Longrightarrow> sdb_safe E l' l'" by (simp add: sdb_holds_def sdb_safe_refl)
  show "sdb_safe E l (sdb_AddBalance E a b l)"
    by (rule set) (simp add: sdb_AddBalance_def g refl so_AddBalance_safe)
  show "sdb_safe E l (sdb_SubBalance E a b l)"
    by (rule set) (simp add: sdb_SubBalance_def g refl so_SubBalance_safe)
  show "sdb_safe E l (sdb_SetBalance E a b l)"
    by (rule set) (simp add: sdb_SetBalance_def g refl so_SetBalance_safe)
  show "sdb_safe E l (sdb_SetNonce E a n l)"
    by (rule set) (simp add: sdb_SetNonce_def g refl so_SetNonce_safe)
  show "sdb_safe E l (sdb_SetCode E a c l)"
    by (rule set) (simp add: sdb_SetCode_def g refl so_SetCode_safe)
  show "sdb_safe E l (sdb_SetFreezeState E a z l)"
    by (rule set) (simp add: sdb_SetFreezeState_def g so_SetFreezeState_safe)
  show "sdb_safe E l (snd (sdb_GetFreezeState E a l))"
    by (rule set) (simp add: sdb_GetFreezeState_def g refl)
qed

lemma sdb_SetState_safe:
  assumes "sdb_inv E l" and "sdb_SetState E a key v l = Some l'"
  shows "sdb_safe E l l'"
proof -
  obtain s m where g: "sdb_GetOrNewStateObject E a l = (s, m)" by fastforce
  show ?thesis
  proof (rule sdb_setter_safe [OF assms(1) g])
    assume h: "sdb_holds E s m"
    then show "sdb_safe E m l'"
      using assms(2) so_SetState_safe [OF h, of key v l'] sdb_safe_refl [of E m]
      by (auto simp: sdb_SetState_def g sdb_holds_def split: if_splits)
  qed
qed

lemma sdb_Suicide_safe:
  assumes "sdb_inv E l"
  shows "sdb_safe E l (snd (sdb_Suicide E a l))"
proof (cases "sdb_live E l a")
  case None
  then show ?thesis using sdb_loaded_safe [OF assms, of a] by (simp add: sdb_Suicide_def sdb_get_eq)
next
  case (Some s)
  let ?m = "sdb_loaded E a l"
  let ?e = "suicideChange a (so_suicided s) (so_Balance s) :: 'b st_entry"
  let ?f = "\<lambda>s. so_setBalance 0 (so_markSuicided s)"
  let ?g = "\<lambda>x. so_setBalance (so_Balance s) (x\<lparr>so_suicided := so_suicided s\<rparr>)"
  let ?l' = "sdb_write a ?f (sdb_append ?e ?m)"
  have h: "sdb_holds E s ?m" "so_address s = a" using sdb_holds_live [OF assms Some] by auto
  then have c: "gm_get (stateObjects ?m) a = Some s" "sdb_inv E ?m" "\<not> so_deleted s"
    by (auto simp: sdb_holds_def)
  have peek: "sdb_peek E ?l' = (sdb_peek E l)(a := Some (?f s))"
    using sdb_peek_write [of "sdb_append ?e ?m" a s E ?f] c(1) by simp
  have live: "sdb_live E ?l' a = Some (?f s)"
    unfolding sdb_live_peek peek using c(3) by (simp add: so_setBalance_def so_markSuicided_def)
  have gf: "?g (?f s) = s" by (simp add: so_setBalance_def so_markSuicided_def so_Balance_def)
  have "sdb_view E l a = Some (so_view E (sdb_db l) s)"
    using Some by (simp add: sdb_view_def sdb_live_peek)
  moreover have "sdb_view E ?l' = (sdb_view E l)(a := Some (so_view E (sdb_db l) (?f s)))"
    by (rule sdb_view_upd [OF peek]) simp
  ultimately have sim: "sdb_sim E (sdb_upd E a ?g ?l') ?m"
    using gf by (simp add: sdb_sim_def sdb_upd_view [OF live] fun_upd_idem)
  have "sdb_inv E ?l'" using c(2) by (intro sdb_write_inv sdb_append_inv) auto
  then have "sdb_safe E ?m ?l'"
    by (rule sdb_safe1 [where e = ?e, OF _ _ _ sim]) (simp_all add: st_revert_simps live)
  with sdb_safe_trans [OF sdb_loaded_safe [OF assms, of a]] Some show ?thesis
    by (simp add: sdb_Suicide_def sdb_get_eq)
qed

lemma sdb_AddLog_safe:
  assumes "sdb_inv E l"
  shows "sdb_safe E l (sdb_AddLog lg l)"
proof -
  let ?l' = "sdb_AddLog lg l" and ?e = "addLogChange (sdb_thash l)"
  define lg' where "lg' = lg\<lparr>log_TxHash := sdb_thash l, log_BlockHash := sdb_bhash l,
    log_TxIndex := word_of_int (sdb_txIndex l), log_Index := sdb_logSize l\<rparr>"
  have l': "?l' = (sdb_append ?e l)\<lparr>
      sdb_logs := gm_set (sdb_thash l) (sdb_GetLogs (sdb_thash l) l @ [lg']) (sdb_logs l),
      sdb_logSize := sdb_logSize l + 1\<rparr>"
    by (simp add: sdb_AddLog_def sdb_GetLogs_def Let_def lg'_def sdb_append_def)
  have sel: "sdb_frame ?l' = sdb_frame l" "stateObjectsPending ?l' = stateObjectsPending l"
    "stateObjectsDirty ?l' = stateObjectsDirty l" "stateObjects ?l' = stateObjects l"
    "sdb_journal ?l' = journal_append st_dirtied ?e (sdb_journal l)"
    "sdb_validRevisions ?l' = sdb_validRevisions l" "sdb_nextRevisionID ?l' = sdb_nextRevisionID l"
    by (simp_all add: l' sdb_frame_def sdb_append_def)
  have tr: "sdb_trie ?l' = sdb_trie l" "sdb_db ?l' = sdb_db l"
    using sdb_frame_sel [OF sel(1)] by auto
  have view: "sdb_view E ?l' = sdb_view E l"
    using sdb_peek_cong [of ?l' l _ E] by (simp add: sdb_view_def fun_eq_iff sel tr)
  have side: "sdb_side ?l' = (sdb_refund l, (\<lambda>h. sdb_GetLogs h l)(sdb_thash l :=
      sdb_GetLogs (sdb_thash l) l @ [lg']), sdb_logSize l + 1, map_of (sdb_preimages l))"
    by (auto simp: l' sdb_side_def sdb_GetLogs_def sdb_append_def)
  have "sdb_side (sdb_unlog (sdb_thash l) ?l') = sdb_side l"
    by (simp add: sdb_side_unlog side) (simp add: sdb_side_def fun_eq_iff)
  then have sim: "sdb_sim E (sdb_unlog (sdb_thash l) ?l') l"
    by (simp add: sdb_sim_def view sel)
  have "sdb_GetLogs (sdb_thash l) ?l' \<noteq> []" by (simp add: l' sdb_GetLogs_def)
  moreover have "sdb_inv E ?l'" using assms by (simp add: sdb_inv_def sdb_scheduled_def sel tr)
  ultimately show ?thesis
    by (intro sdb_safe1 [where e = ?e, OF _ _ _ sim]) (simp_all add: sel st_revert_simps)
qed

lemma sdb_refund_safe:
  assumes "sdb_inv E l"
  shows "sdb_safe E l ((sdb_append (refundChange (sdb_refund l)) l)\<lparr>sdb_refund := r\<rparr>)" (is "sdb_safe E l ?l'")
proof (rule sdb_safe1 [where e = "refundChange (sdb_refund l)"])
  show "sdb_inv E ?l'" using sdb_append_inv [OF assms, of "refundChange (sdb_refund l)"] by simp
  show "st_revert_entry E (refundChange (sdb_refund l)) ?l' = Some (?l'\<lparr>sdb_refund := sdb_refund l\<rparr>)"
    by (simp add: st_revert_simps)
  show "sdb_sim E (?l'\<lparr>sdb_refund := sdb_refund l\<rparr>) l"
    by (simp add: sdb_sim_def) (simp add: sdb_side_def sdb_GetLogs_def sdb_append_def)
qed simp_all

lemma sdb_AddPreimage_safe:
  assumes "sdb_inv E l"
  shows "sdb_safe E l (sdb_AddPreimage h p l)"
proof (cases "gm_get (sdb_preimages l) h")
  case None
  let ?l' = "(sdb_append (addPreimageChange h) l)\<lparr>sdb_preimages := gm_set h p (sdb_preimages l)\<rparr>"
  have "sdb_safe E l ?l'"
  proof (rule sdb_safe1 [where e = "addPreimageChange h"])
    show "sdb_inv E ?l'" using sdb_append_inv [OF assms, of "addPreimageChange h"] by simp
    show "st_revert_entry E (addPreimageChange h) ?l' =
        Some (?l'\<lparr>sdb_preimages := gm_del h (sdb_preimages ?l')\<rparr>)"
      by (simp add: st_revert_simps)
    show "sdb_sim E (?l'\<lparr>sdb_preimages := gm_del h (sdb_preimages ?l')\<rparr>) l"
      using None by (simp add: sdb_sim_def)
        (auto simp: sdb_side_def sdb_GetLogs_def sdb_append_def fun_eq_iff)
  qed simp_all
  with None show ?thesis by (simp add: sdb_AddPreimage_def)
qed (simp add: sdb_AddPreimage_def sdb_safe_refl assms)

section \<open>Getters\<close>

lemma sdb_plain_getters:
  "snd (sdb_Exist E a l) = sdb_loaded E a l" "snd (sdb_Empty E a l) = sdb_loaded E a l"
  "snd (sdb_GetBalance E a l) = sdb_loaded E a l" "snd (sdb_GetNonce E a l) = sdb_loaded E a l"
  "snd (sdb_GetCodeHash E a l) = sdb_loaded E a l" "snd (sdb_HasSuicided E a l) = sdb_loaded E a l"
  by (auto simp: sdb_Exist_def sdb_Empty_def sdb_GetBalance_def sdb_GetNonce_def sdb_GetCodeHash_def
      sdb_HasSuicided_def sdb_get_eq split: option.split)

lemma sdb_reader_safe:
  assumes "sdb_inv E l" and "sdb_live E l a = Some s"
    and "so_view E (sdb_db l) s' = so_view E (sdb_db l) s"
  shows "sdb_safe E l (sdb_write a (\<lambda>_. s') (sdb_loaded E a l))"
  using sdb_safe_trans [OF sdb_loaded_safe [OF assms(1), of a] sdb_cache_safe [of E "sdb_loaded E a l" a s]]
    sdb_live_cached(1) [OF assms(2)] sdb_loaded_inv [OF assms(1), of a] assms(3) by simp

lemma sdb_GetCode_safe:
  assumes "sdb_inv E l"
  shows "sdb_safe E l (snd (sdb_GetCode E a l))"
proof (cases "sdb_live E l a")
  case (Some s)
  obtain c s' where sc: "so_Code E (sdb_db l) s = (c, s')" by fastforce
  with sdb_reader_safe [OF assms Some so_Code_view(1) [OF sc]] Some show ?thesis
    by (simp add: sdb_GetCode_def sdb_get_eq)
qed (simp add: sdb_GetCode_def sdb_get_eq sdb_loaded_safe assms)

lemma sdb_GetCodeSize_safe:
  assumes "sdb_inv E l"
  shows "sdb_safe E l (snd (sdb_GetCodeSize E a l))"
proof -
  have "sdb_safe E (sdb_loaded E a l) (sdb_setError err (sdb_loaded E a l))" for err
    using sdb_loaded_inv [OF assms] by (intro sdb_safe_silent) (auto simp: sdb_sim_def)
  with sdb_loaded_safe [OF assms, of a] show ?thesis
    by (auto simp: sdb_GetCodeSize_def sdb_get_eq Let_def split: option.split prod.split
        intro: sdb_safe_trans)
qed

lemma sdb_slot_getters_safe:
  assumes "sdb_inv E l"
  shows "sdb_GetState E a key l = Some (v, l') \<Longrightarrow> sdb_safe E l l'"
    and "sdb_GetCommittedState E a key l = Some (v, l') \<Longrightarrow> sdb_safe E l l'"
    and "sdb_GetValidatorFirstElectionEpoch E a l = Some (n, l') \<Longrightarrow> sdb_safe E l l'"
    and "sdb_IsValidator E a l = Some (z, l') \<Longrightarrow> sdb_safe E l l'"
  using sdb_loaded_safe [OF assms, of a] sdb_reader_safe [OF assms]
  by (auto simp: sdb_GetState_def sdb_GetCommittedState_def sdb_GetValidatorFirstElectionEpoch_def
      sdb_IsValidator_def so_IsValidator_def sdb_get_eq split: option.splits
      dest: so_GetState_view(1) so_GetCommittedState_view(1))

lemma sdb_StorageTrie_eq: "sdb_StorageTrie E a l = Some (t, l') \<Longrightarrow> l' = sdb_loaded E a l"
  by (auto simp: sdb_StorageTrie_def sdb_get_eq split: option.splits)

section \<open>Validators\<close>

lemma sdb_validators_safe:
  "sdb_inv E l \<Longrightarrow> sdb_safe E l (l\<lparr>stateValidators := vs\<rparr>)"
  by (rule sdb_safe_silent) (simp_all add: sdb_sim_def)

lemma sdb_UpdateValidatorWrapper_safe:
  assumes "sdb_inv E l"
  shows "sdb_safe E l (snd (sdb_UpdateValidatorWrapper E a val l))"
proof -
  have "sdb_safe E l (sdb_SetCode E a c l)" for c using assms by (rule sdb_setters_safe)
  moreover from this have "sdb_inv E (sdb_SetCode E a c l)" for c by (simp add: sdb_safe_def)
  ultimately have "sdb_safe E l ((sdb_SetCode E a c l)\<lparr>stateValidators := vs\<rparr>)" for c vs
    using sdb_validators_safe sdb_safe_trans by blast
  then show ?thesis
    using sdb_safe_refl [OF assms]
    by (simp add: sdb_UpdateValidatorWrapper_def Let_def split: option.split sum.split)
qed

lemma sdb_ValidatorWrapperCopy_state:
  "snd (sdb_ValidatorWrapperCopy E a l) = snd (sdb_GetCode E a l)"
  by (auto simp: sdb_ValidatorWrapperCopy_def Let_def split: option.split prod.split sum.split)

lemma sdb_ValidatorWrapper_safe:
  assumes "sdb_inv E l"
  shows "sdb_safe E l (snd (sdb_ValidatorWrapper E a l))"
proof -
  let ?m = "snd (sdb_GetCode E a l)"
  have m: "sdb_safe E l ?m" using assms by (rule sdb_GetCode_safe)
  then have "sdb_inv E ?m" by (simp add: sdb_safe_def)
  then have "sdb_safe E l (?m\<lparr>stateValidators := vs\<rparr>)" for vs
    using sdb_safe_trans [OF m sdb_validators_safe] by blast
  then show ?thesis
    using m sdb_safe_refl [OF assms] sdb_ValidatorWrapperCopy_state [of E a l]
    by (auto simp: sdb_ValidatorWrapper_def split: option.split prod.split sum.split)
qed

lemma sdb_SetValidatorFirstElectionEpoch_safe:
  assumes "sdb_inv E l" and "sdb_SetValidatorFirstElectionEpoch E a n l = Some l'"
  shows "sdb_safe E l l'"
proof -
  obtain k m where m: "sdb_GetValidatorFirstElectionEpoch E a l = Some (k, m)"
    using assms(2) by (auto simp: sdb_SetValidatorFirstElectionEpoch_def split: option.splits)
  have lm: "sdb_safe E l m" using sdb_slot_getters_safe(3) [OF assms(1) m] .
  then have "sdb_inv E m" by (simp add: sdb_safe_def)
  then have "sdb_safe E m l'"
    using assms(2) m sdb_SetState_safe sdb_safe_refl
    by (auto simp: sdb_SetValidatorFirstElectionEpoch_def split: if_splits)
  with lm show ?thesis by (rule sdb_safe_trans)
qed

section \<open>Runs\<close>

text \<open>The methods a caller can call between a snapshot and its revert.\<close>

datatype 'v st_op =
    StAddBalance address int
  | StSubBalance address int
  | StSetBalance address int
  | StSetNonce address u64
  | StSetCode address "bytes option"
  | StSetState address hash hash
  | StSetFreezeState address bool
  | StGetFreezeState address
  | StSuicide address
  | StCreateAccount address
  | StAddLog Log
  | StAddPreimage hash bytes
  | StAddRefund u64
  | StSubRefund u64
  | StExist address
  | StEmpty address
  | StGetBalance address
  | StGetNonce address
  | StGetCode address
  | StGetCodeSize address
  | StGetCodeHash address
  | StGetState address hash
  | StGetCommittedState address hash
  | StStorageTrie address
  | StHasSuicided address
  | StValidatorWrapper address
  | StUpdateValidatorWrapper address 'v
  | StSetValidatorFirstElectionEpoch address int
  | StSetValidatorFlag address
  | StUnsetValidatorFlag address
  | StIsValidator address

fun sdb_step ::
    "('d, 'tr, 'v) sdb_env \<Rightarrow> 'v st_op \<Rightarrow> ('d, 'tr, 'v) DB \<Rightarrow> ('d, 'tr, 'v) DB option" where
  "sdb_step E (StAddBalance a b) l = Some (sdb_AddBalance E a b l)"
| "sdb_step E (StSubBalance a b) l = Some (sdb_SubBalance E a b l)"
| "sdb_step E (StSetBalance a b) l = Some (sdb_SetBalance E a b l)"
| "sdb_step E (StSetNonce a n) l = Some (sdb_SetNonce E a n l)"
| "sdb_step E (StSetCode a c) l = Some (sdb_SetCode E a c l)"
| "sdb_step E (StSetState a k v) l = sdb_SetState E a k v l"
| "sdb_step E (StSetFreezeState a z) l = Some (sdb_SetFreezeState E a z l)"
| "sdb_step E (StGetFreezeState a) l = Some (snd (sdb_GetFreezeState E a l))"
| "sdb_step E (StSuicide a) l = Some (snd (sdb_Suicide E a l))"
| "sdb_step E (StCreateAccount a) l = Some (sdb_CreateAccount E a l)"
| "sdb_step E (StAddLog lg) l = Some (sdb_AddLog lg l)"
| "sdb_step E (StAddPreimage h p) l = Some (sdb_AddPreimage h p l)"
| "sdb_step E (StAddRefund g) l = Some (sdb_AddRefund g l)"
| "sdb_step E (StSubRefund g) l = sdb_SubRefund g l"
| "sdb_step E (StExist a) l = Some (snd (sdb_Exist E a l))"
| "sdb_step E (StEmpty a) l = Some (snd (sdb_Empty E a l))"
| "sdb_step E (StGetBalance a) l = Some (snd (sdb_GetBalance E a l))"
| "sdb_step E (StGetNonce a) l = Some (snd (sdb_GetNonce E a l))"
| "sdb_step E (StGetCode a) l = Some (snd (sdb_GetCode E a l))"
| "sdb_step E (StGetCodeSize a) l = Some (snd (sdb_GetCodeSize E a l))"
| "sdb_step E (StGetCodeHash a) l = Some (snd (sdb_GetCodeHash E a l))"
| "sdb_step E (StGetState a k) l = map_option snd (sdb_GetState E a k l)"
| "sdb_step E (StGetCommittedState a k) l = map_option snd (sdb_GetCommittedState E a k l)"
| "sdb_step E (StStorageTrie a) l = map_option snd (sdb_StorageTrie E a l)"
| "sdb_step E (StHasSuicided a) l = Some (snd (sdb_HasSuicided E a l))"
| "sdb_step E (StValidatorWrapper a) l = Some (snd (sdb_ValidatorWrapper E a l))"
| "sdb_step E (StUpdateValidatorWrapper a v) l = Some (snd (sdb_UpdateValidatorWrapper E a v l))"
| "sdb_step E (StSetValidatorFirstElectionEpoch a n) l = sdb_SetValidatorFirstElectionEpoch E a n l"
| "sdb_step E (StSetValidatorFlag a) l = sdb_SetValidatorFlag E a l"
| "sdb_step E (StUnsetValidatorFlag a) l = sdb_UnsetValidatorFlag E a l"
| "sdb_step E (StIsValidator a) l = map_option snd (sdb_IsValidator E a l)"

lemma sdb_step_safe:
  assumes "sdb_inv E l" and "sdb_step E x l = Some l'"
  shows "sdb_safe E l l'"
proof (cases x)
  case (StSubRefund g)
  then show ?thesis
    using assms(2) sdb_refund_safe [OF assms(1)] by (auto simp: sdb_SubRefund_def split: if_splits)
next
  case (StAddRefund g)
  then show ?thesis
    using assms(2) sdb_refund_safe [OF assms(1)] by (auto simp: sdb_AddRefund_def)
next
  case (StStorageTrie a)
  then show ?thesis
    using assms(2) sdb_StorageTrie_eq sdb_loaded_safe [OF assms(1), of a] by fastforce
next
  case (StGetState a k)
  then show ?thesis using assms sdb_slot_getters_safe(1) by fastforce
next
  case (StGetCommittedState a k)
  then show ?thesis using assms sdb_slot_getters_safe(2) by fastforce
next
  case (StIsValidator a)
  then show ?thesis using assms sdb_slot_getters_safe(4) by fastforce
qed (use assms in \<open>auto simp: sdb_plain_getters sdb_SetValidatorFlag_def sdb_UnsetValidatorFlag_def
      sdb_loaded_safe [OF assms(1)] sdb_setters_safe [OF assms(1)] sdb_Suicide_safe [OF assms(1)]
      sdb_AddLog_safe [OF assms(1)] sdb_AddPreimage_safe [OF assms(1)]
      sdb_CreateAccount_safe [OF assms(1)] sdb_GetCode_safe [OF assms(1)]
      sdb_GetCodeSize_safe [OF assms(1)] sdb_ValidatorWrapper_safe [OF assms(1)]
      sdb_UpdateValidatorWrapper_safe [OF assms(1)]
      dest: sdb_SetState_safe [OF assms(1)] sdb_SetValidatorFirstElectionEpoch_safe [OF assms(1)]\<close>)

lemma sdb_set_revisions_sel:
  "sdb_sim E (sdb_set_revisions rs s) s" "sdb_inv E (sdb_set_revisions rs s) = sdb_inv E s"
  by (simp_all add: sdb_set_revisions_def sdb_sim_def)

lemma sdb_Snapshot_sel:
  "sdb_sim E (snd (sdb_Snapshot s)) s" "sdb_inv E (snd (sdb_Snapshot s)) = sdb_inv E s"
  using sdb_peek_cong [of "snd (sdb_Snapshot s)" s _ E]
  by (simp_all add: sdb_Snapshot_def sdb_sim_def sdb_inv_def sdb_scheduled_def sdb_view_def
      sdb_frame_def sdb_side_def sdb_GetLogs_def Let_def fun_eq_iff)

interpretation stdb: snapshot_store "sdb_undo1 E" "\<lambda>l. entries (sdb_journal l)" sdb_truncate "sdb_sim E"
    "sdb_inv E" sdb_validRevisions sdb_nextRevisionID sdb_set_revisions sdb_Snapshot
    "sdb_RevertToSnapshot E" "sdb_step E"
  for E :: "('d, 'tr, 'v) sdb_env"
proof
  show "sdb_validRevisions s' = sdb_validRevisions s \<and> sdb_nextRevisionID s' = sdb_nextRevisionID s"
    if "sdb_undo1 E e s = Some s'" for e s s'
    using that st_revert_entry_frame(4,5) by (fastforce simp: sdb_undo1_Some)
  show "sdb_validRevisions (sdb_truncate n s) = sdb_validRevisions s
      \<and> sdb_nextRevisionID (sdb_truncate n s) = sdb_nextRevisionID s"
    for n and s :: "('d, 'tr, 'v) DB"
    by (simp add: sdb_truncate_def)
  show "sdb_validRevisions (sdb_set_revisions rs s) = rs
      \<and> sdb_nextRevisionID (sdb_set_revisions rs s) = sdb_nextRevisionID s
      \<and> entries (sdb_journal (sdb_set_revisions rs s)) = entries (sdb_journal s)
      \<and> sdb_sim E (sdb_set_revisions rs s) s \<and> sdb_inv E (sdb_set_revisions rs s) = sdb_inv E s" for rs s
    using sdb_set_revisions_sel [of E rs s] by (simp add: sdb_set_revisions_def)
  show "fst (sdb_Snapshot s) = sdb_nextRevisionID s" for s :: "('d, 'tr, 'v) DB"
    by (simp add: sdb_Snapshot_def Let_def)
  show "sdb_validRevisions (snd (sdb_Snapshot s)) = sdb_validRevisions s
      @ [\<lparr>rev_id = sdb_nextRevisionID s, journalIndex = length (entries (sdb_journal s))\<rparr>]"
    for s :: "('d, 'tr, 'v) DB"
    by (simp add: sdb_Snapshot_def Let_def journal_length_def)
  show "sdb_nextRevisionID (snd (sdb_Snapshot s)) = Suc (sdb_nextRevisionID s)"
      "entries (sdb_journal (snd (sdb_Snapshot s))) = entries (sdb_journal s)"
    for s :: "('d, 'tr, 'v) DB"
    by (simp_all add: sdb_Snapshot_def Let_def)
  show "sdb_sim E (snd (sdb_Snapshot s)) s" "sdb_inv E s \<Longrightarrow> sdb_inv E (snd (sdb_Snapshot s))" for s
    using sdb_Snapshot_sel [of E s] by auto
  show "sdb_RevertToSnapshot E i s = (case find_revision (sdb_validRevisions s) i of None \<Rightarrow> None
      | Some idx \<Rightarrow> let n = journalIndex (sdb_validRevisions s ! idx) in
          map_option (\<lambda>t. sdb_set_revisions (take idx (sdb_validRevisions s)) (sdb_truncate n t))
            (undo_entries (sdb_undo1 E) (rev (drop n (entries (sdb_journal s)))) s))" for i s
    by (simp add: sdb_RevertToSnapshot_def sdb_journal_revert_def option.map_comp comp_def Let_def
        split: option.split)
  show "sdb_inv E s'" "sdb_logged E s s'"
      "sdb_validRevisions s' = sdb_validRevisions s \<and> sdb_nextRevisionID s' = sdb_nextRevisionID s"
    if "sdb_inv E s" "sdb_step E x s = Some s'" for s x s'
    using sdb_step_safe [OF that] by (auto simp: sdb_safe_def)
qed

interpretation stjournal: journalled_store "sdb_undo1 E" "\<lambda>l. entries (sdb_journal l)" sdb_truncate "sdb_sim E"
    "sdb_inv E" sdb_validRevisions sdb_nextRevisionID sdb_set_revisions sdb_Snapshot
    "sdb_RevertToSnapshot E" "sdb_step E" sdb_journal st_dirtied "{ripemd}"
  for E :: "('d, 'tr, 'v) sdb_env"
proof
  show "dirties (sdb_journal s') = dirties (journal_undirty st_dirtied e (sdb_journal s))"
    if "sdb_undo1 E e s = Some s'" for e s s'
    using that st_revert_entry_frame(2) by (fastforce simp: sdb_undo1_Some)
  show "sdb_exact s'" if "sdb_inv E s" "sdb_exact s" "sdb_step E x s = Some s'" for s x s'
    using sdb_step_safe [OF that(1,3)] that(2) by (simp add: sdb_safe_def)
qed (simp_all add: sdb_truncate_def sdb_set_revisions_def sdb_Snapshot_def Let_def)

text \<open>Reverting leaves the cache of validator wrappers alone, which no entry records.\<close>

lemma sdb_revert_validators:
  assumes "sdb_RevertToSnapshot E i l = Some l'"
  shows "stateValidators l' = stateValidators l"
proof -
  have undo1: "stateValidators m' = stateValidators m" if "sdb_undo1 E e m = Some m'" for e m m'
    using that st_revert_entry_frame(6) by (fastforce simp: sdb_undo1_Some)
  have "stateValidators m' = stateValidators m" if "undo_entries (sdb_undo1 E) es m = Some m'" for es m m'
    using range_loop_inv [where P = "\<lambda>n. stateValidators n = stateValidators m", OF that] undo1 by auto
  then show ?thesis
    using assms
    by (fastforce simp: sdb_RevertToSnapshot_def sdb_journal_revert_def sdb_truncate_def sdb_set_revisions_def
        Let_def split: option.splits)
qed

end
