(* ===== verification/State_DB_Reach.thy ===== *)
theory State_DB_Reach
  imports State_DB_Ops
begin

text \<open>
  The databases that can be reached through the methods of the account state, and the
  invariant that holds in all of them.
\<close>

section \<open>Reachable databases\<close>

text \<open>What is assumed of the account tries: the accounts in a trie that is opened have
  32-byte code hashes, and writing, deleting and committing keep that.\<close>

definition account_tries_ok :: "('d, 'tr, 'v) sdb_env \<Rightarrow> bool" where
  "account_tries_ok E \<longleftrightarrow>
     (\<forall>d root tr. OpenTrie E d root = Inr tr \<longrightarrow> so_trie_ok E tr)
   \<and> (\<forall>tr a data acc err tr'. so_trie_ok E tr \<longrightarrow> EncodeAccount E acc = Inr data \<longrightarrow>
        length (acc_CodeHash acc) = 32 \<longrightarrow> TryUpdate E tr a data = (err, tr') \<longrightarrow> so_trie_ok E tr')
   \<and> (\<forall>tr a err tr'. so_trie_ok E tr \<longrightarrow> TryDelete E tr a = (err, tr') \<longrightarrow> so_trie_ok E tr')
   \<and> (\<forall>tr f d res tr' d'. so_trie_ok E tr \<longrightarrow> TrieCommit E tr f d = (res, tr', d') \<longrightarrow> so_trie_ok E tr')"

inductive sdb_reachable :: "('d, 'tr, 'v) sdb_env \<Rightarrow> ('d, 'tr, 'v) DB \<Rightarrow> bool" for E where
  st_new: "sdb_New E root db = Inr l \<Longrightarrow> sdb_reachable E l"
| st_step: "sdb_reachable E l \<Longrightarrow> sdb_step E x l = Some l' \<Longrightarrow> sdb_reachable E l'"
| st_snapshot: "sdb_reachable E l \<Longrightarrow> sdb_reachable E (snd (sdb_Snapshot l))"
| st_revert: "sdb_reachable E l \<Longrightarrow> sdb_RevertToSnapshot E i l = Some l' \<Longrightarrow> sdb_reachable E l'"
| st_prepare: "sdb_reachable E l \<Longrightarrow> sdb_reachable E (sdb_Prepare th bh ti l)"
| st_finalise: "sdb_reachable E l \<Longrightarrow> sdb_reachable E (sdb_Finalise E b l)"
| st_root: "sdb_reachable E l \<Longrightarrow> sdb_IntermediateRoot E b l = Some (h, l') \<Longrightarrow> sdb_reachable E l'"
| st_commit: "sdb_reachable E l \<Longrightarrow> sdb_Commit E b l = Some (r, l') \<Longrightarrow> sdb_reachable E l'"
| st_reset: "sdb_reachable E l \<Longrightarrow> sdb_Reset E root l = (r, l') \<Longrightarrow> sdb_reachable E l'"
| st_copy: "sdb_reachable E l \<Longrightarrow> sdb_Copy E l = Some l' \<Longrightarrow> sdb_reachable E l'"

section \<open>The invariant without the journal\<close>

definition sdb_inv0 :: "('d, 'tr, 'v) sdb_env \<Rightarrow> ('d, 'tr, 'v) DB \<Rightarrow> bool" where
  "sdb_inv0 E l \<longleftrightarrow> (\<forall>a ob. gm_get (stateObjects l) a = Some ob \<longrightarrow> so_address ob = a \<and> so_ok ob)
     \<and> (\<forall>a \<in> sdb_scheduled l. gm_get (stateObjects l) a \<noteq> None)
     \<and> so_trie_ok E (sdb_trie l)"

lemma sdb_inv_inv0: "sdb_inv E l \<Longrightarrow> sdb_inv0 E l"
  by (simp add: sdb_inv_def sdb_inv0_def)

lemma sdb_inv0_inv: "sdb_inv0 E l \<Longrightarrow> entries (sdb_journal l) = [] \<Longrightarrow> sdb_inv E l"
  by (simp add: sdb_inv_def sdb_inv0_def)

lemma sdb_clear_sel [simp]:
  "stateObjects (sdb_clearJournalAndRefund l) = stateObjects l"
  "stateObjectsPending (sdb_clearJournalAndRefund l) = stateObjectsPending l"
  "stateObjectsDirty (sdb_clearJournalAndRefund l) = stateObjectsDirty l"
  "entries (sdb_journal (sdb_clearJournalAndRefund l)) = []"
  "sdb_validRevisions (sdb_clearJournalAndRefund l) = []"
  "sdb_trie (sdb_clearJournalAndRefund l) = sdb_trie l"
  "sdb_db (sdb_clearJournalAndRefund l) = sdb_db l"
  "stateValidators (sdb_clearJournalAndRefund l) = stateValidators l"
  by (simp_all add: sdb_clearJournalAndRefund_def Let_def)

lemma sdb_clear_inv: "sdb_inv0 E l \<Longrightarrow> sdb_inv E (sdb_clearJournalAndRefund l)"
  by (rule sdb_inv0_inv) (simp_all add: sdb_inv0_def sdb_scheduled_def)

lemma sdb_write_inv0:
  assumes "sdb_inv0 E l" and "\<And>ob. gm_get (stateObjects l) a = Some ob \<Longrightarrow>
      so_address (f ob) = so_address ob \<and> so_ok (f ob)"
  shows "sdb_inv0 E (sdb_write a f l)"
  using assms unfolding sdb_inv0_def
  by (auto simp: sdb_scheduled_def sdb_write_objects split: if_splits)

lemma so_finalise_ok [simp]:
  "so_address (so_finalise s) = so_address s" "so_ok (so_finalise s) = so_ok s"
  "so_ok (s\<lparr>so_deleted := z\<rparr>) = so_ok s"
  by (simp_all add: so_finalise_def so_ok_def)

lemma sdb_finalise1_inv0:
  assumes "sdb_inv0 E l"
  shows "sdb_inv0 E (sdb_finalise1 E b a l)"
proof (cases "gm_get (stateObjects l) a")
  case (Some ob)
  let ?m = "if so_suicided ob \<or> (b \<and> so_empty E ob) then sdb_write a (\<lambda>ob. ob\<lparr>so_deleted := True\<rparr>) l
    else sdb_write a so_finalise l"
  have "so_address ob = a \<and> so_ok ob" using assms Some by (simp add: sdb_inv0_def)
  then have "sdb_inv0 E (sdb_write a (\<lambda>ob. ob\<lparr>so_deleted := True\<rparr>) l)"
    "sdb_inv0 E (sdb_write a so_finalise l)"
    using Some by (intro sdb_write_inv0 [OF assms]; simp)+
  then have "sdb_inv0 E ?m" by simp
  moreover have "gm_get (stateObjects ?m) a \<noteq> None" using Some by (simp add: sdb_write_objects)
  ultimately show ?thesis
    using Some by (auto simp: sdb_finalise1_def Let_def sdb_inv0_def sdb_scheduled_def)
qed (use assms in \<open>simp add: sdb_finalise1_def\<close>)

lemma sdb_flush_validators_inv:
  assumes "sdb_inv E l"
  shows "sdb_inv E (fold (sdb_flush_validator E) vs l)"
proof -
  have "sdb_inv E (sdb_flush_validator E av m)" if "sdb_inv E m" for av m
    using sdb_UpdateValidatorWrapper_safe [OF that] by (simp add: sdb_flush_validator_def sdb_safe_def)
  then show ?thesis using assms by (induction vs arbitrary: l) auto
qed

lemma sdb_Finalise_inv:
  assumes "sdb_inv E l"
  shows "sdb_inv E (sdb_Finalise E b l)"
proof -
  let ?m = "fold (sdb_flush_validator E) (stateValidators l) l"
  have "sdb_inv0 E ?m" using sdb_flush_validators_inv [OF assms] by (rule sdb_inv_inv0)
  moreover have "sdb_inv0 E m \<Longrightarrow> sdb_inv0 E (fold (sdb_finalise1 E b) as m)" for as m
    by (induction as arbitrary: m) (auto intro: sdb_finalise1_inv0)
  ultimately have "sdb_inv0 E (fold (sdb_finalise1 E b) as ?m)" for as by blast
  then show ?thesis unfolding sdb_Finalise_def Let_def by (rule sdb_clear_inv)
qed

section \<open>Writing to the tries\<close>

lemma so_update_slot_sel:
  assumes "so_update_slot E kv (tr, s) = (tr', s')"
  shows "so_head s' = so_head s" "so_code s' = so_code s" "so_dirtyCode s' = so_dirtyCode s"
  using assms
  by (auto simp: so_update_slot_def so_head_def Let_def split: prod.splits if_splits)

lemma so_update_slots_sel:
  assumes "fold (so_update_slot E) kvs (tr, s) = (tr', s')"
  shows "so_head s' = so_head s \<and> so_code s' = so_code s \<and> so_dirtyCode s' = so_dirtyCode s"
  using assms
proof (induction kvs arbitrary: tr s)
  case (Cons kv kvs)
  obtain tr1 s1 where u: "so_update_slot E kv (tr, s) = (tr1, s1)" by fastforce
  with Cons show ?case using so_update_slot_sel [OF u] by fastforce
qed simp

lemma so_updateTrie_sel:
  assumes "so_updateTrie E d s = Some (tr, s')"
  shows "so_head s' = so_head s" "so_code s' = so_code s" "so_dirtyCode s' = so_dirtyCode s"
proof -
  obtain tr0 s0 where g: "so_getTrie E d (so_finalise s) = (tr0, s0)" by fastforce
  note sel = so_getTrie_sel [OF g]
  have "so_head (so_finalise s) = so_head s" "so_code (so_finalise s) = so_code s"
    "so_dirtyCode (so_finalise s) = so_dirtyCode s" by (simp_all add: so_finalise_def so_head_def)
  then have h: "so_head s0 = so_head s" "so_code s0 = so_code s" "so_dirtyCode s0 = so_dirtyCode s"
    using sel by auto
  have "so_head s' = so_head s \<and> so_code s' = so_code s \<and> so_dirtyCode s' = so_dirtyCode s"
  proof (cases tr0)
    case None
    with assms g h show ?thesis
      by (auto simp: so_updateTrie_def Let_def so_head_def split: if_splits)
  next
    case (Some t)
    obtain t' s1 where f: "fold (so_update_slot E) (so_pendingStorage s0) (t, s0) = (t', s1)" by fastforce
    with assms g Some have "s' = s1\<lparr>so_trie := Some t', so_pendingStorage := []\<rparr>"
      by (auto simp: so_updateTrie_def Let_def)
    with so_update_slots_sel [OF f] h show ?thesis by (simp add: so_head_def)
  qed
  then show "so_head s' = so_head s" "so_code s' = so_code s" "so_dirtyCode s' = so_dirtyCode s" by auto
qed

lemma so_updateRoot_ok:
  assumes "so_updateRoot E d s = Some s'" and "so_ok s"
  shows "so_address s' = so_address s \<and> so_ok s' \<and> so_deleted s' = so_deleted s"
proof -
  obtain t s1 where u: "so_updateTrie E d s = Some (Some t, s1)"
      and s': "s' = s1\<lparr>so_data := (so_data s1)\<lparr>acc_Root := TrieHash E t\<rparr>\<rparr>"
    using assms(1) by (auto simp: so_updateRoot_def split: option.splits prod.splits)
  from so_head_sel [OF so_updateTrie_sel(1) [OF u]] assms(2) show ?thesis
    by (simp add: s' so_ok_def)
qed

lemma so_CommitTrie_ok:
  assumes "so_CommitTrie E d s = Some (err, s', d')" and "so_ok s"
  shows "so_address s' = so_address s \<and> so_ok s'"
proof -
  obtain t s1 where u: "so_updateTrie E d s = Some (t, s1)"
    using assms(1) by (auto simp: so_CommitTrie_def split: option.splits)
  note h = so_head_sel [OF so_updateTrie_sel(1) [OF u]]
  have "\<exists>t r. s' = s1 \<or> s' = s1\<lparr>so_trie := t\<rparr> \<or> s' = s1\<lparr>so_trie := t, so_data := (so_data s1)\<lparr>acc_Root := r\<rparr>\<rparr>"
    using assms(1) u
    by (auto simp: so_CommitTrie_def Let_def split: option.splits prod.splits if_splits)
  with h assms(2) show ?thesis by (auto simp: so_ok_def)
qed

lemma sdb_flush1_inv0:
  assumes "account_tries_ok E" and "sdb_inv0 E l" and "sdb_flush1 E a l = Some l'"
  shows "sdb_inv0 E l'" and "sdb_journal l' = sdb_journal l"
    and "sdb_validRevisions l' = sdb_validRevisions l"
    and "stateObjectsPending l' = stateObjectsPending l \<and> stateObjectsDirty l' = stateObjectsDirty l"
proof -
  obtain ob where ob: "gm_get (stateObjects l) a = Some ob"
    using assms(3) by (auto simp: sdb_flush1_def split: option.splits)
  with assms(2) have obok: "so_address ob = a" "so_ok ob" by (auto simp: sdb_inv0_def)
  have tr: "so_trie_ok E (sdb_trie l)" using assms(2) by (simp add: sdb_inv0_def)
  consider (del) err t where "TryDelete E (sdb_trie l) a = (err, t)" "l' = sdb_setError err (l\<lparr>sdb_trie := t\<rparr>)"
    | (upd) ob' data err t where "so_updateRoot E (sdb_db l) ob = Some ob'"
        "EncodeAccount E (so_data ob') = Inr data" "TryUpdate E (sdb_trie l) (so_address ob') data = (err, t)"
        "l' = sdb_setError err ((sdb_write a (\<lambda>_. ob') l)\<lparr>sdb_trie := t\<rparr>)"
    using assms(3) ob obok
    by (auto simp: sdb_flush1_def sdb_deleteStateObject_def sdb_updateStateObject_def
        split: if_splits option.splits sum.splits prod.splits)
  then have "sdb_inv0 E l' \<and> sdb_journal l' = sdb_journal l \<and> sdb_validRevisions l' = sdb_validRevisions l
    \<and> stateObjectsPending l' = stateObjectsPending l \<and> stateObjectsDirty l' = stateObjectsDirty l"
  proof cases
    case del
    have "so_trie_ok E t" using assms(1) tr del(1) unfolding account_tries_ok_def by blast
    with assms(2) del(2) show ?thesis by (simp add: sdb_inv0_def sdb_scheduled_def)
  next
    case upd
    note ok = so_updateRoot_ok [OF upd(1) obok(2)]
    then have "so_trie_ok E t"
      using assms(1) tr upd(2,3) unfolding account_tries_ok_def so_ok_def by blast
    moreover have "sdb_inv0 E (sdb_write a (\<lambda>_. ob') l)"
      using assms(2) ok obok ob by (intro sdb_write_inv0) auto
    ultimately show ?thesis using upd(4) by (simp add: sdb_inv0_def sdb_scheduled_def)
  qed
  then show "sdb_inv0 E l'" "sdb_journal l' = sdb_journal l"
    "sdb_validRevisions l' = sdb_validRevisions l"
    "stateObjectsPending l' = stateObjectsPending l \<and> stateObjectsDirty l' = stateObjectsDirty l" by auto
qed

lemma sdb_IntermediateRoot_inv:
  assumes "account_tries_ok E" and "sdb_inv E l" and "sdb_IntermediateRoot E b l = Some (h, l')"
  shows "sdb_inv E l'" and "sdb_validRevisions l' = []" and "entries (sdb_journal l') = []"
proof -
  let ?f = "sdb_Finalise E b l"
  obtain m where m: "range_loop (sdb_flush1 E) (stateObjectsPending ?f) ?f = Some m"
      "l' = m\<lparr>stateObjectsPending := []\<rparr>"
    using assms(3) by (auto simp: sdb_IntermediateRoot_def Let_def)
  let ?P = "\<lambda>m. sdb_inv0 E m \<and> entries (sdb_journal m) = [] \<and> sdb_validRevisions m = []"
  have f: "?P ?f" using sdb_inv_inv0 [OF sdb_Finalise_inv [OF assms(2)]] by (simp add: sdb_Finalise_def Let_def)
  have "?P n'" if "?P n" "sdb_flush1 E a n = Some n'" for a n n'
    using sdb_flush1_inv0 [OF assms(1) _ that(2)] that(1) by auto
  then have "?P m" using range_loop_inv [where P = ?P, OF m(1) f] by blast
  then show "sdb_inv E l'" "sdb_validRevisions l' = []" "entries (sdb_journal l') = []"
    using m(2) by (auto intro!: sdb_inv0_inv simp: sdb_inv0_def sdb_scheduled_def)
qed

lemma sdb_commit_code_ok:
  "sdb_commit_code E ob d = (ob', d') \<Longrightarrow> so_address ob' = so_address ob \<and> so_ok ob' = so_ok ob"
  by (auto simp: sdb_commit_code_def so_ok_def split: option.splits if_splits)

lemma sdb_commit_loop_inv0:
  assumes "sdb_commit_loop E as l = Some (err, l')" and "sdb_inv0 E l"
  shows "sdb_inv0 E l' \<and> sdb_journal l' = sdb_journal l \<and> sdb_validRevisions l' = sdb_validRevisions l"
  using assms
proof (induction as arbitrary: l)
  case (Cons a as)
  obtain ob where ob: "gm_get (stateObjects l) a = Some ob"
    using Cons.prems(1) by (auto split: option.splits)
  with Cons.prems(2) have obok: "so_address ob = a" "so_ok ob" by (auto simp: sdb_inv0_def)
  show ?case
  proof (cases "so_deleted ob")
    case True
    with Cons ob show ?thesis by simp
  next
    case False
    obtain ob1 d1 where c: "sdb_commit_code E ob (sdb_db l) = (ob1, d1)" by fastforce
    obtain e ob2 d2 where t: "so_CommitTrie E d1 ob1 = Some (e, ob2, d2)"
      using Cons.prems(1) ob False c by (auto split: option.splits)
    let ?m = "(sdb_write a (\<lambda>_. ob2) l)\<lparr>sdb_db := d2\<rparr>"
    have "so_address ob2 = a \<and> so_ok ob2"
      using sdb_commit_code_ok [OF c] so_CommitTrie_ok [OF t] obok by simp
    then have "sdb_inv0 E (sdb_write a (\<lambda>_. ob2) l)"
      using Cons.prems(2) ob obok by (intro sdb_write_inv0) auto
    then have m: "sdb_inv0 E ?m" by (simp add: sdb_inv0_def sdb_scheduled_def)
    have "(case e of Some e \<Rightarrow> Some (Some e, ?m) | None \<Rightarrow> sdb_commit_loop E as ?m) = Some (err, l')"
      using Cons.prems(1) ob False c t by (simp add: Let_def)
    with m Cons.IH [of ?m] show ?thesis by (cases e) auto
  qed
qed simp

lemma sdb_Commit_inv:
  assumes "account_tries_ok E" and "sdb_inv E l" and "sdb_Commit E b l = Some (r, l')"
  shows "sdb_inv E l'" and "sdb_validRevisions l' = []"
proof -
  obtain h m err n where m: "sdb_IntermediateRoot E b l = Some (h, m)"
      and n: "sdb_commit_loop E (stateObjectsDirty m) m = Some (err, n)"
    using assms(3) by (auto simp: sdb_Commit_def split: option.splits)
  have root: "sdb_IntermediateRoot E b l = Some (h, m)" by (rule m)
  have mi: "sdb_inv0 E m" "sdb_validRevisions m = []" and ej: "entries (sdb_journal m) = []"
    using sdb_IntermediateRoot_inv [OF assms(1,2) root] sdb_inv_inv0 by auto
  have ni: "sdb_inv0 E n" "sdb_journal n = sdb_journal m" "sdb_validRevisions n = []"
    using sdb_commit_loop_inv0 [OF n mi(1)] mi(2) by auto
  show "sdb_inv E l'" and "sdb_validRevisions l' = []"
  proof -
    have "sdb_inv E l' \<and> sdb_validRevisions l' = []"
    proof (cases err)
      case None
      obtain res t d where c: "TrieCommit E (sdb_trie n) (sdb_commit_leaf E) (sdb_db n) = (res, t, d)"
        by (metis prod_cases3)
      have "so_trie_ok E t"
        using assms(1) ni(1) c unfolding account_tries_ok_def sdb_inv0_def by blast
      moreover have "l' = n\<lparr>stateObjectsDirty := [], sdb_trie := t, sdb_db := d\<rparr>"
        using assms(3) m n None c by (simp add: sdb_Commit_def Let_def)
      ultimately show ?thesis
        using ni ej by (auto intro!: sdb_inv0_inv simp: sdb_inv0_def sdb_scheduled_def)
    next
      case (Some e)
      with assms(3) m n have "l' = n" by (simp add: sdb_Commit_def)
      with ni ej show ?thesis by (auto intro!: sdb_inv0_inv)
    qed
    then show "sdb_inv E l'" "sdb_validRevisions l' = []" by auto
  qed
qed

section \<open>Copies\<close>

text \<open>Every object of a copy is a \<open>deepCopy\<close> of the source's object.\<close>

definition sdb_copies ::
    "('d, 'tr, 'v) sdb_env \<Rightarrow> ('d, 'tr, 'v) DB \<Rightarrow> ('d, 'tr, 'v) DB \<Rightarrow> bool" where
  "sdb_copies E l c \<longleftrightarrow> (\<forall>a ob. gm_get (stateObjects c) a = Some ob \<longrightarrow>
       (\<exists>p. gm_get (stateObjects l) a = Some p \<and> ob = so_deepCopy E p))
     \<and> (\<forall>a \<in> sdb_scheduled c. gm_get (stateObjects c) a \<noteq> None)
     \<and> sdb_journal c = newJournal \<and> sdb_validRevisions c = [] \<and> sdb_trie c = sdb_trie l
     \<and> sdb_db c = sdb_db l"

lemma sdb_copies_journalled: "sdb_copies E l c \<Longrightarrow> sdb_copies E l (sdb_copy_journalled E l a c)"
  by (auto simp: sdb_copies_def sdb_copy_journalled_def sdb_scheduled_def split: option.splits if_splits)

lemma sdb_copies_object:
  "sdb_copies E l c \<Longrightarrow> sdb_copy_object E l a c = Some c' \<Longrightarrow>
    sdb_copies E l c' \<and> gm_get (stateObjects c') a \<noteq> None"
  by (auto simp: sdb_copies_def sdb_copy_object_def sdb_scheduled_def split: option.splits if_splits)

lemma sdb_copies_pending:
  "sdb_copies E l c \<Longrightarrow> sdb_copy_pending E l a c = Some c' \<Longrightarrow> sdb_copies E l c'"
  using sdb_copies_object [of E l c a]
  by (auto simp: sdb_copy_pending_def) (auto simp: sdb_copies_def sdb_scheduled_def)

lemma sdb_copies_dirty:
  "sdb_copies E l c \<Longrightarrow> sdb_copy_dirty E l a c = Some c' \<Longrightarrow> sdb_copies E l c'"
  using sdb_copies_object [of E l c a]
  by (auto simp: sdb_copy_dirty_def) (auto simp: sdb_copies_def sdb_scheduled_def)

definition sdb_copy_start :: "('d, 'tr, 'v) DB \<Rightarrow> ('d, 'tr, 'v) DB" where
  "sdb_copy_start l = \<lparr>sdb_db = sdb_db l, sdb_trie = sdb_trie l, stateObjects = [],
     stateObjectsPending = [], stateObjectsDirty = [], stateValidators = [],
     sdb_dbErr = None, sdb_refund = sdb_refund l, sdb_thash = 0, sdb_bhash = 0,
     sdb_txIndex = 0, sdb_logs = [], sdb_logSize = sdb_logSize l, sdb_preimages = [],
     sdb_journal = newJournal, sdb_validRevisions = [], sdb_nextRevisionID = 0\<rparr>"

lemma sdb_Copy_copies:
  assumes "sdb_Copy E l = Some c"
  shows "sdb_copies E l c"
proof -
  let ?c0 = "sdb_copy_start l"
  have c0: "sdb_copies E l ?c0"
    by (simp add: sdb_copy_start_def sdb_copies_def sdb_scheduled_def)
  obtain c1 c2 where
    c1: "range_loop (sdb_copy_pending E l) (stateObjectsPending l)
      (fold (sdb_copy_journalled E l) (gm_keys (dirties (sdb_journal l))) ?c0) = Some c1"
    and c2: "range_loop (sdb_copy_dirty E l) (stateObjectsDirty l) c1 = Some c2"
    and c: "c = c2\<lparr>sdb_logs := sdb_logs l, sdb_preimages := sdb_preimages l\<rparr>"
    using assms
    by (auto simp: sdb_Copy_def sdb_copy_start_def Let_def bind_eq_Some_conv)
  have "sdb_copies E l (fold (sdb_copy_journalled E l) as m)" if "sdb_copies E l m" for as m
    using that by (induction as arbitrary: m) (auto intro: sdb_copies_journalled)
  with c0 have f: "sdb_copies E l (fold (sdb_copy_journalled E l) (gm_keys (dirties (sdb_journal l))) ?c0)"
    by blast
  have "sdb_copies E l c1"
    by (rule range_loop_inv [where P = "sdb_copies E l", OF c1 f]) (rule sdb_copies_pending)
  then have "sdb_copies E l c2"
    by (rule range_loop_inv [where P = "sdb_copies E l", OF c2]) (rule sdb_copies_dirty)
  then show ?thesis by (simp add: c sdb_copies_def sdb_scheduled_def)
qed

lemma so_deepCopy_sel [simp]:
  "so_address (so_deepCopy E s) = so_address s" "so_fakeStorage (so_deepCopy E s) = None"
  "so_freeze (so_deepCopy E s) = False" "so_deleted (so_deepCopy E s) = so_deleted s"
  "so_suicided (so_deepCopy E s) = so_suicided s" "so_code (so_deepCopy E s) = so_code s"
  "so_Balance (so_deepCopy E s) = so_Balance s" "so_Nonce (so_deepCopy E s) = so_Nonce s"
  "so_CodeHash (so_deepCopy E s) = so_CodeHash s"
  by (simp_all add: so_deepCopy_def so_newObject_def raw_of_def so_Balance_def so_Nonce_def
      so_CodeHash_def Let_def)

lemma so_deepCopy_ok: "so_ok s \<Longrightarrow> so_ok (so_deepCopy E s)"
  using so_deepCopy_sel(9) [of E s] so_deepCopy_sel(2) [of E s] by (simp add: so_ok_def so_CodeHash_def)

lemma sdb_copies_inv: "sdb_inv E l \<Longrightarrow> sdb_copies E l c \<Longrightarrow> sdb_inv E c"
  by (rule sdb_inv0_inv) (fastforce simp: sdb_inv0_def sdb_inv_def sdb_copies_def intro: so_deepCopy_ok)+

section \<open>The dirty counts\<close>

lemma sdb_clear_exact: "sdb_exact l \<Longrightarrow> sdb_exact (sdb_clearJournalAndRefund l)"
  by (auto simp: sdb_clearJournalAndRefund_def Let_def)

lemma sdb_Finalise_exact:
  assumes "sdb_inv E l" and "sdb_exact l"
  shows "sdb_exact (sdb_Finalise E b l)"
proof -
  have "sdb_inv E m \<and> sdb_exact m \<Longrightarrow> sdb_inv E (sdb_flush_validator E av m) \<and> sdb_exact (sdb_flush_validator E av m)"
    for av m
    using sdb_UpdateValidatorWrapper_safe [of E m] by (simp add: sdb_flush_validator_def sdb_safe_def)
  then have "sdb_exact (fold (sdb_flush_validator E) vs l)" for vs
    using fold_invariant [where P = "\<lambda>m. sdb_inv E m \<and> sdb_exact m" and Q = "\<lambda>_. True" and f = "sdb_flush_validator E"]
      assms by blast
  moreover have "sdb_journal (fold (sdb_finalise1 E b) as m) = sdb_journal m" for as m
    by (induction as arbitrary: m) (auto simp: sdb_finalise1_def Let_def split: option.split)
  ultimately show ?thesis unfolding sdb_Finalise_def Let_def by (intro sdb_clear_exact) simp
qed

lemma sdb_IntermediateRoot_exact:
  assumes "account_tries_ok E" and "sdb_inv E l" and "sdb_exact l" and "sdb_IntermediateRoot E b l = Some (h, l')"
  shows "sdb_exact l'"
proof -
  let ?f = "sdb_Finalise E b l"
  obtain m where m: "range_loop (sdb_flush1 E) (stateObjectsPending ?f) ?f = Some m"
      "l' = m\<lparr>stateObjectsPending := []\<rparr>"
    using assms(4) by (auto simp: sdb_IntermediateRoot_def Let_def)
  let ?P = "\<lambda>m. sdb_inv0 E m \<and> sdb_exact m"
  have "?P ?f" using sdb_inv_inv0 [OF sdb_Finalise_inv [OF assms(2)]] sdb_Finalise_exact [OF assms(2,3)] by blast
  moreover have "?P n'" if "?P n" "sdb_flush1 E a n = Some n'" for a n n'
    using sdb_flush1_inv0 [OF assms(1) _ that(2)] that(1) by simp
  ultimately have "?P m" using range_loop_inv [where P = ?P, OF m(1)] by blast
  with m(2) show ?thesis by simp
qed

lemma sdb_Commit_exact:
  assumes "account_tries_ok E" and "sdb_inv E l" and "sdb_exact l" and "sdb_Commit E b l = Some (r, l')"
  shows "sdb_exact l'"
proof -
  obtain h m err n where m: "sdb_IntermediateRoot E b l = Some (h, m)"
      and n: "sdb_commit_loop E (stateObjectsDirty m) m = Some (err, n)"
      and j: "sdb_journal l' = sdb_journal n"
    using assms(4) by (auto simp: sdb_Commit_def Let_def split: option.splits prod.splits)
  have "sdb_inv0 E m" using sdb_IntermediateRoot_inv [OF assms(1,2) m] sdb_inv_inv0 by blast
  then show ?thesis
    using sdb_commit_loop_inv0 [OF n] sdb_IntermediateRoot_exact [OF assms(1-3) m] j by simp
qed

section \<open>The invariant\<close>

lemma sdb_reachable_inv:
  assumes "account_tries_ok E"
  shows "sdb_reachable E l \<Longrightarrow>
    sdb_inv E l \<and> revisions_ok (sdb_validRevisions l) (sdb_nextRevisionID l)"
proof (induction rule: sdb_reachable.induct)
  case (st_new root db l)
  have "so_trie_ok E tr" if "OpenTrie E db root = Inr tr" for tr
    using assms that unfolding account_tries_ok_def by blast
  with st_new show ?case
    by (auto simp: sdb_New_def sdb_inv_def sdb_scheduled_def split: sum.splits)
next
  case (st_step l x l')
  then show ?case using sdb_step_safe [of E l x l'] by (simp add: sdb_safe_def)
next
  case (st_snapshot l)
  then show ?case using stdb.snap_inv [of E l] stdb.snap_revs_ok [of l] by auto
next
  case (st_revert l i l')
  then show ?case using stdb.revert_inv [of E l i l'] by auto
next
  case (st_prepare l th bh ti)
  then show ?case by (simp add: sdb_Prepare_def sdb_inv_def sdb_scheduled_def)
next
  case (st_finalise l b)
  then show ?case using sdb_Finalise_inv [of E l b] by (simp add: sdb_Finalise_def Let_def)
next
  case (st_root l b h l')
  then show ?case using sdb_IntermediateRoot_inv [OF assms, of l b h l'] by auto
next
  case (st_commit l b r l')
  then show ?case using sdb_Commit_inv [OF assms, of l b r l'] by auto
next
  case (st_reset l root r l')
  have "so_trie_ok E tr" if "OpenTrie E (sdb_db l) root = Inr tr" for tr
    using assms that unfolding account_tries_ok_def by blast
  with st_reset show ?case
    by (auto simp: sdb_Reset_def intro!: sdb_clear_inv split: sum.splits)
      (auto simp: sdb_inv0_def sdb_scheduled_def)
next
  case (st_copy l l')
  then show ?case
    using sdb_copies_inv [of E l l'] sdb_Copy_copies [of E l l'] by (simp add: sdb_copies_def)
qed

lemma sdb_reachable_exact:
  assumes "account_tries_ok E"
  shows "sdb_reachable E l \<Longrightarrow> sdb_exact l"
proof (induction rule: sdb_reachable.induct)
  case (st_new root db l)
  then show ?case by (auto simp: sdb_New_def split: sum.splits)
next
  case (st_step l x l')
  then show ?case using sdb_step_safe [of E l x l'] sdb_reachable_inv [OF assms] by (simp add: sdb_safe_def)
next
  case (st_snapshot l)
  then show ?case using stjournal.snap_exact by blast
next
  case (st_revert l i l')
  then show ?case using stjournal.revert_exact by blast
next
  case (st_prepare l th bh ti)
  then show ?case by (simp add: sdb_Prepare_def)
next
  case (st_reset l root r l')
  then show ?case by (auto simp: sdb_Reset_def intro!: sdb_clear_exact split: sum.splits)
next
  case (st_copy l l')
  then show ?case using sdb_Copy_copies [of E l l'] by (simp add: sdb_copies_def)
qed (use sdb_reachable_inv [OF assms] sdb_Finalise_exact sdb_IntermediateRoot_exact [OF assms]
    sdb_Commit_exact [OF assms] in blast)+

end
