(* ===== verification/State_DB_Effects.thy ===== *)
theory State_DB_Effects
  imports State_DB_Reach
begin

text \<open>
  What each method of the account state does to the accounts. \<open>sdb_obj\<close> is the object a
  method works on, the live one or a fresh one, and \<open>sdb_account\<close> its view. A method on an
  address leaves all other accounts alone, reading leaves all accounts alone, and so do the
  guarded setters on a frozen account.
\<close>

section \<open>The object at an address\<close>

definition sdb_obj :: "('d, 'tr, 'v) sdb_env \<Rightarrow> ('d, 'tr, 'v) DB \<Rightarrow> address \<Rightarrow> 'tr Object" where
  "sdb_obj E l a = (case sdb_live E l a of Some s \<Rightarrow> s | None \<Rightarrow> sdb_fresh E a)"

definition sdb_account where
  "sdb_account E l a = so_view E (sdb_db l) (sdb_obj E l a)"

lemma sdb_GetOrNew_obj: "fst (sdb_GetOrNewStateObject E a l) = sdb_obj E l a"
  by (simp add: sdb_GetOrNew_eq sdb_obj_def split: option.split)

lemma sdb_getters_obj:
  "fst (sdb_GetBalance E a l) = so_Balance (sdb_obj E l a)"
  "fst (sdb_GetNonce E a l) = so_Nonce (sdb_obj E l a)"
  "fst (sdb_GetFreezeState E a l) = so_freeze (sdb_obj E l a)"
  "fst (sdb_Empty E a l) = so_empty E (sdb_obj E l a)"
  by (auto simp: sdb_GetBalance_def sdb_GetNonce_def sdb_Empty_def sdb_get_eq sdb_obj_def
      sdb_GetFreezeState_def sdb_GetOrNew_eq sdb_getFreezeState_def so_FreezeState_def split: option.split)

lemma sdb_obj_not_deleted [simp]: "\<not> so_deleted (sdb_obj E l a)"
  by (auto simp: sdb_obj_def sdb_live_peek split: option.split)

lemma sdb_obj_peek:
  "sdb_obj E l a = (case sdb_peek E l a of
     Some s \<Rightarrow> if so_deleted s then sdb_fresh E a else s | None \<Rightarrow> sdb_fresh E a)"
  by (auto simp: sdb_obj_def sdb_live_def split: option.split)

lemma sdb_obj_upd:
  assumes "sdb_peek E l' = (sdb_peek E l)(a := Some s)" and "\<not> so_deleted s"
  shows "sdb_obj E l' b = (if b = a then s else sdb_obj E l b)"
  using assms by (simp add: sdb_obj_peek)

lemma sdb_frozen_live: "so_freeze (sdb_obj E l a) \<Longrightarrow> sdb_live E l a = Some (sdb_obj E l a)"
  by (auto simp: sdb_obj_def split: option.splits)

lemma sdb_obj_address: "sdb_inv E l \<Longrightarrow> so_address (sdb_obj E l a) = a \<and> so_ok (sdb_obj E l a)"
  using sdb_peek_ok [of E l a] by (auto simp: sdb_obj_peek split: option.split)

text \<open>The object and the database after \<open>GetOrNewStateObject\<close>.\<close>

lemma sdb_GetOrNew_cases:
  assumes "sdb_inv E l"
  obtains l' where "sdb_GetOrNewStateObject E a l = (sdb_obj E l a, l')"
    and "sdb_holds E (sdb_obj E l a) l'" and "so_address (sdb_obj E l a) = a"
    and "sdb_peek E l' = (sdb_peek E l)(a := Some (sdb_obj E l a))" and "sdb_db l' = sdb_db l"
proof -
  obtain s l' where g: "sdb_GetOrNewStateObject E a l = (s, l')" by fastforce
  have s: "s = sdb_obj E l a" using sdb_GetOrNew_obj [of E a l] g by simp
  have "sdb_db l' = sdb_db l" using g by (auto simp: sdb_GetOrNew_eq split: option.splits)
  with g show thesis
    using sdb_GetOrNew_spec [OF assms g] sdb_holds_GetOrNew [OF assms g]
    unfolding s by (intro that [of l']) auto
qed

lemma sdb_peek_write_append:
  assumes "sdb_holds E s l"
  shows "sdb_peek E (sdb_write (so_address s) f (sdb_append e l)) = (sdb_peek E l)(so_address s := Some (f s))"
  using sdb_peek_write [of "sdb_append e l" "so_address s" s E f] assms by (simp add: sdb_holds_def)

lemma sdb_peek_write_holds:
  assumes "sdb_holds E s l"
  shows "sdb_peek E (sdb_write (so_address s) f l) = (sdb_peek E l)(so_address s := Some (f s))"
  using sdb_peek_write [of l "so_address s" s E f] assms by (simp add: sdb_holds_def)

section \<open>What the setters do\<close>

lemma so_keeps_deleted: "so_keeps f \<Longrightarrow> so_deleted (f s) = so_deleted s"
  by (simp add: so_keeps_def)

lemma sdb_write_obj:
  assumes "sdb_holds E s m" and "so_address s = a" and "sdb_peek E m = (sdb_peek E l)(a := Some s)"
    and "so_keeps f"
  shows "sdb_obj E (sdb_write a f (sdb_append e m)) b = (if b = a then f s else sdb_obj E l b)"
proof (rule sdb_obj_upd)
  show "sdb_peek E (sdb_write a f (sdb_append e m)) = (sdb_peek E l)(a := Some (f s))"
    using sdb_peek_write_append [OF assms(1)] assms(2,3) by simp
  show "\<not> so_deleted (f s)" using assms(1,4) by (simp add: sdb_holds_def so_keeps_def)
qed

lemma sdb_SetBalance_obj:
  assumes "sdb_inv E l"
  shows "sdb_obj E (sdb_SetBalance E a x l) b =
    (if b = a \<and> \<not> so_freeze (sdb_obj E l a) then so_setBalance x (sdb_obj E l a) else sdb_obj E l b)"
proof -
  obtain m where m: "sdb_GetOrNewStateObject E a l = (sdb_obj E l a, m)"
      "sdb_holds E (sdb_obj E l a) m" "so_address (sdb_obj E l a) = a"
      "sdb_peek E m = (sdb_peek E l)(a := Some (sdb_obj E l a))"
    using assms by (rule sdb_GetOrNew_cases)
  then show ?thesis
    using sdb_obj_upd [OF m(4)] sdb_write_obj [OF m(2,3,4) so_keeps_writers(1)]
    by (simp add: sdb_SetBalance_def so_SetBalance_def sdb_getFreezeState_def so_FreezeState_def)
qed

lemma sdb_SetNonce_obj:
  assumes "sdb_inv E l"
  shows "sdb_obj E (sdb_SetNonce E a n l) b =
    (if b = a \<and> \<not> so_freeze (sdb_obj E l a) then so_setNonce n (sdb_obj E l a) else sdb_obj E l b)"
proof -
  obtain m where m: "sdb_GetOrNewStateObject E a l = (sdb_obj E l a, m)"
      "sdb_holds E (sdb_obj E l a) m" "so_address (sdb_obj E l a) = a"
      "sdb_peek E m = (sdb_peek E l)(a := Some (sdb_obj E l a))"
    using assms by (rule sdb_GetOrNew_cases)
  then show ?thesis
    using sdb_obj_upd [OF m(4)] sdb_write_obj [OF m(2,3,4) so_keeps_writers(2)]
    by (simp add: sdb_SetNonce_def so_SetNonce_def sdb_getFreezeState_def so_FreezeState_def)
qed

lemma sdb_SetFreezeState_obj:
  assumes "sdb_inv E l"
  shows "sdb_obj E (sdb_SetFreezeState E a z l) b =
    (if b = a then so_setFreezeState z (sdb_obj E l a) else sdb_obj E l b)"
proof -
  obtain m where m: "sdb_GetOrNewStateObject E a l = (sdb_obj E l a, m)"
      "sdb_holds E (sdb_obj E l a) m" "so_address (sdb_obj E l a) = a"
      "sdb_peek E m = (sdb_peek E l)(a := Some (sdb_obj E l a))"
    using assms by (rule sdb_GetOrNew_cases)
  then show ?thesis
    using sdb_write_obj [OF m(2,3,4) so_keeps_writers(5)]
    by (simp add: sdb_SetFreezeState_def so_SetFreezeState_def)
qed

lemma so_touch_peek [simp]: "sdb_peek E (so_touch s l) = sdb_peek E l"
  by (auto simp: so_touch_def Let_def)

lemma sdb_AddBalance_obj:
  assumes "sdb_inv E l"
  shows "sdb_obj E (sdb_AddBalance E a x l) b =
    (if b = a \<and> \<not> so_freeze (sdb_obj E l a) \<and> x \<noteq> 0
     then so_setBalance (so_Balance (sdb_obj E l a) + x) (sdb_obj E l a) else sdb_obj E l b)"
proof -
  obtain m where m: "sdb_GetOrNewStateObject E a l = (sdb_obj E l a, m)"
      "sdb_holds E (sdb_obj E l a) m" "so_address (sdb_obj E l a) = a"
      "sdb_peek E m = (sdb_peek E l)(a := Some (sdb_obj E l a))"
    using assms by (rule sdb_GetOrNew_cases)
  moreover have "sdb_obj E (so_touch (sdb_obj E l a) m) b = sdb_obj E m b" by (simp add: sdb_obj_peek)
  ultimately show ?thesis
    using sdb_obj_upd [OF m(4)] sdb_write_obj [OF m(2,3,4) so_keeps_writers(1)]
    by (simp add: sdb_AddBalance_def so_AddBalance_def so_SetBalance_def sdb_getFreezeState_def
        so_FreezeState_def)
qed

lemma sdb_SubBalance_obj:
  assumes "sdb_inv E l"
  shows "sdb_obj E (sdb_SubBalance E a x l) b =
    (if b = a \<and> \<not> so_freeze (sdb_obj E l a) \<and> x \<noteq> 0
     then so_setBalance (so_Balance (sdb_obj E l a) - x) (sdb_obj E l a) else sdb_obj E l b)"
proof -
  obtain m where m: "sdb_GetOrNewStateObject E a l = (sdb_obj E l a, m)"
      "sdb_holds E (sdb_obj E l a) m" "so_address (sdb_obj E l a) = a"
      "sdb_peek E m = (sdb_peek E l)(a := Some (sdb_obj E l a))"
    using assms by (rule sdb_GetOrNew_cases)
  then show ?thesis
    using sdb_obj_upd [OF m(4)] sdb_write_obj [OF m(2,3,4) so_keeps_writers(1)]
    by (simp add: sdb_SubBalance_def so_SubBalance_def so_SetBalance_def sdb_getFreezeState_def
        so_FreezeState_def)
qed

lemma so_setters_sel [simp]:
  "so_Balance (so_setBalance x s) = x" "so_Nonce (so_setBalance x s) = so_Nonce s"
  "so_Nonce (so_setNonce n s) = n" "so_Balance (so_setNonce n s) = so_Balance s"
  "so_freeze (so_setBalance x s) = so_freeze s" "so_freeze (so_setNonce n s) = so_freeze s"
  "so_freeze (so_setFreezeState z s) = z" "so_Balance (so_setFreezeState z s) = so_Balance s"
  "so_Nonce (so_setFreezeState z s) = so_Nonce s"
  by (simp_all add: so_setBalance_def so_setNonce_def so_setFreezeState_def so_Balance_def so_Nonce_def)

lemmas sdb_obj_simps = sdb_SetBalance_obj sdb_SetNonce_obj sdb_SetFreezeState_obj
  sdb_AddBalance_obj sdb_SubBalance_obj

section \<open>Changes at one address\<close>

text \<open>\<open>sdb_local\<close>: every other address answers as before.\<close>

definition sdb_local ::
    "('d, 'tr, 'v) sdb_env \<Rightarrow> address \<Rightarrow> ('d, 'tr, 'v) DB \<Rightarrow> ('d, 'tr, 'v) DB \<Rightarrow> bool" where
  "sdb_local E a l l' \<longleftrightarrow> sdb_db l' = sdb_db l \<and> (\<forall>c. c \<noteq> a \<longrightarrow> sdb_peek E l' c = sdb_peek E l c)"

lemma sdb_local_refl [simp]: "sdb_local E a l l"
  by (simp add: sdb_local_def)

lemma sdb_local_trans [trans]: "sdb_local E a l m \<Longrightarrow> sdb_local E a m n \<Longrightarrow> sdb_local E a l n"
  by (simp add: sdb_local_def)

lemma sdb_local_account: "sdb_local E a l l' \<Longrightarrow> c \<noteq> a \<Longrightarrow> sdb_account E l' c = sdb_account E l c"
  by (simp add: sdb_local_def sdb_account_def sdb_obj_peek)

lemma sdb_local_loaded [simp]: "sdb_local E b l (sdb_loaded E a l)"
  by (simp add: sdb_local_def)

lemma sdb_local_append [simp]: "sdb_local E a l (sdb_append e m) = sdb_local E a l m"
  by (simp add: sdb_local_def)

lemma sdb_local_write: "sdb_local E a l m \<Longrightarrow> sdb_local E a l (sdb_write a f m)"
  using sdb_peek_cong [of "sdb_write a f m" m _ E] by (simp add: sdb_local_def sdb_write_objects)

lemma sdb_local_replaced: "so_address ob = a \<Longrightarrow> sdb_local E a l m \<Longrightarrow> sdb_local E a l (sdb_replaced E ob m)"
  by (simp add: sdb_local_def)

lemma sdb_local_validators [simp]:
  "sdb_local E a l (m\<lparr>stateValidators := vs\<rparr>) = sdb_local E a l m"
  by (simp add: sdb_local_def)

lemma sdb_local_touch: "sdb_local E a l m \<Longrightarrow> sdb_local E a l (so_touch s m)"
  by (simp add: sdb_local_def) (simp add: so_touch_def Let_def)

lemmas sdb_local_intros = sdb_local_write sdb_local_replaced sdb_local_touch

lemma sdb_local_GetOrNew:
  "sdb_GetOrNewStateObject E a l = (s, l') \<Longrightarrow> sdb_local E a l l'"
  by (auto simp: sdb_GetOrNew_eq split: option.splits intro!: sdb_local_replaced)

lemma so_SetCode_local:
  "so_address s = a \<Longrightarrow> sdb_local E a l m \<Longrightarrow> sdb_local E a l (so_SetCode E s h c m)"
  using so_head_sel(1) [OF so_view_sel(1) [OF so_Code_view(1)], of E "sdb_db m" s "fst (so_Code E (sdb_db m) s)"
      "snd (so_Code E (sdb_db m) s)"]
  by (auto simp: so_SetCode_def Let_def split: prod.split intro!: sdb_local_intros)

lemma so_SetState_local:
  assumes "so_SetState E s key v m = Some l'" and "so_address s = a" and "sdb_local E a l m"
  shows "sdb_local E a l l'"
proof -
  consider f where "so_fakeStorage s = Some f"
    | prev s' where "so_fakeStorage s = None" "so_GetState E (sdb_db m) key s = Some (prev, s')"
    using assms(1) by (cases "so_fakeStorage s") (auto simp: so_SetState_def split: option.splits)
  then show ?thesis
  proof cases
    case 1
    with assms show ?thesis by (auto simp: so_SetState_def intro!: sdb_local_write)
  next
    case 2
    have "so_address s' = a"
      using so_head_sel(1) [OF so_view_sel(1) [OF so_GetState_view(1) [OF 2(2)]]] assms(2) by simp
    moreover have "sdb_local E a l (sdb_write a g (sdb_append e (sdb_write a f m)))"
      "sdb_local E a l (sdb_write a f m)" for f g e
      using assms(3) by (auto intro!: sdb_local_write)
    ultimately show ?thesis
      using assms(1) 2 by (auto simp: so_SetState_def Let_def split: if_splits)
  qed
qed

lemma sdb_setters_local:
  assumes "sdb_inv E l"
  shows "sdb_local E a l (sdb_AddBalance E a x l)" and "sdb_local E a l (sdb_SubBalance E a x l)"
    and "sdb_local E a l (sdb_SetBalance E a x l)" and "sdb_local E a l (sdb_SetNonce E a n l)"
    and "sdb_local E a l (sdb_SetCode E a c l)" and "sdb_local E a l (sdb_SetFreezeState E a z l)"
    and "sdb_local E a l (snd (sdb_GetFreezeState E a l))"
    and "sdb_SetState E a k v l = Some l' \<Longrightarrow> sdb_local E a l l'"
proof -
  obtain m where m: "sdb_GetOrNewStateObject E a l = (sdb_obj E l a, m)" "so_address (sdb_obj E l a) = a"
    using sdb_GetOrNew_cases [OF assms] by metis
  have lm: "sdb_local E a l m" using sdb_local_GetOrNew m(1) .
  note defs = m lm so_SetBalance_def so_AddBalance_def so_SubBalance_def so_SetNonce_def so_SetFreezeState_def
  show "sdb_local E a l (sdb_AddBalance E a x l)" "sdb_local E a l (sdb_SubBalance E a x l)"
    "sdb_local E a l (sdb_SetBalance E a x l)" "sdb_local E a l (sdb_SetNonce E a n l)"
    "sdb_local E a l (sdb_SetFreezeState E a z l)" "sdb_local E a l (snd (sdb_GetFreezeState E a l))"
    by (auto simp: sdb_AddBalance_def sdb_SubBalance_def sdb_SetBalance_def sdb_SetNonce_def
        sdb_SetFreezeState_def sdb_GetFreezeState_def defs intro!: sdb_local_intros)
  show "sdb_local E a l (sdb_SetCode E a c l)"
    using so_SetCode_local [OF m(2) lm] lm by (simp add: sdb_SetCode_def m(1))
  show "sdb_SetState E a k v l = Some l' \<Longrightarrow> sdb_local E a l l'"
    using so_SetState_local [OF _ m(2) lm] lm by (auto simp: sdb_SetState_def m(1) split: if_splits)
qed

section \<open>Changes of no account\<close>

definition sdb_quiet ::
    "('d, 'tr, 'v) sdb_env \<Rightarrow> ('d, 'tr, 'v) DB \<Rightarrow> ('d, 'tr, 'v) DB \<Rightarrow> bool" where
  "sdb_quiet E l l' \<longleftrightarrow> sdb_db l' = sdb_db l \<and> sdb_view E l' = sdb_view E l"

lemma sdb_quiet_refl [simp]: "sdb_quiet E l l"
  by (simp add: sdb_quiet_def)

lemma sdb_quiet_loaded [simp]: "sdb_quiet E l (sdb_loaded E a l)"
  by (simp add: sdb_quiet_def)

lemma sdb_quiet_trans: "sdb_quiet E l m \<Longrightarrow> sdb_quiet E m n \<Longrightarrow> sdb_quiet E l n"
  by (simp add: sdb_quiet_def)

lemma sdb_quiet_validators [simp]: "sdb_quiet E l (m\<lparr>stateValidators := vs\<rparr>) = sdb_quiet E l m"
  by (simp add: sdb_quiet_def)

lemma sdb_account_view:
  "sdb_account E l a = (case sdb_view E l a of
     None \<Rightarrow> so_view E (sdb_db l) (sdb_fresh E a)
   | Some v \<Rightarrow> if snd (snd (snd (snd (snd (snd (fst v)))))) then so_view E (sdb_db l) (sdb_fresh E a) else v)"
  by (cases "sdb_peek E l a")
    (simp_all add: sdb_account_def sdb_obj_peek sdb_view_def so_view_def so_head_def)

lemma sdb_quiet_account: "sdb_quiet E l l' \<Longrightarrow> sdb_account E l' a = sdb_account E l a"
  by (simp add: sdb_account_view sdb_quiet_def cong: view_congs)

lemma sdb_quiet_cache:
  assumes "sdb_live E l a = Some s" and "so_view E (sdb_db l) s' = so_view E (sdb_db l) s"
  shows "sdb_quiet E l (sdb_write a (\<lambda>_. s') (sdb_loaded E a l))"
proof -
  have "sdb_view E l a = Some (so_view E (sdb_db l) s)" using assms(1) by (simp add: sdb_view_def sdb_live_peek)
  with sdb_view_upd [OF sdb_peek_write_loaded [OF assms(1), of "\<lambda>_. s'"]] assms(2) show ?thesis
    by (auto simp: sdb_quiet_def fun_upd_idem)
qed

lemma sdb_GetCode_quiet: "sdb_quiet E l (snd (sdb_GetCode E a l))"
proof (cases "sdb_live E l a")
  case (Some s)
  obtain c s' where sc: "so_Code E (sdb_db l) s = (c, s')" by fastforce
  with sdb_quiet_cache [OF Some so_Code_view(1) [OF sc]] Some show ?thesis
    by (simp add: sdb_GetCode_def sdb_get_eq)
qed (simp add: sdb_GetCode_def sdb_get_eq)

lemma sdb_GetCodeSize_quiet: "sdb_quiet E l (snd (sdb_GetCodeSize E a l))"
proof -
  have "sdb_quiet E l (sdb_setError err (sdb_loaded E a l))" for err by (simp add: sdb_quiet_def)
  then show ?thesis
    by (auto simp: sdb_GetCodeSize_def sdb_get_eq Let_def split: option.split prod.split)
qed

lemma sdb_slot_getters_quiet:
  shows "sdb_GetState E a key l = Some (v, l') \<Longrightarrow> sdb_quiet E l l'"
    and "sdb_GetCommittedState E a key l = Some (v, l') \<Longrightarrow> sdb_quiet E l l'"
    and "sdb_GetValidatorFirstElectionEpoch E a l = Some (n, l') \<Longrightarrow> sdb_quiet E l l'"
    and "sdb_IsValidator E a l = Some (z, l') \<Longrightarrow> sdb_quiet E l l'"
  using sdb_quiet_cache [of E l a]
  by (auto simp: sdb_GetState_def sdb_GetCommittedState_def sdb_GetValidatorFirstElectionEpoch_def
      sdb_IsValidator_def so_IsValidator_def sdb_get_eq split: option.splits
      dest: so_GetState_view(1) so_GetCommittedState_view(1))

lemma sdb_ValidatorWrapper_quiet: "sdb_quiet E l (snd (sdb_ValidatorWrapper E a l))"
  using sdb_GetCode_quiet [of E l a] sdb_ValidatorWrapperCopy_state [of E a l]
  by (auto simp: sdb_ValidatorWrapper_def split: option.split prod.split sum.split)

text \<open>The guarded setters on a frozen account.\<close>

lemma sdb_frozen_quiet:
  assumes "so_freeze (sdb_obj E l a)"
  shows "sdb_AddBalance E a x l = sdb_loaded E a l" and "sdb_SubBalance E a x l = sdb_loaded E a l"
    and "sdb_SetBalance E a x l = sdb_loaded E a l" and "sdb_SetNonce E a n l = sdb_loaded E a l"
    and "sdb_SetCode E a c l = sdb_loaded E a l" and "sdb_SetState E a k v l = Some (sdb_loaded E a l)"
    and "snd (sdb_GetFreezeState E a l) = sdb_loaded E a l"
  using assms sdb_frozen_live [OF assms]
  by (simp_all add: sdb_AddBalance_def sdb_SubBalance_def sdb_SetBalance_def sdb_SetNonce_def
      sdb_SetCode_def sdb_SetState_def sdb_GetFreezeState_def sdb_GetOrNew_eq
      sdb_getFreezeState_def so_FreezeState_def)

end
