(* ===== verification/State_DB_Props.thy ===== *)
theory State_DB_Props
  imports State_DB_Effects
begin

text \<open>
  The account state from the outside: snapshots, the freeze flag, transfers (\<open>core/evm.go\<close>),
  and three places where the code loses or keeps something it should not.
\<close>

section \<open>Snapshots\<close>

text \<open>(C4) In every database that can be reached through the account state's methods: take a
  snapshot, run any methods, keep or revert any properly nested snapshots, then revert to
  the snapshot. The revert does not panic; every account (balance, nonce, code, storage,
  suicide, deletion and freeze flags), the refund counter, the logs, the preimages and the
  scheduled writes are as they were, and so are the journal's entries, its dirty counts and the
  revisions. Two things are not given back: the dirty count of the precompiled contract that
  \<open>touch\<close> dirties by hand, and the cache of validator wrappers, which no entry records and
  which the revert leaves as the run made it. The account tries are assumed to hold 32-byte
  code hashes.\<close>

theorem sdb_revert_to_snapshot_restores:
  assumes "account_tries_ok E" and "sdb_reachable E l" and "sdb_Snapshot l = (i, u)"
    and "nested (sdb_step E) sdb_Snapshot (sdb_RevertToSnapshot E) u v"
  shows "\<exists>w. sdb_RevertToSnapshot E i v = Some w \<and> sdb_sim E w l
    \<and> entries (sdb_journal w) = entries (sdb_journal l)
    \<and> (\<forall>a. a \<noteq> ripemd \<longrightarrow> gm_get (dirties (sdb_journal w)) a = gm_get (dirties (sdb_journal l)) a)
    \<and> sdb_validRevisions w = sdb_validRevisions l \<and> stateValidators w = stateValidators v"
proof -
  note r = sdb_reachable_inv [OF assms(1,2)]
  obtain w where w: "sdb_RevertToSnapshot E i v = Some w" "sdb_sim E w l"
      "entries (sdb_journal w) = entries (sdb_journal l)" "sdb_validRevisions w = sdb_validRevisions l"
    using stdb.revert_restores [of E l i u v] r assms(3,4) by blast
  with stjournal.revert_dirties [OF _ _ sdb_reachable_exact [OF assms(1,2)] assms(3,4) w(1)] r
    sdb_revert_validators [OF w(1)] show ?thesis by auto
qed

section \<open>The freeze flag\<close>

text \<open>The methods that may change a frozen account: the unguarded ones.\<close>

fun st_thaws :: "address \<Rightarrow> 'v st_op \<Rightarrow> bool" where
  "st_thaws a (StSetFreezeState b z) = (b = a)"
| "st_thaws a (StSuicide b) = (b = a)"
| "st_thaws a (StCreateAccount b) = (b = a)"
| "st_thaws a _ = False"

lemma sdb_UpdateValidatorWrapper_account:
  assumes "sdb_inv E l" and "b \<noteq> a \<or> so_freeze (sdb_obj E l a)"
  shows "sdb_account E (snd (sdb_UpdateValidatorWrapper E b v l)) a = sdb_account E l a"
proof -
  have "sdb_account E (sdb_SetCode E b c l) a = sdb_account E l a" for c
  proof (cases "b = a")
    case True
    with assms(2) sdb_frozen_quiet(5) [of E l a c] show ?thesis
      using sdb_quiet_account [OF sdb_quiet_loaded] by simp
  next
    case False
    with sdb_local_account [OF sdb_setters_local(5) [OF assms(1)]] show ?thesis by simp
  qed
  moreover have "sdb_account E (m\<lparr>stateValidators := vs\<rparr>) a = sdb_account E m a" for m vs
    by (rule sdb_quiet_account) simp
  ultimately show ?thesis
    by (simp add: sdb_UpdateValidatorWrapper_def Let_def split: option.split sum.split)
qed

lemma sdb_plain_quiet:
  "sdb_account E (sdb_AddLog lg l) a = sdb_account E l a"
  "sdb_account E (sdb_AddPreimage h p l) a = sdb_account E l a"
  "sdb_account E (sdb_AddRefund g l) a = sdb_account E l a"
  "sdb_SubRefund g l = Some l' \<Longrightarrow> sdb_account E l' a = sdb_account E l a"
proof -
  have cong: "sdb_account E m a = sdb_account E l a"
    if "sdb_db m = sdb_db l" "sdb_trie m = sdb_trie l" "stateObjects m = stateObjects l" for m
    using that sdb_peek_cong [of m l a E] by (simp add: sdb_account_def sdb_obj_peek)
  show "sdb_account E (sdb_AddLog lg l) a = sdb_account E l a"
    "sdb_account E (sdb_AddPreimage h p l) a = sdb_account E l a"
    "sdb_account E (sdb_AddRefund g l) a = sdb_account E l a"
    "sdb_SubRefund g l = Some l' \<Longrightarrow> sdb_account E l' a = sdb_account E l a"
    by (auto intro!: cong simp: sdb_AddLog_def sdb_AddPreimage_def sdb_AddRefund_def sdb_SubRefund_def
        sdb_append_def Let_def split: if_splits)
qed

lemma sdb_SetState_account:
  assumes "sdb_inv E l" and "b \<noteq> a \<or> so_freeze (sdb_obj E l a)" and "sdb_SetState E b k v l = Some l'"
  shows "sdb_account E l' a = sdb_account E l a"
proof (cases "b = a")
  case True
  with assms(2,3) sdb_frozen_quiet(6) [of E l a k v] show ?thesis
    using sdb_quiet_account [OF sdb_quiet_loaded] by auto
qed (use sdb_local_account [OF sdb_setters_local(8) [OF assms(1,3)]] in simp)

text \<open>\<open>Suicide\<close> and \<open>CreateAccount\<close> of another account.\<close>

lemma sdb_Suicide_local: "sdb_local E a l (snd (sdb_Suicide E a l))"
  by (auto simp: sdb_Suicide_def sdb_get_eq split: option.split intro!: sdb_local_write)

lemma sdb_CreateAccount_local: "sdb_local E a l (sdb_CreateAccount E a l)"
  unfolding sdb_CreateAccount_eq by (rule sdb_local_replaced) (auto split: option.split)

lemma sdb_account_freeze: "sdb_account E l a = sdb_account E l' a \<Longrightarrow>
    so_freeze (sdb_obj E l a) = so_freeze (sdb_obj E l' a)"
  by (simp add: sdb_account_def so_view_def so_head_def)

lemma sdb_step_frozen:
  assumes "sdb_inv E l" and "so_freeze (sdb_obj E l a)" and "\<not> st_thaws a x"
    and "sdb_step E x l = Some l'"
  shows "sdb_account E l' a = sdb_account E l a"
proof -
  note loc = sdb_local_account [OF sdb_setters_local(1) [OF assms(1)]]
    sdb_local_account [OF sdb_setters_local(2) [OF assms(1)]]
    sdb_local_account [OF sdb_setters_local(3) [OF assms(1)]]
    sdb_local_account [OF sdb_setters_local(4) [OF assms(1)]]
    sdb_local_account [OF sdb_setters_local(5) [OF assms(1)]]
    sdb_local_account [OF sdb_setters_local(6) [OF assms(1)]]
    sdb_local_account [OF sdb_setters_local(7) [OF assms(1)]]
  have quiet: "sdb_account E (sdb_loaded E b l) a = sdb_account E l a" for b
    by (rule sdb_quiet_account) simp
  have guarded: "sdb_account E (f b) a = sdb_account E l a"
    if "f a = sdb_loaded E a l" "b \<noteq> a \<Longrightarrow> sdb_account E (f b) a = sdb_account E l a" for f b
    using that quiet [of a] by (cases "b = a") auto
  note fr = sdb_frozen_quiet [OF assms(2)]
  show ?thesis
  proof (cases x)
    case (StAddBalance b y)
    with assms(4) fr(1) [of y] loc(1) guarded [of "\<lambda>b. sdb_AddBalance E b y l"] show ?thesis by auto
  next
    case (StSubBalance b y)
    with assms(4) fr(2) [of y] loc(2) guarded [of "\<lambda>b. sdb_SubBalance E b y l"] show ?thesis by auto
  next
    case (StSetBalance b y)
    with assms(4) fr(3) [of y] loc(3) guarded [of "\<lambda>b. sdb_SetBalance E b y l"] show ?thesis by auto
  next
    case (StSetNonce b n)
    with assms(4) fr(4) [of n] loc(4) guarded [of "\<lambda>b. sdb_SetNonce E b n l"] show ?thesis by auto
  next
    case (StSetCode b c)
    with assms(4) fr(5) [of c] loc(5) guarded [of "\<lambda>b. sdb_SetCode E b c l"] show ?thesis by auto
  next
    case (StGetFreezeState b)
    with assms(4) fr(7) loc(7) guarded [of "\<lambda>b. snd (sdb_GetFreezeState E b l)"] show ?thesis by auto
  next
    case (StUpdateValidatorWrapper b v)
    with assms sdb_UpdateValidatorWrapper_account [OF assms(1)] show ?thesis by auto
  next
    case (StSetValidatorFirstElectionEpoch b n)
    then obtain k m where m: "sdb_GetValidatorFirstElectionEpoch E b l = Some (k, m)"
      using assms(4) by (auto simp: sdb_SetValidatorFirstElectionEpoch_def split: option.splits)
    with assms(4) StSetValidatorFirstElectionEpoch
    have l': "l' = m \<or> sdb_SetState E b (FirstElectionEpochKey E) (word_of_int \<bar>n\<bar>) m = Some l'"
      by (simp add: sdb_SetValidatorFirstElectionEpoch_def split: if_splits)
    have acc: "sdb_account E m a = sdb_account E l a"
      using sdb_quiet_account [OF sdb_slot_getters_quiet(3) [OF m]] .
    have inv: "sdb_inv E m" using sdb_slot_getters_safe(3) [OF assms(1) m] by (simp add: sdb_safe_def)
    have "so_freeze (sdb_obj E m a)" using sdb_account_freeze [OF acc] assms(2) by simp
    with l' acc sdb_SetState_account [OF inv, of b a] show ?thesis by auto
  next
    case (StSuicide b)
    with assms(3,4) sdb_local_account [OF sdb_Suicide_local, of a b E l] show ?thesis by auto
  next
    case (StCreateAccount b)
    with assms(3,4) sdb_local_account [OF sdb_CreateAccount_local, of a b E l] show ?thesis by auto
  next
    case (StStorageTrie b)
    with assms(4) obtain t where "sdb_StorageTrie E b l = Some (t, l')" by auto
    from sdb_StorageTrie_eq [OF this] quiet show ?thesis by simp
  qed (use assms loc quiet sdb_SetState_account [OF assms(1)] in
      \<open>auto simp: sdb_plain_getters sdb_plain_quiet sdb_SetValidatorFlag_def sdb_UnsetValidatorFlag_def
        sdb_quiet_account [OF sdb_GetCode_quiet] sdb_quiet_account [OF sdb_GetCodeSize_quiet]
        sdb_quiet_account [OF sdb_ValidatorWrapper_quiet]
        dest: sdb_quiet_account [OF sdb_slot_getters_quiet(1)] sdb_quiet_account [OF sdb_slot_getters_quiet(2)]
          sdb_quiet_account [OF sdb_slot_getters_quiet(4)]\<close>)
qed

lemma sdb_run_frozen:
  assumes "range_loop (sdb_step E) xs l = Some l'" and "sdb_inv E l" and "so_freeze (sdb_obj E l a)"
    and "\<And>x. x \<in> set xs \<Longrightarrow> \<not> st_thaws a x"
  shows "sdb_account E l' a = sdb_account E l a"
  using assms
proof (induction xs arbitrary: l)
  case (Cons x xs)
  then obtain m where m: "sdb_step E x l = Some m" "range_loop (sdb_step E) xs m = Some l'"
    by (auto split: option.splits)
  have acc: "sdb_account E m a = sdb_account E l a"
    using sdb_step_frozen [OF Cons.prems(2,3) _ m(1)] Cons.prems(4) by simp
  have "sdb_inv E m" using sdb_step_safe [OF Cons.prems(2) m(1)] by (simp add: sdb_safe_def)
  with Cons.IH [OF m(2)] acc sdb_account_freeze [OF acc] Cons.prems show ?case by simp
qed simp

text \<open>(C3) A frozen account does not change: from a reachable database in which \<open>a\<close> is frozen,
  after any run of the account state's methods that contains no \<open>SetFreezeState\<close>, \<open>Suicide\<close>
  or \<open>CreateAccount\<close> of \<open>a\<close> itself, its balance, nonce, code and every storage slot are what
  they were, and it is still frozen.\<close>

theorem sdb_frozen_account_unchanged:
  assumes "account_tries_ok E" and "sdb_reachable E l" and "fst (sdb_GetFreezeState E a l)"
    and "range_loop (sdb_step E) xs l = Some l'" and "\<forall>x \<in> set xs. \<not> st_thaws a x"
  shows "fst (sdb_GetBalance E a l') = fst (sdb_GetBalance E a l)
    \<and> fst (sdb_GetNonce E a l') = fst (sdb_GetNonce E a l)
    \<and> fst (sdb_GetCode E a l') = fst (sdb_GetCode E a l)
    \<and> map_option fst (sdb_GetState E a key l') = map_option fst (sdb_GetState E a key l)
    \<and> fst (sdb_GetFreezeState E a l')"
proof -
  have inv: "sdb_inv E l" using sdb_reachable_inv [OF assms(1,2)] by simp
  have fr: "so_freeze (sdb_obj E l a)" using assms(3) by (simp add: sdb_getters_obj)
  have acc: "sdb_account E l' a = sdb_account E l a"
    using sdb_run_frozen [OF assms(4) inv fr] assms(5) by blast
  have fr': "so_freeze (sdb_obj E l' a)" using sdb_account_freeze [OF acc] fr by simp
  have "so_head (sdb_obj E l' a) = so_head (sdb_obj E l a)"
    and code: "so_code_view E (sdb_db l') (sdb_obj E l' a) = so_code_view E (sdb_db l) (sdb_obj E l a)"
    and slot: "so_state_view E (sdb_db l') (sdb_obj E l' a) = so_state_view E (sdb_db l) (sdb_obj E l a)"
    using acc by (simp_all add: sdb_account_def so_view_def)
  then have "so_data (sdb_obj E l' a) = so_data (sdb_obj E l a)" by (auto dest: so_head_sel)
  moreover have "fst (sdb_GetCode E a m) = so_code_view E (sdb_db m) (sdb_obj E m a)"
    "map_option fst (sdb_GetState E a key m) = so_state_view E (sdb_db m) (sdb_obj E m a) key"
    if "so_freeze (sdb_obj E m a)" for m
    using sdb_frozen_live [OF that]
    by (auto simp: sdb_GetCode_def sdb_GetState_def sdb_get_eq so_code_view_def so_state_view_def
        option.map_comp comp_def case_prod_unfold Let_def)
  ultimately show ?thesis
    using fr fr' code slot by (simp add: sdb_getters_obj so_Balance_def so_Nonce_def)
qed

text \<open>The flag itself is kept in the object only. \<open>deepCopy\<close> does not copy it and an
  account's encoding does not contain it.\<close>

lemma sdb_uncached_not_frozen:
  assumes "\<And>s. gm_get (stateObjects l) a = Some s \<Longrightarrow> \<not> so_freeze s"
  shows "\<not> fst (sdb_GetFreezeState E a l)"
proof -
  have "\<not> so_freeze s" if "sdb_peek E l a = Some s" for s
  proof (cases "gm_get (stateObjects l) a")
    case None
    from sdb_peek_uncached [OF None that] obtain data where "s = so_newObject E a data" by blast
    then show ?thesis by simp
  next
    case (Some s')
    with that assms [OF Some] sdb_peek_cached [OF Some, of E] show ?thesis by simp
  qed
  then show ?thesis by (auto simp: sdb_getters_obj sdb_obj_peek split: option.split)
qed

text \<open>After a copy no account is frozen, whatever was frozen in the source.\<close>

lemma sdb_copy_unfreezes:
  assumes "sdb_Copy E l = Some c"
  shows "\<not> fst (sdb_GetFreezeState E a c)"
proof (rule sdb_uncached_not_frozen)
  fix s assume "gm_get (stateObjects c) a = Some s"
  with sdb_Copy_copies [OF assms] obtain p where "s = so_deepCopy E p" unfolding sdb_copies_def by blast
  then show "\<not> so_freeze s" by simp
qed

text \<open>(C33) In a state opened from any root of any database no account is frozen: a freeze that
  was executed in one block does not reach the state the next block is executed on.\<close>

theorem sdb_reopen_unfreezes:
  assumes "sdb_New E root db = Inr l"
  shows "\<not> fst (sdb_GetFreezeState E a l)"
  using assms by (intro sdb_uncached_not_frozen) (auto simp: sdb_New_def split: sum.splits)

section \<open>Transfers (\<open>core/evm.go\<close>)\<close>

datatype TransactionType =
    SameShardTx | SubtractionOnly | InvalidTx | StakeCreateVal | StakeEditVal | Delegate | Undelegate
  | CollectRewards

definition CanTransfer ::
    "('d, 'tr, 'v) sdb_env \<Rightarrow> address \<Rightarrow> int \<Rightarrow> ('d, 'tr, 'v) DB \<Rightarrow> bool \<times> ('d, 'tr, 'v) DB" where
  "CanTransfer E addr amount db = (case sdb_GetBalance E addr db of (b, db) \<Rightarrow> (amount \<le> b, db))"

definition Transfer ::
    "('d, 'tr, 'v) sdb_env \<Rightarrow> address \<Rightarrow> address \<Rightarrow> int \<Rightarrow> TransactionType \<Rightarrow>
      ('d, 'tr, 'v) DB \<Rightarrow> ('d, 'tr, 'v) DB" where
  "Transfer E sender recipient amount txType db =
     (let db = (if txType = SameShardTx \<or> txType = SubtractionOnly
                then sdb_SubBalance E sender amount db else db)
      in if txType = SameShardTx then sdb_AddBalance E recipient amount db else db)"

text \<open>(C17) A transfer inside a shard, in a reachable state: each of the two accounts is changed
  exactly when it is not frozen, and no other balance changes. With neither account frozen the
  amount moves and a transfer to oneself changes nothing; when only the recipient is frozen the
  sender still pays and nobody receives, so the amount is lost.\<close>

theorem transfer_balances:
  assumes "account_tries_ok E" and "sdb_reachable E l"
  shows "fst (sdb_GetBalance E c (Transfer E s r x SameShardTx l)) =
    fst (sdb_GetBalance E c l)
    - (if c = s \<and> \<not> fst (sdb_GetFreezeState E s l) then x else 0)
    + (if c = r \<and> \<not> fst (sdb_GetFreezeState E r l) then x else 0)"
proof -
  have inv: "sdb_inv E l" using sdb_reachable_inv [OF assms] by simp
  have "sdb_inv E (sdb_SubBalance E s x l)"
    using sdb_setters_safe(2) [OF inv, of s x] by (simp add: sdb_safe_def)
  then show ?thesis
    using inv by (auto simp: Transfer_def sdb_getters_obj sdb_AddBalance_obj sdb_SubBalance_obj)
qed

text \<open>A sequence of transfers keeps the sum of the balances of the accounts involved, as long
  as none of them is frozen.\<close>

lemma sdb_Transfer_inv:
  assumes "sdb_inv E l"
  shows "sdb_inv E (Transfer E s r x t l)"
proof -
  have "sdb_inv E (sdb_SubBalance E s x l)"
    using sdb_setters_safe(2) [OF assms, of s x] by (simp add: sdb_safe_def)
  then show ?thesis
    using sdb_setters_safe(1) [of E _ r x] assms by (auto simp: Transfer_def Let_def sdb_safe_def)
qed

lemma Transfer_freeze:
  "sdb_inv E l \<Longrightarrow> so_freeze (sdb_obj E (Transfer E s r x t l) c) = so_freeze (sdb_obj E l c)"
  using sdb_setters_safe(2) [of E l s x]
  by (auto simp: Transfer_def Let_def sdb_AddBalance_obj sdb_SubBalance_obj sdb_safe_def)

lemma Transfer_balance:
  "sdb_inv E l \<Longrightarrow> \<not> so_freeze (sdb_obj E l s) \<Longrightarrow> \<not> so_freeze (sdb_obj E l r) \<Longrightarrow>
    so_Balance (sdb_obj E (Transfer E s r x SameShardTx l) c) =
    so_Balance (sdb_obj E l c) - (if c = s then x else 0) + (if c = r then x else 0)"
  using sdb_setters_safe(2) [of E l s x]
  by (auto simp: Transfer_def sdb_AddBalance_obj sdb_SubBalance_obj sdb_safe_def)

text \<open>(C16) Any sequence of transfers among accounts that are not frozen, in a reachable state,
  keeps the total of the balances of any finite set of accounts that contains them.\<close>

theorem transfers_conserve_total:
  assumes "account_tries_ok E" and "sdb_reachable E l" and "finite A"
    and "\<forall>(s, r, x) \<in> set ts. s \<in> A \<and> r \<in> A" and "\<forall>c \<in> A. \<not> fst (sdb_GetFreezeState E c l)"
  shows "(\<Sum>c \<in> A. fst (sdb_GetBalance E c (fold (\<lambda>(s, r, x). Transfer E s r x SameShardTx) ts l)))
    = (\<Sum>c \<in> A. fst (sdb_GetBalance E c l))"
proof -
  have "sdb_inv E l" using sdb_reachable_inv [OF assms(1,2)] by simp
  moreover have "\<forall>c \<in> A. \<not> so_freeze (sdb_obj E l c)" using assms(5) by (simp add: sdb_getters_obj)
  ultimately have "(\<Sum>c \<in> A. so_Balance (sdb_obj E (fold (\<lambda>(s, r, x). Transfer E s r x SameShardTx) ts l) c))
      = (\<Sum>c \<in> A. so_Balance (sdb_obj E l c))"
    using assms(4)
  proof (induction ts arbitrary: l)
    case (Cons t ts)
    obtain s r x where t: "t = (s, r, x)" by (cases t)
    let ?m = "Transfer E s r x SameShardTx l"
    have sr: "s \<in> A" "r \<in> A" using Cons.prems(3) by (auto simp: t)
    then have nf: "\<not> so_freeze (sdb_obj E l s)" "\<not> so_freeze (sdb_obj E l r)" using Cons.prems(2) by auto
    have "(\<Sum>c \<in> A. so_Balance (sdb_obj E ?m c)) = (\<Sum>c \<in> A. so_Balance (sdb_obj E l c))
        - (\<Sum>c \<in> A. if c = s then x else 0) + (\<Sum>c \<in> A. if c = r then x else 0)"
      by (simp add: Transfer_balance [OF Cons.prems(1) nf] sum.distrib sum_subtractf)
    then have "(\<Sum>c \<in> A. so_Balance (sdb_obj E ?m c)) = (\<Sum>c \<in> A. so_Balance (sdb_obj E l c))"
      using sr assms(3) by simp
    moreover have "\<forall>c \<in> A. \<not> so_freeze (sdb_obj E ?m c)"
      using Cons.prems(2) Transfer_freeze [OF Cons.prems(1)] by simp
    ultimately show ?case
      using Cons.IH [OF sdb_Transfer_inv [OF Cons.prems(1)]] Cons.prems(3) by (auto simp: t)
  qed simp
  then show ?thesis by (simp add: sdb_getters_obj)
qed

section \<open>Contract storage\<close>

lemma so_SetState_effect:
  assumes "sdb_holds E s m" and "so_SetState E s k v m = Some l'"
  obtains s' where "sdb_peek E l' = (sdb_peek E m)(so_address s := Some s')" and "\<not> so_deleted s'"
    and "so_state_view E (sdb_db m) s' = (so_state_view E (sdb_db m) s)(k := Some v)"
    and "sdb_db l' = sdb_db m" and "so_head s' = so_head s"
    and "so_code_view E (sdb_db m) s' = so_code_view E (sdb_db m) s"
proof -
  note h = assms(1) [unfolded sdb_holds_def]
  have fake: "so_fakeStorage s = None" using h by (auto simp: sdb_inv_def so_ok_def)
  then obtain prev s1 where g: "so_GetState E (sdb_db m) k s = Some (prev, s1)"
    using assms(2) by (auto simp: so_SetState_def split: option.splits)
  note w = so_GetState_view [OF g]
  have s1: "so_address s1 = so_address s" "so_deleted s1 = so_deleted s" "so_fakeStorage s1 = None"
    using so_head_sel [OF so_view_sel(1) [OF w(1)]] fake by auto
  note hc = so_view_sel(1,2) [OF w(1)]
  have sv: "so_state_view E (sdb_db m) s1 = so_state_view E (sdb_db m) s" using so_view_sel(3) [OF w(1)] .
  let ?m = "sdb_write (so_address s) (\<lambda>_. s1) m"
  have p1: "sdb_peek E ?m = (sdb_peek E m)(so_address s := Some s1)"
    using sdb_peek_write_holds [OF assms(1)] .
  show thesis
  proof (cases "prev = v")
    case True
    with assms(2) g fake s1 have "l' = ?m" by (simp add: so_SetState_def Let_def)
    with p1 s1 h sv hc w(2) True show thesis by (intro that [of s1]) (auto simp: fun_upd_idem)
  next
    case False
    with assms(2) g fake s1 have l': "l' = sdb_write (so_address s) (so_setState k v)
        (sdb_append (storageChange (so_address s) k prev) ?m)"
      by (simp add: so_SetState_def Let_def)
    have "gm_get (stateObjects ?m) (so_address s) = Some s1" using h by (simp add: sdb_write_objects)
    then have "sdb_peek E l' = (sdb_peek E m)(so_address s := Some (so_setState k v s1))"
      using sdb_peek_write [of "sdb_append (storageChange (so_address s) k prev) ?m" "so_address s" s1 E] p1
      by (simp add: l')
    moreover have "so_state_view E (sdb_db m) (so_setState k v s1) = (so_state_view E (sdb_db m) s)(k := Some v)"
      using so_setState_view [of E "sdb_db m" k v s1] s1(3) sv by (simp add: so_view_def)
    moreover have "so_code_view E (sdb_db m) (so_setState k v s1) = so_code_view E (sdb_db m) s1"
      by (rule so_code_view_cong) (simp_all add: so_setState_def)
    ultimately show thesis
      using h s1(2) hc by (intro that [of "so_setState k v s1"]) (auto simp: so_setState_def so_head_def l')
  qed
qed

lemma sdb_GetState_live:
  "map_option fst (sdb_GetState E a k l) = (case sdb_live E l a of
     None \<Rightarrow> Some 0 | Some s \<Rightarrow> so_state_view E (sdb_db l) s k)"
  by (auto simp: sdb_GetState_def sdb_get_eq so_state_view_def option.map_comp comp_def case_prod_unfold
      split: option.split)

text \<open>(C26) In a reachable state, a \<open>SetState\<close> on an account that is not frozen makes
  \<open>GetState\<close> return the new value for that slot. Every slot of every other account, and every
  other slot of the account if it existed before, reads as before.\<close>

theorem sdb_get_set_state:
  assumes "account_tries_ok E" and "sdb_reachable E l" and "\<not> fst (sdb_GetFreezeState E a l)"
    and "sdb_SetState E a k v l = Some l'"
  shows "map_option fst (sdb_GetState E a k l') = Some v
    \<and> (b \<noteq> a \<or> (k' \<noteq> k \<and> fst (sdb_Exist E a l)) \<longrightarrow>
        map_option fst (sdb_GetState E b k' l') = map_option fst (sdb_GetState E b k' l))"
proof -
  have inv: "sdb_inv E l" using sdb_reachable_inv [OF assms(1,2)] by simp
  let ?s = "sdb_obj E l a"
  obtain m where m: "sdb_GetOrNewStateObject E a l = (?s, m)" "sdb_holds E ?s m" "so_address ?s = a"
      "sdb_peek E m = (sdb_peek E l)(a := Some ?s)" "sdb_db m = sdb_db l"
    using sdb_GetOrNew_cases [OF inv] by metis
  have "so_SetState E ?s k v m = Some l'"
    using assms(3,4) by (simp add: sdb_SetState_def m(1) sdb_getters_obj sdb_getFreezeState_def so_FreezeState_def)
  from so_SetState_effect [OF m(2) this] obtain s' where
    s': "sdb_peek E l' = (sdb_peek E l)(a := Some s')" "\<not> so_deleted s'"
      "so_state_view E (sdb_db l) s' = (so_state_view E (sdb_db l) ?s)(k := Some v)" "sdb_db l' = sdb_db l"
    using m(3,4,5) by (metis fun_upd_upd)
  have live': "sdb_live E l' c = (if c = a then Some s' else sdb_live E l c)" for c
    using s'(1,2) by (simp add: sdb_live_def)
  have "sdb_live E l a = Some ?s" if "fst (sdb_Exist E a l)"
    using that by (auto simp: sdb_Exist_def sdb_get_eq sdb_obj_def)
  then show ?thesis using s' by (auto simp: sdb_GetState_live live' split: option.split)
qed

section \<open>Gaps\<close>

text \<open>\<open>Suicide\<close> and \<open>CreateAccount\<close> do not look at the freeze flag: on a frozen account
  the first clears the balance and the second clears the flag itself.\<close>

lemma sdb_freeze_bypassed:
  assumes "account_tries_ok E" and "sdb_reachable E l" and "fst (sdb_GetFreezeState E a l)"
  shows "fst (sdb_GetBalance E a (snd (sdb_Suicide E a l))) = 0
    \<and> \<not> fst (sdb_GetFreezeState E a (sdb_CreateAccount E a l))"
proof -
  have fr: "so_freeze (sdb_obj E l a)" using assms(3) by (simp add: sdb_getters_obj)
  let ?s = "sdb_obj E l a" and ?f = "\<lambda>s. so_setBalance 0 (so_markSuicided s)"
  note live = sdb_frozen_live [OF fr]
  have "sdb_peek E (snd (sdb_Suicide E a l)) = (sdb_peek E l)(a := Some (?f ?s))"
    using sdb_peek_write [of "sdb_append (suicideChange a (so_suicided ?s) (so_Balance ?s)) (sdb_loaded E a l)"
        a ?s E ?f] sdb_live_cached [OF live]
    by (simp add: sdb_Suicide_def sdb_get_eq live)
  moreover have "\<not> so_deleted (?f ?s)" by (simp add: so_setBalance_def so_markSuicided_def)
  ultimately have "sdb_obj E (snd (sdb_Suicide E a l)) a = ?f ?s" using sdb_obj_upd by fastforce
  moreover have "\<not> so_freeze (sdb_obj E (sdb_CreateAccount E a l) a)"
    by (auto simp: sdb_CreateAccount_eq sdb_obj_peek split: option.split)
  ultimately show ?thesis by (simp add: sdb_getters_obj)
qed

lemma st_revert_entry_validators:
  "st_revert_entry E e l = Some l' \<Longrightarrow> stateValidators l' = stateValidators l"
  by (cases e rule: st_entry_cases)
    (auto simp: st_revert_simps st_revert_writer sdb_forget_def sdb_unlog_def split: option.splits if_splits)

lemma sdb_RevertToSnapshot_validators:
  assumes "sdb_RevertToSnapshot E i l = Some l'"
  shows "stateValidators l' = stateValidators l"
proof -
  obtain n rs t where t: "undo_entries (sdb_undo1 E) (rev (drop n (entries (sdb_journal l)))) l = Some t"
      and l': "l' = sdb_set_revisions rs (sdb_truncate n t)"
    using assms by (auto simp: sdb_RevertToSnapshot_def sdb_journal_revert_def Let_def split: option.splits)
  have "stateValidators t = stateValidators l"
    by (rule range_loop_inv [where P = "\<lambda>m. stateValidators m = stateValidators l", OF t])
      (auto simp: sdb_undo1_Some dest: st_revert_entry_validators)
  with l' show ?thesis by (simp add: sdb_set_revisions_def sdb_truncate_def)
qed

text \<open>Reverting does not undo an update of a validator in the cache. In a reachable
  state: take a snapshot, store a validator that passes its sanity check, and revert. The
  accounts are restored, but \<open>ValidatorWrapper\<close> still returns the validator that was to be
  undone, and \<open>Finalise\<close> will write it to the account again.\<close>

lemma sdb_revert_keeps_validator:
  assumes "account_tries_ok E" and "sdb_reachable E l" and "sdb_Snapshot l = (i, u)"
    and "ValidatorSanityCheck E v = None" and "EncodeValidator E v = Inr by"
  shows "\<exists>w. sdb_RevertToSnapshot E i (snd (sdb_UpdateValidatorWrapper E a v u)) = Some w
    \<and> sdb_sim E w l \<and> fst (sdb_ValidatorWrapper E a w) = Inr v"
proof -
  let ?v = "snd (sdb_UpdateValidatorWrapper E a v u)"
  have "nested (sdb_step E) sdb_Snapshot (sdb_RevertToSnapshot E) u ?v"
    by (rule nested_step [OF nested_refl, where x = "StUpdateValidatorWrapper a v"]) simp
  then obtain w where w: "sdb_RevertToSnapshot E i ?v = Some w" "sdb_sim E w l"
    using stdb.revert_restores [of E l i u ?v] sdb_reachable_inv [OF assms(1,2)] assms(3) by blast
  have "gm_get (stateValidators ?v) a = Some v"
    using assms(4,5) by (simp add: sdb_UpdateValidatorWrapper_def Let_def)
  with sdb_RevertToSnapshot_validators [OF w(1)] have "fst (sdb_ValidatorWrapper E a w) = Inr v"
    by (simp add: sdb_ValidatorWrapper_def)
  with w show ?thesis by blast
qed

section \<open>A concrete state\<close>

text \<open>An environment over association lists in which the hypotheses above hold. A trie is a
  pair of the account part and the storage part.\<close>

definition sdb_demo_env ::
    "((hash, bytes) gomap, (address, bytes) gomap \<times> (hash, bytes) gomap, bytes) sdb_env" where
  "sdb_demo_env = \<lparr>OpenTrie = (\<lambda>_ _. Inr ([(9, [7])], [])),
     TryGet = (\<lambda>t k. (gm_getd [] (fst t) k, None)),
     TryUpdate = (\<lambda>t k v. (None, (gm_set k v (fst t), snd t))),
     TryDelete = (\<lambda>t k. (None, (gm_del k (fst t), snd t))),
     TrieHash = (\<lambda>t. of_nat (length (fst t))),
     TrieCommit = (\<lambda>t f d. ((of_nat (length (fst t)), None), t, d)),
     Keccak256Address = ucast,
     OpenStorageTrie = (\<lambda>_ _ _. Inr ([], [])),
     TryGetSlot = (\<lambda>t k. (gm_getd [] (snd t) k, None)),
     TryUpdateSlot = (\<lambda>t k v. (None, (fst t, gm_set k v (snd t)))),
     TryDeleteSlot = (\<lambda>t k. (None, (fst t, gm_del k (snd t)))),
     ContractCode = (\<lambda>d _ h. (gm_get d h, None)),
     ContractCodeSize = (\<lambda>d _ h. (int (length (gm_getd [] d h)), None)),
     InsertBlob = (\<lambda>d h c. gm_set h c d),
     Reference = (\<lambda>d _ _. d),
     Keccak256Hash = (\<lambda>b. of_nat (length b)),
     EncodeAccount = (\<lambda>acc. Inr [of_int (acc_Balance acc)]),
     DecodeAccount = (\<lambda>b. Inr \<lparr>raw_Nonce = 0, raw_Balance = Some (uint (hd b)), raw_Root = 0,
        raw_CodeHash = None\<rparr>),
     RlpSplit = (\<lambda>b. (b, None)), RlpEncodeBytes = (\<lambda>b. b),
     ValidatorSanityCheck = (\<lambda>_. None), EncodeValidator = Inr, DecodeValidator = Inr\<rparr>"

definition sdb_demo where
  "sdb_demo = projr (sdb_New sdb_demo_env 0 [])"

lemma sdb_demo_new: "sdb_New sdb_demo_env 0 [] = Inr sdb_demo"
  by (simp add: sdb_demo_def sdb_New_def sdb_demo_env_def)

lemma sdb_demo_reachable: "sdb_reachable sdb_demo_env sdb_demo"
  by (rule sdb_reachable.st_new [OF sdb_demo_new])

lemma sdb_demo_tries: "account_tries_ok sdb_demo_env"
  by (simp add: account_tries_ok_def so_trie_ok_def sdb_demo_env_def)

lemma sdb_demo_snapshot: "sdb_Snapshot sdb_demo = (0, snd (sdb_Snapshot sdb_demo))"
  by (simp add: sdb_Snapshot_def sdb_demo_def sdb_New_def sdb_demo_env_def Let_def)

lemma sdb_demo_inv: "sdb_inv sdb_demo_env sdb_demo"
  using sdb_reachable_inv [OF sdb_demo_tries sdb_demo_reachable] by simp

lemma sdb_demo_not_frozen: "\<not> fst (sdb_GetFreezeState sdb_demo_env a sdb_demo)"
  by (rule sdb_uncached_not_frozen) (simp add: sdb_demo_def sdb_New_def sdb_demo_env_def)

text \<open>The same state with account 9, which the trie holds with balance 7, frozen.\<close>

definition sdb_demo_frozen where
  "sdb_demo_frozen = sdb_SetFreezeState sdb_demo_env 9 True sdb_demo"

lemma sdb_demo_frozen_reachable: "sdb_reachable sdb_demo_env sdb_demo_frozen"
  unfolding sdb_demo_frozen_def
  by (rule sdb_reachable.st_step [OF sdb_demo_reachable, where x = "StSetFreezeState 9 True"]) simp

lemma sdb_demo_balance: "fst (sdb_GetBalance sdb_demo_env 9 sdb_demo) = 7"
  by (simp add: sdb_GetBalance_def sdb_getStateObject_def sdb_getDeletedStateObject_def
      sdb_demo_def sdb_New_def sdb_demo_env_def gm_getd_def so_newObject_def so_Balance_def Let_def)

lemma sdb_demo_frozen:
  "fst (sdb_GetFreezeState sdb_demo_env 9 sdb_demo_frozen)"
  "\<not> fst (sdb_GetFreezeState sdb_demo_env 5 sdb_demo_frozen)"
  "fst (sdb_GetBalance sdb_demo_env 9 sdb_demo_frozen) = 7"
  using sdb_demo_balance sdb_demo_not_frozen [of 5]
  by (simp_all add: sdb_demo_frozen_def sdb_getters_obj sdb_SetFreezeState_obj [OF sdb_demo_inv])

theorem sdb_revert_to_snapshot_restores_witness:
  "\<exists>w. sdb_RevertToSnapshot sdb_demo_env 0
      (sdb_AddBalance sdb_demo_env 9 3 (snd (sdb_Snapshot sdb_demo))) = Some w
    \<and> sdb_sim sdb_demo_env w sdb_demo
    \<and> entries (sdb_journal w) = entries (sdb_journal sdb_demo)
    \<and> (\<forall>a. a \<noteq> ripemd \<longrightarrow> gm_get (dirties (sdb_journal w)) a = gm_get (dirties (sdb_journal sdb_demo)) a)
    \<and> sdb_validRevisions w = sdb_validRevisions sdb_demo
    \<and> stateValidators w = stateValidators (sdb_AddBalance sdb_demo_env 9 3 (snd (sdb_Snapshot sdb_demo)))"
proof (rule sdb_revert_to_snapshot_restores [OF sdb_demo_tries sdb_demo_reachable sdb_demo_snapshot])
  show "nested (sdb_step sdb_demo_env) sdb_Snapshot (sdb_RevertToSnapshot sdb_demo_env)
      (snd (sdb_Snapshot sdb_demo)) (sdb_AddBalance sdb_demo_env 9 3 (snd (sdb_Snapshot sdb_demo)))"
    by (rule nested_step [OF nested_refl, where x = "StAddBalance 9 3"]) simp
qed

theorem sdb_frozen_account_unchanged_witness:
  "fst (sdb_GetBalance sdb_demo_env 9
     (sdb_SetNonce sdb_demo_env 9 4 (sdb_SubBalance sdb_demo_env 9 3 sdb_demo_frozen))) = 7"
  using sdb_frozen_account_unchanged [OF sdb_demo_tries sdb_demo_frozen_reachable sdb_demo_frozen(1),
      where xs = "[StSubBalance 9 3, StSetNonce 9 4]"
        and l' = "sdb_SetNonce sdb_demo_env 9 4 (sdb_SubBalance sdb_demo_env 9 3 sdb_demo_frozen)"]
    sdb_demo_frozen(3)
  by simp

theorem sdb_reopen_unfreezes_witness: "\<not> fst (sdb_GetFreezeState sdb_demo_env 9 sdb_demo)"
  using sdb_reopen_unfreezes [OF sdb_demo_new] by blast

theorem transfer_balances_witness:
  "fst (sdb_GetBalance sdb_demo_env 9 (Transfer sdb_demo_env 9 5 4 SameShardTx sdb_demo)) = 3
    \<and> fst (sdb_GetBalance sdb_demo_env 9 (Transfer sdb_demo_env 5 9 4 SameShardTx sdb_demo_frozen)) = 7"
  using transfer_balances [OF sdb_demo_tries sdb_demo_reachable, of 9 9 5 4]
    transfer_balances [OF sdb_demo_tries sdb_demo_frozen_reachable, of 9 5 9 4]
    sdb_demo_balance sdb_demo_not_frozen sdb_demo_frozen
  by simp

theorem transfers_conserve_total_witness:
  "(\<Sum>c \<in> {5, 9}. fst (sdb_GetBalance sdb_demo_env c
      (fold (\<lambda>(s, r, x). Transfer sdb_demo_env s r x SameShardTx) [(9, 5, 4), (5, 9, 1)] sdb_demo)))
    = (\<Sum>c \<in> {5, 9}. fst (sdb_GetBalance sdb_demo_env c sdb_demo))"
  by (rule transfers_conserve_total [OF sdb_demo_tries sdb_demo_reachable])
    (simp_all add: sdb_demo_not_frozen)

theorem sdb_get_set_state_witness:
  "\<exists>l'. sdb_SetState sdb_demo_env 9 1 2 sdb_demo = Some l'
    \<and> map_option fst (sdb_GetState sdb_demo_env 9 1 l') = Some 2"
proof -
  have "\<exists>l'. sdb_SetState sdb_demo_env 9 1 2 sdb_demo = Some l'"
    by (simp add: sdb_SetState_def sdb_GetOrNewStateObject_def sdb_getStateObject_def
        sdb_getDeletedStateObject_def sdb_getFreezeState_def so_FreezeState_def so_SetState_def
        so_GetState_def so_GetCommittedState_def so_getTrie_def
        sdb_demo_def sdb_New_def sdb_demo_env_def gm_getd_def so_newObject_def Let_def)
  then obtain l' where "sdb_SetState sdb_demo_env 9 1 2 sdb_demo = Some l'" ..
  with sdb_get_set_state [OF sdb_demo_tries sdb_demo_reachable sdb_demo_not_frozen this] show ?thesis
    by blast
qed

lemma sdb_freeze_bypassed_example:
  "fst (sdb_GetBalance sdb_demo_env 9 (snd (sdb_Suicide sdb_demo_env 9 sdb_demo_frozen))) = 0
    \<and> \<not> fst (sdb_GetFreezeState sdb_demo_env 9 (sdb_CreateAccount sdb_demo_env 9 sdb_demo_frozen))"
  using sdb_freeze_bypassed [OF sdb_demo_tries sdb_demo_frozen_reachable sdb_demo_frozen(1)] .

lemma sdb_revert_keeps_validator_example:
  "\<exists>w. sdb_RevertToSnapshot sdb_demo_env 0
      (snd (sdb_UpdateValidatorWrapper sdb_demo_env 9 [1] (snd (sdb_Snapshot sdb_demo)))) = Some w
    \<and> sdb_sim sdb_demo_env w sdb_demo \<and> fst (sdb_ValidatorWrapper sdb_demo_env 9 w) = Inr [1]"
  by (rule sdb_revert_keeps_validator [OF sdb_demo_tries sdb_demo_reachable sdb_demo_snapshot])
    (simp_all add: sdb_demo_env_def)

end
