(* ===== verification/Managed_State.thy ===== *)
theory Managed_State
  imports State_DB_Props
begin

text \<open>
  The managed state, \<open>core/state/managed_state.go\<close>: an account state together with the
  virtual nonces of pending transactions. The transaction pool and the commit pool read
  pending balances and nonces through it.

  \<open>SetNonce\<close> of the managed state goes to the object directly, past the freeze guard of the
  account state. An account's field \<open>stateObject\<close> is written and never read; it is kept as
  the address of the object it points to.
\<close>

section \<open>State and operations\<close>

record account =
  acct_stateObject :: address
  nstart :: u64
  nonces :: "bool list"

record ('d, 'tr, 'v) ManagedState =
  ms_DB :: "('d, 'tr, 'v) DB"
  ms_accounts :: "(address, account) gomap"

definition ManageState ::
    "('d, 'tr, 'v) sdb_env \<Rightarrow> ('d, 'tr, 'v) DB \<Rightarrow> ('d, 'tr, 'v) ManagedState option" where
  "ManageState E statedb = map_option (\<lambda>c. \<lparr>ms_DB = c, ms_accounts = []\<rparr>) (sdb_Copy E statedb)"

definition ms_SetState ::
    "('d, 'tr, 'v) DB \<Rightarrow> ('d, 'tr, 'v) ManagedState \<Rightarrow> ('d, 'tr, 'v) ManagedState" where
  "ms_SetState statedb ms = ms\<lparr>ms_DB := statedb\<rparr>"

definition newAccount :: "'tr Object \<Rightarrow> account" where
  "newAccount so = \<lparr>acct_stateObject = so_address so, nstart = so_Nonce so, nonces = []\<rparr>"

definition ms_hasAccount :: "address \<Rightarrow> ('d, 'tr, 'v) ManagedState \<Rightarrow> bool" where
  "ms_hasAccount addr ms = (gm_get (ms_accounts ms) addr \<noteq> None)"

definition ms_tracked :: "account \<Rightarrow> u64" where
  "ms_tracked acc = of_nat (length (nonces acc)) + nstart acc"

definition ms_getAccount ::
    "('d, 'tr, 'v) sdb_env \<Rightarrow> address \<Rightarrow> ('d, 'tr, 'v) ManagedState \<Rightarrow>
      account \<times> ('d, 'tr, 'v) ManagedState" where
  "ms_getAccount E addr ms =
     (case gm_get (ms_accounts ms) addr of
        None \<Rightarrow>
          (let (so, db) = sdb_GetOrNewStateObject E addr (ms_DB ms);
               acc = newAccount so
           in (acc, ms\<lparr>ms_DB := db, ms_accounts := gm_set addr acc (ms_accounts ms)\<rparr>))
      | Some acc \<Rightarrow>
          (let (so, db) = sdb_getStateObject E addr (ms_DB ms);
               ms = ms\<lparr>ms_DB := db\<rparr>
           in case so of
                None \<Rightarrow> (acc, ms)
              | Some so \<Rightarrow>
                  if ms_tracked acc < so_Nonce so
                  then let acc = newAccount so
                       in (acc, ms\<lparr>ms_accounts := gm_set addr acc (ms_accounts ms)\<rparr>)
                  else (acc, ms)))"

definition ms_RemoveNonce ::
    "('d, 'tr, 'v) sdb_env \<Rightarrow> address \<Rightarrow> u64 \<Rightarrow> ('d, 'tr, 'v) ManagedState \<Rightarrow>
      ('d, 'tr, 'v) ManagedState" where
  "ms_RemoveNonce E addr n ms =
     (if ms_hasAccount addr ms
      then let (acc, ms) = ms_getAccount E addr ms
           in if n - nstart acc \<le> of_nat (length (nonces acc))
              then let acc = acc\<lparr>nonces := take (unat (n - nstart acc)) (nonces acc)\<rparr>
                   in ms\<lparr>ms_accounts := gm_set addr acc (ms_accounts ms)\<rparr>
              else ms
      else ms)"

text \<open>The loop of \<open>NewNonce\<close>: the index of the first nonce that is not taken.\<close>

fun ms_free_nonce :: "nat \<Rightarrow> bool list \<Rightarrow> nat option" where
  "ms_free_nonce i [] = None"
| "ms_free_nonce i (nonce # ns) = (if \<not> nonce then Some i else ms_free_nonce (i + 1) ns)"

definition ms_NewNonce ::
    "('d, 'tr, 'v) sdb_env \<Rightarrow> address \<Rightarrow> ('d, 'tr, 'v) ManagedState \<Rightarrow>
      u64 \<times> ('d, 'tr, 'v) ManagedState" where
  "ms_NewNonce E addr ms =
     (let (acc, ms) = ms_getAccount E addr ms
      in case ms_free_nonce 0 (nonces acc) of
           Some i \<Rightarrow> (nstart acc + of_nat i, ms)
         | None \<Rightarrow>
             let acc = acc\<lparr>nonces := nonces acc @ [True]\<rparr>
             in (of_nat (length (nonces acc) - 1) + nstart acc,
                 ms\<lparr>ms_accounts := gm_set addr acc (ms_accounts ms)\<rparr>))"

definition ms_GetNonce ::
    "('d, 'tr, 'v) sdb_env \<Rightarrow> address \<Rightarrow> ('d, 'tr, 'v) ManagedState \<Rightarrow>
      u64 \<times> ('d, 'tr, 'v) ManagedState" where
  "ms_GetNonce E addr ms =
     (if ms_hasAccount addr ms
      then let (acc, ms) = ms_getAccount E addr ms in (ms_tracked acc, ms)
      else let (n, db) = sdb_GetNonce E addr (ms_DB ms) in (n, ms\<lparr>ms_DB := db\<rparr>))"

definition ms_SetNonce ::
    "('d, 'tr, 'v) sdb_env \<Rightarrow> address \<Rightarrow> u64 \<Rightarrow> ('d, 'tr, 'v) ManagedState \<Rightarrow>
      ('d, 'tr, 'v) ManagedState" where
  "ms_SetNonce E addr nonce ms =
     (let (so, db) = sdb_GetOrNewStateObject E addr (ms_DB ms)
      in ms\<lparr>ms_DB := so_SetNonce so nonce db,
            ms_accounts := gm_set addr (newAccount (so_setNonce nonce so)) (ms_accounts ms)\<rparr>)"

section \<open>Reachable managed states\<close>

text \<open>The embedded account state keeps its own methods, so a managed state also moves by
  them.\<close>

inductive ms_reachable ::
    "('d, 'tr, 'v) sdb_env \<Rightarrow> ('d, 'tr, 'v) ManagedState \<Rightarrow> bool" for E where
  ms_manage: "sdb_reachable E l \<Longrightarrow> ManageState E l = Some ms \<Longrightarrow> ms_reachable E ms"
| ms_set_state: "ms_reachable E ms \<Longrightarrow> sdb_reachable E l \<Longrightarrow> ms_reachable E (ms_SetState l ms)"
| ms_remove_nonce: "ms_reachable E ms \<Longrightarrow> ms_reachable E (ms_RemoveNonce E a n ms)"
| ms_new_nonce: "ms_reachable E ms \<Longrightarrow> ms_reachable E (snd (ms_NewNonce E a ms))"
| ms_get_nonce: "ms_reachable E ms \<Longrightarrow> ms_reachable E (snd (ms_GetNonce E a ms))"
| ms_set_nonce: "ms_reachable E ms \<Longrightarrow> ms_reachable E (ms_SetNonce E a n ms)"
| ms_db_step: "ms_reachable E ms \<Longrightarrow> sdb_step E x (ms_DB ms) = Some l \<Longrightarrow>
    ms_reachable E (ms\<lparr>ms_DB := l\<rparr>)"

text \<open>In all of them no slot of a nonce list is free: \<open>NewNonce\<close> appends \<open>true\<close> and
  \<open>RemoveNonce\<close> cuts the list.\<close>

definition ms_taken :: "(address, account) gomap \<Rightarrow> bool" where
  "ms_taken m \<longleftrightarrow> (\<forall>a acc. gm_get m a = Some acc \<longrightarrow> (\<forall>z \<in> set (nonces acc). z))"

definition ms_inv :: "('d, 'tr, 'v) sdb_env \<Rightarrow> ('d, 'tr, 'v) ManagedState \<Rightarrow> bool" where
  "ms_inv E ms \<longleftrightarrow> sdb_inv E (ms_DB ms) \<and> ms_taken (ms_accounts ms)"

lemma ms_taken_set [intro]:
  "ms_taken m \<Longrightarrow> (\<forall>z \<in> set (nonces acc). z) \<Longrightarrow> ms_taken (gm_set a acc m)"
  unfolding ms_taken_def by (metis gm_get_set option.inject)

lemma ms_taken_get: "ms_taken m \<Longrightarrow> gm_get m a = Some acc \<Longrightarrow> \<forall>z \<in> set (nonces acc). z"
  unfolding ms_taken_def by blast

lemma ms_taken_Nil [simp]: "ms_taken []"
  by (simp add: ms_taken_def)

lemma ms_free_nonce_None: "(\<forall>z \<in> set ns. z) \<Longrightarrow> ms_free_nonce i ns = None"
  by (induction ns arbitrary: i) auto

lemma newAccount_sel [simp]:
  "nonces (newAccount so) = []" "nstart (newAccount so) = so_Nonce so"
  "ms_tracked (newAccount so) = so_Nonce so"
  by (simp_all add: newAccount_def ms_tracked_def)

lemma ms_tracked_upd [simp]: "ms_tracked (acc\<lparr>nonces := ns\<rparr>) = of_nat (length ns) + nstart acc"
  by (simp add: ms_tracked_def)

lemma ms_taken_newAccount [simp]: "ms_taken m \<Longrightarrow> ms_taken (gm_set a (newAccount so) m)"
  by (rule ms_taken_set) simp_all

text \<open>\<open>getAccount\<close>: the tracked account, or a new one that starts at the account state's
  nonce when there is none or the account state is ahead. No object changes.\<close>

lemma ms_getAccount_spec:
  assumes "ms_inv E ms" and "ms_getAccount E a ms = (acc, ms')"
  shows "ms_inv E ms'" and "gm_get (ms_accounts ms') a = Some acc"
    and "b \<noteq> a \<Longrightarrow> gm_get (ms_accounts ms') b = gm_get (ms_accounts ms) b"
    and "sdb_obj E (ms_DB ms') = sdb_obj E (ms_DB ms)"
    and "gm_get (ms_accounts ms) a = None \<Longrightarrow> acc = newAccount (sdb_obj E (ms_DB ms) a)"
    and "gm_get (ms_accounts ms) a = Some acc0 \<Longrightarrow>
      acc = (if ms_tracked acc0 < so_Nonce (sdb_obj E (ms_DB ms) a)
             then newAccount (sdb_obj E (ms_DB ms) a) else acc0)"
proof -
  let ?l = "ms_DB ms"
  have inv: "sdb_inv E ?l" using assms(1) by (simp add: ms_inv_def)
  obtain m where m: "sdb_GetOrNewStateObject E a ?l = (sdb_obj E ?l a, m)" "sdb_holds E (sdb_obj E ?l a) m"
      "sdb_peek E m = (sdb_peek E ?l)(a := Some (sdb_obj E ?l a))"
    using sdb_GetOrNew_cases [OF inv] by metis
  have om: "sdb_obj E m = sdb_obj E ?l" using sdb_obj_upd [OF m(3)] by (auto simp: fun_eq_iff)
  have ol: "sdb_obj E (sdb_loaded E a ?l) = sdb_obj E ?l" by (simp add: sdb_obj_peek fun_eq_iff)
  have "sdb_inv E m" using m(2) by (simp add: sdb_holds_def)
  moreover have "sdb_inv E (sdb_loaded E a ?l)" using sdb_loaded_safe [OF inv] by (simp add: sdb_safe_def)
  moreover have "sdb_live E ?l a = None \<Longrightarrow> so_Nonce (sdb_obj E ?l a) = 0"
    by (simp add: sdb_obj_def so_Nonce_def sdb_fresh_def so_newObject_def so_setNonce_def zeroAccount_def)
  moreover have "sdb_live E ?l a = Some s \<Longrightarrow> sdb_obj E ?l a = s" for s by (simp add: sdb_obj_def)
  ultimately have "ms_inv E ms' \<and> gm_get (ms_accounts ms') a = Some acc
      \<and> (b \<noteq> a \<longrightarrow> gm_get (ms_accounts ms') b = gm_get (ms_accounts ms) b)
      \<and> sdb_obj E (ms_DB ms') = sdb_obj E ?l
      \<and> (gm_get (ms_accounts ms) a = None \<longrightarrow> acc = newAccount (sdb_obj E ?l a))
      \<and> (gm_get (ms_accounts ms) a = Some acc0 \<longrightarrow>
          acc = (if ms_tracked acc0 < so_Nonce (sdb_obj E ?l a) then newAccount (sdb_obj E ?l a) else acc0))"
    using assms m(1) om ol
    by (auto simp: ms_getAccount_def ms_inv_def sdb_get_eq Let_def split: option.splits if_splits)
  then show "ms_inv E ms'" "gm_get (ms_accounts ms') a = Some acc"
    "b \<noteq> a \<Longrightarrow> gm_get (ms_accounts ms') b = gm_get (ms_accounts ms) b"
    "sdb_obj E (ms_DB ms') = sdb_obj E (ms_DB ms)"
    "gm_get (ms_accounts ms) a = None \<Longrightarrow> acc = newAccount (sdb_obj E (ms_DB ms) a)"
    "gm_get (ms_accounts ms) a = Some acc0 \<Longrightarrow>
      acc = (if ms_tracked acc0 < so_Nonce (sdb_obj E (ms_DB ms) a)
             then newAccount (sdb_obj E (ms_DB ms) a) else acc0)"
    by blast+
qed

text \<open>The pending nonce of an address, as a value.\<close>

definition ms_pending :: "('d, 'tr, 'v) sdb_env \<Rightarrow> ('d, 'tr, 'v) ManagedState \<Rightarrow> address \<Rightarrow> u64" where
  "ms_pending E ms a = (case gm_get (ms_accounts ms) a of
      None \<Rightarrow> so_Nonce (sdb_obj E (ms_DB ms) a)
    | Some acc \<Rightarrow> max (ms_tracked acc) (so_Nonce (sdb_obj E (ms_DB ms) a)))"

lemma ms_pending_set:
  "ms_pending E (ms\<lparr>ms_accounts := gm_set a acc (ms_accounts ms)\<rparr>) b =
    (if b = a then max (ms_tracked acc) (so_Nonce (sdb_obj E (ms_DB ms) a)) else ms_pending E ms b)"
  by (simp add: ms_pending_def cong: view_congs)

lemma ms_getAccount_pending:
  assumes "ms_inv E ms" and "ms_getAccount E a ms = (acc, ms')"
  shows "ms_tracked acc = ms_pending E ms a" and "ms_pending E ms' = ms_pending E ms"
proof -
  note s = ms_getAccount_spec [OF assms]
  show t: "ms_tracked acc = ms_pending E ms a"
    using s(5,6) by (cases "gm_get (ms_accounts ms) a") (auto simp: ms_pending_def max_def)
  have "so_Nonce (sdb_obj E (ms_DB ms) a) \<le> ms_tracked acc"
    unfolding t by (auto simp: ms_pending_def split: option.split)
  then have "ms_pending E ms' b = ms_pending E ms b" for b
    using s(2,3,4) t by (cases "b = a") (auto simp: ms_pending_def max_def cong: view_congs)
  then show "ms_pending E ms' = ms_pending E ms" by blast
qed

lemma ms_GetNonce_pending:
  assumes "ms_inv E ms"
  shows "fst (ms_GetNonce E a ms) = ms_pending E ms a"
  using ms_getAccount_pending [OF assms, of a] sdb_getters_obj(2) [of E a "ms_DB ms"]
  by (auto simp: ms_GetNonce_def ms_hasAccount_def ms_pending_def split: prod.split option.splits)

lemma ms_GetNonce_inv:
  assumes "ms_inv E ms"
  shows "ms_inv E (snd (ms_GetNonce E a ms))"
proof -
  have "sdb_inv E (snd (sdb_GetNonce E a (ms_DB ms)))"
    using assms sdb_loaded_safe [of E "ms_DB ms" a] by (simp add: ms_inv_def sdb_plain_getters sdb_safe_def)
  then show ?thesis
    using assms ms_getAccount_spec(1) [OF assms, of a]
    by (auto simp: ms_GetNonce_def ms_inv_def split: prod.split)
qed

lemma ms_set_account_inv:
  "ms_inv E ms \<Longrightarrow> (\<forall>z \<in> set (nonces acc). z) \<Longrightarrow>
    ms_inv E (ms\<lparr>ms_accounts := gm_set a acc (ms_accounts ms)\<rparr>)"
  by (auto simp: ms_inv_def)

text \<open>In a state with the invariant \<open>NewNonce\<close> always appends.\<close>

lemma ms_NewNonce_eq:
  assumes "ms_inv E ms" and "ms_getAccount E a ms = (acc, ms')"
  shows "ms_NewNonce E a ms = (ms_pending E ms a,
    ms'\<lparr>ms_accounts := gm_set a (acc\<lparr>nonces := nonces acc @ [True]\<rparr>) (ms_accounts ms')\<rparr>)"
proof -
  note s = ms_getAccount_spec [OF assms]
  have "\<forall>z \<in> set (nonces acc). z" using s(1,2) by (auto simp: ms_inv_def dest: ms_taken_get)
  then have "ms_free_nonce 0 (nonces acc) = None" by (rule ms_free_nonce_None)
  with assms(2) ms_getAccount_pending(1) [OF assms] show ?thesis
    by (simp add: ms_NewNonce_def Let_def ms_tracked_def)
qed

lemma ms_NewNonce_inv:
  assumes "ms_inv E ms"
  shows "ms_inv E (snd (ms_NewNonce E a ms))"
proof -
  obtain acc ms' where g: "ms_getAccount E a ms = (acc, ms')" by fastforce
  note s = ms_getAccount_spec [OF assms g]
  have "\<forall>z \<in> set (nonces acc). z" using s(1,2) by (auto simp: ms_inv_def dest: ms_taken_get)
  with ms_set_account_inv [OF s(1)] show ?thesis by (simp add: ms_NewNonce_eq [OF assms g])
qed

lemma ms_RemoveNonce_inv:
  assumes "ms_inv E ms"
  shows "ms_inv E (ms_RemoveNonce E a n ms)"
proof -
  obtain acc ms' where g: "ms_getAccount E a ms = (acc, ms')" by fastforce
  note s = ms_getAccount_spec [OF assms g]
  have "\<forall>z \<in> set (nonces acc). z" using s(1,2) by (auto simp: ms_inv_def dest: ms_taken_get)
  then have "\<forall>z \<in> set (take k (nonces acc)). z" for k by (meson in_set_takeD)
  with ms_set_account_inv [OF s(1), of "acc\<lparr>nonces := take (unat (n - nstart acc)) (nonces acc)\<rparr>" a]
    s(1) assms show ?thesis
    by (simp add: ms_RemoveNonce_def g Let_def) blast
qed

lemma ms_SetNonce_inv:
  assumes "ms_inv E ms"
  shows "ms_inv E (ms_SetNonce E a n ms)"
proof -
  have inv: "sdb_inv E (ms_DB ms)" using assms by (simp add: ms_inv_def)
  obtain s m where m: "sdb_GetOrNewStateObject E a (ms_DB ms) = (s, m)" "sdb_holds E s m"
    using sdb_GetOrNew_cases [OF inv] by metis
  have "sdb_inv E (so_SetNonce s n m)" using so_SetNonce_safe [OF m(2)] by (simp add: sdb_safe_def)
  with assms m(1) show ?thesis by (auto simp: ms_SetNonce_def ms_inv_def)
qed

lemma ms_reachable_inv:
  assumes "account_tries_ok E"
  shows "ms_reachable E ms \<Longrightarrow> ms_inv E ms"
proof (induction rule: ms_reachable.induct)
  case (ms_manage l ms)
  then obtain c where c: "sdb_Copy E l = Some c" "ms = \<lparr>ms_DB = c, ms_accounts = []\<rparr>"
    by (auto simp: ManageState_def)
  have "sdb_inv E c"
    using sdb_reachable_inv [OF assms sdb_reachable.st_copy [OF ms_manage(1) c(1)]] by simp
  then show ?case by (simp add: ms_inv_def c(2))
next
  case (ms_set_state ms l)
  then show ?case using sdb_reachable_inv [OF assms ms_set_state(2)] by (simp add: ms_inv_def ms_SetState_def)
next
  case (ms_db_step ms x l)
  then show ?case using sdb_step_safe [of E "ms_DB ms" x l] by (simp add: ms_inv_def sdb_safe_def)
qed (simp_all add: ms_RemoveNonce_inv ms_NewNonce_inv ms_GetNonce_inv ms_SetNonce_inv)

section \<open>Virtual nonces\<close>

text \<open>One \<open>NewNonce\<close>, in terms of the pending nonce; the increment must not wrap around.\<close>

lemma ms_NewNonce_pending:
  assumes "ms_inv E ms" and "ms_pending E ms a + 1 \<noteq> 0"
  shows "fst (ms_NewNonce E a ms) = ms_pending E ms a"
    and "ms_pending E (snd (ms_NewNonce E a ms)) = (ms_pending E ms)(a := ms_pending E ms a + 1)"
proof -
  obtain acc ms' where g: "ms_getAccount E a ms = (acc, ms')" by fastforce
  note s = ms_getAccount_spec [OF assms(1) g]
  note p = ms_getAccount_pending [OF assms(1) g]
  show "fst (ms_NewNonce E a ms) = ms_pending E ms a" by (simp add: ms_NewNonce_eq [OF assms(1) g])
  have t: "ms_tracked (acc\<lparr>nonces := nonces acc @ [True]\<rparr>) = ms_pending E ms a + 1"
    using p(1) by (simp add: ms_tracked_def algebra_simps)
  have "so_Nonce (sdb_obj E (ms_DB ms) a) \<le> ms_pending E ms a"
    by (auto simp: ms_pending_def split: option.split)
  moreover have "ms_pending E ms a \<le> ms_pending E ms a + 1"
    using unatSuc [of "ms_pending E ms a"] assms(2) by (simp add: word_le_nat_alt add.commute)
  ultimately have "so_Nonce (sdb_obj E (ms_DB ms) a) \<le> ms_pending E ms a + 1" by (rule order_trans)
  then have "ms_pending E (snd (ms_NewNonce E a ms)) b = ((ms_pending E ms)(a := ms_pending E ms a + 1)) b" for b
    using p(2) t s(4) by (simp add: ms_NewNonce_eq [OF assms(1) g] ms_pending_set max_def del: ms_tracked_upd)
  then show "ms_pending E (snd (ms_NewNonce E a ms)) = (ms_pending E ms)(a := ms_pending E ms a + 1)" by blast
qed

text \<open>Calling \<open>NewNonce\<close> \<open>k\<close> times.\<close>

fun ms_new_nonces ::
    "('d, 'tr, 'v) sdb_env \<Rightarrow> address \<Rightarrow> nat \<Rightarrow> ('d, 'tr, 'v) ManagedState \<Rightarrow>
      u64 list \<times> ('d, 'tr, 'v) ManagedState" where
  "ms_new_nonces E a 0 ms = ([], ms)"
| "ms_new_nonces E a (Suc k) ms =
     (let (n, ms) = ms_NewNonce E a ms; (ns, ms) = ms_new_nonces E a k ms in (n # ns, ms))"

text \<open>(C28) In a reachable managed state, \<open>k\<close> calls of \<open>NewNonce\<close> for an address hand out the
  \<open>k\<close> consecutive nonces that start at the address's current nonce, and leave \<open>GetNonce\<close> at
  the next one; no other address's nonce changes. The nonces must not pass \<open>2^64 - 1\<close>.\<close>

theorem ms_new_nonces_consecutive:
  assumes "account_tries_ok E" and "ms_reachable E ms"
    and "unat (fst (ms_GetNonce E a ms)) + k < 2 ^ 64" and "ms_new_nonces E a k ms = (ns, ms')"
  shows "ns = map (\<lambda>i. fst (ms_GetNonce E a ms) + of_nat i) [0..<k]
    \<and> fst (ms_GetNonce E b ms') = fst (ms_GetNonce E b ms) + (if b = a then of_nat k else 0)"
proof -
  have "ms_inv E ms" using ms_reachable_inv [OF assms(1,2)] .
  moreover from this have "unat (ms_pending E ms a) + k < 2 ^ 64"
    using assms(3) by (simp add: ms_GetNonce_pending)
  ultimately have "ns = map (\<lambda>i. ms_pending E ms a + of_nat i) [0..<k] \<and> ms_inv E ms'
      \<and> ms_pending E ms' b = ms_pending E ms b + (if b = a then of_nat k else 0)"
    using assms(4)
  proof (induction k arbitrary: ms ns)
    case (Suc k)
    let ?p = "ms_pending E ms a"
    obtain n m ns' where n: "ms_NewNonce E a ms = (n, m)" "ms_new_nonces E a k m = (ns', ms')" "ns = n # ns'"
      using Suc.prems(3) by (auto simp: split: prod.splits)
    have u: "unat (?p + 1) = unat ?p + 1"
      using Suc.prems(2) unat_add_lem [of ?p 1] by simp
    then have "?p + 1 \<noteq> 0" by (metis Suc_eq_plus1 nat.distinct(1) unat_0)
    note st = ms_NewNonce_pending [OF Suc.prems(1) this] ms_NewNonce_inv [OF Suc.prems(1), of a]
    have "ns' = map (\<lambda>i. ms_pending E m a + of_nat i) [0..<k] \<and> ms_inv E ms'
        \<and> ms_pending E ms' b = ms_pending E m b + (if b = a then of_nat k else 0)"
      using Suc.IH [OF _ _ n(2)] st n(1) Suc.prems(2) u by simp
    moreover have "map f [0..<Suc k] = f 0 # map (\<lambda>i. f (Suc i)) [0..<k]" for f :: "nat \<Rightarrow> u64"
      by (simp only: upt_conv_Cons zero_less_Suc list.map map_Suc_upt [symmetric] map_map comp_def)
    from this [of "\<lambda>i. ?p + of_nat i"] have
      "map (\<lambda>i. ?p + of_nat i) [0..<Suc k] = ?p # map (\<lambda>i. ?p + 1 + of_nat i) [0..<k]"
      by (simp add: algebra_simps)
    ultimately show ?case using st n by (simp add: algebra_simps del: upt_Suc)
  qed simp
  with assms(1,2) show ?thesis
    by (simp add: ms_GetNonce_pending ms_reachable_inv)
qed

text \<open>\<open>RemoveNonce\<close> of a tracked address in a reachable managed state. For a nonce
  between the start of the tracked list and the current nonce, the current nonce goes back to
  it, but never below the nonce in the account state. Any other nonce, also one below the
  start, for which the subtraction wraps around, changes nothing.\<close>

lemma ms_remove_nonce:
  assumes "account_tries_ok E" and "ms_reachable E ms" and "ms_getAccount E a ms = (acc, ms1)"
    and "ms_hasAccount a ms" and "unat (nstart acc) + length (nonces acc) < 2 ^ 64"
  shows "fst (ms_GetNonce E a (ms_RemoveNonce E a n ms)) =
    (if nstart acc \<le> n \<and> n \<le> fst (ms_GetNonce E a ms)
     then max n (fst (sdb_GetNonce E a (ms_DB ms))) else fst (ms_GetNonce E a ms))"
proof -
  have inv: "ms_inv E ms" using ms_reachable_inv [OF assms(1,2)] .
  note s = ms_getAccount_spec [OF inv assms(3)]
  note p = ms_getAccount_pending [OF inv assms(3)]
  have len: "unat (of_nat (length (nonces acc)) :: u64) = length (nonces acc)"
    using assms(5) by (simp add: unat_of_nat)
  have cut: "n - nstart acc \<le> of_nat (length (nonces acc)) \<longleftrightarrow> nstart acc \<le> n \<and> n \<le> ms_tracked acc"
  proof -
    have "unat (of_nat (length (nonces acc)) + nstart acc) = length (nonces acc) + unat (nstart acc)"
      using len assms(5) unat_add_lem [of "of_nat (length (nonces acc))" "nstart acc"] by simp
    moreover have "unat n < 2 ^ 64" using unsigned_less [of n, where 'a = nat] by simp
    ultimately show ?thesis
      unfolding ms_tracked_def word_le_nat_alt unat_sub_if' len using assms(5) by auto
  qed
  have "length (take (unat (n - nstart acc)) (nonces acc)) = unat (n - nstart acc)"
    if "n - nstart acc \<le> of_nat (length (nonces acc))"
    using that len by (simp add: word_le_nat_alt)
  then have "ms_pending E (ms_RemoveNonce E a n ms) a = (if nstart acc \<le> n \<and> n \<le> ms_tracked acc
      then max n (so_Nonce (sdb_obj E (ms_DB ms) a)) else ms_pending E ms a)"
    using assms(3,4) cut p s(4) by (simp add: ms_RemoveNonce_def Let_def ms_pending_set)
  then show ?thesis
    using ms_GetNonce_pending [OF ms_RemoveNonce_inv [OF inv]] ms_GetNonce_pending [OF inv] p(1)
    by (simp add: sdb_getters_obj)
qed

lemma ms_SetNonce_pending:
  assumes "ms_inv E ms"
  shows "ms_pending E (ms_SetNonce E a n ms) a = n"
    and "so_Nonce (sdb_obj E (ms_DB (ms_SetNonce E a n ms)) a) = n"
proof -
  have inv: "sdb_inv E (ms_DB ms)" using assms by (simp add: ms_inv_def)
  let ?s = "sdb_obj E (ms_DB ms) a"
  obtain m where m: "sdb_GetOrNewStateObject E a (ms_DB ms) = (?s, m)" "sdb_holds E ?s m" "so_address ?s = a"
      "sdb_peek E m = (sdb_peek E (ms_DB ms))(a := Some ?s)"
    using inv by (rule sdb_GetOrNew_cases)
  have "sdb_obj E (so_SetNonce ?s n m) a = so_setNonce n ?s"
    using sdb_write_obj [OF m(2,3,4) so_keeps_writers(2), of n] m(3) by (simp add: so_SetNonce_def)
  then show "so_Nonce (sdb_obj E (ms_DB (ms_SetNonce E a n ms)) a) = n"
      "ms_pending E (ms_SetNonce E a n ms) a = n"
    using m(1) by (simp_all add: ms_SetNonce_def ms_pending_def)
qed

text \<open>\<open>SetNonce\<close> of the managed state is not stopped by the freeze flag: whatever the
  flag, the nonce of the account changes, while \<open>SetNonce\<close> of the account state leaves a
  frozen account alone.\<close>

lemma ms_set_nonce_ignores_freeze:
  assumes "account_tries_ok E" and "ms_reachable E ms" and "fst (sdb_GetFreezeState E a (ms_DB ms))"
  shows "fst (ms_GetNonce E a (ms_SetNonce E a n ms)) = n
    \<and> fst (sdb_GetNonce E a (ms_DB (ms_SetNonce E a n ms))) = n
    \<and> fst (sdb_GetNonce E a (sdb_SetNonce E a n (ms_DB ms))) = fst (sdb_GetNonce E a (ms_DB ms))"
proof -
  have inv: "ms_inv E ms" using ms_reachable_inv [OF assms(1,2)] .
  then have "sdb_inv E (ms_DB ms)" by (simp add: ms_inv_def)
  from sdb_SetNonce_obj [OF this, of a n a] assms(3) ms_SetNonce_pending [OF inv]
    ms_GetNonce_pending [OF ms_SetNonce_inv [OF inv]]
  show ?thesis by (simp add: sdb_getters_obj)
qed

section \<open>A concrete managed state\<close>

definition ms_demo where
  "ms_demo = \<lparr>ms_DB = sdb_demo_frozen, ms_accounts = []\<rparr>"

lemma ms_demo_reachable: "ms_reachable sdb_demo_env ms_demo"
proof -
  have "stateObjectsPending sdb_demo = []" "stateObjectsDirty sdb_demo = []"
    by (simp_all add: sdb_demo_def sdb_New_def sdb_demo_env_def)
  then obtain ms where m: "ManageState sdb_demo_env sdb_demo = Some ms" "ms_accounts ms = []"
    by (auto simp: ManageState_def sdb_Copy_def Let_def)
  from ms_reachable.ms_set_state [OF ms_reachable.ms_manage [OF sdb_demo_reachable m(1)]
      sdb_demo_frozen_reachable] m(2) show ?thesis
    by (cases ms) (simp add: ms_SetState_def ms_demo_def)
qed

lemma ms_demo_nonce: "fst (ms_GetNonce sdb_demo_env 9 ms_demo) = 0"
proof -
  have "fst (sdb_GetNonce sdb_demo_env 9 sdb_demo) = 0"
    by (simp add: sdb_GetNonce_def sdb_getStateObject_def sdb_getDeletedStateObject_def
        sdb_demo_def sdb_New_def sdb_demo_env_def gm_getd_def so_newObject_def so_Nonce_def Let_def)
  then show ?thesis
    by (simp add: ms_GetNonce_def ms_hasAccount_def ms_demo_def sdb_demo_frozen_def sdb_getters_obj
        sdb_SetFreezeState_obj [OF sdb_demo_inv] split: prod.split)
      (metis fst_conv sdb_getters_obj(2) sdb_SetFreezeState_obj [OF sdb_demo_inv] so_setters_sel(9))
qed

theorem ms_new_nonces_consecutive_witness:
  "fst (ms_new_nonces sdb_demo_env 9 3 ms_demo) = [0, 1, 2]"
  using ms_new_nonces_consecutive [OF sdb_demo_tries ms_demo_reachable, of 9 3
      "fst (ms_new_nonces sdb_demo_env 9 3 ms_demo)" "snd (ms_new_nonces sdb_demo_env 9 3 ms_demo)"]
    ms_demo_nonce by (simp add: upt_rec)

lemma ms_set_nonce_ignores_freeze_example:
  "fst (ms_GetNonce sdb_demo_env 9 (ms_SetNonce sdb_demo_env 9 5 ms_demo)) = 5"
  using ms_set_nonce_ignores_freeze [OF sdb_demo_tries ms_demo_reachable, of 9 5] sdb_demo_frozen(1)
  by (simp add: ms_demo_def)

end
