(* ===== verification/Chain_Config.thy ===== *)
theory Chain_Config
  imports Go_Base
begin

text \<open>
  The configuration of a chain, \<open>internal/params/config.go\<close>: from which epoch on a feature is
  active, the networks, and the gas tables of \<open>internal/params/gas_table.go\<close>. The fields are
  pointers to integers in the code and options here.
\<close>

section \<open>Configurations\<close>

record ChainConfig =
  ChainID :: "int option"
  EthCompatibleChainID :: "int option"
  EthCompatibleShard0ChainID :: "int option"
  EthCompatibleEpoch :: "int option"
  CrossTxEpoch :: "int option"
  CrossLinkEpoch :: "int option"
  StakingEpoch :: "int option"
  PreStakingEpoch :: "int option"
  QuickUnlockEpoch :: "int option"
  FiveSecondsEpoch :: "int option"
  TwoSecondsEpoch :: "int option"
  SixtyPercentEpoch :: "int option"
  RedelegationEpoch :: "int option"
  NoEarlyUnlockEpoch :: "int option"
  VRFEpoch :: "int option"
  MinDelegation100Epoch :: "int option"
  MinCommissionRateEpoch :: "int option"
  MinCommissionPromoPeriod :: "int option"
  EPoSBound35Epoch :: "int option"
  EIP155Epoch :: "int option"
  S3Epoch :: "int option"
  IstanbulEpoch :: "int option"
  ReceiptLogEpoch :: "int option"

definition MainnetChainID :: int where "MainnetChainID = 1"

definition TestnetChainID :: int where "TestnetChainID = 2"

definition PangaeaChainID :: int where "PangaeaChainID = 3"

definition PartnerChainID :: int where "PartnerChainID = 4"

definition StressnetChainID :: int where "StressnetChainID = 5"

definition TestChainID :: int where "TestChainID = 99"

definition AllProtocolChangesChainID :: int where "AllProtocolChangesChainID = 100"

definition EthMainnetShard0ChainID :: int where "EthMainnetShard0ChainID = 1666600000"

definition EthTestnetShard0ChainID :: int where "EthTestnetShard0ChainID = 1666700000"

definition EthPangaeaShard0ChainID :: int where "EthPangaeaShard0ChainID = 1666800000"

definition EthPartnerShard0ChainID :: int where "EthPartnerShard0ChainID = 1666900000"

definition EthStressnetShard0ChainID :: int where "EthStressnetShard0ChainID = 1667000000"

definition EthTestShard0ChainID :: int where "EthTestShard0ChainID = 1667100000"

definition EthAllProtocolChangesShard0ChainID :: int where "EthAllProtocolChangesShard0ChainID = 1667200000"

definition EpochTBD :: int where "EpochTBD = 10000000"

definition MainnetChainConfig :: ChainConfig where
  "MainnetChainConfig = \<lparr>ChainID = Some MainnetChainID, EthCompatibleChainID = Some EthMainnetShard0ChainID,
     EthCompatibleShard0ChainID = Some EthMainnetShard0ChainID, EthCompatibleEpoch = Some 442,
     CrossTxEpoch = Some 28, CrossLinkEpoch = Some 186, StakingEpoch = Some 186,
     PreStakingEpoch = Some 185, QuickUnlockEpoch = Some 191, FiveSecondsEpoch = Some 230,
     TwoSecondsEpoch = Some 366, SixtyPercentEpoch = Some 530, RedelegationEpoch = Some 290,
     NoEarlyUnlockEpoch = Some 530, VRFEpoch = Some EpochTBD,
     MinDelegation100Epoch = Some EpochTBD, MinCommissionRateEpoch = Some EpochTBD,
     MinCommissionPromoPeriod = Some 100, EPoSBound35Epoch = Some EpochTBD,
     EIP155Epoch = Some 28, S3Epoch = Some 28, IstanbulEpoch = Some 314,
     ReceiptLogEpoch = Some 101\<rparr>"

definition TestnetChainConfig :: ChainConfig where
  "TestnetChainConfig = \<lparr>ChainID = Some TestnetChainID, EthCompatibleChainID = Some EthTestnetShard0ChainID,
     EthCompatibleShard0ChainID = Some EthTestnetShard0ChainID,
     EthCompatibleEpoch = Some 73290, CrossTxEpoch = Some 0, CrossLinkEpoch = Some 2,
     StakingEpoch = Some 2, PreStakingEpoch = Some 1, QuickUnlockEpoch = Some 0,
     FiveSecondsEpoch = Some 16500, TwoSecondsEpoch = Some 73000,
     SixtyPercentEpoch = Some 73282, RedelegationEpoch = Some 36500,
     NoEarlyUnlockEpoch = Some 73580, VRFEpoch = Some 73880,
     MinDelegation100Epoch = Some 73880, MinCommissionRateEpoch = Some 73880,
     MinCommissionPromoPeriod = Some 10, EPoSBound35Epoch = Some 73880, EIP155Epoch = Some 0,
     S3Epoch = Some 0, IstanbulEpoch = Some 43800, ReceiptLogEpoch = Some 0\<rparr>"

definition PangaeaChainConfig :: ChainConfig where
  "PangaeaChainConfig = \<lparr>ChainID = Some PangaeaChainID, EthCompatibleChainID = Some EthPangaeaShard0ChainID,
     EthCompatibleShard0ChainID = Some EthPangaeaShard0ChainID, EthCompatibleEpoch = Some 0,
     CrossTxEpoch = Some 0, CrossLinkEpoch = Some 2, StakingEpoch = Some 2,
     PreStakingEpoch = Some 1, QuickUnlockEpoch = Some 0, FiveSecondsEpoch = Some 0,
     TwoSecondsEpoch = Some 0, SixtyPercentEpoch = Some 0, RedelegationEpoch = Some 0,
     NoEarlyUnlockEpoch = Some 0, VRFEpoch = Some 0, MinDelegation100Epoch = Some 0,
     MinCommissionRateEpoch = Some 0, MinCommissionPromoPeriod = Some 10,
     EPoSBound35Epoch = Some 0, EIP155Epoch = Some 0, S3Epoch = Some 0,
     IstanbulEpoch = Some 0, ReceiptLogEpoch = Some 0\<rparr>"

definition PartnerChainConfig :: ChainConfig where
  "PartnerChainConfig = \<lparr>ChainID = Some PartnerChainID, EthCompatibleChainID = Some EthPartnerShard0ChainID,
     EthCompatibleShard0ChainID = Some EthPartnerShard0ChainID, EthCompatibleEpoch = Some 0,
     CrossTxEpoch = Some 0, CrossLinkEpoch = Some 2, StakingEpoch = Some 2,
     PreStakingEpoch = Some 1, QuickUnlockEpoch = Some 0, FiveSecondsEpoch = Some 0,
     TwoSecondsEpoch = Some 0, SixtyPercentEpoch = Some 0, RedelegationEpoch = Some 0,
     NoEarlyUnlockEpoch = Some 0, VRFEpoch = Some 0, MinDelegation100Epoch = Some 0,
     MinCommissionRateEpoch = Some 0, MinCommissionPromoPeriod = Some 10,
     EPoSBound35Epoch = Some 0, EIP155Epoch = Some 0, S3Epoch = Some 0,
     IstanbulEpoch = Some 0, ReceiptLogEpoch = Some 0\<rparr>"

definition StressnetChainConfig :: ChainConfig where
  "StressnetChainConfig = \<lparr>ChainID = Some StressnetChainID, EthCompatibleChainID = Some EthStressnetShard0ChainID,
     EthCompatibleShard0ChainID = Some EthStressnetShard0ChainID, EthCompatibleEpoch = Some 0,
     CrossTxEpoch = Some 0, CrossLinkEpoch = Some 2, StakingEpoch = Some 2,
     PreStakingEpoch = Some 1, QuickUnlockEpoch = Some 0, FiveSecondsEpoch = Some 0,
     TwoSecondsEpoch = Some 0, SixtyPercentEpoch = Some 10, RedelegationEpoch = Some 0,
     NoEarlyUnlockEpoch = Some 0, VRFEpoch = Some 0, MinDelegation100Epoch = Some 0,
     MinCommissionRateEpoch = Some 0, MinCommissionPromoPeriod = Some 10,
     EPoSBound35Epoch = Some 0, EIP155Epoch = Some 0, S3Epoch = Some 0,
     IstanbulEpoch = Some 0, ReceiptLogEpoch = Some 0\<rparr>"

definition LocalnetChainConfig :: ChainConfig where
  "LocalnetChainConfig = \<lparr>ChainID = Some TestnetChainID, EthCompatibleChainID = Some EthTestnetShard0ChainID,
     EthCompatibleShard0ChainID = Some EthTestnetShard0ChainID, EthCompatibleEpoch = Some 0,
     CrossTxEpoch = Some (-1), CrossLinkEpoch = Some 2, StakingEpoch = Some 2,
     PreStakingEpoch = Some 0, QuickUnlockEpoch = Some 0, FiveSecondsEpoch = Some 0,
     TwoSecondsEpoch = Some 1, SixtyPercentEpoch = Some EpochTBD, RedelegationEpoch = Some 0,
     NoEarlyUnlockEpoch = Some 0, VRFEpoch = Some 0, MinDelegation100Epoch = Some 0,
     MinCommissionRateEpoch = Some 0, MinCommissionPromoPeriod = Some 10,
     EPoSBound35Epoch = Some 0, EIP155Epoch = Some 0, S3Epoch = Some 0,
     IstanbulEpoch = Some 0, ReceiptLogEpoch = Some 0\<rparr>"

definition AllProtocolChanges :: ChainConfig where
  "AllProtocolChanges = \<lparr>ChainID = Some AllProtocolChangesChainID,
     EthCompatibleChainID = Some EthAllProtocolChangesShard0ChainID,
     EthCompatibleShard0ChainID = Some EthAllProtocolChangesShard0ChainID,
     EthCompatibleEpoch = Some 0, CrossTxEpoch = Some 0, CrossLinkEpoch = Some 0,
     StakingEpoch = Some 0, PreStakingEpoch = Some 0, QuickUnlockEpoch = Some 0,
     FiveSecondsEpoch = Some 0, TwoSecondsEpoch = Some 0, SixtyPercentEpoch = Some 0,
     RedelegationEpoch = Some 0, NoEarlyUnlockEpoch = Some 0, VRFEpoch = Some 0,
     MinDelegation100Epoch = Some 0, MinCommissionRateEpoch = Some 0,
     MinCommissionPromoPeriod = Some 10, EPoSBound35Epoch = Some 0, EIP155Epoch = Some 0,
     S3Epoch = Some 0, IstanbulEpoch = Some 0, ReceiptLogEpoch = Some 0\<rparr>"

definition TestChainConfig :: ChainConfig where
  "TestChainConfig = \<lparr>ChainID = Some TestChainID, EthCompatibleChainID = Some EthTestShard0ChainID,
     EthCompatibleShard0ChainID = Some EthTestShard0ChainID, EthCompatibleEpoch = Some 0,
     CrossTxEpoch = Some 0, CrossLinkEpoch = Some 0, StakingEpoch = Some 0,
     PreStakingEpoch = Some 0, QuickUnlockEpoch = Some 0, FiveSecondsEpoch = Some 0,
     TwoSecondsEpoch = Some 0, SixtyPercentEpoch = Some 0, RedelegationEpoch = Some 0,
     NoEarlyUnlockEpoch = Some 0, VRFEpoch = Some 0, MinDelegation100Epoch = Some 0,
     MinCommissionRateEpoch = Some 0, MinCommissionPromoPeriod = Some 10,
     EPoSBound35Epoch = Some 0, EIP155Epoch = Some 0, S3Epoch = Some 0,
     IstanbulEpoch = Some 0, ReceiptLogEpoch = Some 0\<rparr>"

definition networkConfigs :: "ChainConfig list" where
  "networkConfigs = [MainnetChainConfig, TestnetChainConfig, PangaeaChainConfig, PartnerChainConfig,
     StressnetChainConfig, LocalnetChainConfig, AllProtocolChanges, TestChainConfig]"

text \<open>The Ethereum chain identifiers of the networks are shifted by the shard, once in the life of
  a process. The state is whether that has happened, and the configurations.\<close>

definition UpdateEthChainIDByShard ::
    "u32 \<Rightarrow> bool \<times> ChainConfig list \<Rightarrow> (bool \<times> ChainConfig list) option" where
  "UpdateEthChainIDByShard shardID = (\<lambda>(once, cs).
     if once then Some (once, cs)
     else if \<exists>c\<in>set cs. EthCompatibleChainID c = None then None
     else Some (True, map (EthCompatibleChainID_update (map_option (\<lambda>i. i + uint shardID))) cs))"

section \<open>Active features\<close>

definition isForked :: "int option \<Rightarrow> int option \<Rightarrow> bool" where
  "isForked s epoch = (case (s, epoch) of (Some s, Some e) \<Rightarrow> s \<le> e | _ \<Rightarrow> False)"

definition IsEIP155 :: "ChainConfig \<Rightarrow> int option \<Rightarrow> bool" where
  "IsEIP155 c epoch = isForked (EIP155Epoch c) epoch"

definition HasCrossTxFields :: "ChainConfig \<Rightarrow> int option \<Rightarrow> bool" where
  "HasCrossTxFields c epoch = isForked (CrossTxEpoch c) epoch"

definition IsEthCompatible :: "ChainConfig \<Rightarrow> int option \<Rightarrow> bool" where
  "IsEthCompatible c epoch = isForked (EthCompatibleEpoch c) epoch"

definition IsStaking :: "ChainConfig \<Rightarrow> int option \<Rightarrow> bool" where
  "IsStaking c epoch = isForked (StakingEpoch c) epoch"

definition IsFiveSeconds :: "ChainConfig \<Rightarrow> int option \<Rightarrow> bool" where
  "IsFiveSeconds c epoch = isForked (FiveSecondsEpoch c) epoch"

definition IsTwoSeconds :: "ChainConfig \<Rightarrow> int option \<Rightarrow> bool" where
  "IsTwoSeconds c epoch = isForked (TwoSecondsEpoch c) epoch"

definition IsSixtyPercent :: "ChainConfig \<Rightarrow> int option \<Rightarrow> bool" where
  "IsSixtyPercent c epoch = isForked (SixtyPercentEpoch c) epoch"

definition IsRedelegation :: "ChainConfig \<Rightarrow> int option \<Rightarrow> bool" where
  "IsRedelegation c epoch = isForked (RedelegationEpoch c) epoch"

definition IsNoEarlyUnlock :: "ChainConfig \<Rightarrow> int option \<Rightarrow> bool" where
  "IsNoEarlyUnlock c epoch = isForked (NoEarlyUnlockEpoch c) epoch"

definition IsVRF :: "ChainConfig \<Rightarrow> int option \<Rightarrow> bool" where
  "IsVRF c epoch = isForked (VRFEpoch c) epoch"

definition IsMinDelegation100 :: "ChainConfig \<Rightarrow> int option \<Rightarrow> bool" where
  "IsMinDelegation100 c epoch = isForked (MinDelegation100Epoch c) epoch"

definition IsMinCommissionRate :: "ChainConfig \<Rightarrow> int option \<Rightarrow> bool" where
  "IsMinCommissionRate c epoch = isForked (MinCommissionRateEpoch c) epoch"

definition IsEPoSBound35 :: "ChainConfig \<Rightarrow> int option \<Rightarrow> bool" where
  "IsEPoSBound35 c epoch = isForked (EPoSBound35Epoch c) epoch"

definition IsPreStaking :: "ChainConfig \<Rightarrow> int option \<Rightarrow> bool" where
  "IsPreStaking c epoch = isForked (PreStakingEpoch c) epoch"

definition IsQuickUnlock :: "ChainConfig \<Rightarrow> int option \<Rightarrow> bool" where
  "IsQuickUnlock c epoch = isForked (QuickUnlockEpoch c) epoch"

definition IsCrossLink :: "ChainConfig \<Rightarrow> int option \<Rightarrow> bool" where
  "IsCrossLink c epoch = isForked (CrossLinkEpoch c) epoch"

definition IsS3 :: "ChainConfig \<Rightarrow> int option \<Rightarrow> bool" where
  "IsS3 c epoch = isForked (S3Epoch c) epoch"

definition IsIstanbul :: "ChainConfig \<Rightarrow> int option \<Rightarrow> bool" where
  "IsIstanbul c epoch = isForked (IstanbulEpoch c) epoch"

definition IsReceiptLog :: "ChainConfig \<Rightarrow> int option \<Rightarrow> bool" where
  "IsReceiptLog c epoch = isForked (ReceiptLogEpoch c) epoch"

text \<open>\<open>AcceptsCrossTx\<close> adds one to \<open>CrossTxEpoch\<close>, which panics when that is nil.\<close>

definition AcceptsCrossTx :: "ChainConfig \<Rightarrow> int option \<Rightarrow> bool option" where
  "AcceptsCrossTx c epoch = map_option (\<lambda>e. isForked (Some (e + 1)) epoch) (CrossTxEpoch c)"

definition IsEthCompatible_chain :: "int option \<Rightarrow> bool option" where
  "IsEthCompatible_chain chainID = map_option (\<lambda>i. EthMainnetShard0ChainID \<le> i) chainID"

record Rules =
  rl_ChainID :: int
  rl_EthChainID :: int
  rl_IsCrossLink :: bool
  rl_IsEIP155 :: bool
  rl_IsS3 :: bool
  rl_IsReceiptLog :: bool
  rl_IsIstanbul :: bool
  rl_IsVRF :: bool

definition cc_Rules :: "ChainConfig \<Rightarrow> int option \<Rightarrow> Rules" where
  "cc_Rules c epoch =
     (let chainID = (case ChainID c of None \<Rightarrow> 0 | Some i \<Rightarrow> i);
          ethChainID = (case EthCompatibleChainID c of None \<Rightarrow> 0 | Some i \<Rightarrow> i)
      in \<lparr>rl_ChainID = chainID, rl_EthChainID = ethChainID, rl_IsCrossLink = IsCrossLink c epoch,
          rl_IsEIP155 = IsEIP155 c epoch, rl_IsS3 = IsS3 c epoch, rl_IsReceiptLog = IsReceiptLog c epoch,
          rl_IsIstanbul = IsIstanbul c epoch, rl_IsVRF = IsVRF c epoch\<rparr>)"

record GasTable =
  ExtcodeSize :: u64
  ExtcodeCopy :: u64
  ExtcodeHash :: u64
  gt_Balance :: u64
  SLoad :: u64
  Calls :: u64
  gt_Suicide :: u64
  ExpByte :: u64
  CreateBySuicide :: u64

definition GasTableR3 :: GasTable where
  "GasTableR3 = \<lparr>ExtcodeSize = 20, ExtcodeCopy = 20, ExtcodeHash = 0, gt_Balance = 20, SLoad = 50,
     Calls = 40, gt_Suicide = 0, ExpByte = 10, CreateBySuicide = 0\<rparr>"

definition GasTableS3 :: GasTable where
  "GasTableS3 = \<lparr>ExtcodeSize = 700, ExtcodeCopy = 700, ExtcodeHash = 400, gt_Balance = 400, SLoad = 200,
     Calls = 700, gt_Suicide = 5000, ExpByte = 50, CreateBySuicide = 25000\<rparr>"

definition cc_GasTable :: "ChainConfig \<Rightarrow> int option \<Rightarrow> GasTable" where
  "cc_GasTable c epoch =
     (if epoch = None then GasTableR3 else if IsS3 c epoch then GasTableS3 else GasTableR3)"

section \<open>Facts\<close>

lemmas fork_defs = IsEIP155_def HasCrossTxFields_def IsEthCompatible_def IsStaking_def IsFiveSeconds_def
  IsTwoSeconds_def IsSixtyPercent_def IsRedelegation_def IsNoEarlyUnlock_def IsVRF_def IsMinDelegation100_def
  IsMinCommissionRate_def IsEPoSBound35_def IsPreStaking_def IsQuickUnlock_def IsCrossLink_def IsS3_def
  IsIstanbul_def IsReceiptLog_def

lemmas network_defs = MainnetChainConfig_def TestnetChainConfig_def PangaeaChainConfig_def PartnerChainConfig_def
  StressnetChainConfig_def LocalnetChainConfig_def AllProtocolChanges_def TestChainConfig_def EpochTBD_def

lemma isForked_simps [simp]:
  "isForked None e = False" "isForked s None = False" "isForked (Some x) (Some y) = (x \<le> y)"
  by (simp_all add: isForked_def split: option.split)

lemma isForked_mono: "isForked s (Some e) \<Longrightarrow> e \<le> e' \<Longrightarrow> isForked s (Some e')"
  by (cases s) auto

lemma isForked_le: "isForked (Some t) epoch \<Longrightarrow> s \<le> t \<Longrightarrow> isForked (Some s) epoch"
  by (cases epoch) auto

text \<open>In each of the networks the features that build on others come after them.\<close>

definition forks_nested :: "ChainConfig \<Rightarrow> int option \<Rightarrow> bool" where
  "forks_nested c epoch \<longleftrightarrow>
     (IsStaking c epoch \<longrightarrow> IsPreStaking c epoch \<and> IsCrossLink c epoch)
   \<and> (IsTwoSeconds c epoch \<longrightarrow> IsFiveSeconds c epoch)
   \<and> (IsNoEarlyUnlock c epoch \<longrightarrow> IsRedelegation c epoch)
   \<and> (IsRedelegation c epoch \<longrightarrow> IsQuickUnlock c epoch)
   \<and> (IsIstanbul c epoch \<longrightarrow> IsS3 c epoch \<and> IsEIP155 c epoch)
   \<and> (AcceptsCrossTx c epoch = Some True \<longrightarrow> HasCrossTxFields c epoch)"

text \<open>In every network and at every epoch the active features are closed under what they
  need: staking comes with staking transactions and cross links, two-second blocks with the
  five-second reward rules, the ban of early unlocks with redelegation, redelegation with quick
  unlock, Istanbul with S3 and replay protection, and cross-shard transactions are accepted only
  in blocks that have the fields for them. A feature that is active stays active.\<close>

lemma network_forks_nested:
  assumes "c \<in> set networkConfigs"
  shows "forks_nested c epoch
       \<and> (IsStaking c (Some e) \<longrightarrow> IsStaking c (Some (e + int n)))
       \<and> (IsS3 c (Some e) \<longrightarrow> IsS3 c (Some (e + int n)))
       \<and> (IsRedelegation c (Some e) \<longrightarrow> IsRedelegation c (Some (e + int n)))"
proof -
  have "forks_nested c epoch"
    using assms by (cases epoch) (auto simp: networkConfigs_def network_defs forks_nested_def fork_defs AcceptsCrossTx_def)
  then show ?thesis
    by (auto simp: fork_defs intro: isForked_mono)
qed

lemma network_forks_nested_example:
  "forks_nested MainnetChainConfig (Some 300) \<and> IsRedelegation MainnetChainConfig (Some (290 + int 10))"
  using network_forks_nested [of MainnetChainConfig "Some 300" 290 10]
  by (simp add: networkConfigs_def fork_defs network_defs)

end
