(* ===== verification/Transfer_Tx.thy ===== *)
theory Transfer_Tx
  imports Load_Map_Props State_DB_Props
begin

text \<open>
  State transfer transactions (\<open>atomic/types/atomic_transaction.go\<close>), the cache of
  transactions by index (\<open>atomic/types/commit_cache.go\<close>), the coordinator's cache of messages
  (\<open>atomic/coordinatorCache.go\<close>), and the list of transactions in a block body
  (\<open>core/types/bodyv2.go\<close>).

  RLP and Keccak are parameters. Transactions are values: a method that fills the cached hash
  or size of its receiver returns the changed transaction. The mutexes of the caches have no
  counterpart, each method being one step.
\<close>

section \<open>Transactions\<close>

record state =
  stt_Address :: address
  stt_Balance :: "int option"
  stt_Nonce :: u64
  stt_Data :: "bytes"

record stateProof =
  stp_BlockHeight :: u64
  stp_RootHash :: hash
  stp_Proof :: "bytes option"

record StateData =
  std_State :: state
  std_StateProof :: stateProof

record txdata =
  td_SourceShardID :: u32
  td_TargetShardID :: u32
  td_SourceHeight :: u64
  td_Address :: address
  td_Balance :: "int option"
  td_Nonce :: u64
  td_Data :: "bytes"
  td_ToFreeze :: bool
  td_Hash :: "hash option"
  td_Index :: u64

record StateTransferTransaction =
  tx_data :: txdata
  tx_hash :: "hash option"
  tx_size :: "nat option"

text \<open>The encodings: of a transaction's data and of the state data that the two phases carry. A
  transaction's data is decoded into the receiver's, and \<open>KindSize\<close> is the size that the stream
  reports for the list it holds, \<open>ListSize\<close> the full size of a list whose content has a given
  size. State data is decoded into a zero value, and what was decoded is used even after an
  error.\<close>

record tx_env =
  EncodeTxData :: "txdata \<Rightarrow> bytes"
  DecodeTxData :: "bytes \<Rightarrow> txdata \<Rightarrow> error option \<times> txdata"
  KindSize :: "bytes \<Rightarrow> u64"
  ListSize :: "u64 \<Rightarrow> u64"
  EncodeStateData :: "StateData \<Rightarrow> bytes"
  DecodeStateData :: "bytes \<Rightarrow> error option \<times> StateData"
  Keccak256 :: "bytes \<Rightarrow> hash"

text \<open>Words as big-endian bytes: \<open>word_bytes n\<close> is the slice of the \<open>n\<close> bytes of a word.\<close>

definition word_bytes :: "nat \<Rightarrow> 'a::len word \<Rightarrow> bytes" where
  "word_bytes n w = map (\<lambda>i. ucast (drop_bit (8 * i) w)) (rev [0..<n])"

lemma length_word_bytes [simp]: "length (word_bytes n w) = n"
  by (simp add: word_bytes_def)

lemma word_rcat_bytes:
  assumes "LENGTH('a::len) \<le> 8 * n"
  shows "word_rcat (word_bytes n (w :: 'a word)) = w"
proof (rule bit_word_eqI)
  fix k assume k: "k < LENGTH('a)"
  then have d: "k div 8 < n" using assms by (simp add: less_mult_imp_div_less mult.commute)
  have "bit (word_rcat (word_bytes n w) :: 'a word) k = bit (rev (word_bytes n w) ! (k div 8)) (k mod 8)"
    using k d by (simp add: word_rcat_def bit_word_of_int_iff
        bit_horner_sum_uint_exp_iff [where 'a = 8, simplified])
  also have "\<dots> = bit w k"
    using k d by (simp add: word_bytes_def rev_map bit_ucast_iff bit_drop_bit_eq)
  finally show "bit (word_rcat (word_bytes n w) :: 'a word) k = bit w k" .
qed

definition BytesToAddress :: "bytes \<Rightarrow> address" where
  "BytesToAddress b = word_rcat (drop (length b - 20) b)"

lemma BytesToAddress_bytes [simp]: "BytesToAddress (word_bytes 20 (a :: address)) = a"
  by (simp add: BytesToAddress_def word_rcat_bytes)

definition NewStateTransferTransaction ::
    "u32 \<Rightarrow> u32 \<Rightarrow> u64 \<Rightarrow> address \<Rightarrow> int option \<Rightarrow> u64 \<Rightarrow> bytes \<Rightarrow> bool \<Rightarrow> u64 \<Rightarrow>
      StateTransferTransaction" where
  "NewStateTransferTransaction source target height address balance nonce data toFreeze index =
     \<lparr>tx_data = \<lparr>td_SourceShardID = source, td_TargetShardID = target, td_SourceHeight = height,
        td_Address = address, td_Balance = balance, td_Nonce = nonce, td_Data = data,
        td_ToFreeze = toFreeze, td_Hash = None, td_Index = index\<rparr>,
      tx_hash = None, tx_size = None\<rparr>"

definition NewStateData ::
    "address \<Rightarrow> int option \<Rightarrow> u64 \<Rightarrow> bytes \<Rightarrow> u64 \<Rightarrow> hash \<Rightarrow> bytes \<Rightarrow> StateData" where
  "NewStateData addr balance nonce data bh roothash proof =
     \<lparr>std_State = \<lparr>stt_Address = addr, stt_Balance = balance, stt_Nonce = nonce, stt_Data = data\<rparr>,
      std_StateProof = \<lparr>stp_BlockHeight = bh, stp_RootHash = roothash, stp_Proof = Some proof\<rparr>\<rparr>"

text \<open>The zero values \<open>txdata{}\<close> and \<open>StateData{}\<close>.\<close>

definition zero_txdata :: txdata where
  "zero_txdata = \<lparr>td_SourceShardID = 0, td_TargetShardID = 0, td_SourceHeight = 0, td_Address = 0,
     td_Balance = None, td_Nonce = 0, td_Data = [], td_ToFreeze = False, td_Hash = None, td_Index = 0\<rparr>"

definition zero_StateData :: StateData where
  "zero_StateData =
     \<lparr>std_State = \<lparr>stt_Address = 0, stt_Balance = None, stt_Nonce = 0, stt_Data = []\<rparr>,
      std_StateProof = \<lparr>stp_BlockHeight = 0, stp_RootHash = 0, stp_Proof = None\<rparr>\<rparr>"

definition copyHash :: "hash option \<Rightarrow> hash option" where
  "copyHash h = (case h of None \<Rightarrow> None | Some h \<Rightarrow> Some h)"

definition copyBigInt :: "int option \<Rightarrow> int option" where
  "copyBigInt num = (case num of None \<Rightarrow> None | Some n \<Rightarrow> Some n)"

definition copyState :: "state \<Rightarrow> state" where
  "copyState s = \<lparr>stt_Address = stt_Address s, stt_Balance = copyBigInt (stt_Balance s),
     stt_Nonce = stt_Nonce s, stt_Data = stt_Data s\<rparr>"

text \<open>\<open>CopyFrom\<close> assigns every field but the balance, which keeps the receiver's value.\<close>

definition td_CopyFrom :: "txdata \<Rightarrow> txdata \<Rightarrow> txdata" where
  "td_CopyFrom d2 d =
     d\<lparr>td_SourceShardID := td_SourceShardID d2, td_TargetShardID := td_TargetShardID d2,
       td_SourceHeight := td_SourceHeight d2, td_Address := td_Address d2, td_Nonce := td_Nonce d2,
       td_Data := td_Data d2, td_ToFreeze := td_ToFreeze d2, td_Hash := copyHash (td_Hash d2),
       td_Index := td_Index d2\<rparr>"

definition sttx_Copy :: "StateTransferTransaction option \<Rightarrow> StateTransferTransaction option" where
  "sttx_Copy s = (case s of
      None \<Rightarrow> None
    | Some s \<Rightarrow> Some \<lparr>tx_data = td_CopyFrom (tx_data s) zero_txdata, tx_hash = None, tx_size = None\<rparr>)"

definition sttx_EncodeRLP :: "tx_env \<Rightarrow> StateTransferTransaction \<Rightarrow> bytes" where
  "sttx_EncodeRLP T tx = EncodeTxData T (tx_data tx)"

text \<open>\<open>DecodeRLP\<close> on a stream. After an error the receiver's data is what was decoded until then.\<close>

definition sttx_DecodeRLP ::
    "tx_env \<Rightarrow> bytes \<Rightarrow> StateTransferTransaction \<Rightarrow> error option \<times> StateTransferTransaction" where
  "sttx_DecodeRLP T b tx =
     (let size = KindSize T b; (err, d) = DecodeTxData T b (tx_data tx); tx = tx\<lparr>tx_data := d\<rparr>
      in (err, if err = None then tx\<lparr>tx_size := Some (unat (ListSize T size))\<rparr> else tx))"

definition sttx_Hash :: "tx_env \<Rightarrow> StateTransferTransaction \<Rightarrow> hash \<times> StateTransferTransaction" where
  "sttx_Hash T tx =
     (case tx_hash tx of
        Some h \<Rightarrow> (h, tx)
      | None \<Rightarrow> let v = Keccak256 T (sttx_EncodeRLP T tx) in (v, tx\<lparr>tx_hash := Some v\<rparr>))"

definition sttx_Size :: "tx_env \<Rightarrow> StateTransferTransaction \<Rightarrow> nat \<times> StateTransferTransaction" where
  "sttx_Size T tx =
     (case tx_size tx of
        Some n \<Rightarrow> (n, tx)
      | None \<Rightarrow> let c = length (EncodeTxData T (tx_data tx)) in (c, tx\<lparr>tx_size := Some c\<rparr>))"

definition sttx_SetToFreeze :: "bool \<Rightarrow> StateTransferTransaction \<Rightarrow> StateTransferTransaction" where
  "sttx_SetToFreeze label tx = tx\<lparr>tx_data := (tx_data tx)\<lparr>td_ToFreeze := label\<rparr>\<rparr>"

definition sttx_SetState ::
    "address \<Rightarrow> int option \<Rightarrow> u64 \<Rightarrow> bytes \<Rightarrow> StateTransferTransaction \<Rightarrow> StateTransferTransaction" where
  "sttx_SetState address balance nonce data tx =
     tx\<lparr>tx_data := (tx_data tx)\<lparr>td_Address := address, td_Balance := balance, td_Nonce := nonce,
        td_Data := data\<rparr>\<rparr>"

text \<open>The getters.\<close>

definition sttx_SourceShardID where "sttx_SourceShardID tx = td_SourceShardID (tx_data tx)"
definition sttx_TargetShardID where "sttx_TargetShardID tx = td_TargetShardID (tx_data tx)"
definition sttx_ToFreeze where "sttx_ToFreeze tx = td_ToFreeze (tx_data tx)"
definition sttx_Index where "sttx_Index tx = td_Index (tx_data tx)"
definition sttx_Address where "sttx_Address tx = td_Address (tx_data tx)"
definition sttx_Nonce where "sttx_Nonce tx = td_Nonce (tx_data tx)"
definition sttx_Balance where "sttx_Balance tx = td_Balance (tx_data tx)"

lemmas sttx_getters = sttx_SourceShardID_def sttx_TargetShardID_def sttx_ToFreeze_def
  sttx_Index_def sttx_Address_def sttx_Nonce_def sttx_Balance_def

subsection \<open>Lists of transactions\<close>

text \<open>Elements are pointers, \<open>None\<close> for nil. Indexing panics out of range, and so does reading
  a field of a nil element.\<close>

type_synonym sttxs = "StateTransferTransaction option list"

definition sttxs_Copy :: "sttxs \<Rightarrow> sttxs" where
  "sttxs_Copy ss = map sttx_Copy ss"

definition sttxs_at :: "sttxs \<Rightarrow> int \<Rightarrow> StateTransferTransaction option" where
  "sttxs_at ss i = (if 0 \<le> i \<and> i < int (length ss) then ss ! nat i else None)"

definition sttxs_TargetShardID :: "sttxs \<Rightarrow> int \<Rightarrow> u32 option" where
  "sttxs_TargetShardID ss i =
     (if ss = [] then Some IniShardID else map_option sttx_TargetShardID (sttxs_at ss i))"

definition sttxs_SourceShardID :: "sttxs \<Rightarrow> int \<Rightarrow> u32 option" where
  "sttxs_SourceShardID ss i =
     (if ss = [] then Some IniShardID else map_option sttx_SourceShardID (sttxs_at ss i))"

text \<open>The list in a block body; both the setter and the getter make deep copies.\<close>

record BodyV2 =
  body_StateTransferTransactions :: sttxs

definition body_SetStateTransferTransactions :: "sttxs \<Rightarrow> BodyV2 \<Rightarrow> BodyV2" where
  "body_SetStateTransferTransactions new b = b\<lparr>body_StateTransferTransactions := map sttx_Copy new\<rparr>"

definition body_StateTransferTransactions_get :: "BodyV2 \<Rightarrow> sttxs" where
  "body_StateTransferTransactions_get b = map sttx_Copy (body_StateTransferTransactions b)"

section \<open>Caches\<close>

text \<open>A cache of values by index: what its clients rely on.\<close>

locale index_cache =
  fixes get :: "'c \<Rightarrow> 'k \<Rightarrow> 'v option"
    and put :: "'k \<Rightarrow> 'v \<Rightarrow> 'c \<Rightarrow> 'c"
    and del :: "'k \<Rightarrow> 'c \<Rightarrow> 'c"
    and new :: "'c"
  assumes get_new: "get new k = None"
    and get_put: "get (put k v c) k' = (if k' = k then Some v else get c k')"
    and get_del: "get (del k c) k' = (if k' = k then None else get c k')"
begin

text \<open>Deleting an entry that was just added restores the cache.\<close>

lemma put_del: "get c k = None \<Longrightarrow> get (del k (put k v c)) = get c"
  by (auto simp: get_put get_del)

text \<open>The idiom \<open>if _, ok := c.Get(k); !ok { c.Set(k, v) }\<close> keeps the first value.\<close>

lemma put_absent:
  "get (if get c k = None then put k v c else c) k' =
    (if k' = k \<and> get c k = None then Some v else get c k')"
  by (simp add: get_put)

lemma put_absent_first:
  "get (fold (\<lambda>v c. if get c k = None then put k v c else c) vs c) k =
    (case get c k of Some v \<Rightarrow> Some v | None \<Rightarrow> (case vs of [] \<Rightarrow> None | v # _ \<Rightarrow> Some v))"
proof -
  have "get c k = Some w \<Longrightarrow> get (fold (\<lambda>v c. if get c k = None then put k v c else c) us c) k = Some w" for us c w
    by (induction us arbitrary: c) auto
  then show ?thesis by (cases vs; cases "get c k") (auto simp: get_put)
qed

lemma puts: "get (fold (\<lambda>(k, v). put k v) kvs c) k = (case map_of (rev kvs) k of Some v \<Rightarrow> Some v | None \<Rightarrow> get c k)"
  by (induction kvs rule: rev_induct) (auto simp: get_put split: option.split)

end

record CacheShard =
  cs_store :: "(u64, StateTransferTransaction) gomap"

definition NewCache :: CacheShard where
  "NewCache = \<lparr>cs_store = []\<rparr>"

definition cs_Set :: "u64 \<Rightarrow> StateTransferTransaction \<Rightarrow> CacheShard \<Rightarrow> CacheShard" where
  "cs_Set index tx c = c\<lparr>cs_store := gm_set index tx (cs_store c)\<rparr>"

definition cs_Get :: "CacheShard \<Rightarrow> u64 \<Rightarrow> StateTransferTransaction option" where
  "cs_Get c index = gm_get (cs_store c) index"

definition cs_Delete :: "u64 \<Rightarrow> CacheShard \<Rightarrow> CacheShard" where
  "cs_Delete index c = c\<lparr>cs_store := gm_del index (cs_store c)\<rparr>"

text \<open>\<open>Range\<close> with a callback that also updates a state \<open>'s\<close> of the caller.\<close>

fun cs_range_loop :: "(u64 \<Rightarrow> StateTransferTransaction \<Rightarrow> 's \<Rightarrow> bool \<times> 's) \<Rightarrow>
    (u64 \<times> StateTransferTransaction) list \<Rightarrow> 's \<Rightarrow> 's" where
  "cs_range_loop f [] s = s"
| "cs_range_loop f ((k, v) # kvs) s =
     (let (continue, s) = f k v s in if \<not> continue then s else cs_range_loop f kvs s)"

definition cs_Range :: "(u64 \<Rightarrow> StateTransferTransaction \<Rightarrow> 's \<Rightarrow> bool \<times> 's) \<Rightarrow> CacheShard \<Rightarrow> 's \<Rightarrow> 's" where
  "cs_Range f c s = cs_range_loop f (cs_store c) s"

definition cs_GetStore :: "CacheShard \<Rightarrow> (u64, StateTransferTransaction) gomap" where
  "cs_GetStore c = cs_store c"

definition cs_Count :: "CacheShard \<Rightarrow> nat" where
  "cs_Count c = length (cs_store c)"

record Cache =
  cc_store :: "(u64, bytes) gomap"

definition NewCoorCache :: Cache where
  "NewCoorCache = \<lparr>cc_store = []\<rparr>"

definition cc_Set :: "u64 \<Rightarrow> bytes \<Rightarrow> Cache \<Rightarrow> Cache" where
  "cc_Set index v c = c\<lparr>cc_store := gm_set index v (cc_store c)\<rparr>"

definition cc_Get :: "Cache \<Rightarrow> u64 \<Rightarrow> bytes option" where
  "cc_Get c index = gm_get (cc_store c) index"

definition cc_Delete :: "u64 \<Rightarrow> Cache \<Rightarrow> Cache" where
  "cc_Delete index c = c\<lparr>cc_store := gm_del index (cc_store c)\<rparr>"

interpretation sttx_cache: index_cache cs_Get cs_Set cs_Delete NewCache
  by unfold_locales (simp_all add: cs_Get_def cs_Set_def cs_Delete_def NewCache_def)

interpretation coor_cache: index_cache cc_Get cc_Set cc_Delete NewCoorCache
  by unfold_locales (simp_all add: cc_Get_def cc_Set_def cc_Delete_def NewCoorCache_def)

text \<open>The cache's list holds every index once; \<open>Set\<close> and \<open>Delete\<close> keep that.\<close>

definition cs_ok :: "CacheShard \<Rightarrow> bool" where
  "cs_ok c \<longleftrightarrow> distinct (gm_keys (cs_store c))"

lemma cs_ok_ops [simp]: "cs_ok NewCache" "cs_ok c \<Longrightarrow> cs_ok (cs_Set i tx c)" "cs_ok c \<Longrightarrow> cs_ok (cs_Delete i c)"
  by (simp_all add: cs_ok_def NewCache_def cs_Set_def cs_Delete_def distinct_update distinct_delete)

lemma cs_Count_card: "cs_ok c \<Longrightarrow> cs_Count c = card {i. cs_Get c i \<noteq> None}"
proof -
  assume ok: "cs_ok c"
  have "{i. cs_Get c i \<noteq> None} = set (gm_keys (cs_store c))"
    using gm_keys_iff [of _ "cs_store c"] unfolding cs_Get_def by blast
  then show ?thesis
    using distinct_card [of "gm_keys (cs_store c)"] ok unfolding cs_Count_def cs_ok_def by simp
qed

section \<open>Round trips and copies\<close>

text \<open>What the code relies on of RLP: decoding an encoded transaction gives its data back,
  without the field \<open>Hash\<close>, which is tagged \<open>rlp:"-"\<close>, and with a nil balance read as zero;
  decoding encoded state data gives the state part back, with the same reading of nil. RLP has
  no negative integers, so nothing is said of negative balances.\<close>

definition nonneg_balance :: "int option \<Rightarrow> bool" where
  "nonneg_balance b = (case b of None \<Rightarrow> True | Some n \<Rightarrow> 0 \<le> n)"

definition td_wire :: "txdata \<Rightarrow> txdata" where
  "td_wire d = d\<lparr>td_Balance := Some (case td_Balance d of None \<Rightarrow> 0 | Some b \<Rightarrow> b), td_Hash := None\<rparr>"

definition state_wire :: "state \<Rightarrow> state" where
  "state_wire s = s\<lparr>stt_Balance := Some (case stt_Balance s of None \<Rightarrow> 0 | Some b \<Rightarrow> b)\<rparr>"

definition rlp_codes :: "tx_env \<Rightarrow> bool" where
  "rlp_codes T \<longleftrightarrow>
     (\<forall>d. nonneg_balance (td_Balance d) \<longrightarrow>
        (\<forall>d'. DecodeTxData T (EncodeTxData T d) d' = (None, (td_wire d)\<lparr>td_Hash := td_Hash d'\<rparr>))
        \<and> EncodeTxData T (td_wire d) = EncodeTxData T d
        \<and> (length (EncodeTxData T d) < 2 ^ 64 \<longrightarrow>
             unat (ListSize T (KindSize T (EncodeTxData T d))) = length (EncodeTxData T d)))
   \<and> (\<forall>sd. nonneg_balance (stt_Balance (std_State sd)) \<longrightarrow> EncodeStateData T sd \<noteq> [] \<and>
        (\<exists>sd'. DecodeStateData T (EncodeStateData T sd) = (None, sd') \<and> std_State sd' = state_wire (std_State sd)
        \<and> stp_BlockHeight (std_StateProof sd') = stp_BlockHeight (std_StateProof sd)))"

text \<open>A state transfer transaction sent over the wire: decoding the encoding of a
  transaction without a negative balance into a fresh one succeeds, gives every field of the data back (with a nil
  balance read as zero and without the JSON-only hash), has the same hash as the original,
  and records as its size the length of the encoding, which is also the original's size.\<close>

lemma sttx_rlp_roundtrip:
  assumes "rlp_codes T" and "nonneg_balance (sttx_Balance tx)" and "tx_hash tx = None" and "tx_size tx = None"
    and "sttx_DecodeRLP T (sttx_EncodeRLP T tx) \<lparr>tx_data = zero_txdata, tx_hash = None, tx_size = None\<rparr> = (err, tx')"
    and "length (sttx_EncodeRLP T tx) < 2 ^ 64"
  shows "err = None \<and> tx_data tx' = td_wire (tx_data tx)
    \<and> fst (sttx_Hash T tx') = fst (sttx_Hash T tx) \<and> fst (sttx_Size T tx') = fst (sttx_Size T tx)"
  using assms
  by (auto simp: rlp_codes_def sttx_getters sttx_DecodeRLP_def sttx_EncodeRLP_def sttx_Hash_def sttx_Size_def
      td_wire_def zero_txdata_def Let_def)

text \<open>Storing transactions in a block body and reading them back: every field of every
  transaction survives except the balance, which is nil afterwards whatever it was, so a block
  read from the database does not say how much was migrated.\<close>

lemma body_loses_balance:
  "body_StateTransferTransactions_get (body_SetStateTransferTransactions (map Some ss) b) =
    map (\<lambda>s. Some \<lparr>tx_data = (tx_data s)\<lparr>td_Balance := None\<rparr>, tx_hash = None, tx_size = None\<rparr>) ss"
  by (auto simp: body_StateTransferTransactions_get_def body_SetStateTransferTransactions_def
      sttx_Copy_def td_CopyFrom_def zero_txdata_def copyHash_def split: option.split)

section \<open>A concrete codec\<close>

text \<open>A codec with the behaviour that the code relies on of RLP: words as fixed numbers of
  bytes, an integer as its sign and its size in unary, the data last.\<close>

definition demo_int :: "int option \<Rightarrow> bytes" where
  "demo_int b = (let n = (case b of None \<Rightarrow> 0 | Some n \<Rightarrow> n) in
     (if n < 0 then 1 else 0) # replicate (nat \<bar>n\<bar>) 1 @ [0])"

definition demo_uint :: "bytes \<Rightarrow> int \<times> bytes" where
  "demo_uint b = (let n = int (length (takeWhile (\<lambda>x. x = 1) (tl b))) in
     (if hd b = 1 then - n else n, tl (dropWhile (\<lambda>x. x = 1) (tl b))))"

lemma demo_uint_int [simp]: "demo_uint (demo_int b @ r) = ((case b of None \<Rightarrow> 0 | Some n \<Rightarrow> n), r)"
proof -
  have "takeWhile (\<lambda>x. x = 1) (replicate k (1 :: u8) @ 0 # r) = replicate k 1"
    "dropWhile (\<lambda>x. x = 1) (replicate k (1 :: u8) @ 0 # r) = 0 # r" for k
    by (induction k) simp_all
  then show ?thesis by (auto simp: demo_uint_def demo_int_def Let_def split: option.split)
qed

definition demo_encode :: "txdata \<Rightarrow> bytes" where
  "demo_encode d = word_bytes 4 (td_SourceShardID d) @ word_bytes 4 (td_TargetShardID d)
     @ word_bytes 8 (td_SourceHeight d) @ word_bytes 20 (td_Address d) @ word_bytes 8 (td_Nonce d)
     @ word_bytes 8 (td_Index d) @ (if td_ToFreeze d then 1 else 0) # demo_int (td_Balance d) @ td_Data d"

definition demo_decode :: "bytes \<Rightarrow> txdata \<Rightarrow> error option \<times> txdata" where
  "demo_decode b d = (let (n, data) = demo_uint (drop 53 b) in
     (None, \<lparr>td_SourceShardID = word_rcat (take 4 b), td_TargetShardID = word_rcat (take 4 (drop 4 b)),
       td_SourceHeight = word_rcat (take 8 (drop 8 b)), td_Address = word_rcat (take 20 (drop 16 b)),
       td_Balance = Some n, td_Nonce = word_rcat (take 8 (drop 36 b)), td_Data = data,
       td_ToFreeze = (b ! 52 = 1), td_Hash = td_Hash d, td_Index = word_rcat (take 8 (drop 44 b))\<rparr>))"

definition demo_encode_state :: "StateData \<Rightarrow> bytes" where
  "demo_encode_state sd = word_bytes 20 (stt_Address (std_State sd)) @ word_bytes 8 (stt_Nonce (std_State sd))
     @ word_bytes 8 (stp_BlockHeight (std_StateProof sd)) @ demo_int (stt_Balance (std_State sd))
     @ stt_Data (std_State sd)"

definition demo_decode_state :: "bytes \<Rightarrow> error option \<times> StateData" where
  "demo_decode_state b = (if b = [] then (Some ''EOF'', zero_StateData) else let (n, data) = demo_uint (drop 36 b) in
     (None, \<lparr>std_State = \<lparr>stt_Address = word_rcat (take 20 b), stt_Balance = Some n,
         stt_Nonce = word_rcat (take 8 (drop 20 b)), stt_Data = data\<rparr>,
       std_StateProof = \<lparr>stp_BlockHeight = word_rcat (take 8 (drop 28 b)), stp_RootHash = 0,
         stp_Proof = None\<rparr>\<rparr>))"

definition tx_demo_env :: tx_env where
  "tx_demo_env = \<lparr>EncodeTxData = demo_encode, DecodeTxData = demo_decode, KindSize = (\<lambda>b. of_nat (length b)), ListSize = id,
     EncodeStateData = demo_encode_state, DecodeStateData = demo_decode_state,
     Keccak256 = (\<lambda>b. of_nat (length b))\<rparr>"

lemma rlp_codes_demo: "rlp_codes tx_demo_env"
proof -
  have "demo_decode (demo_encode d) d' = (None, (td_wire d)\<lparr>td_Hash := td_Hash d'\<rparr>)" for d d'
    by (simp add: demo_decode_def demo_encode_def td_wire_def nth_append word_rcat_bytes Let_def
        split: option.split)
  moreover have "demo_encode (td_wire d) = demo_encode d" for d
    by (simp add: demo_encode_def td_wire_def demo_int_def)
  moreover have nonempty: "demo_encode_state sd \<noteq> []" for sd by (simp add: demo_encode_state_def demo_int_def Let_def)
  moreover from nonempty have "\<exists>sd'. demo_decode_state (demo_encode_state sd) = (None, sd') \<and> std_State sd' = state_wire (std_State sd)
      \<and> stp_BlockHeight (std_StateProof sd') = stp_BlockHeight (std_StateProof sd)" for sd
    by (simp add: demo_decode_state_def) (simp add: demo_encode_state_def state_wire_def word_rcat_bytes Let_def)
  ultimately show ?thesis by (simp add: rlp_codes_def tx_demo_env_def unat_of_nat take_bit_nat_eq_self)
qed

definition tx_demo :: StateTransferTransaction where
  "tx_demo = NewStateTransferTransaction 0 1 7 9 (Some 7) 4 [] False 2"

lemma tx_demo_sel [simp]:
  "sttx_SourceShardID tx_demo = 0" "sttx_TargetShardID tx_demo = 1" "sttx_ToFreeze tx_demo = False"
  "sttx_Index tx_demo = 2" "sttx_Address tx_demo = 9" "sttx_Nonce tx_demo = 4"
  "sttx_Balance tx_demo = Some 7" "tx_hash tx_demo = None" "tx_size tx_demo = None"
  by (simp_all add: tx_demo_def NewStateTransferTransaction_def sttx_getters)

lemma tx_demo_nonneg: "nonneg_balance (sttx_Balance tx_demo)"
  by (simp add: nonneg_balance_def)

lemma sttx_rlp_roundtrip_example:
  "\<exists>tx'. sttx_DecodeRLP tx_demo_env (sttx_EncodeRLP tx_demo_env tx_demo)
      \<lparr>tx_data = zero_txdata, tx_hash = None, tx_size = None\<rparr> = (None, tx')
    \<and> tx_data tx' = tx_data tx_demo"
proof -
  let ?r = "sttx_DecodeRLP tx_demo_env (sttx_EncodeRLP tx_demo_env tx_demo)
      \<lparr>tx_data = zero_txdata, tx_hash = None, tx_size = None\<rparr>"
  have "td_wire (tx_data tx_demo) = tx_data tx_demo"
    by (simp add: td_wire_def tx_demo_def NewStateTransferTransaction_def)
  moreover have "length (sttx_EncodeRLP tx_demo_env tx_demo) < 2 ^ 64"
    by (simp add: sttx_EncodeRLP_def tx_demo_env_def demo_encode_def demo_int_def tx_demo_def
        NewStateTransferTransaction_def)
  ultimately show ?thesis using tx_demo_nonneg sttx_rlp_roundtrip [OF rlp_codes_demo, of tx_demo "fst ?r" "snd ?r"]
    by (cases ?r) simp
qed

end
