(* ===== verification/State_DB_Final.thy ===== *)
theory State_DB_Final
  imports State_DB_Effects
begin

text \<open>
  What finalising a transaction and writing the tries do to the accounts: \<open>Finalise\<close> and
  \<open>IntermediateRoot\<close> keep the balance and the nonce of every account that has not destroyed
  itself, and keep the freeze flag unless the account is deleted as empty.
\<close>

section \<open>The core of an account\<close>

definition so_core :: "'tr Object \<Rightarrow> int \<times> u64 \<times> bool \<times> bool" where
  "so_core s = (so_Balance s, so_Nonce s, so_freeze s, so_suicided s)"

abbreviation sdb_core where
  "sdb_core E l a \<equiv> so_core (sdb_obj E l a)"

lemma so_core_sel:
  "so_core s = so_core t \<Longrightarrow> so_Balance s = so_Balance t \<and> so_Nonce s = so_Nonce t
    \<and> so_freeze s = so_freeze t \<and> so_suicided s = so_suicided t"
  by (simp add: so_core_def)

lemma so_core_head: "so_head s = so_head t \<Longrightarrow> so_core s = so_core t"
  by (auto simp: so_core_def so_Balance_def so_Nonce_def dest: so_head_sel)

lemma so_core_writes [simp]:
  "so_core (so_setCode h c s) = so_core s" "so_core (so_finalise s) = so_core s"
  "so_core (so_setState k v s) = so_core s" "so_core (s\<lparr>so_deleted := z\<rparr>) = so_core s"
  by (simp_all add: so_core_def so_setCode_def so_finalise_def so_setState_def so_Balance_def so_Nonce_def)

lemma sdb_HasSuicided_obj: "fst (sdb_HasSuicided E a l) = so_suicided (sdb_obj E l a)"
  by (simp add: sdb_HasSuicided_def sdb_get_eq sdb_obj_def split: option.split)

section \<open>Writing back the validators\<close>

text \<open>\<open>sdb_tweak\<close>: at most the object at \<open>a\<close> is replaced, by a live one with the same core.\<close>

definition sdb_tweak ::
    "('d, 'tr, 'v) sdb_env \<Rightarrow> address \<Rightarrow> ('d, 'tr, 'v) DB \<Rightarrow> ('d, 'tr, 'v) DB \<Rightarrow> bool" where
  "sdb_tweak E a l l' \<longleftrightarrow> sdb_peek E l' = sdb_peek E l
     \<or> (\<exists>s. sdb_peek E l' = (sdb_peek E l)(a := Some s) \<and> \<not> so_deleted s \<and> so_core s = sdb_core E l a)"

lemma sdb_tweak_core: "sdb_tweak E b l l' \<Longrightarrow> sdb_core E l' a = sdb_core E l a"
proof -
  assume "sdb_tweak E b l l'"
  then consider "sdb_peek E l' = sdb_peek E l"
    | s where "sdb_peek E l' = (sdb_peek E l)(b := Some s)" "\<not> so_deleted s" "so_core s = sdb_core E l b"
    unfolding sdb_tweak_def by blast
  then show ?thesis by cases (auto simp: sdb_obj_peek)
qed

lemma sdb_SetCode_peek:
  assumes "sdb_inv E l" and "\<not> so_freeze (sdb_obj E l b)"
  shows "\<exists>s h. so_head s = so_head (sdb_obj E l b)
    \<and> sdb_peek E (sdb_SetCode E b c l) = (sdb_peek E l)(b := Some (so_setCode h c s))"
proof -
  let ?s = "sdb_obj E l b"
  obtain m where m: "sdb_GetOrNewStateObject E b l = (?s, m)" "sdb_holds E ?s m" "so_address ?s = b"
      "sdb_peek E m = (sdb_peek E l)(b := Some ?s)" "sdb_db m = sdb_db l"
    using assms(1) by (rule sdb_GetOrNew_cases)
  define h where "h = Keccak256Hash E (case c of None \<Rightarrow> [] | Some c \<Rightarrow> c)"
  obtain p s' where sc: "so_Code E (sdb_db m) ?s = (p, s')" by fastforce
  note hd = so_view_sel(1) [OF so_Code_view(1) [OF sc]]
  have s': "so_address s' = b" using so_head_sel [OF hd] m(3) by auto
  let ?w = "sdb_write b (\<lambda>_. s') m"
  have pw: "sdb_peek E ?w = (sdb_peek E l)(b := Some s')"
    using sdb_peek_write_holds [OF m(2)] m(3,4) by simp
  have "gm_get (stateObjects ?w) b = Some s'"
    using m(2,3) by (simp add: sdb_write_objects sdb_holds_def)
  then have "sdb_peek E (sdb_write b (so_setCode h c) (sdb_append e ?w)) = (sdb_peek E l)(b := Some (so_setCode h c s'))" for e
    using sdb_peek_write [of "sdb_append e ?w" b s' E "so_setCode h c"] pw by simp
  moreover have "sdb_SetCode E b c l = sdb_write b (so_setCode h c)
      (sdb_append (codeChange b (so_CodeHash s') p) ?w)"
    using assms(2) m(1) sc s' by (simp add: sdb_SetCode_def sdb_getFreezeState_def so_FreezeState_def
        so_SetCode_def h_def Let_def)
  ultimately show ?thesis using hd by metis
qed

lemma sdb_SetCode_tweak:
  assumes "sdb_inv E l"
  shows "sdb_tweak E b l (sdb_SetCode E b c l)"
proof (cases "so_freeze (sdb_obj E l b)")
  case True
  then show ?thesis using sdb_frozen_quiet(5) [OF True, of c] by (simp add: sdb_tweak_def)
next
  case False
  from sdb_SetCode_peek [OF assms this, of c] obtain s h where s: "so_head s = so_head (sdb_obj E l b)"
      "sdb_peek E (sdb_SetCode E b c l) = (sdb_peek E l)(b := Some (so_setCode h c s))" by blast
  have "\<not> so_deleted (so_setCode h c s)" using so_head_sel(7) [OF s(1)] by (simp add: so_setCode_def)
  moreover have "so_core (so_setCode h c s) = sdb_core E l b" using so_core_head [OF s(1)] by simp
  ultimately show ?thesis using s(2) unfolding sdb_tweak_def by metis
qed

lemma sdb_obj_validators [simp]: "sdb_obj E (l\<lparr>stateValidators := vs\<rparr>) = sdb_obj E l"
  by (simp add: sdb_obj_peek fun_eq_iff)

lemma sdb_flush_validator_tweak:
  assumes "sdb_inv E l"
  shows "sdb_tweak E (fst av) l (sdb_flush_validator E av l)"
  using sdb_SetCode_tweak [OF assms]
  by (auto simp: sdb_flush_validator_def sdb_UpdateValidatorWrapper_def sdb_tweak_def Let_def
      split: option.split sum.split)

lemma sdb_flush_validators_core:
  assumes "sdb_inv E l"
  shows "sdb_core E (fold (sdb_flush_validator E) vs l) a = sdb_core E l a"
  using assms
proof (induction vs arbitrary: l)
  case (Cons v vs)
  have "sdb_inv E (sdb_flush_validator E v l)"
    using sdb_flush_validators_inv [OF Cons.prems, of "[v]"] by simp
  with Cons sdb_tweak_core [OF sdb_flush_validator_tweak [OF Cons.prems]] show ?case by simp
qed simp

lemma sdb_flush_validator_other:
  assumes "sdb_inv E l" and "fst av \<noteq> a"
  shows "sdb_local E (fst av) l (sdb_flush_validator E av l)"
  using sdb_setters_local(5) [OF assms(1)]
  by (auto simp: sdb_flush_validator_def sdb_UpdateValidatorWrapper_def Let_def split: option.split sum.split)

lemma sdb_flush_validators_other:
  assumes "sdb_inv E l" and "gm_get vs a = None"
  shows "sdb_obj E (fold (sdb_flush_validator E) vs l) a = sdb_obj E l a"
  using assms
proof (induction vs arbitrary: l)
  case (Cons v vs)
  have va: "fst v \<noteq> a" "gm_get vs a = None" using Cons.prems(2) by (cases v; auto split: if_splits)+
  have "sdb_inv E (sdb_flush_validator E v l)"
    using sdb_flush_validators_inv [OF Cons.prems(1), of "[v]"] by simp
  moreover have "sdb_obj E (sdb_flush_validator E v l) a = sdb_obj E l a"
    using sdb_flush_validator_other [OF Cons.prems(1) va(1)] va(1) by (simp add: sdb_local_def sdb_obj_peek)
  ultimately show ?case using Cons.IH va(2) by simp
qed simp

section \<open>Finalising\<close>

definition so_finalised :: "('d, 'tr, 'v) sdb_env \<Rightarrow> bool \<Rightarrow> 'tr Object \<Rightarrow> 'tr Object" where
  "so_finalised E b ob = (if so_suicided ob \<or> (b \<and> so_empty E ob) then ob\<lparr>so_deleted := True\<rparr> else so_finalise ob)"

lemma so_finalised_idem [simp]: "so_finalised E b (so_finalised E b ob) = so_finalised E b ob"
  by (simp add: so_finalised_def so_finalise_def so_empty_def)

lemma sdb_finalise1_objects:
  "gm_get (stateObjects (sdb_finalise1 E b a l)) c =
     (if c = a then map_option (so_finalised E b) (gm_get (stateObjects l) a) else gm_get (stateObjects l) c)"
  by (auto simp: sdb_finalise1_def so_finalised_def Let_def sdb_write_objects split: option.split)

lemma sdb_finalise1_trie [simp]:
  "sdb_trie (sdb_finalise1 E b a l) = sdb_trie l" "sdb_db (sdb_finalise1 E b a l) = sdb_db l"
  by (simp_all add: sdb_finalise1_def Let_def split: option.split)

lemma sdb_finalise_fold:
  "gm_get (stateObjects (fold (sdb_finalise1 E b) as l)) c =
     (if c \<in> set as then map_option (so_finalised E b) (gm_get (stateObjects l) c) else gm_get (stateObjects l) c)"
  "sdb_trie (fold (sdb_finalise1 E b) as l) = sdb_trie l"
  by (induction as arbitrary: l) (auto simp: sdb_finalise1_objects option.map_comp comp_def)

text \<open>The object at an address after \<open>Finalise\<close>, from the one after the validators are
  written back: gone if it is dirty and destroyed, or empty when empty objects are deleted.\<close>

lemma sdb_Finalise_peek:
  assumes m: "m = fold (sdb_flush_validator E) (stateValidators l) l"
  shows "sdb_peek E (sdb_Finalise E b l) a = sdb_peek E m a
    \<or> sdb_peek E (sdb_Finalise E b l) a = map_option (so_finalised E b) (sdb_peek E m a)"
proof -
  let ?as = "gm_keys (dirties (sdb_journal m))"
  have eq: "sdb_Finalise E b l = sdb_clearJournalAndRefund (fold (sdb_finalise1 E b) ?as m)"
    by (simp add: sdb_Finalise_def m Let_def)
  have ob: "gm_get (stateObjects (sdb_Finalise E b l)) a =
      (if a \<in> set ?as then map_option (so_finalised E b) (gm_get (stateObjects m) a) else gm_get (stateObjects m) a)"
    by (simp add: eq sdb_finalise_fold del: list.set_map)
  have tr: "sdb_trie (sdb_Finalise E b l) = sdb_trie m" by (simp add: eq sdb_finalise_fold)
  show ?thesis
  proof (cases "a \<in> set ?as \<and> gm_get (stateObjects m) a \<noteq> None")
    case False
    then have "gm_get (stateObjects (sdb_Finalise E b l)) a = gm_get (stateObjects m) a" using ob by auto
    from sdb_peek_cong [OF tr this] show ?thesis by simp
  next
    case True
    then obtain s where s: "gm_get (stateObjects m) a = Some s" by auto
    with True ob have "sdb_peek E (sdb_Finalise E b l) a = Some (so_finalised E b s)"
      by (intro sdb_peek_cached) simp
    with sdb_peek_cached [OF s, of E] show ?thesis by simp
  qed
qed

lemma sdb_Finalise_obj:
  assumes "m = fold (sdb_flush_validator E) (stateValidators l) l"
  shows "sdb_obj E (sdb_Finalise E b l) a = sdb_obj E m a
    \<or> sdb_obj E (sdb_Finalise E b l) a = so_finalise (sdb_obj E m a)
    \<or> sdb_obj E (sdb_Finalise E b l) a = sdb_fresh E a
      \<and> (so_suicided (sdb_obj E m a) \<or> b \<and> so_empty E (sdb_obj E m a))"
  using sdb_Finalise_peek [OF assms, of b a]
  by (cases "sdb_peek E m a") (auto simp: sdb_obj_peek so_finalised_def so_finalise_def split: if_splits)

lemma so_empty_zero: "so_empty E s \<Longrightarrow> so_Balance s = 0 \<and> so_Nonce s = 0"
  by (simp add: so_empty_def so_Balance_def so_Nonce_def)

lemma sdb_Finalise_core:
  assumes "sdb_inv E l" and "\<not> so_suicided (sdb_obj E l a)"
  shows "so_Balance (sdb_obj E (sdb_Finalise E b l) a) = so_Balance (sdb_obj E l a)"
    and "so_Nonce (sdb_obj E (sdb_Finalise E b l) a) = so_Nonce (sdb_obj E l a)"
    and "\<not> so_suicided (sdb_obj E (sdb_Finalise E b l) a)"
    and "so_freeze (sdb_obj E (sdb_Finalise E b l) a) \<Longrightarrow> so_freeze (sdb_obj E l a)"
    and "so_Balance (sdb_obj E l a) \<noteq> 0 \<or> so_Nonce (sdb_obj E l a) \<noteq> 0 \<or> \<not> b \<Longrightarrow>
      so_freeze (sdb_obj E (sdb_Finalise E b l) a) = so_freeze (sdb_obj E l a)"
proof -
  let ?m = "fold (sdb_flush_validator E) (stateValidators l) l" and ?f = "sdb_obj E (sdb_Finalise E b l) a"
  note c = so_core_sel [OF sdb_flush_validators_core [OF assms(1), of "stateValidators l" a]]
  have fin: "so_core (so_finalise s) = so_core s" for s :: "'b Object" by simp
  consider "so_core ?f = so_core (sdb_obj E ?m a)"
    | "?f = sdb_fresh E a" "b" "so_empty E (sdb_obj E ?m a)"
    using sdb_Finalise_obj [OF refl, of E b l a] c assms(2) by auto
  then show "so_Balance ?f = so_Balance (sdb_obj E l a)" "so_Nonce ?f = so_Nonce (sdb_obj E l a)"
    "\<not> so_suicided ?f" "so_freeze ?f \<Longrightarrow> so_freeze (sdb_obj E l a)"
    "so_Balance (sdb_obj E l a) \<noteq> 0 \<or> so_Nonce (sdb_obj E l a) \<noteq> 0 \<or> \<not> b \<Longrightarrow>
      so_freeze ?f = so_freeze (sdb_obj E l a)"
    by (cases; use c assms(2) in \<open>auto dest!: so_core_sel so_empty_zero\<close>)+
qed

section \<open>Writing the tries\<close>

text \<open>What is assumed when the tries are written: the account trie stores what it is given
  without an error, an account has an encoding that is not empty, and the empty storage trie
  can be opened.\<close>

definition account_writes_ok :: "('d, 'tr, 'v) sdb_env \<Rightarrow> bool" where
  "account_writes_ok E \<longleftrightarrow> trie_stores E \<and> trie_total E
     \<and> (\<forall>acc. \<exists>data. EncodeAccount E acc = Inr data \<and> data \<noteq> [])
     \<and> (\<forall>d h. \<exists>t. OpenStorageTrie E d h 0 = Inr t)"

lemma so_updateRoot_total:
  assumes "account_writes_ok E" and "so_ok s"
  obtains s' where "so_updateRoot E d s = Some s'" and "so_core s' = so_core s"
    and "so_address s' = so_address s" and "so_deleted s' = so_deleted s" and "so_ok s'"
proof -
  obtain z where "OpenStorageTrie E d (so_addrHash (so_finalise s)) 0 = Inr z"
    using assms(1) unfolding account_writes_ok_def by metis
  then have "fst (so_getTrie E d (so_finalise s)) \<noteq> None"
    by (auto simp: so_getTrie_def Let_def split: option.split sum.split)
  then obtain t0 s0 where g: "so_getTrie E d (so_finalise s) = (Some t0, s0)"
    by (cases "so_getTrie E d (so_finalise s)") auto
  obtain t1 s1 where "so_updateTrie E d s = Some (Some t1, s1)"
    using g by (cases "fold (so_update_slot E) (so_pendingStorage s0) (t0, s0)")
      (simp add: so_updateTrie_def Let_def)
  note u = this so_updateTrie_sel(1) [OF this]
  let ?s = "s1\<lparr>so_data := (so_data s1)\<lparr>acc_Root := TrieHash E t1\<rparr>\<rparr>"
  have r: "so_updateRoot E d s = Some ?s" using u(1) by (simp add: so_updateRoot_def)
  moreover have "so_core ?s = so_core s1" by (simp add: so_core_def so_Balance_def so_Nonce_def)
  ultimately show thesis
    using that [of ?s] so_core_head [OF u(2)] so_updateRoot_ok [OF r assms(2)] by simp
qed

text \<open>\<open>sdb_alike\<close>: the same objects, up to what is not in their cores.\<close>

definition so_alike :: "'tr Object \<Rightarrow> 'tr Object \<Rightarrow> bool" where
  "so_alike s t \<longleftrightarrow> so_core s = so_core t \<and> so_deleted s = so_deleted t"

definition sdb_alike ::
    "('d, 'tr, 'v) sdb_env \<Rightarrow> ('d, 'tr, 'v) DB \<Rightarrow> ('d, 'tr, 'v) DB \<Rightarrow> bool" where
  "sdb_alike E l l' \<longleftrightarrow> (\<forall>c. rel_option so_alike (sdb_peek E l c) (sdb_peek E l' c))"

lemma sdb_alike_refl: "sdb_alike E l l"
  by (simp add: sdb_alike_def so_alike_def option.rel_refl)

lemma sdb_alike_trans:
  assumes "sdb_alike E l m" and "sdb_alike E m n"
  shows "sdb_alike E l n"
proof -
  have "transp so_alike" by (simp add: so_alike_def transp_def)
  then have "transp (rel_option so_alike)" by (rule option.rel_transp)
  with assms show ?thesis unfolding sdb_alike_def by (blast dest: transpD)
qed

lemma sdb_alike_core: "sdb_alike E l l' \<Longrightarrow> sdb_core E l' c = sdb_core E l c"
  unfolding sdb_alike_def
  by (erule allE [of _ c]) (auto simp: sdb_obj_peek so_alike_def elim: option.rel_cases)

lemma sdb_write_alike:
  assumes "gm_get (stateObjects l) a = Some ob" and "sdb_trie l' = tr"
    and "\<And>c. gm_get (stateObjects l') c = (if c = a then Some ob' else gm_get (stateObjects l) c)"
    and "\<And>c. c \<noteq> a \<Longrightarrow> TryGet E tr c = TryGet E (sdb_trie l) c"
    and "so_core ob' = so_core ob" and "so_deleted ob' = so_deleted ob"
  shows "sdb_alike E l l'"
  unfolding sdb_alike_def
proof
  fix c
  show "rel_option so_alike (sdb_peek E l c) (sdb_peek E l' c)"
  proof (cases "c = a")
    case True
    have "sdb_peek E l' a = Some ob'" using assms(3) by (intro sdb_peek_cached) simp
    with sdb_peek_cached [OF assms(1), of E] True assms(5,6) show ?thesis by (simp add: so_alike_def)
  next
    case False
    then have "gm_get (stateObjects l') c = gm_get (stateObjects l) c" "TryGet E (sdb_trie l') c = TryGet E (sdb_trie l) c"
      using assms(2-4) by auto
    then have "sdb_peek E l' c = sdb_peek E l c"
      by (simp add: sdb_peek_def sdb_getDeletedStateObject_def Let_def cong: view_congs
          split: option.split prod.split sum.split)
    then show ?thesis by (simp add: so_alike_def option.rel_refl)
  qed
qed

lemma sdb_flush1_alike:
  assumes "account_writes_ok E" and "account_tries_ok E" and "sdb_inv0 E l" and "gm_get (stateObjects l) a \<noteq> None"
  shows "\<exists>l'. sdb_flush1 E a l = Some l' \<and> sdb_alike E l l'
    \<and> (\<forall>c. gm_get (stateObjects l') c = None \<longleftrightarrow> gm_get (stateObjects l) c = None)"
proof -
  obtain ob where ob: "gm_get (stateObjects l) a = Some ob" using assms(4) by auto
  with assms(3) have k: "so_address ob = a" "so_ok ob" by (auto simp: sdb_inv0_def)
  show ?thesis
  proof (cases "so_deleted ob")
    case True
    obtain tr where tr: "TryDelete E (sdb_trie l) a = (None, tr)"
      using assms(1) unfolding account_writes_ok_def trie_total_def by (metis prod.collapse)
    then have "TryGet E tr c = TryGet E (sdb_trie l) c" if "c \<noteq> a" for c
      using assms(1) that by (simp add: account_writes_ok_def trie_stores_def)
    then have "sdb_alike E l (sdb_setError None (l\<lparr>sdb_trie := tr\<rparr>))"
      by (intro sdb_write_alike [OF ob, where ob' = ob and tr = tr]) (simp_all add: ob)
    with True ob tr k show ?thesis by (simp add: sdb_flush1_def sdb_deleteStateObject_def)
  next
    case False
    obtain ob' where o: "so_updateRoot E (sdb_db l) ob = Some ob'" "so_core ob' = so_core ob"
        "so_address ob' = a" "so_deleted ob' = so_deleted ob"
      using so_updateRoot_total [OF assms(1) k(2)] k(1) by metis
    obtain data where data: "EncodeAccount E (so_data ob') = Inr data" "data \<noteq> []"
      using assms(1) unfolding account_writes_ok_def by metis
    obtain tr where tr: "TryUpdate E (sdb_trie l) a data = (None, tr)"
      using assms(1) unfolding account_writes_ok_def trie_total_def by (metis prod.collapse)
    then have "TryGet E tr c = TryGet E (sdb_trie l) c" if "c \<noteq> a" for c
      using assms(1) that data(2) by (simp add: account_writes_ok_def trie_stores_def)
    then have "sdb_alike E l (sdb_setError None ((sdb_write a (\<lambda>_. ob') l)\<lparr>sdb_trie := tr\<rparr>))"
      using o by (intro sdb_write_alike [OF ob, where ob' = ob' and tr = tr])
        (auto simp: sdb_write_objects ob)
    with False ob tr o data show ?thesis
      by (simp add: sdb_flush1_def sdb_updateStateObject_def sdb_write_objects)
  qed
qed

lemma sdb_flush_alike:
  assumes "account_writes_ok E" and "account_tries_ok E" and "sdb_inv0 E l"
    and "\<forall>a \<in> set as. gm_get (stateObjects l) a \<noteq> None"
  shows "\<exists>l'. range_loop (sdb_flush1 E) as l = Some l' \<and> sdb_alike E l l'"
  using assms(3,4)
proof (induction as arbitrary: l)
  case (Cons a as)
  then obtain l1 where l1: "sdb_flush1 E a l = Some l1" "sdb_alike E l l1"
      "\<forall>c. gm_get (stateObjects l1) c = None \<longleftrightarrow> gm_get (stateObjects l) c = None"
    using sdb_flush1_alike [OF assms(1,2) Cons.prems(1), of a] by auto
  have "sdb_inv0 E l1" using sdb_flush1_inv0(1) [OF assms(2) Cons.prems(1) l1(1)] .
  with Cons.IH [of l1] l1 Cons.prems(2) obtain l' where
    "range_loop (sdb_flush1 E) as l1 = Some l'" "sdb_alike E l1 l'" by auto
  with l1 show ?case using sdb_alike_trans by auto
qed (simp add: sdb_alike_refl)

lemma sdb_IntermediateRoot_alike:
  assumes "account_writes_ok E" and "account_tries_ok E" and "sdb_inv E l"
  obtains h l' where "sdb_IntermediateRoot E b l = Some (h, l')" and "sdb_inv E l'"
    and "sdb_alike E (sdb_Finalise E b l) l'"
proof -
  let ?f = "sdb_Finalise E b l"
  have "sdb_inv0 E ?f" using sdb_Finalise_inv [OF assms(3)] by (rule sdb_inv_inv0)
  moreover from this have "\<forall>a \<in> set (stateObjectsPending ?f). gm_get (stateObjects ?f) a \<noteq> None"
    by (simp add: sdb_inv0_def sdb_scheduled_def)
  ultimately obtain m where m: "range_loop (sdb_flush1 E) (stateObjectsPending ?f) ?f = Some m"
      "sdb_alike E ?f m"
    using sdb_flush_alike [OF assms(1,2)] by blast
  have r: "sdb_IntermediateRoot E b l = Some (TrieHash E (sdb_trie m), m\<lparr>stateObjectsPending := []\<rparr>)"
    using m(1) by (simp add: sdb_IntermediateRoot_def Let_def)
  have "sdb_peek E (m\<lparr>stateObjectsPending := []\<rparr>) c = sdb_peek E m c" for c
    by (rule sdb_peek_cong) simp_all
  then have "sdb_alike E ?f (m\<lparr>stateObjectsPending := []\<rparr>)" using m(2) by (simp add: sdb_alike_def)
  then show thesis using that [OF r] sdb_IntermediateRoot_inv(1) [OF assms(2,3) r] by blast
qed

end
