(* ===== verification/State_Transfer.thy ===== *)
theory State_Transfer
  imports Chain_Config Transfer_Tx State_DB_Final
begin

text \<open>
  Executing state transfer transactions and incoming cross-shard receipts
  (\<open>core/state_processor.go\<close>), which moves an account from its source shard to its target
  shard: the source freezes the account, then both shards record the new shard in their load
  maps and the target takes over balance and nonce.

  An account balance is an integer here, so the nil balance of a transaction cannot be stored,
  and the commit of such a transaction at the target is outside the model, which stops with
  \<open>None\<close> there. The code stores the nil pointer. It then panics in \<open>empty\<close> when the transaction
  is finalised after S3 with a zero nonce; otherwise it goes on with the nil balance, which every
  later arithmetic on the balance dereferences and which is written to the trie as zero. A
  transaction has a nil balance when the state data of its commit request could not be decoded.
\<close>

section \<open>Headers and receipts\<close>

record Header =
  hd_ShardID :: u32
  hd_Epoch :: "int option"

record Receipt =
  rc_PostState :: bytes
  rc_Status :: u64
  rc_CumulativeGasUsed :: u64
  rc_Logs :: "Log list"
  rc_TxHash :: hash
  rc_ContractAddress :: address
  rc_GasUsed :: u64

definition NewReceipt :: "bytes \<Rightarrow> bool \<Rightarrow> u64 \<Rightarrow> Receipt" where
  "NewReceipt root failed cumulativeGasUsed =
     \<lparr>rc_PostState = root, rc_Status = (if failed then 0 else 1),
      rc_CumulativeGasUsed = cumulativeGasUsed, rc_Logs = [], rc_TxHash = 0,
      rc_ContractAddress = 0, rc_GasUsed = 0\<rparr>"

text \<open>The type of a plain transaction. \<open>numShards\<close> is the number of shards that the sharding
  schedule has for an epoch.\<close>

definition getTransactionType ::
    "(int option \<Rightarrow> u32) \<Rightarrow> ChainConfig \<Rightarrow> Header \<Rightarrow> u32 \<Rightarrow> u32 \<Rightarrow> TransactionType option" where
  "getTransactionType numShards config header shardID toShardID =
     (if hd_ShardID header \<noteq> shardID
      then Some InvalidTx
      else case AcceptsCrossTx config (hd_Epoch header) of
        None \<Rightarrow> None
      | Some cross \<Rightarrow>
          if \<not> cross \<or> shardID = toShardID then Some SameShardTx
          else if shardID \<noteq> toShardID \<and> hd_ShardID header = shardID
                  \<and> toShardID < numShards (hd_Epoch header)
          then Some SubtractionOnly
          else Some InvalidTx)"

section \<open>State transfer transactions\<close>

text \<open>The code's idiom \<open>if !db.Exist(addr) { db.CreateAccount(addr) }\<close>, and the end of a
  transaction, which finalises or, before the S3 epoch, writes the tries.\<close>

definition sdb_ensure ::
    "('d, 'tr, 'v) sdb_env \<Rightarrow> address \<Rightarrow> ('d, 'tr, 'v) DB \<Rightarrow> ('d, 'tr, 'v) DB" where
  "sdb_ensure E addr l =
     (let (ok, l) = sdb_Exist E addr l in if \<not> ok then sdb_CreateAccount E addr l else l)"

definition lm_ensure ::
    "('d, 'tr) lm_env \<Rightarrow> address \<Rightarrow> ('d, 'tr) LoadMapDB \<Rightarrow> ('d, 'tr) LoadMapDB" where
  "lm_ensure F addr m =
     (let (ok, m) = lm_Exist F addr m in if \<not> ok then lm_CreateMapAccount F addr m else m)"

definition sdb_settle ::
    "('d, 'tr, 'v) sdb_env \<Rightarrow> bool \<Rightarrow> ('d, 'tr, 'v) DB \<Rightarrow> (bytes \<times> ('d, 'tr, 'v) DB) option" where
  "sdb_settle E s3 l =
     (if s3 then Some ([], sdb_Finalise E True l)
      else map_option (\<lambda>(h, l). (hash_bytes h, l)) (sdb_IntermediateRoot E False l))"

definition lm_settle ::
    "('d, 'tr) lm_env \<Rightarrow> bool \<Rightarrow> ('d, 'tr) LoadMapDB \<Rightarrow> (bytes \<times> ('d, 'tr) LoadMapDB) option" where
  "lm_settle F s3 m =
     (if s3 then Some ([], lm_Finalise True m)
      else map_option (\<lambda>(h, m). (hash_bytes h, m)) (lm_IntermediateRoot F False m))"

text \<open>The source shard freezes the account.\<close>

definition sttx_source_freeze ::
    "('d, 'tr, 'v) sdb_env \<Rightarrow> bool \<Rightarrow> address \<Rightarrow> ('d, 'tr, 'v) DB \<Rightarrow>
      (bytes \<times> ('d, 'tr, 'v) DB) option" where
  "sttx_source_freeze E s3 addr statedb =
     (let (ok, statedb) = sdb_Exist E addr statedb;
          statedb = (if \<not> ok then sdb_SetBalance E addr 0 (sdb_CreateAccount E addr statedb)
                     else statedb)
      in sdb_settle E s3 (sdb_SetFreezeState E addr True statedb))"

text \<open>The source shard records where the account went.\<close>

definition sttx_source_commit ::
    "('d, 'tr) lm_env \<Rightarrow> bool \<Rightarrow> address \<Rightarrow> u32 \<Rightarrow> ('d, 'tr) LoadMapDB \<Rightarrow>
      (bytes \<times> ('d, 'tr) LoadMapDB) option" where
  "sttx_source_commit F s3 addr target loadmapdb =
     lm_settle F s3 (lm_SetTargetShardID F addr target (lm_ensure F addr loadmapdb))"

text \<open>The target shard takes the account over; before the S3 epoch it does not finalise the
  load map. \<open>None\<close> for a transaction with a nil balance only says that the model ends there.\<close>

definition sttx_target_commit ::
    "('d, 'tr, 'v) sdb_env \<Rightarrow> ('e, 'tl) lm_env \<Rightarrow> bool \<Rightarrow> StateTransferTransaction \<Rightarrow>
      ('d, 'tr, 'v) DB \<Rightarrow> ('e, 'tl) LoadMapDB \<Rightarrow>
      (bytes \<times> ('d, 'tr, 'v) DB \<times> ('e, 'tl) LoadMapDB) option" where
  "sttx_target_commit E F s3 stx statedb loadmapdb =
     (let addr = sttx_Address stx;
          statedb = sdb_SetFreezeState E addr False (sdb_ensure E addr statedb)
      in case sttx_Balance stx of
           None \<Rightarrow> None
         | Some balance \<Rightarrow>
             let statedb = sdb_SetNonce E addr (sttx_Nonce stx) (sdb_SetBalance E addr balance statedb);
                 loadmapdb = lm_SetTargetShardID F addr (sttx_TargetShardID stx) (lm_ensure F addr loadmapdb)
             in map_option (\<lambda>(root, statedb).
                  (root, statedb, if s3 then lm_Finalise True loadmapdb else loadmapdb))
                  (sdb_settle E s3 statedb))"

definition ApplyStateTransferTransaction ::
    "('d, 'tr, 'v) sdb_env \<Rightarrow> ('e, 'tl) lm_env \<Rightarrow> tx_env \<Rightarrow> ChainConfig \<Rightarrow>
      ('d, 'tr, 'v) DB \<Rightarrow> Header \<Rightarrow> ('e, 'tl) LoadMapDB \<Rightarrow> StateTransferTransaction option \<Rightarrow>
      (Receipt option \<times> ('d, 'tr, 'v) DB \<times> ('e, 'tl) LoadMapDB \<times> StateTransferTransaction option) option" where
  "ApplyStateTransferTransaction E F T config statedb header loadmapdb stx =
     (case stx of
        None \<Rightarrow> Some (None, statedb, loadmapdb, None)
      | Some stx \<Rightarrow>
          let s3 = IsS3 config (hd_Epoch header);
              res = (if hd_ShardID header = sttx_SourceShardID stx
                     then if sttx_ToFreeze stx
                          then map_option (\<lambda>(root, statedb). (root, statedb, loadmapdb))
                                 (sttx_source_freeze E s3 (sttx_Address stx) statedb)
                          else map_option (\<lambda>(root, loadmapdb). (root, statedb, loadmapdb))
                                 (sttx_source_commit F s3 (sttx_Address stx) (sttx_TargetShardID stx) loadmapdb)
                     else if hd_ShardID header = sttx_TargetShardID stx
                     then if sttx_ToFreeze stx
                          then map_option (\<lambda>(root, statedb). (root, statedb, loadmapdb))
                                 (sdb_settle E s3 statedb)
                          else sttx_target_commit E F s3 stx statedb loadmapdb
                     else Some ([], statedb, loadmapdb))
          in map_option (\<lambda>(root, statedb, loadmapdb).
               let (h, stx) = sttx_Hash T stx
               in (Some ((NewReceipt root False 0)\<lparr>rc_TxHash := h, rc_GasUsed := 0\<rparr>),
                   statedb, loadmapdb, Some stx)) res)"

section \<open>Incoming receipts\<close>

record CXReceipt =
  cx_TxHash :: hash
  cx_From :: address
  cx_To :: "address option"
  cx_ShardID :: u32
  cx_ToShardID :: u32
  cx_Amount :: int

definition errInvalidReceipt :: error where
  "errInvalidReceipt = ''ApplyIncomingReceipts: Invalid incomingReceipt!''"

text \<open>The loop over the receipts of a proof; an invalid one ends it with an error and leaves
  the credits made so far.\<close>

fun ApplyIncomingReceipts_loop ::
    "('d, 'tr, 'v) sdb_env \<Rightarrow> bool \<Rightarrow> CXReceipt option list \<Rightarrow> ('d, 'tr, 'v) DB \<Rightarrow>
      (error option \<times> ('d, 'tr, 'v) DB) option" where
  "ApplyIncomingReceipts_loop E s3 [] db = Some (None, db)"
| "ApplyIncomingReceipts_loop E s3 (cx # cxs) db =
     (case Option.bind cx cx_To of
        None \<Rightarrow> Some (Some errInvalidReceipt, db)
      | Some to \<Rightarrow>
          (case sdb_IntermediateRoot E s3 (sdb_AddBalance E to (cx_Amount (the cx)) (sdb_ensure E to db)) of
             None \<Rightarrow> None
           | Some (_, db) \<Rightarrow> ApplyIncomingReceipts_loop E s3 cxs db))"

definition ApplyIncomingReceipt ::
    "('d, 'tr, 'v) sdb_env \<Rightarrow> ChainConfig \<Rightarrow> Header \<Rightarrow> CXReceipt option list option \<Rightarrow>
      ('d, 'tr, 'v) DB \<Rightarrow> (error option \<times> ('d, 'tr, 'v) DB) option" where
  "ApplyIncomingReceipt E config header cxp db =
     (case cxp of
        None \<Rightarrow> Some (None, db)
      | Some receipts \<Rightarrow> ApplyIncomingReceipts_loop E (IsS3 config (hd_Epoch header)) receipts db)"

section \<open>Single steps\<close>

lemma sdb_safe_inv: "sdb_safe E l l' \<Longrightarrow> sdb_inv E l'"
  by (simp add: sdb_safe_def)

lemma sdb_setters_inv:
  assumes "sdb_inv E l"
  shows "sdb_inv E (sdb_AddBalance E a x l)" "sdb_inv E (sdb_SetBalance E a x l)"
    "sdb_inv E (sdb_SetNonce E a n l)" "sdb_inv E (sdb_SetFreezeState E a z l)"
    "sdb_inv E (sdb_CreateAccount E a l)" "sdb_inv E (sdb_loaded E a l)"
  by (rule sdb_safe_inv, rule sdb_setters_safe sdb_CreateAccount_safe sdb_loaded_safe, rule assms)+

lemma sdb_setters_validators [simp]:
  "stateValidators (sdb_SetBalance E a x l) = stateValidators l"
  "stateValidators (sdb_SetFreezeState E a z l) = stateValidators l"
  "stateValidators (sdb_CreateAccount E a l) = stateValidators l"
  by (simp_all add: sdb_SetBalance_def sdb_SetFreezeState_def so_SetBalance_def so_SetFreezeState_def
      sdb_GetOrNew_eq sdb_CreateAccount_eq split: option.split)

lemma sdb_Exist_eq: "sdb_Exist E a l = (sdb_live E l a \<noteq> None, sdb_loaded E a l)"
  by (simp add: sdb_Exist_def sdb_get_eq)

lemma sdb_obj_loaded [simp]: "sdb_obj E (sdb_loaded E b l) = sdb_obj E l"
  by (simp add: sdb_obj_peek fun_eq_iff)

lemma sdb_CreateAccount_obj:
  "sdb_obj E (sdb_CreateAccount E a l) c = (if c = a
    then (case sdb_peek E l a of None \<Rightarrow> sdb_fresh E a
          | Some p \<Rightarrow> so_setBalance (so_Balance p) (sdb_fresh E a)) else sdb_obj E l c)"
  by (auto simp: sdb_CreateAccount_eq sdb_obj_peek so_Balance_def so_setBalance_def split: option.split)

lemma sdb_ensure_inv: "sdb_inv E l \<Longrightarrow> sdb_inv E (sdb_ensure E a l)"
  using sdb_setters_inv(5,6) by (fastforce simp: sdb_ensure_def sdb_Exist_eq)

text \<open>After the idiom the account is there, not frozen if it was not there before.\<close>

lemma sdb_ensure_obj:
  "sdb_obj E (sdb_ensure E a l) c = (if c = a \<and> sdb_live E l a = None
    then (case sdb_peek E l a of None \<Rightarrow> sdb_fresh E a
          | Some p \<Rightarrow> so_setBalance (so_Balance p) (sdb_fresh E a)) else sdb_obj E l c)"
  by (simp add: sdb_ensure_def sdb_Exist_eq sdb_CreateAccount_obj)

lemma so_setters_suicided [simp]:
  "so_suicided (so_setBalance x s) = so_suicided s" "so_suicided (so_setNonce n s) = so_suicided s"
  "so_suicided (so_setFreezeState z s) = so_suicided s"
  by (simp_all add: so_setBalance_def so_setNonce_def so_setFreezeState_def)

lemma sdb_ensure_suicided:
  "\<not> so_suicided (sdb_obj E l c) \<Longrightarrow> \<not> so_suicided (sdb_obj E (sdb_ensure E a l) c)"
  by (auto simp: sdb_ensure_obj split: option.split)

text \<open>The load map: what an address maps to depends on the cached object only.\<close>

lemma lm_target_objects:
  "fst (lm_GetTargetShardID F a m) = (case gm_get (loadMapObjects m) a of
      None \<Rightarrow> IniShardID | Some ob \<Rightarrow> if lo_deleted ob then IniShardID else lo_TargetShardID ob)"
proof (cases "gm_get (loadMapObjects m) a")
  case None
  then show ?thesis using lm_GetTargetShardID_ini [of m a F] by simp
next
  case (Some ob)
  then show ?thesis
    by (simp add: lm_GetTargetShardID_def lm_getLoadMapObject_def lm_getDeletedLoadMapObject_def)
qed

definition lm_suicided :: "('e, 'tl) lm_env \<Rightarrow> ('e, 'tl) LoadMapDB \<Rightarrow> address \<Rightarrow> bool" where
  "lm_suicided F m a = lo_suicided (lm_obj F m a)"

lemma lm_Finalise_target:
  assumes "\<not> lm_suicided F m a"
  shows "fst (lm_GetTargetShardID F a (lm_Finalise b m)) = fst (lm_GetTargetShardID F a m)"
proof -
  have "\<not> lo_suicided ob" if "gm_get (loadMapObjects m) a = Some ob" "\<not> lo_deleted ob" for ob
    using that assms lm_peek_cached [OF that(1), of F] by (simp add: lm_suicided_def lm_obj_def lm_live_def)
  then show ?thesis
    by (auto simp: lm_target_objects lm_Finalise_objects lm_finalised_def lo_empty_def
        lo_TargetShardID_def split: option.split)
qed

lemma lm_ensure_reachable: "lm_reachable F m \<Longrightarrow> lm_reachable F (lm_ensure F a m)"
  using lm_reachable.lm_op [of F m "LmExist a" "snd (lm_Exist F a m)"]
    lm_reachable.lm_op [of F "snd (lm_Exist F a m)" "LmCreateMapAccount a"]
  by (cases "lm_Exist F a m") (simp add: lm_ensure_def)

lemma lm_ensure_obj:
  "lm_obj F (lm_ensure F a m) c = (if c = a \<and> lm_live F m a = None
    then (case lm_peek F m a of None \<Rightarrow> lm_fresh F a
          | Some p \<Rightarrow> lo_setTargetShardID (TargetShardID (lo_data p)) (lm_fresh F a)) else lm_obj F m c)"
proof (cases "lm_live F m a")
  case None
  let ?ob = "case lm_peek F m a of None \<Rightarrow> lm_fresh F a
    | Some p \<Rightarrow> lo_setTargetShardID (TargetShardID (lo_data p)) (lm_fresh F a)"
  have "lm_ensure F a m = lm_replaced F ?ob (lm_loaded F a m)"
    using None by (simp add: lm_ensure_def lm_Exist_def lm_get_eq lm_CreateMapAccount_eq)
  moreover have "lo_address ?ob = a" "\<not> lo_deleted ?ob" by (simp_all add: lm_fresh_def lm_newObject_def lo_setTargetShardID_def Let_def split: option.split)
  ultimately show ?thesis using None lm_obj_upd [of F "lm_ensure F a m" m a ?ob] by simp
next
  case (Some ob)
  then show ?thesis by (simp add: lm_ensure_def lm_Exist_def lm_get_eq lm_obj_def)
qed

text \<open>Moving an address in the load map.\<close>

lemma lm_move:
  assumes "lm_reachable F m" and m'_def: "m' = lm_SetTargetShardID F a i (lm_ensure F a m)"
  shows "lm_suicided F m' c \<Longrightarrow> lm_suicided F m c"
    and "fst (lm_GetTargetShardID F c m') = (if c = a then i else fst (lm_GetTargetShardID F c m))"
    and "\<not> lm_suicided F m c \<Longrightarrow> fst (lm_GetTargetShardID F c (lm_Finalise b m')) =
      (if c = a then i else fst (lm_GetTargetShardID F c m))"
proof -
  have inv: "lm_inv (lm_ensure F a m)" using lm_reachable_inv [OF lm_ensure_reachable [OF assms(1)]] by simp
  show s: "lm_suicided F m' c \<Longrightarrow> lm_suicided F m c"
    by (auto simp: m'_def lm_suicided_def lm_SetTargetShardID_obj [OF inv] lm_ensure_obj
        split: if_splits option.splits)
  show g: "fst (lm_GetTargetShardID F c m') = (if c = a then i else fst (lm_GetTargetShardID F c m))"
    by (simp add: m'_def lm_GetTargetShardID_obj lm_SetTargetShardID_obj [OF inv] lm_ensure_obj)
  show "fst (lm_GetTargetShardID F c (lm_Finalise b m')) =
      (if c = a then i else fst (lm_GetTargetShardID F c m))" if "\<not> lm_suicided F m c"
    using lm_Finalise_target s that g by metis
qed

section \<open>Properties\<close>

text \<open>Setting the three fields of an account that is not frozen.\<close>

lemma sdb_take_over:
  assumes "sdb_inv E l" and l'_def: "l' = sdb_SetNonce E a n (sdb_SetBalance E a b (sdb_SetFreezeState E a False (sdb_ensure E a l)))"
  shows "sdb_inv E l'"
    and "so_Balance (sdb_obj E l' a) = b" "so_Nonce (sdb_obj E l' a) = n" "\<not> so_freeze (sdb_obj E l' a)"
    and "\<not> so_suicided (sdb_obj E l c) \<Longrightarrow> \<not> so_suicided (sdb_obj E l' c)"
    and "c \<noteq> a \<Longrightarrow> sdb_obj E l' c = sdb_obj E l c"
proof -
  note i1 = sdb_ensure_inv [OF assms(1), of a]
  note i2 = sdb_setters_inv(4) [OF i1, of a False]
  note i3 = sdb_setters_inv(2) [OF i2, of a b]
  note eqs = sdb_SetNonce_obj [OF i3] sdb_SetBalance_obj [OF i2] sdb_SetFreezeState_obj [OF i1]
  show "sdb_inv E l'" unfolding l'_def by (rule sdb_setters_inv(3) [OF i3])
  show "so_Balance (sdb_obj E l' a) = b" "so_Nonce (sdb_obj E l' a) = n" "\<not> so_freeze (sdb_obj E l' a)"
    by (simp_all add: l'_def eqs)
  show "\<not> so_suicided (sdb_obj E l c) \<Longrightarrow> \<not> so_suicided (sdb_obj E l' c)"
    using sdb_ensure_suicided [of E l c a] by (auto simp: l'_def eqs)
  show "c \<noteq> a \<Longrightarrow> sdb_obj E l' c = sdb_obj E l c" by (simp add: l'_def eqs sdb_ensure_obj)
qed

lemma sttx_target_commit_core:
  assumes "sdb_inv E l" and "lm_reachable F m" and "sttx_Balance stx = Some b"
    and "\<not> so_suicided (sdb_obj E l (sttx_Address stx))"
  obtains l' m' where "sttx_target_commit E F True stx l m = Some ([], l', m')"
    and "so_Balance (sdb_obj E l' (sttx_Address stx)) = b"
    and "so_Nonce (sdb_obj E l' (sttx_Address stx)) = sttx_Nonce stx"
    and "\<not> so_freeze (sdb_obj E l' (sttx_Address stx))"
    and "\<And>c. c \<noteq> sttx_Address stx \<Longrightarrow> \<not> so_suicided (sdb_obj E l c) \<Longrightarrow>
      so_Balance (sdb_obj E l' c) = so_Balance (sdb_obj E l c) \<and> so_Nonce (sdb_obj E l' c) = so_Nonce (sdb_obj E l c)"
    and "\<And>c. \<not> lm_suicided F m c \<Longrightarrow> fst (lm_GetTargetShardID F c m') =
      (if c = sttx_Address stx then sttx_TargetShardID stx else fst (lm_GetTargetShardID F c m))"
proof -
  let ?a = "sttx_Address stx"
  let ?l1 = "sdb_SetNonce E ?a (sttx_Nonce stx) (sdb_SetBalance E ?a b (sdb_SetFreezeState E ?a False (sdb_ensure E ?a l)))"
  let ?m1 = "lm_SetTargetShardID F ?a (sttx_TargetShardID stx) (lm_ensure F ?a m)"
  note t = sdb_take_over [OF assms(1) refl, where a = ?a and b = b and n = "sttx_Nonce stx"]
  note f = sdb_Finalise_core [OF t(1) t(5) [OF assms(4)], of True]
  have other: "so_Balance (sdb_obj E (sdb_Finalise E True ?l1) c) = so_Balance (sdb_obj E l c)
      \<and> so_Nonce (sdb_obj E (sdb_Finalise E True ?l1) c) = so_Nonce (sdb_obj E l c)"
    if "c \<noteq> ?a" "\<not> so_suicided (sdb_obj E l c)" for c
    using sdb_Finalise_core(1,2) [OF t(1) t(5) [OF that(2)], of True] t(6) [OF that(1)] by simp
  show thesis
    using assms(3) t f other lm_move(3) [OF assms(2) refl]
    by (intro that [of "sdb_Finalise E True ?l1" "lm_Finalise True ?m1"])
      (auto simp: sttx_target_commit_def sdb_settle_def Let_def)
qed

text \<open>(C14) The target shard executes a state transfer (an epoch after S3, a reachable account
  state and load map, an account that has not destroyed itself): afterwards the account has
  exactly the balance and the nonce of the transaction and is not frozen, whether it existed
  or was frozen before; the load map sends its address to the target shard; no other account's
  balance or nonce and no other address's shard changes; the receipt succeeds and carries the
  transaction's hash.\<close>

theorem sttx_target_takes_over:
  assumes "account_tries_ok E" and "sdb_reachable E l" and "lm_reachable F m"
    and "IsS3 config (hd_Epoch header)" and "hd_ShardID header = sttx_TargetShardID stx"
    and "sttx_SourceShardID stx \<noteq> sttx_TargetShardID stx" and "\<not> sttx_ToFreeze stx"
    and "sttx_Balance stx = Some b" and "\<not> fst (sdb_HasSuicided E (sttx_Address stx) l)"
    and "\<not> lm_suicided F m (sttx_Address stx)"
  shows "\<exists>r l' m' stx'. ApplyStateTransferTransaction E F T config l header m (Some stx) = Some (Some r, l', m', stx')
    \<and> rc_Status r = 1 \<and> rc_TxHash r = fst (sttx_Hash T stx)
    \<and> fst (sdb_GetBalance E (sttx_Address stx) l') = b
    \<and> fst (sdb_GetNonce E (sttx_Address stx) l') = sttx_Nonce stx
    \<and> \<not> fst (sdb_GetFreezeState E (sttx_Address stx) l')
    \<and> fst (lm_GetTargetShardID F (sttx_Address stx) m') = sttx_TargetShardID stx
    \<and> (\<forall>c. c \<noteq> sttx_Address stx \<and> \<not> fst (sdb_HasSuicided E c l) \<longrightarrow>
        fst (sdb_GetBalance E c l') = fst (sdb_GetBalance E c l)
        \<and> fst (sdb_GetNonce E c l') = fst (sdb_GetNonce E c l))
    \<and> (\<forall>c. c \<noteq> sttx_Address stx \<and> \<not> lm_suicided F m c \<longrightarrow>
        fst (lm_GetTargetShardID F c m') = fst (lm_GetTargetShardID F c m))"
proof -
  have inv: "sdb_inv E l" using sdb_reachable_inv [OF assms(1,2)] by simp
  have ns: "\<not> so_suicided (sdb_obj E l (sttx_Address stx))" using assms(9) by (simp add: sdb_HasSuicided_obj)
  obtain l' m' where c: "sttx_target_commit E F True stx l m = Some ([], l', m')"
    "so_Balance (sdb_obj E l' (sttx_Address stx)) = b"
    "so_Nonce (sdb_obj E l' (sttx_Address stx)) = sttx_Nonce stx"
    "\<not> so_freeze (sdb_obj E l' (sttx_Address stx))"
    "\<And>c. c \<noteq> sttx_Address stx \<Longrightarrow> \<not> so_suicided (sdb_obj E l c) \<Longrightarrow>
      so_Balance (sdb_obj E l' c) = so_Balance (sdb_obj E l c) \<and> so_Nonce (sdb_obj E l' c) = so_Nonce (sdb_obj E l c)"
    "\<And>c. \<not> lm_suicided F m c \<Longrightarrow> fst (lm_GetTargetShardID F c m') =
      (if c = sttx_Address stx then sttx_TargetShardID stx else fst (lm_GetTargetShardID F c m))"
    using sttx_target_commit_core [OF inv assms(3,8) ns] by metis
  then show ?thesis
    using assms(4-7,10)
    by (auto simp: ApplyStateTransferTransaction_def NewReceipt_def
        sdb_getters_obj sdb_HasSuicided_obj Let_def split: prod.split)
qed

lemma sdb_frozen_obj:
  assumes "sdb_inv E l" and "sdb_live E l a \<noteq> None" and l'_def: "l' = sdb_SetFreezeState E a True (sdb_loaded E a l)"
  shows "sdb_inv E l'" and "sdb_obj E l' c = (if c = a then so_setFreezeState True (sdb_obj E l a) else sdb_obj E l c)"
  using sdb_setters_inv(4) [OF sdb_setters_inv(6) [OF assms(1)]]
    sdb_SetFreezeState_obj [OF sdb_setters_inv(6) [OF assms(1)]]
  by (simp_all add: l'_def)

lemma sdb_nonzero_live:
  "so_Balance (sdb_obj E l a) \<noteq> 0 \<or> so_Nonce (sdb_obj E l a) \<noteq> 0 \<Longrightarrow> sdb_live E l a \<noteq> None"
  by (cases "sdb_live E l a") (auto simp: sdb_obj_def)

lemma sttx_source_freeze_core:
  assumes "sdb_inv E l" and "so_Balance (sdb_obj E l a) \<noteq> 0 \<or> so_Nonce (sdb_obj E l a) \<noteq> 0"
    and "\<not> so_suicided (sdb_obj E l a)"
  obtains l' where "sttx_source_freeze E True a l = Some ([], l')" and "sdb_inv E l'"
    and "so_freeze (sdb_obj E l' a)"
    and "\<And>c. \<not> so_suicided (sdb_obj E l c) \<Longrightarrow> so_Balance (sdb_obj E l' c) = so_Balance (sdb_obj E l c)
      \<and> so_Nonce (sdb_obj E l' c) = so_Nonce (sdb_obj E l c)"
proof
  let ?l1 = "sdb_SetFreezeState E a True (sdb_loaded E a l)"
  have live: "sdb_live E l a \<noteq> None" using assms(2) by (rule sdb_nonzero_live)
  note f = sdb_frozen_obj [OF assms(1) live refl]
  show "sttx_source_freeze E True a l = Some ([], sdb_Finalise E True ?l1)"
    using live by (simp add: sttx_source_freeze_def sdb_settle_def sdb_Exist_eq)
  show "sdb_inv E (sdb_Finalise E True ?l1)" using f(1) by (rule sdb_Finalise_inv)
  show "so_Balance (sdb_obj E (sdb_Finalise E True ?l1) c) = so_Balance (sdb_obj E l c)
      \<and> so_Nonce (sdb_obj E (sdb_Finalise E True ?l1) c) = so_Nonce (sdb_obj E l c)"
    if "\<not> so_suicided (sdb_obj E l c)" for c
  proof -
    have "\<not> so_suicided (sdb_obj E ?l1 c)" using that by (auto simp: f(2))
    from sdb_Finalise_core(1,2) [OF f(1) this, of True] show ?thesis by (auto simp: f(2))
  qed
  have "\<not> so_suicided (sdb_obj E ?l1 a)" using assms(3) by (simp add: f(2))
  from sdb_Finalise_core(5) [OF f(1) this, of True] show "so_freeze (sdb_obj E (sdb_Finalise E True ?l1) a)"
    using assms(2) by (simp add: f(2))
qed

text \<open>The source shard executes a freeze (an epoch after S3, a reachable state) of an
  account that has a balance or a nonce and has not destroyed itself: afterwards the account is
  frozen with its balance and nonce unchanged, no other account's balance or nonce changes, and
  the load map is untouched.\<close>

lemma sttx_source_freezes:
  assumes "account_tries_ok E" and "sdb_reachable E l"
    and "IsS3 config (hd_Epoch header)" and "hd_ShardID header = sttx_SourceShardID stx" and "sttx_ToFreeze stx"
    and "fst (sdb_GetBalance E (sttx_Address stx) l) \<noteq> 0 \<or> fst (sdb_GetNonce E (sttx_Address stx) l) \<noteq> 0"
    and "\<not> fst (sdb_HasSuicided E (sttx_Address stx) l)"
  shows "\<exists>r l' stx'. ApplyStateTransferTransaction E F T config l header m (Some stx) = Some (Some r, l', m, stx')
    \<and> fst (sdb_GetFreezeState E (sttx_Address stx) l')
    \<and> (\<forall>c. \<not> fst (sdb_HasSuicided E c l) \<longrightarrow>
        fst (sdb_GetBalance E c l') = fst (sdb_GetBalance E c l)
        \<and> fst (sdb_GetNonce E c l') = fst (sdb_GetNonce E c l))"
proof -
  have inv: "sdb_inv E l" using sdb_reachable_inv [OF assms(1,2)] by simp
  obtain l' where "sttx_source_freeze E True (sttx_Address stx) l = Some ([], l')"
      "so_freeze (sdb_obj E l' (sttx_Address stx))"
      "\<And>c. \<not> so_suicided (sdb_obj E l c) \<Longrightarrow> so_Balance (sdb_obj E l' c) = so_Balance (sdb_obj E l c)
        \<and> so_Nonce (sdb_obj E l' c) = so_Nonce (sdb_obj E l c)"
    using sttx_source_freeze_core [OF inv, of "sttx_Address stx"] assms(6,7)
    unfolding sdb_getters_obj sdb_HasSuicided_obj by metis
  then show ?thesis
    using assms(3-5)
    by (auto simp: ApplyStateTransferTransaction_def sdb_getters_obj sdb_HasSuicided_obj Let_def split: prod.split)
qed

text \<open>A freeze of an account that does not exist is lost: after the source shard has
  executed it (an epoch after S3, no validator cached), the account is not frozen and still
  does not exist, because finalising deletes the empty account that was created for it.\<close>

lemma sttx_freeze_of_empty_lost:
  assumes "account_tries_ok E" and "sdb_reachable E l" and "stateValidators l = []"
    and "IsS3 config (hd_Epoch header)" and "hd_ShardID header = sttx_SourceShardID stx" and "sttx_ToFreeze stx"
    and "\<not> fst (sdb_Exist E (sttx_Address stx) l)"
  shows "\<exists>r l' stx'. ApplyStateTransferTransaction E F T config l header m (Some stx) = Some (Some r, l', m, stx')
    \<and> \<not> fst (sdb_GetFreezeState E (sttx_Address stx) l') \<and> \<not> fst (sdb_Exist E (sttx_Address stx) l')"
proof -
  let ?a = "sttx_Address stx"
  let ?c = "sdb_CreateAccount E ?a (sdb_loaded E ?a l)"
  let ?b = "sdb_SetBalance E ?a 0 ?c"
  have inv: "sdb_inv E l" using sdb_reachable_inv [OF assms(1,2)] by simp
  note ci = sdb_setters_inv(5) [OF sdb_setters_inv(6) [OF inv, of ?a], of ?a]
  note bi = sdb_setters_inv(2) [OF ci, of ?a 0]
  have live: "sdb_live E l ?a = None" using assms(7) by (simp add: sdb_Exist_eq)
  let ?s = "sdb_obj E ?b ?a" and ?l1 = "sdb_SetFreezeState E ?a True ?b"
  obtain k where "sdb_obj E ?c ?a = so_setBalance k (sdb_fresh E ?a)"
    by (cases "sdb_peek E l ?a") (auto simp: sdb_CreateAccount_obj sdb_fresh_def so_setBalance_def
        so_newObject_def so_setNonce_def zeroAccount_def Let_def)
  then have s: "?s = so_setBalance 0 (so_setBalance k (sdb_fresh E ?a))"
    using sdb_SetBalance_obj [OF ci, of ?a 0 ?a] by simp
  obtain n where n: "sdb_GetOrNewStateObject E ?a ?b = (?s, n)" "sdb_holds E ?s n" "so_address ?s = ?a"
    using sdb_GetOrNew_cases [OF bi] by metis
  have l1: "?l1 = sdb_write ?a (so_setFreezeState True) (sdb_append (freezeChange ?a (so_freeze ?s)) n)"
    using n by (simp add: sdb_SetFreezeState_def so_SetFreezeState_def)
  have obj: "gm_get (stateObjects ?l1) ?a = Some (so_setFreezeState True ?s)"
    using n(2,3) by (simp add: l1 sdb_write_objects sdb_holds_def)
  have dirty: "?a \<in> set (gm_keys (dirties (sdb_journal ?l1)))"
    unfolding gm_keys_iff l1 by (simp add: sdb_append_def journal_append_def journal_dirty_def Let_def)
  have val: "stateValidators ?l1 = []" using assms(3) by simp
  have e: "so_empty E (so_setFreezeState True ?s)"
    using sdb_fresh_sel(8) [of E ?a] by (simp add: s so_empty_def so_setFreezeState_def so_setBalance_def)
  let ?f = "sdb_Finalise E True ?l1"
  have "gm_get (stateObjects ?f) ?a = Some (so_finalised E True (so_setFreezeState True ?s))"
    using obj dirty val by (simp add: sdb_Finalise_def sdb_finalise_fold Let_def)
  from sdb_peek_cached [OF this, of E] e have "sdb_live E ?f ?a = None"
    by (simp add: sdb_live_def so_finalised_def)
  then have "\<not> fst (sdb_GetFreezeState E ?a ?f)" "\<not> fst (sdb_Exist E ?a ?f)"
    by (simp_all add: sdb_getters_obj sdb_obj_def sdb_Exist_eq)
  then show ?thesis
    using assms(4,5,6) live
    by (auto simp: ApplyStateTransferTransaction_def sttx_source_freeze_def sdb_settle_def sdb_Exist_eq [of E ?a l]
        Let_def split: prod.split)
qed

text \<open>On the source shard the commit of a state transfer (an epoch after S3, a reachable
  load map) changes the load map only: the address maps to the target shard, every other
  address maps where it did, and the account state is the same.\<close>

lemma sttx_source_commits:
  assumes "lm_reachable F m" and "IsS3 config (hd_Epoch header)"
    and "hd_ShardID header = sttx_SourceShardID stx" and "\<not> sttx_ToFreeze stx"
    and "\<not> lm_suicided F m c"
  shows "\<exists>r m' stx'. ApplyStateTransferTransaction E F T config l header m (Some stx) = Some (Some r, l, m', stx')
    \<and> fst (lm_GetTargetShardID F c m') =
        (if c = sttx_Address stx then sttx_TargetShardID stx else fst (lm_GetTargetShardID F c m))"
  using assms(2-4) lm_move(3) [OF assms(1) refl assms(5), of True "sttx_Address stx" "sttx_TargetShardID stx"]
  by (auto simp: ApplyStateTransferTransaction_def sttx_source_commit_def lm_settle_def Let_def split: prod.split)

text \<open>What executing the two transactions of a migration does. The source shard freezes an
  account that has a balance or a nonce, then runs any methods of its account state that do not
  touch the flag of the account or destroy or recreate it. When the commit transaction carries
  the balance and the nonce of the account in that state and the target shard executes it, the
  account has on the target shard exactly the balance and the nonce it had on the source shard
  before the freeze, although other transactions ran in between. The source shard still has the
  balance too. (Epochs after S3, reachable states.)\<close>

lemma sttx_migration_carries_account:
  assumes "account_tries_ok E" and "sdb_reachable E l" and "sdb_reachable E lt" and "lm_reachable F mt"
    and "IsS3 config (hd_Epoch hs)" and "IsS3 config (hd_Epoch ht)"
    and "hd_ShardID hs = sttx_SourceShardID sf" and "sttx_ToFreeze sf" and "sttx_Address sf = a"
    and "fst (sdb_GetBalance E a l) \<noteq> 0 \<or> fst (sdb_GetNonce E a l) \<noteq> 0" and "\<not> fst (sdb_HasSuicided E a l)"
    and "ApplyStateTransferTransaction E F T config l hs ms (Some sf) = Some (rf, l1, ms1, sf')"
    and "range_loop (sdb_step E) xs l1 = Some l2" and "\<forall>x \<in> set xs. \<not> st_thaws a x"
    and "hd_ShardID ht = sttx_TargetShardID sc" and "sttx_SourceShardID sc \<noteq> sttx_TargetShardID sc"
    and "\<not> sttx_ToFreeze sc" and "sttx_Address sc = a"
    and "sttx_Balance sc = Some (fst (sdb_GetBalance E a l2))" and "sttx_Nonce sc = fst (sdb_GetNonce E a l2)"
    and "\<not> fst (sdb_HasSuicided E a lt)"
  shows "\<exists>rc lt' mt' sc'. ApplyStateTransferTransaction E F T config lt ht mt (Some sc) = Some (rc, lt', mt', sc')
    \<and> fst (sdb_GetBalance E a lt') = fst (sdb_GetBalance E a l)
    \<and> fst (sdb_GetNonce E a lt') = fst (sdb_GetNonce E a l)
    \<and> fst (sdb_GetBalance E a l2) = fst (sdb_GetBalance E a l)"
proof -
  have inv: "sdb_inv E l" "sdb_inv E lt" using sdb_reachable_inv [OF assms(1)] assms(2,3) by auto
  obtain l' where f: "sttx_source_freeze E True a l = Some ([], l')" "sdb_inv E l'" "so_freeze (sdb_obj E l' a)"
      "so_Balance (sdb_obj E l' a) = so_Balance (sdb_obj E l a)" "so_Nonce (sdb_obj E l' a) = so_Nonce (sdb_obj E l a)"
    using sttx_source_freeze_core [OF inv(1), of a] assms(10,11)
    unfolding sdb_getters_obj sdb_HasSuicided_obj by metis
  have "l1 = l'"
    using assms(5,7,8,9,12) f(1) by (auto simp: ApplyStateTransferTransaction_def Let_def split: prod.splits)
  with sdb_run_frozen [OF assms(13), of a] f(2,3) assms(14) have "sdb_account E l2 a = sdb_account E l' a" by blast
  then have "so_head (sdb_obj E l2 a) = so_head (sdb_obj E l' a)" by (simp add: sdb_account_def so_view_def)
  from so_core_sel [OF so_core_head [OF this]] f(4,5) have same:
      "fst (sdb_GetBalance E a l2) = fst (sdb_GetBalance E a l)" "fst (sdb_GetNonce E a l2) = fst (sdb_GetNonce E a l)"
    by (simp_all add: sdb_getters_obj)
  obtain lt' mt' where c: "sttx_target_commit E F True sc lt mt = Some ([], lt', mt')"
      "so_Balance (sdb_obj E lt' a) = fst (sdb_GetBalance E a l2)" "so_Nonce (sdb_obj E lt' a) = fst (sdb_GetNonce E a l2)"
    using sttx_target_commit_core [OF inv(2) assms(4,19)] assms(18,20,21) unfolding sdb_HasSuicided_obj by metis
  show ?thesis
    using c same assms(6,15-17)
    by (auto simp: ApplyStateTransferTransaction_def sdb_getters_obj Let_def split: prod.split)
qed

section \<open>Incoming receipts\<close>

text \<open>A state between transactions: no account has destroyed itself without being finalised,
  and an account that was deleted left no balance behind, which \<open>CreateAccount\<close> would carry
  over.\<close>

definition so_clean :: "'tr Object \<Rightarrow> bool" where
  "so_clean s \<longleftrightarrow> \<not> so_suicided s \<and> (so_deleted s \<longrightarrow> so_Balance s = 0)"

definition sdb_clean :: "('d, 'tr, 'v) sdb_env \<Rightarrow> ('d, 'tr, 'v) DB \<Rightarrow> bool" where
  "sdb_clean E l \<longleftrightarrow> (\<forall>a. pred_option so_clean (sdb_peek E l a))"

lemma sdb_clean_obj: "sdb_clean E l \<Longrightarrow> \<not> so_suicided (sdb_obj E l a)"
  unfolding sdb_clean_def
  by (erule allE [of _ a], cases "sdb_peek E l a") (auto simp: sdb_obj_peek so_clean_def)

lemma sdb_clean_upd:
  "sdb_clean E l \<Longrightarrow> sdb_peek E l' = (sdb_peek E l)(a := Some s) \<Longrightarrow> so_clean s \<Longrightarrow> sdb_clean E l'"
  by (simp add: sdb_clean_def)

lemma sdb_clean_tweak: "sdb_clean E l \<Longrightarrow> sdb_tweak E a l l' \<Longrightarrow> sdb_clean E l'"
  using sdb_clean_obj [of E l a]
  by (auto simp: sdb_tweak_def sdb_clean_def so_clean_def dest!: so_core_sel)

lemma sdb_clean_alike: "sdb_clean E l \<Longrightarrow> sdb_alike E l l' \<Longrightarrow> sdb_clean E l'"
proof -
  have "pred_option so_clean y" if "pred_option so_clean x" "rel_option so_alike x y" for x y :: "'b Object option"
    using that by (cases rule: option.rel_cases [OF that(2)])
      (auto simp: so_clean_def so_alike_def dest!: so_core_sel)
  then show "sdb_clean E l \<Longrightarrow> sdb_alike E l l' \<Longrightarrow> sdb_clean E l'"
    unfolding sdb_clean_def sdb_alike_def by blast
qed

lemma sdb_clean_flush: "sdb_inv E l \<Longrightarrow> sdb_clean E l \<Longrightarrow> sdb_clean E (fold (sdb_flush_validator E) vs l)"
proof (induction vs arbitrary: l)
  case (Cons v vs)
  have "sdb_inv E (sdb_flush_validator E v l)"
    using sdb_flush_validators_inv [OF Cons.prems(1), of "[v]"] by simp
  with Cons sdb_clean_tweak [OF Cons.prems(2) sdb_flush_validator_tweak [OF Cons.prems(1)]] show ?case by simp
qed simp

lemma sdb_clean_Finalise:
  assumes "sdb_inv E l" and "sdb_clean E l"
  shows "sdb_clean E (sdb_Finalise E b l)"
proof -
  let ?m = "fold (sdb_flush_validator E) (stateValidators l) l"
  have "pred_option so_clean (sdb_peek E ?m a)" for a
    using sdb_clean_flush [OF assms] by (simp add: sdb_clean_def)
  moreover have "so_clean s \<Longrightarrow> so_clean (so_finalised E b s)" for s :: "'b Object"
    by (auto simp: so_clean_def so_finalised_def so_finalise_def so_Balance_def so_empty_def)
  then have "pred_option so_clean x \<Longrightarrow> pred_option so_clean (map_option (so_finalised E b) x)" for x
    by (cases x) auto
  ultimately have "pred_option so_clean (sdb_peek E (sdb_Finalise E b l) a)" for a
    using sdb_Finalise_peek [OF refl, of E b l a] by metis
  then show ?thesis by (simp add: sdb_clean_def)
qed

lemma sdb_clean_ensure:
  assumes "sdb_clean E l"
  shows "sdb_clean E (sdb_ensure E a l)" and "sdb_core E (sdb_ensure E a l) c = sdb_core E l c"
proof -
  have p: "so_Balance p = 0" if "sdb_live E l a = None" "sdb_peek E l a = Some p" for p
    using assms [unfolded sdb_clean_def, rule_format, of a] that
    by (auto simp: so_clean_def sdb_live_def split: if_splits)
  show "sdb_core E (sdb_ensure E a l) c = sdb_core E l c"
    using p by (auto simp: sdb_ensure_obj so_core_def sdb_obj_def [of E l a] split: option.split)
  show "sdb_clean E (sdb_ensure E a l)"
  proof (cases "sdb_live E l a")
    case None
    let ?s = "case sdb_peek E l a of None \<Rightarrow> sdb_fresh E a
      | Some p \<Rightarrow> so_setBalance (acc_Balance (so_data p)) (sdb_fresh E a)"
    have "so_address ?s = a" by (simp split: option.split)
    then have "sdb_peek E (sdb_ensure E a l) = (sdb_peek E l)(a := Some ?s)"
      using None by (simp add: sdb_ensure_def sdb_Exist_eq sdb_CreateAccount_eq)
    then show ?thesis
      by (rule sdb_clean_upd [OF assms]) (auto simp: so_clean_def so_setBalance_def split: option.split)
  qed (use assms in \<open>simp add: sdb_ensure_def sdb_Exist_eq sdb_clean_def\<close>)
qed

lemma sdb_clean_AddBalance:
  assumes "sdb_inv E l" and "sdb_clean E l"
  shows "sdb_clean E (sdb_AddBalance E a x l)"
proof (cases "so_freeze (sdb_obj E l a)")
  case True
  then show ?thesis using assms(2) sdb_frozen_quiet(1) [OF True, of x] by (simp add: sdb_clean_def)
next
  case False
  let ?s = "sdb_obj E l a"
  obtain m where m: "sdb_GetOrNewStateObject E a l = (?s, m)" "sdb_holds E ?s m" "so_address ?s = a"
      "sdb_peek E m = (sdb_peek E l)(a := Some ?s)"
    using assms(1) by (rule sdb_GetOrNew_cases)
  have "sdb_peek E (sdb_AddBalance E a x l) = (sdb_peek E l)(a := Some (if x = 0 then ?s else so_setBalance (so_Balance ?s + x) ?s))"
    using False m sdb_peek_write_append [OF m(2)]
    by (simp add: sdb_AddBalance_def so_AddBalance_def so_SetBalance_def sdb_getFreezeState_def so_FreezeState_def)
  then show ?thesis
    by (rule sdb_clean_upd [OF assms(2)])
      (use sdb_clean_obj [OF assms(2), of a] in \<open>simp add: so_clean_def so_setBalance_def\<close>)
qed

lemma incoming_step:
  assumes "account_writes_ok E" and "account_tries_ok E" and "sdb_inv E l" and "sdb_clean E l"
  obtains h l' where "sdb_IntermediateRoot E s3 (sdb_AddBalance E a x (sdb_ensure E a l)) = Some (h, l')"
    and "sdb_inv E l'" and "sdb_clean E l'"
    and "\<And>c. so_Balance (sdb_obj E l' c) = so_Balance (sdb_obj E l c) + (if c = a \<and> \<not> so_freeze (sdb_obj E l a) then x else 0)"
    and "\<And>c. so_freeze (sdb_obj E l' c) \<Longrightarrow> so_freeze (sdb_obj E l c)"
proof -
  let ?e = "sdb_ensure E a l" and ?b = "sdb_AddBalance E a x (sdb_ensure E a l)"
  note ei = sdb_ensure_inv [OF assms(3), of a]
  note bi = sdb_setters_inv(1) [OF ei, of a x]
  note ec = sdb_clean_ensure [OF assms(4)]
  note bc = sdb_clean_AddBalance [OF ei ec(1), of a x]
  obtain h l' where r: "sdb_IntermediateRoot E s3 ?b = Some (h, l')" "sdb_inv E l'" "sdb_alike E (sdb_Finalise E s3 ?b) l'"
    using sdb_IntermediateRoot_alike [OF assms(1,2) bi] by blast
  have clean: "sdb_clean E l'" using sdb_clean_alike [OF sdb_clean_Finalise [OF bi bc] r(3)] .
  have core: "so_Balance (sdb_obj E l' c) = so_Balance (sdb_obj E ?b c)"
    "so_freeze (sdb_obj E l' c) \<Longrightarrow> so_freeze (sdb_obj E ?b c)" for c
    using so_core_sel [OF sdb_alike_core [OF r(3), of c]] sdb_Finalise_core(1,4) [OF bi sdb_clean_obj [OF bc], of s3 c]
    by auto
  have e: "so_Balance (sdb_obj E ?e c) = so_Balance (sdb_obj E l c)" "so_freeze (sdb_obj E ?e c) = so_freeze (sdb_obj E l c)" for c
    using so_core_sel [OF ec(2) [of a c]] by auto
  note add = sdb_AddBalance_obj [OF ei, of a x]
  show thesis
  proof (rule that [OF r(1,2) clean])
    show "so_Balance (sdb_obj E l' c) = so_Balance (sdb_obj E l c) + (if c = a \<and> \<not> so_freeze (sdb_obj E l a) then x else 0)" for c
      using core(1) [of c] e by (auto simp: add)
    show "so_freeze (sdb_obj E l c)" if "so_freeze (sdb_obj E l' c)" for c
      using core(2) [OF that] e by (auto simp: add split: if_splits)
  qed
qed

definition cx_valid :: "CXReceipt option \<Rightarrow> bool" where
  "cx_valid cx \<longleftrightarrow> Option.bind cx cx_To \<noteq> None"

definition cx_credit :: "address \<Rightarrow> CXReceipt option \<Rightarrow> int" where
  "cx_credit c cx = (if Option.bind cx cx_To = Some c then cx_Amount (the cx) else 0)"

lemma incoming_loop:
  assumes "account_writes_ok E" and "account_tries_ok E" and "sdb_inv E l" and "sdb_clean E l"
    and "\<forall>cx \<in> set cxs. cx_valid cx" and "\<not> so_freeze (sdb_obj E l c)"
  shows "\<exists>l'. ApplyIncomingReceipts_loop E s3 (cxs @ rest) l = ApplyIncomingReceipts_loop E s3 rest l'
    \<and> so_Balance (sdb_obj E l' c) = so_Balance (sdb_obj E l c) + (\<Sum>cx \<leftarrow> cxs. cx_credit c cx)"
  using assms(3-6)
proof (induction cxs arbitrary: l)
  case (Cons cx cxs)
  then obtain a where a: "Option.bind cx cx_To = Some a" by (auto simp: cx_valid_def)
  obtain h l1 where s: "sdb_IntermediateRoot E s3 (sdb_AddBalance E a (cx_Amount (the cx)) (sdb_ensure E a l)) = Some (h, l1)"
      "sdb_inv E l1" "sdb_clean E l1"
      "so_Balance (sdb_obj E l1 c) = so_Balance (sdb_obj E l c) + (if c = a \<and> \<not> so_freeze (sdb_obj E l a) then cx_Amount (the cx) else 0)"
      "\<not> so_freeze (sdb_obj E l1 c)"
    using incoming_step [OF assms(1,2) Cons.prems(1,2)] Cons.prems(4) by metis
  from Cons.IH [OF s(2,3) _ s(5)] Cons.prems(3) obtain l' where
    "ApplyIncomingReceipts_loop E s3 (cxs @ rest) l1 = ApplyIncomingReceipts_loop E s3 rest l'"
    "so_Balance (sdb_obj E l' c) = so_Balance (sdb_obj E l1 c) + (\<Sum>cx \<leftarrow> cxs. cx_credit c cx)" by auto
  then show ?case using a s(1,4) Cons.prems(4) by (auto simp: cx_credit_def)
qed auto

text \<open>(C27) Incoming receipts, in a reachable state between transactions and with tries that
  can be written: the receipts before the first invalid one are credited, each its amount to
  its recipient unless that is frozen, and no other balance changes; the call fails with the
  error for invalid receipts exactly if there is one, and does not panic. So an account that is
  not frozen gains exactly the sum of the amounts addressed to it, also when the call fails.\<close>

theorem incoming_receipts_credited:
  assumes "account_writes_ok E" and "account_tries_ok E" and "sdb_reachable E l" and "sdb_clean E l"
    and "\<forall>cx \<in> set cxs. cx_valid cx" and "rest = [] \<or> \<not> cx_valid (hd rest)"
    and "\<not> fst (sdb_GetFreezeState E c l)"
  shows "\<exists>l'. ApplyIncomingReceipt E config header (Some (cxs @ rest)) l =
      Some (if rest = [] then None else Some errInvalidReceipt, l')
    \<and> fst (sdb_GetBalance E c l') = fst (sdb_GetBalance E c l) + (\<Sum>cx \<leftarrow> cxs. cx_credit c cx)"
proof -
  have inv: "sdb_inv E l" using sdb_reachable_inv [OF assms(2,3)] by simp
  have "ApplyIncomingReceipts_loop E s3 rest l' = Some (if rest = [] then None else Some errInvalidReceipt, l')" for s3 l'
    using assms(6) by (cases rest) (auto simp: cx_valid_def)
  then show ?thesis
    using incoming_loop [OF assms(1,2) inv assms(4,5), of c "IsS3 config (hd_Epoch header)" rest] assms(7)
    by (auto simp: ApplyIncomingReceipt_def sdb_getters_obj)
qed

section \<open>Concrete transfers\<close>

definition demo_config :: ChainConfig where
  "demo_config = AllProtocolChanges"

definition demo_header :: "u32 \<Rightarrow> Header" where
  "demo_header i = \<lparr>hd_ShardID = i, hd_Epoch = Some 5\<rparr>"

lemma demo_S3 [simp]: "IsS3 demo_config (hd_Epoch (demo_header i))" "hd_ShardID (demo_header i) = i"
  by (simp_all add: IsS3_def demo_config_def AllProtocolChanges_def demo_header_def)

definition tx_freeze_demo :: "address \<Rightarrow> StateTransferTransaction" where
  "tx_freeze_demo a = NewStateTransferTransaction 0 1 0 a (Some 0) 0 [] True 2"

lemma tx_freeze_demo_sel [simp]:
  "sttx_SourceShardID (tx_freeze_demo a) = 0" "sttx_ToFreeze (tx_freeze_demo a)" "sttx_Address (tx_freeze_demo a) = a"
  by (simp_all add: tx_freeze_demo_def NewStateTransferTransaction_def sttx_getters)

lemma sdb_demo_clean: "sdb_clean sdb_demo_env sdb_demo"
  by (auto simp: sdb_clean_def so_clean_def sdb_peek_def sdb_getDeletedStateObject_def sdb_demo_def sdb_New_def
      sdb_demo_env_def gm_getd_def so_newObject_def Let_def split: option.split)

lemma sdb_demo_not_suicided: "\<not> fst (sdb_HasSuicided sdb_demo_env a sdb_demo)"
  using sdb_clean_obj [OF sdb_demo_clean] by (simp add: sdb_HasSuicided_obj)

lemma sdb_demo_writes: "account_writes_ok sdb_demo_env"
  by (auto simp: account_writes_ok_def trie_stores_def trie_total_def sdb_demo_env_def gm_getd_def)

lemma lm_demo_not_suicided: "\<not> lm_suicided lm_demo_env lm_demo a"
proof -
  have "\<not> lo_suicided ob" if "lm_live lm_demo_env lm_demo a = Some ob" for ob
    using that
    by (auto simp: lm_live_def lm_peek_def lm_getDeletedLoadMapObject_def lm_demo_def lm_New_def lm_demo_env_def
        lm_newObject_def gm_getd_def Let_def split: option.splits if_splits list.splits)
  then show ?thesis by (auto simp: lm_suicided_def lm_obj_def split: option.split)
qed

theorem sttx_target_takes_over_witness:
  "\<exists>r l' m' stx'. ApplyStateTransferTransaction sdb_demo_env lm_demo_env tx_demo_env demo_config sdb_demo
      (demo_header 1) lm_demo (Some tx_demo) = Some (Some r, l', m', stx')
    \<and> fst (sdb_GetBalance sdb_demo_env 9 l') = 7 \<and> fst (sdb_GetNonce sdb_demo_env 9 l') = 4
    \<and> fst (lm_GetTargetShardID lm_demo_env 9 m') = 1"
  using sttx_target_takes_over [OF sdb_demo_tries sdb_demo_reachable lm_demo_reachable,
      of demo_config "demo_header 1" tx_demo 7 tx_demo_env] sdb_demo_not_suicided lm_demo_not_suicided
  by force

lemma sttx_source_freezes_example:
  "\<exists>r l' stx'. ApplyStateTransferTransaction sdb_demo_env lm_demo_env tx_demo_env demo_config sdb_demo
      (demo_header 0) lm_demo (Some (tx_freeze_demo 9)) = Some (Some r, l', lm_demo, stx')
    \<and> fst (sdb_GetFreezeState sdb_demo_env 9 l')"
  using sttx_source_freezes [OF sdb_demo_tries sdb_demo_reachable, of demo_config "demo_header 0" "tx_freeze_demo 9"
      lm_demo_env tx_demo_env lm_demo] sdb_demo_balance sdb_demo_not_suicided
  by force

lemma sttx_freeze_of_empty_lost_example:
  "\<exists>r l' stx'. ApplyStateTransferTransaction sdb_demo_env lm_demo_env tx_demo_env demo_config sdb_demo
      (demo_header 0) lm_demo (Some (tx_freeze_demo 5)) = Some (Some r, l', lm_demo, stx')
    \<and> \<not> fst (sdb_GetFreezeState sdb_demo_env 5 l')"
proof -
  have "stateValidators sdb_demo = []" by (simp add: sdb_demo_def sdb_New_def sdb_demo_env_def)
  moreover have "\<not> fst (sdb_Exist sdb_demo_env 5 sdb_demo)"
    by (simp add: sdb_Exist_def sdb_getStateObject_def sdb_getDeletedStateObject_def sdb_demo_def sdb_New_def
        sdb_demo_env_def gm_getd_def sdb_setError_def)
  ultimately show ?thesis
    using sttx_freeze_of_empty_lost [OF sdb_demo_tries sdb_demo_reachable, of demo_config "demo_header 0"
        "tx_freeze_demo 5" lm_demo_env tx_demo_env lm_demo] by force
qed

theorem incoming_receipts_credited_witness:
  "\<exists>l'. ApplyIncomingReceipt sdb_demo_env demo_config (demo_header 0)
      (Some [Some \<lparr>cx_TxHash = 0, cx_From = 3, cx_To = Some 9, cx_ShardID = 1, cx_ToShardID = 0, cx_Amount = 4\<rparr>, None])
      sdb_demo = Some (Some errInvalidReceipt, l')
    \<and> fst (sdb_GetBalance sdb_demo_env 9 l') = 11"
  using incoming_receipts_credited [OF sdb_demo_writes sdb_demo_tries sdb_demo_reachable sdb_demo_clean, of
      "[Some \<lparr>cx_TxHash = 0, cx_From = 3, cx_To = Some 9, cx_ShardID = 1, cx_ToShardID = 0, cx_Amount = 4\<rparr>]"
      "[None]" 9 demo_config "demo_header 0"] sdb_demo_not_frozen sdb_demo_balance
  by (simp add: cx_valid_def cx_credit_def)

lemma sttx_migration_carries_account_example:
  "\<exists>sc rc lt' mt' sc'. ApplyStateTransferTransaction sdb_demo_env lm_demo_env tx_demo_env demo_config sdb_demo
      (demo_header 1) lm_demo (Some sc) = Some (rc, lt', mt', sc')
    \<and> fst (sdb_GetBalance sdb_demo_env 9 lt') = 7"
proof -
  obtain l1 where l1: "sttx_source_freeze sdb_demo_env True 9 sdb_demo = Some ([], l1)"
    using sttx_source_freeze_core [OF sdb_demo_inv, of 9] sdb_demo_balance sdb_demo_not_suicided
    unfolding sdb_getters_obj sdb_HasSuicided_obj by (metis zero_neq_numeral)
  obtain h tx where h: "sttx_Hash tx_demo_env (tx_freeze_demo 9) = (h, tx)" by fastforce
  have a: "ApplyStateTransferTransaction sdb_demo_env lm_demo_env tx_demo_env demo_config sdb_demo
      (demo_header 0) lm_demo (Some (tx_freeze_demo 9)) =
      Some (Some ((NewReceipt [] False 0)\<lparr>rc_TxHash := h, rc_GasUsed := 0\<rparr>), l1, lm_demo, Some tx)"
    using l1 h by (simp add: ApplyStateTransferTransaction_def Let_def)
  let ?l2 = "sdb_SubBalance sdb_demo_env 9 3 l1"
  let ?sc = "NewStateTransferTransaction 0 1 0 9 (Some (fst (sdb_GetBalance sdb_demo_env 9 ?l2)))
      (fst (sdb_GetNonce sdb_demo_env 9 ?l2)) [] False 2"
  have "\<exists>rc lt' mt' sc'. ApplyStateTransferTransaction sdb_demo_env lm_demo_env tx_demo_env demo_config sdb_demo
      (demo_header 1) lm_demo (Some ?sc) = Some (rc, lt', mt', sc')
    \<and> fst (sdb_GetBalance sdb_demo_env 9 lt') = fst (sdb_GetBalance sdb_demo_env 9 sdb_demo)
    \<and> fst (sdb_GetNonce sdb_demo_env 9 lt') = fst (sdb_GetNonce sdb_demo_env 9 sdb_demo)
    \<and> fst (sdb_GetBalance sdb_demo_env 9 ?l2) = fst (sdb_GetBalance sdb_demo_env 9 sdb_demo)"
    by (rule sttx_migration_carries_account [OF sdb_demo_tries sdb_demo_reachable sdb_demo_reachable
          lm_demo_reachable, where xs = "[StSubBalance 9 3]" and sf = "tx_freeze_demo 9", OF _ _ _ _ _ _ _ a])
      (simp_all add: sdb_demo_balance sdb_demo_not_suicided NewStateTransferTransaction_def sttx_getters
        del: tx_freeze_demo_sel, simp_all add: tx_freeze_demo_def NewStateTransferTransaction_def)
  then show ?thesis unfolding sdb_demo_balance by blast
qed

end
