(* ===== verification/Commit_Pool.thy ===== *)
theory Commit_Pool
  imports State_Transfer Managed_State
begin

text \<open>
  The commit pool of a follower, \<open>atomic/commit_pool.go\<close>: the transactions that wait to be
  frozen, are frozen, and wait to be committed, the channels that wake up the handlers of the
  two phases, and the processing of a new block.

  A channel is unbuffered, so a send is a meeting of two goroutines. Sending is therefore not
  part of the functions here: \<open>cp_reset_pre\<close> and \<open>cp_reset_post\<close> are the loop body of \<open>reset\<close>
  before and after its \<open>SetSignal\<close>, and the theory of the handlers puts them together as
  steps. A channel that was never made is a missing key of \<open>Signal\<close>.
\<close>

section \<open>The pool\<close>

datatype chan = ChanOpen | ChanClosed

record ('d, 'tr, 'v, 'e, 'tl) CommitPool =
  cp_currentState :: "('d, 'tr, 'v) DB option"
  cp_pendingState :: "('d, 'tr, 'v) ManagedState option"
  cp_currentLoadMapState :: "('e, 'tl) LoadMapDB option"
  cp_freezeCache :: CacheShard
  cp_cached :: CacheShard
  cp_committed :: CacheShard
  cp_Signal :: "(u64, chan) gomap"
  cp_committedTxList :: "(u64, int) gomap"
  cp_freezeReadTxList :: "(u64, int) gomap"
  cp_committedReadTxList :: "(u64, int) gomap"

definition minProcessSttxNum :: nat where
  "minProcessSttxNum = 1"

definition cp_new :: "('d, 'tr, 'v, 'e, 'tl) CommitPool" where
  "cp_new = \<lparr>cp_currentState = None, cp_pendingState = None, cp_currentLoadMapState = None,
     cp_freezeCache = NewCache, cp_cached = NewCache, cp_committed = NewCache, cp_Signal = [],
     cp_committedTxList = [], cp_freezeReadTxList = [], cp_committedReadTxList = []\<rparr>"

subsection \<open>Reading the caches\<close>

text \<open>The callback of \<open>FreezeCache\<close> and of \<open>Committed\<close>: take the transactions that were not
  taken before. The state of the loop is the list built so far and the marks.\<close>

definition cp_take_unread ::
    "u64 \<Rightarrow> StateTransferTransaction \<Rightarrow> StateTransferTransaction list \<times> (u64, int) gomap \<Rightarrow>
      bool \<times> StateTransferTransaction list \<times> (u64, int) gomap" where
  "cp_take_unread index tx s =
     (True, if gm_get (snd s) index = None then (fst s @ [tx], gm_set index 1 (snd s)) else s)"

definition cp_FreezeCache ::
    "('d, 'tr, 'v, 'e, 'tl) CommitPool \<Rightarrow>
      (StateTransferTransaction list \<times> error option) \<times> ('d, 'tr, 'v, 'e, 'tl) CommitPool" where
  "cp_FreezeCache pool =
     (if cs_Count (cp_freezeCache pool) < minProcessSttxNum then (([], None), pool)
      else let (cache, marks) = cs_Range cp_take_unread (cp_freezeCache pool) ([], cp_freezeReadTxList pool)
           in ((cache, None), pool\<lparr>cp_freezeReadTxList := marks\<rparr>))"

definition cp_Committed ::
    "('d, 'tr, 'v, 'e, 'tl) CommitPool \<Rightarrow>
      (StateTransferTransaction list \<times> error option) \<times> ('d, 'tr, 'v, 'e, 'tl) CommitPool" where
  "cp_Committed pool =
     (if cs_Count (cp_committed pool) < minProcessSttxNum then (([], None), pool)
      else let (cache, marks) = cs_Range cp_take_unread (cp_committed pool) ([], cp_committedReadTxList pool)
           in ((cache, None), pool\<lparr>cp_committedReadTxList := marks\<rparr>))"

definition cp_Cached ::
    "('d, 'tr, 'v, 'e, 'tl) CommitPool \<Rightarrow> StateTransferTransaction list \<times> error option" where
  "cp_Cached pool = (cs_Range (\<lambda>index tx cache. (True, cache @ [tx])) (cp_cached pool) [], None)"

definition cp_CachedById ::
    "u64 \<Rightarrow> ('d, 'tr, 'v, 'e, 'tl) CommitPool \<Rightarrow> StateTransferTransaction option" where
  "cp_CachedById index pool = cs_Get (cp_cached pool) index"

subsection \<open>Moving transactions\<close>

definition cp_addTxFreeze ::
    "StateTransferTransaction \<Rightarrow> ('d, 'tr, 'v, 'e, 'tl) CommitPool \<Rightarrow> ('d, 'tr, 'v, 'e, 'tl) CommitPool" where
  "cp_addTxFreeze tx pool = pool\<lparr>cp_freezeCache := cs_Set (sttx_Index tx) tx (cp_freezeCache pool)\<rparr>"

definition cp_deleteTxFromFreeze ::
    "u64 \<Rightarrow> ('d, 'tr, 'v, 'e, 'tl) CommitPool \<Rightarrow> ('d, 'tr, 'v, 'e, 'tl) CommitPool" where
  "cp_deleteTxFromFreeze index pool = pool\<lparr>cp_freezeCache := cs_Delete index (cp_freezeCache pool)\<rparr>"

definition cp_addTxCached ::
    "StateTransferTransaction \<Rightarrow> ('d, 'tr, 'v, 'e, 'tl) CommitPool \<Rightarrow> ('d, 'tr, 'v, 'e, 'tl) CommitPool" where
  "cp_addTxCached tx pool = pool\<lparr>cp_cached := cs_Set (sttx_Index tx) tx (cp_cached pool)\<rparr>"

definition cp_deleteTxFromCached ::
    "u64 \<Rightarrow> ('d, 'tr, 'v, 'e, 'tl) CommitPool \<Rightarrow> ('d, 'tr, 'v, 'e, 'tl) CommitPool" where
  "cp_deleteTxFromCached index pool = pool\<lparr>cp_cached := cs_Delete index (cp_cached pool)\<rparr>"

definition cp_addTxCommitted ::
    "StateTransferTransaction \<Rightarrow> ('d, 'tr, 'v, 'e, 'tl) CommitPool \<Rightarrow> ('d, 'tr, 'v, 'e, 'tl) CommitPool" where
  "cp_addTxCommitted tx pool = pool\<lparr>cp_committed := cs_Set (sttx_Index tx) tx (cp_committed pool)\<rparr>"

definition cp_deleteTxFromCommitted ::
    "u64 \<Rightarrow> ('d, 'tr, 'v, 'e, 'tl) CommitPool \<Rightarrow> ('d, 'tr, 'v, 'e, 'tl) CommitPool" where
  "cp_deleteTxFromCommitted index pool = pool\<lparr>cp_committed := cs_Delete index (cp_committed pool)\<rparr>"

subsection \<open>Signals\<close>

definition cp_InitSignal ::
    "u64 \<Rightarrow> ('d, 'tr, 'v, 'e, 'tl) CommitPool \<Rightarrow> ('d, 'tr, 'v, 'e, 'tl) CommitPool" where
  "cp_InitSignal index pool = pool\<lparr>cp_Signal := gm_set index ChanOpen (cp_Signal pool)\<rparr>"

definition cp_GetSignal :: "u64 \<Rightarrow> ('d, 'tr, 'v, 'e, 'tl) CommitPool \<Rightarrow> bool" where
  "cp_GetSignal index pool = (gm_get (cp_Signal pool) index \<noteq> None)"

text \<open>What a send on a channel can do: wait for a receiver, panic on a closed channel, or block
  for ever on a nil channel.\<close>

datatype send = SendWaits | SendPanics | SendBlocks

definition cp_SetSignal :: "u64 \<Rightarrow> ('d, 'tr, 'v, 'e, 'tl) CommitPool \<Rightarrow> send" where
  "cp_SetSignal index pool = (case gm_get (cp_Signal pool) index of
      None \<Rightarrow> SendBlocks | Some ChanOpen \<Rightarrow> SendWaits | Some ChanClosed \<Rightarrow> SendPanics)"

text \<open>Closing a nil channel or a closed one panics.\<close>

definition cp_CloseSignal ::
    "u64 \<Rightarrow> ('d, 'tr, 'v, 'e, 'tl) CommitPool \<Rightarrow> ('d, 'tr, 'v, 'e, 'tl) CommitPool option" where
  "cp_CloseSignal index pool =
     (if gm_get (cp_Signal pool) index = Some ChanOpen
      then Some (pool\<lparr>cp_Signal := gm_set index ChanClosed (cp_Signal pool)\<rparr>) else None)"

definition cp_CloseAllSignal ::
    "('d, 'tr, 'v, 'e, 'tl) CommitPool \<Rightarrow> ('d, 'tr, 'v, 'e, 'tl) CommitPool option" where
  "cp_CloseAllSignal pool = range_loop cp_CloseSignal (gm_keys (cp_Signal pool)) pool"

subsection \<open>The two phases\<close>

definition cp_addFreezeTransaction ::
    "u64 \<Rightarrow> u32 \<Rightarrow> u32 \<Rightarrow> address \<Rightarrow> ('d, 'tr, 'v, 'e, 'tl) CommitPool \<Rightarrow>
      error option \<times> ('d, 'tr, 'v, 'e, 'tl) CommitPool" where
  "cp_addFreezeTransaction index source target address pool =
     (let newTx = NewStateTransferTransaction source target 0 address (Some 0) 0 [] True index;
          pool = cp_addTxFreeze newTx pool
      in (None, if \<not> cp_GetSignal index pool then cp_InitSignal index pool else pool))"

definition cp_addCachedTransaction ::
    "StateTransferTransaction \<Rightarrow> ('d, 'tr, 'v, 'e, 'tl) CommitPool \<Rightarrow> ('d, 'tr, 'v, 'e, 'tl) CommitPool" where
  "cp_addCachedTransaction tx pool =
     (let newTx = sttx_SetToFreeze False (the (sttx_Copy (Some tx)))
      in if cs_Get (cp_cached pool) (sttx_Index tx) = None then cp_addTxCached newTx pool else pool)"

definition cp_addCommittedTransaction ::
    "u32 \<Rightarrow> u32 \<Rightarrow> address \<Rightarrow> u64 \<Rightarrow> StateData \<Rightarrow> ('d, 'tr, 'v, 'e, 'tl) CommitPool \<Rightarrow>
      ('d, 'tr, 'v, 'e, 'tl) CommitPool" where
  "cp_addCommittedTransaction source target addr index s pool =
     (let newTx = NewStateTransferTransaction source target (stp_BlockHeight (std_StateProof s)) addr
            (stt_Balance (std_State s)) (stt_Nonce (std_State s)) (stt_Data (std_State s)) False index
      in if cs_Get (cp_committed pool) index = None then cp_addTxCommitted newTx pool else pool)"

definition cp_RecordCommittedTx ::
    "u64 \<Rightarrow> ('d, 'tr, 'v, 'e, 'tl) CommitPool \<Rightarrow> ('d, 'tr, 'v, 'e, 'tl) CommitPool" where
  "cp_RecordCommittedTx index pool = pool\<lparr>cp_committedTxList := gm_set index 1 (cp_committedTxList pool)\<rparr>"

definition cp_GetCommittedTx :: "u64 \<Rightarrow> ('d, 'tr, 'v, 'e, 'tl) CommitPool \<Rightarrow> int option" where
  "cp_GetCommittedTx index pool = gm_get (cp_committedTxList pool) index"

subsection \<open>A new block\<close>

record PoolHeader =
  ph_Hash :: hash
  ph_ParentHash :: hash
  ph_Number :: u64
  ph_Root :: hash
  ph_LoadMapRoot :: hash

text \<open>The chain as the pool sees it: its shard, the databases behind \<open>StateAt\<close> and
  \<open>LoadMapStateAt\<close>, and the current block.\<close>

record ('d, 'e) PoolChain =
  ch_ShardID :: u32
  ch_stateCache :: 'd
  ch_loadMapStateCache :: 'e
  ch_header :: PoolHeader
  ch_sttxs :: "StateTransferTransaction list"

text \<open>The first part of \<open>reset\<close>, up to its loop: the pool with the new states and the
  transactions that the loop will go through; none when \<open>reset\<close> returns early, on a fork of at
  most 64 blocks or when a state cannot be opened. Both heads may be nil; a nil new head with an
  old one panics. Block numbers are compared as floats in the code, which is exact up to \<open>2^53\<close>.\<close>

definition cp_reset_open ::
    "('d, 'tr, 'v) sdb_env \<Rightarrow> ('e, 'tl) lm_env \<Rightarrow> ('d, 'e) PoolChain \<Rightarrow> PoolHeader \<Rightarrow>
      ('d, 'tr, 'v, 'e, 'tl) CommitPool \<Rightarrow>
      (('d, 'tr, 'v, 'e, 'tl) CommitPool \<times> StateTransferTransaction list) option" where
  "cp_reset_open E F chain newHead pool =
     (case lm_New F (ph_LoadMapRoot newHead) (ch_loadMapStateCache chain) of
        Inl err \<Rightarrow> Some (pool, [])
      | Inr loadMapdb \<Rightarrow>
          let pool = pool\<lparr>cp_currentLoadMapState := Some loadMapdb\<rparr>
          in (case sdb_New E (ph_Root newHead) (ch_stateCache chain) of
                Inl err \<Rightarrow> Some (pool, [])
              | Inr statedb \<Rightarrow>
                  map_option (\<lambda>ms. (pool\<lparr>cp_currentState := Some statedb, cp_pendingState := Some ms\<rparr>,
                                    ch_sttxs chain))
                    (ManageState E statedb)))"

definition cp_reset_start ::
    "('d, 'tr, 'v) sdb_env \<Rightarrow> ('e, 'tl) lm_env \<Rightarrow> ('d, 'e) PoolChain \<Rightarrow>
      PoolHeader option \<Rightarrow> PoolHeader option \<Rightarrow> ('d, 'tr, 'v, 'e, 'tl) CommitPool \<Rightarrow>
      (('d, 'tr, 'v, 'e, 'tl) CommitPool \<times> StateTransferTransaction list) option" where
  "cp_reset_start E F chain oldHead newHead pool =
     (case (oldHead, newHead) of
        (None, None) \<Rightarrow> cp_reset_open E F chain (ch_header chain) pool
      | (None, Some new) \<Rightarrow> cp_reset_open E F chain new pool
      | (Some old, None) \<Rightarrow> None
      | (Some old, Some new) \<Rightarrow>
          if ph_Hash old \<noteq> ph_ParentHash new \<and> \<not> \<bar>uint (ph_Number old) - uint (ph_Number new)\<bar> > 64
          then Some (pool, [])
          else cp_reset_open E F chain new pool)"

text \<open>The loop body for one transaction of the current block, up to the signal to send.\<close>

definition cp_reset_pre ::
    "StateTransferTransaction \<Rightarrow> ('d, 'tr, 'v, 'e, 'tl) CommitPool \<Rightarrow>
      ('d, 'tr, 'v, 'e, 'tl) CommitPool \<times> (u64 \<times> int) option" where
  "cp_reset_pre sttx pool =
     (let index = sttx_Index sttx
      in if sttx_ToFreeze sttx
         then let pool = cp_addCachedTransaction sttx pool;
                  pool = pool\<lparr>cp_freezeReadTxList := gm_set index 1 (cp_freezeReadTxList pool)\<rparr>
              in if cs_Get (cp_freezeCache pool) index \<noteq> None
                 then (if \<not> cp_GetSignal index pool then cp_InitSignal index pool else pool, Some (index, 1))
                 else (pool, None)
         else let pool = pool\<lparr>cp_committedReadTxList := gm_set index 1 (cp_committedReadTxList pool)\<rparr>
              in (pool, if cs_Get (cp_committed pool) index \<noteq> None then Some (index, 2) else None))"

text \<open>The rest of the loop body, after the signal was received or when there was none.\<close>

definition cp_reset_post ::
    "StateTransferTransaction \<Rightarrow> ('d, 'tr, 'v, 'e, 'tl) CommitPool \<Rightarrow> ('d, 'tr, 'v, 'e, 'tl) CommitPool" where
  "cp_reset_post sttx pool =
     (let index = sttx_Index sttx
      in if sttx_ToFreeze sttx
         then if cs_Get (cp_freezeCache pool) index \<noteq> None then cp_deleteTxFromFreeze index pool else pool
         else cp_RecordCommittedTx index (cp_deleteTxFromCommitted index pool))"

text \<open>A new pool is reset once before its event loop starts. Its caches are empty, so this reset
  sends no signal and runs to its end.\<close>

definition cp_reset_tx ::
    "StateTransferTransaction \<Rightarrow> ('d, 'tr, 'v, 'e, 'tl) CommitPool \<Rightarrow> ('d, 'tr, 'v, 'e, 'tl) CommitPool" where
  "cp_reset_tx sttx pool = cp_reset_post sttx (fst (cp_reset_pre sttx pool))"

definition NewCommitPool ::
    "('d, 'tr, 'v) sdb_env \<Rightarrow> ('e, 'tl) lm_env \<Rightarrow> ('d, 'e) PoolChain \<Rightarrow>
      ('d, 'tr, 'v, 'e, 'tl) CommitPool option" where
  "NewCommitPool E F chain = map_option (\<lambda>(pool, sttxs). fold cp_reset_tx sttxs pool)
     (cp_reset_start E F chain None (Some (ch_header chain)) cp_new)"

section \<open>The invariant\<close>

text \<open>Every cache holds a transaction under its own index, once; what waits to be frozen is
  marked so and has a channel; what is frozen or waits to be committed is not marked so, and a
  frozen one has no balance.\<close>

definition cs_keyed :: "(StateTransferTransaction \<Rightarrow> bool) \<Rightarrow> CacheShard \<Rightarrow> bool" where
  "cs_keyed P c \<longleftrightarrow> cs_ok c \<and> (\<forall>i tx. cs_Get c i = Some tx \<longrightarrow> sttx_Index tx = i \<and> P tx)"

definition cp_inv :: "('d, 'tr, 'v, 'e, 'tl) CommitPool \<Rightarrow> bool" where
  "cp_inv pool \<longleftrightarrow> cs_keyed sttx_ToFreeze (cp_freezeCache pool)
     \<and> cs_keyed (\<lambda>tx. \<not> sttx_ToFreeze tx \<and> sttx_Balance tx = None) (cp_cached pool)
     \<and> cs_keyed (\<lambda>tx. \<not> sttx_ToFreeze tx) (cp_committed pool)
     \<and> (\<forall>i. cs_Get (cp_freezeCache pool) i \<noteq> None \<longrightarrow> cp_GetSignal i pool)"

lemma cs_keyed_ops [simp]:
  "cs_keyed P NewCache" "cs_keyed P c \<Longrightarrow> P tx \<Longrightarrow> cs_keyed P (cs_Set (sttx_Index tx) tx c)"
  "cs_keyed P c \<Longrightarrow> cs_keyed P (cs_Delete i c)"
  by (auto simp: cs_keyed_def sttx_cache.get_new sttx_cache.get_put sttx_cache.get_del)

lemma NewStateTransferTransaction_sel [simp]:
  "sttx_Index (NewStateTransferTransaction s t h a b n d z i) = i"
  "sttx_ToFreeze (NewStateTransferTransaction s t h a b n d z i) = z"
  "sttx_Address (NewStateTransferTransaction s t h a b n d z i) = a"
  "sttx_Balance (NewStateTransferTransaction s t h a b n d z i) = b"
  "sttx_Nonce (NewStateTransferTransaction s t h a b n d z i) = n"
  "sttx_SourceShardID (NewStateTransferTransaction s t h a b n d z i) = s"
  "sttx_TargetShardID (NewStateTransferTransaction s t h a b n d z i) = t"
  by (simp_all add: NewStateTransferTransaction_def sttx_getters)

lemma sttx_frozen_copy [simp]:
  "sttx_Index (sttx_SetToFreeze False (the (sttx_Copy (Some tx)))) = sttx_Index tx"
  "\<not> sttx_ToFreeze (sttx_SetToFreeze False (the (sttx_Copy (Some tx))))"
  "sttx_Balance (sttx_SetToFreeze False (the (sttx_Copy (Some tx)))) = None"
  by (simp_all add: sttx_Copy_def sttx_SetToFreeze_def td_CopyFrom_def zero_txdata_def sttx_getters)

lemmas cp_move_defs = cp_addTxFreeze_def cp_deleteTxFromFreeze_def cp_addTxCached_def
  cp_deleteTxFromCached_def cp_addTxCommitted_def cp_deleteTxFromCommitted_def cp_RecordCommittedTx_def
  cp_InitSignal_def

lemma cp_inv_new: "cp_inv cp_new"
  by (simp add: cp_inv_def cp_new_def sttx_cache.get_new)

lemma cp_FreezeCache_inv: "cp_inv pool \<Longrightarrow> cp_inv (snd (cp_FreezeCache pool))"
  by (simp add: cp_FreezeCache_def cp_inv_def cp_GetSignal_def split: prod.split)

lemma cp_Committed_inv: "cp_inv pool \<Longrightarrow> cp_inv (snd (cp_Committed pool))"
  by (simp add: cp_Committed_def cp_inv_def cp_GetSignal_def split: prod.split)

lemma cp_addFreezeTransaction_inv: "cp_inv pool \<Longrightarrow> cp_inv (snd (cp_addFreezeTransaction i s t a pool))"
proof -
  have "cs_keyed sttx_ToFreeze (cs_Set i (NewStateTransferTransaction s t 0 a (Some 0) 0 [] True i) c)"
    if "cs_keyed sttx_ToFreeze c" for c
    using cs_keyed_ops(2) [OF that, of "NewStateTransferTransaction s t 0 a (Some 0) 0 [] True i"] by simp
  then show "cp_inv pool \<Longrightarrow> cp_inv (snd (cp_addFreezeTransaction i s t a pool))"
    by (auto simp: cp_addFreezeTransaction_def cp_inv_def cp_GetSignal_def cp_move_defs Let_def sttx_cache.get_put
        split: if_splits)
qed

lemma cp_addCachedTransaction_inv: "cp_inv pool \<Longrightarrow> cp_inv (cp_addCachedTransaction tx pool)"
  using cs_keyed_ops(2) [of "\<lambda>tx. \<not> sttx_ToFreeze tx \<and> sttx_Balance tx = None" "cp_cached pool"
      "sttx_SetToFreeze False (the (sttx_Copy (Some tx)))"]
  by (simp add: cp_addCachedTransaction_def cp_inv_def cp_GetSignal_def cp_move_defs Let_def)

lemma cp_addCommittedTransaction_inv: "cp_inv pool \<Longrightarrow> cp_inv (cp_addCommittedTransaction s t a i sd pool)"
  using cs_keyed_ops(2) [of "\<lambda>tx. \<not> sttx_ToFreeze tx" "cp_committed pool" "NewStateTransferTransaction s t
      (stp_BlockHeight (std_StateProof sd)) a (stt_Balance (std_State sd)) (stt_Nonce (std_State sd))
      (stt_Data (std_State sd)) False i"]
  by (simp add: cp_addCommittedTransaction_def cp_inv_def cp_GetSignal_def cp_move_defs Let_def)

lemma cp_deletes_inv:
  "cp_inv pool \<Longrightarrow> cp_inv (cp_deleteTxFromFreeze i pool)" "cp_inv pool \<Longrightarrow> cp_inv (cp_deleteTxFromCached i pool)"
  "cp_inv pool \<Longrightarrow> cp_inv (cp_deleteTxFromCommitted i pool)" "cp_inv pool \<Longrightarrow> cp_inv (cp_RecordCommittedTx i pool)"
  "cp_inv pool \<Longrightarrow> cp_inv (cp_InitSignal i pool)"
  by (auto simp: cp_inv_def cp_GetSignal_def cp_move_defs sttx_cache.get_del)

lemma cp_CloseSignal_inv: "cp_inv pool \<Longrightarrow> cp_CloseSignal i pool = Some pool' \<Longrightarrow> cp_inv pool'"
  by (auto simp: cp_CloseSignal_def cp_inv_def cp_GetSignal_def split: if_splits)

lemma cp_inv_marks [simp]:
  "cp_inv (pool\<lparr>cp_freezeReadTxList := m\<rparr>) = cp_inv pool" "cp_inv (pool\<lparr>cp_committedReadTxList := m\<rparr>) = cp_inv pool"
  "cp_inv (pool\<lparr>cp_currentState := s\<rparr>) = cp_inv pool" "cp_inv (pool\<lparr>cp_pendingState := p\<rparr>) = cp_inv pool"
  "cp_inv (pool\<lparr>cp_currentLoadMapState := l\<rparr>) = cp_inv pool"
  by (simp_all add: cp_inv_def cp_GetSignal_def)

lemma cp_reset_start_inv:
  "cp_inv pool \<Longrightarrow> cp_reset_start E F chain h h' pool = Some (pool', txs) \<Longrightarrow> cp_inv pool'"
  by (auto simp: cp_reset_start_def cp_reset_open_def Let_def split: if_splits sum.splits option.splits)

lemma cp_reset_pre_inv: "cp_inv pool \<Longrightarrow> cp_inv (fst (cp_reset_pre sttx pool))"
  using cp_addCachedTransaction_inv [of pool sttx]
  by (simp add: cp_reset_pre_def Let_def cp_deletes_inv)

lemma cp_reset_post_inv: "cp_inv pool \<Longrightarrow> cp_inv (cp_reset_post sttx pool)"
  by (simp add: cp_reset_post_def Let_def cp_deletes_inv)

lemma cp_reset_tx_idle:
  assumes "cs_store (cp_freezeCache pool) = []" and "cs_store (cp_committed pool) = []"
  shows "snd (cp_reset_pre sttx pool) = None" and "cs_store (cp_freezeCache (cp_reset_tx sttx pool)) = []"
    and "cs_store (cp_committed (cp_reset_tx sttx pool)) = []"
  using assms
  by (simp_all add: cp_reset_tx_def cp_reset_pre_def cp_reset_post_def cp_addCachedTransaction_def cp_move_defs
      cs_Get_def cs_Delete_def Let_def)

lemma NewCommitPool_inv:
  assumes "NewCommitPool E F chain = Some pool"
  shows "cp_inv pool"
proof -
  obtain p txs where "cp_reset_start E F chain None (Some (ch_header chain)) cp_new = Some (p, txs)"
    and pool: "pool = fold cp_reset_tx txs p"
    using assms unfolding NewCommitPool_def by auto
  then have "cp_inv p" using cp_reset_start_inv cp_inv_new by blast
  then show ?thesis unfolding pool
    by (induction txs arbitrary: p) (simp_all add: cp_reset_tx_def cp_reset_pre_inv cp_reset_post_inv)
qed

section \<open>What a block proposer is handed\<close>

lemma cp_take_loop:
  assumes "distinct (map fst kvs)"
  shows "fst (cs_range_loop cp_take_unread kvs (l, m)) = l @ map snd (filter (\<lambda>kv. gm_get m (fst kv) = None) kvs)
    \<and> (\<forall>j. gm_get (snd (cs_range_loop cp_take_unread kvs (l, m))) j \<noteq> None \<longleftrightarrow>
          gm_get m j \<noteq> None \<or> j \<in> fst ` set kvs)"
  using assms
proof (induction kvs arbitrary: l m)
  case (Cons kv kvs)
  obtain k v where kv: "kv = (k, v)" by (cases kv)
  show ?case
  proof (cases "gm_get m k = None")
    case True
    have "filter (\<lambda>kv. gm_get (gm_set k 1 m) (fst kv) = None) kvs = filter (\<lambda>kv. gm_get m (fst kv) = None) kvs"
      using Cons.prems kv by (intro filter_cong) (force simp del: gm_get_set simp: update_conv)+
    with True Cons.prems Cons.IH [of "l @ [v]" "gm_set k 1 m"] show ?thesis
      by (auto simp: kv cp_take_unread_def)
  next
    case False
    with Cons.prems Cons.IH [of l m] show ?thesis by (auto simp: kv cp_take_unread_def)
  qed
qed simp

text \<open>The transactions of a cache that are not marked, each once, and all marked afterwards.\<close>

definition cs_unread :: "CacheShard \<Rightarrow> (u64, int) gomap \<Rightarrow> StateTransferTransaction list" where
  "cs_unread c m = map snd (filter (\<lambda>kv. gm_get m (fst kv) = None) (cs_store c))"

lemma cs_unread_index:
  assumes "cs_keyed P c"
  shows "map sttx_Index (cs_unread c m) = filter (\<lambda>k. gm_get m k = None) (gm_keys (cs_store c))"
proof -
  have "gm_get (cs_store c) k = Some v" if "(k, v) \<in> set (cs_store c)" for k v
    using assms that by (simp add: cs_keyed_def cs_ok_def)
  then have "sttx_Index v = k" if "(k, v) \<in> set (cs_store c)" for k v
    using assms that by (auto simp: cs_keyed_def cs_Get_def)
  then have "sttx_Index (snd kv) = fst kv" if "kv \<in> set (cs_store c)" for kv
    using that by (cases kv) auto
  then show ?thesis
    by (simp add: cs_unread_def filter_map comp_def)
qed

lemma cs_unread_facts:
  assumes "cs_keyed P c"
  shows "distinct (map sttx_Index (cs_unread c m))"
    and "tx \<in> set (cs_unread c m) \<longleftrightarrow> cs_Get c (sttx_Index tx) = Some tx \<and> gm_get m (sttx_Index tx) = None"
proof -
  show "distinct (map sttx_Index (cs_unread c m))"
    using assms unfolding cs_unread_index [OF assms] cs_keyed_def cs_ok_def by simp
  have e: "(k, v) \<in> set (cs_store c) \<longleftrightarrow> cs_Get c k = Some v" for k v
    using assms by (simp add: cs_keyed_def cs_ok_def cs_Get_def)
  have "tx \<in> set (cs_unread c m) \<longleftrightarrow> (\<exists>k. (k, tx) \<in> set (cs_store c) \<and> gm_get m k = None)"
    unfolding cs_unread_def set_map set_filter by (auto simp: image_iff)
  also have "\<dots> \<longleftrightarrow> cs_Get c (sttx_Index tx) = Some tx \<and> gm_get m (sttx_Index tx) = None"
    unfolding e using assms by (auto simp: cs_keyed_def)
  finally show "tx \<in> set (cs_unread c m) \<longleftrightarrow>
      cs_Get c (sttx_Index tx) = Some tx \<and> gm_get m (sttx_Index tx) = None" .
qed

lemma cs_Range_take:
  assumes "cs_keyed P c"
  shows "fst (cs_Range cp_take_unread c ([], m)) = cs_unread c m"
    and "gm_get (snd (cs_Range cp_take_unread c ([], m))) j \<noteq> None \<longleftrightarrow> gm_get m j \<noteq> None \<or> cs_Get c j \<noteq> None"
  using cp_take_loop [of "cs_store c" "[]" m] assms gm_keys_iff [of j "cs_store c"]
  by (simp_all add: cs_Range_def cs_unread_def cs_keyed_def cs_ok_def cs_Get_def)

lemma cp_FreezeCache_spec:
  assumes "cp_inv pool"
  shows "fst (cp_FreezeCache pool) = (cs_unread (cp_freezeCache pool) (cp_freezeReadTxList pool), None)"
    and "gm_get (cp_freezeReadTxList (snd (cp_FreezeCache pool))) j \<noteq> None \<longleftrightarrow>
      gm_get (cp_freezeReadTxList pool) j \<noteq> None \<or> cs_Get (cp_freezeCache pool) j \<noteq> None"
    and "cp_FreezeCache pool = (txs, pool') \<Longrightarrow>
      \<exists>m. pool' = pool\<lparr>cp_freezeReadTxList := m\<rparr>"
proof -
  note c = cs_Range_take [of sttx_ToFreeze "cp_freezeCache pool" "cp_freezeReadTxList pool"]
  have k: "cs_keyed sttx_ToFreeze (cp_freezeCache pool)" using assms by (simp add: cp_inv_def)
  show "fst (cp_FreezeCache pool) = (cs_unread (cp_freezeCache pool) (cp_freezeReadTxList pool), None)"
    "gm_get (cp_freezeReadTxList (snd (cp_FreezeCache pool))) j \<noteq> None \<longleftrightarrow>
      gm_get (cp_freezeReadTxList pool) j \<noteq> None \<or> cs_Get (cp_freezeCache pool) j \<noteq> None"
    using c(1) [OF k] c(2) [OF k, of j]
    by (auto simp: cp_FreezeCache_def cs_Count_def minProcessSttxNum_def cs_unread_def cs_Get_def
        less_Suc_eq split: prod.split)
  show "cp_FreezeCache pool = (txs, pool') \<Longrightarrow> \<exists>m. pool' = pool\<lparr>cp_freezeReadTxList := m\<rparr>"
    unfolding cp_FreezeCache_def
    by (auto split: if_splits prod.splits) (rule exI [of _ "cp_freezeReadTxList pool'"], simp)
qed

lemma cp_Committed_spec:
  assumes "cp_inv pool"
  shows "fst (cp_Committed pool) = (cs_unread (cp_committed pool) (cp_committedReadTxList pool), None)"
    and "gm_get (cp_committedReadTxList (snd (cp_Committed pool))) j \<noteq> None \<longleftrightarrow>
      gm_get (cp_committedReadTxList pool) j \<noteq> None \<or> cs_Get (cp_committed pool) j \<noteq> None"
    and "cp_Committed pool = (txs, pool') \<Longrightarrow> \<exists>m. pool' = pool\<lparr>cp_committedReadTxList := m\<rparr>"
proof -
  note c = cs_Range_take [of "\<lambda>tx. \<not> sttx_ToFreeze tx" "cp_committed pool" "cp_committedReadTxList pool"]
  have k: "cs_keyed (\<lambda>tx. \<not> sttx_ToFreeze tx) (cp_committed pool)" using assms by (simp add: cp_inv_def)
  show "fst (cp_Committed pool) = (cs_unread (cp_committed pool) (cp_committedReadTxList pool), None)"
    "gm_get (cp_committedReadTxList (snd (cp_Committed pool))) j \<noteq> None \<longleftrightarrow>
      gm_get (cp_committedReadTxList pool) j \<noteq> None \<or> cs_Get (cp_committed pool) j \<noteq> None"
    using c(1) [OF k] c(2) [OF k, of j]
    by (auto simp: cp_Committed_def cs_Count_def minProcessSttxNum_def cs_unread_def cs_Get_def
        less_Suc_eq split: prod.split)
  show "cp_Committed pool = (txs, pool') \<Longrightarrow> \<exists>m. pool' = pool\<lparr>cp_committedReadTxList := m\<rparr>"
    unfolding cp_Committed_def
    by (auto split: if_splits prod.splits) (rule exI [of _ "cp_committedReadTxList pool'"], simp)
qed

end
