(* ===== verification/Commit_Handler.thy ===== *)
theory Commit_Handler
  imports Commit_Pool
begin

text \<open>
  The follower's side of the two phases: the handlers of \<open>atomic/commit_handler.go\<close> with the
  entry points of \<open>atomic/serverShard.go\<close>, and a follower as the interleaving of any number of
  running handlers with the event loop of its commit pool.

  A handler is cut where another goroutine can come in between: at each access to the follower
  type of the server and to the pool, at the pool's lock, and at its \<open>select\<close>. \<open>handler\<close> is the
  point where it stands, \<open>handler_run\<close> its next piece, \<open>handler_recv\<close> and \<open>handler_timeout\<close> the
  two branches of its \<open>select\<close>. A \<open>select\<close> looks its channel up when it is entered: a handler
  that found no channel waits on the nil channel until it times out, also when the channel is made
  meanwhile. A channel, once made, stays the channel of its index, so a handler that found one is
  waiting on the one that the pool has. The event loop holds the lock of the pool during the whole
  of \<open>reset\<close>, also while it waits for the receiver of a signal.
\<close>

section \<open>Messages\<close>

datatype CommitType = TWO_PHASE_COMMIT | THREE_PHASE_COMMIT

datatype AckType = ACK | NACK

datatype FollowerType = SOURCE | TARGET

record ProposeRequest =
  prq_CommitType :: CommitType
  prq_Source :: u32
  prq_Target :: u32
  prq_MsgPayload :: bytes
  prq_Index :: u64

record CommitRequest =
  crq_Source :: u32
  crq_Target :: u32
  crq_Index :: u64
  crq_Address :: bytes
  crq_MsgPayload :: bytes
  crq_IsRollback :: bool

record ProposeResponse =
  prs_Acktype :: AckType
  prs_Index :: u64
  prs_Ftype :: FollowerType
  prs_Address :: bytes
  prs_MsgPayload :: bytes

record Response =
  rsp_Acktype :: AckType
  rsp_Index :: u64
  rsp_Ftype :: FollowerType

text \<open>The hooks that check a request accept every one.\<close>

definition ProposeShard :: "ProposeRequest \<Rightarrow> bool" where
  "ProposeShard req = True"

definition CommitShard :: "CommitRequest \<Rightarrow> bool" where
  "CommitShard req = True"

section \<open>The server and its handlers\<close>

text \<open>The fields of \<open>ServerShard\<close> that a follower uses; \<open>srv_chainShardID\<close> is the shard of the
  pool's chain.\<close>

record ('d, 'tr, 'v, 'e, 'tl) ServerShard =
  srv_chainShardID :: u32
  srv_FollowerType :: FollowerType
  srv_CommitPool :: "('d, 'tr, 'v, 'e, 'tl) CommitPool"
  srv_cancelCommitOnHeight :: "(u64, bool) gomap"

text \<open>Where a handler stands. \<open>PStart\<close> has written the type of a source and carries the answer of
  the hook; \<open>PRole\<close> is about to make the response and \<open>PBranch\<close> to look at the follower type once
  more; \<open>PSource\<close>, \<open>PTarget\<close> and \<open>CSelect\<close> are about to enter the \<open>select\<close>; the waiting ones
  say whether the \<open>select\<close> found a channel; \<open>PNonce\<close> and \<open>PAnswer\<close> have read the balance, and the
  nonce; \<open>PNack\<close> and \<open>CLate\<close> are about to make the response after a failure.\<close>

datatype handler =
    PStart ProposeRequest bool
  | PCheck ProposeRequest
  | PAdd ProposeRequest
  | PRole ProposeRequest
  | PBranch ProposeRequest ProposeResponse
  | PSource ProposeRequest
  | PTarget ProposeRequest ProposeResponse
  | PWaitSource ProposeRequest bool
  | PWaitTarget ProposeRequest ProposeResponse bool
  | PRead ProposeRequest
  | PNonce ProposeRequest int
  | PAnswer ProposeRequest bytes
  | PClose ProposeRequest
  | PNack ProposeRequest
  | CCheck CommitRequest
  | CDrop CommitRequest
  | CCommitted CommitRequest
  | CAdd CommitRequest
  | CDelete CommitRequest
  | CRole CommitRequest
  | CSelect CommitRequest Response
  | CWait CommitRequest Response bool
  | CClose CommitRequest "Response option"
  | CLate CommitRequest

datatype reply = PReply ProposeResponse | CReply Response "error option"

definition SetProgressForCommitPhase ::
    "u64 \<Rightarrow> bool \<Rightarrow> ('d, 'tr, 'v, 'e, 'tl) ServerShard \<Rightarrow> ('d, 'tr, 'v, 'e, 'tl) ServerShard" where
  "SetProgressForCommitPhase height docancel s =
     s\<lparr>srv_cancelCommitOnHeight := gm_set height docancel (srv_cancelCommitOnHeight s)\<rparr>"

definition HasProgressForCommitPhase :: "u64 \<Rightarrow> ('d, 'tr, 'v, 'e, 'tl) ServerShard \<Rightarrow> bool" where
  "HasProgressForCommitPhase height s = gm_getd False (srv_cancelCommitOnHeight s) height"

text \<open>The response of \<open>ProposeHandler\<close>, with the follower type that the server has at the time.\<close>

definition propose_response ::
    "AckType \<Rightarrow> ProposeRequest \<Rightarrow> bytes \<Rightarrow> ('d, 'tr, 'v, 'e, 'tl) ServerShard \<Rightarrow> ProposeResponse" where
  "propose_response ack req payload s =
     \<lparr>prs_Acktype = ack, prs_Index = prq_Index req, prs_Ftype = srv_FollowerType s,
      prs_Address = prq_MsgPayload req, prs_MsgPayload = payload\<rparr>"

definition commit_response ::
    "AckType \<Rightarrow> CommitRequest \<Rightarrow> ('d, 'tr, 'v, 'e, 'tl) ServerShard \<Rightarrow> Response" where
  "commit_response ack req s =
     \<lparr>rsp_Acktype = ack, rsp_Index = crq_Index req, rsp_Ftype = srv_FollowerType s\<rparr>"

text \<open>The start of \<open>ProposeHandler\<close>, which makes every follower a source at first, its second
  assignment, and the start of \<open>CommitHandler\<close>.\<close>

definition ProposeHandler ::
    "(ProposeRequest \<Rightarrow> bool) \<Rightarrow> ProposeRequest \<Rightarrow> ('d, 'tr, 'v, 'e, 'tl) ServerShard \<Rightarrow>
      (handler + reply) \<times> ('d, 'tr, 'v, 'e, 'tl) ServerShard" where
  "ProposeHandler hook req s = (Inl (PStart req (hook req)), s\<lparr>srv_FollowerType := SOURCE\<rparr>)"

definition ProposeHandler_target ::
    "ProposeRequest \<Rightarrow> ('d, 'tr, 'v, 'e, 'tl) ServerShard \<Rightarrow> ('d, 'tr, 'v, 'e, 'tl) ServerShard" where
  "ProposeHandler_target req s =
     (if prq_Target req = srv_chainShardID s then s\<lparr>srv_FollowerType := TARGET\<rparr> else s)"

definition CommitHandler ::
    "(CommitRequest \<Rightarrow> bool) \<Rightarrow> CommitRequest \<Rightarrow> ('d, 'tr, 'v, 'e, 'tl) ServerShard \<Rightarrow>
      (handler + reply) \<times> ('d, 'tr, 'v, 'e, 'tl) ServerShard" where
  "CommitHandler hook req s =
     (if hook req then (Inl (CCheck req), s) else (Inr (CReply (commit_response NACK req s) None), s))"

definition ProposeTwoPhase ::
    "ProposeRequest \<Rightarrow> ('d, 'tr, 'v, 'e, 'tl) ServerShard \<Rightarrow>
      (handler + reply) \<times> ('d, 'tr, 'v, 'e, 'tl) ServerShard" where
  "ProposeTwoPhase req s = ProposeHandler ProposeShard req (SetProgressForCommitPhase (prq_Index req) False s)"

definition CommitTwoPhase ::
    "CommitRequest \<Rightarrow> ('d, 'tr, 'v, 'e, 'tl) ServerShard \<Rightarrow>
      (handler + reply) \<times> ('d, 'tr, 'v, 'e, 'tl) ServerShard" where
  "CommitTwoPhase req s = CommitHandler CommitShard req s"

text \<open>\<open>HandleStateTransferMsg\<close> in two pieces: the look into the cache, and the addition of the
  transaction, which takes the lock.\<close>

definition HandleStateTransferMsg ::
    "ProposeRequest \<Rightarrow> ('d, 'tr, 'v, 'e, 'tl) ServerShard \<Rightarrow> handler" where
  "HandleStateTransferMsg req s =
     (if cs_Get (cp_cached (srv_CommitPool s)) (prq_Index req) = None then PAdd req else PRole req)"

definition HandleStateTransferMsg_add ::
    "ProposeRequest \<Rightarrow> ('d, 'tr, 'v, 'e, 'tl) ServerShard \<Rightarrow>
      error option \<times> ('d, 'tr, 'v, 'e, 'tl) ServerShard" where
  "HandleStateTransferMsg_add req s =
     (let (err, pool) = cp_addFreezeTransaction (prq_Index req) (prq_Source req) (prq_Target req)
            (BytesToAddress (prq_MsgPayload req)) (srv_CommitPool s)
      in (err, s\<lparr>srv_CommitPool := pool\<rparr>))"

text \<open>The source, woken up by a 1: the balance of the account, and then its nonce, each read from
  what is the pending state at the time.\<close>

definition ProposeHandler_balance ::
    "('d, 'tr, 'v) sdb_env \<Rightarrow> ProposeRequest \<Rightarrow> ('d, 'tr, 'v, 'e, 'tl) ServerShard \<Rightarrow>
      (int \<times> ('d, 'tr, 'v, 'e, 'tl) ServerShard) option" where
  "ProposeHandler_balance E req s =
     (case cp_pendingState (srv_CommitPool s) of
        None \<Rightarrow> None
      | Some ms \<Rightarrow>
          let (balance, db) = sdb_GetBalance E (BytesToAddress (prq_MsgPayload req)) (ms_DB ms)
          in Some (balance, s\<lparr>srv_CommitPool := (srv_CommitPool s)\<lparr>cp_pendingState := Some (ms\<lparr>ms_DB := db\<rparr>)\<rparr>\<rparr>))"

definition ProposeHandler_nonce ::
    "('d, 'tr, 'v) sdb_env \<Rightarrow> tx_env \<Rightarrow> ProposeRequest \<Rightarrow> int \<Rightarrow> ('d, 'tr, 'v, 'e, 'tl) ServerShard \<Rightarrow>
      (bytes \<times> ('d, 'tr, 'v, 'e, 'tl) ServerShard) option" where
  "ProposeHandler_nonce E T req balance s =
     (case cp_pendingState (srv_CommitPool s) of
        None \<Rightarrow> None
      | Some ms \<Rightarrow>
          let addr = BytesToAddress (prq_MsgPayload req);
              (nonce, ms) = ms_GetNonce E addr ms;
              stateData = zero_StateData\<lparr>std_State :=
                \<lparr>stt_Address = addr, stt_Balance = Some balance, stt_Nonce = nonce, stt_Data = []\<rparr>\<rparr>;
              rlpState = EncodeStateData T stateData
          in Some (rlpState, s\<lparr>srv_CommitPool := (srv_CommitPool s)\<lparr>cp_pendingState := Some ms\<rparr>\<rparr>))"

text \<open>\<open>HandleCommitMsg\<close> in three pieces: was the transaction committed before, the addition to
  the committed ones, which takes the lock, and the removal from the cache. State data that
  cannot be decoded is used as far as it was decoded.\<close>

definition HandleCommitMsg ::
    "CommitRequest \<Rightarrow> ('d, 'tr, 'v, 'e, 'tl) ServerShard \<Rightarrow> handler" where
  "HandleCommitMsg req s =
     (if cp_GetCommittedTx (crq_Index req) (srv_CommitPool s) = None then CAdd req else CDelete req)"

definition HandleCommitMsg_add ::
    "tx_env \<Rightarrow> CommitRequest \<Rightarrow> ('d, 'tr, 'v, 'e, 'tl) ServerShard \<Rightarrow> ('d, 'tr, 'v, 'e, 'tl) ServerShard" where
  "HandleCommitMsg_add T req s =
     (let (err, deState) = DecodeStateData T (crq_MsgPayload req)
      in s\<lparr>srv_CommitPool := cp_addCommittedTransaction (crq_Source req) (crq_Target req)
             (BytesToAddress (crq_Address req)) (crq_Index req) deState (srv_CommitPool s)\<rparr>)"

definition HandleCommitMsg_delete ::
    "CommitRequest \<Rightarrow> ('d, 'tr, 'v, 'e, 'tl) ServerShard \<Rightarrow> ('d, 'tr, 'v, 'e, 'tl) ServerShard" where
  "HandleCommitMsg_delete req s =
     s\<lparr>srv_CommitPool := cp_deleteTxFromCached (crq_Index req) (srv_CommitPool s)\<rparr>"

definition errNoValueInCache :: error where
  "errNoValueInCache = ''no value in node cache''"

text \<open>The next piece of a handler that is not waiting: where it stands then or its reply, and
  the server. None is a panic.\<close>

fun handler_run ::
    "('d, 'tr, 'v) sdb_env \<Rightarrow> tx_env \<Rightarrow> handler \<Rightarrow> ('d, 'tr, 'v, 'e, 'tl) ServerShard \<Rightarrow>
      ((handler + reply) \<times> ('d, 'tr, 'v, 'e, 'tl) ServerShard) option" where
  "handler_run E T (PStart req ok) s = Some (Inl (if ok then PCheck req else PNack req), ProposeHandler_target req s)"
| "handler_run E T (PCheck req) s = Some (Inl (HandleStateTransferMsg req s), s)"
| "handler_run E T (PAdd req) s = (let (err, s) = HandleStateTransferMsg_add req s in Some (Inl (PRole req), s))"
| "handler_run E T (PRole req) s = Some (Inl (PBranch req (propose_response ACK req [] s)), s)"
| "handler_run E T (PBranch req resp) s =
     Some (Inl (case srv_FollowerType s of SOURCE \<Rightarrow> PSource req | TARGET \<Rightarrow> PTarget req resp), s)"
| "handler_run E T (PSource req) s = Some (Inl (PWaitSource req (cp_GetSignal (prq_Index req) (srv_CommitPool s))), s)"
| "handler_run E T (PTarget req resp) s =
     Some (Inl (PWaitTarget req resp (cp_GetSignal (prq_Index req) (srv_CommitPool s))), s)"
| "handler_run E T (PRead req) s = map_option (\<lambda>(balance, s). (Inl (PNonce req balance), s)) (ProposeHandler_balance E req s)"
| "handler_run E T (PNonce req balance) s =
     map_option (\<lambda>(rlpState, s). (Inl (PAnswer req rlpState), s)) (ProposeHandler_nonce E T req balance s)"
| "handler_run E T (PAnswer req rlpState) s = Some (Inr (PReply (propose_response ACK req rlpState s)), s)"
| "handler_run E T (PClose req) s = map_option (\<lambda>pool. (Inl (PNack req), s\<lparr>srv_CommitPool := pool\<rparr>))
      (cp_CloseSignal (prq_Index req) (srv_CommitPool s))"
| "handler_run E T (PNack req) s = Some (Inr (PReply (propose_response NACK req [] s)), s)"
| "handler_run E T (CCheck req) s =
     Some (Inl (case cp_CachedById (crq_Index req) (srv_CommitPool s) of None \<Rightarrow> CDrop req | Some tx \<Rightarrow> CCommitted req), s)"
| "handler_run E T (CDrop req) s =
     Some (Inr (CReply \<lparr>rsp_Acktype = NACK, rsp_Index = 0, rsp_Ftype = SOURCE\<rparr> (Some errNoValueInCache)),
       HandleCommitMsg_delete req s)"
| "handler_run E T (CCommitted req) s = Some (Inl (HandleCommitMsg req s), s)"
| "handler_run E T (CAdd req) s = Some (Inl (CDelete req), HandleCommitMsg_add T req s)"
| "handler_run E T (CDelete req) s = Some (Inl (CRole req), HandleCommitMsg_delete req s)"
| "handler_run E T (CRole req) s = Some (Inl (CSelect req (commit_response ACK req s)), s)"
| "handler_run E T (CSelect req resp) s =
     Some (Inl (CWait req resp (cp_GetSignal (crq_Index req) (srv_CommitPool s))), s)"
| "handler_run E T (CClose req resp) s = map_option
      (\<lambda>pool. (case resp of None \<Rightarrow> Inl (CLate req) | Some r \<Rightarrow> Inr (CReply r None), s\<lparr>srv_CommitPool := pool\<rparr>))
      (cp_CloseSignal (crq_Index req) (srv_CommitPool s))"
| "handler_run E T (CLate req) s = Some (Inr (CReply (commit_response ACK req s) None), s)"
| "handler_run E T h s = Some (Inl h, s)"

text \<open>A handler that waits in its \<open>select\<close>, and the channel that it receives from.\<close>

fun handler_waits :: "handler \<Rightarrow> bool" where
  "handler_waits (PWaitSource req made) = True"
| "handler_waits (PWaitTarget req resp made) = True"
| "handler_waits (CWait req resp made) = True"
| "handler_waits h = False"

fun handler_chan :: "handler \<Rightarrow> u64 option" where
  "handler_chan (PWaitSource req made) = (if made then Some (prq_Index req) else None)"
| "handler_chan (PWaitTarget req resp made) = (if made then Some (prq_Index req) else None)"
| "handler_chan (CWait req resp made) = (if made then Some (crq_Index req) else None)"
| "handler_chan h = None"

fun handler_locks :: "handler \<Rightarrow> bool" where
  "handler_locks (PAdd req) = True"
| "handler_locks (PClose req) = True"
| "handler_locks (CAdd req) = True"
| "handler_locks (CClose req resp) = True"
| "handler_locks h = False"

text \<open>The branches of the \<open>select\<close>: a value was received, or ten minutes have passed.\<close>

fun handler_recv :: "int \<Rightarrow> handler \<Rightarrow> handler + reply" where
  "handler_recv sig (PWaitSource req made) = Inl (if sig = 1 then PRead req else PClose req)"
| "handler_recv sig (PWaitTarget req resp made) = (if sig = 1 then Inr (PReply resp) else Inl (PTarget req resp))"
| "handler_recv sig (CWait req resp made) = Inl (if sig = 2 then CClose req (Some resp) else CSelect req resp)"
| "handler_recv sig h = Inl h"

fun handler_timeout :: "handler \<Rightarrow> handler" where
  "handler_timeout (PWaitSource req made) = PClose req"
| "handler_timeout (PWaitTarget req resp made) = PClose req"
| "handler_timeout (CWait req resp made) = CClose req None"
| "handler_timeout h = h"

text \<open>Stopping a server closes all channels first; the shutdown of the RPC server is not modelled.\<close>

definition srv_Stop ::
    "('d, 'tr, 'v, 'e, 'tl) ServerShard \<Rightarrow> ('d, 'tr, 'v, 'e, 'tl) ServerShard option" where
  "srv_Stop s = map_option (\<lambda>pool. s\<lparr>srv_CommitPool := pool\<rparr>) (cp_CloseAllSignal (srv_CommitPool s))"

section \<open>A follower\<close>

text \<open>Where the event loop stands: idle, in the loop of \<open>reset\<close> with the transactions to go, or
  sending the signal of one of them.\<close>

datatype resetting = RIdle | RLoop "StateTransferTransaction list"
  | RSend StateTransferTransaction u64 int "StateTransferTransaction list"

text \<open>A follower; \<open>f_seen\<close> are the transactions of blocks that its pool has gone through,
  \<open>f_freezeOut\<close> and \<open>f_commitOut\<close> the transactions that were handed to block proposals.\<close>

record ('d, 'tr, 'v, 'e, 'tl) follower =
  f_server :: "('d, 'tr, 'v, 'e, 'tl) ServerShard"
  f_handlers :: "handler list"
  f_replies :: "reply list"
  f_reset :: resetting
  f_head :: PoolHeader
  f_crashed :: bool
  f_seen :: "StateTransferTransaction list"
  f_freezeOut :: "StateTransferTransaction list"
  f_commitOut :: "StateTransferTransaction list"

definition f_pool :: "('d, 'tr, 'v, 'e, 'tl) follower \<Rightarrow> ('d, 'tr, 'v, 'e, 'tl) CommitPool" where
  "f_pool f = srv_CommitPool (f_server f)"

definition f_set_pool ::
    "('d, 'tr, 'v, 'e, 'tl) CommitPool \<Rightarrow> ('d, 'tr, 'v, 'e, 'tl) follower \<Rightarrow> ('d, 'tr, 'v, 'e, 'tl) follower" where
  "f_set_pool pool f = f\<lparr>f_server := (f_server f)\<lparr>srv_CommitPool := pool\<rparr>\<rparr>"

text \<open>A handler that goes on or replies.\<close>

definition f_settle ::
    "nat \<Rightarrow> handler + reply \<Rightarrow> ('d, 'tr, 'v, 'e, 'tl) follower \<Rightarrow> ('d, 'tr, 'v, 'e, 'tl) follower" where
  "f_settle n r f = (case r of
      Inl h \<Rightarrow> f\<lparr>f_handlers := (f_handlers f)[n := h]\<rparr>
    | Inr reply \<Rightarrow> f\<lparr>f_handlers := take n (f_handlers f) @ drop (Suc n) (f_handlers f),
                   f_replies := f_replies f @ [reply]\<rparr>)"

definition f_start ::
    "(handler + reply) \<times> ('d, 'tr, 'v, 'e, 'tl) ServerShard \<Rightarrow> ('d, 'tr, 'v, 'e, 'tl) follower \<Rightarrow>
      ('d, 'tr, 'v, 'e, 'tl) follower" where
  "f_start r f = (case fst r of
      Inl h \<Rightarrow> f\<lparr>f_server := snd r, f_handlers := f_handlers f @ [h]\<rparr>
    | Inr reply \<Rightarrow> f\<lparr>f_server := snd r, f_replies := f_replies f @ [reply]\<rparr>)"

definition f_crash :: "('d, 'tr, 'v, 'e, 'tl) follower \<Rightarrow> ('d, 'tr, 'v, 'e, 'tl) follower" where
  "f_crash f = f\<lparr>f_crashed := True\<rparr>"

text \<open>The event loop goes on after a transaction whose signal was received or that has none.\<close>

definition f_reset_next ::
    "StateTransferTransaction \<Rightarrow> StateTransferTransaction list \<Rightarrow> ('d, 'tr, 'v, 'e, 'tl) follower \<Rightarrow>
      ('d, 'tr, 'v, 'e, 'tl) follower" where
  "f_reset_next tx txs f = (f_set_pool (cp_reset_post tx (f_pool f)) f)\<lparr>f_reset := RLoop txs\<rparr>"

datatype ('d, 'e) event =
    EvPropose ProposeRequest
  | EvCommit CommitRequest
  | EvRun nat
  | EvTimeout nat
  | EvClosed nat
  | EvBlock "('d, 'e) PoolChain" PoolHeader
  | EvLoop
  | EvDeliver nat
  | EvFreezeOut
  | EvCommitOut

text \<open>One step of a follower; None when the step is not possible in its state.\<close>

fun follower_step ::
    "('d, 'tr, 'v) sdb_env \<Rightarrow> ('e, 'tl) lm_env \<Rightarrow> tx_env \<Rightarrow> ('d, 'e) event \<Rightarrow>
      ('d, 'tr, 'v, 'e, 'tl) follower \<Rightarrow> ('d, 'tr, 'v, 'e, 'tl) follower option" where
  "follower_step E F T (EvPropose req) f =
     (if f_crashed f then None else Some (f_start (ProposeTwoPhase req (f_server f)) f))"
| "follower_step E F T (EvCommit req) f =
     (if f_crashed f then None else Some (f_start (CommitTwoPhase req (f_server f)) f))"
| "follower_step E F T (EvRun n) f =
     (if f_crashed f \<or> length (f_handlers f) \<le> n \<or> handler_waits (f_handlers f ! n)
         \<or> handler_locks (f_handlers f ! n) \<and> f_reset f \<noteq> RIdle then None
      else Some (case handler_run E T (f_handlers f ! n) (f_server f) of
                   None \<Rightarrow> f_crash f
                 | Some (r, s) \<Rightarrow> f_settle n r (f\<lparr>f_server := s\<rparr>)))"
| "follower_step E F T (EvTimeout n) f =
     (if f_crashed f \<or> length (f_handlers f) \<le> n \<or> \<not> handler_waits (f_handlers f ! n) then None
      else Some (f_settle n (Inl (handler_timeout (f_handlers f ! n))) f))"
| "follower_step E F T (EvClosed n) f =
     (if f_crashed f \<or> length (f_handlers f) \<le> n then None
      else case handler_chan (f_handlers f ! n) of
             None \<Rightarrow> None
           | Some i \<Rightarrow> if gm_get (cp_Signal (f_pool f)) i = Some ChanClosed
                       then Some (f_settle n (handler_recv 0 (f_handlers f ! n)) f) else None)"
| "follower_step E F T (EvBlock chain new) f =
     (if f_crashed f \<or> f_reset f \<noteq> RIdle then None
      else Some (case cp_reset_start E F chain (Some (f_head f)) (Some new) (f_pool f) of
                   None \<Rightarrow> f_crash f
                 | Some (pool, txs) \<Rightarrow> (f_set_pool pool f)\<lparr>f_reset := RLoop txs, f_head := new\<rparr>))"
| "follower_step E F T EvLoop f =
     (if f_crashed f then None
      else case f_reset f of
             RIdle \<Rightarrow> None
           | RLoop [] \<Rightarrow> Some (f\<lparr>f_reset := RIdle\<rparr>)
           | RLoop (tx # txs) \<Rightarrow>
               let (pool, send) = cp_reset_pre tx (f_pool f);
                   f = (f_set_pool pool f)\<lparr>f_seen := f_seen f @ [tx]\<rparr>
               in Some (case send of None \<Rightarrow> f_reset_next tx txs f
                                   | Some (i, sig) \<Rightarrow> f\<lparr>f_reset := RSend tx i sig txs\<rparr>)
           | RSend tx i sig txs \<Rightarrow> if cp_SetSignal i (f_pool f) = SendPanics then Some (f_crash f) else None)"
| "follower_step E F T (EvDeliver n) f =
     (case f_reset f of
        RSend tx i sig txs \<Rightarrow>
          if f_crashed f \<or> length (f_handlers f) \<le> n \<or> handler_chan (f_handlers f ! n) \<noteq> Some i
             \<or> cp_SetSignal i (f_pool f) \<noteq> SendWaits then None
          else Some (f_reset_next tx txs (f_settle n (handler_recv sig (f_handlers f ! n)) f))
      | _ \<Rightarrow> None)"
| "follower_step E F T EvFreezeOut f =
     (if f_crashed f \<or> f_reset f \<noteq> RIdle then None
      else let ((txs, err), pool) = cp_FreezeCache (f_pool f)
           in Some ((f_set_pool pool f)\<lparr>f_freezeOut := f_freezeOut f @ txs\<rparr>))"
| "follower_step E F T EvCommitOut f =
     (if f_crashed f \<or> f_reset f \<noteq> RIdle then None
      else let ((txs, err), pool) = cp_Committed (f_pool f)
           in Some ((f_set_pool pool f)\<lparr>f_commitOut := f_commitOut f @ txs\<rparr>))"

definition follower_init ::
    "u32 \<Rightarrow> PoolHeader \<Rightarrow> ('d, 'tr, 'v, 'e, 'tl) CommitPool \<Rightarrow> ('d, 'tr, 'v, 'e, 'tl) follower" where
  "follower_init shard head pool =
     \<lparr>f_server = \<lparr>srv_chainShardID = shard, srv_FollowerType = SOURCE, srv_CommitPool = pool,
        srv_cancelCommitOnHeight = []\<rparr>,
      f_handlers = [], f_replies = [], f_reset = RIdle, f_head = head, f_crashed = False, f_seen = [],
      f_freezeOut = [], f_commitOut = []\<rparr>"

inductive follower_reachable ::
    "('d, 'tr, 'v) sdb_env \<Rightarrow> ('e, 'tl) lm_env \<Rightarrow> tx_env \<Rightarrow> ('d, 'tr, 'v, 'e, 'tl) follower \<Rightarrow> bool"
  for E F T where
  follower_boot: "NewCommitPool E F chain = Some pool \<Longrightarrow>
    follower_reachable E F T (follower_init (ch_ShardID chain) (ch_header chain) pool)"
| follower_move: "follower_reachable E F T f \<Longrightarrow> follower_step E F T ev f = Some f' \<Longrightarrow>
    follower_reachable E F T f'"

end
