(* ===== verification/Commit_Handler_Inv.thy ===== *)
theory Commit_Handler_Inv
  imports Commit_Handler
begin

text \<open>
  The invariant of a follower and that every step of every interleaving keeps it: what a
  handler that was woken up knows about the blocks its pool has gone through, and what the marks
  of the pool say about the transactions that were handed to block proposals.
\<close>

section \<open>The invariant of a follower\<close>

definition seen_frozen :: "StateTransferTransaction list \<Rightarrow> u64 \<Rightarrow> bool" where
  "seen_frozen S i \<longleftrightarrow> (\<exists>tx \<in> set S. sttx_ToFreeze tx \<and> sttx_Index tx = i)"

definition seen_committed :: "StateTransferTransaction list \<Rightarrow> u64 \<Rightarrow> bool" where
  "seen_committed S i \<longleftrightarrow> (\<exists>tx \<in> set S. \<not> sttx_ToFreeze tx \<and> sttx_Index tx = i)"

fun handler_ok :: "StateTransferTransaction list \<Rightarrow> handler \<Rightarrow> bool" where
  "handler_ok S (PBranch req resp) = (prs_Index resp = prq_Index req)"
| "handler_ok S (PTarget req resp) = (prs_Index resp = prq_Index req)"
| "handler_ok S (PWaitTarget req resp made) = (prs_Index resp = prq_Index req)"
| "handler_ok S (PRead req) = seen_frozen S (prq_Index req)"
| "handler_ok S (PNonce req balance) = seen_frozen S (prq_Index req)"
| "handler_ok S (PAnswer req rlpState) = seen_frozen S (prq_Index req)"
| "handler_ok S (CSelect req resp) = (rsp_Index resp = crq_Index req)"
| "handler_ok S (CWait req resp made) = (rsp_Index resp = crq_Index req)"
| "handler_ok S (CClose req (Some resp)) = seen_committed S (rsp_Index resp)"
| "handler_ok S h = True"

fun reply_ok :: "StateTransferTransaction list \<Rightarrow> reply \<Rightarrow> bool" where
  "reply_ok S (PReply resp) = (prs_Acktype resp = ACK \<longrightarrow> seen_frozen S (prs_Index resp))"
| "reply_ok S (CReply resp err) = True"

fun resetting_ok :: "StateTransferTransaction list \<Rightarrow> resetting \<Rightarrow> bool" where
  "resetting_ok S (RSend tx i sig txs) \<longleftrightarrow> tx \<in> set S \<and> i = sttx_Index tx \<and> sig = (if sttx_ToFreeze tx then 1 else 2)"
| "resetting_ok S r \<longleftrightarrow> True"

definition handed_ok :: "(u64, int) gomap \<Rightarrow> StateTransferTransaction list \<Rightarrow> bool" where
  "handed_ok m out \<longleftrightarrow> distinct (map sttx_Index out) \<and> (\<forall>tx \<in> set out. gm_get m (sttx_Index tx) \<noteq> None)"

definition f_inv :: "('d, 'tr, 'v, 'e, 'tl) follower \<Rightarrow> bool" where
  "f_inv f \<longleftrightarrow> cp_inv (f_pool f) \<and> list_all (handler_ok (f_seen f)) (f_handlers f)
     \<and> list_all (reply_ok (f_seen f)) (f_replies f) \<and> resetting_ok (f_seen f) (f_reset f)
     \<and> handed_ok (cp_freezeReadTxList (f_pool f)) (f_freezeOut f)
     \<and> handed_ok (cp_committedReadTxList (f_pool f)) (f_commitOut f)
     \<and> list_all sttx_ToFreeze (f_freezeOut f) \<and> list_all (\<lambda>tx. \<not> sttx_ToFreeze tx) (f_commitOut f)"

definition outcome_ok :: "StateTransferTransaction list \<Rightarrow> handler + reply \<Rightarrow> bool" where
  "outcome_ok S r = (case r of Inl h \<Rightarrow> handler_ok S h | Inr reply \<Rightarrow> reply_ok S reply)"

text \<open>The marks only grow.\<close>

definition marks_le :: "('d, 'tr, 'v, 'e, 'tl) CommitPool \<Rightarrow> ('d, 'tr, 'v, 'e, 'tl) CommitPool \<Rightarrow> bool" where
  "marks_le p p' \<longleftrightarrow>
     (\<forall>i. gm_get (cp_freezeReadTxList p) i \<noteq> None \<longrightarrow> gm_get (cp_freezeReadTxList p') i \<noteq> None)
   \<and> (\<forall>i. gm_get (cp_committedReadTxList p) i \<noteq> None \<longrightarrow> gm_get (cp_committedReadTxList p') i \<noteq> None)"

lemma marks_le_refl [simp]: "marks_le p p"
  by (simp add: marks_le_def)

lemma marks_le_same: "cp_freezeReadTxList p' = cp_freezeReadTxList p \<Longrightarrow>
    cp_committedReadTxList p' = cp_committedReadTxList p \<Longrightarrow> marks_le p p'"
  by (simp add: marks_le_def)

lemma seen_mono: "handler_ok S h \<Longrightarrow> handler_ok (S @ S') h" "reply_ok S r \<Longrightarrow> reply_ok (S @ S') r"
  by (cases "(S, h)" rule: handler_ok.cases; auto simp: seen_frozen_def seen_committed_def)
     (cases r; auto simp: seen_frozen_def)

lemma cp_reset_start_marks: "cp_reset_start E F chain h h' p = Some (p', txs) \<Longrightarrow> marks_le p p'"
  by (rule marks_le_same)
    (auto simp: cp_reset_start_def cp_reset_open_def Let_def split: if_splits sum.splits option.splits)

lemma cp_reset_pre_marks: "marks_le p (fst (cp_reset_pre tx p))"
  by (simp add: cp_reset_pre_def cp_addCachedTransaction_def cp_move_defs Let_def marks_le_def)

lemma cp_reset_post_marks: "marks_le p (cp_reset_post tx p)"
  by (rule marks_le_same) (simp_all add: cp_reset_post_def cp_move_defs Let_def)

lemma cp_reset_pre_signal: "snd (cp_reset_pre tx p) = Some (i, sig) \<Longrightarrow>
    i = sttx_Index tx \<and> sig = (if sttx_ToFreeze tx then 1 else 2)"
  by (auto simp: cp_reset_pre_def Let_def split: if_splits)

lemma cp_ops_marks [simp]:
  "marks_le p (snd (cp_addFreezeTransaction i s t a p))" "marks_le p (cp_addCommittedTransaction s t a i sd p)"
  "marks_le p (cp_deleteTxFromCached i p)"
  by (simp_all add: marks_le_def cp_addFreezeTransaction_def cp_addCommittedTransaction_def cp_move_defs Let_def)

lemma cp_inv_signal: "cp_inv p \<Longrightarrow> cp_inv (p\<lparr>cp_Signal := gm_set i c (cp_Signal p)\<rparr>)"
  by (auto simp: cp_inv_def cp_GetSignal_def)

lemma handler_run_ok:
  assumes "handler_run E T h s = Some (r, s')" and "handler_ok S h" and "cp_inv (srv_CommitPool s)"
  shows "outcome_ok S r \<and> cp_inv (srv_CommitPool s') \<and> marks_le (srv_CommitPool s) (srv_CommitPool s')"
proof (cases h)
  case (PAdd req)
  with assms show ?thesis
    by (auto simp: HandleStateTransferMsg_add_def outcome_ok_def cp_addFreezeTransaction_inv case_prod_beta)
next
  case (PStart req ok)
  with assms show ?thesis by (auto simp: ProposeHandler_target_def outcome_ok_def)
next
  case (PRead req)
  with assms show ?thesis
    by (auto simp: ProposeHandler_balance_def outcome_ok_def marks_le_def Let_def split: option.splits prod.splits)
next
  case (PNonce req balance)
  with assms show ?thesis
    by (auto simp: ProposeHandler_nonce_def outcome_ok_def marks_le_def Let_def split: option.splits prod.splits)
next
  case (PClose req)
  with assms show ?thesis
    by (auto simp: outcome_ok_def marks_le_def cp_CloseSignal_def cp_inv_signal split: if_splits)
next
  case (CClose req resp)
  with assms show ?thesis
    by (auto simp: outcome_ok_def marks_le_def cp_CloseSignal_def cp_inv_signal split: if_splits option.splits)
next
  case (CAdd req)
  with assms show ?thesis
    by (auto simp: HandleCommitMsg_add_def outcome_ok_def cp_addCommittedTransaction_inv case_prod_beta)
next
  case (CDelete req)
  with assms show ?thesis by (auto simp: HandleCommitMsg_delete_def outcome_ok_def cp_deletes_inv)
next
  case (CDrop req)
  with assms show ?thesis by (auto simp: HandleCommitMsg_delete_def outcome_ok_def cp_deletes_inv)
qed (use assms in \<open>auto simp: outcome_ok_def HandleStateTransferMsg_def HandleCommitMsg_def propose_response_def
    commit_response_def split: FollowerType.splits option.splits\<close>)

lemma handler_recv_ok:
  assumes "handler_ok S h" and "handler_chan h = Some i" and "sig = 1 \<Longrightarrow> seen_frozen S i"
    and "sig = 2 \<Longrightarrow> seen_committed S i"
  shows "outcome_ok S (handler_recv sig h)"
  using assms by (cases h) (auto simp: outcome_ok_def split: if_splits)

lemma handler_timeout_ok: "handler_ok S h \<Longrightarrow> handler_ok S (handler_timeout h)"
  by (cases h) auto

lemma f_sel_settle [simp]:
  "f_server (f_settle n r f) = f_server f" "f_seen (f_settle n r f) = f_seen f" "f_reset (f_settle n r f) = f_reset f"
  "f_freezeOut (f_settle n r f) = f_freezeOut f" "f_commitOut (f_settle n r f) = f_commitOut f"
  "f_crashed (f_settle n r f) = f_crashed f" "f_head (f_settle n r f) = f_head f"
  by (simp_all add: f_settle_def split: sum.split)

lemma list_all_update: "list_all P xs \<Longrightarrow> P x \<Longrightarrow> list_all P (xs[n := x])"
  by (induction xs arbitrary: n) (auto split: nat.split)

lemma list_all_remove: "list_all P xs \<Longrightarrow> list_all P (take n xs @ drop (Suc n) xs)"
  by (auto simp: list_all_iff dest: in_set_takeD in_set_dropD)

lemma f_settle_ok:
  assumes "outcome_ok (f_seen f) r" and "list_all (handler_ok (f_seen f)) (f_handlers f)"
    and "list_all (reply_ok (f_seen f)) (f_replies f)"
  shows "list_all (handler_ok (f_seen f)) (f_handlers (f_settle n r f))
    \<and> list_all (reply_ok (f_seen f)) (f_replies (f_settle n r f))"
  using assms list_all_remove [OF assms(2), of n]
  by (auto simp: f_settle_def outcome_ok_def list_all_update split: sum.splits)

lemma handed_mono: "handed_ok m out \<Longrightarrow> (\<forall>i. gm_get m i \<noteq> None \<longrightarrow> gm_get m' i \<noteq> None) \<Longrightarrow> handed_ok m' out"
  by (simp add: handed_ok_def)

lemma handed_more:
  assumes "handed_ok m out" and "cs_keyed P c"
    and "\<And>j. gm_get m' j \<noteq> None \<longleftrightarrow> gm_get m j \<noteq> None \<or> cs_Get c j \<noteq> None"
  shows "handed_ok m' (out @ cs_unread c m)" and "list_all P (cs_unread c m)"
proof -
  note u = cs_unread_facts [OF assms(2), where m = m]
  have "set (map sttx_Index out) \<inter> set (map sttx_Index (cs_unread c m)) = {}"
    using assms(1) u(2) unfolding handed_ok_def by fastforce
  moreover have "gm_get m' (sttx_Index tx) \<noteq> None" if "tx \<in> set out \<or> tx \<in> set (cs_unread c m)" for tx
    using that assms(1) u(2) [of tx] assms(3) [of "sttx_Index tx"] unfolding handed_ok_def by fastforce
  ultimately show "handed_ok m' (out @ cs_unread c m)"
    using assms(1) u(1) unfolding handed_ok_def map_append distinct_append set_append by blast
  show "list_all P (cs_unread c m)"
    using assms(2) u(2) unfolding list_all_iff cs_keyed_def by blast
qed

lemma f_inv_server:
  assumes "f_inv f" and "cp_inv (srv_CommitPool s)" and "marks_le (f_pool f) (srv_CommitPool s)"
  shows "f_inv (f\<lparr>f_server := s\<rparr>)"
  using assms handed_mono unfolding f_inv_def marks_le_def by (auto simp: f_pool_def)

lemma f_inv_settle:
  assumes "f_inv f" and "outcome_ok (f_seen f) r"
  shows "f_inv (f_settle n r f)"
  using assms f_settle_ok [OF assms(2), of n] by (simp add: f_inv_def f_pool_def)

lemma f_inv_set_pool:
  "f_inv f \<Longrightarrow> cp_inv p \<Longrightarrow> marks_le (f_pool f) p \<Longrightarrow> f_inv (f_set_pool p f)"
  unfolding f_set_pool_def by (rule f_inv_server) simp_all

lemma f_inv_reset: "f_inv f \<Longrightarrow> resetting_ok (f_seen f) r \<Longrightarrow> f_inv (f\<lparr>f_reset := r\<rparr>)"
  by (simp add: f_inv_def f_pool_def)

lemma f_inv_reset_next: "f_inv f \<Longrightarrow> f_inv (f_reset_next tx txs f)"
proof -
  assume i: "f_inv f"
  then have "f_inv (f_set_pool (cp_reset_post tx (f_pool f)) f)"
    by (rule f_inv_set_pool [OF _ cp_reset_post_inv cp_reset_post_marks]) (use i in \<open>simp add: f_inv_def\<close>)
  then show ?thesis unfolding f_reset_next_def by (rule f_inv_reset) simp
qed

lemma f_inv_seen: "f_inv f \<Longrightarrow> resetting_ok (f_seen f @ [tx]) (f_reset f) \<Longrightarrow> f_inv (f\<lparr>f_seen := f_seen f @ [tx]\<rparr>)"
  unfolding f_inv_def by (auto simp: f_pool_def list_all_iff intro: seen_mono)

lemma step_inv_Propose:
  assumes step: "follower_step E F T (EvPropose req) f = Some f'" and i: "f_inv f"
  shows "f_inv f'"
  using assms
    by (auto simp: ProposeTwoPhase_def ProposeHandler_def ProposeShard_def SetProgressForCommitPhase_def f_start_def
        f_inv_def f_pool_def Let_def split: if_splits)

lemma step_inv_Commit:
  assumes step: "follower_step E F T (EvCommit req) f = Some f'" and i: "f_inv f"
  shows "f_inv f'"
  using assms
    by (auto simp: CommitTwoPhase_def CommitHandler_def CommitShard_def f_start_def f_inv_def f_pool_def
        split: if_splits)

lemma step_inv_Run:
  assumes step: "follower_step E F T (EvRun n) f = Some f'" and i: "f_inv f"
  shows "f_inv f'"
proof -
  have ok: "handler_ok (f_seen f) (f_handlers f ! n)" if "n < length (f_handlers f)"
    using i that by (simp add: f_inv_def list_all_length)
  show ?thesis
  proof (cases "handler_run E T (f_handlers f ! n) (f_server f)")
    case None
    with assms show ?thesis by (auto simp: f_crash_def f_inv_def f_pool_def split: if_splits)
  next
    case (Some rs)
    obtain r s where rs: "rs = (r, s)" by (cases rs)
    from assms Some rs have n: "n < length (f_handlers f)" and f': "f' = f_settle n r (f\<lparr>f_server := s\<rparr>)"
      by (auto split: if_splits)
    have c: "cp_inv (srv_CommitPool (f_server f))" using i by (simp add: f_inv_def f_pool_def)
    from handler_run_ok [OF Some [unfolded rs] ok [OF n] c] i show ?thesis
      unfolding f' by (intro f_inv_settle f_inv_server) (simp_all add: f_pool_def)
  qed
qed

lemma step_inv_Timeout:
  assumes step: "follower_step E F T (EvTimeout n) f = Some f'" and i: "f_inv f"
  shows "f_inv f'"
proof -
  from assms have n: "n < length (f_handlers f)" and f': "f' = f_settle n (Inl (handler_timeout (f_handlers f ! n))) f"
    by (auto split: if_splits)
  have "handler_ok (f_seen f) (f_handlers f ! n)" using i n by (simp add: f_inv_def list_all_length)
  then show ?thesis unfolding f' using i by (intro f_inv_settle) (simp_all add: outcome_ok_def handler_timeout_ok)
qed

lemma step_inv_Closed:
  assumes step: "follower_step E F T (EvClosed n) f = Some f'" and i: "f_inv f"
  shows "f_inv f'"
proof -
  from assms obtain j where n: "n < length (f_handlers f)" and j: "handler_chan (f_handlers f ! n) = Some j"
    and f': "f' = f_settle n (handler_recv 0 (f_handlers f ! n)) f"
    by (auto split: if_splits option.splits)
  have "handler_ok (f_seen f) (f_handlers f ! n)" using i n by (simp add: f_inv_def list_all_length)
  then show ?thesis unfolding f' using i j by (intro f_inv_settle handler_recv_ok) simp_all
qed

lemma step_inv_Block:
  assumes step: "follower_step E F T (EvBlock chain new) f = Some f'" and i: "f_inv f"
  shows "f_inv f'"
proof -
  show ?thesis
  proof (cases "cp_reset_start E F chain (Some (f_head f)) (Some new) (f_pool f)")
    case None
    with assms show ?thesis by (auto simp: f_crash_def f_inv_def f_pool_def split: if_splits)
  next
    case (Some pt)
    obtain p txs where pt: "pt = (p, txs)" by (cases pt)
    have c: "cp_inv (f_pool f)" using i by (simp add: f_inv_def)
    have f': "f' = (f_set_pool p f)\<lparr>f_reset := RLoop txs, f_head := new\<rparr>"
      using step Some unfolding pt by (simp split: if_splits)
    have "f_inv (f_set_pool p f)"
      by (rule f_inv_set_pool [OF i cp_reset_start_inv [OF c Some [unfolded pt]] cp_reset_start_marks [OF Some [unfolded pt]]])
    then have "f_inv ((f_set_pool p f)\<lparr>f_reset := RLoop txs\<rparr>)" by (rule f_inv_reset) simp
    then show ?thesis unfolding f' by (simp add: f_inv_def f_pool_def)
  qed
qed

lemma step_inv_Loop:
  assumes step: "follower_step E F T EvLoop f = Some f'" and i: "f_inv f"
  shows "f_inv f'"
proof -
  show ?thesis
  proof (cases "f_reset f")
    case (RLoop txs)
    show ?thesis
    proof (cases txs)
      case Nil
      with RLoop assms show ?thesis by (auto intro: f_inv_reset split: if_splits)
    next
      case (Cons tx txs')
      let ?f = "(f_set_pool (fst (cp_reset_pre tx (f_pool f))) f)\<lparr>f_seen := f_seen f @ [tx]\<rparr>"
      have "f_inv (f_set_pool (fst (cp_reset_pre tx (f_pool f))) f)"
        by (rule f_inv_set_pool [OF i cp_reset_pre_inv cp_reset_pre_marks]) (use i in \<open>simp add: f_inv_def\<close>)
      then have "f_inv ?f"
        using f_inv_seen [of "f_set_pool (fst (cp_reset_pre tx (f_pool f))) f" tx] RLoop by (simp add: f_set_pool_def)
      moreover have "resetting_ok (f_seen ?f) (RSend tx j sig txs')"
        if "snd (cp_reset_pre tx (f_pool f)) = Some (j, sig)" for j sig
        using cp_reset_pre_signal [OF that] by simp
      ultimately show ?thesis
        using RLoop Cons assms
        by (auto simp: case_prod_beta Let_def split: if_splits option.splits intro: f_inv_reset_next f_inv_reset)
    qed
  next
    case (RSend tx j sig txs)
    with assms show ?thesis by (auto simp: f_crash_def f_inv_def f_pool_def split: if_splits)
  qed (use assms in \<open>auto split: if_splits\<close>)
qed

lemma step_inv_Deliver:
  assumes step: "follower_step E F T (EvDeliver n) f = Some f'" and i: "f_inv f"
  shows "f_inv f'"
proof -
  from assms obtain tx j sig txs where n: "n < length (f_handlers f)" and r: "f_reset f = RSend tx j sig txs"
    and j: "handler_chan (f_handlers f ! n) = Some j"
    and f': "f' = f_reset_next tx txs (f_settle n (handler_recv sig (f_handlers f ! n)) f)"
    by (auto split: if_splits resetting.splits)
  have "handler_ok (f_seen f) (f_handlers f ! n)" using i n by (simp add: f_inv_def list_all_length)
  moreover have "resetting_ok (f_seen f) (RSend tx j sig txs)" using i r by (simp add: f_inv_def)
  ultimately have "outcome_ok (f_seen f) (handler_recv sig (f_handlers f ! n))"
    using j by (intro handler_recv_ok) (auto simp: seen_frozen_def seen_committed_def split: if_splits)
  then show ?thesis unfolding f' using i by (intro f_inv_reset_next f_inv_settle)
qed

lemma step_inv_FreezeOut:
  assumes step: "follower_step E F T EvFreezeOut f = Some f'" and i: "f_inv f"
  shows "f_inv f'"
proof -
  have c: "cp_inv (f_pool f)" using i by (simp add: f_inv_def)
  let ?m = "cp_freezeReadTxList (f_pool f)" let ?u = "cs_unread (cp_freezeCache (f_pool f)) ?m"
  let ?p = "snd (cp_FreezeCache (f_pool f))"
  have f': "f' = (f_set_pool ?p f)\<lparr>f_freezeOut := f_freezeOut f @ ?u\<rparr>"
    using assms cp_FreezeCache_spec(1) [OF c] by (auto simp: case_prod_beta Let_def split: if_splits)
  have p: "cp_committedReadTxList ?p = cp_committedReadTxList (f_pool f)"
    using cp_FreezeCache_spec(3) [OF c, of "fst (cp_FreezeCache (f_pool f))" ?p] by auto
  have "handed_ok (cp_freezeReadTxList ?p) (f_freezeOut f @ ?u) \<and> list_all sttx_ToFreeze ?u"
    using handed_more [OF _ _ cp_FreezeCache_spec(2) [OF c], of "f_freezeOut f" sttx_ToFreeze] i
    by (simp add: f_inv_def cp_inv_def)
  then show ?thesis using i cp_FreezeCache_inv [OF c] p unfolding f' f_inv_def
    by (simp add: f_pool_def f_set_pool_def)
qed

lemma step_inv_CommitOut:
  assumes step: "follower_step E F T EvCommitOut f = Some f'" and i: "f_inv f"
  shows "f_inv f'"
proof -
  have c: "cp_inv (f_pool f)" using i by (simp add: f_inv_def)
  let ?m = "cp_committedReadTxList (f_pool f)" let ?u = "cs_unread (cp_committed (f_pool f)) ?m"
  let ?p = "snd (cp_Committed (f_pool f))"
  have f': "f' = (f_set_pool ?p f)\<lparr>f_commitOut := f_commitOut f @ ?u\<rparr>"
    using assms cp_Committed_spec(1) [OF c] by (auto simp: case_prod_beta Let_def split: if_splits)
  have p: "cp_freezeReadTxList ?p = cp_freezeReadTxList (f_pool f)"
    using cp_Committed_spec(3) [OF c, of "fst (cp_Committed (f_pool f))" ?p] by auto
  have "handed_ok (cp_committedReadTxList ?p) (f_commitOut f @ ?u) \<and> list_all (\<lambda>tx. \<not> sttx_ToFreeze tx) ?u"
    using handed_more [OF _ _ cp_Committed_spec(2) [OF c], of "f_commitOut f" "\<lambda>tx. \<not> sttx_ToFreeze tx"] i
    by (simp add: f_inv_def cp_inv_def)
  then show ?thesis using i cp_Committed_inv [OF c] p unfolding f' f_inv_def
    by (simp add: f_pool_def f_set_pool_def)
qed

lemma follower_step_inv: "follower_step E F T ev f = Some f' \<Longrightarrow> f_inv f \<Longrightarrow> f_inv f'"
  by (cases ev) (blast intro: step_inv_Propose step_inv_Commit step_inv_Run step_inv_Timeout step_inv_Closed
    step_inv_Block step_inv_Loop step_inv_Deliver step_inv_FreezeOut step_inv_CommitOut)+

lemma follower_reachable_inv: "follower_reachable E F T f \<Longrightarrow> f_inv f"
proof (induction rule: follower_reachable.induct)
  case (follower_boot chain pool)
  then show ?case
    using NewCommitPool_inv [of E F chain pool] by (simp add: f_inv_def follower_init_def f_pool_def handed_ok_def)
next
  case (follower_move f ev f')
  then show ?case using follower_step_inv by blast
qed

text \<open>A sequence of steps.\<close>

definition follower_run ::
    "('d, 'tr, 'v) sdb_env \<Rightarrow> ('e, 'tl) lm_env \<Rightarrow> tx_env \<Rightarrow> ('d, 'e) event list \<Rightarrow>
      ('d, 'tr, 'v, 'e, 'tl) follower \<Rightarrow> ('d, 'tr, 'v, 'e, 'tl) follower option" where
  "follower_run E F T = range_loop (follower_step E F T)"

lemma follower_run_reachable:
  assumes "follower_reachable E F T f" and "follower_run E F T evs f = Some f'"
  shows "follower_reachable E F T f'"
  using range_loop_inv [of "follower_step E F T" evs f f' "follower_reachable E F T"] assms follower_move
  unfolding follower_run_def by blast

lemma follower_run_append:
  "follower_run E F T (evs @ evs') f = Option.bind (follower_run E F T evs f) (follower_run E F T evs')"
  by (simp add: follower_run_def range_loop_append)

end
