(* ===== verification/Commit_Handler_Props.thy ===== *)
theory Commit_Handler_Props
  imports Commit_Handler_Inv
begin

text \<open>
  Properties of a follower in all its interleavings: what an acknowledgement of a propose
  means, what block proposers are handed, how the two phases run to their end, and how a
  follower can crash or block.
\<close>

section \<open>Safety\<close>

text \<open>(C1) In every interleaving of its handlers, its event loop and its block proposals, a
  follower acknowledges a propose only after its pool has gone through a block with the freeze
  transaction of that index.\<close>

theorem follower_ack_means_frozen:
  assumes "follower_reachable E F T f" and "PReply resp \<in> set (f_replies f)" and "prs_Acktype resp = ACK"
  shows "\<exists>tx \<in> set (f_seen f). sttx_ToFreeze tx \<and> sttx_Index tx = prs_Index resp"
proof -
  have "reply_ok (f_seen f) (PReply resp)"
    using follower_reachable_inv [OF assms(1)] assms(2) by (auto simp: f_inv_def list_all_iff)
  then show ?thesis using assms(3) by (simp add: seen_frozen_def)
qed

text \<open>(C12) No transaction is handed to block proposals twice: over the whole life of a follower
  the transactions to freeze that \<open>FreezeCache\<close> has returned have distinct indices, and so have
  the transactions to commit that \<open>Committed\<close> has returned.\<close>

theorem follower_hands_out_once:
  assumes "follower_reachable E F T f"
  shows "distinct (map sttx_Index (f_freezeOut f)) \<and> distinct (map sttx_Index (f_commitOut f))
    \<and> (\<forall>tx \<in> set (f_freezeOut f). sttx_ToFreeze tx) \<and> (\<forall>tx \<in> set (f_commitOut f). \<not> sttx_ToFreeze tx)"
  using follower_reachable_inv [OF assms] by (auto simp: f_inv_def handed_ok_def list_all_iff)

section \<open>The two phases run to their end\<close>

lemma ManageState_new: "sdb_New E r d = Inr l \<Longrightarrow> ManageState E l = Some \<lparr>ms_DB = l, ms_accounts = []\<rparr>"
  by (auto simp: ManageState_def sdb_New_def sdb_Copy_def newJournal_def split: sum.splits)

definition block_follows ::
    "('d, 'tr, 'v) sdb_env \<Rightarrow> ('e, 'tl) lm_env \<Rightarrow> ('d, 'e) PoolChain \<Rightarrow> PoolHeader \<Rightarrow> PoolHeader \<Rightarrow>
      ('d, 'tr, 'v) DB \<Rightarrow> ('e, 'tl) LoadMapDB \<Rightarrow> bool" where
  "block_follows E F chain old new l m \<longleftrightarrow> ph_ParentHash new = ph_Hash old
     \<and> sdb_New E (ph_Root new) (ch_stateCache chain) = Inr l
     \<and> lm_New F (ph_LoadMapRoot new) (ch_loadMapStateCache chain) = Inr m"

lemma cp_reset_start_follows:
  assumes "block_follows E F chain old new l m"
  shows "cp_reset_start E F chain (Some old) (Some new) pool =
    Some (pool\<lparr>cp_currentState := Some l, cp_pendingState := Some \<lparr>ms_DB = l, ms_accounts = []\<rparr>,
      cp_currentLoadMapState := Some m\<rparr>, ch_sttxs chain)"
  using assms by (auto simp: block_follows_def cp_reset_start_def cp_reset_open_def ManageState_new)

text \<open>The state data that a source sends: the balance and the nonce of the account in the state
  after the block.\<close>

definition account_data :: "('d, 'tr, 'v) sdb_env \<Rightarrow> address \<Rightarrow> ('d, 'tr, 'v) DB \<Rightarrow> StateData" where
  "account_data E a l = zero_StateData\<lparr>std_State := \<lparr>stt_Address = a, stt_Balance = Some (fst (sdb_GetBalance E a l)),
     stt_Nonce = fst (sdb_GetNonce E a l), stt_Data = []\<rparr>\<rparr>"

lemmas f_run_defs = follower_run_def ProposeTwoPhase_def ProposeHandler_def ProposeShard_def
  ProposeHandler_target_def SetProgressForCommitPhase_def CommitTwoPhase_def CommitHandler_def CommitShard_def f_start_def f_settle_def
  f_set_pool_def f_reset_next_def cp_reset_start_follows

text \<open>An added transaction has a channel.\<close>

lemma addFreeze_signal: "cp_GetSignal i (snd (cp_addFreezeTransaction i s t a p))"
  by (simp add: cp_addFreezeTransaction_def cp_GetSignal_def cp_move_defs Let_def)

lemma propose_waits:
  assumes "\<not> f_crashed f" and "f_reset f = RIdle" and "n = length (f_handlers f)"
    and "cs_Get (cp_cached (f_pool f)) (prq_Index req) = None" and "prq_Target req \<noteq> srv_chainShardID (f_server f)"
  shows "follower_run E F T [EvPropose req, EvRun n, EvRun n, EvRun n, EvRun n, EvRun n, EvRun n] f =
    Some (f\<lparr>f_server := (f_server f)\<lparr>srv_FollowerType := SOURCE,
        srv_CommitPool := snd (cp_addFreezeTransaction (prq_Index req) (prq_Source req) (prq_Target req)
           (BytesToAddress (prq_MsgPayload req)) (f_pool f)),
        srv_cancelCommitOnHeight := gm_set (prq_Index req) False (srv_cancelCommitOnHeight (f_server f))\<rparr>,
      f_handlers := f_handlers f @ [PWaitSource req True]\<rparr>)"
  using assms
  by (simp add: f_run_defs HandleStateTransferMsg_def HandleStateTransferMsg_add_def f_pool_def nth_append
      list_update_append case_prod_beta propose_response_def addFreeze_signal)

lemma propose_target_waits:
  assumes "\<not> f_crashed f" and "f_reset f = RIdle" and "n = length (f_handlers f)"
    and "cs_Get (cp_cached (f_pool f)) (prq_Index req) = None" and "prq_Target req = srv_chainShardID (f_server f)"
  shows "follower_run E F T [EvPropose req, EvRun n, EvRun n, EvRun n, EvRun n, EvRun n, EvRun n] f =
    Some (f\<lparr>f_server := (f_server f)\<lparr>srv_FollowerType := TARGET,
        srv_CommitPool := snd (cp_addFreezeTransaction (prq_Index req) (prq_Source req) (prq_Target req)
           (BytesToAddress (prq_MsgPayload req)) (f_pool f)),
        srv_cancelCommitOnHeight := gm_set (prq_Index req) False (srv_cancelCommitOnHeight (f_server f))\<rparr>,
      f_handlers := f_handlers f @ [PWaitTarget req \<lparr>prs_Acktype = ACK, prs_Index = prq_Index req, prs_Ftype = TARGET,
        prs_Address = prq_MsgPayload req, prs_MsgPayload = []\<rparr> True]\<rparr>)"
  using assms
  by (simp add: f_run_defs HandleStateTransferMsg_def HandleStateTransferMsg_add_def f_pool_def nth_append
      list_update_append case_prod_beta propose_response_def addFreeze_signal)

lemma pending_read:
  assumes "cp_pendingState (srv_CommitPool s) = Some \<lparr>ms_DB = l, ms_accounts = []\<rparr>"
    and "a = BytesToAddress (prq_MsgPayload req)"
  shows "ProposeHandler_balance E req s = Some (fst (sdb_GetBalance E a l),
      s\<lparr>srv_CommitPool := (srv_CommitPool s)\<lparr>cp_pendingState := Some \<lparr>ms_DB = sdb_loaded E a l, ms_accounts = []\<rparr>\<rparr>\<rparr>)"
    and "ProposeHandler_nonce E T req (fst (sdb_GetBalance E a l))
        (s\<lparr>srv_CommitPool := (srv_CommitPool s)\<lparr>cp_pendingState := Some \<lparr>ms_DB = sdb_loaded E a l, ms_accounts = []\<rparr>\<rparr>\<rparr>) =
      Some (EncodeStateData T (account_data E a l), s\<lparr>srv_CommitPool := (srv_CommitPool s)\<lparr>cp_pendingState :=
        Some \<lparr>ms_DB = sdb_loaded E a (sdb_loaded E a l), ms_accounts = []\<rparr>\<rparr>\<rparr>)"
proof -
  have "fst (sdb_GetNonce E a (sdb_loaded E b l)) = fst (sdb_GetNonce E a l)" for a b
    by (simp add: sdb_getters_obj sdb_obj_peek)
  with assms show "ProposeHandler_nonce E T req (fst (sdb_GetBalance E a l))
        (s\<lparr>srv_CommitPool := (srv_CommitPool s)\<lparr>cp_pendingState := Some \<lparr>ms_DB = sdb_loaded E a l, ms_accounts = []\<rparr>\<rparr>\<rparr>) =
      Some (EncodeStateData T (account_data E a l), s\<lparr>srv_CommitPool := (srv_CommitPool s)\<lparr>cp_pendingState :=
        Some \<lparr>ms_DB = sdb_loaded E a (sdb_loaded E a l), ms_accounts = []\<rparr>\<rparr>\<rparr>)"
    by (simp add: ProposeHandler_nonce_def ms_GetNonce_def ms_hasAccount_def account_data_def sdb_plain_getters
        case_prod_beta Let_def)
  from assms show "ProposeHandler_balance E req s = Some (fst (sdb_GetBalance E a l),
      s\<lparr>srv_CommitPool := (srv_CommitPool s)\<lparr>cp_pendingState := Some \<lparr>ms_DB = sdb_loaded E a l, ms_accounts = []\<rparr>\<rparr>\<rparr>)"
    by (simp add: ProposeHandler_balance_def sdb_plain_getters case_prod_beta)
qed

text \<open>A source that was woken up answers in three steps.\<close>

lemma source_answers:
  assumes "\<not> f_crashed f" and "f_handlers f = hs @ [PRead req]" and "n = length hs"
    and "cp_pendingState (f_pool f) = Some \<lparr>ms_DB = l, ms_accounts = []\<rparr>" and a: "a = BytesToAddress (prq_MsgPayload req)"
  shows "follower_run E F T [EvRun n, EvRun n, EvRun n] f =
    Some (f_settle n (Inr (PReply (propose_response ACK req (EncodeStateData T (account_data E a l)) (f_server f))))
      (f_set_pool ((f_pool f)\<lparr>cp_pendingState := Some \<lparr>ms_DB = sdb_loaded E a (sdb_loaded E a l), ms_accounts = []\<rparr>\<rparr>) f))"
  using assms(1-3) pending_read [OF assms(4) [unfolded f_pool_def] a, where E = E] unfolding a [symmetric]
  by (simp add: follower_run_def f_set_pool_def f_settle_def f_pool_def nth_append list_update_append propose_response_def)

text \<open>A block with one transaction whose signal a handler is waiting for.\<close>

definition pool_at ::
    "('d, 'tr, 'v) DB \<Rightarrow> ('e, 'tl) LoadMapDB \<Rightarrow> ('d, 'tr, 'v, 'e, 'tl) CommitPool \<Rightarrow> ('d, 'tr, 'v, 'e, 'tl) CommitPool" where
  "pool_at l m p = p\<lparr>cp_currentState := Some l, cp_pendingState := Some \<lparr>ms_DB = l, ms_accounts = []\<rparr>,
     cp_currentLoadMapState := Some m\<rparr>"

definition f_after_block ::
    "PoolHeader \<Rightarrow> StateTransferTransaction \<Rightarrow> ('d, 'tr, 'v, 'e, 'tl) CommitPool \<Rightarrow> ('d, 'tr, 'v, 'e, 'tl) follower \<Rightarrow>
      ('d, 'tr, 'v, 'e, 'tl) follower" where
  "f_after_block new tx p f = (f_set_pool (cp_reset_post tx p) f)\<lparr>f_head := new, f_seen := f_seen f @ [tx], f_reset := RIdle\<rparr>"

lemma block_delivers:
  assumes "\<not> f_crashed f" and "f_reset f = RIdle" and "n < length (f_handlers f)"
    and "block_follows E F chain (f_head f) new l m" and "ch_sttxs chain = [tx]"
    and "cp_reset_pre tx (pool_at l m (f_pool f)) = (p, Some (i, sig))"
    and "cp_SetSignal i p = SendWaits" and "handler_chan (f_handlers f ! n) = Some i"
  shows "follower_run E F T [EvBlock chain new, EvLoop, EvDeliver n, EvLoop] f =
    Some (f_after_block new tx p (f_settle n (handler_recv sig (f_handlers f ! n)) f))"
  using assms cp_reset_start_follows [OF assms(4), of "f_pool f"]
  by (simp add: follower_run_def f_set_pool_def f_pool_def f_reset_next_def pool_at_def f_after_block_def f_settle_def
      split: sum.split)

text \<open>Where a pool stands with an index: is it to be frozen, frozen, to be committed; its channel;
  was it committed.\<close>

definition cp_status ::
    "u64 \<Rightarrow> ('d, 'tr, 'v, 'e, 'tl) CommitPool \<Rightarrow> bool \<times> bool \<times> bool \<times> chan option \<times> bool" where
  "cp_status i p = (cs_Get (cp_freezeCache p) i \<noteq> None, cs_Get (cp_cached p) i \<noteq> None,
     cs_Get (cp_committed p) i \<noteq> None, gm_get (cp_Signal p) i, cp_GetCommittedTx i p \<noteq> None)"

lemmas pool_status_simps = cp_status_def cp_GetCommittedTx_def cp_addFreezeTransaction_def cp_addCachedTransaction_def
  cp_addCommittedTransaction_def cp_move_defs cp_GetSignal_def sttx_cache.get_put sttx_cache.get_del Let_def

lemma cp_status_pool_at [simp]: "cp_status i (pool_at l m p) = cp_status i p"
  by (simp add: pool_at_def cp_status_def cp_GetCommittedTx_def)

lemma status_addFreeze:
  assumes "cp_status i p = (False, False, False, None, False)"
  shows "cp_status i (snd (cp_addFreezeTransaction i s t a p)) = (True, False, False, Some ChanOpen, False)"
  using assms by (simp add: pool_status_simps)

lemma freeze_tx_sends:
  assumes "cp_status i p = (True, cd, cm, Some ChanOpen, d)" and "sttx_ToFreeze tx" and "sttx_Index tx = i"
  shows "snd (cp_reset_pre tx p) = Some (i, 1)" and "cp_SetSignal i (fst (cp_reset_pre tx p)) = SendWaits"
    and "cp_status i (cp_reset_post tx (fst (cp_reset_pre tx p))) = (False, True, cm, Some ChanOpen, d)"
    and "cp_pendingState (cp_reset_post tx (fst (cp_reset_pre tx p))) = cp_pendingState p"
    and "cp_committedReadTxList (cp_reset_post tx (fst (cp_reset_pre tx p))) = cp_committedReadTxList p"
  using assms by (auto simp: cp_reset_pre_def cp_reset_post_def pool_status_simps cp_SetSignal_def)

lemma commit_tx_sends:
  assumes "cp_status i p = (fr, cd, True, Some ChanOpen, d)" and "\<not> sttx_ToFreeze tx" and "sttx_Index tx = i"
  shows "snd (cp_reset_pre tx p) = Some (i, 2)" and "cp_SetSignal i (fst (cp_reset_pre tx p)) = SendWaits"
    and "cp_status i (cp_reset_post tx (fst (cp_reset_pre tx p))) = (fr, cd, False, Some ChanOpen, True)"
  using assms by (auto simp: cp_reset_pre_def cp_reset_post_def pool_status_simps cp_SetSignal_def)

text \<open>The first phase at a source.\<close>

lemma propose_phase:
  assumes idle: "\<not> f_crashed f" "f_reset f = RIdle" and n: "n = length (f_handlers f)"
    and fresh: "cp_status (prq_Index req) (f_pool f) = (False, False, False, None, False)"
    and source: "prq_Target req \<noteq> srv_chainShardID (f_server f)"
    and b: "block_follows E F chain (f_head f) new l m" "ch_sttxs chain = [tx]" "sttx_ToFreeze tx"
      "sttx_Index tx = prq_Index req"
  shows "\<exists>f'. follower_run E F T ([EvPropose req, EvRun n, EvRun n, EvRun n, EvRun n, EvRun n, EvRun n]
        @ [EvBlock chain new, EvLoop, EvDeliver n, EvLoop] @ [EvRun n, EvRun n, EvRun n]) f = Some f'
    \<and> f_replies f' = f_replies f @ [PReply \<lparr>prs_Acktype = ACK, prs_Index = prq_Index req, prs_Ftype = SOURCE,
        prs_Address = prq_MsgPayload req,
        prs_MsgPayload = EncodeStateData T (account_data E (BytesToAddress (prq_MsgPayload req)) l)\<rparr>]
    \<and> f_handlers f' = f_handlers f \<and> \<not> f_crashed f' \<and> f_reset f' = RIdle \<and> f_head f' = new
    \<and> srv_FollowerType (f_server f') = SOURCE
    \<and> cp_committedReadTxList (f_pool f') = cp_committedReadTxList (f_pool f)
    \<and> cp_status (prq_Index req) (f_pool f') = (False, True, False, Some ChanOpen, False)"
proof -
  let ?i = "prq_Index req" let ?a = "BytesToAddress (prq_MsgPayload req)"
  let ?p = "snd (cp_addFreezeTransaction ?i (prq_Source req) (prq_Target req) ?a (f_pool f))"
  let ?f1 = "f\<lparr>f_server := (f_server f)\<lparr>srv_FollowerType := SOURCE, srv_CommitPool := ?p,
        srv_cancelCommitOnHeight := gm_set ?i False (srv_cancelCommitOnHeight (f_server f))\<rparr>,
      f_handlers := f_handlers f @ [PWaitSource req True]\<rparr>"
  have one: "follower_run E F T [EvPropose req, EvRun n, EvRun n, EvRun n, EvRun n, EvRun n, EvRun n] f = Some ?f1"
    using fresh by (intro propose_waits [OF idle n _ source]) (simp add: cp_status_def)
  have st: "cp_status ?i (pool_at l m ?p) = (True, False, False, Some ChanOpen, False)"
    using status_addFreeze [OF fresh] by simp
  note s = freeze_tx_sends [OF st b(3,4)]
  let ?p' = "fst (cp_reset_pre tx (pool_at l m ?p))"
  let ?f2 = "f_after_block new tx ?p' (f_settle n (handler_recv 1 (f_handlers ?f1 ! n)) ?f1)"
  have two: "follower_run E F T [EvBlock chain new, EvLoop, EvDeliver n, EvLoop] ?f1 = Some ?f2"
    using idle b(1,2) s(1,2) n
    by (intro block_delivers [where i = ?i]) (simp_all add: f_pool_def prod_eq_iff nth_append)
  have "cp_pendingState (f_pool ?f2) = Some \<lparr>ms_DB = l, ms_accounts = []\<rparr>"
    using s(4) by (simp add: f_pool_def f_after_block_def f_set_pool_def pool_at_def)
  then have three: "follower_run E F T [EvRun n, EvRun n, EvRun n] ?f2 =
    Some (f_settle n (Inr (PReply (propose_response ACK req (EncodeStateData T (account_data E ?a l)) (f_server ?f2))))
      (f_set_pool ((f_pool ?f2)\<lparr>cp_pendingState := Some \<lparr>ms_DB = sdb_loaded E ?a (sdb_loaded E ?a l), ms_accounts = []\<rparr>\<rparr>) ?f2))"
    using idle n
    by (intro source_answers [where hs = "f_handlers f"])
      (simp_all add: f_after_block_def f_set_pool_def f_settle_def nth_append list_update_append)
  have marks: "cp_committedReadTxList ?p = cp_committedReadTxList (f_pool f)"
    by (simp add: cp_addFreezeTransaction_def cp_move_defs Let_def)
  show ?thesis
    unfolding follower_run_append using one two three s(3,5) n idle marks
    by (simp add: pool_at_def f_settle_def f_after_block_def f_set_pool_def f_pool_def nth_append list_update_append
        propose_response_def cp_status_def cp_GetCommittedTx_def)
qed

text \<open>The first phase at a target.\<close>

lemma propose_phase_target:
  assumes idle: "\<not> f_crashed f" "f_reset f = RIdle" and n: "n = length (f_handlers f)"
    and fresh: "cp_status (prq_Index req) (f_pool f) = (False, False, False, None, False)"
    and target: "prq_Target req = srv_chainShardID (f_server f)"
    and b: "block_follows E F chain (f_head f) new l m" "ch_sttxs chain = [tx]" "sttx_ToFreeze tx"
      "sttx_Index tx = prq_Index req"
  shows "\<exists>f'. follower_run E F T ([EvPropose req, EvRun n, EvRun n, EvRun n, EvRun n, EvRun n, EvRun n]
        @ [EvBlock chain new, EvLoop, EvDeliver n, EvLoop]) f = Some f'
    \<and> f_replies f' = f_replies f @ [PReply \<lparr>prs_Acktype = ACK, prs_Index = prq_Index req, prs_Ftype = TARGET,
        prs_Address = prq_MsgPayload req, prs_MsgPayload = []\<rparr>]
    \<and> f_handlers f' = f_handlers f \<and> \<not> f_crashed f' \<and> f_reset f' = RIdle
    \<and> cp_committedReadTxList (f_pool f') = cp_committedReadTxList (f_pool f)
    \<and> cp_status (prq_Index req) (f_pool f') = (False, True, False, Some ChanOpen, False)"
proof -
  let ?i = "prq_Index req" let ?a = "BytesToAddress (prq_MsgPayload req)"
  let ?p = "snd (cp_addFreezeTransaction ?i (prq_Source req) (prq_Target req) ?a (f_pool f))"
  let ?r = "\<lparr>prs_Acktype = ACK, prs_Index = ?i, prs_Ftype = TARGET, prs_Address = prq_MsgPayload req, prs_MsgPayload = []\<rparr>"
  let ?f1 = "f\<lparr>f_server := (f_server f)\<lparr>srv_FollowerType := TARGET, srv_CommitPool := ?p,
        srv_cancelCommitOnHeight := gm_set ?i False (srv_cancelCommitOnHeight (f_server f))\<rparr>,
      f_handlers := f_handlers f @ [PWaitTarget req ?r True]\<rparr>"
  have one: "follower_run E F T [EvPropose req, EvRun n, EvRun n, EvRun n, EvRun n, EvRun n, EvRun n] f = Some ?f1"
    using fresh by (intro propose_target_waits [OF idle n _ target]) (simp add: cp_status_def)
  have st: "cp_status ?i (pool_at l m ?p) = (True, False, False, Some ChanOpen, False)"
    using status_addFreeze [OF fresh] by simp
  note s = freeze_tx_sends [OF st b(3,4)]
  let ?p' = "fst (cp_reset_pre tx (pool_at l m ?p))"
  let ?f2 = "f_after_block new tx ?p' (f_settle n (handler_recv 1 (f_handlers ?f1 ! n)) ?f1)"
  have two: "follower_run E F T [EvBlock chain new, EvLoop, EvDeliver n, EvLoop] ?f1 = Some ?f2"
    using idle b(1,2) s(1,2) n
    by (intro block_delivers [where i = ?i]) (simp_all add: f_pool_def prod_eq_iff nth_append)
  have marks: "cp_committedReadTxList ?p = cp_committedReadTxList (f_pool f)"
    by (simp add: cp_addFreezeTransaction_def cp_move_defs Let_def)
  show ?thesis
    unfolding follower_run_append using one two s(3,5) n idle marks
    by (simp add: pool_at_def f_settle_def f_after_block_def f_set_pool_def f_pool_def nth_append cp_status_def
        cp_GetCommittedTx_def)
qed

text \<open>The second phase, up to its wait, and to its end.\<close>

lemma commit_waits:
  assumes "\<not> f_crashed f" and "f_reset f = RIdle" and n: "n = length (f_handlers f)"
    and st: "cp_status (crq_Index req) (f_pool f) = (False, True, False, Some ChanOpen, False)"
  shows "\<exists>f'. follower_run E F T [EvCommit req, EvRun n, EvRun n, EvRun n, EvRun n, EvRun n, EvRun n] f = Some f'
    \<and> f_handlers f' = f_handlers f @ [CWait req (commit_response ACK req (f_server f)) True]
    \<and> f_replies f' = f_replies f \<and> \<not> f_crashed f' \<and> f_reset f' = RIdle \<and> f_head f' = f_head f
    \<and> cp_status (crq_Index req) (f_pool f') = (False, False, True, Some ChanOpen, False)
    \<and> cp_committedReadTxList (f_pool f') = cp_committedReadTxList (f_pool f)
    \<and> cs_Get (cp_committed (f_pool f')) (crq_Index req) =
        (let sd = snd (DecodeStateData T (crq_MsgPayload req)) in
         Some (NewStateTransferTransaction (crq_Source req) (crq_Target req) (stp_BlockHeight (std_StateProof sd))
           (BytesToAddress (crq_Address req)) (stt_Balance (std_State sd)) (stt_Nonce (std_State sd))
           (stt_Data (std_State sd)) False (crq_Index req)))"
proof -
  obtain tx where "cs_Get (cp_cached (srv_CommitPool (f_server f))) (crq_Index req) = Some tx"
    using st by (auto simp: cp_status_def f_pool_def)
  then show ?thesis
    using assms
    by (simp add: f_run_defs f_pool_def nth_append list_update_append case_prod_beta pool_status_simps
        cp_CachedById_def HandleCommitMsg_def HandleCommitMsg_add_def HandleCommitMsg_delete_def commit_response_def)
qed

lemma commit_ends:
  assumes idle: "\<not> f_crashed f" "f_reset f = RIdle" and hs: "f_handlers f = hs @ [CWait req resp True]" and n: "n = length hs"
    and st: "cp_status (crq_Index req) (f_pool f) = (False, False, True, Some ChanOpen, False)"
    and b: "block_follows E F chain (f_head f) new l m" "ch_sttxs chain = [tx]" "\<not> sttx_ToFreeze tx"
      "sttx_Index tx = crq_Index req"
  shows "\<exists>f'. follower_run E F T ([EvBlock chain new, EvLoop, EvDeliver n, EvLoop] @ [EvRun n]) f = Some f'
    \<and> f_replies f' = f_replies f @ [CReply resp None] \<and> f_handlers f' = hs \<and> \<not> f_crashed f' \<and> f_reset f' = RIdle
    \<and> cp_status (crq_Index req) (f_pool f') = (False, False, False, Some ChanClosed, True)"
proof -
  let ?i = "crq_Index req"
  have st': "cp_status ?i (pool_at l m (f_pool f)) = (False, False, True, Some ChanOpen, False)" using st by simp
  note s = commit_tx_sends [OF st' b(3,4)]
  let ?p' = "fst (cp_reset_pre tx (pool_at l m (f_pool f)))"
  let ?f2 = "f_after_block new tx ?p' (f_settle n (handler_recv 2 (f_handlers f ! n)) f)"
  have two: "follower_run E F T [EvBlock chain new, EvLoop, EvDeliver n, EvLoop] f = Some ?f2"
    using idle b(1,2) s(1,2) n hs by (intro block_delivers [where i = ?i]) (simp_all add: prod_eq_iff)
  have "gm_get (cp_Signal (cp_reset_post tx ?p')) ?i = Some ChanOpen"
    using s(3) by (simp add: cp_status_def)
  then show ?thesis
    unfolding follower_run_append two bind.simps using idle n hs s(3)
    by (simp add: follower_run_def f_after_block_def f_set_pool_def f_settle_def f_pool_def cp_CloseSignal_def
        cp_status_def cp_GetCommittedTx_def)
qed

text \<open>(C9) A migration runs to its end at a source follower that is idle and has not heard of its
  index: when the propose arrives and then a block with the freeze transaction, the follower
  acknowledges with the balance and the nonce that the account has after that block; when then
  the commit request arrives and after it a block with the commit transaction, the follower
  acknowledges the commit, the transaction is in none of its caches any more and is recorded as
  committed, and the follower is idle again.\<close>

theorem follower_two_phases_complete:
  assumes "\<not> f_crashed f" and "f_reset f = RIdle" and "n = length (f_handlers f)"
    and "cp_status i (f_pool f) = (False, False, False, None, False)"
    and "prq_Index preq = i" and "prq_Target preq \<noteq> srv_chainShardID (f_server f)" and "crq_Index creq = i"
    and "block_follows E F chain1 (f_head f) new1 l1 m1" and "ch_sttxs chain1 = [tx1]" and "sttx_ToFreeze tx1"
    and "sttx_Index tx1 = i"
    and "block_follows E F chain2 new1 new2 l2 m2" and "ch_sttxs chain2 = [tx2]" and "\<not> sttx_ToFreeze tx2"
    and "sttx_Index tx2 = i"
  shows "\<exists>f1 f2.
    follower_run E F T [EvPropose preq, EvRun n, EvRun n, EvRun n, EvRun n, EvRun n, EvRun n,
      EvBlock chain1 new1, EvLoop, EvDeliver n, EvLoop, EvRun n, EvRun n, EvRun n] f
      = Some f1
    \<and> f_replies f1 = f_replies f @ [PReply \<lparr>prs_Acktype = ACK, prs_Index = i, prs_Ftype = SOURCE,
        prs_Address = prq_MsgPayload preq,
        prs_MsgPayload = EncodeStateData T (account_data E (BytesToAddress (prq_MsgPayload preq)) l1)\<rparr>]
    \<and> follower_run E F T [EvCommit creq, EvRun n, EvRun n, EvRun n, EvRun n, EvRun n, EvRun n,
      EvBlock chain2 new2, EvLoop, EvDeliver n, EvLoop, EvRun n] f1
      = Some f2
    \<and> f_replies f2 = f_replies f1 @ [CReply \<lparr>rsp_Acktype = ACK, rsp_Index = i, rsp_Ftype = SOURCE\<rparr> None]
    \<and> cp_status i (f_pool f2) = (False, False, False, Some ChanClosed, True)
    \<and> f_handlers f2 = f_handlers f \<and> \<not> f_crashed f2 \<and> f_reset f2 = RIdle"
proof -
  obtain f1 where f1: "follower_run E F T ([EvPropose preq, EvRun n, EvRun n, EvRun n, EvRun n, EvRun n, EvRun n]
        @ [EvBlock chain1 new1, EvLoop, EvDeliver n, EvLoop] @ [EvRun n, EvRun n, EvRun n]) f = Some f1"
      "f_replies f1 = f_replies f @ [PReply \<lparr>prs_Acktype = ACK, prs_Index = i, prs_Ftype = SOURCE,
        prs_Address = prq_MsgPayload preq,
        prs_MsgPayload = EncodeStateData T (account_data E (BytesToAddress (prq_MsgPayload preq)) l1)\<rparr>]"
      "f_handlers f1 = f_handlers f" "\<not> f_crashed f1" "f_reset f1 = RIdle" "f_head f1 = new1"
      "srv_FollowerType (f_server f1) = SOURCE" "cp_status i (f_pool f1) = (False, True, False, Some ChanOpen, False)"
    using propose_phase [where f = f and req = preq and n = n and E = E and F = F and T = T, OF assms(1,2,3) _ assms(6) _ assms(9,10)]
      assms(4,5,8,11) by blast
  obtain f2 where f2: "follower_run E F T [EvCommit creq, EvRun n, EvRun n, EvRun n, EvRun n, EvRun n, EvRun n] f1 = Some f2"
      "f_handlers f2 = f_handlers f @ [CWait creq (commit_response ACK creq (f_server f1)) True]"
      "f_replies f2 = f_replies f1" "\<not> f_crashed f2" "f_reset f2 = RIdle" "f_head f2 = new1"
      "cp_status i (f_pool f2) = (False, False, True, Some ChanOpen, False)"
    using commit_waits [OF f1(4,5), of n creq E F T] f1(3,6,8) assms(3,7) by auto
  obtain f3 where f3: "follower_run E F T ([EvBlock chain2 new2, EvLoop, EvDeliver n, EvLoop] @ [EvRun n]) f2 = Some f3"
      "f_replies f3 = f_replies f2 @ [CReply (commit_response ACK creq (f_server f1)) None]"
      "f_handlers f3 = f_handlers f" "\<not> f_crashed f3" "f_reset f3 = RIdle"
      "cp_status i (f_pool f3) = (False, False, False, Some ChanClosed, True)"
    using commit_ends [OF f2(4,5,2) assms(3)] f2(6,7) assms(7,12-15) by blast
  have "follower_run E F T [EvCommit creq, EvRun n, EvRun n, EvRun n, EvRun n, EvRun n, EvRun n,
      EvBlock chain2 new2, EvLoop, EvDeliver n, EvLoop, EvRun n] f1
      = Some f3"
    using follower_run_append [of E F T "[EvCommit creq, EvRun n, EvRun n, EvRun n, EvRun n, EvRun n, EvRun n]"
      "[EvBlock chain2 new2, EvLoop, EvDeliver n, EvLoop] @ [EvRun n]" f1] f2(1) f3(1)
    by (simp del: follower_step.simps)
  with f1(1,2,7) f2(3) f3 assms(7) show ?thesis
    by (intro exI [of _ f1] exI [of _ f3]) (simp add: commit_response_def)
qed

text \<open>The state data that a source sends, read back.\<close>

lemma account_data_decodes:
  assumes "rlp_codes T" and "0 \<le> fst (sdb_GetBalance E a l)"
  shows "stt_Balance (std_State (snd (DecodeStateData T (EncodeStateData T (account_data E a l))))) =
      Some (fst (sdb_GetBalance E a l))"
    and "stt_Nonce (std_State (snd (DecodeStateData T (EncodeStateData T (account_data E a l))))) = fst (sdb_GetNonce E a l)"
    and "EncodeStateData T (account_data E a l) \<noteq> []"
  using assms unfolding rlp_codes_def
  by (auto simp: account_data_def nonneg_balance_def state_wire_def dest!: spec [of _ "account_data E a l"])

text \<open>What a follower hands to the block proposal after a commit request.\<close>

lemma commit_hands_out:
  assumes "follower_reachable E F T f" and "\<not> f_crashed f" and "f_reset f = RIdle" and "n = length (f_handlers f)"
    and "cp_status (crq_Index req) (f_pool f) = (False, True, False, Some ChanOpen, False)"
    and "gm_get (cp_committedReadTxList (f_pool f)) (crq_Index req) = None"
    and "sd = snd (DecodeStateData T (crq_MsgPayload req))"
  shows "\<exists>f'. follower_run E F T [EvCommit req, EvRun n, EvRun n, EvRun n, EvRun n, EvRun n, EvRun n, EvCommitOut] f = Some f'
    \<and> NewStateTransferTransaction (crq_Source req) (crq_Target req) (stp_BlockHeight (std_StateProof sd))
        (BytesToAddress (crq_Address req)) (stt_Balance (std_State sd)) (stt_Nonce (std_State sd))
        (stt_Data (std_State sd)) False (crq_Index req) \<in> set (f_commitOut f')" (is "\<exists>f'. _ \<and> ?tx \<in> _")
proof -
  let ?i = "crq_Index req"
  obtain f1 where f1: "follower_run E F T [EvCommit req, EvRun n, EvRun n, EvRun n, EvRun n, EvRun n, EvRun n] f = Some f1"
      "\<not> f_crashed f1" "f_reset f1 = RIdle"
      and marks: "gm_get (cp_committedReadTxList (f_pool f1)) ?i = None"
      and f1': "cs_Get (cp_committed (f_pool f1)) ?i = Some ?tx"
    using commit_waits [OF assms(2-5), of E F T] assms(6,7) by (auto simp: Let_def)
  have inv: "cp_inv (f_pool f1)"
    using follower_reachable_inv [OF follower_run_reachable [OF assms(1) f1(1)]] by (simp add: f_inv_def)
  then have k: "cs_keyed (\<lambda>tx. \<not> sttx_ToFreeze tx) (cp_committed (f_pool f1))" by (simp add: cp_inv_def)
  have "?tx \<in> set (cs_unread (cp_committed (f_pool f1)) (cp_committedReadTxList (f_pool f1)))"
    using f1' marks unfolding cs_unread_facts(2) [OF k] by simp
  moreover have "\<exists>f'. follower_run E F T [EvCommitOut] f1 = Some f'
    \<and> f_commitOut f' = f_commitOut f1 @ cs_unread (cp_committed (f_pool f1)) (cp_committedReadTxList (f_pool f1))"
    using f1(2,3) cp_Committed_spec(1) [OF inv] by (simp add: follower_run_def case_prod_beta)
  moreover have "follower_run E F T [EvCommit req, EvRun n, EvRun n, EvRun n, EvRun n, EvRun n, EvRun n, EvCommitOut] f
      = follower_run E F T [EvCommitOut] f1"
    using follower_run_append [of E F T "[EvCommit req, EvRun n, EvRun n, EvRun n, EvRun n, EvRun n, EvRun n]" "[EvCommitOut]" f] f1(1)
    by (simp del: follower_step.simps)
  ultimately show ?thesis by force
qed

text \<open>(C22) The state that a source reads is the state that the commit transaction carries: when the
  commit request carries the encoding of the data of an account, the transaction that the
  follower then hands to the block proposal has the address of the request, the balance and
  the nonce of that account, and is not a freeze transaction.\<close>

theorem follower_commit_carries_state:
  assumes "follower_reachable E F T f" and "rlp_codes T"
    and "\<not> f_crashed f" and "f_reset f = RIdle" and "n = length (f_handlers f)"
    and "cp_status (crq_Index req) (f_pool f) = (False, True, False, Some ChanOpen, False)"
    and "gm_get (cp_committedReadTxList (f_pool f)) (crq_Index req) = None"
    and "crq_MsgPayload req = EncodeStateData T (account_data E a l)" and "0 \<le> fst (sdb_GetBalance E a l)"
  shows "\<exists>f' tx. follower_run E F T [EvCommit req, EvRun n, EvRun n, EvRun n, EvRun n, EvRun n, EvRun n, EvCommitOut] f = Some f'
    \<and> tx \<in> set (f_commitOut f') \<and> sttx_Index tx = crq_Index req \<and> \<not> sttx_ToFreeze tx
    \<and> sttx_SourceShardID tx = crq_Source req \<and> sttx_TargetShardID tx = crq_Target req
    \<and> sttx_Address tx = BytesToAddress (crq_Address req)
    \<and> sttx_Balance tx = Some (fst (sdb_GetBalance E a l)) \<and> sttx_Nonce tx = fst (sdb_GetNonce E a l)"
  using commit_hands_out [OF assms(1,3-7) refl] account_data_decodes [OF assms(2,9)]
  unfolding assms(8) by (force simp: NewStateTransferTransaction_def sttx_getters)

section \<open>A concrete follower\<close>

definition demo_head :: "nat \<Rightarrow> PoolHeader" where
  "demo_head k = \<lparr>ph_Hash = of_nat k, ph_ParentHash = of_nat (k - 1), ph_Number = of_nat k, ph_Root = 0, ph_LoadMapRoot = 0\<rparr>"

definition demo_chain :: "nat \<Rightarrow> StateTransferTransaction list \<Rightarrow> (_, unit) PoolChain" where
  "demo_chain k txs = \<lparr>ch_ShardID = 0, ch_stateCache = [], ch_loadMapStateCache = (), ch_header = demo_head k, ch_sttxs = txs\<rparr>"

definition demo_propose :: ProposeRequest where
  "demo_propose = \<lparr>prq_CommitType = TWO_PHASE_COMMIT, prq_Source = 0, prq_Target = 1,
     prq_MsgPayload = word_bytes 20 (9 :: address), prq_Index = 2\<rparr>"

definition demo_commit :: CommitRequest where
  "demo_commit = \<lparr>crq_Source = 0, crq_Target = 1, crq_Index = 2, crq_Address = word_bytes 20 (9 :: address),
     crq_MsgPayload = EncodeStateData tx_demo_env (account_data sdb_demo_env 9 sdb_demo), crq_IsRollback = False\<rparr>"

definition demo_follower where
  "demo_follower = follower_init 0 (demo_head 0) (pool_at sdb_demo lm_demo cp_new)"

lemma demo_sel [simp]:
  "prq_Index demo_propose = 2" "crq_Index demo_commit = 2" "prq_Target demo_propose = 1"
  "BytesToAddress (prq_MsgPayload demo_propose) = 9" "BytesToAddress (crq_Address demo_commit) = 9"
  "crq_MsgPayload demo_commit = EncodeStateData tx_demo_env (account_data sdb_demo_env 9 sdb_demo)"
  "ch_sttxs (demo_chain k txs) = txs" "sttx_Index (tx_freeze_demo a) = 2"
  by (simp_all add: demo_propose_def demo_commit_def demo_chain_def tx_freeze_demo_def)

lemma demo_follows:
  "block_follows sdb_demo_env lm_demo_env (demo_chain (Suc k) txs) (demo_head k) (demo_head (Suc k)) sdb_demo lm_demo"
  by (simp add: block_follows_def demo_chain_def demo_head_def sdb_demo_new lm_demo_new)

lemma demo_reachable: "follower_reachable sdb_demo_env lm_demo_env tx_demo_env demo_follower"
proof -
  have "NewCommitPool sdb_demo_env lm_demo_env (demo_chain 0 []) = Some (pool_at sdb_demo lm_demo cp_new)"
    by (simp add: NewCommitPool_def cp_reset_start_def cp_reset_open_def demo_chain_def demo_head_def sdb_demo_new
        lm_demo_new ManageState_new [OF sdb_demo_new] pool_at_def)
  from follower_boot [OF this, of tx_demo_env] show ?thesis
    by (simp add: demo_follower_def demo_chain_def)
qed

lemma demo_fresh:
  "\<not> f_crashed demo_follower" "f_reset demo_follower = RIdle" "f_handlers demo_follower = []"
  "f_replies demo_follower = []" "f_head demo_follower = demo_head 0" "srv_chainShardID (f_server demo_follower) = 0"
  "cp_status 2 (f_pool demo_follower) = (False, False, False, None, False)"
  "cp_committedReadTxList (f_pool demo_follower) = []"
  by (simp_all add: demo_follower_def follower_init_def cp_new_def cp_status_def f_pool_def pool_at_def
      sttx_cache.get_new cp_GetCommittedTx_def)

text \<open>The concrete follower after the first phase.\<close>

lemma demo_proposed:
  "\<exists>f. follower_reachable sdb_demo_env lm_demo_env tx_demo_env f \<and> f_replies f = [PReply \<lparr>prs_Acktype = ACK, prs_Index = 2,
      prs_Ftype = SOURCE, prs_Address = prq_MsgPayload demo_propose,
      prs_MsgPayload = EncodeStateData tx_demo_env (account_data sdb_demo_env 9 sdb_demo)\<rparr>]
    \<and> f_handlers f = [] \<and> \<not> f_crashed f \<and> f_reset f = RIdle \<and> f_head f = demo_head 1
    \<and> gm_get (cp_committedReadTxList (f_pool f)) 2 = None
    \<and> cp_status 2 (f_pool f) = (False, True, False, Some ChanOpen, False)"
proof -
  have "prq_Target demo_propose \<noteq> srv_chainShardID (f_server demo_follower)" using demo_fresh by simp
  from propose_phase [OF demo_fresh(1,2) refl _ this, of sdb_demo_env lm_demo_env "demo_chain 1 [tx_freeze_demo 9]"
      "demo_head 1" sdb_demo lm_demo "tx_freeze_demo 9" tx_demo_env]
  show ?thesis
    using demo_fresh demo_follows [of 0 "[tx_freeze_demo 9]"] follower_run_reachable [OF demo_reachable] by force
qed

theorem follower_ack_means_frozen_witness:
  "\<exists>f tx. follower_reachable sdb_demo_env lm_demo_env tx_demo_env f \<and> length (f_replies f) = 1
    \<and> tx \<in> set (f_seen f) \<and> sttx_ToFreeze tx \<and> sttx_Index tx = 2"
proof -
  obtain f where f: "follower_reachable sdb_demo_env lm_demo_env tx_demo_env f" "f_replies f = [PReply \<lparr>prs_Acktype = ACK, prs_Index = 2,
      prs_Ftype = SOURCE, prs_Address = prq_MsgPayload demo_propose,
      prs_MsgPayload = EncodeStateData tx_demo_env (account_data sdb_demo_env 9 sdb_demo)\<rparr>]"
    using demo_proposed by blast
  then show ?thesis using follower_ack_means_frozen [OF f(1)] by force
qed

theorem follower_hands_out_once_witness:
  "\<exists>f. follower_reachable sdb_demo_env lm_demo_env tx_demo_env f \<and> length (f_freezeOut f) = 1
    \<and> distinct (map sttx_Index (f_freezeOut f))"
proof -
  have "\<exists>f. follower_run sdb_demo_env lm_demo_env tx_demo_env
      [EvPropose demo_propose, EvRun 0, EvRun 0, EvRun 0, EvRun 0, EvRun 0, EvRun 0, EvFreezeOut, EvFreezeOut] demo_follower = Some f
      \<and> length (f_freezeOut f) = 1"
    by (simp add: f_run_defs demo_follower_def follower_init_def pool_at_def cp_new_def NewCache_def
        HandleStateTransferMsg_def HandleStateTransferMsg_add_def cs_Get_def f_pool_def cp_addFreezeTransaction_def
        cp_move_defs cs_Set_def cp_FreezeCache_def cs_Count_def minProcessSttxNum_def cs_Range_def cp_take_unread_def
        cp_GetSignal_def)
  then obtain f where f: "follower_reachable sdb_demo_env lm_demo_env tx_demo_env f" "length (f_freezeOut f) = 1"
    using follower_run_reachable [OF demo_reachable] by blast
  then show ?thesis using follower_hands_out_once [OF f(1)] by blast
qed

theorem follower_two_phases_complete_witness:
  "\<exists>evs f. follower_run sdb_demo_env lm_demo_env tx_demo_env evs demo_follower = Some f
    \<and> length (f_replies f) = 2 \<and> cp_status 2 (f_pool f) = (False, False, False, Some ChanClosed, True)"
proof -
  have "prq_Target demo_propose \<noteq> srv_chainShardID (f_server demo_follower)" using demo_fresh by simp
  from follower_two_phases_complete [OF demo_fresh(1,2) refl demo_fresh(7) _ this, of demo_commit sdb_demo_env lm_demo_env
      "demo_chain 1 [tx_freeze_demo 9]" "demo_head 1" sdb_demo lm_demo "tx_freeze_demo 9"
      "demo_chain 2 [tx_demo]" "demo_head 2" sdb_demo lm_demo tx_demo tx_demo_env]
  obtain evs evs' f1 f2 where "follower_run sdb_demo_env lm_demo_env tx_demo_env evs demo_follower = Some f1"
      "length (f_replies f1) = 1" "follower_run sdb_demo_env lm_demo_env tx_demo_env evs' f1 = Some f2"
      "length (f_replies f2) = Suc (length (f_replies f1))" "cp_status 2 (f_pool f2) = (False, False, False, Some ChanClosed, True)"
    using demo_fresh demo_follows [of 0 "[tx_freeze_demo 9]"] demo_follows [of 1 "[tx_demo]"]
    by (fastforce simp: numeral_2_eq_2 simp del: follower_step.simps)
  then show ?thesis
    using follower_run_append [of sdb_demo_env lm_demo_env tx_demo_env evs evs' demo_follower]
    by (intro exI [of _ "evs @ evs'"]) auto
qed

theorem follower_commit_carries_state_witness:
  "\<exists>f tx. follower_reachable sdb_demo_env lm_demo_env tx_demo_env f \<and> tx \<in> set (f_commitOut f)
    \<and> sttx_Address tx = 9 \<and> sttx_Balance tx = Some 7"
proof -
  obtain f where f: "follower_reachable sdb_demo_env lm_demo_env tx_demo_env f" "f_handlers f = []" "\<not> f_crashed f"
      "f_reset f = RIdle" "cp_status 2 (f_pool f) = (False, True, False, Some ChanOpen, False)"
      "gm_get (cp_committedReadTxList (f_pool f)) 2 = None"
    using demo_proposed by blast
  obtain f' tx where "follower_run sdb_demo_env lm_demo_env tx_demo_env
        [EvCommit demo_commit, EvRun (length (f_handlers f)), EvRun (length (f_handlers f)), EvRun (length (f_handlers f)),
         EvRun (length (f_handlers f)), EvRun (length (f_handlers f)), EvRun (length (f_handlers f)), EvCommitOut] f = Some f'"
      "tx \<in> set (f_commitOut f')" "sttx_Address tx = 9" "sttx_Balance tx = Some 7"
    using follower_commit_carries_state [OF f(1) rlp_codes_demo f(3,4) refl, of demo_commit 9 sdb_demo] f(5,6)
      sdb_demo_balance by (auto simp del: follower_step.simps)
  then show ?thesis using follower_run_reachable [OF f(1)] by blast
qed

end
