(* ===== verification/Commit_Handler_Errors.thy ===== *)
theory Commit_Handler_Errors
  imports Commit_Handler_Props
begin

text \<open>
  How a follower fails: time-outs, late messages and retries lead to sends and closes on
  channels that were closed or never made.
\<close>

section \<open>Time-outs\<close>

text \<open>(C36) A propose that times out poisons its index. The follower closes the channel and answers
  NACK; the coordinator retries a NACK, the second handler receives the zero of the closed channel,
  tries to close it again, and the follower crashes.\<close>

theorem follower_retry_crashes:
  assumes "\<not> f_crashed f" and "f_reset f = RIdle" and "n = length (f_handlers f)"
    and "cp_status (prq_Index req) (f_pool f) = (False, False, False, None, False)"
    and "prq_Target req \<noteq> srv_chainShardID (f_server f)"
  shows "\<exists>f1 f2. follower_run E F T [EvPropose req, EvRun n, EvRun n, EvRun n, EvRun n, EvRun n, EvRun n, EvTimeout n,
      EvRun n, EvRun n] f = Some f1
    \<and> \<not> f_crashed f1 \<and> f_replies f1 = f_replies f @ [PReply \<lparr>prs_Acktype = NACK, prs_Index = prq_Index req,
        prs_Ftype = SOURCE, prs_Address = prq_MsgPayload req, prs_MsgPayload = []\<rparr>]
    \<and> follower_run E F T [EvPropose req, EvRun n, EvRun n, EvRun n, EvRun n, EvRun n, EvRun n, EvClosed n, EvRun n] f1 = Some f2
    \<and> f_crashed f2"
  using assms
  by (simp add: f_run_defs HandleStateTransferMsg_def HandleStateTransferMsg_add_def f_pool_def nth_append
      list_update_append case_prod_beta pool_status_simps cp_CloseSignal_def propose_response_def f_crash_def)

text \<open>A commit that times out is acknowledged all the same: the follower answers ACK although no
  block with the commit transaction has come, and the transaction is still waiting to be committed.\<close>

lemma follower_commit_timeout_acks:
  assumes "\<not> f_crashed f" and "f_reset f = RIdle" and "f_handlers f = hs @ [CWait req resp made]" and "n = length hs"
    and "cp_status (crq_Index req) (f_pool f) = (False, False, True, Some ChanOpen, False)"
  shows "\<exists>f'. follower_run E F T [EvTimeout n, EvRun n, EvRun n] f = Some f'
    \<and> (\<exists>r. f_replies f' = f_replies f @ [CReply r None] \<and> rsp_Acktype r = ACK \<and> rsp_Index r = crq_Index req)
    \<and> f_seen f' = f_seen f
    \<and> cp_status (crq_Index req) (f_pool f') = (False, False, True, Some ChanClosed, False)"
  using assms
  by (simp add: f_run_defs f_pool_def nth_append list_update_append cp_CloseSignal_def cp_status_def
      cp_GetCommittedTx_def commit_response_def)

section \<open>Late messages\<close>

lemma block_passes:
  assumes "\<not> f_crashed f" and "f_reset f = RIdle"
    and "block_follows E F chain (f_head f) new l m" and "ch_sttxs chain = [tx]"
    and "snd (cp_reset_pre tx (pool_at l m (f_pool f))) = None"
  shows "follower_run E F T [EvBlock chain new, EvLoop, EvLoop] f =
    Some (f_after_block new tx (fst (cp_reset_pre tx (pool_at l m (f_pool f)))) f)"
  using assms cp_reset_start_follows [OF assms(3), of "f_pool f"]
  by (simp add: follower_run_def f_set_pool_def f_pool_def f_reset_next_def pool_at_def f_after_block_def case_prod_beta)

lemma freeze_tx_silent:
  assumes "cp_status i p = (False, cd, cm, c, d)" and "sttx_ToFreeze tx" and "sttx_Index tx = i"
  shows "snd (cp_reset_pre tx p) = None"
    and "cp_status i (cp_reset_post tx (fst (cp_reset_pre tx p))) = (False, True, cm, c, d)"
  using assms by (auto simp: cp_reset_pre_def cp_reset_post_def pool_status_simps)

lemma cached_propose_crashes:
  assumes "\<not> f_crashed f" and "f_reset f = RIdle" and "n = length (f_handlers f)"
    and "cs_Get (cp_cached (f_pool f)) (prq_Index req) \<noteq> None" and "gm_get (cp_Signal (f_pool f)) (prq_Index req) = None"
  shows "\<exists>f'. follower_run E F T [EvPropose req, EvRun n, EvRun n, EvRun n, EvRun n, EvRun n, EvTimeout n, EvRun n] f = Some f'
    \<and> f_crashed f' \<and> f_replies f' = f_replies f"
proof -
  obtain tx where "cs_Get (cp_cached (srv_CommitPool (f_server f))) (prq_Index req) = Some tx"
    using assms(4) by (auto simp: f_pool_def)
  then show ?thesis
    using assms
    by (cases "prq_Target req = srv_chainShardID (f_server f)")
      (simp_all add: f_run_defs HandleStateTransferMsg_def f_pool_def nth_append list_update_append cp_CloseSignal_def
        cp_GetSignal_def f_crash_def)
qed

text \<open>A propose that arrives after the block with its freeze transaction waits for a channel that
  nobody makes: the transaction is already cached, so the handler adds nothing and waits on a nil
  channel. No event of the follower can give it a value, and when it times out, closing the nil
  channel crashes the follower.\<close>

lemma follower_late_propose_crashes:
  assumes "\<not> f_crashed f" and "f_reset f = RIdle" and "n = length (f_handlers f)"
    and "cp_status (prq_Index req) (f_pool f) = (False, False, False, None, False)"
    and "block_follows E F chain (f_head f) new l m" and "ch_sttxs chain = [tx]" and "sttx_ToFreeze tx"
    and "sttx_Index tx = prq_Index req"
  shows "\<exists>f1 f2. follower_run E F T [EvBlock chain new, EvLoop, EvLoop] f = Some f1
    \<and> follower_run E F T [EvPropose req, EvRun n, EvRun n, EvRun n, EvRun n, EvRun n, EvTimeout n, EvRun n] f1 = Some f2
    \<and> f_crashed f2 \<and> f_replies f2 = f_replies f"
proof -
  have st: "cp_status (prq_Index req) (pool_at l m (f_pool f)) = (False, False, False, None, False)"
    using assms(4) by simp
  note s = freeze_tx_silent [OF st assms(7,8)]
  let ?f1 = "f_after_block new tx (fst (cp_reset_pre tx (pool_at l m (f_pool f)))) f"
  have "cp_status (prq_Index req) (f_pool ?f1) = (False, True, False, None, False)"
    using s(2) by (simp add: f_after_block_def f_set_pool_def f_pool_def)
  moreover have "\<not> f_crashed ?f1" "f_reset ?f1 = RIdle" "f_handlers ?f1 = f_handlers f" "f_replies ?f1 = f_replies f"
    using assms(1) by (simp_all add: f_after_block_def f_set_pool_def)
  ultimately have "\<exists>f2. follower_run E F T [EvPropose req, EvRun n, EvRun n, EvRun n, EvRun n, EvRun n, EvTimeout n, EvRun n] ?f1 = Some f2
    \<and> f_crashed f2 \<and> f_replies f2 = f_replies f"
    using cached_propose_crashes [of ?f1 n req E F T] assms(3) by (simp add: cp_status_def)
  then show ?thesis using block_passes [OF assms(1,2,5,6) s(1)] by blast
qed

section \<open>A pool that is blocked for ever\<close>

text \<open>The event loop sends on a channel that was never made.\<close>

definition f_blocked :: "('d, 'tr, 'v, 'e, 'tl) follower \<Rightarrow> bool" where
  "f_blocked f = (case f_reset f of RSend tx i sig txs \<Rightarrow> cp_SetSignal i (f_pool f) = SendBlocks | _ \<Rightarrow> False)"

lemma unlocked_run_signal:
  assumes "handler_run E T h s = Some (r, s')" and "\<not> handler_locks h"
  shows "cp_Signal (srv_CommitPool s') = cp_Signal (srv_CommitPool s)"
  using assms
  by (cases h) (auto simp: ProposeHandler_target_def ProposeHandler_balance_def ProposeHandler_nonce_def HandleCommitMsg_delete_def
      cp_deleteTxFromCached_def Let_def split: option.splits prod.splits if_splits)

lemma f_blocked_step:
  assumes "f_blocked f" and "follower_step E F T ev f = Some f'"
  shows "f_reset f' = f_reset f \<and> f_blocked f' \<and> f_seen f' = f_seen f"
proof -
  obtain tx i sig txs where r: "f_reset f = RSend tx i sig txs" and b: "cp_SetSignal i (f_pool f) = SendBlocks"
    using assms(1) by (auto simp: f_blocked_def split: resetting.splits)
  show ?thesis
  proof (cases ev)
    case (EvRun n)
    then show ?thesis
    proof (cases "handler_run E T (f_handlers f ! n) (f_server f)")
      case None
      with EvRun assms(2) r b show ?thesis by (auto simp: f_crash_def f_blocked_def f_pool_def split: if_splits)
    next
      case (Some rs)
      with EvRun assms(2) r b unlocked_run_signal [of E T "f_handlers f ! n" "f_server f" "fst rs" "snd rs"]
      show ?thesis by (auto simp: f_blocked_def f_pool_def cp_SetSignal_def split: if_splits prod.splits)
    qed
  qed (use assms(2) r b in \<open>auto simp: f_blocked_def f_pool_def f_start_def ProposeTwoPhase_def ProposeHandler_def
      SetProgressForCommitPhase_def CommitTwoPhase_def CommitHandler_def Let_def cp_SetSignal_def
      split: if_splits sum.splits option.splits\<close>)
qed

lemma f_blocked_run:
  assumes "f_blocked f" and "follower_run E F T evs f = Some f'"
  shows "f_reset f' = f_reset f \<and> f_seen f' = f_seen f"
proof -
  have "f_reset f' = f_reset f \<and> f_blocked f' \<and> f_seen f' = f_seen f"
    using range_loop_inv [of "follower_step E F T" evs f f' "\<lambda>g. f_reset g = f_reset f \<and> f_blocked g \<and> f_seen g = f_seen f"]
      assms f_blocked_step unfolding follower_run_def by metis
  then show ?thesis by simp
qed

lemma commit_accepted:
  assumes "\<not> f_crashed f" and "f_reset f = RIdle" and n: "n = length (f_handlers f)"
    and st: "cp_status (crq_Index req) (f_pool f) = (False, True, False, c, False)"
  shows "\<exists>f'. follower_run E F T [EvCommit req, EvRun n, EvRun n, EvRun n, EvRun n, EvRun n, EvRun n] f = Some f'
    \<and> \<not> f_crashed f' \<and> f_reset f' = RIdle \<and> f_head f' = f_head f \<and> f_seen f' = f_seen f
    \<and> cp_status (crq_Index req) (f_pool f') = (False, False, True, c, False)"
proof -
  obtain tx where "cs_Get (cp_cached (srv_CommitPool (f_server f))) (crq_Index req) = Some tx"
    using st by (auto simp: cp_status_def f_pool_def)
  then show ?thesis
    using assms
    by (simp add: f_run_defs f_pool_def nth_append list_update_append case_prod_beta pool_status_simps
        cp_CachedById_def HandleCommitMsg_def HandleCommitMsg_add_def HandleCommitMsg_delete_def commit_response_def)
qed

lemma commit_block_sends:
  assumes "\<not> f_crashed f" and "f_reset f = RIdle" and "block_follows E F chain (f_head f) new l m"
    and "ch_sttxs chain = [tx]" and "\<not> sttx_ToFreeze tx" and "sttx_Index tx = i"
    and "cp_status i (f_pool f) = (fr, cd, True, None, d)"
  shows "\<exists>f'. follower_run E F T [EvBlock chain new, EvLoop] f = Some f' \<and> f_reset f' = RSend tx i 2 []
    \<and> f_seen f' = f_seen f @ [tx] \<and> f_blocked f'"
  using assms cp_reset_start_follows [OF assms(3), of "f_pool f"]
  by (auto simp: follower_run_def f_set_pool_def f_pool_def f_blocked_def cp_reset_pre_def cp_status_def
      cp_SetSignal_def Let_def)

text \<open>A follower that takes part in the commit of an index without having had the propose is
  blocked for ever: when the freeze block came, the commit request was accepted and the block with
  the commit transaction comes, the event loop sends on a channel that was never made. Whatever
  happens afterwards, no further block is processed.\<close>

lemma follower_commit_without_propose_blocks:
  assumes "\<not> f_crashed f" and "f_reset f = RIdle" and "n = length (f_handlers f)"
    and "cp_status (crq_Index req) (f_pool f) = (False, False, False, None, False)"
    and "block_follows E F chain1 (f_head f) new1 l1 m1" and "ch_sttxs chain1 = [tx1]" and "sttx_ToFreeze tx1"
    and "sttx_Index tx1 = crq_Index req"
    and "block_follows E F chain2 new1 new2 l2 m2" and "ch_sttxs chain2 = [tx2]" and "\<not> sttx_ToFreeze tx2"
    and "sttx_Index tx2 = crq_Index req"
  shows "\<exists>f'. follower_run E F T [EvBlock chain1 new1, EvLoop, EvLoop, EvCommit req, EvRun n, EvRun n, EvRun n,
        EvRun n, EvRun n, EvRun n, EvBlock chain2 new2, EvLoop] f = Some f'
    \<and> (\<forall>evs f''. follower_run E F T evs f' = Some f'' \<longrightarrow>
         f_reset f'' = RSend tx2 (crq_Index req) 2 [] \<and> f_seen f'' = f_seen f @ [tx1, tx2])"
proof -
  have st: "cp_status (crq_Index req) (pool_at l1 m1 (f_pool f)) = (False, False, False, None, False)"
    using assms(4) by simp
  note s = freeze_tx_silent [OF st assms(7,8)]
  let ?f1 = "f_after_block new1 tx1 (fst (cp_reset_pre tx1 (pool_at l1 m1 (f_pool f)))) f"
  have one: "follower_run E F T [EvBlock chain1 new1, EvLoop, EvLoop] f = Some ?f1"
    by (rule block_passes [OF assms(1,2,5,6) s(1)])
  have f1: "cp_status (crq_Index req) (f_pool ?f1) = (False, True, False, None, False)" "\<not> f_crashed ?f1"
    "f_reset ?f1 = RIdle" "f_handlers ?f1 = f_handlers f" "f_head ?f1 = new1" "f_seen ?f1 = f_seen f @ [tx1]"
    using s(2) assms(1) by (simp_all add: f_after_block_def f_set_pool_def f_pool_def)
  obtain f2 where two: "follower_run E F T [EvCommit req, EvRun n, EvRun n, EvRun n, EvRun n, EvRun n, EvRun n] ?f1 = Some f2"
      "\<not> f_crashed f2" "f_reset f2 = RIdle" "f_head f2 = new1" "f_seen f2 = f_seen f @ [tx1]"
      "cp_status (crq_Index req) (f_pool f2) = (False, False, True, None, False)"
    using commit_accepted [OF f1(2,3) _ f1(1), of n E F T] f1(4-6) assms(3) by auto
  obtain f3 where three: "follower_run E F T [EvBlock chain2 new2, EvLoop] f2 = Some f3"
      "f_reset f3 = RSend tx2 (crq_Index req) 2 []" "f_seen f3 = f_seen f @ [tx1, tx2]" "f_blocked f3"
    using commit_block_sends [OF two(2,3) _ assms(10,11,12) two(6), of E F new2 l2 m2 T] two(4,5) assms(9) by auto
  have "follower_run E F T ([EvBlock chain1 new1, EvLoop, EvLoop] @ [EvCommit req, EvRun n, EvRun n, EvRun n, EvRun n, EvRun n, EvRun n]
      @ [EvBlock chain2 new2, EvLoop]) f = Some f3"
    unfolding follower_run_append one bind.simps two(1) by (rule three(1))
  with three f_blocked_run [OF three(4)] show ?thesis by (intro exI [of _ f3]) (auto simp del: follower_step.simps)
qed

section \<open>Stopping\<close>

lemma CloseSignal_closed:
  "cp_CloseSignal j p = Some p' \<Longrightarrow> gm_get (cp_Signal p) i = Some ChanClosed \<Longrightarrow> gm_get (cp_Signal p') i = Some ChanClosed"
  by (auto simp: cp_CloseSignal_def split: if_splits)

lemma CloseSignals_closed:
  "i \<in> set js \<Longrightarrow> gm_get (cp_Signal p) i = Some ChanClosed \<Longrightarrow> range_loop cp_CloseSignal js p = None"
proof (induction js arbitrary: p)
  case (Cons j js)
  show ?case
  proof (cases "cp_CloseSignal j p")
    case (Some p')
    then have "j \<noteq> i" using Cons.prems(2) by (auto simp: cp_CloseSignal_def)
    with Cons Some CloseSignal_closed [OF Some, of i] show ?thesis by simp
  qed simp
qed simp

text \<open>Once a migration has come to its end at a follower, or has timed out there, the server cannot
  be stopped any more without a panic: stopping closes every channel, also the closed ones.\<close>

lemma server_stop_panics:
  assumes "cp_status i (srv_CommitPool s) = (fr, cd, cm, Some ChanClosed, d)"
  shows "srv_Stop s = None"
proof -
  have c: "gm_get (cp_Signal (srv_CommitPool s)) i = Some ChanClosed" using assms by (simp add: cp_status_def)
  then have "i \<in> set (gm_keys (cp_Signal (srv_CommitPool s)))" by (rule gm_get_keys)
  then show ?thesis using CloseSignals_closed c unfolding srv_Stop_def cp_CloseAllSignal_def by blast
qed

section \<open>Concrete failures\<close>

lemma demo_source: "prq_Target demo_propose \<noteq> srv_chainShardID (f_server demo_follower)"
  using demo_fresh by simp

theorem follower_retry_crashes_witness:
  "\<exists>evs f. follower_run sdb_demo_env lm_demo_env tx_demo_env evs demo_follower = Some f \<and> f_crashed f"
proof -
  obtain evs evs' f1 f2 where "follower_run sdb_demo_env lm_demo_env tx_demo_env evs demo_follower = Some f1"
      "follower_run sdb_demo_env lm_demo_env tx_demo_env evs' f1 = Some f2" "f_crashed f2"
    using follower_retry_crashes [OF demo_fresh(1,2) refl _ demo_source, of sdb_demo_env lm_demo_env tx_demo_env]
      demo_fresh by (auto simp del: follower_step.simps)
  then show ?thesis
    using follower_run_append [of sdb_demo_env lm_demo_env tx_demo_env evs evs' demo_follower]
    by (intro exI [of _ "evs @ evs'"]) auto
qed

lemma follower_commit_timeout_acks_example:
  "\<exists>f f'. follower_reachable sdb_demo_env lm_demo_env tx_demo_env f
    \<and> follower_run sdb_demo_env lm_demo_env tx_demo_env [EvTimeout 0, EvRun 0, EvRun 0] f = Some f'
    \<and> f_seen f' = f_seen f \<and> length (f_replies f') = Suc (length (f_replies f))"
proof -
  obtain f where f: "follower_reachable sdb_demo_env lm_demo_env tx_demo_env f" "f_handlers f = []" "\<not> f_crashed f"
      "f_reset f = RIdle" "cp_status 2 (f_pool f) = (False, True, False, Some ChanOpen, False)"
    using demo_proposed by blast
  obtain f1 where f1: "follower_run sdb_demo_env lm_demo_env tx_demo_env
        [EvCommit demo_commit, EvRun 0, EvRun 0, EvRun 0, EvRun 0, EvRun 0, EvRun 0] f = Some f1"
      "f_handlers f1 = [] @ [CWait demo_commit (commit_response ACK demo_commit (f_server f)) True]" "\<not> f_crashed f1"
      "f_reset f1 = RIdle" "cp_status (crq_Index demo_commit) (f_pool f1) = (False, False, True, Some ChanOpen, False)"
    using commit_waits [OF f(3,4), of 0 demo_commit sdb_demo_env lm_demo_env tx_demo_env] f(2,5) by auto
  then show ?thesis
    using follower_commit_timeout_acks [OF f1(3,4,2) _ f1(5), of 0 sdb_demo_env lm_demo_env tx_demo_env]
      follower_run_reachable [OF f(1) f1(1)] by fastforce
qed

lemma follower_late_propose_crashes_example:
  "\<exists>evs f. follower_run sdb_demo_env lm_demo_env tx_demo_env evs demo_follower = Some f \<and> f_crashed f \<and> f_replies f = []"
proof -
  obtain evs evs' f1 f2 where "follower_run sdb_demo_env lm_demo_env tx_demo_env evs demo_follower = Some f1"
      "follower_run sdb_demo_env lm_demo_env tx_demo_env evs' f1 = Some f2" "f_crashed f2" "f_replies f2 = []"
    using follower_late_propose_crashes [OF demo_fresh(1,2) refl, of demo_propose sdb_demo_env lm_demo_env
        "demo_chain 1 [tx_freeze_demo 9]" "demo_head 1" sdb_demo lm_demo "tx_freeze_demo 9" tx_demo_env]
      demo_fresh demo_follows [of 0 "[tx_freeze_demo 9]"] by (auto simp del: follower_step.simps)
  then show ?thesis
    using follower_run_append [of sdb_demo_env lm_demo_env tx_demo_env evs evs' demo_follower]
    by (intro exI [of _ "evs @ evs'"]) auto
qed

lemma follower_commit_without_propose_blocks_example:
  "\<exists>f. follower_reachable sdb_demo_env lm_demo_env tx_demo_env f \<and> f_reset f = RSend tx_demo 2 2 []"
proof -
  obtain evs f where "follower_run sdb_demo_env lm_demo_env tx_demo_env evs demo_follower = Some f"
      "\<forall>evs f''. follower_run sdb_demo_env lm_demo_env tx_demo_env evs f = Some f'' \<longrightarrow> f_reset f'' = RSend tx_demo 2 2 []"
    using follower_commit_without_propose_blocks [OF demo_fresh(1,2) refl, of demo_commit sdb_demo_env lm_demo_env
        "demo_chain 1 [tx_freeze_demo 9]" "demo_head 1" sdb_demo lm_demo "tx_freeze_demo 9"
        "demo_chain 2 [tx_demo]" "demo_head 2" sdb_demo lm_demo tx_demo tx_demo_env]
      demo_fresh demo_follows [of 0 "[tx_freeze_demo 9]"] demo_follows [of 1 "[tx_demo]"]
    by (auto simp: numeral_2_eq_2 simp del: follower_step.simps)
  moreover from this(2) have "f_reset f = RSend tx_demo 2 2 []"
    by (auto simp: follower_run_def dest: spec [of _ "[]"])
  ultimately show ?thesis using follower_run_reachable [OF demo_reachable] by blast
qed

lemma server_stop_panics_example:
  "srv_Stop \<lparr>srv_chainShardID = 0, srv_FollowerType = SOURCE,
     srv_CommitPool = (cp_new :: (unit, unit, unit, unit, unit) CommitPool)\<lparr>cp_Signal := [(3, ChanOpen), (2, ChanClosed)]\<rparr>,
     srv_cancelCommitOnHeight = []\<rparr> = None"
  by (rule server_stop_panics [of 2 _ False False False False])
    (simp add: cp_status_def cp_new_def sttx_cache.get_new cp_GetCommittedTx_def)

end
