(* ===== verification/Coordinator.thy ===== *)
theory Coordinator
  imports Commit_Handler_Errors
begin

text \<open>
  The coordinator of a migration, \<open>StateTransfer\<close> of \<open>atomic/serverShard.go\<close>. It starts a
  goroutine per follower for the propose and waits for all of them, builds the commit request from
  their replies, starts a goroutine per follower for the commit and waits again.

  The replies of the followers are parameters: \<open>propose preq g k\<close> is what the \<open>k\<close>-th call of
  goroutine \<open>g\<close> with the request \<open>preq\<close> returns, and \<open>arrival\<close> is the order in which the goroutines put their replies into the channel.
  The goroutines of the commit share the variables \<open>response\<close> and \<open>err\<close> of \<open>StateTransfer\<close>, so
  their order matters; the commit phase is a run of their atomic pieces. A WaitGroup that is never
  released is the result None.
\<close>

section \<open>The coordinator\<close>

record TransferRequest =
  trq_Source :: u32
  trq_Target :: u32
  trq_MsgPayload :: bytes
  trq_Index :: u64

record 'n Coordinator =
  co_CommitType :: string
  co_ShardFollowers :: "(u32, 'n list) gomap"
  co_CoordinatorCache :: Cache

definition THREE_PHASE :: string where
  "THREE_PHASE = ''three-phase''"

definition co_ctype :: "'n Coordinator \<Rightarrow> CommitType" where
  "co_ctype s = (if co_CommitType s = THREE_PHASE then THREE_PHASE_COMMIT else TWO_PHASE_COMMIT)"

definition co_propose_request :: "TransferRequest \<Rightarrow> 'n Coordinator \<Rightarrow> ProposeRequest" where
  "co_propose_request req s = \<lparr>prq_CommitType = co_ctype s, prq_Source = trq_Source req, prq_Target = trq_Target req,
     prq_MsgPayload = trq_MsgPayload req, prq_Index = trq_Index req\<rparr>"

text \<open>A slice \<open>xs[:n]\<close>; the lists of followers are built by appending to nil, so \<open>n\<close> is beyond
  the capacity of an empty one.\<close>

definition slice_to :: "'a list \<Rightarrow> nat \<Rightarrow> 'a list option" where
  "slice_to xs n = (if n \<le> length xs then Some (take n xs) else None)"

definition ObtainFollowersLimit :: "'n Coordinator \<Rightarrow> u32 \<Rightarrow> u32 \<Rightarrow> 'n list option" where
  "ObtainFollowersLimit s source target =
     (let sources = gm_getd [] (co_ShardFollowers s) source;
          targets = gm_getd [] (co_ShardFollowers s) target;
          realNumSource = 2 * (length sources div 3);
          realNumTarget = 2 * (length targets div 3)
      in case (slice_to sources (realNumSource + 1), slice_to targets (realNumTarget + 1)) of
           (Some fs, Some ft) \<Rightarrow> Some (fs @ ft)
         | _ \<Rightarrow> None)"

definition ObtainFollowers :: "'n Coordinator \<Rightarrow> u32 \<Rightarrow> u32 \<Rightarrow> 'n list" where
  "ObtainFollowers s source target =
     gm_getd [] (co_ShardFollowers s) source @ gm_getd [] (co_ShardFollowers s) target"

subsection \<open>The propose phase\<close>

text \<open>The loop of a propose goroutine: it asks again as long as the answer is NACK, and gives up on
  an error of the call. None: it never ends.\<close>

definition propose_again :: "ProposeResponse option \<Rightarrow> int \<Rightarrow> bool" where
  "propose_again responseP maxAttemptNum =
     (case responseP of None \<Rightarrow> 0 < maxAttemptNum | Some r \<Rightarrow> prs_Acktype r = NACK)"

partial_function (option) propose_loop ::
    "(nat \<Rightarrow> ProposeResponse option \<times> error option) \<Rightarrow> nat \<Rightarrow> ProposeResponse option \<Rightarrow> error option \<Rightarrow> int \<Rightarrow>
      (ProposeResponse option \<times> error option) option" where
  "propose_loop call k responseP err maxAttemptNum =
     (if propose_again responseP maxAttemptNum
      then propose_loop call (Suc k) (fst (call k)) (snd (call k)) (maxAttemptNum - 1)
      else Some (responseP, err))"

text \<open>One goroutine: the reply it puts into the channel, and None when it does not come to its
  \<open>wg.Done()\<close>.\<close>

definition propose_goroutine ::
    "(nat \<Rightarrow> ProposeResponse option \<times> error option) \<Rightarrow> (ProposeResponse \<times> error option) option" where
  "propose_goroutine call =
     (case propose_loop call 0 None None 1 of
        None \<Rightarrow> None
      | Some (responseP, err) \<Rightarrow>
          (case (err, responseP) of
             (None, Some r) \<Rightarrow> if prs_Acktype r \<noteq> ACK then None else Some (r, err)
           | _ \<Rightarrow> None))"

definition channelSize :: nat where
  "channelSize = 1000"

text \<open>All goroutines, up to \<open>wg.Wait()\<close>: the replies in the order of their arrival. The channels
  are not read before, so goroutines beyond their capacity block.\<close>

fun collect :: "('a \<Rightarrow> 'b option) \<Rightarrow> 'a list \<Rightarrow> 'b list option" where
  "collect f [] = Some []"
| "collect f (x # xs) = (case (f x, collect f xs) of (Some y, Some ys) \<Rightarrow> Some (y # ys) | _ \<Rightarrow> None)"

definition propose_phase_replies ::
    "(nat \<Rightarrow> nat \<Rightarrow> ProposeResponse option \<times> error option) \<Rightarrow> nat list \<Rightarrow> (ProposeResponse \<times> error option) list option" where
  "propose_phase_replies propose arrival =
     (if length arrival > channelSize then None else collect (\<lambda>g. propose_goroutine (propose g)) arrival)"

text \<open>The commit request, built from the first reply that carries a payload. Inl is the return when a
  reply is not an acknowledgement.\<close>

definition errNotAcknowledged :: error where
  "errNotAcknowledged = ''follower not acknowledged msg''"

definition errNotInCache :: error where
  "errNotInCache = ''can't to find msg in the coordinator's cache''"

fun build_commit_request ::
    "TransferRequest \<Rightarrow> nat \<Rightarrow> CommitRequest option \<Rightarrow> ProposeResponse list \<Rightarrow> error + CommitRequest option" where
  "build_commit_request req writeOnce commitRequest [] = Inr commitRequest"
| "build_commit_request req writeOnce commitRequest (res # ress) =
     (if prs_Acktype res \<noteq> ACK then Inl errNotAcknowledged
      else if writeOnce = 1 \<and> length (prs_MsgPayload res) > 0
      then build_commit_request req (writeOnce - 1)
             (Some \<lparr>crq_Source = trq_Source req, crq_Target = trq_Target req, crq_Index = prs_Index res,
                crq_Address = prs_Address res, crq_MsgPayload = prs_MsgPayload res, crq_IsRollback = False\<rparr>) ress
      else build_commit_request req writeOnce commitRequest ress)"

subsection \<open>The commit phase\<close>

text \<open>A goroutine of the commit: at the head of its loop with its remaining attempts, waiting for
  the reply to its call, through, gone without \<open>wg1.Done()\<close>, or at a nil dereference.\<close>

datatype goroutine = GLoop int | GCalling int | GDone | GGone | GPanic

record commit_phase =
  cm_response :: "Response option"
  cm_err :: "error option"
  cm_goroutines :: "goroutine list"
  cm_sent :: "nat list"
  cm_commitResChan :: "Response option list"
  cm_commitErrChan :: "error option list"

definition commit_phase_start :: "nat \<Rightarrow> commit_phase" where
  "commit_phase_start n = \<lparr>cm_response = None, cm_err = None, cm_goroutines = replicate n (GLoop 1), cm_sent = [],
     cm_commitResChan = [], cm_commitErrChan = []\<rparr>"

datatype commit_event = GCheck nat | GReturn nat "Response option" "error option"

definition commit_again :: "Response option \<Rightarrow> int \<Rightarrow> bool" where
  "commit_again response maxAttemptNum =
     (case response of None \<Rightarrow> 0 < maxAttemptNum | Some r \<Rightarrow> rsp_Acktype r = NACK)"

text \<open>After the loop of a goroutine.\<close>

definition commit_leaves :: "Response option \<Rightarrow> error option \<Rightarrow> goroutine" where
  "commit_leaves response err =
     (if err \<noteq> None then GGone
      else case response of None \<Rightarrow> GPanic | Some r \<Rightarrow> if rsp_Acktype r \<noteq> ACK then GGone else GDone)"

fun commit_step :: "commit_event \<Rightarrow> commit_phase \<Rightarrow> commit_phase option" where
  "commit_step (GCheck g) c =
     (if length (cm_goroutines c) \<le> g then None
      else case cm_goroutines c ! g of
             GLoop m \<Rightarrow>
               if commit_again (cm_response c) m
               then Some (c\<lparr>cm_goroutines := (cm_goroutines c)[g := GCalling m], cm_sent := cm_sent c @ [g]\<rparr>)
               else if length (cm_commitResChan c) \<ge> channelSize then None
               else Some (c\<lparr>cm_goroutines := (cm_goroutines c)[g := commit_leaves (cm_response c) (cm_err c)],
                       cm_commitResChan := cm_commitResChan c @ [cm_response c],
                       cm_commitErrChan := cm_commitErrChan c @ [cm_err c]\<rparr>)
           | _ \<Rightarrow> None)"
| "commit_step (GReturn g response err) c =
     (if length (cm_goroutines c) \<le> g then None
      else case cm_goroutines c ! g of
             GCalling m \<Rightarrow> Some (c\<lparr>cm_response := response, cm_err := err,
                             cm_goroutines := (cm_goroutines c)[g := GLoop (m - 1)]\<rparr>)
           | _ \<Rightarrow> None)"

definition commit_run :: "commit_event list \<Rightarrow> commit_phase \<Rightarrow> commit_phase option" where
  "commit_run = range_loop commit_step"

text \<open>\<open>wg1.Wait()\<close> lets the coordinator through.\<close>

definition commit_through :: "commit_phase \<Rightarrow> bool" where
  "commit_through c = list_all (\<lambda>g. g = GDone) (cm_goroutines c)"

text \<open>The two loops over the channels. None is a nil dereference.\<close>

definition nack_response :: Response where
  "nack_response = \<lparr>rsp_Acktype = NACK, rsp_Index = 0, rsp_Ftype = SOURCE\<rparr>"

definition ack_response :: Response where
  "ack_response = \<lparr>rsp_Acktype = ACK, rsp_Index = 0, rsp_Ftype = SOURCE\<rparr>"

fun commit_errors :: "error option list \<Rightarrow> Response option \<times> error option" where
  "commit_errors [] = (Some ack_response, None)"
| "commit_errors (err # errs) = (if err \<noteq> None then (Some nack_response, None) else commit_errors errs)"

fun commit_results :: "Response option list \<Rightarrow> error option list \<Rightarrow> (Response option \<times> error option) option" where
  "commit_results [] errs = Some (commit_errors errs)"
| "commit_results (res # ress) errs =
     (case res of None \<Rightarrow> None
      | Some r \<Rightarrow> if rsp_Acktype r \<noteq> ACK then Some (None, Some errNotAcknowledged) else commit_results ress errs)"

subsection \<open>The whole protocol\<close>

text \<open>The outcome of \<open>StateTransfer\<close>: it blocks for ever, panics, or returns a response and an error.\<close>

datatype outcome = Blocked | Panicked | Returned "Response option" "error option"

text \<open>Up to the commit phase: the outcome if it ends before, or the commit request.\<close>

definition transfer_prepare ::
    "(ProposeRequest \<Rightarrow> nat \<Rightarrow> nat \<Rightarrow> ProposeResponse option \<times> error option) \<Rightarrow> nat list \<Rightarrow>
      TransferRequest \<Rightarrow> 'n Coordinator \<Rightarrow> (outcome + CommitRequest option) \<times> 'n Coordinator" where
  "transfer_prepare propose arrival req s =
     (case propose_phase_replies (propose (co_propose_request req s)) arrival of
        None \<Rightarrow> (Inl Blocked, s)
      | Some replies \<Rightarrow>
          let s = s\<lparr>co_CoordinatorCache := fold (\<lambda>r. cc_Set (trq_Index req) (trq_MsgPayload req)) replies
                    (co_CoordinatorCache s)\<rparr>
          in (if list_ex (\<lambda>r. snd r \<noteq> None) replies then Inl (Returned (Some nack_response) None)
              else case build_commit_request req 1 None (map fst replies) of
                     Inl err \<Rightarrow> Inl (Returned None (Some err))
                   | Inr commitRequest \<Rightarrow>
                       if cc_Get (co_CoordinatorCache s) (trq_Index req) = None
                       then Inl (Returned None (Some errNotInCache)) else Inr commitRequest, s))"

definition StateTransfer ::
    "(ProposeRequest \<Rightarrow> nat \<Rightarrow> nat \<Rightarrow> ProposeResponse option \<times> error option) \<Rightarrow> nat list \<Rightarrow> commit_event list \<Rightarrow>
      TransferRequest \<Rightarrow> 'n Coordinator \<Rightarrow> outcome \<times> 'n Coordinator" where
  "StateTransfer propose arrival sched req s =
     (case ObtainFollowersLimit s (trq_Source req) (trq_Target req) of
        None \<Rightarrow> (Panicked, s)
      | Some currentFollowers \<Rightarrow>
          (case transfer_prepare propose arrival req s of
             (Inl out, s) \<Rightarrow> (out, s)
           | (Inr commitRequest, s) \<Rightarrow>
               (case commit_run sched (commit_phase_start (length currentFollowers)) of
                  None \<Rightarrow> (Blocked, s)
                | Some c \<Rightarrow>
                    if GPanic \<in> set (cm_goroutines c) then (Panicked, s)
                    else if \<not> commit_through c then (Blocked, s)
                    else (case commit_results (cm_commitResChan c) (cm_commitErrChan c) of
                            None \<Rightarrow> (Panicked, s)
                          | Some (response, err) \<Rightarrow> (Returned response err, s)))))"

end
