(* ===== verification/Coordinator_Props.thy ===== *)
theory Coordinator_Props
  imports Coordinator "HOL-Library.Multiset"
begin

text \<open>
  Properties of the coordinator: how many followers it asks, when its retries end, that it commits
  only after every follower has acknowledged, what the commit request carries, and that the commit
  phase may leave followers out.
\<close>

section \<open>The followers\<close>

lemma limit_le: "0 < n \<Longrightarrow> 2 * (n div 3) + 1 \<le> (n :: nat)"
  by presburger

text \<open>(C31) The coordinator asks exactly the first \<open>2 (n div 3) + 1\<close> followers of each of the two
  shards, the source's before the target's, where \<open>n\<close> is the number of followers of the shard; when
  one of the shards has no follower it panics. That number never exceeds \<open>n\<close>, is at least half of
  \<open>n\<close>, and is at most one third below and one above two thirds of \<open>n\<close>: it falls short of two
  thirds just when \<open>n\<close> is 2, 5, 8 and so on.\<close>

theorem followers_limit:
  assumes "sources = gm_getd [] (co_ShardFollowers s) source" and "targets = gm_getd [] (co_ShardFollowers s) target"
    and "k = 2 * (length sources div 3) + 1" and "k' = 2 * (length targets div 3) + 1"
  shows "ObtainFollowersLimit s source target =
      (if sources = [] \<or> targets = [] then None else Some (take k sources @ take k' targets))
    \<and> (sources \<noteq> [] \<longrightarrow> k \<le> length sources) \<and> (targets \<noteq> [] \<longrightarrow> k' \<le> length targets)
    \<and> length sources \<le> 2 * k \<and> length targets \<le> 2 * k'
    \<and> (3 * k < 2 * length sources \<longleftrightarrow> length sources mod 3 = 2)
    \<and> (3 * k' < 2 * length targets \<longleftrightarrow> length targets mod 3 = 2)
    \<and> 2 * length sources \<le> 3 * k + 1 \<and> 3 * k \<le> 2 * length sources + 3
    \<and> 2 * length targets \<le> 3 * k' + 1 \<and> 3 * k' \<le> 2 * length targets + 3"
proof -
  have half: "n \<le> 2 * (2 * (n div 3) + 1)" "2 * n \<le> 3 * (2 * (n div 3) + 1) + 1"
    "3 * (2 * (n div 3) + 1) \<le> 2 * n + 3" "3 * (2 * (n div 3) + 1) < 2 * n \<longleftrightarrow> n mod 3 = 2" for n :: nat
    by presburger+
  have slice: "slice_to xs (2 * (length xs div 3) + 1) =
      (if xs = [] then None else Some (take (2 * (length xs div 3) + 1) xs))" for xs :: "'a list"
    using limit_le [of "length xs"] by (auto simp: slice_to_def)
  have "ObtainFollowersLimit s source target =
      (if sources = [] \<or> targets = [] then None else Some (take k sources @ take k' targets))"
    using assms unfolding ObtainFollowersLimit_def Let_def slice by simp
  then show ?thesis
    using half [of "length sources"] half [of "length targets"] limit_le [of "length sources"]
      limit_le [of "length targets"] unfolding assms(3,4) by simp
qed

section \<open>The retries of a propose\<close>

definition nacked :: "ProposeResponse option \<times> error option \<Rightarrow> bool" where
  "nacked c = (case fst c of None \<Rightarrow> False | Some r \<Rightarrow> prs_Acktype r = NACK)"

lemma propose_again_later: "m \<le> 0 \<Longrightarrow> propose_again (fst c) m = nacked c"
  by (simp add: propose_again_def nacked_def split: option.split)

lemma propose_loop_from:
  assumes "m \<le> 0" and "\<forall>i. j \<le> i \<longrightarrow> i < k \<longrightarrow> nacked (call i)" and "\<not> nacked (call k)" and "j \<le> k"
  shows "propose_loop call (Suc j) (fst (call j)) (snd (call j)) m = Some (call k)"
  using assms
proof (induction "k - j" arbitrary: j m)
  case 0
  then show ?case by (subst propose_loop.simps) (simp add: propose_again_later)
next
  case (Suc d)
  then have "nacked (call j)" by auto
  then have "propose_loop call (Suc j) (fst (call j)) (snd (call j)) m =
      propose_loop call (Suc (Suc j)) (fst (call (Suc j))) (snd (call (Suc j))) (m - 1)"
    by (subst propose_loop.simps) (simp add: propose_again_later Suc.prems(1))
  also have "\<dots> = Some (call k)" using Suc.prems Suc.hyps(2) by (intro Suc.hyps(1)) auto
  finally show ?case .
qed

lemma propose_loop_first:
  "propose_loop call 0 None None 1 = propose_loop call (Suc 0) (fst (call 0)) (snd (call 0)) 0"
  by (subst propose_loop.simps) (simp add: propose_again_def)

lemma propose_loop_diverges:
  assumes nack: "\<forall>i. nacked (call i)"
  shows "propose_loop call (Suc j) (fst (call j)) (snd (call j)) m = None"
proof (rule ccontr)
  assume "\<not> ?thesis"
  then obtain r where ret: "propose_loop call (Suc j) (fst (call j)) (snd (call j)) m = Some r" by auto
  have "\<not> (c = call \<and> (\<exists>j. k = Suc j \<and> p = fst (call j)))" if "propose_loop c k p e m = Some r" for c k p e m r
  proof (rule propose_loop.raw_induct [where P = "\<lambda>c k p e m r. \<not> (c = call \<and> (\<exists>j. k = Suc j \<and> p = fst (call j)))", OF _ that])
    fix f c k p e m r
    assume IH: "\<And>c k p e m r. f c k p e m = Some r \<Longrightarrow> \<not> (c = call \<and> (\<exists>j. k = Suc j \<and> p = fst (call j)))"
      and eq: "(if propose_again p m then f c (Suc k) (fst (c k)) (snd (c k)) (m - 1) else Some (p, e)) = Some r"
    show "\<not> (c = call \<and> (\<exists>j. k = Suc j \<and> p = fst (call j)))"
    proof
      assume c: "c = call \<and> (\<exists>j. k = Suc j \<and> p = fst (call j))"
      then obtain j where "p = fst (call j)" by blast
      then have "propose_again p m" using spec [OF nack, of j] by (auto simp: propose_again_def nacked_def split: option.splits)
      with eq have "f c (Suc k) (fst (c k)) (snd (c k)) (m - 1) = Some r" by simp
      from IH [OF this] c show False by blast
    qed
  qed
  from this [OF ret] show False by blast
qed

lemma propose_loop_returns:
  assumes "\<not> nacked (call k)" and "\<forall>i < k. nacked (call i)"
  shows "propose_loop call 0 None None 1 = Some (call k)"
  unfolding propose_loop_first using assms propose_loop_from [of 0 0 k call] by simp

lemma propose_goroutine_returns:
  assumes "\<not> nacked (call k)" and "\<forall>i < k. nacked (call i)"
  shows "propose_goroutine call = (case call k of (Some r, None) \<Rightarrow> Some (r, None) | _ \<Rightarrow> None)"
proof -
  obtain p e where c: "call k = (p, e)" by (cases "call k")
  have "prs_Acktype r = ACK" if "p = Some r" for r
    using assms(1) that by (cases "prs_Acktype r") (simp_all add: nacked_def c)
  then show ?thesis
    using propose_loop_returns [OF assms] by (cases p; cases e) (simp_all add: propose_goroutine_def c)
qed

lemma first_not_nacked:
  assumes "\<not> nacked (call (j :: nat))"
  obtains k where "\<not> nacked (call k)" and "\<forall>i < k. nacked (call i)"
  using assms exists_least_iff [of "\<lambda>k. \<not> nacked (call k)"] by blast

text \<open>(C24) A propose goroutine asks its follower again after every NACK, without a limit: it ends exactly
  when some call is not answered NACK, and then with the answer of the first such call. It reaches its
  \<open>wg.Done()\<close> exactly when that answer is an acknowledgement without an error.\<close>

theorem propose_goroutine_ends:
  "(propose_loop call 0 None None 1 = None \<longleftrightarrow> (\<forall>k. nacked (call k)))
    \<and> (\<forall>k. \<not> nacked (call k) \<longrightarrow> (\<forall>i < k. nacked (call i)) \<longrightarrow>
        propose_loop call 0 None None 1 = Some (call k)
        \<and> propose_goroutine call = (case call k of (Some r, None) \<Rightarrow> Some (r, None) | _ \<Rightarrow> None))"
proof (intro conjI allI impI)
  show "propose_loop call 0 None None 1 = None \<longleftrightarrow> (\<forall>k. nacked (call k))"
  proof
    assume none: "propose_loop call 0 None None 1 = None"
    show "\<forall>k. nacked (call k)"
    proof (rule ccontr)
      assume "\<not> (\<forall>k. nacked (call k))"
      then obtain k where "\<not> nacked (call k)" "\<forall>i < k. nacked (call i)" using first_not_nacked by blast
      from propose_loop_returns [OF this] none show False by simp
    qed
  next
    assume "\<forall>k. nacked (call k)"
    then show "propose_loop call 0 None None 1 = None" unfolding propose_loop_first by (rule propose_loop_diverges)
  qed
qed (rule propose_loop_returns propose_goroutine_returns; assumption)+

section \<open>Commit only after every acknowledgement\<close>

lemma collect_Some: "collect f xs = Some ys \<longleftrightarrow> map f xs = map Some ys"
proof (induction xs arbitrary: ys)
  case (Cons x xs)
  show ?case
  proof (cases "collect f xs")
    case None
    then have "map f xs \<noteq> map Some zs" for zs using Cons.IH [of zs] by simp
    with None show ?thesis by (cases ys) (auto split: option.splits)
  next
    case (Some zs)
    then have "map f xs = map Some zs" using Cons.IH by blast
    with Some show ?thesis by (cases ys) (auto simp: inj_map_eq_map split: option.splits)
  qed
qed auto

lemma map_Some_members:
  assumes "map f xs = map Some ys"
  shows "x \<in> set xs \<Longrightarrow> \<exists>y \<in> set ys. f x = Some y" and "y \<in> set ys \<Longrightarrow> \<exists>x \<in> set xs. f x = Some y"
proof -
  have e: "f ` set xs = Some ` set ys" using arg_cong [OF assms, of set] by simp
  show "x \<in> set xs \<Longrightarrow> \<exists>y \<in> set ys. f x = Some y"
    using imageI [of x "set xs" f] unfolding e image_iff by simp
  show "y \<in> set ys \<Longrightarrow> \<exists>x \<in> set xs. f x = Some y"
    using imageI [of y "set ys" Some] unfolding e [symmetric] image_iff by metis
qed

lemma collect_None: "x \<in> set xs \<Longrightarrow> f x = None \<Longrightarrow> collect f xs = None"
  by (induction xs) (auto split: option.splits)

lemma propose_goroutine_Some:
  assumes "propose_goroutine call = Some x"
  obtains k r where "x = (r, None)" and "call k = (Some r, None)" and "prs_Acktype r = ACK"
    and "\<forall>i < k. nacked (call i)"
proof (cases "\<forall>k. nacked (call k)")
  case True
  then have "propose_loop call 0 None None 1 = None" unfolding propose_loop_first by (rule propose_loop_diverges)
  with assms show ?thesis by (simp add: propose_goroutine_def)
next
  case False
  then obtain k where k: "\<not> nacked (call k)" "\<forall>i < k. nacked (call i)" using first_not_nacked by blast
  with propose_goroutine_returns [OF k] assms obtain r where r: "x = (r, None)" "call k = (Some r, None)"
    by (auto split: prod.splits option.splits)
  with k(1) have "prs_Acktype r = ACK" by (cases "prs_Acktype r") (simp_all add: nacked_def)
  from that [OF r this k(2)] show ?thesis .
qed

lemma transfer_prepare_Inr:
  assumes "transfer_prepare propose arrival req s = (Inr creq, s')"
  obtains replies where "map (\<lambda>g. propose_goroutine (propose (co_propose_request req s) g)) arrival = map Some replies"
    and "build_commit_request req 1 None (map fst replies) = Inr creq"
  using assms
  by (auto simp: transfer_prepare_def propose_phase_replies_def Let_def collect_Some
      split: option.splits if_splits sum.splits)

text \<open>(C2) The coordinator comes to the commit phase only when every follower it has asked has
  acknowledged the propose, as its first answer that is not a NACK and without an error of the call.\<close>

theorem transfer_commits_after_acks:
  assumes "transfer_prepare propose arrival req s = (Inr creq, s')"
    and "mset arrival = mset [0..<n]" and "g < n"
  shows "\<exists>k r. propose (co_propose_request req s) g k = (Some r, None) \<and> prs_Acktype r = ACK
    \<and> (\<forall>i < k. nacked (propose (co_propose_request req s) g i))"
proof -
  obtain replies where m: "map (\<lambda>g. propose_goroutine (propose (co_propose_request req s) g)) arrival = map Some replies"
    using assms(1) by (rule transfer_prepare_Inr)
  have "g \<in> set arrival" using assms(3) mset_eq_setD [OF assms(2)] by simp
  then obtain x where "propose_goroutine (propose (co_propose_request req s) g) = Some x"
    using map_Some_members(1) [OF m] by blast
  then show ?thesis by (rule propose_goroutine_Some) blast
qed

text \<open>The commit request is made from the first reply with a payload.\<close>

definition commit_request_of :: "TransferRequest \<Rightarrow> ProposeResponse \<Rightarrow> CommitRequest" where
  "commit_request_of req res = \<lparr>crq_Source = trq_Source req, crq_Target = trq_Target req, crq_Index = prs_Index res,
     crq_Address = prs_Address res, crq_MsgPayload = prs_MsgPayload res, crq_IsRollback = False\<rparr>"

lemma build_commit_request_written:
  "build_commit_request req 0 c rs = (if \<forall>r \<in> set rs. prs_Acktype r = ACK then Inr c else Inl errNotAcknowledged)"
  by (induction rs) auto

lemma build_commit_request_find:
  "build_commit_request req 1 None rs = (if \<forall>r \<in> set rs. prs_Acktype r = ACK
     then Inr (map_option (commit_request_of req) (find (\<lambda>r. prs_MsgPayload r \<noteq> []) rs)) else Inl errNotAcknowledged)"
  by (induction rs) (auto simp: build_commit_request_written commit_request_of_def [symmetric])

text \<open>The reply that the commit request is made from is an acknowledgement with a payload, and there is
  one as soon as one follower answers with a payload.\<close>

lemma commit_request_from:
  assumes "transfer_prepare propose arrival req s = (Inr creq, s')" and "g0 \<in> set arrival"
    and "\<And>k r. propose (co_propose_request req s) g0 k = (Some r, None) \<Longrightarrow> prs_Acktype r = ACK \<Longrightarrow> prs_MsgPayload r \<noteq> []"
  obtains g k r where "g \<in> set arrival" and "propose (co_propose_request req s) g k = (Some r, None)"
    and "prs_Acktype r = ACK" and "prs_MsgPayload r \<noteq> []" and "creq = Some (commit_request_of req r)"
proof -
  let ?go = "\<lambda>g. propose_goroutine (propose (co_propose_request req s) g)"
  obtain replies where m: "map ?go arrival = map Some replies"
    and b: "build_commit_request req 1 None (map fst replies) = Inr creq"
    using assms(1) by (rule transfer_prepare_Inr)
  obtain x0 where x0: "x0 \<in> set replies" "?go g0 = Some x0"
    using map_Some_members(1) [OF m assms(2)] by blast
  have "prs_MsgPayload (fst x0) \<noteq> []" using x0(2) by (rule propose_goroutine_Some) (use assms(3) in auto)
  moreover have "fst x0 \<in> set (map fst replies)" using x0(1) by simp
  ultimately obtain r where r: "find (\<lambda>r. prs_MsgPayload r \<noteq> []) (map fst replies) = Some r"
    using find_None_iff [of "\<lambda>r. prs_MsgPayload r \<noteq> []" "map fst replies"] by blast
  then have "r \<in> set (map fst replies)" "prs_MsgPayload r \<noteq> []"
    unfolding find_Some_iff by (blast intro: nth_mem)+
  then obtain x where x0: "fst x = r" "x \<in> set replies" by auto
  then obtain g where x: "fst x = r" "g \<in> set arrival" "?go g = Some x" using map_Some_members(2) [OF m] by blast
  from x(3) obtain k where "propose (co_propose_request req s) g k = (Some r, None)" "prs_Acktype r = ACK"
    using x(1) by (metis fst_conv propose_goroutine_Some)
  moreover have "creq = Some (commit_request_of req r)"
    using b [unfolded build_commit_request_find] r by (simp split: if_splits)
  ultimately show thesis using that x(2) \<open>prs_MsgPayload r \<noteq> []\<close> by blast
qed

text \<open>(C23) The order in which the replies arrive does not matter as long as the followers of the source
  agree: when they acknowledge with the same index, address and payload and the followers of the
  target with an empty payload, the commit request carries the payload of the source followers to all.\<close>

theorem commit_request_is_source_state:
  assumes "transfer_prepare propose arrival req s = (Inr creq, s')"
    and "\<forall>g \<in> set arrival. \<forall>k r. propose (co_propose_request req s) g k = (Some r, None) \<longrightarrow> prs_Acktype r = ACK \<longrightarrow>
      (if g \<in> source then prs_Index r = i \<and> prs_Address r = a \<and> prs_MsgPayload r = p else prs_MsgPayload r = [])"
    and "g0 \<in> set arrival" and "g0 \<in> source" and "p \<noteq> []"
  shows "creq = Some \<lparr>crq_Source = trq_Source req, crq_Target = trq_Target req, crq_Index = i, crq_Address = a,
    crq_MsgPayload = p, crq_IsRollback = False\<rparr>"
proof -
  have "prs_MsgPayload r \<noteq> []"
    if "propose (co_propose_request req s) g0 k = (Some r, None)" "prs_Acktype r = ACK" for k r
    using bspec [OF assms(2,3)] that assms(4,5) by (auto dest: spec)
  then obtain g k r where r: "g \<in> set arrival" "propose (co_propose_request req s) g k = (Some r, None)"
      "prs_Acktype r = ACK" "prs_MsgPayload r \<noteq> []" "creq = Some (commit_request_of req r)"
    using commit_request_from [OF assms(1,3)] by metis
  have "if g \<in> source then prs_Index r = i \<and> prs_Address r = a \<and> prs_MsgPayload r = p else prs_MsgPayload r = []"
    using bspec [OF assms(2) r(1)] r(2,3) by blast
  then show ?thesis using r(4,5) by (simp add: commit_request_of_def split: if_splits)
qed

section \<open>Blocking\<close>

text \<open>(C35) One follower that cannot be reached blocks the coordinator for ever: when a call of one
  goroutine ends with an error, that goroutine returns without releasing the WaitGroup, and
  \<open>StateTransfer\<close> does not return, whatever the other followers answer.\<close>

theorem transfer_blocks_on_error:
  assumes "ObtainFollowersLimit s (trq_Source req) (trq_Target req) = Some fs" and "mset arrival = mset [0..<length fs]"
    and "g < length fs" and "propose (co_propose_request req s) g k = (r, Some err)"
    and "\<not> nacked (propose (co_propose_request req s) g k)"
    and "\<forall>i < k. nacked (propose (co_propose_request req s) g i)"
  shows "fst (StateTransfer propose arrival sched req s) = Blocked"
proof -
  have "g \<in> set arrival" using assms(3) mset_eq_setD [OF assms(2)] by simp
  moreover have "propose_goroutine (propose (co_propose_request req s) g) = None"
    using propose_goroutine_returns [OF assms(5,6)] assms(4) by (cases r) simp_all
  ultimately have "propose_phase_replies (propose (co_propose_request req s)) arrival = None"
    unfolding propose_phase_replies_def
    using collect_None [of g arrival "\<lambda>g. propose_goroutine (propose (co_propose_request req s) g)"] by simp
  then show ?thesis using assms(1) by (simp add: StateTransfer_def transfer_prepare_def)
qed

section \<open>The commit phase\<close>

text \<open>A reply in the channels that is no acknowledgement comes from a goroutine that did not release
  the WaitGroup.\<close>

definition bad_reply :: "Response option \<Rightarrow> error option \<Rightarrow> bool" where
  "bad_reply response err \<longleftrightarrow> commit_leaves response err \<noteq> GDone"

definition commit_inv :: "commit_phase \<Rightarrow> bool" where
  "commit_inv c \<longleftrightarrow> length (cm_commitResChan c) = length (cm_commitErrChan c)
     \<and> (list_ex (\<lambda>(r, e). bad_reply r e) (zip (cm_commitResChan c) (cm_commitErrChan c)) \<longrightarrow>
          GGone \<in> set (cm_goroutines c) \<or> GPanic \<in> set (cm_goroutines c))"

lemma set_update_other: "x \<in> set xs \<Longrightarrow> x \<noteq> xs ! n \<Longrightarrow> x \<in> set (xs[n := y])"
  by (induction xs arbitrary: n) (auto split: nat.splits)

lemma commit_leaves_cases: "commit_leaves r e \<in> {GDone, GGone, GPanic}"
  by (simp add: commit_leaves_def split: option.split)

lemma commit_step_inv:
  assumes "commit_step ev c = Some c'" and "commit_inv c"
  shows "commit_inv c'"
proof (cases ev)
  case (GCheck g)
  then obtain m where g: "g < length (cm_goroutines c)" "cm_goroutines c ! g = GLoop m"
    using assms(1) by (auto split: if_splits goroutine.splits)
  have keep: "x \<in> set ((cm_goroutines c)[g := y])" if "x \<in> set (cm_goroutines c)" "x = GGone \<or> x = GPanic" for x y
    using set_update_other [OF that(1)] that(2) g(2) by auto
  have new: "commit_leaves r e \<in> set ((cm_goroutines c)[g := commit_leaves r e])" for r e
    using set_update_memI [OF g(1)] .
  show ?thesis
  proof (cases "commit_again (cm_response c) m")
    case True
    with GCheck g assms keep show ?thesis by (auto simp: commit_inv_def)
  next
    case False
    with GCheck g assms(1) have c': "c' = c\<lparr>cm_goroutines := (cm_goroutines c)[g := commit_leaves (cm_response c) (cm_err c)],
        cm_commitResChan := cm_commitResChan c @ [cm_response c], cm_commitErrChan := cm_commitErrChan c @ [cm_err c]\<rparr>"
      by (auto split: if_splits)
    show ?thesis
      using assms(2) keep [of GGone] keep [of GPanic] new [of "cm_response c" "cm_err c"]
        commit_leaves_cases [of "cm_response c" "cm_err c"]
      unfolding c' commit_inv_def by (auto simp: bad_reply_def)
  qed
next
  case (GReturn g r e)
  then obtain m where g: "g < length (cm_goroutines c)" "cm_goroutines c ! g = GCalling m"
    using assms(1) by (auto split: if_splits goroutine.splits)
  have "x \<in> set ((cm_goroutines c)[g := y])" if "x \<in> set (cm_goroutines c)" "x = GGone \<or> x = GPanic" for x y
    using set_update_other [OF that(1)] that(2) g(2) by auto
  with GReturn g assms show ?thesis by (auto simp: commit_inv_def)
qed

lemma commit_run_inv:
  assumes "commit_run sched (commit_phase_start n) = Some c"
  shows "commit_inv c"
proof -
  have "commit_inv (commit_phase_start n)" by (simp add: commit_inv_def commit_phase_start_def)
  then show ?thesis
    using range_loop_inv [of commit_step sched _ c commit_inv] assms commit_step_inv unfolding commit_run_def by blast
qed

lemma commit_results_good:
  "length rs = length es \<Longrightarrow> \<not> list_ex (\<lambda>(r, e). bad_reply r e) (zip rs es) \<Longrightarrow>
    commit_results rs es = Some (Some ack_response, None)"
proof -
  assume a: "length rs = length es" "\<not> list_ex (\<lambda>(r, e). bad_reply r e) (zip rs es)"
  have "commit_errors es = (Some ack_response, None)"
    using a by (induction rs es rule: list_induct2) (auto simp: bad_reply_def commit_leaves_def split: if_splits)
  moreover have "commit_results rs es' = Some (commit_errors es')" for es'
    using a by (induction rs es rule: list_induct2) (auto simp: bad_reply_def commit_leaves_def split: if_splits option.splits)
  ultimately show "commit_results rs es = Some (Some ack_response, None)" by simp
qed

text \<open>When the commit phase lets the coordinator through, it answers ACK: the loops over the two
  channels never find anything else, because a goroutine with another result does not release the
  WaitGroup. The error returns after the commit phase are dead.\<close>

lemma commit_through_acks:
  assumes "commit_run sched (commit_phase_start n) = Some c" and "commit_through c"
  shows "commit_results (cm_commitResChan c) (cm_commitErrChan c) = Some (Some ack_response, None)"
proof -
  have "GGone \<notin> set (cm_goroutines c)" "GPanic \<notin> set (cm_goroutines c)"
    using assms(2) by (auto simp: commit_through_def list_all_iff)
  with commit_run_inv [OF assms(1)] show ?thesis
    by (intro commit_results_good) (auto simp: commit_inv_def)
qed

lemma commit_rest_leaves:
  assumes "cm_goroutines c = replicate j GDone @ replicate k (GLoop 1)" and "cm_response c = Some r" and "cm_err c = None"
    and "rsp_Acktype r = ACK" and "length (cm_commitResChan c) + k \<le> channelSize"
  shows "\<exists>c'. commit_run (map GCheck [j..<j + k]) c = Some c' \<and> commit_through c' \<and> cm_sent c' = cm_sent c"
  using assms
proof (induction k arbitrary: j c)
  case 0
  then show ?case by (simp add: commit_run_def commit_through_def list_all_iff)
next
  case (Suc k)
  let ?c = "c\<lparr>cm_goroutines := replicate (Suc j) GDone @ replicate k (GLoop 1),
      cm_commitResChan := cm_commitResChan c @ [cm_response c], cm_commitErrChan := cm_commitErrChan c @ [cm_err c]\<rparr>"
  have "(replicate j GDone @ replicate (Suc k) (GLoop 1))[j := GDone] = replicate (Suc j) GDone @ replicate k (GLoop 1)"
    by (simp add: list_update_append replicate_append_same)
  then have "commit_step (GCheck j) c = Some ?c"
    using Suc.prems by (simp add: nth_append commit_again_def commit_leaves_def)
  moreover have "\<exists>c'. commit_run (map GCheck [Suc j..<Suc j + k]) ?c = Some c' \<and> commit_through c' \<and> cm_sent c' = cm_sent ?c"
    using Suc.prems by (intro Suc.IH) simp_all
  moreover have "[j..<j + Suc k] = j # [Suc j..<Suc j + k]" by (simp add: upt_rec)
  ultimately show ?case by (simp add: commit_run_def)
qed

text \<open>(C34) The goroutines of the commit share one response. When the first follower has acknowledged
  before the others are asked, their goroutines find that acknowledgement, leave their loops without
  a call, and the coordinator answers ACK although only one follower has received the commit.\<close>

theorem commit_skips_followers:
  assumes "0 < n" and "n \<le> channelSize" and "rsp_Acktype (r :: Response) = ACK"
  shows "\<exists>sched c. commit_run sched (commit_phase_start n) = Some c \<and> commit_through c \<and> cm_sent c = [0]"
proof -
  let ?c = "(commit_phase_start n)\<lparr>cm_response := Some r, cm_sent := [0]\<rparr>"
  obtain k where n: "n = Suc k" using assms(1) by (cases n) auto
  have "commit_run [GCheck 0, GReturn 0 (Some r) None] (commit_phase_start n) = Some (?c\<lparr>cm_goroutines := GLoop 0 # replicate k (GLoop 1)\<rparr>)"
    by (simp add: commit_run_def commit_phase_start_def n commit_again_def)
  moreover have "commit_step (GCheck 0) (?c\<lparr>cm_goroutines := GLoop 0 # replicate k (GLoop 1)\<rparr>) =
      Some (?c\<lparr>cm_goroutines := replicate 1 GDone @ replicate k (GLoop 1), cm_commitResChan := [Some r], cm_commitErrChan := [None]\<rparr>)"
    using assms(3) by (simp add: commit_phase_start_def commit_again_def commit_leaves_def channelSize_def)
  moreover obtain c where "commit_run (map GCheck [1..<1 + k])
      (?c\<lparr>cm_goroutines := replicate 1 GDone @ replicate k (GLoop 1), cm_commitResChan := [Some r], cm_commitErrChan := [None]\<rparr>)
      = Some c" "commit_through c" "cm_sent c = [0]"
    using commit_rest_leaves [of "?c\<lparr>cm_goroutines := replicate 1 GDone @ replicate k (GLoop 1), cm_commitResChan := [Some r],
      cm_commitErrChan := [None]\<rparr>" 1 k r] assms n by (auto simp: commit_phase_start_def)
  ultimately have "commit_run ([GCheck 0, GReturn 0 (Some r) None] @ GCheck 0 # map GCheck [1..<1 + k]) (commit_phase_start n) = Some c"
    unfolding commit_run_def range_loop_append by simp
  with \<open>commit_through c\<close> \<open>cm_sent c = [0]\<close> show ?thesis by blast
qed

section \<open>Concrete runs\<close>

definition demo_reply :: "AckType \<Rightarrow> bytes \<Rightarrow> ProposeResponse" where
  "demo_reply ack p = \<lparr>prs_Acktype = ack, prs_Index = 2, prs_Ftype = SOURCE, prs_Address = [9], prs_MsgPayload = p\<rparr>"

definition demo_coordinator :: "nat Coordinator" where
  "demo_coordinator = \<lparr>co_CommitType = ''two-phase'', co_ShardFollowers = [(0, [10, 11, 12, 13]), (1, [20])],
     co_CoordinatorCache = NewCoorCache\<rparr>"

definition demo_transfer :: TransferRequest where
  "demo_transfer = \<lparr>trq_Source = 0, trq_Target = 1, trq_MsgPayload = [9], trq_Index = 2\<rparr>"

text \<open>Three followers of the source that acknowledge with a payload after one NACK, and one of the target.\<close>

definition demo_calls :: "ProposeRequest \<Rightarrow> nat \<Rightarrow> nat \<Rightarrow> ProposeResponse option \<times> error option" where
  "demo_calls preq g k = (if k = 0 \<and> g < 3 then (Some (demo_reply NACK []), None)
     else (Some (demo_reply ACK (if g < 3 then [5, 6] else [])), None))"

lemma demo_goroutines:
  "propose_goroutine (demo_calls preq g) = Some (demo_reply ACK (if g < 3 then [5, 6] else []), None)"
  using propose_goroutine_returns [of "demo_calls preq g" "if g < 3 then 1 else 0"]
  by (simp add: nacked_def demo_calls_def demo_reply_def split: if_splits)

lemma demo_prepare:
  "\<exists>creq s. transfer_prepare demo_calls [3, 1, 0, 2] demo_transfer demo_coordinator = (Inr creq, s)"
  by (simp add: transfer_prepare_def propose_phase_replies_def channelSize_def demo_goroutines demo_reply_def
      coor_cache.get_put demo_coordinator_def Let_def cc_Get_def cc_Set_def NewCoorCache_def)

lemma demo_arrival: "mset [3, 1, 0, 2] = mset [0..<4]"
  by (simp add: upt_rec eval_nat_numeral add_mset_commute)

theorem followers_limit_witness:
  "ObtainFollowersLimit demo_coordinator 0 1 = Some [10, 11, 12, 20] \<and> ObtainFollowersLimit demo_coordinator 0 7 = None"
  using followers_limit [OF refl refl refl refl, of demo_coordinator 0 1]
    followers_limit [OF refl refl refl refl, of demo_coordinator 0 7]
  by (simp add: demo_coordinator_def gm_getd_def)

theorem propose_goroutine_ends_witness:
  "propose_goroutine (\<lambda>k. if k < 2 then (Some (demo_reply NACK []), None) else (Some (demo_reply ACK [5]), None))
    = Some (demo_reply ACK [5], None)"
  using propose_goroutine_ends [of "\<lambda>k. if k < 2 then (Some (demo_reply NACK []), None) else (Some (demo_reply ACK [5]), None)"]
  by (auto simp: nacked_def demo_reply_def dest!: spec [of _ "2 :: nat"])

theorem transfer_commits_after_acks_witness:
  "\<exists>k r. demo_calls (co_propose_request demo_transfer demo_coordinator) 2 k = (Some r, None) \<and> prs_Acktype r = ACK"
proof -
  obtain creq s where "transfer_prepare demo_calls [3, 1, 0, 2] demo_transfer demo_coordinator = (Inr creq, s)"
    using demo_prepare by blast
  from transfer_commits_after_acks [OF this demo_arrival, of 2] show ?thesis by auto
qed

theorem commit_request_is_source_state_witness:
  "\<exists>s. transfer_prepare demo_calls [3, 1, 0, 2] demo_transfer demo_coordinator =
    (Inr (Some \<lparr>crq_Source = 0, crq_Target = 1, crq_Index = 2, crq_Address = [9], crq_MsgPayload = [5, 6], crq_IsRollback = False\<rparr>), s)"
proof -
  obtain creq s where p: "transfer_prepare demo_calls [3, 1, 0, 2] demo_transfer demo_coordinator = (Inr creq, s)"
    using demo_prepare by blast
  have "creq = Some \<lparr>crq_Source = trq_Source demo_transfer, crq_Target = trq_Target demo_transfer, crq_Index = 2,
      crq_Address = [9], crq_MsgPayload = [5, 6], crq_IsRollback = False\<rparr>"
    by (rule commit_request_is_source_state [OF p, of "{..<3}" 2 "[9]" "[5, 6]" 1])
      (auto simp: demo_calls_def demo_reply_def split: if_splits)
  with p show ?thesis by (simp add: demo_transfer_def)
qed

theorem transfer_blocks_on_error_witness:
  "fst (StateTransfer (\<lambda>preq g k. if g = 2 then (None, Some ''unreachable'') else demo_calls preq g k) [3, 1, 0, 2] []
    demo_transfer demo_coordinator) = Blocked"
proof (rule transfer_blocks_on_error [where fs = "[10, 11, 12, 20]" and g = 2 and k = 0])
  show "ObtainFollowersLimit demo_coordinator (trq_Source demo_transfer) (trq_Target demo_transfer) = Some [10, 11, 12, 20]"
    by (simp add: ObtainFollowersLimit_def slice_to_def demo_coordinator_def demo_transfer_def gm_getd_def)
  have "length [10, 11, 12, 20 :: nat] = 4" by simp
  then show "mset [3, 1, 0, 2] = mset [0..<length [10, 11, 12, 20 :: nat]]" using demo_arrival by (simp only:)
qed (simp_all add: nacked_def)

lemma commit_through_acks_example:
  "\<exists>c. commit_run [GCheck 0, GCheck 1, GReturn 1 (Some ack_response) None, GReturn 0 (Some ack_response) None, GCheck 0, GCheck 1]
      (commit_phase_start 2) = Some c
    \<and> commit_results (cm_commitResChan c) (cm_commitErrChan c) = Some (Some ack_response, None)"
proof -
  obtain c where c: "commit_run [GCheck 0, GCheck 1, GReturn 1 (Some ack_response) None, GReturn 0 (Some ack_response) None,
      GCheck 0, GCheck 1] (commit_phase_start 2) = Some c" "commit_through c"
    by (simp add: commit_run_def commit_phase_start_def numeral_2_eq_2 commit_again_def commit_leaves_def ack_response_def
        channelSize_def commit_through_def)
  then show ?thesis using commit_through_acks [OF c] by blast
qed

theorem commit_skips_followers_witness:
  "\<exists>sched c. commit_run sched (commit_phase_start 4) = Some c \<and> commit_through c \<and> cm_sent c = [0]"
  by (rule commit_skips_followers [of 4 ack_response]) (simp_all add: channelSize_def ack_response_def)

end
