(* ===== verification/Migration.thy ===== *)
theory Migration
  imports Coordinator_Props State_Transfer
begin

text \<open>
  The parts of a migration put together: the answers that the followers of the two shards give in
  the propose phase, the commit request that the coordinator makes of them, the transaction that
  a follower of the target then hands to the block proposal, and the execution of that
  transaction on the target shard.
\<close>

section \<open>Answers of followers\<close>

text \<open>A follower that is idle and has not heard of an index, and the block with the freeze
  transaction of that index that comes next at it.\<close>

definition fresh_follower :: "u64 \<Rightarrow> ('d, 'tr, 'v, 'e, 'tl) follower \<Rightarrow> bool" where
  "fresh_follower i f \<longleftrightarrow> \<not> f_crashed f \<and> f_reset f = RIdle
     \<and> cp_status i (f_pool f) = (False, False, False, None, False)"

definition freeze_block ::
    "('d, 'tr, 'v) sdb_env \<Rightarrow> ('e, 'tl) lm_env \<Rightarrow> u64 \<Rightarrow> ('d, 'e) PoolChain \<times> PoolHeader \<Rightarrow> ('d, 'tr, 'v) DB \<Rightarrow>
      ('d, 'tr, 'v, 'e, 'tl) follower \<Rightarrow> bool" where
  "freeze_block E F i block l f \<longleftrightarrow> (\<exists>m tx. block_follows E F (fst block) (f_head f) (snd block) l m
     \<and> ch_sttxs (fst block) = [tx] \<and> sttx_ToFreeze tx \<and> sttx_Index tx = i)"

text \<open>The events at a follower from a propose to the end of the block with the freeze transaction,
  and the answer it gives in them; a source takes three more steps to read the account and answer.\<close>

definition propose_events ::
    "ProposeRequest \<Rightarrow> ('d, 'e) PoolChain \<times> PoolHeader \<Rightarrow> ('d, 'tr, 'v, 'e, 'tl) follower \<Rightarrow> ('d, 'e) event list" where
  "propose_events preq block f = (let n = length (f_handlers f) in
     [EvPropose preq, EvRun n, EvRun n, EvRun n, EvRun n, EvRun n, EvRun n]
     @ [EvBlock (fst block) (snd block), EvLoop, EvDeliver n, EvLoop]
     @ (if prq_Target preq = srv_chainShardID (f_server f) then [] else [EvRun n, EvRun n, EvRun n]))"

definition follower_answers ::
    "('d, 'tr, 'v) sdb_env \<Rightarrow> ('e, 'tl) lm_env \<Rightarrow> tx_env \<Rightarrow> ProposeRequest \<Rightarrow> ('d, 'e) PoolChain \<times> PoolHeader \<Rightarrow>
      ('d, 'tr, 'v, 'e, 'tl) follower \<Rightarrow> ProposeResponse \<Rightarrow> bool" where
  "follower_answers E F T preq block f r \<longleftrightarrow>
     (\<exists>f'. follower_run E F T (propose_events preq block f) f = Some f' \<and> f_replies f' = f_replies f @ [PReply r])"

lemma source_answer:
  assumes "fresh_follower (prq_Index preq) f" and "freeze_block E F (prq_Index preq) block l f"
    and "prq_Target preq \<noteq> srv_chainShardID (f_server f)" and "follower_answers E F T preq block f r"
  shows "prs_Index r = prq_Index preq \<and> prs_Address r = prq_MsgPayload preq
    \<and> prs_MsgPayload r = EncodeStateData T (account_data E (BytesToAddress (prq_MsgPayload preq)) l)"
proof -
  obtain m tx where b: "block_follows E F (fst block) (f_head f) (snd block) l m" "ch_sttxs (fst block) = [tx]"
      "sttx_ToFreeze tx" "sttx_Index tx = prq_Index preq"
    using assms(2) by (auto simp: freeze_block_def)
  have "\<not> f_crashed f" "f_reset f = RIdle" "cp_status (prq_Index preq) (f_pool f) = (False, False, False, None, False)"
    using assms(1) by (simp_all add: fresh_follower_def)
  from propose_phase [OF this(1,2) refl this(3) assms(3) b, of T] assms(3,4) show ?thesis
    by (auto simp: follower_answers_def propose_events_def Let_def simp del: follower_step.simps append_Cons)
qed

lemma target_answer:
  assumes "fresh_follower (prq_Index preq) f" and "freeze_block E F (prq_Index preq) block l f"
    and "prq_Target preq = srv_chainShardID (f_server f)"
  obtains f' where "follower_run E F T (propose_events preq block f) f = Some f'"
    and "\<And>r. follower_answers E F T preq block f r \<Longrightarrow> prs_MsgPayload r = []"
    and "f_handlers f' = f_handlers f" and "\<not> f_crashed f'" and "f_reset f' = RIdle"
    and "cp_committedReadTxList (f_pool f') = cp_committedReadTxList (f_pool f)"
    and "cp_status (prq_Index preq) (f_pool f') = (False, True, False, Some ChanOpen, False)"
proof -
  obtain m tx where b: "block_follows E F (fst block) (f_head f) (snd block) l m" "ch_sttxs (fst block) = [tx]"
      "sttx_ToFreeze tx" "sttx_Index tx = prq_Index preq"
    using assms(2) by (auto simp: freeze_block_def)
  have f: "\<not> f_crashed f" "f_reset f = RIdle" "cp_status (prq_Index preq) (f_pool f) = (False, False, False, None, False)"
    using assms(1) by (simp_all add: fresh_follower_def)
  obtain f' where f': "follower_run E F T (propose_events preq block f) f = Some f'"
      "f_replies f' = f_replies f @ [PReply \<lparr>prs_Acktype = ACK, prs_Index = prq_Index preq, prs_Ftype = TARGET,
        prs_Address = prq_MsgPayload preq, prs_MsgPayload = []\<rparr>]"
      "f_handlers f' = f_handlers f" "\<not> f_crashed f'" "f_reset f' = RIdle"
      "cp_committedReadTxList (f_pool f') = cp_committedReadTxList (f_pool f)"
      "cp_status (prq_Index preq) (f_pool f') = (False, True, False, Some ChanOpen, False)"
    using propose_phase_target [OF f(1,2) refl f(3) assms(3) b, of T] assms(3)
    by (auto simp: propose_events_def Let_def simp del: follower_step.simps append_Cons)
  show thesis
    by (rule that [OF f'(1) _ f'(3-7)]) (use f'(1,2) in \<open>auto simp: follower_answers_def\<close>)
qed

section \<open>A migration\<close>

text \<open>The transaction of a commit request, executed on the target shard.\<close>

lemma commit_executed:
  assumes "account_tries_ok E" and "sdb_reachable E lt" and "lm_reachable F mt" and "IsS3 config (hd_Epoch ht)"
    and "sttx_SourceShardID tx \<noteq> sttx_TargetShardID tx" and "hd_ShardID ht = sttx_TargetShardID tx"
    and "\<not> sttx_ToFreeze tx" and "sttx_Address tx = a" and "sttx_Balance tx = Some b"
    and "\<not> fst (sdb_HasSuicided E a lt)" and "\<not> lm_suicided F mt a"
  shows "\<exists>rc lt' mt' tx'. ApplyStateTransferTransaction E F T config lt ht mt (Some tx) = Some (rc, lt', mt', tx')
    \<and> fst (sdb_GetBalance E a lt') = b \<and> fst (sdb_GetNonce E a lt') = sttx_Nonce tx
    \<and> \<not> fst (sdb_GetFreezeState E a lt') \<and> fst (lm_GetTargetShardID F a mt') = sttx_TargetShardID tx"
proof -
  have inv: "sdb_inv E lt" using sdb_reachable_inv [OF assms(1,2)] by simp
  have ns: "\<not> so_suicided (sdb_obj E lt (sttx_Address tx))" using assms(8,10) by (simp add: sdb_HasSuicided_obj)
  obtain lt' mt' where "sttx_target_commit E F True tx lt mt = Some ([], lt', mt')"
      "so_Balance (sdb_obj E lt' a) = b" "so_Nonce (sdb_obj E lt' a) = sttx_Nonce tx" "\<not> so_freeze (sdb_obj E lt' a)"
      "fst (lm_GetTargetShardID F a mt') = sttx_TargetShardID tx"
    using sttx_target_commit_core [OF inv assms(3,9) ns] assms(8,11) by metis
  then show ?thesis
    using assms(4-7)
    by (auto simp: ApplyStateTransferTransaction_def sdb_getters_obj Let_def split: prod.split)
qed

text \<open>The followers that the coordinator asks: each is fresh, its next block is one with the freeze
  transaction, and its acknowledgements are answers that it gives in that run; the followers of
  other shards than the target open states in which the account has a given balance and nonce.\<close>

definition asked_followers ::
    "('d, 'tr, 'v) sdb_env \<Rightarrow> ('e, 'tl) lm_env \<Rightarrow> tx_env \<Rightarrow> ProposeRequest \<Rightarrow>
      (nat \<Rightarrow> nat \<Rightarrow> ProposeResponse option \<times> error option) \<Rightarrow> (nat \<Rightarrow> ('d, 'tr, 'v, 'e, 'tl) follower) \<Rightarrow>
      (nat \<Rightarrow> ('d, 'e) PoolChain \<times> PoolHeader) \<Rightarrow> (nat \<Rightarrow> ('d, 'tr, 'v) DB) \<Rightarrow> nat set \<Rightarrow> int \<Rightarrow> u64 \<Rightarrow> bool" where
  "asked_followers E F T preq calls fo block l G b k \<longleftrightarrow> (\<forall>g \<in> G.
     fresh_follower (prq_Index preq) (fo g) \<and> freeze_block E F (prq_Index preq) (block g) (l g) (fo g)
   \<and> (\<forall>n r. calls g n = (Some r, None) \<longrightarrow> prs_Acktype r = ACK \<longrightarrow> follower_answers E F T preq (block g) (fo g) r)
   \<and> (srv_chainShardID (f_server (fo g)) \<noteq> prq_Target preq \<longrightarrow>
       fst (sdb_GetBalance E (BytesToAddress (prq_MsgPayload preq)) (l g)) = b
     \<and> fst (sdb_GetNonce E (BytesToAddress (prq_MsgPayload preq)) (l g)) = k))"

lemma asked_source:
  assumes "rlp_codes T" and "0 \<le> b" and "asked_followers E F T preq calls fo block l G b k" and "g \<in> G"
    and "srv_chainShardID (f_server (fo g)) \<noteq> prq_Target preq" and "calls g n = (Some r, None)" and "prs_Acktype r = ACK"
  shows "prs_Index r = prq_Index preq \<and> prs_Address r = prq_MsgPayload preq \<and> prs_MsgPayload r \<noteq> []
    \<and> (\<exists>l'. prs_MsgPayload r = EncodeStateData T (account_data E (BytesToAddress (prq_MsgPayload preq)) l')
        \<and> fst (sdb_GetBalance E (BytesToAddress (prq_MsgPayload preq)) l') = b
        \<and> fst (sdb_GetNonce E (BytesToAddress (prq_MsgPayload preq)) l') = k)"
proof -
  let ?a = "BytesToAddress (prq_MsgPayload preq)"
  have a: "fresh_follower (prq_Index preq) (fo g)" "freeze_block E F (prq_Index preq) (block g) (l g) (fo g)"
      "follower_answers E F T preq (block g) (fo g) r" "fst (sdb_GetBalance E ?a (l g)) = b"
      "fst (sdb_GetNonce E ?a (l g)) = k"
    using bspec [OF assms(3) [unfolded asked_followers_def] assms(4)] assms(5-7) by auto
  from source_answer [OF a(1,2) assms(5) [symmetric] a(3)] account_data_decodes(3) [OF assms(1), of E ?a "l g"]
    a(4,5) assms(2) show ?thesis by auto
qed

lemma asked_target:
  assumes "asked_followers E F T preq calls fo block l G b k" and "g \<in> G"
    and "srv_chainShardID (f_server (fo g)) = prq_Target preq"
  obtains f' where "follower_run E F T (propose_events preq (block g) (fo g)) (fo g) = Some f'"
    and "\<And>n r. calls g n = (Some r, None) \<Longrightarrow> prs_Acktype r = ACK \<Longrightarrow> prs_MsgPayload r = []"
    and "\<not> f_crashed f'" and "f_reset f' = RIdle"
    and "cp_committedReadTxList (f_pool f') = cp_committedReadTxList (f_pool (fo g))"
    and "cp_status (prq_Index preq) (f_pool f') = (False, True, False, Some ChanOpen, False)"
proof -
  have a: "fresh_follower (prq_Index preq) (fo g)" "freeze_block E F (prq_Index preq) (block g) (l g) (fo g)"
      "\<And>n r. calls g n = (Some r, None) \<Longrightarrow> prs_Acktype r = ACK \<Longrightarrow> follower_answers E F T preq (block g) (fo g) r"
    using bspec [OF assms(1) [unfolded asked_followers_def] assms(2)] by auto
  show thesis
    by (rule target_answer [OF a(1,2) assms(3) [symmetric], of T], rule that) (use a(3) in blast)+
qed

text \<open>The commit request that the coordinator makes of the answers.\<close>

lemma migration_request:
  assumes "rlp_codes T" and "0 \<le> b" and "transfer_prepare propose arrival req s = (Inr creq, s')"
    and "preq = co_propose_request req s" and "asked_followers E F T preq (propose preq) fo block l (set arrival) b k"
    and "g \<in> set arrival" and "srv_chainShardID (f_server (fo g)) \<noteq> trq_Target req"
  obtains l' where "creq = Some \<lparr>crq_Source = trq_Source req, crq_Target = trq_Target req, crq_Index = trq_Index req,
      crq_Address = trq_MsgPayload req,
      crq_MsgPayload = EncodeStateData T (account_data E (BytesToAddress (trq_MsgPayload req)) l'), crq_IsRollback = False\<rparr>"
    and "fst (sdb_GetBalance E (BytesToAddress (trq_MsgPayload req)) l') = b"
    and "fst (sdb_GetNonce E (BytesToAddress (trq_MsgPayload req)) l') = k"
proof -
  have preq: "prq_Index preq = trq_Index req" "prq_MsgPayload preq = trq_MsgPayload req" "prq_Target preq = trq_Target req"
    by (simp_all add: assms(4) co_propose_request_def)
  note source = asked_source [OF assms(1,2,5), unfolded preq]
  obtain h n r where h: "h \<in> set arrival" "propose preq h n = (Some r, None)" "prs_Acktype r = ACK"
      "prs_MsgPayload r \<noteq> []" "creq = Some (commit_request_of req r)"
    using commit_request_from [OF assms(3,6)] source [OF assms(6,7)] unfolding assms(4) by metis
  have "srv_chainShardID (f_server (fo h)) \<noteq> trq_Target req"
    using asked_target [OF assms(5) h(1)] h(2-4) preq(3) by metis
  with source [OF h(1) _ h(2,3)] h(5) that show thesis by (auto simp: commit_request_of_def)
qed

text \<open>(C5) A whole migration. Every follower that the coordinator asks is idle and has not heard of the
  index, its next block is one with the freeze transaction, and every acknowledgement that the
  coordinator gets is an answer the follower gives in that run. The followers of the source open
  states in which the account has the balance \<open>b\<close> and the nonce \<open>k\<close>. Then, in whatever order the
  answers come: the coordinator makes a commit request; a follower of the target that gets it hands
  a transaction to the block proposal; and after that transaction is executed on the target shard the
  account has the balance \<open>b\<close> and the nonce \<open>k\<close> there, is not frozen, and the load map sends its
  address to the target shard. The transaction is the one of the proposer's pool: one that is read
  back from a block body has lost its balance. (An epoch after S3, a reachable target state.)\<close>

theorem account_migrates:
  assumes "rlp_codes T" and "0 \<le> b" and "transfer_prepare propose arrival req s = (Inr creq, s')"
    and "preq = co_propose_request req s" and "a = BytesToAddress (trq_MsgPayload req)"
    and "asked_followers E F T preq (propose preq) fo block l (set arrival) b k"
    and "g \<in> set arrival" and "srv_chainShardID (f_server (fo g)) \<noteq> trq_Target req"
    and "t \<in> set arrival" and "srv_chainShardID (f_server (fo t)) = trq_Target req"
    and "follower_reachable E F T (fo t)" and "gm_get (cp_committedReadTxList (f_pool (fo t))) (trq_Index req) = None"
    and "account_tries_ok E" and "sdb_reachable E lt" and "lm_reachable F mt" and "IsS3 config (hd_Epoch ht)"
    and "trq_Source req \<noteq> trq_Target req" and "hd_ShardID ht = trq_Target req"
    and "\<not> fst (sdb_HasSuicided E a lt)" and "\<not> lm_suicided F mt a"
  shows "\<exists>c ft n ft' tx. creq = Some c
    \<and> follower_run E F T (propose_events preq (block t) (fo t)) (fo t) = Some ft \<and> n = length (f_handlers ft)
    \<and> follower_run E F T [EvCommit c, EvRun n, EvRun n, EvRun n, EvRun n, EvRun n, EvRun n, EvCommitOut] ft = Some ft'
    \<and> tx \<in> set (f_commitOut ft') \<and> sttx_Index tx = trq_Index req
    \<and> (\<exists>rc lt' mt' tx'. ApplyStateTransferTransaction E F T config lt ht mt (Some tx) = Some (rc, lt', mt', tx')
        \<and> fst (sdb_GetBalance E a lt') = b \<and> fst (sdb_GetNonce E a lt') = k
        \<and> \<not> fst (sdb_GetFreezeState E a lt') \<and> fst (lm_GetTargetShardID F a mt') = trq_Target req)"
proof -
  obtain l' where c: "creq = Some \<lparr>crq_Source = trq_Source req, crq_Target = trq_Target req, crq_Index = trq_Index req,
      crq_Address = trq_MsgPayload req, crq_MsgPayload = EncodeStateData T (account_data E a l'), crq_IsRollback = False\<rparr>"
      "fst (sdb_GetBalance E a l') = b" "fst (sdb_GetNonce E a l') = k"
    using migration_request [OF assms(1-4,6-8)] assms(5) by metis
  have preq: "prq_Index preq = trq_Index req" "srv_chainShardID (f_server (fo t)) = prq_Target preq"
    using assms(10) by (simp_all add: assms(4) co_propose_request_def)
  obtain ft where ft: "follower_run E F T (propose_events preq (block t) (fo t)) (fo t) = Some ft"
      "\<not> f_crashed ft" "f_reset ft = RIdle" "gm_get (cp_committedReadTxList (f_pool ft)) (trq_Index req) = None"
      "cp_status (trq_Index req) (f_pool ft) = (False, True, False, Some ChanOpen, False)"
    using asked_target [OF assms(6,9) preq(2)] assms(12) preq(1) by metis
  let ?n = "length (f_handlers ft)" and ?sd = "snd (DecodeStateData T (EncodeStateData T (account_data E a l')))"
  let ?tx = "NewStateTransferTransaction (trq_Source req) (trq_Target req) (stp_BlockHeight (std_StateProof ?sd)) a
      (stt_Balance (std_State ?sd)) (stt_Nonce (std_State ?sd)) (stt_Data (std_State ?sd)) False (trq_Index req)"
  obtain ft' where ft': "follower_run E F T [EvCommit (the creq), EvRun ?n, EvRun ?n, EvRun ?n, EvRun ?n, EvRun ?n,
        EvRun ?n, EvCommitOut] ft = Some ft'" "?tx \<in> set (f_commitOut ft')"
    using commit_hands_out [OF follower_run_reachable [OF assms(11) ft(1)] ft(2,3) refl, of "the creq"] ft(4,5) c(1) assms(5)
    by (auto simp del: follower_step.simps)
  have sd: "stt_Balance (std_State ?sd) = Some b" "stt_Nonce (std_State ?sd) = k"
    using account_data_decodes(1,2) [OF assms(1), of E a l'] c(2,3) assms(2) by simp_all
  have tx: "sttx_Index ?tx = trq_Index req" "sttx_SourceShardID ?tx = trq_Source req"
      "sttx_TargetShardID ?tx = trq_Target req" "\<not> sttx_ToFreeze ?tx" "sttx_Address ?tx = a" "sttx_Balance ?tx = Some b"
      "sttx_Nonce ?tx = k"
    using sd by (simp_all add: NewStateTransferTransaction_def sttx_getters)
  from commit_executed [OF assms(13-16), of ?tx a b T] assms(17-20) tx c(1) ft(1) ft' show ?thesis
    by (intro exI [of _ "the creq"] exI [of _ ft] exI [of _ ?n] exI [of _ ft'] exI [of _ ?tx])
      (simp del: follower_step.simps)
qed

section \<open>A concrete migration\<close>

text \<open>One follower of each shard, and a coordinator that asks the two of them.\<close>

definition demo_request :: TransferRequest where
  "demo_request = \<lparr>trq_Source = 0, trq_Target = 1, trq_MsgPayload = word_bytes 20 (9 :: address), trq_Index = 2\<rparr>"

definition demo_pair :: "nat Coordinator" where
  "demo_pair = \<lparr>co_CommitType = ''two-phase'', co_ShardFollowers = [(0, [10]), (1, [20])], co_CoordinatorCache = NewCoorCache\<rparr>"

definition demo_asked where
  "demo_asked g = follower_init (of_nat g) (demo_head 0) (pool_at sdb_demo lm_demo cp_new)"

definition demo_answers :: "ProposeRequest \<Rightarrow> nat \<Rightarrow> nat \<Rightarrow> ProposeResponse option \<times> error option" where
  "demo_answers preq g n = (Some \<lparr>prs_Acktype = ACK, prs_Index = prq_Index preq, prs_Ftype = (if g = 0 then SOURCE else TARGET),
     prs_Address = prq_MsgPayload preq, prs_MsgPayload = (if g = 0 then EncodeStateData tx_demo_env
       (account_data sdb_demo_env (BytesToAddress (prq_MsgPayload preq)) sdb_demo) else [])\<rparr>, None)"

lemma demo_asked_sel:
  "\<not> f_crashed (demo_asked g)" "f_reset (demo_asked g) = RIdle" "f_handlers (demo_asked g) = []"
  "f_replies (demo_asked g) = []" "f_head (demo_asked g) = demo_head 0" "srv_chainShardID (f_server (demo_asked g)) = of_nat g"
  "cp_status 2 (f_pool (demo_asked g)) = (False, False, False, None, False)"
  "cp_committedReadTxList (f_pool (demo_asked g)) = []"
  by (simp_all add: demo_asked_def follower_init_def cp_new_def cp_status_def f_pool_def pool_at_def
      sttx_cache.get_new cp_GetCommittedTx_def)

lemma demo_request_sel [simp]:
  "trq_Source demo_request = 0" "trq_Target demo_request = 1" "trq_Index demo_request = 2"
  "BytesToAddress (trq_MsgPayload demo_request) = 9"
  by (simp_all add: demo_request_def)

lemma demo_asked_reachable: "follower_reachable sdb_demo_env lm_demo_env tx_demo_env (demo_asked g)"
proof -
  let ?chain = "(demo_chain 0 [])\<lparr>ch_ShardID := of_nat g\<rparr>"
  have "NewCommitPool sdb_demo_env lm_demo_env ?chain = Some (pool_at sdb_demo lm_demo cp_new)"
    by (simp add: NewCommitPool_def cp_reset_start_def cp_reset_open_def demo_chain_def demo_head_def sdb_demo_new
        lm_demo_new ManageState_new [OF sdb_demo_new] pool_at_def)
  from follower_boot [OF this, of tx_demo_env] show ?thesis by (simp add: demo_asked_def demo_chain_def)
qed

lemma demo_prepared:
  "\<exists>creq s. transfer_prepare demo_answers [1, 0] demo_request demo_pair = (Inr creq, s)"
proof -
  have "propose_goroutine (demo_answers preq g) = Some (the (fst (demo_answers preq g 0)), None)" for preq g
    using propose_goroutine_returns [of "demo_answers preq g" 0] by (simp add: nacked_def demo_answers_def)
  then show ?thesis
    by (simp add: transfer_prepare_def propose_phase_replies_def channelSize_def demo_answers_def
        coor_cache.get_put demo_pair_def Let_def cc_Get_def cc_Set_def NewCoorCache_def)
qed

lemma demo_asked_followers:
  "asked_followers sdb_demo_env lm_demo_env tx_demo_env (co_propose_request demo_request demo_pair)
     (demo_answers (co_propose_request demo_request demo_pair)) demo_asked
     (\<lambda>_. (demo_chain 1 [tx_freeze_demo 9], demo_head 1)) (\<lambda>_. sdb_demo) {0, 1} 7
     (fst (sdb_GetNonce sdb_demo_env 9 sdb_demo))"
proof -
  let ?preq = "co_propose_request demo_request demo_pair"
  let ?block = "(demo_chain 1 [tx_freeze_demo 9], demo_head 1)"
  have preq: "prq_Index ?preq = 2" "prq_Target ?preq = 1" "BytesToAddress (prq_MsgPayload ?preq) = 9"
    by (simp_all add: co_propose_request_def)
  note b = demo_follows [of 0 "[tx_freeze_demo 9]"]
  have fresh: "fresh_follower 2 (demo_asked g)" for g by (simp add: fresh_follower_def demo_asked_sel)
  have fb: "freeze_block sdb_demo_env lm_demo_env 2 ?block sdb_demo (demo_asked g)" for g
    using b by (auto simp: freeze_block_def demo_asked_sel)
  have "follower_answers sdb_demo_env lm_demo_env tx_demo_env ?preq ?block (demo_asked 0)
      (the (fst (demo_answers ?preq 0 n)))" for n
    using propose_phase [OF demo_asked_sel(1,2) refl _ _, of ?preq 0 sdb_demo_env lm_demo_env "fst ?block" "snd ?block"
        sdb_demo lm_demo "tx_freeze_demo 9" tx_demo_env] b
    by (auto simp: follower_answers_def propose_events_def demo_asked_sel preq demo_answers_def Let_def
        simp del: follower_step.simps append_Cons)
  moreover have "follower_answers sdb_demo_env lm_demo_env tx_demo_env ?preq ?block (demo_asked 1)
      (the (fst (demo_answers ?preq 1 n)))" for n
    using propose_phase_target [OF demo_asked_sel(1,2) refl _ _, of ?preq 1 sdb_demo_env lm_demo_env "fst ?block" "snd ?block"
        sdb_demo lm_demo "tx_freeze_demo 9" tx_demo_env] b
    by (auto simp: follower_answers_def propose_events_def demo_asked_sel preq demo_answers_def Let_def
        simp del: follower_step.simps append_Cons)
  ultimately show ?thesis
    using fresh fb sdb_demo_balance by (auto simp: asked_followers_def preq demo_answers_def demo_asked_sel)
qed

theorem account_migrates_witness:
  "\<exists>c s' tx rc lt' mt' tx'. transfer_prepare demo_answers [1, 0] demo_request demo_pair = (Inr (Some c), s')
    \<and> ApplyStateTransferTransaction sdb_demo_env lm_demo_env tx_demo_env demo_config sdb_demo (demo_header 1) lm_demo (Some tx)
      = Some (rc, lt', mt', tx')
    \<and> fst (sdb_GetBalance sdb_demo_env 9 lt') = 7 \<and> fst (lm_GetTargetShardID lm_demo_env 9 mt') = 1"
proof -
  obtain creq s' where p: "transfer_prepare demo_answers [1, 0] demo_request demo_pair = (Inr creq, s')"
    using demo_prepared by blast
  have arrival: "set [1, 0] = {0, 1 :: nat}" by auto
  have "\<exists>c ft n ft' tx. creq = Some c
    \<and> follower_run sdb_demo_env lm_demo_env tx_demo_env
        (propose_events (co_propose_request demo_request demo_pair) (demo_chain 1 [tx_freeze_demo 9], demo_head 1)
          (demo_asked 1)) (demo_asked 1) = Some ft \<and> n = length (f_handlers ft)
    \<and> follower_run sdb_demo_env lm_demo_env tx_demo_env
        [EvCommit c, EvRun n, EvRun n, EvRun n, EvRun n, EvRun n, EvRun n, EvCommitOut] ft = Some ft'
    \<and> tx \<in> set (f_commitOut ft') \<and> sttx_Index tx = trq_Index demo_request
    \<and> (\<exists>rc lt' mt' tx'. ApplyStateTransferTransaction sdb_demo_env lm_demo_env tx_demo_env demo_config sdb_demo
          (demo_header 1) lm_demo (Some tx) = Some (rc, lt', mt', tx')
        \<and> fst (sdb_GetBalance sdb_demo_env 9 lt') = 7
        \<and> fst (sdb_GetNonce sdb_demo_env 9 lt') = fst (sdb_GetNonce sdb_demo_env 9 sdb_demo)
        \<and> \<not> fst (sdb_GetFreezeState sdb_demo_env 9 lt')
        \<and> fst (lm_GetTargetShardID lm_demo_env 9 mt') = trq_Target demo_request)"
    by (rule account_migrates [OF rlp_codes_demo _ p refl _ demo_asked_followers [folded arrival], where g = 0])
      (simp_all add: demo_asked_sel demo_asked_reachable sdb_demo_tries sdb_demo_reachable lm_demo_reachable
        sdb_demo_not_suicided lm_demo_not_suicided)
  then show ?thesis using p unfolding demo_request_sel by blast
qed

end
