(* ===== verification/Decimal.thy ===== *)
theory Decimal
  imports Go_Base "HOL-Library.Signed_Division"
begin

text \<open>
  Decimal numbers with 18 places, \<open>numeric/decimal.go\<close>: an integer that counts units of
  \<open>10^-18\<close>, behind a pointer that may be nil. Every operation on a nil pointer panics (None), and so
  does a result of more than 315 bits. Integers divide towards zero (\<open>sdiv\<close>), and dividing by
  zero panics.
\<close>

section \<open>Representation\<close>

type_synonym Dec = "int option"

definition Precision :: nat where
  "Precision = 18"

definition DecimalPrecisionBits :: nat where
  "DecimalPrecisionBits = 60"

definition precisionReuse :: int where
  "precisionReuse = 10 ^ Precision"

definition fivePrecision :: int where
  "fivePrecision = precisionReuse sdiv 2"

text \<open>\<open>BitLen\<close> of a big integer: the length of its absolute value in binary.\<close>

fun bitlen :: "nat \<Rightarrow> nat" where
  "bitlen n = (if n = 0 then 0 else Suc (bitlen (n div 2)))"

declare bitlen.simps [simp del]

definition BitLen :: "int \<Rightarrow> nat" where
  "BitLen x = bitlen (nat \<bar>x\<bar>)"

definition dec_check :: "int \<Rightarrow> Dec option" where
  "dec_check res = (if BitLen res > 255 + DecimalPrecisionBits then None else Some (Some res))"

definition ZeroDec :: Dec where
  "ZeroDec = Some 0"

definition OneDec :: Dec where
  "OneDec = Some precisionReuse"

definition SmallestDec :: Dec where
  "SmallestDec = Some 1"

definition calcPrecisionMultiplier :: "int \<Rightarrow> int option" where
  "calcPrecisionMultiplier prec = (if prec > int Precision then None else Some (10 ^ nat (int Precision - prec)))"

text \<open>The table of multipliers; an index outside of it panics.\<close>

definition precisionMultiplier :: "int \<Rightarrow> int option" where
  "precisionMultiplier prec =
     (if prec > int Precision then None else if prec < 0 then None else calcPrecisionMultiplier prec)"

definition NewDecWithPrec :: "int \<Rightarrow> int \<Rightarrow> Dec option" where
  "NewDecWithPrec i prec = map_option (\<lambda>m. Some (i * m)) (precisionMultiplier prec)"

definition NewDec :: "int \<Rightarrow> Dec option" where
  "NewDec i = NewDecWithPrec i 0"

definition NewDecFromBigIntWithPrec :: "int option \<Rightarrow> int \<Rightarrow> Dec option" where
  "NewDecFromBigIntWithPrec i prec =
     (case (i, precisionMultiplier prec) of (Some i, Some m) \<Rightarrow> Some (Some (i * m)) | _ \<Rightarrow> None)"

definition NewDecFromBigInt :: "int option \<Rightarrow> Dec option" where
  "NewDecFromBigInt i = NewDecFromBigIntWithPrec i 0"

definition NewDecFromIntWithPrec :: "int option \<Rightarrow> int \<Rightarrow> Dec option" where
  "NewDecFromIntWithPrec i prec =
     (case (i, precisionMultiplier prec) of (Some i, Some m) \<Rightarrow> Some (Some (i * m)) | _ \<Rightarrow> None)"

definition NewDecFromInt :: "int option \<Rightarrow> Dec option" where
  "NewDecFromInt i = NewDecFromIntWithPrec i 0"

section \<open>Rounding\<close>

definition chopPrecisionAndTruncate :: "int \<Rightarrow> int" where
  "chopPrecisionAndTruncate d = d sdiv precisionReuse"

text \<open>A non-negative number; the code calls itself once for a negative one.\<close>

definition chop_round_nonneg :: "int \<Rightarrow> int" where
  "chop_round_nonneg d =
     (let quo = d sdiv precisionReuse; rem = d smod precisionReuse
      in if rem = 0 then quo
         else if rem < fivePrecision then quo
         else if rem > fivePrecision then quo + 1
         else if even quo then quo else quo + 1)"

definition chopPrecisionAndRound :: "int \<Rightarrow> int" where
  "chopPrecisionAndRound d = (if d < 0 then - chop_round_nonneg (- d) else chop_round_nonneg d)"

definition chopPrecisionAndRoundUp :: "int \<Rightarrow> int" where
  "chopPrecisionAndRoundUp d =
     (if d < 0 then - chopPrecisionAndTruncate (- d)
      else let quo = d sdiv precisionReuse; rem = d smod precisionReuse
           in if rem = 0 then quo else quo + 1)"

section \<open>Arithmetic\<close>

definition dec_lift2 :: "(int \<Rightarrow> int \<Rightarrow> 'a option) \<Rightarrow> Dec \<Rightarrow> Dec \<Rightarrow> 'a option" where
  "dec_lift2 f d d2 = (case (d, d2) of (Some a, Some b) \<Rightarrow> f a b | _ \<Rightarrow> None)"

text \<open>The comparisons call \<open>big.Int.Cmp\<close>, which compares the two pointers first: two nil decimals
  compare as equal, and one nil decimal is dereferenced.\<close>

definition dec_cmp :: "(int \<Rightarrow> int \<Rightarrow> bool) \<Rightarrow> Dec \<Rightarrow> Dec \<Rightarrow> bool option" where
  "dec_cmp r d d2 = (case (d, d2) of (None, None) \<Rightarrow> Some (r 0 0) | (Some a, Some b) \<Rightarrow> Some (r a b) | _ \<Rightarrow> None)"

definition dec_Copy :: "Dec \<Rightarrow> Dec" where
  "dec_Copy d = d"

definition dec_IsNil :: "Dec \<Rightarrow> bool" where
  "dec_IsNil d = (d = None)"

definition dec_IsZero :: "Dec \<Rightarrow> bool option" where
  "dec_IsZero d = map_option (\<lambda>x. x = 0) d"

definition dec_IsNegative :: "Dec \<Rightarrow> bool option" where
  "dec_IsNegative d = map_option (\<lambda>x. x < 0) d"

definition dec_IsPositive :: "Dec \<Rightarrow> bool option" where
  "dec_IsPositive d = map_option (\<lambda>x. 0 < x) d"

definition dec_Equal :: "Dec \<Rightarrow> Dec \<Rightarrow> bool option" where
  "dec_Equal = dec_cmp (\<lambda>a b. a = b)"

definition dec_GT :: "Dec \<Rightarrow> Dec \<Rightarrow> bool option" where
  "dec_GT = dec_cmp (\<lambda>a b. a > b)"

definition dec_GTE :: "Dec \<Rightarrow> Dec \<Rightarrow> bool option" where
  "dec_GTE = dec_cmp (\<lambda>a b. a \<ge> b)"

definition dec_LT :: "Dec \<Rightarrow> Dec \<Rightarrow> bool option" where
  "dec_LT = dec_cmp (\<lambda>a b. a < b)"

definition dec_LTE :: "Dec \<Rightarrow> Dec \<Rightarrow> bool option" where
  "dec_LTE = dec_cmp (\<lambda>a b. a \<le> b)"

definition dec_Neg :: "Dec \<Rightarrow> Dec option" where
  "dec_Neg d = map_option (\<lambda>x. Some (- x)) d"

definition dec_Abs :: "Dec \<Rightarrow> Dec option" where
  "dec_Abs d = map_option (\<lambda>x. Some \<bar>x\<bar>) d"

definition dec_Add :: "Dec \<Rightarrow> Dec \<Rightarrow> Dec option" where
  "dec_Add = dec_lift2 (\<lambda>a b. dec_check (a + b))"

definition dec_Sub :: "Dec \<Rightarrow> Dec \<Rightarrow> Dec option" where
  "dec_Sub = dec_lift2 (\<lambda>a b. dec_check (a - b))"

definition dec_Mul :: "Dec \<Rightarrow> Dec \<Rightarrow> Dec option" where
  "dec_Mul = dec_lift2 (\<lambda>a b. dec_check (chopPrecisionAndRound (a * b)))"

definition dec_MulTruncate :: "Dec \<Rightarrow> Dec \<Rightarrow> Dec option" where
  "dec_MulTruncate = dec_lift2 (\<lambda>a b. dec_check (chopPrecisionAndTruncate (a * b)))"

definition dec_MulInt :: "Dec \<Rightarrow> int option \<Rightarrow> Dec option" where
  "dec_MulInt = dec_lift2 (\<lambda>a i. dec_check (a * i))"

definition dec_MulInt64 :: "Dec \<Rightarrow> 64 word \<Rightarrow> Dec option" where
  "dec_MulInt64 d i = dec_lift2 (\<lambda>a i. dec_check (a * i)) d (Some (sint i))"

text \<open>The three quotients: two times the precision, divide, chop one precision.\<close>

definition dec_Quo :: "Dec \<Rightarrow> Dec \<Rightarrow> Dec option" where
  "dec_Quo = dec_lift2 (\<lambda>a b. if b = 0 then None
     else dec_check (chopPrecisionAndRound ((a * precisionReuse * precisionReuse) sdiv b)))"

definition dec_QuoTruncate :: "Dec \<Rightarrow> Dec \<Rightarrow> Dec option" where
  "dec_QuoTruncate = dec_lift2 (\<lambda>a b. if b = 0 then None
     else dec_check (chopPrecisionAndTruncate ((a * precisionReuse * precisionReuse) sdiv b)))"

definition dec_QuoRoundUp :: "Dec \<Rightarrow> Dec \<Rightarrow> Dec option" where
  "dec_QuoRoundUp = dec_lift2 (\<lambda>a b. if b = 0 then None
     else dec_check (chopPrecisionAndRoundUp ((a * precisionReuse * precisionReuse) sdiv b)))"

definition dec_QuoInt :: "Dec \<Rightarrow> int option \<Rightarrow> Dec option" where
  "dec_QuoInt = dec_lift2 (\<lambda>a i. if i = 0 then None else Some (Some (a sdiv i)))"

definition dec_QuoInt64 :: "Dec \<Rightarrow> 64 word \<Rightarrow> Dec option" where
  "dec_QuoInt64 d i = dec_lift2 (\<lambda>a i. if i = 0 then None else Some (Some (a sdiv i))) d (Some (sint i))"

definition dec_IsInteger :: "Dec \<Rightarrow> bool option" where
  "dec_IsInteger d = map_option (\<lambda>x. x smod precisionReuse = 0) d"

section \<open>Conversion to integers\<close>

definition IsInt64 :: "int \<Rightarrow> bool" where
  "IsInt64 x \<longleftrightarrow> - (2 ^ 63) \<le> x \<and> x < 2 ^ 63"

definition dec_RoundInt :: "Dec \<Rightarrow> int option" where
  "dec_RoundInt d = map_option chopPrecisionAndRound d"

definition dec_RoundInt64 :: "Dec \<Rightarrow> 64 word option" where
  "dec_RoundInt64 d = Option.bind (dec_RoundInt d) (\<lambda>c. if IsInt64 c then Some (word_of_int c) else None)"

definition dec_TruncateInt :: "Dec \<Rightarrow> int option" where
  "dec_TruncateInt d = map_option chopPrecisionAndTruncate d"

definition dec_TruncateInt64 :: "Dec \<Rightarrow> 64 word option" where
  "dec_TruncateInt64 d = Option.bind (dec_TruncateInt d) (\<lambda>c. if IsInt64 c then Some (word_of_int c) else None)"

definition dec_TruncateDec :: "Dec \<Rightarrow> Dec option" where
  "dec_TruncateDec d = Option.bind (dec_TruncateInt d) (\<lambda>c. NewDecFromBigInt (Some c))"

definition dec_Ceil :: "Dec \<Rightarrow> Dec option" where
  "dec_Ceil d = Option.bind d (\<lambda>x.
     let quo = x sdiv precisionReuse; rem = x smod precisionReuse
     in if rem = 0 then NewDecFromBigInt (Some quo)
        else if rem < 0 then NewDecFromBigInt (Some quo)
        else NewDecFromBigInt (Some (quo + 1)))"

fun DecsEqual_loop :: "Dec list \<Rightarrow> Dec list \<Rightarrow> bool option" where
  "DecsEqual_loop (d1 # d1s) (d2 # d2s) =
     (case dec_Equal d1 d2 of None \<Rightarrow> None | Some e \<Rightarrow> if \<not> e then Some False else DecsEqual_loop d1s d2s)"
| "DecsEqual_loop d1s d2s = Some True"

definition DecsEqual :: "Dec list \<Rightarrow> Dec list \<Rightarrow> bool option" where
  "DecsEqual d1s d2s = (if length d1s \<noteq> length d2s then Some False else DecsEqual_loop d1s d2s)"

definition MinDec :: "Dec \<Rightarrow> Dec \<Rightarrow> Dec option" where
  "MinDec d1 d2 = map_option (\<lambda>lt. if lt then d1 else d2) (dec_LT d1 d2)"

definition MaxDec :: "Dec \<Rightarrow> Dec \<Rightarrow> Dec option" where
  "MaxDec d1 d2 = map_option (\<lambda>lt. if lt then d2 else d1) (dec_LT d1 d2)"

section \<open>Strings\<close>

text \<open>Decimal digits of a natural number, as \<open>big.Int\<close> prints them, and \<open>SetString\<close> in base ten: an
  optional sign and at least one digit.\<close>

definition digit_char :: "nat \<Rightarrow> char" where
  "digit_char n = char_of (48 + n)"

definition char_digit :: "char \<Rightarrow> nat option" where
  "char_digit c = (let n = of_char c in if 48 \<le> n \<and> n \<le> 57 then Some (n - 48) else None)"

fun nat_text :: "nat \<Rightarrow> string" where
  "nat_text n = (if n < 10 then [digit_char n] else nat_text (n div 10) @ [digit_char (n mod 10)])"

declare nat_text.simps [simp del]

fun text_nat :: "nat \<Rightarrow> string \<Rightarrow> nat option" where
  "text_nat acc [] = Some acc"
| "text_nat acc (c # cs) = (case char_digit c of None \<Rightarrow> None | Some d \<Rightarrow> text_nat (10 * acc + d) cs)"

definition text_digits :: "string \<Rightarrow> nat option" where
  "text_digits s = (if s = [] then None else text_nat 0 s)"

definition SetString :: "string \<Rightarrow> int option" where
  "SetString s = (case s of
      [] \<Rightarrow> None
    | c # cs \<Rightarrow> if c = CHR ''-'' then map_option (\<lambda>n. - int n) (text_digits cs)
                else if c = CHR ''+'' then map_option int (text_digits cs)
                else map_option int (text_digits s))"

text \<open>\<open>strings.Split\<close> at a character.\<close>

fun split_at :: "char \<Rightarrow> string \<Rightarrow> string list" where
  "split_at c [] = [[]]"
| "split_at c (x # xs) =
     (if x = c then [] # split_at c xs
      else case split_at c xs of [] \<Rightarrow> [[x]] | s # ss \<Rightarrow> (x # s) # ss)"

definition errDecEmpty :: error where "errDecEmpty = ''decimal string is empty''"

definition errDecLength :: error where "errDecLength = ''bad decimal length''"

definition errDecPeriods :: error where "errDecPeriods = ''too many periods to be a decimal string''"

definition errDecPrecision :: error where "errDecPrecision = ''too much precision''"

definition errDecConversion :: error where "errDecConversion = ''bad string to integer conversion''"

text \<open>The part after the sign.\<close>

definition dec_parse_unsigned :: "bool \<Rightarrow> string \<Rightarrow> error + Dec" where
  "dec_parse_unsigned neg str =
     (let finish = (\<lambda>combinedStr lenDecs.
            if lenDecs > Precision then Inl errDecPrecision
            else case SetString (combinedStr @ replicate (Precision - lenDecs) (CHR ''0'')) of
                   None \<Rightarrow> Inl errDecConversion
                 | Some combined \<Rightarrow> Inr (Some (if neg then - combined else combined)))
      in case split_at (CHR ''.'') str of
           [whole] \<Rightarrow> finish whole 0
         | [whole, decs] \<Rightarrow>
             if length decs = 0 \<or> length whole = 0 then Inl errDecLength
             else finish (whole @ decs) (length decs)
         | _ \<Rightarrow> Inl errDecPeriods)"

definition NewDecFromStr :: "string \<Rightarrow> error + Dec" where
  "NewDecFromStr str =
     (case str of
        [] \<Rightarrow> Inl errDecEmpty
      | c # cs \<Rightarrow>
          if c = CHR ''-'' then (if cs = [] then Inl errDecEmpty else dec_parse_unsigned True cs)
          else dec_parse_unsigned False str)"

definition MustNewDecFromStr :: "string \<Rightarrow> Dec option" where
  "MustNewDecFromStr s = (case NewDecFromStr s of Inl err \<Rightarrow> None | Inr dec \<Rightarrow> Some dec)"

definition dec_unsigned_text :: "string \<Rightarrow> string" where
  "dec_unsigned_text bzInt =
     (let inputSize = length bzInt
      in if inputSize \<le> Precision
         then [CHR ''0'', CHR ''.''] @ replicate (Precision - inputSize) (CHR ''0'') @ bzInt
         else let decPointPlace = inputSize - Precision
              in take decPointPlace bzInt @ [CHR ''.''] @ drop decPointPlace bzInt)"

definition dec_String :: "Dec \<Rightarrow> string" where
  "dec_String d = (case d of
      None \<Rightarrow> ''<nil>''
    | Some x \<Rightarrow>
        let bzStr = dec_unsigned_text (nat_text (nat \<bar>x\<bar>))
        in if x < 0 then CHR ''-'' # bzStr else bzStr)"

end
