(* ===== verification/Decimal_Props.thy ===== *)
theory Decimal_Props
  imports Decimal
begin

text \<open>
  Properties of the decimal numbers: multiplication rounds to the nearest, ties to even; the
  quotients; and that printing and parsing give the number back.
\<close>

section \<open>Bits and rounding\<close>

lemma bitlen_le: "bitlen n \<le> k \<longleftrightarrow> n < 2 ^ k"
proof (induction k arbitrary: n)
  case 0
  then show ?case by (subst bitlen.simps) simp
next
  case (Suc k)
  show ?case
  proof (cases "n = 0")
    case False
    then have "bitlen n \<le> Suc k \<longleftrightarrow> n div 2 < 2 ^ k" by (subst bitlen.simps) (simp add: Suc)
    also have "\<dots> \<longleftrightarrow> n < 2 ^ Suc k" by (simp add: less_mult_imp_div_less div_less_iff_less_mult mult.commute)
    finally show ?thesis .
  qed (simp add: bitlen.simps)
qed

text \<open>The largest magnitude that does not panic.\<close>

definition dec_limit :: int where
  "dec_limit = 2 ^ 315"

lemma dec_check_eq: "dec_check x = (if \<bar>x\<bar> < dec_limit then Some (Some x) else None)"
proof -
  have "BitLen x \<le> 315 \<longleftrightarrow> nat \<bar>x\<bar> < 2 ^ 315" unfolding BitLen_def by (rule bitlen_le)
  also have "\<dots> \<longleftrightarrow> \<bar>x\<bar> < dec_limit" by (simp add: nat_less_iff dec_limit_def)
  finally show ?thesis by (auto simp: dec_check_def DecimalPrecisionBits_def)
qed

lemma precision_pos [simp]: "0 < precisionReuse" and precision_nz [simp]: "precisionReuse \<noteq> 0"
  by (simp_all add: precisionReuse_def)

lemma precision_five: "precisionReuse = 2 * fivePrecision"
  by (simp add: precisionReuse_def fivePrecision_def Precision_def signed_divide_int_def)

lemma sdiv_nonneg: "0 \<le> a \<Longrightarrow> 0 < b \<Longrightarrow> a sdiv b = (a :: int) div b" "0 \<le> a \<Longrightarrow> 0 < b \<Longrightarrow> a smod b = a mod b"
  by (simp_all add: signed_divide_int_def signed_modulo_int_def sgn_if)

text \<open>\<open>r\<close> is \<open>d\<close> in units of \<open>10^18\<close>, rounded to the nearest, ties to even.\<close>

definition nearest_even :: "int \<Rightarrow> int \<Rightarrow> bool" where
  "nearest_even d r \<longleftrightarrow> 2 * \<bar>d - r * precisionReuse\<bar> \<le> precisionReuse
     \<and> (2 * \<bar>d - r * precisionReuse\<bar> = precisionReuse \<longrightarrow> even r)"

lemma nearest_even_uminus: "nearest_even (- d) (- r) = nearest_even d r"
proof -
  have "\<bar>- d - - r * precisionReuse\<bar> = \<bar>d - r * precisionReuse\<bar>" by (simp add: abs_minus_commute)
  then show ?thesis by (simp add: nearest_even_def)
qed

lemma nearest_even_cases:
  assumes "P = 2 * h" and "0 < P" and "0 \<le> r" and "r < P" and "d = q * P + (r :: int)"
    and "s = (if r < h \<or> r = h \<and> even q then q else q + 1)"
  shows "2 * \<bar>d - s * P\<bar> \<le> P \<and> (2 * \<bar>d - s * P\<bar> = P \<longrightarrow> even s)"
proof -
  have "d - s * P = (if r < h \<or> r = h \<and> even q then r else r - P)" using assms(5,6) by (simp add: distrib_right)
  then show ?thesis using assms(1-4,6) by (auto split: if_splits)
qed

lemma chop_round_nonneg_nearest:
  assumes d: "0 \<le> d"
  shows "nearest_even d (chop_round_nonneg d)"
proof -
  let ?P = precisionReuse let ?q = "d div ?P" let ?r = "d mod ?P"
  have five: "0 < fivePrecision" using precision_pos unfolding precision_five by simp
  have "chop_round_nonneg d = (if ?r < fivePrecision \<or> ?r = fivePrecision \<and> even ?q then ?q else ?q + 1)"
    unfolding chop_round_nonneg_def Let_def sdiv_nonneg [OF d precision_pos] using five by auto
  from nearest_even_cases [OF precision_five precision_pos _ _ _ this, of d] show ?thesis
    unfolding nearest_even_def by simp
qed

lemma chop_round_nearest: "nearest_even d (chopPrecisionAndRound d)"
  using chop_round_nonneg_nearest [of d] chop_round_nonneg_nearest [of "- d"]
    nearest_even_uminus [of d "- chop_round_nonneg (- d)"]
  by (auto simp: chopPrecisionAndRound_def)

lemma tight: "x \<le> a + b \<Longrightarrow> p \<le> x \<Longrightarrow> 2 * b \<le> p \<Longrightarrow> 2 * a \<le> p \<Longrightarrow> 2 * b = p \<and> 2 * a = p \<and> x \<le> (p :: int)"
  by linarith

lemma nearest_even_unique:
  assumes "nearest_even d r" and "nearest_even d s"
  shows "r = s"
proof (rule ccontr)
  assume ne: "r \<noteq> s"
  let ?P = precisionReuse
  have "(r - s) * ?P = (d - s * ?P) - (d - r * ?P)" by (simp add: algebra_simps)
  then have "\<bar>r - s\<bar> * ?P \<le> \<bar>d - s * ?P\<bar> + \<bar>d - r * ?P\<bar>"
    using abs_triangle_ineq4 [of "d - s * ?P" "d - r * ?P"] by (simp add: abs_mult)
  moreover have "?P \<le> \<bar>r - s\<bar> * ?P" using ne by simp
  moreover have "2 * \<bar>d - r * ?P\<bar> \<le> ?P" "2 * \<bar>d - s * ?P\<bar> \<le> ?P" using assms by (simp_all add: nearest_even_def)
  ultimately have t: "2 * \<bar>d - r * ?P\<bar> = ?P" "2 * \<bar>d - s * ?P\<bar> = ?P" "\<bar>r - s\<bar> * ?P \<le> 1 * ?P"
    using tight [of "\<bar>r - s\<bar> * ?P" "\<bar>d - s * ?P\<bar>" "\<bar>d - r * ?P\<bar>" ?P] by simp_all
  then have "even r" "even s" using assms by (simp_all add: nearest_even_def)
  moreover have "\<bar>r - s\<bar> \<le> 1" using t(3) unfolding mult_le_cancel_right by simp
  ultimately show False using ne by presburger
qed

text \<open>(C29) Multiplication of decimals: there is exactly one number of units that is nearest to the
  exact product, taking the even one on a tie. The result is that number, and the code panics exactly
  when it does not fit into 315 bits.\<close>

theorem dec_mul_nearest:
  "(\<exists>!r. nearest_even (a * b) r)
    \<and> (nearest_even (a * b) r \<longrightarrow> dec_Mul (Some a) (Some b) = (if \<bar>r\<bar> < dec_limit then Some (Some r) else None))"
proof -
  have "r = chopPrecisionAndRound (a * b)" if "nearest_even (a * b) r"
    using nearest_even_unique [OF that chop_round_nearest] .
  then have "dec_Mul (Some a) (Some b) = (if \<bar>r\<bar> < dec_limit then Some (Some r) else None)" if "nearest_even (a * b) r"
    using that by (simp add: dec_Mul_def dec_lift2_def dec_check_eq)
  moreover have "\<exists>!r. nearest_even (a * b) r" using chop_round_nearest nearest_even_unique by blast
  ultimately show ?thesis by blast
qed

section \<open>Quotients\<close>

text \<open>The quotients of a non-negative decimal by a positive one. \<open>QuoTruncate\<close> is the exact quotient
  rounded down. \<open>QuoRoundUp\<close> adds one only when the quotient at double precision has a
  remainder: what the division at double precision itself cuts off is lost, and then
  the result is below the exact quotient.\<close>

lemma dec_quotients:
  assumes "0 \<le> a" and "0 < b" and "(a * precisionReuse) div b + 1 < dec_limit"
  shows "dec_QuoTruncate (Some a) (Some b) = Some (Some ((a * precisionReuse) div b))
    \<and> dec_QuoRoundUp (Some a) (Some b) =
        Some (Some ((a * precisionReuse) div b + (if precisionReuse dvd (a * precisionReuse * precisionReuse) div b then 0 else 1)))"
proof -
  let ?P = precisionReuse
  have p: "0 \<le> ?P" using precision_pos by (rule less_imp_le)
  have pos: "0 \<le> a * ?P" using assms(1) p by (rule mult_nonneg_nonneg)
  then have "0 \<le> a * ?P * ?P" using p by (rule mult_nonneg_nonneg)
  then have s: "(a * ?P * ?P) sdiv b = (a * ?P * ?P) div b" "0 \<le> (a * ?P * ?P) div b"
    using assms(2) by (simp_all add: sdiv_nonneg pos_imp_zdiv_nonneg_iff)
  have "((a * ?P * ?P) div b) div ?P = (a * ?P * ?P) div (b * ?P)" using zdiv_zmult2_eq [OF p, of "a * ?P * ?P" b] by simp
  also have "\<dots> = (a * ?P) div b" by (intro div_mult_mult2) simp
  finally have d: "((a * ?P * ?P) div b) div ?P = (a * ?P) div b" .
  have "0 \<le> (a * ?P) div b" using pos assms(2) by (simp add: pos_imp_zdiv_nonneg_iff)
  with assms s d show ?thesis
    by (auto simp: dec_QuoTruncate_def dec_QuoRoundUp_def dec_lift2_def dec_check_eq chopPrecisionAndTruncate_def
        chopPrecisionAndRoundUp_def Let_def sdiv_nonneg dvd_eq_mod_eq_0)
qed

section \<open>Printing and parsing\<close>

lemma char_digit_char: "n < 10 \<Longrightarrow> char_digit (digit_char n) = Some n"
  by (simp add: char_digit_def digit_char_def)

lemma char_digit_zero: "char_digit (CHR ''0'') = Some 0"
  by (simp add: char_digit_def)

text \<open>Strings of digits.\<close>

definition digits :: "string \<Rightarrow> bool" where
  "digits s \<longleftrightarrow> list_all (\<lambda>c. char_digit c \<noteq> None) s"

lemma digits_not [simp]: "digits s \<Longrightarrow> CHR ''.'' \<notin> set s" "digits s \<Longrightarrow> CHR ''-'' \<notin> set s" "digits s \<Longrightarrow> CHR ''+'' \<notin> set s"
  by (auto simp: digits_def list_all_iff char_digit_def)

lemma digits_append [simp]: "digits (s @ t) \<longleftrightarrow> digits s \<and> digits t" "digits (c # s) \<longleftrightarrow> char_digit c \<noteq> None \<and> digits s"
  "digits []" "digits (replicate k (CHR ''0''))"
  by (auto simp: digits_def list_all_iff char_digit_zero)

lemma digits_take_drop: "digits s \<Longrightarrow> digits (take k s) \<and> digits (drop k s)"
  by (auto simp: digits_def list_all_iff dest: in_set_takeD in_set_dropD)

lemma digits_nat_text: "digits (nat_text n)"
proof (induction n rule: nat_text.induct)
  case (1 n)
  then show ?case
    by (cases "n < 10") (subst nat_text.simps; simp add: char_digit_char)+
qed

lemma text_nat_append: "text_nat acc (s @ t) = Option.bind (text_nat acc s) (\<lambda>n. text_nat n t)"
  by (induction s arbitrary: acc) (auto split: option.split)

lemma text_nat_zeros: "text_nat acc (replicate k (CHR ''0'')) = Some (acc * 10 ^ k)"
  by (induction k arbitrary: acc) (simp_all add: char_digit_zero)

lemma text_nat_nat_text: "\<exists>k. \<forall>acc. text_nat acc (nat_text n) = Some (acc * 10 ^ k + n)"
proof (induction n rule: nat_text.induct)
  case (1 n)
  show ?case
  proof (cases "n < 10")
    case True
    then have "text_nat acc (nat_text n) = Some (acc * 10 ^ 1 + n)" for acc
      by (subst nat_text.simps) (simp add: char_digit_char)
    then show ?thesis by blast
  next
    case False
    then obtain k where "\<forall>acc. text_nat acc (nat_text (n div 10)) = Some (acc * 10 ^ k + n div 10)" using 1 by blast
    then have "text_nat acc (nat_text n) = Some (acc * 10 ^ Suc k + n)" for acc
      using False by (subst nat_text.simps) (simp add: text_nat_append char_digit_char)
    then show ?thesis by blast
  qed
qed

lemma text_nat_zero_nat_text: "text_nat 0 (nat_text n) = Some n"
  using text_nat_nat_text [of n] by fastforce

lemma SetString_digits: "digits s \<Longrightarrow> s \<noteq> [] \<Longrightarrow> SetString s = map_option int (text_nat 0 s)"
  using digits_not [of s] by (cases s) (auto simp: SetString_def text_digits_def simp del: digits_append digits_not)

lemma split_at_none: "c \<notin> set s \<Longrightarrow> split_at c s = [s]"
  by (induction s) auto

lemma split_at_one: "c \<notin> set s \<Longrightarrow> c \<notin> set t \<Longrightarrow> split_at c (s @ c # t) = [s, t]"
  by (induction s) (auto simp: split_at_none)

lemma dec_parse_places:
  assumes "digits s" and "digits t" and "s \<noteq> []" and "length t = Precision" and "text_nat 0 (s @ t) = Some n"
  shows "dec_parse_unsigned neg (s @ CHR ''.'' # t) = Inr (Some (if neg then - int n else int n))"
proof -
  have "SetString (s @ t) = Some (int n)" using assms by (simp add: SetString_digits)
  with assms show ?thesis
    by (auto simp: dec_parse_unsigned_def split_at_one Precision_def)
qed

lemma dec_parse_unsigned_text:
  "dec_parse_unsigned neg (dec_unsigned_text (nat_text n)) = Inr (Some (if neg then - int n else int n))"
proof (cases "length (nat_text n) \<le> Precision")
  case True
  let ?t = "replicate (Precision - length (nat_text n)) (CHR ''0'') @ nat_text n"
  have "dec_unsigned_text (nat_text n) = [CHR ''0''] @ CHR ''.'' # ?t" using True by (simp add: dec_unsigned_text_def Let_def)
  moreover have "text_nat 0 ([CHR ''0''] @ ?t) = Some n"
    by (simp add: char_digit_zero text_nat_append text_nat_zeros text_nat_zero_nat_text)
  ultimately show ?thesis
    using True dec_parse_places [of "[CHR ''0'']" ?t n neg] by (simp add: char_digit_zero digits_nat_text)
next
  case False
  let ?k = "length (nat_text n) - Precision"
  have "dec_unsigned_text (nat_text n) = take ?k (nat_text n) @ CHR ''.'' # drop ?k (nat_text n)"
    using False by (simp add: dec_unsigned_text_def Let_def)
  moreover have "take ?k (nat_text n) \<noteq> []" "length (drop ?k (nat_text n)) = Precision" using False by (auto simp: Precision_def)
  ultimately show ?thesis
    using dec_parse_places [of "take ?k (nat_text n)" "drop ?k (nat_text n)" n neg] digits_take_drop [OF digits_nat_text, of ?k n]
    by (simp add: text_nat_zero_nat_text)
qed

lemma dec_unsigned_text_head: "\<exists>c s. dec_unsigned_text (nat_text n) = c # s \<and> c \<noteq> CHR ''-''"
proof (cases "length (nat_text n) \<le> Precision")
  case False
  then obtain c s where "take (length (nat_text n) - Precision) (nat_text n) = c # s"
    by (cases "take (length (nat_text n) - Precision) (nat_text n)") (auto simp: Precision_def)
  moreover from this have "c \<noteq> CHR ''-''"
    using digits_take_drop [OF digits_nat_text, of "length (nat_text n) - Precision" n] by (auto simp: char_digit_def)
  ultimately show ?thesis using False by (simp add: dec_unsigned_text_def Let_def)
qed (simp add: dec_unsigned_text_def Let_def)

text \<open>(C30) Parsing what \<open>String\<close> prints gives the decimal back, for every decimal, negative ones and
  those below one included.\<close>

theorem dec_string_roundtrip: "NewDecFromStr (dec_String (Some x)) = Inr (Some x)"
proof -
  obtain c s where cs: "dec_unsigned_text (nat_text (nat \<bar>x\<bar>)) = c # s" "c \<noteq> CHR ''-''"
    using dec_unsigned_text_head by blast
  show ?thesis
  proof (cases "x < 0")
    case True
    then show ?thesis using cs dec_parse_unsigned_text [of True "nat \<bar>x\<bar>"] by (simp add: dec_String_def NewDecFromStr_def)
  next
    case False
    then show ?thesis using cs dec_parse_unsigned_text [of False "nat \<bar>x\<bar>"] by (simp add: dec_String_def NewDecFromStr_def)
  qed
qed

section \<open>Concrete numbers\<close>

theorem dec_mul_nearest_witness: "dec_Mul (Some 3) (Some 500000000000000000) = Some (Some 2)"
  using dec_mul_nearest [of 3 500000000000000000 2]
  by (simp add: nearest_even_def precisionReuse_def Precision_def dec_limit_def)

lemma dec_quotients_example:
  "dec_QuoRoundUp (Some 1) (Some 3) = Some (Some 333333333333333334)
    \<and> dec_QuoRoundUp (Some 1) (Some (10 ^ 37)) = Some (Some 0)"
  using dec_quotients [of 1 3] dec_quotients [of 1 "10 ^ 37"]
  by (simp add: precisionReuse_def Precision_def dec_limit_def dvd_eq_mod_eq_0)

end
