(* ===== verification/Go_Result.thy ===== *)
theory Go_Result
  imports Go_Base
begin

text \<open>
  Code that changes a state, returns early with an error, and may panic: a computation takes the
  state and gives \<open>None\<close> for a panic, otherwise the error or the value together with the state at
  that point. A Go function that returns \<open>(value, err)\<close> is such a computation.
\<close>

type_synonym ('s, 'a) go = "'s \<Rightarrow> ((error + 'a) \<times> 's) option"

definition go_return :: "'a \<Rightarrow> ('s, 'a) go" where
  "go_return x s = Some (Inr x, s)"

definition go_fail :: "error \<Rightarrow> ('s, 'a) go" where
  "go_fail e s = Some (Inl e, s)"

definition go_bind :: "('s, 'a) go \<Rightarrow> ('a \<Rightarrow> ('s, 'b) go) \<Rightarrow> ('s, 'b) go" where
  "go_bind m k s =
     (case m s of
        None \<Rightarrow> None
      | Some (Inl e, s') \<Rightarrow> Some (Inl e, s')
      | Some (Inr x, s') \<Rightarrow> k x s')"

text \<open>\<open>if !b { return err }\<close>, \<open>if err != nil { return err }\<close>, and a call whose result is an error
  only.\<close>

definition go_check :: "bool \<Rightarrow> error \<Rightarrow> ('s, 'a) go \<Rightarrow> ('s, 'a) go" where
  "go_check b e k = (if b then k else go_fail e)"

definition go_try :: "error option \<Rightarrow> ('s, 'a) go \<Rightarrow> ('s, 'a) go" where
  "go_try r k = (case r of None \<Rightarrow> k | Some e \<Rightarrow> go_fail e)"

definition go_opt :: "'b option \<Rightarrow> ('b \<Rightarrow> ('s, 'a) go) \<Rightarrow> ('s, 'a) go" where
  "go_opt r k s = (case r of None \<Rightarrow> None | Some x \<Rightarrow> k x s)"

definition go_sum :: "error + 'b \<Rightarrow> ('b \<Rightarrow> ('s, 'a) go) \<Rightarrow> ('s, 'a) go" where
  "go_sum r k = (case r of Inl e \<Rightarrow> go_fail e | Inr x \<Rightarrow> k x)"

text \<open>Calls of methods that read the state, update it, may panic, or return an error.\<close>

definition go_get :: "('s \<Rightarrow> 'b \<times> 's) \<Rightarrow> ('b \<Rightarrow> ('s, 'a) go) \<Rightarrow> ('s, 'a) go" where
  "go_get f k s = (case f s of (x, s') \<Rightarrow> k x s')"

definition go_get_opt :: "('s \<Rightarrow> ('b \<times> 's) option) \<Rightarrow> ('b \<Rightarrow> ('s, 'a) go) \<Rightarrow> ('s, 'a) go" where
  "go_get_opt f k s = (case f s of None \<Rightarrow> None | Some (x, s') \<Rightarrow> k x s')"

definition go_do :: "('s \<Rightarrow> 's) \<Rightarrow> ('s, 'a) go \<Rightarrow> ('s, 'a) go" where
  "go_do f k s = k (f s)"

definition go_do_opt :: "('s \<Rightarrow> 's option) \<Rightarrow> ('s, 'a) go \<Rightarrow> ('s, 'a) go" where
  "go_do_opt f k s = (case f s of None \<Rightarrow> None | Some s' \<Rightarrow> k s')"

definition go_call :: "('s \<Rightarrow> (error + 'b) \<times> 's) \<Rightarrow> ('b \<Rightarrow> ('s, 'a) go) \<Rightarrow> ('s, 'a) go" where
  "go_call f k s = (case f s of (Inl e, s') \<Rightarrow> Some (Inl e, s') | (Inr x, s') \<Rightarrow> k x s')"

definition go_call_err :: "('s \<Rightarrow> error option \<times> 's) \<Rightarrow> ('s, 'a) go \<Rightarrow> ('s, 'a) go" where
  "go_call_err f k s = (case f s of (Some e, s') \<Rightarrow> Some (Inl e, s') | (None, s') \<Rightarrow> k s')"

text \<open>A \<open>range\<close> loop with an accumulator whose body may return from the function.\<close>

fun go_fold :: "('x \<Rightarrow> 'a \<Rightarrow> ('s, 'a) go) \<Rightarrow> 'x list \<Rightarrow> 'a \<Rightarrow> ('s, 'a) go" where
  "go_fold f [] a = go_return a"
| "go_fold f (x # xs) a = go_bind (f x a) (go_fold f xs)"

named_theorems go_ok \<open>when a computation gives a value\<close>

lemma go_return_ok [go_ok]: "go_return x s = Some (Inr y, s') \<longleftrightarrow> y = x \<and> s' = s"
  by (auto simp: go_return_def)

lemma go_fail_ok [go_ok]: "go_fail e s = Some (Inr y, s') \<longleftrightarrow> False"
  by (simp add: go_fail_def)

lemma go_bind_ok [go_ok]:
  "go_bind m k s = Some (Inr y, s'') \<longleftrightarrow> (\<exists>x s'. m s = Some (Inr x, s') \<and> k x s' = Some (Inr y, s''))"
  by (auto simp: go_bind_def split: option.split sum.split)

lemma go_check_ok [go_ok]: "go_check b e k s = Some (Inr y, s') \<longleftrightarrow> b \<and> k s = Some (Inr y, s')"
  by (simp add: go_check_def go_fail_def)

lemma go_try_ok [go_ok]: "go_try r k s = Some (Inr y, s') \<longleftrightarrow> r = None \<and> k s = Some (Inr y, s')"
  by (auto simp: go_try_def go_fail_def split: option.split)

lemma go_opt_ok [go_ok]: "go_opt r k s = Some (Inr y, s') \<longleftrightarrow> (\<exists>x. r = Some x \<and> k x s = Some (Inr y, s'))"
  by (auto simp: go_opt_def split: option.split)

lemma go_sum_ok [go_ok]: "go_sum r k s = Some (Inr y, s') \<longleftrightarrow> (\<exists>x. r = Inr x \<and> k x s = Some (Inr y, s'))"
  by (auto simp: go_sum_def go_fail_def split: sum.split)

lemma go_get_ok [go_ok]:
  "go_get f k s = Some (Inr y, s'') \<longleftrightarrow> (\<exists>x s'. f s = (x, s') \<and> k x s' = Some (Inr y, s''))"
  by (simp add: go_get_def split: prod.split)

lemma go_get_opt_ok [go_ok]:
  "go_get_opt f k s = Some (Inr y, s'') \<longleftrightarrow> (\<exists>x s'. f s = Some (x, s') \<and> k x s' = Some (Inr y, s''))"
  by (auto simp: go_get_opt_def split: option.split)

lemma go_do_ok [go_ok]: "go_do f k s = Some (Inr y, s') \<longleftrightarrow> k (f s) = Some (Inr y, s')"
  by (simp add: go_do_def)

lemma go_do_opt_ok [go_ok]:
  "go_do_opt f k s = Some (Inr y, s'') \<longleftrightarrow> (\<exists>s'. f s = Some s' \<and> k s' = Some (Inr y, s''))"
  by (auto simp: go_do_opt_def split: option.split)

lemma go_call_ok [go_ok]:
  "go_call f k s = Some (Inr y, s'') \<longleftrightarrow> (\<exists>x s'. f s = (Inr x, s') \<and> k x s' = Some (Inr y, s''))"
  by (auto simp: go_call_def split: prod.split sum.split)

lemma go_call_err_ok [go_ok]:
  "go_call_err f k s = Some (Inr y, s'') \<longleftrightarrow> (\<exists>s'. f s = (None, s') \<and> k s' = Some (Inr y, s''))"
  by (auto simp: go_call_err_def split: prod.split option.split)

lemma go_if_ok: "(if b then k else k') s = (if b then k s else k' s)"
  by simp

text \<open>An invariant of a loop that runs to its end.\<close>

lemma go_fold_inv:
  assumes "go_fold f xs a s = Some (Inr a', s')" and "P a s"
    and "\<And>x a s a' s'. x \<in> set xs \<Longrightarrow> P a s \<Longrightarrow> f x a s = Some (Inr a', s') \<Longrightarrow> P a' s'"
  shows "P a' s'"
  using assms
proof (induction xs arbitrary: a s)
  case (Cons x xs)
  then obtain a1 s1 where s1: "f x a s = Some (Inr a1, s1)" "go_fold f xs a1 s1 = Some (Inr a', s')"
    by (auto simp: go_ok)
  with Cons.prems have "P a1 s1" by (metis list.set_intros(1))
  with Cons.IH [OF s1(2)] Cons.prems(3) show ?case by (metis list.set_intros(2))
qed (simp add: go_ok)

text \<open>The same with the part of the list that has been visited.\<close>

lemma go_fold_prefix:
  assumes "go_fold f xs a s = Some (Inr a', s')" and "P [] a s"
    and "\<And>ys x zs a s a' s'. xs = ys @ x # zs \<Longrightarrow> P ys a s \<Longrightarrow> f x a s = Some (Inr a', s') \<Longrightarrow> P (ys @ [x]) a' s'"
  shows "P xs a' s'"
proof -
  have "P (ys @ xs') a' s'" if "xs = ys @ xs'" "P ys a s" "go_fold f xs' a s = Some (Inr a', s')" for xs' ys a s
    using that
  proof (induction xs' arbitrary: ys a s)
    case (Cons x xs')
    then obtain a1 s1 where s1: "f x a s = Some (Inr a1, s1)" "go_fold f xs' a1 s1 = Some (Inr a', s')"
      by (auto simp: go_ok)
    with assms(3) Cons.prems(1,2) have "P (ys @ [x]) a1 s1" by blast
    with Cons.IH [of "ys @ [x]" a1 s1] Cons.prems(1) s1(2) show ?case by simp
  qed (simp add: go_ok)
  from this [of "[]" xs a s] assms(1,2) show ?thesis by simp
qed

text \<open>Executing a computation.\<close>

lemmas go_exec = go_return_def go_fail_def go_bind_def go_check_def go_try_def go_opt_def go_sum_def go_get_def
  go_get_opt_def go_do_def go_do_opt_def go_call_def go_call_err_def

end
