(* ===== verification/Validator.thy ===== *)
theory Validator
  imports Decimal Go_Result State_Object "HOL-Library.Multiset"
begin

text \<open>
  Validators and the tokens delegated to them, \<open>staking/types/validator.go\<close>,
  \<open>staking/types/delegation.go\<close> and \<open>staking/types/commission.go\<close>, with the messages of
  \<open>staking/types/messages.go\<close>.

  Amounts, epochs and heights that RLP decodes are never nil and are integers here; the fields that
  the code tests for nil are options. A BLS key or signature is a byte string, an eligibility status
  a byte. An error is named by its cause, without the text that \<open>errors.Wrapf\<close> puts before it.
\<close>

section \<open>Data\<close>

type_synonym BLSKey = bytes
type_synonym BLSSig = bytes
type_synonym Eligibility = u8

definition EligNil :: Eligibility where "EligNil = 0"
definition Active :: Eligibility where "Active = 1"
definition Inactive :: Eligibility where "Inactive = 2"
definition Banned :: Eligibility where "Banned = 3"

record CommissionRates =
  Rate :: Dec
  MaxRate :: Dec
  MaxChangeRate :: Dec

record Commission = CommissionRates +
  UpdateHeight :: int

record Description =
  ds_Name :: string
  ds_Identity :: string
  ds_Website :: string
  ds_SecurityContact :: string
  ds_Details :: string

record Undelegation =
  ud_Amount :: int
  ud_Epoch :: int

record Delegation =
  dg_DelegatorAddress :: address
  dg_Amount :: int
  dg_Reward :: int
  dg_Undelegations :: "Undelegation list"

record DelegationIndex =
  di_ValidatorAddress :: address
  di_Index :: u64
  di_BlockNum :: int

record Validator =
  va_Address :: address
  va_SlotPubKeys :: "BLSKey list"
  va_LastEpochInCommittee :: int
  va_MinSelfDelegation :: "int option"
  va_MaxTotalDelegation :: "int option"
  va_Status :: Eligibility
  va_Commission :: Commission
  va_Description :: Description
  va_CreationHeight :: int

record counters =
  NumBlocksToSign :: int
  NumBlocksSigned :: int

record ValidatorWrapper =
  vw_Validator :: Validator
  vw_Delegations :: "Delegation list"
  vw_Counters :: counters
  vw_BlockReward :: int

abbreviation vw_Address :: "ValidatorWrapper \<Rightarrow> address" where
  "vw_Address w \<equiv> va_Address (vw_Validator w)"

section \<open>Messages\<close>

record CreateValidator =
  cv_ValidatorAddress :: address
  cv_Description :: Description
  cv_CommissionRates :: CommissionRates
  cv_MinSelfDelegation :: "int option"
  cv_MaxTotalDelegation :: "int option"
  cv_SlotPubKeys :: "BLSKey list"
  cv_SlotKeySigs :: "BLSSig list"
  cv_Amount :: int

record EditValidator =
  ev_ValidatorAddress :: address
  ev_Description :: Description
  ev_CommissionRate :: "Dec option"
  ev_MinSelfDelegation :: "int option"
  ev_MaxTotalDelegation :: "int option"
  ev_SlotKeyToRemove :: "BLSKey option"
  ev_SlotKeyToAdd :: "BLSKey option"
  ev_SlotKeyToAddSig :: "BLSSig option"
  ev_EPOSStatus :: Eligibility

record Delegate =
  de_DelegatorAddress :: address
  de_ValidatorAddress :: address
  de_Amount :: int

record Undelegate =
  un_DelegatorAddress :: address
  un_ValidatorAddress :: address
  un_Amount :: int

record CollectRewards =
  co_DelegatorAddress :: address

section \<open>Delegations\<close>

definition errInsufficientBalance :: error where
  "errInsufficientBalance = ''insufficient balance to undelegate''"

definition errInvalidAmount :: error where
  "errInvalidAmount = ''invalid amount, must be positive''"

definition NewDelegation :: "address \<Rightarrow> int \<Rightarrow> Delegation" where
  "NewDelegation delegatorAddr amount =
     \<lparr>dg_DelegatorAddress = delegatorAddr, dg_Amount = amount, dg_Reward = 0, dg_Undelegations = []\<rparr>"

text \<open>The first entry of the epoch takes the amount, if there is one.\<close>

fun add_to_entry :: "int \<Rightarrow> int \<Rightarrow> Undelegation list \<Rightarrow> Undelegation list option" where
  "add_to_entry epoch amt [] = None"
| "add_to_entry epoch amt (u # us) =
     (if ud_Epoch u = epoch then Some (u\<lparr>ud_Amount := ud_Amount u + amt\<rparr> # us)
      else map_option (\<lambda>us. u # us) (add_to_entry epoch amt us))"

definition dg_Undelegate :: "int \<Rightarrow> int \<Rightarrow> Delegation \<Rightarrow> error option \<times> Delegation" where
  "dg_Undelegate epoch amt d =
     (if amt \<le> 0 then (Some errInvalidAmount, d)
      else if dg_Amount d < amt then (Some errInsufficientBalance, d)
      else let d = d\<lparr>dg_Amount := dg_Amount d - amt\<rparr>
           in case add_to_entry epoch amt (dg_Undelegations d) of
                Some us \<Rightarrow> (None, d\<lparr>dg_Undelegations := us\<rparr>)
              | None \<Rightarrow>
                  (None, d\<lparr>dg_Undelegations :=
                     sort_key ud_Epoch (dg_Undelegations d @ [\<lparr>ud_Amount = amt, ud_Epoch = epoch\<rparr>])\<rparr>))"

definition TotalInUndelegation :: "Delegation \<Rightarrow> int" where
  "TotalInUndelegation d = foldl (\<lambda>total u. total + ud_Amount u) 0 (dg_Undelegations d)"

text \<open>\<open>DeleteEntry\<close> ranges over a slice while \<open>append(us[:i], us[i+1:]...)\<close> shifts the array under
  it. The array is passed along; its last cell keeps its value. The slice \<open>entries\<close> starts empty but
  not nil, so it is always stored.\<close>

fun delete_entry_loop :: "int \<Rightarrow> nat \<Rightarrow> nat list \<Rightarrow> Undelegation list \<Rightarrow> bool \<Rightarrow> Undelegation list \<times> bool" where
  "delete_entry_loop epoch n [] arr found = (arr, found)"
| "delete_entry_loop epoch n (i # is) arr found =
     (if ud_Epoch (arr ! i) = epoch
      then delete_entry_loop epoch n is (take i arr @ drop (Suc i) arr @ [last arr]) True
      else delete_entry_loop epoch n is arr found)"

definition dg_DeleteEntry :: "int \<Rightarrow> Delegation \<Rightarrow> Delegation" where
  "dg_DeleteEntry epoch d =
     (let n = length (dg_Undelegations d);
          (arr, found) = delete_entry_loop epoch n [0..<n] (dg_Undelegations d) False
      in d\<lparr>dg_Undelegations := (if found then take (n - 1) arr else [])\<rparr>)"

text \<open>\<open>big.Int.Int64\<close> takes the low 64 bits.\<close>

definition big_Int64 :: "int \<Rightarrow> int" where
  "big_Int64 i = sint (word_of_int i :: 64 word)"

definition undelegation_unlocked :: "int \<Rightarrow> int \<Rightarrow> int \<Rightarrow> bool \<Rightarrow> Undelegation \<Rightarrow> bool" where
  "undelegation_unlocked curEpoch lastEpochInCommittee lockPeriod noEarlyUnlock u \<longleftrightarrow>
     lockPeriod \<le> big_Int64 (curEpoch - ud_Epoch u) \<or>
     \<not> noEarlyUnlock \<and> lockPeriod \<le> big_Int64 (curEpoch - lastEpochInCommittee)"

fun remove_unlocked_loop :: "(Undelegation \<Rightarrow> bool) \<Rightarrow> Undelegation list \<Rightarrow> int \<Rightarrow> int \<times> Undelegation list" where
  "remove_unlocked_loop p [] totalWithdraw = (totalWithdraw, [])"
| "remove_unlocked_loop p (u # us) totalWithdraw =
     (if p u then remove_unlocked_loop p us (totalWithdraw + ud_Amount u) else (totalWithdraw, u # us))"

definition RemoveUnlockedUndelegations :: "int \<Rightarrow> int \<Rightarrow> int \<Rightarrow> bool \<Rightarrow> Delegation \<Rightarrow> int \<times> Delegation" where
  "RemoveUnlockedUndelegations curEpoch lastEpochInCommittee lockPeriod noEarlyUnlock d =
     (case remove_unlocked_loop (undelegation_unlocked curEpoch lastEpochInCommittee lockPeriod noEarlyUnlock)
             (dg_Undelegations d) 0 of
        (totalWithdraw, us) \<Rightarrow> (totalWithdraw, d\<lparr>dg_Undelegations := us\<rparr>))"

section \<open>Checks of a validator\<close>

definition errDescription :: error where "errDescription = ''exceed maximum length''"
definition errAddressNotMatch :: error where "errAddressNotMatch = ''validator key not match''"
definition ErrInvalidSelfDelegation :: error where
  "ErrInvalidSelfDelegation = ''self delegation can not be less than min_self_delegation''"
definition errInvalidTotalDelegation :: error where
  "errInvalidTotalDelegation = ''total delegation can not be bigger than max_total_delegation''"
definition errMinSelfDelegationTooSmall :: error where
  "errMinSelfDelegationTooSmall = ''min_self_delegation must be greater than or equal to 10,000 ONE''"
definition errInvalidMaxTotalDelegation :: error where
  "errInvalidMaxTotalDelegation = ''max_total_delegation can not be less than min_self_delegation''"
definition errCommissionRateTooLarge :: error where
  "errCommissionRateTooLarge = ''commission rate and change rate can not be larger than max commission rate''"
definition errInvalidCommissionRate :: error where
  "errInvalidCommissionRate = ''commission rate, change rate and max rate should be a value ranging from 0.0 to 1.0''"
definition errNeedAtLeastOneSlotKey :: error where "errNeedAtLeastOneSlotKey = ''need at least one slot key''"
definition errBLSKeysNotMatchSigs :: error where
  "errBLSKeysNotMatchSigs = ''bls keys and corresponding signatures could not be verified''"
definition errNilMinSelfDelegation :: error where "errNilMinSelfDelegation = ''MinSelfDelegation can not be nil''"
definition errNilMaxTotalDelegation :: error where "errNilMaxTotalDelegation = ''MaxTotalDelegation can not be nil''"
definition errSlotKeyToRemoveNotFound :: error where "errSlotKeyToRemoveNotFound = ''slot key to remove not found''"
definition errSlotKeyToAddExists :: error where "errSlotKeyToAddExists = ''slot key to add already exists''"
definition errDuplicateSlotKeys :: error where "errDuplicateSlotKeys = ''slot keys can not have duplicates''"
definition ErrExcessiveBLSKeys :: error where "ErrExcessiveBLSKeys = ''more slot keys provided than allowed''"
definition errCannotChangeBannedTrait :: error where
  "errCannotChangeBannedTrait = ''cannot change validator banned status''"

definition MaxNameLength :: nat where "MaxNameLength = 140"
definition MaxIdentityLength :: nat where "MaxIdentityLength = 140"
definition MaxWebsiteLength :: nat where "MaxWebsiteLength = 140"
definition MaxSecurityContactLength :: nat where "MaxSecurityContactLength = 140"
definition MaxDetailsLength :: nat where "MaxDetailsLength = 280"
definition MaxBLSPerValidator :: nat where "MaxBLSPerValidator = 106"

definition denominations_One :: int where "denominations_One = 1000000000000000000"
definition minimumStake :: int where "minimumStake = denominations_One * 10000"

definition EnsureLength :: "Description \<Rightarrow> error + Description" where
  "EnsureLength d =
     (if MaxNameLength < length (ds_Name d) then Inl errDescription
      else if MaxIdentityLength < length (ds_Identity d) then Inl errDescription
      else if MaxWebsiteLength < length (ds_Website d) then Inl errDescription
      else if MaxSecurityContactLength < length (ds_SecurityContact d) then Inl errDescription
      else if MaxDetailsLength < length (ds_Details d) then Inl errDescription
      else Inr d)"

definition UpdateDescription :: "Description \<Rightarrow> Description \<Rightarrow> error + Description" where
  "UpdateDescription d1 d2 =
     (let newDesc = d1;
          newDesc = (if ds_Name d2 \<noteq> '''' then newDesc\<lparr>ds_Name := ds_Name d2\<rparr> else newDesc);
          newDesc = (if ds_Identity d2 \<noteq> '''' then newDesc\<lparr>ds_Identity := ds_Identity d2\<rparr> else newDesc);
          newDesc = (if ds_Website d2 \<noteq> '''' then newDesc\<lparr>ds_Website := ds_Website d2\<rparr> else newDesc);
          newDesc = (if ds_SecurityContact d2 \<noteq> '''' then newDesc\<lparr>ds_SecurityContact := ds_SecurityContact d2\<rparr> else newDesc);
          newDesc = (if ds_Details d2 \<noteq> '''' then newDesc\<lparr>ds_Details := ds_Details d2\<rparr> else newDesc)
      in EnsureLength newDesc)"

text \<open>The result of a check: \<open>None\<close> for a panic, which comparing a nil decimal is, else the error.
  \<open>orElse\<close> is Go's \<open>||\<close>.\<close>

type_synonym check = "error option option"

definition orElse :: "bool option \<Rightarrow> bool option \<Rightarrow> bool option" where
  "orElse a b = (case a of None \<Rightarrow> None | Some True \<Rightarrow> Some True | Some False \<Rightarrow> b)"

definition err_if :: "bool option \<Rightarrow> error \<Rightarrow> check \<Rightarrow> check" where
  "err_if b e k = (case b of None \<Rightarrow> None | Some True \<Rightarrow> Some (Some e) | Some False \<Rightarrow> k)"

definition hundredPercent :: Dec where "hundredPercent = Some 1000000000000000000"
definition zeroPercent :: Dec where "zeroPercent = Some 0"

fun duplicate_keys :: "BLSKey list \<Rightarrow> BLSKey list \<Rightarrow> bool" where
  "duplicate_keys allKeys [] = False"
| "duplicate_keys allKeys (k # ks) = (k \<in> set allKeys \<or> duplicate_keys (k # allKeys) ks)"

definition va_SanityCheck :: "Validator \<Rightarrow> check" where
  "va_SanityCheck v =
     (let cm = va_Commission v in
      case EnsureLength (va_Description v) of
        Inl err \<Rightarrow> Some (Some err)
      | Inr _ \<Rightarrow>
      if va_SlotPubKeys v = [] then Some (Some errNeedAtLeastOneSlotKey)
      else if MaxBLSPerValidator < length (va_SlotPubKeys v) then Some (Some ErrExcessiveBLSKeys)
      else case va_MinSelfDelegation v of
        None \<Rightarrow> Some (Some errNilMinSelfDelegation)
      | Some minSelf \<Rightarrow>
      case va_MaxTotalDelegation v of
        None \<Rightarrow> Some (Some errNilMaxTotalDelegation)
      | Some maxTotal \<Rightarrow>
      err_if (Some (minSelf < minimumStake)) errMinSelfDelegationTooSmall
     (err_if (Some (maxTotal < minSelf)) errInvalidMaxTotalDelegation
     (err_if (orElse (dec_LT (Rate cm) zeroPercent) (dec_GT (Rate cm) hundredPercent)) errInvalidCommissionRate
     (err_if (orElse (dec_LT (MaxRate cm) zeroPercent) (dec_GT (MaxRate cm) hundredPercent)) errInvalidCommissionRate
     (err_if (orElse (dec_LT (MaxChangeRate cm) zeroPercent) (dec_GT (MaxChangeRate cm) hundredPercent)) errInvalidCommissionRate
     (err_if (dec_GT (Rate cm) (MaxRate cm)) errCommissionRateTooLarge
     (err_if (dec_GT (MaxChangeRate cm) (MaxRate cm)) errCommissionRateTooLarge
     (err_if (Some (duplicate_keys [] (va_SlotPubKeys v))) errDuplicateSlotKeys
     (Some None)))))))))"

definition TotalDelegation :: "ValidatorWrapper \<Rightarrow> int" where
  "TotalDelegation w = foldl (\<lambda>total d. total + dg_Amount d) 0 (vw_Delegations w)"

text \<open>After the check of the validator neither bound is nil.\<close>

definition vw_SanityCheck :: "ValidatorWrapper \<Rightarrow> check" where
  "vw_SanityCheck w =
     (let v = vw_Validator w in
      case va_SanityCheck v of
        None \<Rightarrow> None
      | Some (Some err) \<Rightarrow> Some (Some err)
      | Some None \<Rightarrow>
      (case vw_Delegations w of
         [] \<Rightarrow> Some (Some ErrInvalidSelfDelegation)
       | self # _ \<Rightarrow>
         (case (va_MinSelfDelegation v, va_MaxTotalDelegation v) of
            (Some minSelf, Some maxTotal) \<Rightarrow>
              if va_Status v \<noteq> Banned \<and> dg_Amount self < minSelf \<and> va_Status v = Active
              then Some (Some ErrInvalidSelfDelegation)
              else if maxTotal < TotalDelegation w then Some (Some errInvalidTotalDelegation)
              else Some None
          | _ \<Rightarrow> None)))"

section \<open>Creating and editing\<close>

text \<open>The BLS library, hashing, and the public keys of the internal accounts that the sharding
  schedule has for an epoch.\<close>

record ('pk, 'sg) bls_env =
  BytesToBLSPublicKey :: "bytes \<Rightarrow> error + 'pk"
  SigDeserialize :: "bytes \<Rightarrow> error + 'sg"
  VerifyHash :: "'sg \<Rightarrow> 'pk \<Rightarrow> bytes \<Rightarrow> bool"
  bls_Keccak256 :: "bytes \<Rightarrow> bytes"
  HmyAccounts :: "int option \<Rightarrow> string list"

definition hex_digit :: "nat \<Rightarrow> char" where
  "hex_digit n = ''0123456789abcdef'' ! n"

definition hex_text :: "bytes \<Rightarrow> string" where
  "hex_text bs = concat (map (\<lambda>b. [hex_digit (unat b div 16), hex_digit (unat b mod 16)]) bs)"

definition matchesHarmonyBLSKey :: "BLSKey \<Rightarrow> string list \<Rightarrow> error option" where
  "matchesHarmonyBLSKey blsKey hmyAccounts =
     (if hex_text blsKey \<in> set hmyAccounts then Some errDuplicateSlotKeys else None)"

fun containsHarmonyBLSKeys :: "BLSKey list \<Rightarrow> string list \<Rightarrow> error option" where
  "containsHarmonyBLSKeys [] hmyAccounts = None"
| "containsHarmonyBLSKeys (k # ks) hmyAccounts =
     (case matchesHarmonyBLSKey k hmyAccounts of
        Some err \<Rightarrow> Some err
      | None \<Rightarrow> containsHarmonyBLSKeys ks hmyAccounts)"

definition BLSVerificationStr :: string where "BLSVerificationStr = ''harmony-one''"

text \<open>The signature is a pointer to an array of 96 bytes: its length is never 0, also when the
  pointer is nil, and slicing it panics then.\<close>

definition VerifyBLSKey :: "('pk, 'sg) bls_env \<Rightarrow> BLSKey \<Rightarrow> BLSSig option \<Rightarrow> check" where
  "VerifyBLSKey B pubKey pubKeySig =
     (case BytesToBLSPublicKey B pubKey of
        Inl _ \<Rightarrow> Some (Some errBLSKeysNotMatchSigs)
      | Inr blsPubKey \<Rightarrow>
      case pubKeySig of
        None \<Rightarrow> None
      | Some sig \<Rightarrow>
      case SigDeserialize B sig of
        Inl err \<Rightarrow> Some (Some err)
      | Inr msgSig \<Rightarrow>
      if VerifyHash B msgSig blsPubKey (bls_Keccak256 B (ascii BLSVerificationStr)) then Some None
      else Some (Some errBLSKeysNotMatchSigs))"

fun verify_keys_loop :: "('pk, 'sg) bls_env \<Rightarrow> (BLSKey \<times> BLSSig) list \<Rightarrow> check" where
  "verify_keys_loop B [] = Some None"
| "verify_keys_loop B ((k, sig) # ks) =
     (case VerifyBLSKey B k (Some sig) of Some None \<Rightarrow> verify_keys_loop B ks | r \<Rightarrow> r)"

definition VerifyBLSKeys :: "('pk, 'sg) bls_env \<Rightarrow> BLSKey list \<Rightarrow> BLSSig list \<Rightarrow> check" where
  "VerifyBLSKeys B pubKeys pubKeySigs =
     (if length pubKeys \<noteq> length pubKeySigs then Some (Some errBLSKeysNotMatchSigs)
      else verify_keys_loop B (zip pubKeys pubKeySigs))"

definition CreateValidatorFromNewMsg ::
    "('pk, 'sg) bls_env \<Rightarrow> CreateValidator \<Rightarrow> int \<Rightarrow> int option \<Rightarrow> (error + Validator) option" where
  "CreateValidatorFromNewMsg B val blockNum epoch =
     (case EnsureLength (cv_Description val) of
        Inl err \<Rightarrow> Some (Inl err)
      | Inr desc \<Rightarrow>
      let commission = CommissionRates.extend (cv_CommissionRates val) (Commission.fields blockNum);
          pubKeys = cv_SlotPubKeys val
      in case containsHarmonyBLSKeys pubKeys (HmyAccounts B epoch) of
           Some err \<Rightarrow> Some (Inl err)
         | None \<Rightarrow>
         case VerifyBLSKeys B pubKeys (cv_SlotKeySigs val) of
           None \<Rightarrow> None
         | Some (Some err) \<Rightarrow> Some (Inl err)
         | Some None \<Rightarrow>
             Some (Inr \<lparr>va_Address = cv_ValidatorAddress val, va_SlotPubKeys = pubKeys,
               va_LastEpochInCommittee = 0, va_MinSelfDelegation = cv_MinSelfDelegation val,
               va_MaxTotalDelegation = cv_MaxTotalDelegation val, va_Status = Active,
               va_Commission = commission, va_Description = desc, va_CreationHeight = blockNum\<rparr>))"

text \<open>\<open>UpdateValidatorFromEditMsg\<close> in the order of its steps. It changes the validator in place;
  after an error its caller drops the validator.\<close>

definition edit_fields :: "EditValidator \<Rightarrow> Description \<Rightarrow> Validator \<Rightarrow> Validator" where
  "edit_fields edit desc v =
     (let v = v\<lparr>va_Description := desc\<rparr>;
          v = (case ev_CommissionRate edit of
                 None \<Rightarrow> v | Some r \<Rightarrow> v\<lparr>va_Commission := (va_Commission v)\<lparr>Rate := r\<rparr>\<rparr>);
          v = (case ev_MinSelfDelegation edit of
                 Some m \<Rightarrow> if m \<noteq> 0 then v\<lparr>va_MinSelfDelegation := Some m\<rparr> else v | None \<Rightarrow> v);
          v = (case ev_MaxTotalDelegation edit of
                 Some m \<Rightarrow> if m \<noteq> 0 then v\<lparr>va_MaxTotalDelegation := Some m\<rparr> else v | None \<Rightarrow> v)
      in v)"

definition edit_remove_key :: "BLSKey option \<Rightarrow> Validator \<Rightarrow> error + Validator" where
  "edit_remove_key r v =
     (case r of
        None \<Rightarrow> Inr v
      | Some k \<Rightarrow> if k \<in> set (va_SlotPubKeys v)
                  then Inr (v\<lparr>va_SlotPubKeys := remove1 k (va_SlotPubKeys v)\<rparr>)
                  else Inl errSlotKeyToRemoveNotFound)"

definition edit_add_key ::
    "('pk, 'sg) bls_env \<Rightarrow> int option \<Rightarrow> EditValidator \<Rightarrow> Validator \<Rightarrow> (error + Validator) option" where
  "edit_add_key B epoch edit v =
     (case ev_SlotKeyToAdd edit of
        None \<Rightarrow> Some (Inr v)
      | Some k \<Rightarrow>
          if k \<in> set (va_SlotPubKeys v) then Some (Inl errSlotKeyToAddExists)
          else case matchesHarmonyBLSKey k (HmyAccounts B epoch) of
                 Some err \<Rightarrow> Some (Inl err)
               | None \<Rightarrow>
               case VerifyBLSKey B k (ev_SlotKeyToAddSig edit) of
                 None \<Rightarrow> None
               | Some (Some err) \<Rightarrow> Some (Inl err)
               | Some None \<Rightarrow> Some (Inr (v\<lparr>va_SlotPubKeys := va_SlotPubKeys v @ [k]\<rparr>)))"

definition edit_status :: "Eligibility \<Rightarrow> Validator \<Rightarrow> error + Validator" where
  "edit_status s v =
     (if va_Status v = Banned then Inl errCannotChangeBannedTrait
      else if s = Active \<or> s = Inactive then Inr (v\<lparr>va_Status := s\<rparr>)
      else Inr v)"

definition UpdateValidatorFromEditMsg ::
    "('pk, 'sg) bls_env \<Rightarrow> Validator \<Rightarrow> EditValidator \<Rightarrow> int option \<Rightarrow> (error + Validator) option" where
  "UpdateValidatorFromEditMsg B v edit epoch =
     (if va_Address v \<noteq> ev_ValidatorAddress edit then Some (Inl errAddressNotMatch)
      else case UpdateDescription (va_Description v) (ev_Description edit) of
        Inl err \<Rightarrow> Some (Inl err)
      | Inr desc \<Rightarrow>
      case edit_remove_key (ev_SlotKeyToRemove edit) (edit_fields edit desc v) of
        Inl err \<Rightarrow> Some (Inl err)
      | Inr v \<Rightarrow>
      case edit_add_key B epoch edit v of
        None \<Rightarrow> None
      | Some (Inl err) \<Rightarrow> Some (Inl err)
      | Some (Inr v) \<Rightarrow> Some (edit_status (ev_EPOSStatus edit) v))"

section \<open>Facts on delegations\<close>

definition entries_total :: "Undelegation list \<Rightarrow> int" where
  "entries_total us = (\<Sum>u\<leftarrow>us. ud_Amount u)"

lemma entries_total_simps [simp]:
  "entries_total [] = 0" "entries_total (u # us) = ud_Amount u + entries_total us"
  "entries_total (us @ vs) = entries_total us + entries_total vs"
  by (simp_all add: entries_total_def)

lemma foldl_plus: "foldl (\<lambda>t x. t + f x) (a :: int) xs = a + (\<Sum>x\<leftarrow>xs. f x)"
  by (induction xs arbitrary: a) auto

lemma TotalInUndelegation_eq: "TotalInUndelegation d = entries_total (dg_Undelegations d)"
  by (simp add: TotalInUndelegation_def entries_total_def foldl_plus)

lemma TotalDelegation_eq: "TotalDelegation w = (\<Sum>d\<leftarrow>vw_Delegations w. dg_Amount d)"
  by (simp add: TotalDelegation_def foldl_plus)

text \<open>All tokens of a delegation: delegated, or on their way back.\<close>

definition dg_holding :: "Delegation \<Rightarrow> int" where
  "dg_holding d = dg_Amount d + entries_total (dg_Undelegations d)"

definition vw_holding :: "ValidatorWrapper \<Rightarrow> int" where
  "vw_holding w = (\<Sum>d\<leftarrow>vw_Delegations w. dg_holding d)"

text \<open>The invariant of a delegation: no negative amount, entries sorted by their epochs and one
  entry for an epoch.\<close>

definition entries_wf :: "Undelegation list \<Rightarrow> bool" where
  "entries_wf us \<longleftrightarrow> sorted_wrt (\<lambda>u v. ud_Epoch u < ud_Epoch v) us \<and> (\<forall>u\<in>set us. 0 < ud_Amount u)"

definition dg_wf :: "Delegation \<Rightarrow> bool" where
  "dg_wf d \<longleftrightarrow> 0 \<le> dg_Amount d \<and> 0 \<le> dg_Reward d \<and> entries_wf (dg_Undelegations d)"

lemma entries_wf_simps [simp]:
  "entries_wf []"
  "entries_wf (u # us) \<longleftrightarrow> 0 < ud_Amount u \<and> (\<forall>v\<in>set us. ud_Epoch u < ud_Epoch v) \<and> entries_wf us"
  by (auto simp: entries_wf_def)

lemma entries_total_nonneg: "entries_wf us \<Longrightarrow> 0 \<le> entries_total us"
  by (induction us) auto

lemma add_to_entry_Some:
  assumes "add_to_entry epoch amt us = Some us'"
  shows "entries_total us' = entries_total us + amt \<and> map ud_Epoch us' = map ud_Epoch us
       \<and> (0 < amt \<longrightarrow> entries_wf us \<longrightarrow> entries_wf us')"
  using assms
proof (induction us arbitrary: us')
  case (Cons u us)
  show ?case
  proof (cases "ud_Epoch u = epoch")
    case False
    with Cons.prems obtain vs where vs: "add_to_entry epoch amt us = Some vs" "us' = u # vs" by auto
    from Cons.IH [OF vs(1)] have ih: "entries_total vs = entries_total us + amt" "map ud_Epoch vs = map ud_Epoch us"
        "0 < amt \<longrightarrow> entries_wf us \<longrightarrow> entries_wf vs" by auto
    from ih(2) have "ud_Epoch ` set vs = ud_Epoch ` set us" by (metis list.set_map)
    then have "(\<forall>v\<in>set vs. ud_Epoch u < ud_Epoch v) \<longleftrightarrow> (\<forall>v\<in>set us. ud_Epoch u < ud_Epoch v)"
      by (metis (no_types, opaque_lifting) image_iff)
    with ih vs(2) show ?thesis by auto
  qed (use Cons.prems in auto)
qed simp

lemma add_to_entry_None: "add_to_entry epoch amt us = None \<longleftrightarrow> epoch \<notin> ud_Epoch ` set us"
  by (induction us) auto

lemma entries_total_sort: "entries_total (sort_key f us) = entries_total us"
proof -
  have "mset (map ud_Amount (sort_key f us)) = mset (map ud_Amount us)" by simp
  then show ?thesis unfolding entries_total_def by (metis sum_mset_sum_list)
qed

lemma entries_wf_insert:
  assumes "entries_wf us" and "ud_Epoch u \<notin> ud_Epoch ` set us" and "0 < ud_Amount u"
  shows "entries_wf (sort_key ud_Epoch (us @ [u]))"
proof -
  let ?s = "sort_key ud_Epoch (us @ [u])"
  have "distinct (map ud_Epoch us)"
    using assms(1) by (induction us) force+
  with assms(2) have "distinct (map ud_Epoch (us @ [u]))" by auto
  then have "distinct (map ud_Epoch ?s)"
    by (metis distinct_map distinct_sort set_sort)
  with sorted_sort_key [of ud_Epoch "us @ [u]"] have "sorted_wrt (<) (map ud_Epoch ?s)"
    by (simp add: strict_sorted_iff)
  with assms(1,3) show ?thesis by (auto simp: entries_wf_def sorted_wrt_map)
qed

end
