(* ===== verification/Staking_Verify.thy ===== *)
theory Staking_Verify
  imports Validator Chain_Config State_DB_Props
begin

text \<open>
  The verification of staking messages against the account state, \<open>core/staking_verifier.go\<close>, and
  the distribution of block rewards, \<open>AddReward\<close> of \<open>core/state/statedb.go\<close>. The functions read
  the state, which may load accounts into its cache, and return changed copies of validators.

  The chain is a record of functions: what the interface \<open>ChainContext\<close> reads from the chain
  database. The context may be nil; the account state is a value here and never is.
\<close>

record chain_env =
  ReadValidatorList :: "error + address list"
  ReadValidatorSnapshot :: "address \<Rightarrow> error + ValidatorWrapper"
  ReadDelegationsByDelegator :: "address \<Rightarrow> error + DelegationIndex list"
  ctx_Config :: ChainConfig

type_synonym ('d, 'tr) SDB = "('d, 'tr, ValidatorWrapper) DB"
type_synonym ('d, 'tr) senv = "('d, 'tr, ValidatorWrapper) sdb_env"

definition errChainContextMissing :: error where "errChainContextMissing = ''no chain context was provided''"
definition errEpochMissing :: error where "errEpochMissing = ''no epoch was provided''"
definition errBlockNumMissing :: error where "errBlockNumMissing = ''no block number was provided''"
definition errInsufficientBalanceForStake :: error where
  "errInsufficientBalanceForStake = ''insufficient balance to stake''"
definition errValidatorExist :: error where "errValidatorExist = ''staking validator already exists''"
definition errValidatorNotExist :: error where "errValidatorNotExist = ''staking validator does not exist''"
definition errNoDelegationToUndelegate :: error where "errNoDelegationToUndelegate = ''no delegation to undelegate''"
definition errCommissionRateChangeTooFast :: error where
  "errCommissionRateChangeTooFast = ''change on commission rate can not be more than max change rate within the same epoch''"
definition errCommissionRateChangeTooHigh :: error where
  "errCommissionRateChangeTooHigh = ''commission rate can not be higher than maximum commission rate''"
definition errCommissionRateChangeTooLow :: error where
  "errCommissionRateChangeTooLow = ''commission rate can not be lower than min rate of 5%''"
definition errNoRewardsToCollect :: error where "errNoRewardsToCollect = ''no rewards to collect''"
definition errNegativeAmount :: error where "errNegativeAmount = ''amount can not be negative''"
definition errDupIdentity :: error where "errDupIdentity = ''validator identity exists''"
definition errDupBlsKey :: error where "errDupBlsKey = ''BLS key exists''"
definition errDelegationTooSmall :: error where
  "errDelegationTooSmall = ''minimum delegation amount for a delegator has to be greater than or equal to 1000 ONE''"
definition errDelegationTooSmallV2 :: error where
  "errDelegationTooSmallV2 = ''minimum delegation amount for a delegator has to be greater than or equal to 100 ONE''"
definition errIndexOutOfBound :: error where "errIndexOutOfBound = ''Delegation index out of bound''"

definition minimumDelegation :: int where "minimumDelegation = denominations_One * 1000"
definition minimumDelegationV2 :: int where "minimumDelegationV2 = denominations_One * 100"

section \<open>Creating and editing a validator\<close>

definition check_duplicate_body ::
    "('d, 'tr) senv \<Rightarrow> address \<Rightarrow> string \<Rightarrow> BLSKey list \<Rightarrow> address \<Rightarrow> unit \<Rightarrow> (('d, 'tr) SDB, unit) go" where
  "check_duplicate_body E validator identity blsKeys addr _ =
     (if validator = addr then go_return ()
      else go_call (sdb_ValidatorWrapperCopy E addr) (\<lambda>wrapper.
        go_check (\<not> (identity \<noteq> '''' \<and> ds_Identity (va_Description (vw_Validator wrapper)) = identity)) errDupIdentity
       (go_check (\<not> (blsKeys \<noteq> [] \<and> (\<exists>existingKey\<in>set (va_SlotPubKeys (vw_Validator wrapper)). existingKey \<in> set blsKeys)))
          errDupBlsKey (go_return ()))))"

definition checkDuplicateFields ::
    "('d, 'tr) senv \<Rightarrow> chain_env \<Rightarrow> address \<Rightarrow> string \<Rightarrow> BLSKey list \<Rightarrow> (('d, 'tr) SDB, unit) go" where
  "checkDuplicateFields E bc validator identity blsKeys =
     go_sum (ReadValidatorList bc) (\<lambda>addrs.
       go_fold (check_duplicate_body E validator identity blsKeys) addrs ())"

definition VerifyAndCreateValidatorFromMsg ::
    "('d, 'tr) senv \<Rightarrow> ('pk, 'sg) bls_env \<Rightarrow> chain_env option \<Rightarrow> int option \<Rightarrow> int option \<Rightarrow> CreateValidator \<Rightarrow>
      (('d, 'tr) SDB, ValidatorWrapper) go" where
  "VerifyAndCreateValidatorFromMsg E B chainContext epoch blockNum msg =
     (case chainContext of None \<Rightarrow> go_fail errChainContextMissing | Some bc \<Rightarrow>
      if epoch = None then go_fail errEpochMissing
      else case blockNum of None \<Rightarrow> go_fail errBlockNumMissing | Some bn \<Rightarrow>
      if cv_Amount msg < 0 then go_fail errNegativeAmount
      else go_get_opt (sdb_IsValidator E (cv_ValidatorAddress msg)) (\<lambda>isVal.
        go_check (\<not> isVal) errValidatorExist
       (go_bind (checkDuplicateFields E bc (cv_ValidatorAddress msg) (ds_Identity (cv_Description msg)) (cv_SlotPubKeys msg)) (\<lambda>_.
        go_get (CanTransfer E (cv_ValidatorAddress msg) (cv_Amount msg)) (\<lambda>can.
        go_check can errInsufficientBalanceForStake
       (go_opt (CreateValidatorFromNewMsg B msg bn epoch) (\<lambda>r.
        go_sum r (\<lambda>v.
          let wrapper = \<lparr>vw_Validator = v, vw_Delegations = [NewDelegation (va_Address v) (cv_Amount msg)],
                vw_Counters = \<lparr>NumBlocksToSign = 0, NumBlocksSigned = 0\<rparr>, vw_BlockReward = 0\<rparr>
          in go_opt (vw_SanityCheck wrapper) (\<lambda>err. go_try err (go_return wrapper)))))))))) "

definition MinCommissionRate :: Dec where "MinCommissionRate = Some 50000000000000000"

text \<open>The floor of the commission rate, from its epoch on, once the promotion of a new validator is
  over.\<close>

definition rate_below_minimum ::
    "('d, 'tr) senv \<Rightarrow> ChainConfig \<Rightarrow> int option \<Rightarrow> Dec \<Rightarrow> address \<Rightarrow> (('d, 'tr) SDB, bool) go" where
  "rate_below_minimum E config epoch newRate addr =
     (if \<not> IsMinCommissionRate config epoch then go_return False
      else go_opt (dec_LT newRate MinCommissionRate) (\<lambda>low.
        if \<not> low then go_return False
        else go_get_opt (sdb_GetValidatorFirstElectionEpoch E addr) (\<lambda>firstEpoch.
          go_opt (MinCommissionPromoPeriod config) (\<lambda>promoPeriod.
          go_opt epoch (\<lambda>e.
            go_return ((word_of_int firstEpoch :: u64) \<noteq> 0 \<and> big_Int64 promoPeriod \<le> big_Int64 (e - firstEpoch)))))))"

definition rate_changed :: "Dec \<Rightarrow> Dec \<Rightarrow> bool option" where
  "rate_changed old new =
     (if dec_IsNil old then Some True
      else if dec_IsNil new then Some False
      else map_option Not (dec_Equal old new))"

definition rate_change_too_fast :: "Dec \<Rightarrow> Dec \<Rightarrow> Dec \<Rightarrow> bool option" where
  "rate_change_too_fast new old maxChange =
     Option.bind (dec_Sub new old) (\<lambda>diff. Option.bind (dec_Abs diff) (\<lambda>a. dec_GT a maxChange))"

text \<open>The checks of the rate of an edited validator. A change since the beginning of the epoch is
  recorded with the block number.\<close>

definition check_edited_rate ::
    "('d, 'tr) senv \<Rightarrow> chain_env \<Rightarrow> int option \<Rightarrow> int \<Rightarrow> address \<Rightarrow> Validator \<Rightarrow> (('d, 'tr) SDB, Validator) go" where
  "check_edited_rate E bc epoch blockNum addr v =
     (let newRate = Rate (va_Commission v) in
      go_opt (dec_GT newRate (MaxRate (va_Commission v))) (\<lambda>high.
      go_check (\<not> high) errCommissionRateChangeTooHigh
     (go_bind (rate_below_minimum E (ctx_Config bc) epoch newRate addr) (\<lambda>low.
      go_check (\<not> low) errCommissionRateChangeTooLow
     (go_sum (ReadValidatorSnapshot bc (va_Address v)) (\<lambda>snapshotValidator.
      let rateAtBeginningOfEpoch = Rate (va_Commission (vw_Validator snapshotValidator)) in
      go_opt (rate_changed rateAtBeginningOfEpoch newRate) (\<lambda>changed.
      let v = (if changed then v\<lparr>va_Commission := (va_Commission v)\<lparr>UpdateHeight := blockNum\<rparr>\<rparr> else v) in
      go_opt (rate_change_too_fast newRate rateAtBeginningOfEpoch (MaxChangeRate (va_Commission v))) (\<lambda>fast.
      go_check (\<not> fast) errCommissionRateChangeTooFast (go_return v)))))))))"

definition VerifyAndEditValidatorFromMsg ::
    "('d, 'tr) senv \<Rightarrow> ('pk, 'sg) bls_env \<Rightarrow> chain_env option \<Rightarrow> int option \<Rightarrow> int option \<Rightarrow> EditValidator \<Rightarrow>
      (('d, 'tr) SDB, ValidatorWrapper) go" where
  "VerifyAndEditValidatorFromMsg E B chainContext epoch blockNum msg =
     (case chainContext of None \<Rightarrow> go_fail errChainContextMissing | Some bc \<Rightarrow>
      case blockNum of None \<Rightarrow> go_fail errBlockNumMissing | Some bn \<Rightarrow>
      go_get_opt (sdb_IsValidator E (ev_ValidatorAddress msg)) (\<lambda>isVal.
        go_check isVal errValidatorNotExist
       (go_bind (checkDuplicateFields E bc (ev_ValidatorAddress msg) (ds_Identity (ev_Description msg))
                   (case ev_SlotKeyToAdd msg of None \<Rightarrow> [] | Some k \<Rightarrow> [k])) (\<lambda>_.
        go_call (sdb_ValidatorWrapperCopy E (ev_ValidatorAddress msg)) (\<lambda>wrapper.
        go_opt (UpdateValidatorFromEditMsg B (vw_Validator wrapper) msg epoch) (\<lambda>r.
        go_sum r (\<lambda>v.
        go_bind (check_edited_rate E bc epoch bn (ev_ValidatorAddress msg) v) (\<lambda>v.
        let wrapper = wrapper\<lparr>vw_Validator := v\<rparr>
        in go_opt (vw_SanityCheck wrapper) (\<lambda>err. go_try err (go_return wrapper))))))))))"

section \<open>Delegating\<close>

text \<open>Tokens on their way back from a validator are delegated first, oldest entries first, but none
  of the current epoch. The result is what is still to be paid, and the entries that are left.\<close>

fun take_undelegated :: "int \<Rightarrow> int \<Rightarrow> Undelegation list \<Rightarrow> int \<times> Undelegation list" where
  "take_undelegated epoch delegateBalance [] = (delegateBalance, [])"
| "take_undelegated epoch delegateBalance (u # us) =
     (if epoch \<le> ud_Epoch u then (delegateBalance, u # us)
      else if ud_Amount u \<le> delegateBalance then take_undelegated epoch (delegateBalance - ud_Amount u) us
      else (0, u\<lparr>ud_Amount := ud_Amount u - delegateBalance\<rparr> # us))"

text \<open>The state of the loop over the delegations of the delegator: what is still to be paid, the
  changed validators, what came from which validator, and the position of the delegatee among the
  changed validators, which is the pointer \<open>delegateeWrapper\<close> of the code.\<close>

type_synonym redelegation = "int \<times> ValidatorWrapper list \<times> (address, int) gomap \<times> nat option"

definition redelegate_body ::
    "('d, 'tr) senv \<Rightarrow> int \<Rightarrow> address \<Rightarrow> DelegationIndex \<Rightarrow> redelegation \<Rightarrow> (('d, 'tr) SDB, redelegation) go" where
  "redelegate_body E epoch delegatee delegationIndex = (\<lambda>(delegateBalance, updated, fromLockedTokens, pos).
     go_call (sdb_ValidatorWrapperCopy E (di_ValidatorAddress delegationIndex)) (\<lambda>wrapper.
     if (of_nat (length (vw_Delegations wrapper)) :: u64) \<le> di_Index delegationIndex then go_fail errIndexOutOfBound
     else
       let i = unat (di_Index delegationIndex);
           delegation = vw_Delegations wrapper ! i;
           startBalance = delegateBalance;
           (delegateBalance, us) = take_undelegated epoch delegateBalance (dg_Undelegations delegation)
       in if delegateBalance < startBalance
          then let wrapper = wrapper\<lparr>vw_Delegations := (vw_Delegations wrapper)[i := delegation\<lparr>dg_Undelegations := us\<rparr>]\<rparr>
               in go_opt (vw_SanityCheck wrapper) (\<lambda>err. go_try err (go_return
                    (delegateBalance, updated @ [wrapper],
                     gm_set (di_ValidatorAddress delegationIndex) (startBalance - delegateBalance) fromLockedTokens,
                     if di_ValidatorAddress delegationIndex = delegatee then Some (length updated) else pos)))
          else go_return (delegateBalance, updated, fromLockedTokens, pos)))"

definition redelegate ::
    "('d, 'tr) senv \<Rightarrow> ChainConfig \<Rightarrow> int option \<Rightarrow> Delegate \<Rightarrow> DelegationIndex list \<Rightarrow> (('d, 'tr) SDB, redelegation) go" where
  "redelegate E chainConfig epoch msg delegations =
     (if IsRedelegation chainConfig epoch
      then go_opt epoch (\<lambda>e. go_fold (redelegate_body E e (de_ValidatorAddress msg)) delegations (de_Amount msg, [], [], None))
      else go_return (de_Amount msg, [], [], None))"

text \<open>Adding to every delegation of the delegator, with a check after each.\<close>

definition add_delegation_body ::
    "Delegate \<Rightarrow> nat \<Rightarrow> ValidatorWrapper \<times> bool \<Rightarrow> ('s, ValidatorWrapper \<times> bool) go" where
  "add_delegation_body msg i = (\<lambda>(wrapper, found).
     let delegation = vw_Delegations wrapper ! i
     in if dg_DelegatorAddress delegation = de_DelegatorAddress msg
        then let wrapper = wrapper\<lparr>vw_Delegations := (vw_Delegations wrapper)
                             [i := delegation\<lparr>dg_Amount := dg_Amount delegation + de_Amount msg\<rparr>]\<rparr>
             in go_opt (vw_SanityCheck wrapper) (\<lambda>err. go_try err (go_return (wrapper, True)))
        else go_return (wrapper, found))"

definition add_delegation :: "Delegate \<Rightarrow> ValidatorWrapper \<Rightarrow> ('s, ValidatorWrapper) go" where
  "add_delegation msg wrapper =
     go_bind (go_fold (add_delegation_body msg) [0..<length (vw_Delegations wrapper)] (wrapper, False)) (\<lambda>(wrapper, found).
       if found then go_return wrapper
       else let wrapper = wrapper\<lparr>vw_Delegations := vw_Delegations wrapper @
                            [NewDelegation (de_DelegatorAddress msg) (de_Amount msg)]\<rparr>
            in go_opt (vw_SanityCheck wrapper) (\<lambda>err. go_try err (go_return wrapper)))"

definition delegation_too_small :: "ChainConfig \<Rightarrow> int option \<Rightarrow> int \<Rightarrow> error option" where
  "delegation_too_small chainConfig epoch amount =
     (if amount < minimumDelegation
      then if IsMinDelegation100 chainConfig epoch
           then if amount < minimumDelegationV2 then Some errDelegationTooSmallV2 else None
           else Some errDelegationTooSmall
      else None)"

definition VerifyAndDelegateFromMsg ::
    "('d, 'tr) senv \<Rightarrow> int option \<Rightarrow> Delegate \<Rightarrow> DelegationIndex list \<Rightarrow> ChainConfig \<Rightarrow>
      (('d, 'tr) SDB, ValidatorWrapper list \<times> int \<times> (address, int) gomap) go" where
  "VerifyAndDelegateFromMsg E epoch msg delegations chainConfig =
     go_get_opt (sdb_IsValidator E (de_ValidatorAddress msg)) (\<lambda>isVal.
     go_check isVal errValidatorNotExist
    (go_check (0 \<le> de_Amount msg) errNegativeAmount
    (go_try (delegation_too_small chainConfig epoch (de_Amount msg))
    (go_bind (redelegate E chainConfig epoch msg delegations) (\<lambda>(delegateBalance, updated, fromLockedTokens, pos).
     go_bind (case pos of
                Some p \<Rightarrow> go_return (updated, p)
              | None \<Rightarrow> go_call (sdb_ValidatorWrapperCopy E (de_ValidatorAddress msg)) (\<lambda>wrapper.
                          go_return (updated @ [wrapper], length updated))) (\<lambda>(updated, p).
     go_bind (add_delegation msg (updated ! p)) (\<lambda>delegateeWrapper.
     let updated = updated[p := delegateeWrapper]
     in if delegateBalance = 0 then go_return (updated, 0, fromLockedTokens)
        else go_get (CanTransfer E (de_DelegatorAddress msg) delegateBalance) (\<lambda>can.
          go_check can errInsufficientBalanceForStake
         (go_return (updated, delegateBalance, fromLockedTokens))))))))))"

section \<open>Undelegating and collecting rewards\<close>

fun find_delegation :: "address \<Rightarrow> Delegation list \<Rightarrow> nat option" where
  "find_delegation a [] = None"
| "find_delegation a (d # ds) =
     (if dg_DelegatorAddress d = a then Some 0 else map_option Suc (find_delegation a ds))"

definition undelegate_from :: "int \<Rightarrow> Undelegate \<Rightarrow> ValidatorWrapper \<Rightarrow> ('s, ValidatorWrapper) go" where
  "undelegate_from epoch msg wrapper =
     (case find_delegation (un_DelegatorAddress msg) (vw_Delegations wrapper) of
        None \<Rightarrow> go_fail errNoDelegationToUndelegate
      | Some i \<Rightarrow>
      case dg_Undelegate epoch (un_Amount msg) (vw_Delegations wrapper ! i) of (err, delegation) \<Rightarrow>
      go_try err
     (let wrapper = wrapper\<lparr>vw_Delegations := (vw_Delegations wrapper)[i := delegation]\<rparr>
      in go_opt (vw_SanityCheck wrapper) (\<lambda>r.
           case r of
             None \<Rightarrow> go_return wrapper
           | Some err \<Rightarrow>
               if err = ErrInvalidSelfDelegation
               then go_return (wrapper\<lparr>vw_Validator := (vw_Validator wrapper)\<lparr>va_Status := Inactive\<rparr>\<rparr>)
               else go_fail err)))"

definition VerifyAndUndelegateFromMsg ::
    "('d, 'tr) senv \<Rightarrow> int option \<Rightarrow> Undelegate \<Rightarrow> (('d, 'tr) SDB, ValidatorWrapper) go" where
  "VerifyAndUndelegateFromMsg E epoch msg =
     (case epoch of None \<Rightarrow> go_fail errEpochMissing | Some e \<Rightarrow>
      if un_Amount msg < 0 then go_fail errNegativeAmount
      else go_get_opt (sdb_IsValidator E (un_ValidatorAddress msg)) (\<lambda>isVal.
      go_check isVal errValidatorNotExist
     (go_call (sdb_ValidatorWrapperCopy E (un_ValidatorAddress msg)) (undelegate_from e msg))))"

definition collect_body ::
    "('d, 'tr) senv \<Rightarrow> DelegationIndex \<Rightarrow> ValidatorWrapper list \<times> int \<Rightarrow> (('d, 'tr) SDB, ValidatorWrapper list \<times> int) go" where
  "collect_body E delegation = (\<lambda>(updated, totalRewards).
     go_call (sdb_ValidatorWrapperCopy E (di_ValidatorAddress delegation)) (\<lambda>wrapper.
     if di_Index delegation < of_nat (length (vw_Delegations wrapper))
     then let i = unat (di_Index delegation); d = vw_Delegations wrapper ! i
          in if 0 < dg_Reward d
             then go_return (updated @ [wrapper\<lparr>vw_Delegations := (vw_Delegations wrapper)[i := d\<lparr>dg_Reward := 0\<rparr>]\<rparr>],
                             totalRewards + dg_Reward d)
             else go_return (updated @ [wrapper], totalRewards)
     else go_fail errIndexOutOfBound))"

definition VerifyAndCollectRewardsFromDelegation ::
    "('d, 'tr) senv \<Rightarrow> DelegationIndex list \<Rightarrow> (('d, 'tr) SDB, ValidatorWrapper list \<times> int) go" where
  "VerifyAndCollectRewardsFromDelegation E delegations =
     go_bind (go_fold (collect_body E) delegations ([], 0)) (\<lambda>(updated, totalRewards).
       go_check (big_Int64 totalRewards \<noteq> 0) errNoRewardsToCollect (go_return (updated, totalRewards)))"

section \<open>Rewards\<close>

text \<open>Paying one delegation of the validator: a position outside the list panics.\<close>

definition pay_reward :: "nat \<Rightarrow> int \<Rightarrow> Delegation list \<Rightarrow> Delegation list option" where
  "pay_reward i x ds =
     (if i < length ds then Some (ds[i := (ds ! i)\<lparr>dg_Reward := dg_Reward (ds ! i) + x\<rparr>]) else None)"

definition reward_share :: "Dec \<Rightarrow> int \<Rightarrow> int option" where
  "reward_share percentage amount = Option.bind (dec_MulInt percentage (Some amount)) dec_RoundInt"

text \<open>The loop over the delegations of the snapshot. A delegator without a share ends it, and
  \<open>errors.Wrapf\<close> of a nil error is nil: the flag says whether the loop came to its end.\<close>

fun reward_loop ::
    "(address, Dec) gomap \<Rightarrow> int \<Rightarrow> nat \<Rightarrow> Delegation list \<Rightarrow> int \<Rightarrow> Delegation list \<Rightarrow> (bool \<times> int \<times> Delegation list) option" where
  "reward_loop shareLookup amount i [] rewardPool ds = Some (True, rewardPool, ds)"
| "reward_loop shareLookup amount i (delegation # snap) rewardPool ds =
     (case gm_get shareLookup (dg_DelegatorAddress delegation) of
        None \<Rightarrow> Some (False, rewardPool, ds)
      | Some percentage \<Rightarrow>
      case reward_share percentage amount of
        None \<Rightarrow> None
      | Some rewardInt \<Rightarrow>
      case pay_reward i rewardInt ds of
        None \<Rightarrow> None
      | Some ds \<Rightarrow> reward_loop shareLookup amount (Suc i) snap (rewardPool - rewardInt) ds)"

definition pay_commission :: "Dec \<Rightarrow> int \<Rightarrow> Delegation list \<Rightarrow> (int \<times> Delegation list) option" where
  "pay_commission r reward ds =
     (case dec_GT r ZeroDec of
        None \<Rightarrow> None
      | Some False \<Rightarrow> Some (reward, ds)
      | Some True \<Rightarrow>
          Option.bind (reward_share r reward) (\<lambda>commissionInt.
            map_option (\<lambda>ds. (reward - commissionInt, ds)) (pay_reward 0 commissionInt ds)))"

definition distribute_reward ::
    "ValidatorWrapper \<Rightarrow> int \<Rightarrow> (address, Dec) gomap \<Rightarrow> ValidatorWrapper \<Rightarrow> ValidatorWrapper option" where
  "distribute_reward snapshot reward shareLookup cur =
     (let cur = cur\<lparr>vw_BlockReward := vw_BlockReward cur + reward\<rparr>
      in case pay_commission (Rate (va_Commission (vw_Validator snapshot))) reward (vw_Delegations cur) of
           None \<Rightarrow> None
         | Some (rewardPool, ds) \<Rightarrow>
         case reward_loop shareLookup rewardPool 0 (vw_Delegations snapshot) rewardPool ds of
           None \<Rightarrow> None
         | Some (False, _, ds) \<Rightarrow> Some (cur\<lparr>vw_Delegations := ds\<rparr>)
         | Some (True, rewardPool, ds) \<Rightarrow>
             if 0 < rewardPool
             then map_option (\<lambda>ds. cur\<lparr>vw_Delegations := ds\<rparr>) (pay_reward 0 rewardPool ds)
             else Some (cur\<lparr>vw_Delegations := ds\<rparr>))"

text \<open>The validator that \<open>ValidatorWrapper\<close> returns is the cached one, so the changes stay in the
  cache.\<close>

definition AddReward ::
    "('d, 'tr) senv \<Rightarrow> ValidatorWrapper \<Rightarrow> int \<Rightarrow> (address, Dec) gomap \<Rightarrow> ('d, 'tr) SDB \<Rightarrow>
      (error option \<times> ('d, 'tr) SDB) option" where
  "AddReward E snapshot reward shareLookup db =
     (if reward = 0 then Some (None, db)
      else case sdb_ValidatorWrapper E (vw_Address snapshot) db of
        (Inl err, db) \<Rightarrow> Some (Some err, db)
      | (Inr curValidator, db) \<Rightarrow>
          if va_Status (vw_Validator curValidator) = Banned then Some (None, db)
          else map_option
                 (\<lambda>cur. (None, db\<lparr>stateValidators := gm_set (vw_Address snapshot) cur (stateValidators db)\<rparr>))
                 (distribute_reward snapshot reward shareLookup curValidator))"

end
