(* ===== verification/State_Transition.thy ===== *)
theory State_Transition
  imports Staking_Verify
begin

text \<open>
  Executing one transaction, \<open>core/state_transition.go\<close> with \<open>core/gaspool.go\<close>: buying gas, the
  intrinsic gas, the call of the virtual machine or the staking operation, the refund. The virtual
  machine and the decoding of staking messages are records of functions.
\<close>

section \<open>Gas\<close>

definition ErrOutOfGas :: error where "ErrOutOfGas = ''out of gas''"
definition ErrGasLimitReached :: error where "ErrGasLimitReached = ''gas limit reached''"
definition ErrNonceTooHigh :: error where "ErrNonceTooHigh = ''nonce too high''"
definition ErrNonceTooLow :: error where "ErrNonceTooLow = ''nonce too low''"
definition ErrInsufficientBalance :: error where "ErrInsufficientBalance = ''insufficient balance for transfer''"
definition ErrExecutionReverted :: error where "ErrExecutionReverted = ''evm: execution reverted''"
definition errInsufficientBalanceForGas :: error where
  "errInsufficientBalanceForGas = ''insufficient balance to pay for gas''"
definition errInvalidSigner :: error where "errInvalidSigner = ''invalid signer for staking transaction''"
definition ErrInvalidStakingKind :: error where "ErrInvalidStakingKind = ''bad staking kind''"
definition errNoChainContext :: error where "errNoChainContext = ''[CollectRewards] No chain context provided''"

definition MaxUint64 :: u64 where "MaxUint64 = - 1"
definition TxGas :: u64 where "TxGas = 21000"
definition TxGasContractCreation :: u64 where "TxGasContractCreation = 53000"
definition TxGasValidatorCreation :: u64 where "TxGasValidatorCreation = 5300000"
definition TxDataZeroGas :: u64 where "TxDataZeroGas = 4"
definition TxDataNonZeroGasFrontier :: u64 where "TxDataNonZeroGasFrontier = 68"
definition TxDataNonZeroGasEIP2028 :: u64 where "TxDataNonZeroGasEIP2028 = 16"

text \<open>The gas pool of a block.\<close>

definition gp_AddGas :: "u64 \<Rightarrow> u64 \<Rightarrow> u64 option" where
  "gp_AddGas amount gp = (if MaxUint64 - amount < gp then None else Some (gp + amount))"

definition gp_SubGas :: "u64 \<Rightarrow> u64 \<Rightarrow> error option \<times> u64" where
  "gp_SubGas amount gp = (if gp < amount then (Some ErrGasLimitReached, gp) else (None, gp - amount))"

fun count_nonzero :: "bytes \<Rightarrow> u64 \<Rightarrow> u64" where
  "count_nonzero [] nz = nz"
| "count_nonzero (b # bs) nz = count_nonzero bs (if b \<noteq> 0 then nz + 1 else nz)"

definition IntrinsicGas :: "bytes \<Rightarrow> bool \<Rightarrow> bool \<Rightarrow> bool \<Rightarrow> bool \<Rightarrow> error + u64" where
  "IntrinsicGas data contractCreation homestead istanbul isValidatorCreation =
     (let gas = (if contractCreation \<and> homestead then TxGasContractCreation
                 else if isValidatorCreation then TxGasValidatorCreation
                 else TxGas)
      in if 0 < length data
         then let nz = count_nonzero data 0;
                  nonZeroGas = (if istanbul then TxDataNonZeroGasEIP2028 else TxDataNonZeroGasFrontier)
              in if (MaxUint64 - gas) div nonZeroGas < nz then Inl ErrOutOfGas
                 else let gas = gas + nz * nonZeroGas;
                          z = of_nat (length data) - nz
                      in if (MaxUint64 - gas) div TxDataZeroGas < z then Inl ErrOutOfGas
                         else Inr (gas + z * TxDataZeroGas)
         else Inr gas)"

section \<open>The transition\<close>

record Message =
  msg_From :: address
  msg_To :: "address option"
  msg_GasPrice :: int
  msg_Gas :: u64
  msg_Value :: int
  msg_Nonce :: u64
  msg_CheckNonce :: bool
  msg_Data :: bytes
  msg_Type :: TransactionType
  msg_BlockNum :: "int option"

record ('d, 'tr) evm_env =
  EpochNumber :: "int option"
  BlockNumber :: int
  Coinbase :: address
  evm_Config :: ChainConfig
  evm_Create :: "address \<Rightarrow> bytes \<Rightarrow> u64 \<Rightarrow> int \<Rightarrow> ('d, 'tr) SDB \<Rightarrow>
    ((bytes \<times> address \<times> u64 \<times> error option) \<times> ('d, 'tr) SDB) option"
  evm_Call :: "address \<Rightarrow> address \<Rightarrow> bytes \<Rightarrow> u64 \<Rightarrow> int \<Rightarrow> ('d, 'tr) SDB \<Rightarrow>
    ((bytes \<times> u64 \<times> error option) \<times> ('d, 'tr) SDB) option"

record stk_codec =
  rlp_CreateValidator :: "bytes \<Rightarrow> error + CreateValidator"
  rlp_EditValidator :: "bytes \<Rightarrow> error + EditValidator"
  rlp_Delegate :: "bytes \<Rightarrow> error + Delegate"
  rlp_Undelegate :: "bytes \<Rightarrow> error + Undelegate"
  rlp_CollectRewards :: "bytes \<Rightarrow> error + CollectRewards"

text \<open>\<open>StateTransition\<close>: the fields that change. The message, the virtual machine and the chain
  context are arguments; \<open>gasPrice\<close>, \<open>value\<close> and \<open>data\<close> are those of the message.\<close>

record ('d, 'tr) StateTransition =
  st_gp :: u64
  st_gas :: u64
  st_initialGas :: u64
  st_state :: "('d, 'tr) SDB"

record ExecutionResult =
  er_ReturnData :: bytes
  er_UsedGas :: u64
  er_VMErr :: "error option"

definition er_Failed :: "ExecutionResult \<Rightarrow> bool" where
  "er_Failed r = (er_VMErr r \<noteq> None)"

definition er_Return :: "ExecutionResult \<Rightarrow> bytes option" where
  "er_Return r = (if er_VMErr r \<noteq> None then None else Some (er_ReturnData r))"

definition er_Unwrap :: "ExecutionResult \<Rightarrow> error option" where
  "er_Unwrap r = er_VMErr r"

definition er_Revert :: "ExecutionResult \<Rightarrow> bytes option" where
  "er_Revert r = (if er_VMErr r \<noteq> Some ErrExecutionReverted then None else Some (er_ReturnData r))"

definition NewStateTransition :: "u64 \<Rightarrow> ('d, 'tr) SDB \<Rightarrow> ('d, 'tr) StateTransition" where
  "NewStateTransition gp state = \<lparr>st_gp = gp, st_gas = 0, st_initialGas = 0, st_state = state\<rparr>"

text \<open>A computation on the account state, run on the state of a transition.\<close>

definition on_state :: "(('d, 'tr) SDB, 'a) go \<Rightarrow> (('d, 'tr) StateTransition, 'a) go" where
  "on_state m st = map_option (\<lambda>(r, db). (r, st\<lparr>st_state := db\<rparr>)) (m (st_state st))"

definition st_to :: "Message \<Rightarrow> address" where
  "st_to msg = (case msg_To msg of None \<Rightarrow> 0 | Some a \<Rightarrow> a)"

definition st_useGas :: "u64 \<Rightarrow> (('d, 'tr) StateTransition, unit) go" where
  "st_useGas amount st =
     (if st_gas st < amount then go_fail ErrOutOfGas st else go_return () (st\<lparr>st_gas := st_gas st - amount\<rparr>))"

definition st_gasUsed :: "('d, 'tr) StateTransition \<Rightarrow> u64" where
  "st_gasUsed st = st_initialGas st - st_gas st"

definition st_buyGas :: "('d, 'tr) senv \<Rightarrow> Message \<Rightarrow> (('d, 'tr) StateTransition, unit) go" where
  "st_buyGas E msg st =
     (let mgval = uint (msg_Gas msg) * msg_GasPrice msg
      in case sdb_GetBalance E (msg_From msg) (st_state st) of (have_bal, db) \<Rightarrow>
         let st = st\<lparr>st_state := db\<rparr>
         in if have_bal < mgval then go_fail errInsufficientBalanceForGas st
            else case gp_SubGas (msg_Gas msg) (st_gp st) of
                   (Some err, gp) \<Rightarrow> go_fail err (st\<lparr>st_gp := gp\<rparr>)
                 | (None, gp) \<Rightarrow>
                     go_return () (st\<lparr>st_gp := gp, st_gas := st_gas st + msg_Gas msg, st_initialGas := msg_Gas msg,
                       st_state := sdb_SubBalance E (msg_From msg) mgval (st_state st)\<rparr>))"

definition st_preCheck :: "('d, 'tr) senv \<Rightarrow> Message \<Rightarrow> (('d, 'tr) StateTransition, unit) go" where
  "st_preCheck E msg st =
     (if msg_CheckNonce msg
      then case sdb_GetNonce E (msg_From msg) (st_state st) of (nonce, db) \<Rightarrow>
           let st = st\<lparr>st_state := db\<rparr>
           in if nonce < msg_Nonce msg then go_fail ErrNonceTooHigh st
              else if msg_Nonce msg < nonce then go_fail ErrNonceTooLow st
              else st_buyGas E msg st
      else st_buyGas E msg st)"

definition st_refundGas :: "('d, 'tr) senv \<Rightarrow> Message \<Rightarrow> ('d, 'tr) StateTransition \<Rightarrow> ('d, 'tr) StateTransition option" where
  "st_refundGas E msg st =
     (let refund = st_gasUsed st div 2;
          refund = (if sdb_GetRefund (st_state st) < refund then sdb_GetRefund (st_state st) else refund);
          st = st\<lparr>st_gas := st_gas st + refund\<rparr>;
          remaining = uint (st_gas st) * msg_GasPrice msg;
          st = st\<lparr>st_state := sdb_AddBalance E (msg_From msg) remaining (st_state st)\<rparr>
      in map_option (\<lambda>gp. st\<lparr>st_gp := gp\<rparr>) (gp_AddGas (st_gas st) (st_gp st)))"

definition st_incNonce :: "('d, 'tr) senv \<Rightarrow> Message \<Rightarrow> ('d, 'tr) StateTransition \<Rightarrow> ('d, 'tr) StateTransition" where
  "st_incNonce E msg st =
     (case sdb_GetNonce E (msg_From msg) (st_state st) of (n, db) \<Rightarrow>
        st\<lparr>st_state := sdb_SetNonce E (msg_From msg) (n + 1) db\<rparr>)"

definition st_intrinsic ::
    "('d, 'tr) evm_env \<Rightarrow> Message \<Rightarrow> bool \<Rightarrow> bool \<Rightarrow> (('d, 'tr) StateTransition, unit) go" where
  "st_intrinsic V msg contractCreation isValidatorCreation =
     go_sum (IntrinsicGas (msg_Data msg) contractCreation (IsS3 (evm_Config V) (EpochNumber V))
               (IsIstanbul (evm_Config V) (EpochNumber V)) isValidatorCreation)
       (\<lambda>gas. st_useGas gas)"

text \<open>The call of the virtual machine: its output, the gas that is left, and its error.\<close>

definition st_run ::
    "('d, 'tr) senv \<Rightarrow> ('d, 'tr) evm_env \<Rightarrow> Message \<Rightarrow> (('d, 'tr) StateTransition, bytes \<times> error option) go" where
  "st_run E V msg st =
     (case msg_To msg of
        None \<Rightarrow>
          (case evm_Create V (msg_From msg) (msg_Data msg) (st_gas st) (msg_Value msg) (st_state st) of
             None \<Rightarrow> None
           | Some ((ret, _, gas, vmErr), db) \<Rightarrow> go_return (ret, vmErr) (st\<lparr>st_gas := gas, st_state := db\<rparr>))
      | Some _ \<Rightarrow>
          let st = st_incNonce E msg st
          in case evm_Call V (msg_From msg) (st_to msg) (msg_Data msg) (st_gas st) (msg_Value msg) (st_state st) of
               None \<Rightarrow> None
             | Some ((ret, gas, vmErr), db) \<Rightarrow> go_return (ret, vmErr) (st\<lparr>st_gas := gas, st_state := db\<rparr>))"

definition st_payCoinbase ::
    "('d, 'tr) senv \<Rightarrow> ('d, 'tr) evm_env \<Rightarrow> Message \<Rightarrow> ('d, 'tr) StateTransition \<Rightarrow> ('d, 'tr) StateTransition" where
  "st_payCoinbase E V msg st =
     (if \<not> IsStaking (evm_Config V) (EpochNumber V)
      then st\<lparr>st_state := sdb_AddBalance E (Coinbase V) (uint (st_gasUsed st) * msg_GasPrice msg) (st_state st)\<rparr>
      else st)"

definition TransitionDb ::
    "('d, 'tr) senv \<Rightarrow> ('d, 'tr) evm_env \<Rightarrow> Message \<Rightarrow> (('d, 'tr) StateTransition, ExecutionResult) go" where
  "TransitionDb E V msg =
     go_bind (st_preCheck E msg) (\<lambda>_.
     go_bind (st_intrinsic V msg (msg_To msg = None) False) (\<lambda>_.
     go_bind (st_run E V msg) (\<lambda>(ret, vmErr).
     if vmErr = Some ErrInsufficientBalance then go_fail ErrInsufficientBalance
     else go_do_opt (st_refundGas E msg)
         (go_do (st_payCoinbase E V msg)
         (\<lambda>st. go_return \<lparr>er_ReturnData = ret, er_UsedGas = st_gasUsed st, er_VMErr = vmErr\<rparr> st)))))"

definition ApplyMessage ::
    "('d, 'tr) senv \<Rightarrow> ('d, 'tr) evm_env \<Rightarrow> Message \<Rightarrow> u64 \<Rightarrow> ('d, 'tr) SDB \<Rightarrow>
      ((error + ExecutionResult) \<times> ('d, 'tr) StateTransition) option" where
  "ApplyMessage E V msg gp db = TransitionDb E V msg (NewStateTransition gp db)"

section \<open>Staking operations\<close>

text \<open>\<open>big.Int.Bytes\<close>: the magnitude, most significant byte first, without leading zeros.\<close>

fun nat_bytes :: "nat \<Rightarrow> bytes" where
  "nat_bytes n = (if n = 0 then [] else nat_bytes (n div 256) @ [of_nat (n mod 256)])"

definition big_Bytes :: "int \<Rightarrow> bytes" where
  "big_Bytes i = nat_bytes (nat \<bar>i\<bar>)"

definition address_bytes :: "address \<Rightarrow> bytes" where
  "address_bytes a = rev (map (\<lambda>i. ucast (drop_bit (8 * i) a)) [0..<20])"

definition DelegateTopic :: "('d, 'tr) senv \<Rightarrow> hash" where
  "DelegateTopic E = Keccak256Hash E (ascii ''Harmony/Delegate'')"

definition CollectRewardsTopic :: "('d, 'tr) senv \<Rightarrow> hash" where
  "CollectRewardsTopic E = Keccak256Hash E (ascii ''Harmony/CollectRewards'')"

definition staking_log :: "address \<Rightarrow> hash \<Rightarrow> bytes \<Rightarrow> int \<Rightarrow> Log" where
  "staking_log a topic data blockNumber =
     \<lparr>log_Address = a, log_Topics = [topic], log_Data = data, log_BlockNumber = word_of_int blockNumber,
      log_TxHash = 0, log_TxIndex = 0, log_BlockHash = 0, log_Index = 0, log_Removed = False\<rparr>"

definition update_wrapper :: "('d, 'tr) senv \<Rightarrow> ValidatorWrapper \<Rightarrow> (('d, 'tr) SDB, unit) go" where
  "update_wrapper E wrapper = go_call_err (sdb_UpdateValidatorWrapper E (vw_Address wrapper) wrapper) (go_return ())"

definition verifyAndApplyCreateValidatorTx ::
    "('d, 'tr) senv \<Rightarrow> ('pk, 'sg) bls_env \<Rightarrow> chain_env option \<Rightarrow> ('d, 'tr) evm_env \<Rightarrow> CreateValidator \<Rightarrow> int option \<Rightarrow>
      (('d, 'tr) SDB, unit) go" where
  "verifyAndApplyCreateValidatorTx E B bc V createValidator blockNum =
     go_bind (VerifyAndCreateValidatorFromMsg E B bc (EpochNumber V) blockNum createValidator) (\<lambda>wrapper.
     go_bind (update_wrapper E wrapper) (\<lambda>_.
     go_do_opt (sdb_SetValidatorFlag E (cv_ValidatorAddress createValidator))
    (go_do (sdb_SubBalance E (cv_ValidatorAddress createValidator) (cv_Amount createValidator)) (go_return ()))))"

definition verifyAndApplyEditValidatorTx ::
    "('d, 'tr) senv \<Rightarrow> ('pk, 'sg) bls_env \<Rightarrow> chain_env option \<Rightarrow> ('d, 'tr) evm_env \<Rightarrow> EditValidator \<Rightarrow> int option \<Rightarrow>
      (('d, 'tr) SDB, unit) go" where
  "verifyAndApplyEditValidatorTx E B bc V editValidator blockNum =
     go_bind (VerifyAndEditValidatorFromMsg E B bc (EpochNumber V) blockNum editValidator) (update_wrapper E)"

text \<open>The log of a redelegation: one entry for a validator, in the order of the addresses.\<close>

definition redelegation_logs :: "('d, 'tr) senv \<Rightarrow> address \<Rightarrow> int \<Rightarrow> (address, int) gomap \<Rightarrow> ('d, 'tr) SDB \<Rightarrow> ('d, 'tr) SDB" where
  "redelegation_logs E delegator blockNumber fromLockedTokens =
     fold (\<lambda>key. sdb_AddLog (staking_log delegator (DelegateTopic E)
             (address_bytes key @ big_Bytes (gm_getd 0 fromLockedTokens key)) blockNumber))
       (sort (gm_keys fromLockedTokens))"

definition verifyAndApplyDelegateTx ::
    "('d, 'tr) senv \<Rightarrow> chain_env option \<Rightarrow> ('d, 'tr) evm_env \<Rightarrow> Delegate \<Rightarrow> (('d, 'tr) SDB, unit) go" where
  "verifyAndApplyDelegateTx E bc V delegate =
     go_opt bc (\<lambda>bc.
     go_sum (ReadDelegationsByDelegator bc (de_DelegatorAddress delegate)) (\<lambda>delegations.
     go_bind (VerifyAndDelegateFromMsg E (EpochNumber V) delegate delegations (evm_Config V))
       (\<lambda>(updatedValidatorWrappers, balanceToBeDeducted, fromLockedTokens).
     go_bind (go_fold (\<lambda>wrapper _. update_wrapper E wrapper) updatedValidatorWrappers ()) (\<lambda>_.
     go_do (sdb_SubBalance E (de_DelegatorAddress delegate) balanceToBeDeducted)
    (go_do (redelegation_logs E (de_DelegatorAddress delegate) (BlockNumber V) fromLockedTokens)
    (go_return ()))))))"

definition verifyAndApplyUndelegateTx ::
    "('d, 'tr) senv \<Rightarrow> ('d, 'tr) evm_env \<Rightarrow> Undelegate \<Rightarrow> (('d, 'tr) SDB, unit) go" where
  "verifyAndApplyUndelegateTx E V undelegate =
     go_bind (VerifyAndUndelegateFromMsg E (EpochNumber V) undelegate) (update_wrapper E)"

definition verifyAndApplyCollectRewards ::
    "('d, 'tr) senv \<Rightarrow> chain_env option \<Rightarrow> ('d, 'tr) evm_env \<Rightarrow> CollectRewards \<Rightarrow> (('d, 'tr) SDB, int) go" where
  "verifyAndApplyCollectRewards E bc V collectRewards =
     (case bc of None \<Rightarrow> go_fail errNoChainContext | Some bc \<Rightarrow>
      go_sum (ReadDelegationsByDelegator bc (co_DelegatorAddress collectRewards)) (\<lambda>delegations.
      go_bind (VerifyAndCollectRewardsFromDelegation E delegations) (\<lambda>(updatedValidatorWrappers, totalRewards).
      go_bind (go_fold (\<lambda>wrapper _. update_wrapper E wrapper) updatedValidatorWrappers ()) (\<lambda>_.
      go_do (sdb_AddBalance E (co_DelegatorAddress collectRewards) totalRewards)
     (go_do (sdb_AddLog (staking_log (co_DelegatorAddress collectRewards) (CollectRewardsTopic E)
               (big_Bytes totalRewards) (BlockNumber V)))
     (go_return totalRewards))))))"

text \<open>The staking operation of a message. An error of the operation itself does not end
  \<open>StakingTransitionDb\<close>: it is returned with the gas used; an error while the message is read does.\<close>

definition staking_op ::
    "('d, 'tr) senv \<Rightarrow> ('pk, 'sg) bls_env \<Rightarrow> stk_codec \<Rightarrow> chain_env option \<Rightarrow> ('d, 'tr) evm_env \<Rightarrow> Message \<Rightarrow>
      error + (('d, 'tr) SDB, unit) go" where
  "staking_op E B C bc V msg =
     (case msg_Type msg of
        StakeCreateVal \<Rightarrow>
          (case rlp_CreateValidator C (msg_Data msg) of Inl err \<Rightarrow> Inl err | Inr m \<Rightarrow>
           if msg_From msg \<noteq> cv_ValidatorAddress m then Inl errInvalidSigner
           else Inr (verifyAndApplyCreateValidatorTx E B bc V m (msg_BlockNum msg)))
      | StakeEditVal \<Rightarrow>
          (case rlp_EditValidator C (msg_Data msg) of Inl err \<Rightarrow> Inl err | Inr m \<Rightarrow>
           if msg_From msg \<noteq> ev_ValidatorAddress m then Inl errInvalidSigner
           else Inr (verifyAndApplyEditValidatorTx E B bc V m (msg_BlockNum msg)))
      | TransactionType.Delegate \<Rightarrow>
          (case rlp_Delegate C (msg_Data msg) of Inl err \<Rightarrow> Inl err | Inr m \<Rightarrow>
           if msg_From msg \<noteq> de_DelegatorAddress m then Inl errInvalidSigner
           else Inr (verifyAndApplyDelegateTx E bc V m))
      | TransactionType.Undelegate \<Rightarrow>
          (case rlp_Undelegate C (msg_Data msg) of Inl err \<Rightarrow> Inl err | Inr m \<Rightarrow>
           if msg_From msg \<noteq> un_DelegatorAddress m then Inl errInvalidSigner
           else Inr (verifyAndApplyUndelegateTx E V m))
      | TransactionType.CollectRewards \<Rightarrow>
          (case rlp_CollectRewards C (msg_Data msg) of Inl err \<Rightarrow> Inl err | Inr m \<Rightarrow>
           if msg_From msg \<noteq> co_DelegatorAddress m then Inl errInvalidSigner
           else Inr (go_bind (verifyAndApplyCollectRewards E bc V m) (\<lambda>_. go_return ())))
      | _ \<Rightarrow> Inl ErrInvalidStakingKind)"

text \<open>The error of a computation as a value.\<close>

definition go_result :: "('s, unit) go \<Rightarrow> ('s, error option) go" where
  "go_result m s = map_option (\<lambda>(r, s). (Inr (case r of Inl err \<Rightarrow> Some err | Inr _ \<Rightarrow> None), s)) (m s)"

definition StakingTransitionDb ::
    "('d, 'tr) senv \<Rightarrow> ('pk, 'sg) bls_env \<Rightarrow> stk_codec \<Rightarrow> chain_env option \<Rightarrow> ('d, 'tr) evm_env \<Rightarrow> Message \<Rightarrow>
      (('d, 'tr) StateTransition, u64 \<times> error option) go" where
  "StakingTransitionDb E B C bc V msg =
     go_bind (st_preCheck E msg) (\<lambda>_.
     go_bind (st_intrinsic V msg False (msg_Type msg = StakeCreateVal)) (\<lambda>_.
     go_do (st_incNonce E msg)
    (go_sum (staking_op E B C bc V msg) (\<lambda>m.
     go_bind (on_state (go_result m)) (\<lambda>err.
     go_do_opt (st_refundGas E msg)
    (\<lambda>st. go_return (st_gasUsed st, err) st))))))"

definition ApplyStakingMessage ::
    "('d, 'tr) senv \<Rightarrow> ('pk, 'sg) bls_env \<Rightarrow> stk_codec \<Rightarrow> chain_env option \<Rightarrow> ('d, 'tr) evm_env \<Rightarrow> Message \<Rightarrow> u64 \<Rightarrow>
      ('d, 'tr) SDB \<Rightarrow> ((error + u64 \<times> error option) \<times> ('d, 'tr) StateTransition) option" where
  "ApplyStakingMessage E B C bc V msg gp db = StakingTransitionDb E B C bc V msg (NewStateTransition gp db)"

end
