(* ===== verification/Validator_Props.thy ===== *)
theory Validator_Props
  imports Validator
begin

text \<open>
  Properties of delegations and validators: undelegating moves tokens and keeps the entries sorted,
  what is paid out when the lock period is over, and what the checks of a validator mean.
\<close>

section \<open>Undelegating\<close>

definition entry_at :: "int \<Rightarrow> Undelegation list \<Rightarrow> int" where
  "entry_at epoch us = entries_total (filter (\<lambda>u. ud_Epoch u = epoch) us)"

lemma entry_at_simps [simp]:
  "entry_at e [] = 0" "entry_at e (u # us) = (if ud_Epoch u = e then ud_Amount u else 0) + entry_at e us"
  "entry_at e (us @ vs) = entry_at e us + entry_at e vs"
  by (simp_all add: entry_at_def)

lemma entry_at_sort: "entry_at e (sort_key ud_Epoch us) = entry_at e us"
  unfolding entry_at_def filter_sort by (rule entries_total_sort)

lemma add_to_entry_at:
  "add_to_entry epoch amt us = Some us' \<Longrightarrow> entry_at e us' = entry_at e us + (if e = epoch then amt else 0)"
  by (induction us arbitrary: us') (auto split: if_splits)

lemma dg_Undelegate_spec:
  assumes "dg_wf d"
  shows "case dg_Undelegate epoch amt d of
       (None, d') \<Rightarrow> 0 < amt \<and> amt \<le> dg_Amount d \<and> dg_Amount d' = dg_Amount d - amt
         \<and> (\<forall>e. entry_at e (dg_Undelegations d') = entry_at e (dg_Undelegations d) + (if e = epoch then amt else 0))
         \<and> dg_holding d' = dg_holding d \<and> dg_Reward d' = dg_Reward d \<and> dg_wf d'
     | (Some err, d') \<Rightarrow> d' = d \<and> (amt \<le> 0 \<or> dg_Amount d < amt)"
proof (cases "0 < amt \<and> amt \<le> dg_Amount d")
  case True
  show ?thesis
  proof (cases "add_to_entry epoch amt (dg_Undelegations d)")
    case (Some us)
    with True assms add_to_entry_Some [OF Some] add_to_entry_at [OF Some] show ?thesis
      by (auto simp: dg_Undelegate_def dg_holding_def dg_wf_def)
  next
    case None
    then have "epoch \<notin> ud_Epoch ` set (dg_Undelegations d)" by (simp add: add_to_entry_None)
    with True assms have "entries_wf (sort_key ud_Epoch (dg_Undelegations d @ [\<lparr>ud_Amount = amt, ud_Epoch = epoch\<rparr>]))"
      by (intro entries_wf_insert) (auto simp: dg_wf_def)
    with True None assms show ?thesis
      by (auto simp: dg_Undelegate_def dg_holding_def dg_wf_def entries_total_sort entry_at_sort simp del: sort_key_simps)
  qed
next
  case False
  then show ?thesis by (auto simp: dg_Undelegate_def)
qed

text \<open>(C19) Undelegating succeeds exactly for a positive amount that is delegated. It moves that
  amount to the entry of the epoch and touches no other entry, so the tokens of the delegation stay
  the same, and it keeps the invariant: entries sorted, one for an epoch, none empty. A failing call
  changes nothing.\<close>

theorem undelegate_moves:
  assumes "dg_wf d"
  shows "case dg_Undelegate epoch amt d of
       (None, d') \<Rightarrow> 0 < amt \<and> amt \<le> dg_Amount d \<and> dg_Amount d' = dg_Amount d - amt
         \<and> (\<forall>e. entry_at e (dg_Undelegations d') = entry_at e (dg_Undelegations d) + (if e = epoch then amt else 0))
         \<and> dg_holding d' = dg_holding d \<and> dg_Reward d' = dg_Reward d \<and> dg_wf d'
     | (Some err, d') \<Rightarrow> d' = d \<and> (amt \<le> 0 \<or> dg_Amount d < amt)"
  using assms by (rule dg_Undelegate_spec)

definition demo_delegation :: Delegation where
  "demo_delegation = \<lparr>dg_DelegatorAddress = 9, dg_Amount = 50, dg_Reward = 3,
     dg_Undelegations = [\<lparr>ud_Amount = 5, ud_Epoch = 2\<rparr>, \<lparr>ud_Amount = 7, ud_Epoch = 6\<rparr>]\<rparr>"

lemma demo_delegation_wf: "dg_wf demo_delegation"
  by (simp add: dg_wf_def demo_delegation_def)

theorem undelegate_moves_witness:
  "\<exists>d'. dg_Undelegate 4 20 demo_delegation = (None, d') \<and> dg_Amount d' = 30
     \<and> map ud_Epoch (dg_Undelegations d') = [2, 4, 6] \<and> dg_holding d' = dg_holding demo_delegation"
  using undelegate_moves [OF demo_delegation_wf, where epoch = 4 and amt = 20]
  by (simp add: dg_Undelegate_def demo_delegation_def)

section \<open>Unlocking\<close>

lemma remove_unlocked_loop_eq:
  "remove_unlocked_loop p us t = (t + entries_total (takeWhile p us), dropWhile p us)"
  by (induction us arbitrary: t) auto

lemma big_Int64_id: "- (2 ^ 63) \<le> i \<Longrightarrow> i < 2 ^ 63 \<Longrightarrow> big_Int64 i = i"
  by (simp add: big_Int64_def sint_sbintrunc' signed_take_bit_int_eq_self)

lemma dropWhile_sorted_filter:
  assumes "sorted_wrt R us" and "\<And>u v. R u v \<Longrightarrow> p v \<Longrightarrow> p u"
  shows "takeWhile p us = filter p us \<and> dropWhile p us = filter (\<lambda>u. \<not> p u) us"
  using assms(1)
proof (induction us)
  case (Cons u us)
  show ?case
  proof (cases "p u")
    case False
    with Cons.prems assms(2) have "\<forall>v\<in>set us. \<not> p v" by auto
    with False show ?thesis by simp
  qed (use Cons in simp)
qed simp

definition epochs_small :: "int \<Rightarrow> Delegation \<Rightarrow> bool" where
  "epochs_small cur d \<longleftrightarrow> 0 \<le> cur \<and> cur < 2 ^ 62 \<and> (\<forall>u\<in>set (dg_Undelegations d). 0 \<le> ud_Epoch u \<and> ud_Epoch u < 2 ^ 62)"

text \<open>(C20) The loop that stops at the first locked entry pays out exactly the entries whose lock
  period is over and keeps exactly the others: the result is a filter of the entries, because they
  are sorted. When early unlocks are on and the validator has been out of the committee for the
  lock period, every entry is paid out and none is kept. No token is lost. The epochs are assumed
  to be less than \<open>2^62\<close>, so that their differences are not cut by the conversion to 64 bits.\<close>

theorem remove_unlocked_filter:
  assumes "dg_wf d" and "epochs_small cur d" and "\<not> noEarlyUnlock \<longrightarrow> 0 \<le> lastEpoch \<and> lastEpoch < 2 ^ 62"
    and "early \<longleftrightarrow> \<not> noEarlyUnlock \<and> lastEpoch + lockPeriod \<le> cur"
  shows "RemoveUnlockedUndelegations cur lastEpoch lockPeriod noEarlyUnlock d =
      (if early then (entries_total (dg_Undelegations d), d\<lparr>dg_Undelegations := []\<rparr>)
       else (entries_total (filter (\<lambda>u. ud_Epoch u + lockPeriod \<le> cur) (dg_Undelegations d)),
             d\<lparr>dg_Undelegations := filter (\<lambda>u. cur < ud_Epoch u + lockPeriod) (dg_Undelegations d)\<rparr>))
    \<and> fst (RemoveUnlockedUndelegations cur lastEpoch lockPeriod noEarlyUnlock d)
      + dg_holding (snd (RemoveUnlockedUndelegations cur lastEpoch lockPeriod noEarlyUnlock d)) = dg_holding d"
proof -
  let ?us = "dg_Undelegations d" and ?p = "undelegation_unlocked cur lastEpoch lockPeriod noEarlyUnlock"
  let ?q = "\<lambda>u. early \<or> ud_Epoch u + lockPeriod \<le> cur"
  have p: "?p u \<longleftrightarrow> ?q u" if "u \<in> set ?us" for u
  proof -
    from assms(2) that have "- (2 ^ 63) \<le> cur - ud_Epoch u" "cur - ud_Epoch u < 2 ^ 63"
      by (auto simp: epochs_small_def dest!: bspec)
    moreover from assms(2,3) have "\<not> noEarlyUnlock \<Longrightarrow> big_Int64 (cur - lastEpoch) = cur - lastEpoch"
      by (intro big_Int64_id) (auto simp: epochs_small_def)
    ultimately show ?thesis using assms(4) by (auto simp: undelegation_unlocked_def big_Int64_id)
  qed
  have w: "takeWhile ?p ?us = takeWhile ?q ?us" "dropWhile ?p ?us = dropWhile ?q ?us"
    by (rule takeWhile_cong [OF refl p], simp) (rule dropWhile_cong [OF refl p], simp)
  from assms(1) have sorted: "sorted_wrt (\<lambda>u v. ud_Epoch u < ud_Epoch v) ?us" by (simp add: dg_wf_def entries_wf_def)
  have "takeWhile ?q ?us = filter ?q ?us \<and> dropWhile ?q ?us = filter (\<lambda>u. \<not> ?q u) ?us"
  proof (rule dropWhile_sorted_filter [OF sorted])
    show "?q u" if "ud_Epoch u < ud_Epoch v" "?q v" for u v using that by linarith
  qed
  then have f: "takeWhile ?q ?us = filter ?q ?us"
      "dropWhile ?q ?us = filter (\<lambda>u. \<not> early \<and> cur < ud_Epoch u + lockPeriod) ?us"
    by (simp_all add: not_le)
  have split: "entries_total (takeWhile ?q ?us) + entries_total (dropWhile ?q ?us) = entries_total ?us"
    using entries_total_simps(3) [of "takeWhile ?q ?us" "dropWhile ?q ?us"] by simp
  have run: "RemoveUnlockedUndelegations cur lastEpoch lockPeriod noEarlyUnlock d =
      (entries_total (takeWhile ?q ?us), d\<lparr>dg_Undelegations := dropWhile ?q ?us\<rparr>)"
    by (simp add: RemoveUnlockedUndelegations_def remove_unlocked_loop_eq w)
  then show ?thesis using split unfolding run f by (cases early) (simp_all add: dg_holding_def)
qed

theorem remove_unlocked_filter_witness:
  "fst (RemoveUnlockedUndelegations 10 0 7 True demo_delegation) = 5
   \<and> dg_Undelegations (snd (RemoveUnlockedUndelegations 10 0 7 True demo_delegation)) = [\<lparr>ud_Amount = 7, ud_Epoch = 6\<rparr>]
   \<and> fst (RemoveUnlockedUndelegations 10 3 7 False demo_delegation) = 12
   \<and> fst (RemoveUnlockedUndelegations 10 4 7 False demo_delegation) = 5"
proof -
  have "epochs_small 10 demo_delegation" by (simp add: epochs_small_def demo_delegation_def)
  note r = remove_unlocked_filter [OF demo_delegation_wf this _ refl, where lockPeriod = 7]
  from r [of True 0] r [of False 3] r [of False 4] show ?thesis by (simp add: demo_delegation_def)
qed

text \<open>\<open>DeleteEntry\<close> of an epoch without an entry drops all entries.\<close>

lemma delete_entry_loop_none:
  "\<forall>i\<in>set is. ud_Epoch (arr ! i) \<noteq> epoch \<Longrightarrow> delete_entry_loop epoch n is arr found = (arr, found)"
  by (induction "is") auto

lemma delete_entry_missing:
  assumes "epoch \<notin> ud_Epoch ` set (dg_Undelegations d)"
  shows "dg_Undelegations (dg_DeleteEntry epoch d) = []"
proof -
  have "\<forall>i\<in>set [0..<length (dg_Undelegations d)]. ud_Epoch (dg_Undelegations d ! i) \<noteq> epoch"
    using assms by force
  from delete_entry_loop_none [OF this] show ?thesis by (simp add: dg_DeleteEntry_def)
qed

section \<open>Checks\<close>

lemma duplicate_keys_iff: "duplicate_keys acc ks \<longleftrightarrow> \<not> (distinct ks \<and> set acc \<inter> set ks = {})"
  by (induction ks arbitrary: acc) auto

definition desc_ok :: "Description \<Rightarrow> bool" where
  "desc_ok d \<longleftrightarrow> length (ds_Name d) \<le> 140 \<and> length (ds_Identity d) \<le> 140 \<and> length (ds_Website d) \<le> 140
     \<and> length (ds_SecurityContact d) \<le> 140 \<and> length (ds_Details d) \<le> 280"

lemma EnsureLength_ok: "EnsureLength d = Inr d' \<longleftrightarrow> d' = d \<and> desc_ok d"
  by (auto simp: EnsureLength_def desc_ok_def MaxNameLength_def MaxIdentityLength_def MaxWebsiteLength_def
      MaxSecurityContactLength_def MaxDetailsLength_def)

lemma EnsureLength_cases: "EnsureLength d = (if desc_ok d then Inr d else Inl errDescription)"
  by (auto simp: EnsureLength_def desc_ok_def MaxNameLength_def MaxIdentityLength_def MaxWebsiteLength_def
      MaxSecurityContactLength_def MaxDetailsLength_def)

text \<open>The rates as numbers of units of \<open>10 ^ -18\<close>.\<close>

definition rates_ok :: "'z CommissionRates_scheme \<Rightarrow> bool" where
  "rates_ok c \<longleftrightarrow> (\<exists>r m ch. Rate c = Some r \<and> MaxRate c = Some m \<and> MaxChangeRate c = Some ch
     \<and> 0 \<le> r \<and> r \<le> m \<and> m \<le> 10 ^ 18 \<and> 0 \<le> ch \<and> ch \<le> m)"

definition va_ok :: "Validator \<Rightarrow> bool" where
  "va_ok v \<longleftrightarrow> desc_ok (va_Description v) \<and> va_SlotPubKeys v \<noteq> [] \<and> length (va_SlotPubKeys v) \<le> 106
     \<and> distinct (va_SlotPubKeys v) \<and> rates_ok (va_Commission v)
     \<and> (\<exists>lo hi. va_MinSelfDelegation v = Some lo \<and> va_MaxTotalDelegation v = Some hi \<and> 10 ^ 22 \<le> lo \<and> lo \<le> hi)"

definition vw_ok :: "ValidatorWrapper \<Rightarrow> bool" where
  "vw_ok w \<longleftrightarrow> va_ok (vw_Validator w) \<and> vw_Delegations w \<noteq> []
     \<and> (va_Status (vw_Validator w) = Active \<longrightarrow> the (va_MinSelfDelegation (vw_Validator w)) \<le> dg_Amount (hd (vw_Delegations w)))
     \<and> (\<Sum>d\<leftarrow>vw_Delegations w. dg_Amount d) \<le> the (va_MaxTotalDelegation (vw_Validator w))"

lemma err_if_ok: "err_if b e k = Some None \<longleftrightarrow> b = Some False \<and> k = Some None"
  by (auto simp: err_if_def split: option.split bool.split)

lemma orElse_False: "orElse a b = Some False \<longleftrightarrow> a = Some False \<and> b = Some False"
  by (auto simp: orElse_def split: option.split bool.split)

lemma dec_cmp_False:
  "dec_LT x (Some y) = Some False \<longleftrightarrow> (\<exists>i. x = Some i \<and> y \<le> i)"
  "dec_GT x (Some y) = Some False \<longleftrightarrow> (\<exists>i. x = Some i \<and> i \<le> y)"
  "dec_GT (Some i) x' = Some False \<longleftrightarrow> (\<exists>j. x' = Some j \<and> i \<le> j)"
  by (auto simp: dec_LT_def dec_GT_def dec_cmp_def split: option.splits)

lemma va_SanityCheck_ok: "va_SanityCheck v = Some None \<longleftrightarrow> va_ok v"
proof -
  have r: "orElse (dec_LT x zeroPercent) (dec_GT x hundredPercent) = Some False
      \<longleftrightarrow> (\<exists>i. x = Some i \<and> 0 \<le> i \<and> i \<le> 10 ^ 18)" for x
    by (auto simp: orElse_False zeroPercent_def hundredPercent_def dec_cmp_False)
  show ?thesis
    by (auto simp: va_SanityCheck_def va_ok_def Let_def EnsureLength_cases err_if_ok r dec_cmp_False(3) rates_ok_def
        duplicate_keys_iff MaxBLSPerValidator_def minimumStake_def denominations_One_def split: option.splits)
qed

lemma vw_check_ok: "vw_SanityCheck w = Some None \<longleftrightarrow> vw_ok w"
proof (cases "va_ok (vw_Validator w)")
  case True
  then obtain lo hi where "va_MinSelfDelegation (vw_Validator w) = Some lo" "va_MaxTotalDelegation (vw_Validator w) = Some hi"
    by (auto simp: va_ok_def)
  with True va_SanityCheck_ok [of "vw_Validator w"] show ?thesis
    by (auto simp: vw_SanityCheck_def vw_ok_def Let_def TotalDelegation_eq Active_def Banned_def split: list.split)
next
  case False
  with va_SanityCheck_ok [of "vw_Validator w"] have "va_SanityCheck (vw_Validator w) \<noteq> Some None" by simp
  with False show ?thesis
    by (auto simp: vw_SanityCheck_def vw_ok_def Let_def split: option.splits)
qed

lemma va_check_total:
  assumes "Rate (va_Commission v) \<noteq> None" and "MaxRate (va_Commission v) \<noteq> None" and "MaxChangeRate (va_Commission v) \<noteq> None"
  shows "va_SanityCheck v \<noteq> None"
proof -
  from assms obtain r m ch where "Rate (va_Commission v) = Some r" "MaxRate (va_Commission v) = Some m"
    "MaxChangeRate (va_Commission v) = Some ch" by auto
  then show ?thesis
    by (auto simp: va_SanityCheck_def Let_def err_if_def orElse_def zeroPercent_def hundredPercent_def
        dec_LT_def dec_GT_def dec_cmp_def split: option.splits sum.splits bool.splits)
qed

lemma vw_check_total:
  assumes "va_SanityCheck (vw_Validator w) \<noteq> None"
  shows "vw_SanityCheck w \<noteq> None"
proof (cases "va_SanityCheck (vw_Validator w) = Some None")
  case True
  with va_SanityCheck_ok [of "vw_Validator w"] obtain lo hi where
    "va_MinSelfDelegation (vw_Validator w) = Some lo" "va_MaxTotalDelegation (vw_Validator w) = Some hi"
    by (auto simp: va_ok_def)
  with True show ?thesis by (auto simp: vw_SanityCheck_def Let_def split: list.splits)
next
  case False
  with assms show ?thesis by (auto simp: vw_SanityCheck_def Let_def split: option.splits)
qed

text \<open>(C18) The checks of a validator accept exactly the well-formed ones: texts within their
  lengths, between 1 and 106 keys without duplicates, rates between 0 and 1 with the rate and its
  change below the maximum, a minimal self delegation of at least 10000 ONE that is not above the
  maximal total; and, for the whole wrapper, a self delegation that reaches the minimum when the
  validator is active, and a total within the maximum. On every validator without nil rates
  they return without a panic.\<close>

theorem sanity_check_exact:
  "(vw_SanityCheck w = Some None \<longleftrightarrow> vw_ok w)
   \<and> (Rate (va_Commission (vw_Validator w)) \<noteq> None \<and> MaxRate (va_Commission (vw_Validator w)) \<noteq> None
      \<and> MaxChangeRate (va_Commission (vw_Validator w)) \<noteq> None \<longrightarrow> vw_SanityCheck w \<noteq> None)"
  using vw_check_ok va_check_total vw_check_total by blast

text \<open>A validator with one key, a commission of 10 %, and 20000 ONE of its own.\<close>

definition demo_wrapper :: ValidatorWrapper where
  "demo_wrapper = \<lparr>vw_Validator = \<lparr>va_Address = 9, va_SlotPubKeys = [[1]], va_LastEpochInCommittee = 0,
       va_MinSelfDelegation = Some (10 ^ 22), va_MaxTotalDelegation = Some (10 ^ 24), va_Status = Active,
       va_Commission = \<lparr>Rate = Some (10 ^ 17), MaxRate = Some (5 * 10 ^ 17), MaxChangeRate = Some (10 ^ 16), UpdateHeight = 1\<rparr>,
       va_Description = \<lparr>ds_Name = ''v'', ds_Identity = ''id'', ds_Website = [], ds_SecurityContact = [], ds_Details = []\<rparr>,
       va_CreationHeight = 1\<rparr>,
     vw_Delegations = [NewDelegation 9 (2 * 10 ^ 22)],
     vw_Counters = \<lparr>NumBlocksToSign = 0, NumBlocksSigned = 0\<rparr>, vw_BlockReward = 0\<rparr>"

lemma demo_wrapper_ok: "vw_ok demo_wrapper"
  by (simp add: vw_ok_def va_ok_def desc_ok_def rates_ok_def demo_wrapper_def NewDelegation_def)

theorem sanity_check_exact_witness:
  "vw_SanityCheck demo_wrapper = Some None \<and> vw_SanityCheck (demo_wrapper\<lparr>vw_Delegations := []\<rparr>) \<noteq> None"
  using sanity_check_exact [of demo_wrapper] sanity_check_exact [of "demo_wrapper\<lparr>vw_Delegations := []\<rparr>"] demo_wrapper_ok
  by (simp add: demo_wrapper_def)

end
