(* ===== verification/Staking_State.thy ===== *)
theory Staking_State
  imports State_Transition Decimal_Props Validator_Props State_DB_Final
begin

text \<open>
  The validators in the account state: what \<open>ValidatorWrapperCopy\<close> reads, and what the methods of
  the state do to it. A validator is stored as the code of its account, so a change of one account
  leaves the validators of all other accounts alone, and a frozen account keeps its validator.
\<close>

definition stored :: "('d, 'tr) senv \<Rightarrow> ('d, 'tr) SDB \<Rightarrow> address \<Rightarrow> error + ValidatorWrapper" where
  "stored E l a = fst (sdb_ValidatorWrapperCopy E a l)"

text \<open>What the code relies on of RLP: what was encoded is decoded, when no pointer in it is nil, and
  the check that the state runs before it stores a validator is the one of the validator.\<close>

definition rates_present :: "ValidatorWrapper \<Rightarrow> bool" where
  "rates_present w \<longleftrightarrow> Rate (va_Commission (vw_Validator w)) \<noteq> None
     \<and> MaxRate (va_Commission (vw_Validator w)) \<noteq> None \<and> MaxChangeRate (va_Commission (vw_Validator w)) \<noteq> None"

definition staking_env :: "('d, 'tr) senv \<Rightarrow> bool" where
  "staking_env E \<longleftrightarrow>
     (\<forall>w by. vw_ok w \<longrightarrow> EncodeValidator E w = Inr by \<longrightarrow> by \<noteq> [] \<and> DecodeValidator E by = Inr w)
   \<and> (\<forall>w. rates_present w \<longrightarrow> vw_SanityCheck w = Some (ValidatorSanityCheck E w))
   \<and> (\<forall>by w. DecodeValidator E by = Inr w \<longrightarrow> rates_present w)"

section \<open>Reading\<close>

lemma sdb_GetCode_account: "fst (sdb_GetCode E a l) = fst (snd (sdb_account E l a))"
proof (cases "sdb_live E l a")
  case None
  have "so_code_view E d (sdb_fresh E a) = None" for d
    by (simp add: so_code_view_def so_Code_def sdb_fresh_def so_newObject_def so_CodeHash_def
        zeroAccount_def so_setNonce_def)
  with None show ?thesis by (simp add: sdb_GetCode_def sdb_get_eq sdb_account_def sdb_obj_def so_view_def)
next
  case (Some s)
  obtain c s' where sc: "so_Code E (sdb_db l) s = (c, s')" by fastforce
  with Some so_Code_view(2) [OF sc] show ?thesis
    by (simp add: sdb_GetCode_def sdb_get_eq sdb_account_def sdb_obj_def so_view_def)
qed

definition decode_code :: "('d, 'tr) senv \<Rightarrow> bytes option \<Rightarrow> error + ValidatorWrapper" where
  "decode_code E c =
     (case c of
        None \<Rightarrow> Inl errAddressNotPresent
      | Some by \<Rightarrow> if by = [] then Inl errAddressNotPresent
                    else case DecodeValidator E by of Inl err \<Rightarrow> Inl (''could not decode: '' @ err) | Inr val \<Rightarrow> Inr val)"

lemma stored_eq: "stored E l a = decode_code E (fst (snd (sdb_account E l a)))"
  unfolding stored_def sdb_ValidatorWrapperCopy_def sdb_GetCode_account [symmetric] decode_code_def
  by (simp add: Let_def split: prod.split option.split sum.split)

lemma stored_account:
  "fst (snd (sdb_account E l' a)) = fst (snd (sdb_account E l a)) \<Longrightarrow> stored E l' a = stored E l a"
  by (simp add: stored_eq)

lemma stored_quiet: "sdb_quiet E l l' \<Longrightarrow> stored E l' a = stored E l a"
  by (rule stored_account) (simp add: sdb_quiet_account)

lemma stored_local: "sdb_local E a l l' \<Longrightarrow> b \<noteq> a \<Longrightarrow> stored E l' b = stored E l b"
  by (rule stored_account) (simp add: sdb_local_account)

lemma stored_rates: "staking_env E \<Longrightarrow> stored E l a = Inr w \<Longrightarrow> rates_present w"
  unfolding stored_eq decode_code_def staking_env_def
  by (auto split: option.splits sum.splits if_splits)

lemma wrapper_copy:
  "sdb_ValidatorWrapperCopy E a l = (r, l') \<Longrightarrow> stored E l a = r \<and> sdb_quiet E l l' \<and> (sdb_inv E l \<longrightarrow> sdb_inv E l')"
  using sdb_GetCode_quiet [of E l a] sdb_ValidatorWrapperCopy_state [of E a l] sdb_GetCode_safe [of E l a]
  by (auto simp: stored_def sdb_safe_def)

text \<open>Two states between which no account changes.\<close>

definition sdb_same :: "('d, 'tr) senv \<Rightarrow> ('d, 'tr) SDB \<Rightarrow> ('d, 'tr) SDB \<Rightarrow> bool" where
  "sdb_same E l l' \<longleftrightarrow> sdb_quiet E l l' \<and> (sdb_inv E l \<longrightarrow> sdb_inv E l')"

lemma sdb_same_refl [simp]: "sdb_same E l l"
  by (simp add: sdb_same_def)

lemma sdb_same_trans: "sdb_same E l m \<Longrightarrow> sdb_same E m n \<Longrightarrow> sdb_same E l n"
  unfolding sdb_same_def using sdb_quiet_trans by blast

lemma sdb_same_stored: "sdb_same E l l' \<Longrightarrow> stored E l' a = stored E l a"
  unfolding sdb_same_def by (blast intro: stored_quiet)

lemma sdb_same_core:
  assumes "sdb_same E l l'"
  shows "sdb_core E l' a = sdb_core E l a"
proof -
  have "so_head (sdb_obj E l' a) = so_head (sdb_obj E l a)"
    using assms sdb_quiet_account [of E l l' a] by (auto simp: sdb_same_def sdb_account_def so_view_def)
  then show ?thesis by (rule so_core_head)
qed

lemma wrapper_copy_same:
  "sdb_ValidatorWrapperCopy E a l = (r, l') \<Longrightarrow> stored E l a = r \<and> sdb_same E l l'"
  using wrapper_copy [of E a l r l'] by (simp add: sdb_same_def)

lemma IsValidator_same: "sdb_IsValidator E a l = Some (z, l') \<Longrightarrow> sdb_same E l l'"
  using sdb_slot_getters_quiet(4) sdb_slot_getters_safe(4) unfolding sdb_same_def sdb_safe_def by blast

lemma CanTransfer_same:
  "CanTransfer E a x l = (z, l') \<Longrightarrow> sdb_same E l l' \<and> z = (x \<le> so_Balance (sdb_obj E l a))"
  using sdb_getters_obj(1) [of E a l] sdb_loaded_inv [of E l a]
  by (auto simp: CanTransfer_def sdb_same_def sdb_GetBalance_def sdb_get_eq split: option.splits)

section \<open>Writing\<close>

lemma so_code_view_setBalance [simp]: "so_code_view E d (so_setBalance x s) = so_code_view E d s"
  by (rule so_code_view_cong) (simp_all add: so_setBalance_def so_CodeHash_def)

lemma stored_same_code:
  assumes "sdb_local E a l l'" and "so_code_view E (sdb_db l) (sdb_obj E l' a) = so_code_view E (sdb_db l) (sdb_obj E l a)"
  shows "stored E l' b = stored E l b"
proof (cases "b = a")
  case True
  with assms show ?thesis by (auto simp: sdb_local_def sdb_account_def so_view_def intro!: stored_account)
qed (use assms(1) in \<open>rule stored_local\<close>)

lemma stored_balance:
  assumes "sdb_inv E l"
  shows "stored E (sdb_SubBalance E a x l) b = stored E l b" and "stored E (sdb_AddBalance E a x l) b = stored E l b"
proof -
  show "stored E (sdb_SubBalance E a x l) b = stored E l b"
    by (rule stored_same_code [OF sdb_setters_local(2) [OF assms]]) (simp add: sdb_SubBalance_obj [OF assms])
  show "stored E (sdb_AddBalance E a x l) b = stored E l b"
    by (rule stored_same_code [OF sdb_setters_local(1) [OF assms]]) (simp add: sdb_AddBalance_obj [OF assms])
qed

lemma SetState_keeps:
  assumes "sdb_inv E l" and "sdb_SetState E a k v l = Some l'"
  shows "sdb_inv E l'" and "stored E l' b = stored E l b" and "sdb_core E l' b = sdb_core E l b"
proof -
  show "sdb_inv E l'" using sdb_SetState_safe [OF assms] by (simp add: sdb_safe_def)
  let ?s = "sdb_obj E l a"
  have "\<exists>s. so_head s = so_head ?s \<and> so_code_view E (sdb_db l) s = so_code_view E (sdb_db l) ?s
      \<and> (\<forall>b. sdb_obj E l' b = (if b = a then s else sdb_obj E l b))"
  proof -
    obtain m where m: "sdb_GetOrNewStateObject E a l = (?s, m)" "sdb_holds E ?s m" "so_address ?s = a"
        "sdb_peek E m = (sdb_peek E l)(a := Some ?s)" "sdb_db m = sdb_db l"
      using assms(1) by (rule sdb_GetOrNew_cases)
    show ?thesis
    proof (cases "so_freeze ?s")
      case True
      with assms(2) m(1) have "l' = m" by (simp add: sdb_SetState_def sdb_getFreezeState_def so_FreezeState_def)
      then show ?thesis using sdb_obj_upd [OF m(4)] by auto
    next
      case False
      with assms(2) m(1) have "so_SetState E ?s k v m = Some l'"
        by (simp add: sdb_SetState_def sdb_getFreezeState_def so_FreezeState_def)
      from so_SetState_effect [OF m(2) this] obtain s where s: "sdb_peek E l' = (sdb_peek E m)(a := Some s)"
          "\<not> so_deleted s" "so_head s = so_head ?s" "so_code_view E (sdb_db m) s = so_code_view E (sdb_db m) ?s"
        using m(3) by metis
      from s(1) m(4) have "sdb_peek E l' = (sdb_peek E l)(a := Some s)" by simp
      from sdb_obj_upd [OF this s(2)] s(3,4) m(5) show ?thesis by auto
    qed
  qed
  then obtain s where s: "so_head s = so_head ?s" "so_code_view E (sdb_db l) s = so_code_view E (sdb_db l) ?s"
      "\<And>b. sdb_obj E l' b = (if b = a then s else sdb_obj E l b)" by blast
  show "stored E l' b = stored E l b"
    by (rule stored_same_code [OF sdb_setters_local(8) [OF assms]]) (simp add: s)
  show "sdb_core E l' b = sdb_core E l b" using so_core_head [OF s(1)] s(3) by simp
qed

lemma stored_SetCode:
  assumes "sdb_inv E l" and "\<not> so_freeze (sdb_obj E l a)" and "by \<noteq> []" and "DecodeValidator E by = Inr w"
  shows "stored E (sdb_SetCode E a (Some by) l) b = (if b = a then Inr w else stored E l b)"
proof (cases "b = a")
  case True
  let ?l = "sdb_SetCode E a (Some by) l"
  from sdb_SetCode_peek [OF assms(1,2), of "Some by"] obtain s h where s: "so_head s = so_head (sdb_obj E l a)"
      "sdb_peek E ?l = (sdb_peek E l)(a := Some (so_setCode h (Some by) s))" by blast
  have "\<not> so_deleted (so_setCode h (Some by) s)" using so_head_sel(7) [OF s(1)] by (simp add: so_setCode_def)
  with s(2) have "sdb_obj E ?l a = so_setCode h (Some by) s" by (simp add: sdb_obj_peek)
  then have "fst (snd (sdb_account E ?l a)) = Some by"
    by (simp add: sdb_account_def so_view_def so_code_view_def so_Code_def so_setCode_def)
  with assms(3,4) True show ?thesis by (simp add: stored_eq decode_code_def)
qed (use stored_local [OF sdb_setters_local(5) [OF assms(1)]] in simp)

lemma stored_validators [simp]: "stored E (l\<lparr>stateValidators := vs\<rparr>) a = stored E l a"
  by (rule stored_quiet) simp

lemma update_wrapper_stored:
  assumes "staking_env E" and "sdb_inv E l" and "\<not> so_freeze (sdb_obj E l (vw_Address w))"
    and "rates_present w" and "update_wrapper E w l = Some (Inr (), l')"
  shows "vw_ok w" and "stored E l' = (stored E l)(vw_Address w := Inr w)" and "sdb_inv E l'"
    and "sdb_core E l' b = sdb_core E l b"
proof -
  from assms(5) have u: "sdb_UpdateValidatorWrapper E (vw_Address w) w l = (None, l')"
    by (auto simp: update_wrapper_def go_ok)
  then obtain c where c: "ValidatorSanityCheck E w = None" "EncodeValidator E w = Inr c"
      "l' = (sdb_SetCode E (vw_Address w) (Some c) l)\<lparr>stateValidators := gm_set (vw_Address w) w
        (stateValidators (sdb_SetCode E (vw_Address w) (Some c) l))\<rparr>"
    by (auto simp: sdb_UpdateValidatorWrapper_def Let_def split: option.splits sum.splits)
  from assms(1,4) c(1) have "vw_SanityCheck w = Some None" by (simp add: staking_env_def)
  then show ok: "vw_ok w" using vw_check_ok by blast
  with assms(1) c(2) have "c \<noteq> []" "DecodeValidator E c = Inr w" by (auto simp: staking_env_def)
  from stored_SetCode [OF assms(2,3) this] c(3) show "stored E l' = (stored E l)(vw_Address w := Inr w)"
    by (auto simp: fun_eq_iff)
  show "sdb_inv E l'"
    using sdb_UpdateValidatorWrapper_safe [OF assms(2), of "vw_Address w" w] u by (simp add: sdb_safe_def)
  show "sdb_core E l' b = sdb_core E l b"
    using sdb_tweak_core [OF sdb_SetCode_tweak [OF assms(2)]] c(3) by simp
qed

end
