(* ===== verification/Staking_Conserve.thy ===== *)
theory Staking_Conserve
  imports Staking_State
begin

text \<open>
  Staking operations move tokens between the balance of an account, the delegations of validators,
  their entries on the way back, and rewards. For each operation: what the changed validators hold
  more or less than the stored ones.
\<close>

section \<open>Tokens\<close>

definition dg_tokens :: "Delegation \<Rightarrow> int" where
  "dg_tokens d = dg_holding d + dg_Reward d"

definition vw_tokens :: "ValidatorWrapper \<Rightarrow> int" where
  "vw_tokens w = (\<Sum>d\<leftarrow>vw_Delegations w. dg_tokens d)"

definition tok :: "error + ValidatorWrapper \<Rightarrow> int" where
  "tok r = (case r of Inl _ \<Rightarrow> 0 | Inr w \<Rightarrow> vw_tokens w)"

lemma tok_simps [simp]: "tok (Inl e) = 0" "tok (Inr w) = vw_tokens w"
  by (simp_all add: tok_def)

definition dels_ok :: "ValidatorWrapper \<Rightarrow> bool" where
  "dels_ok w \<longleftrightarrow> (\<forall>d\<in>set (vw_Delegations w). dg_wf d) \<and> distinct (map dg_DelegatorAddress (vw_Delegations w))"

lemma sum_list_upd: "i < length ds \<Longrightarrow> (\<Sum>d\<leftarrow>ds[i := x]. f d) = (\<Sum>d\<leftarrow>ds. f d) - f (ds ! i) + (f x :: int)"
  by (induction ds arbitrary: i) (auto split: nat.split)

lemma vw_tokens_upd:
  "i < length (vw_Delegations w) \<Longrightarrow>
    vw_tokens (w\<lparr>vw_Delegations := (vw_Delegations w)[i := d]\<rparr>) = vw_tokens w - dg_tokens (vw_Delegations w ! i) + dg_tokens d"
  by (simp add: vw_tokens_def sum_list_upd)

lemma dels_ok_upd:
  assumes "dels_ok w" and "i < length (vw_Delegations w)" and "dg_wf d"
    and "dg_DelegatorAddress d = dg_DelegatorAddress (vw_Delegations w ! i)"
  shows "dels_ok (w\<lparr>vw_Delegations := (vw_Delegations w)[i := d]\<rparr>)"
proof -
  have "map dg_DelegatorAddress ((vw_Delegations w)[i := d]) = map dg_DelegatorAddress (vw_Delegations w)"
    by (metis assms(2,4) list_update_id map_update nth_map)
  with assms(1,3) show ?thesis by (auto simp: dels_ok_def dest: set_update_subset_insert [THEN subsetD])
qed

text \<open>What a list of changed validators holds more than the stored ones.\<close>

definition gain :: "('d, 'tr) senv \<Rightarrow> ('d, 'tr) SDB \<Rightarrow> ValidatorWrapper list \<Rightarrow> int" where
  "gain E l ws = (\<Sum>w\<leftarrow>ws. vw_tokens w - tok (stored E l (vw_Address w)))"

lemma gain_simps [simp]:
  "gain E l [] = 0" "gain E l (w # ws) = vw_tokens w - tok (stored E l (vw_Address w)) + gain E l ws"
  "gain E l (ws @ vs) = gain E l ws + gain E l vs"
  by (simp_all add: gain_def)

section \<open>Storing the changed validators\<close>

definition staked :: "('d, 'tr) senv \<Rightarrow> ('d, 'tr) SDB \<Rightarrow> address set \<Rightarrow> int" where
  "staked E l S = (\<Sum>v\<in>S. tok (stored E l v))"

lemma staked_upd:
  assumes "finite S" and "a \<in> S" and "stored E l' = (stored E l)(a := Inr w)"
  shows "staked E l' S = staked E l S + (vw_tokens w - tok (stored E l a))"
proof -
  have "staked E l' S = vw_tokens w + (\<Sum>v\<in>S - {a}. tok (stored E l v))"
    using assms by (simp add: staked_def sum.remove)
  moreover have "staked E l S = tok (stored E l a) + (\<Sum>v\<in>S - {a}. tok (stored E l v))"
    using assms by (simp add: staked_def sum.remove)
  ultimately show ?thesis by simp
qed

text \<open>Writing back validators of different accounts that are not frozen: the accounts keep their
  balances, and what is staked grows by the gain.\<close>

lemma update_wrappers:
  assumes "staking_env E" and "finite S" and "sdb_inv E l"
    and "go_fold (\<lambda>w _. update_wrapper E w) ws () l = Some (Inr (), l')"
    and "distinct (map vw_Address ws)" and "\<forall>w\<in>set ws. vw_Address w \<in> S \<and> rates_present w"
    and "\<forall>v\<in>S. \<not> so_freeze (sdb_obj E l v)"
  shows "sdb_inv E l' \<and> (\<forall>a. sdb_core E l' a = sdb_core E l a) \<and> staked E l' S = staked E l S + gain E l ws"
  using assms(3-7)
proof (induction ws arbitrary: l)
  case (Cons w ws)
  from Cons.prems(2) obtain m where m: "update_wrapper E w l = Some (Inr (), m)"
      "go_fold (\<lambda>w _. update_wrapper E w) ws () m = Some (Inr (), l')"
    by (auto simp: go_ok)
  have w: "vw_Address w \<in> S" "rates_present w" "\<not> so_freeze (sdb_obj E l (vw_Address w))"
    using Cons.prems(4,5) by auto
  note u = update_wrapper_stored [OF assms(1) Cons.prems(1) w(3,2) m(1)]
  have "\<forall>v\<in>S. \<not> so_freeze (sdb_obj E m v)"
    using Cons.prems(5) u(4) by (auto simp: so_core_def)
  with Cons.IH [OF u(3) m(2)] Cons.prems(3,4) have ih: "sdb_inv E l'" "\<forall>a. sdb_core E l' a = sdb_core E m a"
      "staked E l' S = staked E m S + gain E m ws" by auto
  have "gain E m ws = gain E l ws"
    unfolding gain_def using Cons.prems(3) u(2) by (intro arg_cong [where f = sum_list] map_cong) (auto simp: image_iff)
  with ih u(4) staked_upd [OF assms(2) w(1) u(2)] show ?case by simp
qed (simp add: go_ok)

section \<open>Undelegating\<close>

lemma find_delegation_Some:
  "find_delegation a ds = Some i \<Longrightarrow> i < length ds \<and> dg_DelegatorAddress (ds ! i) = a"
  by (induction ds arbitrary: i) (auto split: if_splits)

lemma dg_Undelegate_keeps:
  assumes "dg_Undelegate e amt d = (None, d')" and "dg_wf d"
  shows "dg_tokens d' = dg_tokens d" and "dg_wf d'" and "dg_DelegatorAddress d' = dg_DelegatorAddress d"
proof -
  show "dg_tokens d' = dg_tokens d" "dg_wf d'"
    using dg_Undelegate_spec [OF assms(2), where epoch = e and amt = amt] assms(1) by (simp_all add: dg_tokens_def)
  show "dg_DelegatorAddress d' = dg_DelegatorAddress d"
    using assms(1) by (auto simp: dg_Undelegate_def Let_def split: if_splits option.splits)
qed

lemma undelegate_from_keeps:
  assumes "undelegate_from e msg w0 s = Some (Inr w, s')" and "dels_ok w0"
  shows "s' = s \<and> vw_Address w = vw_Address w0 \<and> (rates_present w \<longleftrightarrow> rates_present w0) \<and> vw_tokens w = vw_tokens w0"
proof -
  from assms(1) obtain i where i: "find_delegation (un_DelegatorAddress msg) (vw_Delegations w0) = Some i"
    by (auto simp: undelegate_from_def go_ok split: option.splits)
  obtain err d where d: "dg_Undelegate e (un_Amount msg) (vw_Delegations w0 ! i) = (err, d)" by fastforce
  define w1 where "w1 = w0\<lparr>vw_Delegations := (vw_Delegations w0)[i := d]\<rparr>"
  have r: "err = None" "s' = s" "w = w1 \<or> w = w1\<lparr>vw_Validator := (vw_Validator w1)\<lparr>va_Status := Inactive\<rparr>\<rparr>"
    using assms(1) i d by (auto simp: undelegate_from_def go_ok w1_def Let_def split: option.splits if_splits)
  have il: "i < length (vw_Delegations w0)" using find_delegation_Some [OF i] by simp
  with assms(2) have "dg_wf (vw_Delegations w0 ! i)" by (simp add: dels_ok_def)
  with d r(1) have "dg_tokens d = dg_tokens (vw_Delegations w0 ! i)" by (simp add: dg_Undelegate_keeps)
  with vw_tokens_upd [OF il, of d] have "vw_tokens w1 = vw_tokens w0" by (simp add: w1_def)
  with r show ?thesis by (auto simp: vw_tokens_def rates_present_def w1_def)
qed

text \<open>What an operation assumes of a validator it reads.\<close>

definition readable :: "('d, 'tr) senv \<Rightarrow> ('d, 'tr) SDB \<Rightarrow> address \<Rightarrow> bool" where
  "readable E l a \<longleftrightarrow> (\<forall>w. stored E l a = Inr w \<longrightarrow> vw_Address w = a \<and> rates_present w \<and> dels_ok w)"

lemma readable_same: "sdb_same E l l' \<Longrightarrow> readable E l' a = readable E l a"
  by (simp add: readable_def sdb_same_stored)

text \<open>Reading a validator in a state that differs from \<open>l\<close> in no account.\<close>

lemma wrapper_copy_readable:
  assumes "sdb_ValidatorWrapperCopy E a s = (Inr w, s')" and "sdb_same E l s" and "readable E l a"
  shows "stored E l a = Inr w \<and> sdb_same E l s' \<and> vw_Address w = a \<and> rates_present w \<and> dels_ok w"
  using wrapper_copy_same [OF assms(1)] assms(2,3) sdb_same_stored [OF assms(2)] sdb_same_trans
  unfolding readable_def by metis

lemma undelegate_gain:
  assumes "VerifyAndUndelegateFromMsg E epoch msg l = Some (Inr w, l')" and "readable E l (un_ValidatorAddress msg)"
  shows "sdb_same E l l' \<and> vw_Address w = un_ValidatorAddress msg \<and> rates_present w \<and> gain E l [w] = 0"
proof -
  let ?a = "un_ValidatorAddress msg"
  from assms(1) obtain e l1 w0 l2 where
    s: "sdb_IsValidator E ?a l = Some (True, l1)" "sdb_ValidatorWrapperCopy E ?a l1 = (Inr w0, l2)"
      "undelegate_from e msg w0 l2 = Some (Inr w, l')"
    by (auto simp: VerifyAndUndelegateFromMsg_def go_ok split: option.splits if_splits)
  from wrapper_copy_readable [OF s(2) IsValidator_same [OF s(1)] assms(2)] undelegate_from_keeps [OF s(3)]
  show ?thesis by auto
qed

section \<open>Collecting rewards\<close>

lemma u64_index:
  assumes "i < (of_nat n :: u64)"
  shows "unat i < n"
proof -
  have "unat (of_nat n :: u64) \<le> n" by (simp add: unat_of_nat)
  with assms show ?thesis by (simp add: word_less_nat_alt)
qed

lemma collect_body_gain:
  assumes "collect_body E x (ws, t) s = Some (Inr (ws', t'), s')" and "sdb_same E l s"
    and "readable E l (di_ValidatorAddress x)"
  shows "\<exists>w. ws' = ws @ [w] \<and> vw_Address w = di_ValidatorAddress x \<and> rates_present w
    \<and> gain E l [w] = t - t' \<and> sdb_same E l s'"
proof -
  let ?a = "di_ValidatorAddress x"
  from assms(1) obtain w0 where c: "sdb_ValidatorWrapperCopy E ?a s = (Inr w0, s')"
    and i: "di_Index x < of_nat (length (vw_Delegations w0))"
    by (auto simp: collect_body_def go_ok Let_def split: if_splits)
  define d where "d = vw_Delegations w0 ! unat (di_Index x)"
  have r: "ws' = ws @ [w0] \<and> t' = t \<or>
      ws' = ws @ [w0\<lparr>vw_Delegations := (vw_Delegations w0)[unat (di_Index x) := d\<lparr>dg_Reward := 0\<rparr>]\<rparr>] \<and> t' = t + dg_Reward d"
    using assms(1) c i by (auto simp: collect_body_def go_ok d_def Let_def split: if_splits)
  have "vw_tokens (w0\<lparr>vw_Delegations := (vw_Delegations w0)[unat (di_Index x) := d\<lparr>dg_Reward := 0\<rparr>]\<rparr>) = vw_tokens w0 - dg_Reward d"
    using vw_tokens_upd [OF u64_index [OF i]] by (simp add: d_def dg_tokens_def dg_holding_def)
  with r wrapper_copy_readable [OF c assms(2,3)] show ?thesis
    by (auto simp: rates_present_def)
qed

lemma collect_gain:
  assumes "VerifyAndCollectRewardsFromDelegation E dels l = Some (Inr (ws, amount), l')"
    and "\<forall>x\<in>set dels. readable E l (di_ValidatorAddress x)"
  shows "sdb_same E l l' \<and> map vw_Address ws = map di_ValidatorAddress dels \<and> (\<forall>w\<in>set ws. rates_present w)
    \<and> gain E l ws = - amount"
proof -
  define P where "P ys acc s \<longleftrightarrow> sdb_same E l s \<and> map vw_Address (fst acc) = map di_ValidatorAddress ys
    \<and> (\<forall>w\<in>set (fst acc). rates_present w) \<and> gain E l (fst acc) = - snd acc" for ys :: "DelegationIndex list" and acc s
  from assms(1) have f: "go_fold (collect_body E) dels ([], 0) l = Some (Inr (ws, amount), l')"
    by (auto simp: VerifyAndCollectRewardsFromDelegation_def go_ok)
  have "P dels (ws, amount) l'"
  proof (rule go_fold_prefix [OF f])
    fix ys x zs a s a' s'
    assume d: "dels = ys @ x # zs" and P: "P ys a s" and b: "collect_body E x a s = Some (Inr a', s')"
    obtain vs t where a: "a = (vs, t)" by fastforce
    obtain vs' t' where a': "a' = (vs', t')" by fastforce
    have "\<exists>w. vs' = vs @ [w] \<and> vw_Address w = di_ValidatorAddress x \<and> rates_present w
        \<and> gain E l [w] = t - t' \<and> sdb_same E l s'"
      using b P d assms(2) by (intro collect_body_gain) (auto simp: a a' P_def)
    with P show "P (ys @ [x]) a' s'" by (auto simp: P_def a a')
  qed (simp add: P_def)
  then show ?thesis by (simp add: P_def)
qed

section \<open>Delegating\<close>

lemma take_undelegated_spec:
  assumes "take_undelegated e bal us = (bal', us')" and "entries_wf us" and "0 \<le> bal"
  shows "entries_total us' + bal = entries_total us + bal' \<and> 0 \<le> bal' \<and> bal' \<le> bal \<and> entries_wf us'"
  using assms
proof (induction e bal us rule: take_undelegated.induct)
  case (2 e bal u us)
  show ?case
  proof (cases "ud_Epoch u < e \<and> ud_Amount u \<le> bal")
    case True
    with 2 show ?thesis by auto
  next
    case False
    with 2(2-) show ?thesis by (auto split: if_splits)
  qed
qed simp

text \<open>The state of the loop after some of the delegations: the changed validators are those of
  visited delegations, and they hold less by what need not be paid any more.\<close>

definition redel_inv ::
    "('d, 'tr) senv \<Rightarrow> ('d, 'tr) SDB \<Rightarrow> Delegate \<Rightarrow> DelegationIndex list \<Rightarrow> redelegation \<Rightarrow> ('d, 'tr) SDB \<Rightarrow> bool" where
  "redel_inv E l msg ys r s \<longleftrightarrow> (case r of (bal, ws, locked, pos) \<Rightarrow>
     sdb_same E l s \<and> 0 \<le> bal \<and> distinct (map vw_Address ws)
     \<and> vw_Address ` set ws \<subseteq> di_ValidatorAddress ` set ys
     \<and> (\<forall>w\<in>set ws. rates_present w \<and> dels_ok w) \<and> gain E l ws = bal - de_Amount msg
     \<and> (case pos of None \<Rightarrow> de_ValidatorAddress msg \<notin> vw_Address ` set ws
        | Some p \<Rightarrow> p < length ws \<and> vw_Address (ws ! p) = de_ValidatorAddress msg))"

lemma redelegate_body_inv:
  assumes "redelegate_body E e (de_ValidatorAddress msg) x r s = Some (Inr r', s')"
    and "redel_inv E l msg ys r s" and "readable E l (di_ValidatorAddress x)"
    and "di_ValidatorAddress x \<notin> di_ValidatorAddress ` set ys"
  shows "redel_inv E l msg (ys @ [x]) r' s'"
proof -
  let ?a = "di_ValidatorAddress x"
  obtain bal ws locked pos where r: "r = (bal, ws, locked, pos)" by (cases r) auto
  from assms(1) obtain w0 where c: "sdb_ValidatorWrapperCopy E ?a s = (Inr w0, s')"
    and i: "\<not> of_nat (length (vw_Delegations w0)) \<le> di_Index x"
    by (auto simp: redelegate_body_def r go_ok Let_def split: if_splits prod.splits)
  define i where "i = unat (di_Index x)"
  define d where "d = vw_Delegations w0 ! i"
  obtain bal' us where t: "take_undelegated e bal (dg_Undelegations d) = (bal', us)" by fastforce
  define w1 where "w1 = w0\<lparr>vw_Delegations := (vw_Delegations w0)[i := d\<lparr>dg_Undelegations := us\<rparr>]\<rparr>"
  have r': "(bal' = bal \<or> bal < bal') \<and> r' = (bal', ws, locked, pos)
      \<or> bal' < bal \<and> r' = (bal', ws @ [w1], gm_set ?a (bal - bal') locked,
            if ?a = de_ValidatorAddress msg then Some (length ws) else pos)"
    using assms(1) c i t
    by (auto simp: redelegate_body_def r go_ok Let_def i_def d_def w1_def split: if_splits)
  have inv: "sdb_same E l s" "0 \<le> bal" using assms(2) by (auto simp: redel_inv_def r)
  note w0 = wrapper_copy_readable [OF c inv(1) assms(3)]
  have il: "i < length (vw_Delegations w0)" using u64_index [of "di_Index x"] i by (simp add: i_def not_le)
  with w0 have "dg_wf d" by (auto simp: dels_ok_def d_def)
  then have wf: "entries_wf (dg_Undelegations d)" "0 \<le> dg_Amount d" "0 \<le> dg_Reward d" by (auto simp: dg_wf_def)
  note ts = take_undelegated_spec [OF t wf(1) inv(2)]
  have "dg_wf (d\<lparr>dg_Undelegations := us\<rparr>)" using wf ts by (simp add: dg_wf_def)
  then have w1: "dels_ok w1" "rates_present w1" "vw_Address w1 = ?a" "vw_tokens w1 = vw_tokens w0 + bal' - bal"
    using dels_ok_upd [of w0 i "d\<lparr>dg_Undelegations := us\<rparr>"] vw_tokens_upd [OF il, of "d\<lparr>dg_Undelegations := us\<rparr>"] w0 il ts
    by (auto simp: w1_def rates_present_def d_def dg_tokens_def dg_holding_def)
  have "?a \<notin> vw_Address ` set ws" using assms(2,4) by (auto simp: redel_inv_def r)
  with r' assms(2) w0 w1 ts show ?thesis
    unfolding redel_inv_def r by (auto simp: nth_append image_subset_iff split: option.splits)
qed

lemma redelegate_inv:
  assumes "redelegate E cfg epoch msg dels l = Some (Inr r, l')" and "0 \<le> de_Amount msg"
    and "distinct (map di_ValidatorAddress dels)" and "\<forall>x\<in>set dels. readable E l (di_ValidatorAddress x)"
  shows "redel_inv E l msg dels r l'"
proof (cases "IsRedelegation cfg epoch")
  case False
  with assms(1,2) show ?thesis by (auto simp: redelegate_def go_ok redel_inv_def)
next
  case True
  with assms(1) obtain e where f: "go_fold (redelegate_body E e (de_ValidatorAddress msg)) dels (de_Amount msg, [], [], None) l
      = Some (Inr r, l')"
    by (auto simp: redelegate_def go_ok)
  show ?thesis
  proof (rule go_fold_prefix [OF f])
    show "redel_inv E l msg [] (de_Amount msg, [], [], None) l" using assms(2) by (simp add: redel_inv_def)
  next
    fix ys x zs a s a' s'
    assume d: "dels = ys @ x # zs" and i: "redel_inv E l msg ys a s"
      and b: "redelegate_body E e (de_ValidatorAddress msg) x a s = Some (Inr a', s')"
    show "redel_inv E l msg (ys @ [x]) a' s'"
      by (rule redelegate_body_inv [OF b i]) (use d assms(3,4) in auto)
  qed
qed

text \<open>Adding to the delegation of the delegator. Delegators are different, so at most one
  delegation grows.\<close>

definition adding_inv :: "Delegate \<Rightarrow> ValidatorWrapper \<Rightarrow> 's \<Rightarrow> nat list \<Rightarrow> ValidatorWrapper \<times> bool \<Rightarrow> 's \<Rightarrow> bool" where
  "adding_inv msg w0 s ys r s' \<longleftrightarrow> (case r of (w, found) \<Rightarrow> s' = s
     \<and> map dg_DelegatorAddress (vw_Delegations w) = map dg_DelegatorAddress (vw_Delegations w0)
     \<and> vw_Validator w = vw_Validator w0
     \<and> vw_tokens w = vw_tokens w0 + (if found then de_Amount msg else 0)
     \<and> (found \<longleftrightarrow> (\<exists>i\<in>set ys. dg_DelegatorAddress (vw_Delegations w0 ! i) = de_DelegatorAddress msg)))"

lemma adding_step:
  assumes "add_delegation_body msg i r s1 = Some (Inr r', s2)" and "adding_inv msg w0 s ys r s1"
    and "distinct (map dg_DelegatorAddress (vw_Delegations w0))" and "i < length (vw_Delegations w0)" and "i \<notin> set ys"
    and "\<forall>j\<in>set ys. j < length (vw_Delegations w0)"
  shows "adding_inv msg w0 s (ys @ [i]) r' s2"
proof -
  obtain w found where r: "r = (w, found)" by fastforce
  let ?d = "vw_Delegations w ! i"
  note inv = assms(2) [unfolded adding_inv_def r, simplified]
  have m: "map dg_DelegatorAddress (vw_Delegations w) = map dg_DelegatorAddress (vw_Delegations w0)" using inv by blast
  then have il: "i < length (vw_Delegations w)" using assms(4) by (metis length_map)
  have a: "dg_DelegatorAddress ?d = dg_DelegatorAddress (vw_Delegations w0 ! i)"
    using m il assms(4) by (metis nth_map)
  show ?thesis
  proof (cases "dg_DelegatorAddress ?d = de_DelegatorAddress msg")
    case True
    let ?w = "w\<lparr>vw_Delegations := (vw_Delegations w)[i := ?d\<lparr>dg_Amount := dg_Amount ?d + de_Amount msg\<rparr>]\<rparr>"
    have "\<not> found"
    proof
      assume found
      with inv obtain j where "j \<in> set ys" "dg_DelegatorAddress (vw_Delegations w0 ! j) = de_DelegatorAddress msg" by blast
      with True a assms(3-6) show False by (metis length_map nth_eq_iff_index_eq nth_map)
    qed
    moreover have "r' = (?w, True)" "s2 = s1"
      using assms(1) True by (auto simp: add_delegation_body_def r go_ok Let_def)
    moreover have "map dg_DelegatorAddress (vw_Delegations ?w) = map dg_DelegatorAddress (vw_Delegations w)"
      using il by (simp add: map_update list_update_same_conv)
    moreover have "vw_tokens ?w = vw_tokens w + de_Amount msg"
      using vw_tokens_upd [OF il] by (simp add: dg_tokens_def dg_holding_def)
    ultimately show ?thesis using inv True a by (auto simp: adding_inv_def)
  next
    case False
    then have "r' = (w, found)" "s2 = s1" using assms(1) by (auto simp: add_delegation_body_def r go_ok Let_def)
    with inv False a show ?thesis by (auto simp: adding_inv_def)
  qed
qed

lemma add_delegation_gain:
  assumes "add_delegation msg w0 s = Some (Inr w, s')" and "dels_ok w0"
  shows "s' = s \<and> vw_Validator w = vw_Validator w0 \<and> vw_tokens w = vw_tokens w0 + de_Amount msg"
proof -
  let ?n = "length (vw_Delegations w0)"
  let ?new = "\<lambda>w1. w1\<lparr>vw_Delegations := vw_Delegations w1 @ [NewDelegation (de_DelegatorAddress msg) (de_Amount msg)]\<rparr>"
  from assms(1) obtain w1 found s1 where f: "go_fold (add_delegation_body msg) [0..<?n] (w0, False) s = Some (Inr (w1, found), s1)"
    and k: "(if found then go_return w1 else go_opt (vw_SanityCheck (?new w1)) (\<lambda>err. go_try err (go_return (?new w1)))) s1 = Some (Inr w, s')"
    unfolding add_delegation_def Let_def by (auto simp: go_ok)
  then have w: "s' = s1" "w = (if found then w1 else ?new w1)"
    by (auto simp: go_ok split: if_splits)
  have "adding_inv msg w0 s [0..<?n] (w1, found) s1"
  proof (rule go_fold_prefix [OF f])
    fix ys i zs a s1 a' s2
    assume d: "[0..<?n] = ys @ i # zs" and I: "adding_inv msg w0 s ys a s1"
      and b: "add_delegation_body msg i a s1 = Some (Inr a', s2)"
    have "distinct (ys @ i # zs)" "set (ys @ i # zs) = {0..<?n}" unfolding d [symmetric] by auto
    then show "adding_inv msg w0 s (ys @ [i]) a' s2"
      using assms(2) by (intro adding_step [OF b I]) (auto simp: dels_ok_def)
  qed (simp add: adding_inv_def)
  moreover have "vw_tokens (w1\<lparr>vw_Delegations := vw_Delegations w1 @ [NewDelegation a x]\<rparr>) = vw_tokens w1 + x" for a x
    by (simp add: vw_tokens_def dg_tokens_def dg_holding_def NewDelegation_def)
  ultimately show ?thesis using w by (auto simp: adding_inv_def)
qed

text \<open>The validators that a delegation changes, and what it asks from the balance.\<close>

lemma delegate_gain:
  assumes "VerifyAndDelegateFromMsg E epoch msg dels cfg l = Some (Inr (ws, deducted, locked), l')"
    and "distinct (map di_ValidatorAddress dels)" and "\<forall>x\<in>set dels. readable E l (di_ValidatorAddress x)"
    and "readable E l (de_ValidatorAddress msg)"
  shows "sdb_same E l l' \<and> distinct (map vw_Address ws)
    \<and> vw_Address ` set ws \<subseteq> insert (de_ValidatorAddress msg) (di_ValidatorAddress ` set dels)
    \<and> (\<forall>w\<in>set ws. rates_present w) \<and> gain E l ws = deducted
    \<and> 0 \<le> deducted \<and> (deducted = 0 \<or> deducted \<le> so_Balance (sdb_obj E l (de_DelegatorAddress msg)))"
proof -
  let ?a = "de_ValidatorAddress msg"
  from assms(1) obtain l1 bal us lk pos l2 us2 p l3 w l4 where
    s: "sdb_IsValidator E ?a l = Some (True, l1)" "0 \<le> de_Amount msg"
      "redelegate E cfg epoch msg dels l1 = Some (Inr (bal, us, lk, pos), l2)"
      "(case pos of Some p \<Rightarrow> go_return (us, p)
        | None \<Rightarrow> go_call (sdb_ValidatorWrapperCopy E ?a) (\<lambda>wrapper. go_return (us @ [wrapper], length us))) l2 = Some (Inr (us2, p), l3)"
      "add_delegation msg (us2 ! p) l3 = Some (Inr w, l4)"
    and f: "(if bal = 0 then go_return (us2[p := w], 0, lk)
        else go_get (CanTransfer E (de_DelegatorAddress msg) bal) (\<lambda>can.
          go_check can errInsufficientBalanceForStake (go_return (us2[p := w], bal, lk)))) l4 = Some (Inr (ws, deducted, locked), l')"
    unfolding VerifyAndDelegateFromMsg_def Let_def by (auto simp: go_ok)
  have l1: "sdb_same E l l1" using IsValidator_same [OF s(1)] .
  have "redel_inv E l1 msg dels (bal, us, lk, pos) l2"
    using redelegate_inv [OF s(3,2) assms(2)] assms(3) readable_same [OF l1] by blast
  moreover have "gain E l1 ws = gain E l ws" for ws using sdb_same_stored [OF l1] by (simp add: gain_def)
  ultimately have inv: "sdb_same E l l2" "0 \<le> bal" "distinct (map vw_Address us)"
      "vw_Address ` set us \<subseteq> di_ValidatorAddress ` set dels" "\<forall>w\<in>set us. rates_present w \<and> dels_ok w"
      "gain E l us = bal - de_Amount msg"
      "case pos of None \<Rightarrow> ?a \<notin> vw_Address ` set us | Some p \<Rightarrow> p < length us \<and> vw_Address (us ! p) = ?a"
    using sdb_same_trans [OF l1] by (auto simp: redel_inv_def)
  have u: "sdb_same E l l3 \<and> p < length us2 \<and> vw_Address (us2 ! p) = ?a \<and> distinct (map vw_Address us2)
      \<and> vw_Address ` set us2 \<subseteq> insert ?a (di_ValidatorAddress ` set dels)
      \<and> (\<forall>w\<in>set us2. rates_present w \<and> dels_ok w) \<and> gain E l us2 = bal - de_Amount msg"
  proof (cases pos)
    case (Some q)
    with s(4) inv show ?thesis by (auto simp: go_ok)
  next
    case None
    with s(4) obtain w0 where w0: "sdb_ValidatorWrapperCopy E ?a l2 = (Inr w0, l3)" "us2 = us @ [w0]" "p = length us"
      by (auto simp: go_ok)
    with None inv wrapper_copy_readable [OF w0(1) inv(1) assms(4)] show ?thesis by auto
  qed
  then have a: "l4 = l3 \<and> vw_Validator w = vw_Validator (us2 ! p) \<and> vw_tokens w = vw_tokens (us2 ! p) + de_Amount msg"
    using add_delegation_gain [OF s(5)] by auto
  have g: "gain E l (us2[p := w]) = bal"
    using u a sum_list_upd [of p us2 "\<lambda>w. vw_tokens w - tok (stored E l (vw_Address w))" w] by (simp add: gain_def)
  have m: "map vw_Address (us2[p := w]) = map vw_Address us2"
    using u a by (simp add: map_update list_update_same_conv)
  have rp: "\<forall>v\<in>set (us2[p := w]). rates_present v"
    using u a by (auto simp: rates_present_def dest!: set_update_subset_insert [THEN subsetD])
  have ws: "ws = us2[p := w] \<and> deducted = bal \<and> sdb_same E l l'
      \<and> (bal = 0 \<or> bal \<le> so_Balance (sdb_obj E l (de_DelegatorAddress msg)))"
  proof (cases "bal = 0")
    case True
    with f a u show ?thesis by (simp add: go_ok)
  next
    case False
    with f have c: "CanTransfer E (de_DelegatorAddress msg) bal l4 = (True, l')" "ws = us2[p := w]" "deducted = bal"
      by (auto simp: go_ok)
    have "sdb_core E l4 (de_DelegatorAddress msg) = sdb_core E l (de_DelegatorAddress msg)"
      using sdb_same_core u a by blast
    with CanTransfer_same [OF c(1)] c(2,3) u a sdb_same_trans [of E l l3 l'] show ?thesis
      by (simp add: so_core_def)
  qed
  have "vw_Address ` set ws = vw_Address ` set us2" using m ws by (metis list.set_map)
  with u g m rp ws inv(2) show ?thesis by auto
qed

section \<open>Creating and editing\<close>

lemma vw_ok_rates: "vw_ok w \<Longrightarrow> rates_present w"
  by (auto simp: vw_ok_def va_ok_def rates_ok_def rates_present_def)

lemma checkDuplicateFields_same:
  assumes "checkDuplicateFields E bc a identity keys l = Some (Inr (), l')"
  shows "sdb_same E l l'"
proof -
  from assms obtain as where f: "go_fold (check_duplicate_body E a identity keys) as () l = Some (Inr (), l')"
    by (auto simp: checkDuplicateFields_def go_ok)
  show ?thesis
  proof (rule go_fold_inv [OF f, where P = "\<lambda>_. sdb_same E l"])
    fix x u s u' s'
    assume "sdb_same E l s" and "check_duplicate_body E a identity keys x u s = Some (Inr u', s')"
    then show "sdb_same E l s'"
      using wrapper_copy_same [of E x s] sdb_same_trans [of E l s]
      by (auto simp: check_duplicate_body_def go_ok split: if_splits)
  qed simp
qed

lemma CreateValidatorFromNewMsg_address:
  "CreateValidatorFromNewMsg B msg bn epoch = Some (Inr v) \<Longrightarrow> va_Address v = cv_ValidatorAddress msg"
  by (auto simp: CreateValidatorFromNewMsg_def Let_def split: sum.splits option.splits)

lemma create_gain:
  assumes "VerifyAndCreateValidatorFromMsg E B bc epoch blockNum msg l = Some (Inr w, l')"
  shows "sdb_same E l l' \<and> vw_Address w = cv_ValidatorAddress msg \<and> rates_present w \<and> vw_tokens w = cv_Amount msg
    \<and> (\<exists>l1. sdb_IsValidator E (cv_ValidatorAddress msg) l = Some (False, l1))
    \<and> 0 \<le> cv_Amount msg \<and> cv_Amount msg \<le> so_Balance (sdb_obj E l (cv_ValidatorAddress msg))"
proof -
  let ?a = "cv_ValidatorAddress msg"
  from assms obtain c l1 l2 v bn where
    s: "0 \<le> cv_Amount msg" "sdb_IsValidator E ?a l = Some (False, l1)"
      "checkDuplicateFields E c ?a (ds_Identity (cv_Description msg)) (cv_SlotPubKeys msg) l1 = Some (Inr (), l2)"
      "CanTransfer E ?a (cv_Amount msg) l2 = (True, l')" "CreateValidatorFromNewMsg B msg bn epoch = Some (Inr v)"
    and w: "w = \<lparr>vw_Validator = v, vw_Delegations = [NewDelegation (va_Address v) (cv_Amount msg)],
        vw_Counters = \<lparr>NumBlocksToSign = 0, NumBlocksSigned = 0\<rparr>, vw_BlockReward = 0\<rparr>"
    and ok: "vw_SanityCheck w = Some None"
    unfolding VerifyAndCreateValidatorFromMsg_def Let_def
    by (auto simp: go_ok split: option.splits if_splits)
  have same: "sdb_same E l l2" "sdb_same E l l'" "cv_Amount msg \<le> so_Balance (sdb_obj E l2 ?a)"
    using IsValidator_same [OF s(2)] checkDuplicateFields_same [OF s(3)] CanTransfer_same [OF s(4)] sdb_same_trans by blast+
  from sdb_same_core [OF same(1), of ?a] same(3) have "cv_Amount msg \<le> so_Balance (sdb_obj E l ?a)"
    by (simp add: so_core_def)
  moreover have "vw_tokens w = cv_Amount msg"
    by (simp add: w vw_tokens_def dg_tokens_def dg_holding_def NewDelegation_def)
  moreover have "rates_present w" using ok vw_check_ok vw_ok_rates by blast
  ultimately show ?thesis using s same CreateValidatorFromNewMsg_address [OF s(5)] w by auto
qed

lemma edit_fields_address: "va_Address (edit_fields edit desc v) = va_Address v"
  by (simp add: edit_fields_def Let_def split: option.split)

lemma UpdateValidatorFromEditMsg_address:
  "UpdateValidatorFromEditMsg B v edit epoch = Some (Inr v') \<Longrightarrow> va_Address v' = va_Address v"
  by (auto simp: UpdateValidatorFromEditMsg_def edit_fields_address edit_remove_key_def edit_add_key_def edit_status_def
      split: sum.splits option.splits if_splits)

lemma rate_below_minimum_same:
  "rate_below_minimum E cfg epoch r a l = Some (Inr z, l') \<Longrightarrow> sdb_same E l l'"
  using sdb_slot_getters_quiet(3) [of E a l] sdb_slot_getters_safe(3) [of E l a]
  by (auto simp: rate_below_minimum_def go_ok sdb_same_def sdb_safe_def split: if_splits)

lemma check_edited_rate_same:
  assumes "check_edited_rate E bc epoch bn a v l = Some (Inr v', l')"
  shows "sdb_same E l l' \<and> va_Address v' = va_Address v"
proof -
  from assms obtain z ch where "rate_below_minimum E (ctx_Config bc) epoch (Rate (va_Commission v)) a l = Some (Inr z, l')"
    and "v' = (if ch then v\<lparr>va_Commission := (va_Commission v)\<lparr>UpdateHeight := bn\<rparr>\<rparr> else v)"
    unfolding check_edited_rate_def Let_def by (auto simp: go_ok)
  then show ?thesis using rate_below_minimum_same by auto
qed

lemma edit_gain:
  assumes "VerifyAndEditValidatorFromMsg E B bc epoch blockNum msg l = Some (Inr w, l')"
    and "readable E l (ev_ValidatorAddress msg)"
  shows "sdb_same E l l' \<and> vw_Address w = ev_ValidatorAddress msg \<and> rates_present w \<and> gain E l [w] = 0"
proof -
  let ?a = "ev_ValidatorAddress msg"
  from assms(1) obtain c bn l1 keys l2 w0 l3 v v' where
    s: "sdb_IsValidator E ?a l = Some (True, l1)"
      "checkDuplicateFields E c ?a (ds_Identity (ev_Description msg)) keys l1 = Some (Inr (), l2)"
      "sdb_ValidatorWrapperCopy E ?a l2 = (Inr w0, l3)"
      "UpdateValidatorFromEditMsg B (vw_Validator w0) msg epoch = Some (Inr v)"
      "check_edited_rate E c epoch bn ?a v l3 = Some (Inr v', l')"
    and w: "w = w0\<lparr>vw_Validator := v'\<rparr>" and ok: "vw_SanityCheck w = Some None"
    unfolding VerifyAndEditValidatorFromMsg_def Let_def
    by (auto simp: go_ok split: option.splits)
  have "sdb_same E l l2"
    using IsValidator_same [OF s(1)] checkDuplicateFields_same [OF s(2)] sdb_same_trans by blast
  note c = wrapper_copy_readable [OF s(3) this assms(2)]
  have "sdb_same E l l'" using c check_edited_rate_same [OF s(5)] sdb_same_trans by blast
  moreover have "vw_Address w = ?a"
    using UpdateValidatorFromEditMsg_address [OF s(4)] check_edited_rate_same [OF s(5)] w c by auto
  moreover have "vw_tokens w = vw_tokens w0" by (simp add: w vw_tokens_def)
  moreover have "rates_present w" using ok vw_check_ok vw_ok_rates by blast
  ultimately show ?thesis using c by simp
qed

end
