(* ===== verification/Staking_Props.thy ===== *)
theory Staking_Props
  imports Staking_Conserve
begin

text \<open>
  Properties of staking: the operations conserve tokens, block rewards are distributed up to
  rounding, and what a frozen account can do.
\<close>

section \<open>Conservation\<close>

text \<open>The validators that a message touches.\<close>

definition delegated_to :: "chain_env \<Rightarrow> address \<Rightarrow> address set" where
  "delegated_to bc a = (case ReadDelegationsByDelegator bc a of Inl _ \<Rightarrow> {} | Inr ds \<Rightarrow> di_ValidatorAddress ` set ds)"

definition staking_validators :: "stk_codec \<Rightarrow> chain_env \<Rightarrow> Message \<Rightarrow> address set" where
  "staking_validators C bc msg =
     (case msg_Type msg of
        StakeCreateVal \<Rightarrow> (case rlp_CreateValidator C (msg_Data msg) of Inl _ \<Rightarrow> {} | Inr m \<Rightarrow> {cv_ValidatorAddress m})
      | StakeEditVal \<Rightarrow> (case rlp_EditValidator C (msg_Data msg) of Inl _ \<Rightarrow> {} | Inr m \<Rightarrow> {ev_ValidatorAddress m})
      | TransactionType.Delegate \<Rightarrow>
          (case rlp_Delegate C (msg_Data msg) of Inl _ \<Rightarrow> {} | Inr m \<Rightarrow> insert (de_ValidatorAddress m) (delegated_to bc (msg_From msg)))
      | TransactionType.Undelegate \<Rightarrow> (case rlp_Undelegate C (msg_Data msg) of Inl _ \<Rightarrow> {} | Inr m \<Rightarrow> {un_ValidatorAddress m})
      | TransactionType.CollectRewards \<Rightarrow> delegated_to bc (msg_From msg)
      | _ \<Rightarrow> {})"

text \<open>The slot of an account that marks it as a validator, as the state shows it.\<close>

definition validator_flag :: "('d, 'tr) senv \<Rightarrow> ('d, 'tr) SDB \<Rightarrow> address \<Rightarrow> hash option" where
  "validator_flag E l a = so_state_view E (sdb_db l) (sdb_obj E l a) (IsValidatorKey E)"

lemma stored_live: "stored E l a = Inr w \<Longrightarrow> sdb_live E l a \<noteq> None"
  by (auto simp: stored_def sdb_ValidatorWrapperCopy_def sdb_GetCode_def sdb_get_eq Let_def split: option.splits)

lemma IsValidator_flag:
  assumes "sdb_IsValidator E a l = Some (z, l')" and "z \<or> sdb_live E l a \<noteq> None"
  shows "\<exists>f. validator_flag E l a = Some f \<and> z = (f \<noteq> 0)"
proof -
  from assms obtain s where s: "sdb_live E l a = Some s"
    by (cases "sdb_live E l a") (auto simp: sdb_IsValidator_def sdb_get_eq)
  with assms(1) obtain f s' where g: "so_GetState E (sdb_db l) (IsValidatorKey E) s = Some (f, s')" "z = (f \<noteq> 0)"
    by (auto simp: sdb_IsValidator_def sdb_get_eq so_IsValidator_def split: option.splits)
  show ?thesis using so_GetState_view(2) [OF g(1)] g(2) s by (simp add: validator_flag_def sdb_obj_def)
qed

lemma flag_IsValidator:
  assumes "stored E l a = Inr w" and "validator_flag E l a = Some f" and "f \<noteq> 0"
  shows "\<exists>l'. sdb_IsValidator E a l = Some (True, l')"
proof -
  from stored_live [OF assms(1)] obtain s where s: "sdb_live E l a = Some s" by auto
  then obtain s' where "so_GetState E (sdb_db l) (IsValidatorKey E) s = Some (f, s')"
    using assms(2) by (auto simp: validator_flag_def sdb_obj_def so_state_view_def)
  with s assms(3) show ?thesis by (simp add: sdb_IsValidator_def sdb_get_eq so_IsValidator_def)
qed

lemma flag_quiet: "sdb_quiet E l l' \<Longrightarrow> validator_flag E l' a = validator_flag E l a"
  using sdb_quiet_account [of E l l' a] by (simp add: validator_flag_def sdb_account_def so_view_def)

lemma so_state_view_head [simp]:
  "so_state_view E d (so_setBalance x s) = so_state_view E d s" "so_state_view E d (so_setNonce n s) = so_state_view E d s"
proof -
  note cong = so_state_view_cong so_committed_view_cong so_trie_view_cong
  show "so_state_view E d (so_setBalance x s) = so_state_view E d s"
    by (intro cong) (simp_all add: so_setBalance_def)
  show "so_state_view E d (so_setNonce n s) = so_state_view E d s"
    by (intro cong) (simp_all add: so_setNonce_def)
qed

lemma flag_local:
  assumes "sdb_local E a l l'" and "so_state_view E (sdb_db l) (sdb_obj E l' a) = so_state_view E (sdb_db l) (sdb_obj E l a)"
  shows "validator_flag E l' b = validator_flag E l b"
  using assms by (cases "b = a") (simp_all add: validator_flag_def sdb_local_def sdb_obj_peek)

text \<open>The accounts in \<open>S\<close> are not frozen, and what is stored there are validators in good order.\<close>

definition stakeable :: "('d, 'tr) senv \<Rightarrow> ('d, 'tr) SDB \<Rightarrow> address set \<Rightarrow> bool" where
  "stakeable E l S \<longleftrightarrow> finite S \<and> (\<forall>v\<in>S. \<not> fst (sdb_GetFreezeState E v l) \<and> readable E l v
     \<and> (\<forall>w. stored E l v = Inr w \<longrightarrow> (\<exists>f. validator_flag E l v = Some f \<and> f \<noteq> 0)))"

lemma stakeable_unfrozen: "stakeable E l S \<Longrightarrow> v \<in> S \<Longrightarrow> \<not> so_freeze (sdb_obj E l v)"
  by (simp add: stakeable_def sdb_getters_obj)

lemma store_validators:
  assumes "staking_env E" and "sdb_inv E l" and "stakeable E l S" and "sdb_same E l m"
    and "go_fold (\<lambda>w _. update_wrapper E w) ws () m = Some (Inr (), n)"
    and "distinct (map vw_Address ws)" and "\<forall>w\<in>set ws. vw_Address w \<in> S \<and> rates_present w"
  shows "sdb_inv E n \<and> (\<forall>a. sdb_core E n a = sdb_core E l a) \<and> staked E n S = staked E l S + gain E l ws"
proof -
  have c: "sdb_core E m a = sdb_core E l a" for a using sdb_same_core [OF assms(4)] .
  have "\<forall>v\<in>S. \<not> so_freeze (sdb_obj E m v)"
    using stakeable_unfrozen [OF assms(3)] c by (auto simp: so_core_def)
  moreover have "finite S" "sdb_inv E m" using assms(2,3,4) by (auto simp: stakeable_def sdb_same_def)
  moreover have "staked E m S = staked E l S" "gain E m ws = gain E l ws"
    using sdb_same_stored [OF assms(4)] by (simp_all add: staked_def gain_def)
  ultimately show ?thesis using update_wrappers [OF assms(1) _ _ assms(5-7)] c by auto
qed

lemma store_validator:
  assumes "staking_env E" and "sdb_inv E l" and "stakeable E l S" and "sdb_same E l m"
    and "update_wrapper E w m = Some (Inr (), n)" and "vw_Address w \<in> S" and "rates_present w"
  shows "sdb_inv E n \<and> (\<forall>a. sdb_core E n a = sdb_core E l a) \<and> staked E n S = staked E l S + gain E l [w]"
  by (rule store_validators [OF assms(1-4)]) (use assms(5-7) in \<open>auto simp: go_ok\<close>)

definition balance_of :: "('d, 'tr) senv \<Rightarrow> ('d, 'tr) SDB \<Rightarrow> address \<Rightarrow> int" where
  "balance_of E l a = fst (sdb_GetBalance E a l)"

lemma balance_of_core: "sdb_core E l' a = sdb_core E l a \<Longrightarrow> balance_of E l' a = balance_of E l a"
  by (simp add: balance_of_def sdb_getters_obj so_core_def)

lemma balance_of_move:
  assumes "sdb_inv E l" and "\<not> so_freeze (sdb_obj E l a)"
  shows "balance_of E (sdb_SubBalance E a x l) b = balance_of E l b - (if b = a then x else 0)"
    and "balance_of E (sdb_AddBalance E a x l) b = balance_of E l b + (if b = a then x else 0)"
  using assms by (auto simp: balance_of_def sdb_getters_obj sdb_SubBalance_obj sdb_AddBalance_obj)

definition nonce_of :: "('d, 'tr) senv \<Rightarrow> ('d, 'tr) SDB \<Rightarrow> address \<Rightarrow> u64" where
  "nonce_of E l a = fst (sdb_GetNonce E a l)"

lemma nonce_of_core: "sdb_core E l' a = sdb_core E l a \<Longrightarrow> nonce_of E l' a = nonce_of E l a"
  by (simp add: nonce_of_def sdb_getters_obj so_core_def)

lemma nonce_of_move:
  assumes "sdb_inv E l"
  shows "nonce_of E (sdb_SubBalance E a x l) b = nonce_of E l b" and "nonce_of E (sdb_AddBalance E a x l) b = nonce_of E l b"
  using assms by (auto simp: nonce_of_def sdb_getters_obj sdb_SubBalance_obj sdb_AddBalance_obj)

lemma staked_move:
  assumes "sdb_inv E l"
  shows "staked E (sdb_SubBalance E a x l) S = staked E l S" and "staked E (sdb_AddBalance E a x l) S = staked E l S"
  using stored_balance [OF assms] by (simp_all add: staked_def)

lemma log_quiet: "sdb_quiet E l (sdb_AddLog lg l)"
proof -
  have "sdb_peek E (sdb_AddLog lg l) a = sdb_peek E l a" for a
    by (rule sdb_peek_cong) (simp_all add: sdb_AddLog_def Let_def)
  then show ?thesis by (simp add: sdb_quiet_def sdb_view_def fun_eq_iff) (simp add: sdb_AddLog_def Let_def)
qed

lemma logs_quiet: "sdb_quiet E l (redelegation_logs E a bn locked l)"
proof -
  have "sdb_quiet E l (fold (\<lambda>k. sdb_AddLog (f k)) ks l)" for f :: "address \<Rightarrow> Log" and ks l
    by (induction ks arbitrary: l) (auto intro: sdb_quiet_trans [OF log_quiet])
  then show ?thesis by (simp add: redelegation_logs_def)
qed

lemma quiet_balance: "sdb_quiet E l l' \<Longrightarrow> balance_of E l' a = balance_of E l a"
  using sdb_quiet_account [of E l l' a]
  by (auto simp: balance_of_def sdb_getters_obj sdb_account_def so_view_def so_head_def so_Balance_def)

lemma quiet_nonce: "sdb_quiet E l l' \<Longrightarrow> nonce_of E l' a = nonce_of E l a"
  using sdb_quiet_account [of E l l' a]
  by (auto simp: nonce_of_def sdb_getters_obj sdb_account_def so_view_def so_head_def so_Nonce_def)

lemma quiet_staked: "sdb_quiet E l l' \<Longrightarrow> staked E l' S = staked E l S"
  by (simp add: staked_def stored_quiet)

text \<open>Nonces, the freezing of accounts and the invariant are the same in both states.\<close>

definition untouched :: "('d, 'tr) senv \<Rightarrow> ('d, 'tr) SDB \<Rightarrow> ('d, 'tr) SDB \<Rightarrow> bool" where
  "untouched E l l' \<longleftrightarrow> sdb_inv E l' \<and> (\<forall>b. nonce_of E l' b = nonce_of E l b)
     \<and> (\<forall>b. so_freeze (sdb_obj E l' b) = so_freeze (sdb_obj E l b))"

lemma untouched_trans: "untouched E l m \<Longrightarrow> untouched E m n \<Longrightarrow> untouched E l n"
  by (simp add: untouched_def)

lemma untouched_core:
  assumes "sdb_inv E l'" and "\<And>b. sdb_core E l' b = sdb_core E l b"
  shows "untouched E l l'"
  using assms(1) nonce_of_core [OF assms(2)] so_core_sel [OF assms(2)] by (simp add: untouched_def)

lemma untouched_move:
  assumes "sdb_inv E l"
  shows "untouched E l (sdb_SubBalance E a x l)" and "untouched E l (sdb_AddBalance E a x l)"
  using assms sdb_setters_safe(1,2) [OF assms] nonce_of_move [OF assms]
  by (auto simp: untouched_def sdb_safe_def sdb_SubBalance_obj sdb_AddBalance_obj)

lemma quiet_freeze: "sdb_quiet E l l' \<Longrightarrow> so_freeze (sdb_obj E l' a) = so_freeze (sdb_obj E l a)"
  using sdb_quiet_account [of E l l' a] by (simp add: sdb_account_def so_view_def so_head_def)

lemma untouched_log: "sdb_inv E l \<Longrightarrow> untouched E l (sdb_AddLog lg l)"
  using sdb_AddLog_safe [of E l lg] by (simp add: untouched_def sdb_safe_def quiet_nonce [OF log_quiet] quiet_freeze [OF log_quiet])

lemma untouched_logs: "sdb_inv E l \<Longrightarrow> untouched E l (redelegation_logs E a bn locked l)"
proof -
  have "untouched E l (fold (\<lambda>k. sdb_AddLog (f k)) ks l)" if "sdb_inv E l" for f :: "address \<Rightarrow> Log" and ks l
    using that
  proof (induction ks arbitrary: l)
    case (Cons k ks)
    from untouched_log [OF Cons.prems, of "f k"] Cons.IH [of "sdb_AddLog (f k) l"] show ?case
      by (simp add: untouched_def)
  qed (simp add: untouched_def)
  then show "sdb_inv E l \<Longrightarrow> untouched E l (redelegation_logs E a bn locked l)" by (simp add: redelegation_logs_def)
qed

text \<open>Each operation on its own, for the account \<open>a\<close> that sends it.\<close>

definition conserves :: "('d, 'tr) senv \<Rightarrow> address \<Rightarrow> address set \<Rightarrow> ('d, 'tr) SDB \<Rightarrow> ('d, 'tr) SDB \<Rightarrow> bool" where
  "conserves E a S l l' \<longleftrightarrow> balance_of E l' a + staked E l' S = balance_of E l a + staked E l S
     \<and> (\<forall>b. b \<noteq> a \<longrightarrow> balance_of E l' b = balance_of E l b) \<and> untouched E l l'"

lemma edit_conserves:
  assumes "staking_env E" and "sdb_inv E l" and "stakeable E l S" and "ev_ValidatorAddress m \<in> S"
    and "verifyAndApplyEditValidatorTx E B bc V m bn l = Some (Inr (), l')"
  shows "conserves E a S l l'"
proof -
  from assms(5) obtain w n where w: "VerifyAndEditValidatorFromMsg E B bc (EpochNumber V) bn m l = Some (Inr w, n)"
      "update_wrapper E w n = Some (Inr (), l')"
    by (auto simp: verifyAndApplyEditValidatorTx_def go_ok)
  have "readable E l (ev_ValidatorAddress m)" using assms(3,4) by (simp add: stakeable_def)
  note g = edit_gain [OF w(1) this]
  from store_validator [OF assms(1-3) _ w(2)] g assms(4) show ?thesis
    by (auto simp: conserves_def dest: balance_of_core intro: untouched_core)
qed

lemma undelegate_conserves:
  assumes "staking_env E" and "sdb_inv E l" and "stakeable E l S" and "un_ValidatorAddress m \<in> S"
    and "verifyAndApplyUndelegateTx E V m l = Some (Inr (), l')"
  shows "conserves E a S l l'"
proof -
  from assms(5) obtain w n where w: "VerifyAndUndelegateFromMsg E (EpochNumber V) m l = Some (Inr w, n)"
      "update_wrapper E w n = Some (Inr (), l')"
    by (auto simp: verifyAndApplyUndelegateTx_def go_ok)
  have "readable E l (un_ValidatorAddress m)" using assms(3,4) by (simp add: stakeable_def)
  note g = undelegate_gain [OF w(1) this]
  from store_validator [OF assms(1-3) _ w(2)] g assms(4) show ?thesis
    by (auto simp: conserves_def dest: balance_of_core intro: untouched_core)
qed

lemma create_conserves:
  assumes "staking_env E" and "sdb_inv E l" and "stakeable E l S" and "cv_ValidatorAddress m \<in> S"
    and "verifyAndApplyCreateValidatorTx E B bc V m bn l = Some (Inr (), l')"
  shows "conserves E (cv_ValidatorAddress m) S l l'"
proof -
  let ?a = "cv_ValidatorAddress m"
  from assms(5) obtain w n n1 n2 where w: "VerifyAndCreateValidatorFromMsg E B bc (EpochNumber V) bn m l = Some (Inr w, n)"
      "update_wrapper E w n = Some (Inr (), n1)" "sdb_SetValidatorFlag E ?a n1 = Some n2"
      "l' = sdb_SubBalance E ?a (cv_Amount m) n2"
    by (auto simp: verifyAndApplyCreateValidatorTx_def go_ok)
  note g = create_gain [OF w(1)]
  then have none: "\<exists>e. stored E l ?a = Inl e"
    using assms(3,4) stored_live IsValidator_flag unfolding stakeable_def by (cases "stored E l ?a") fastforce+
  have "vw_Address w \<in> S" using g assms(4) by simp
  with store_validator [OF assms(1-3) _ w(2)] g
  have n1: "sdb_inv E n1" "\<And>a. sdb_core E n1 a = sdb_core E l a" "staked E n1 S = staked E l S + cv_Amount m"
    using none by auto
  note k = SetState_keeps [OF n1(1) w(3) [unfolded sdb_SetValidatorFlag_def]]
  have c: "sdb_core E n2 b = sdb_core E l b" for b using k(3) n1(2) by simp
  moreover have "\<not> so_freeze (sdb_obj E n2 ?a)"
    using stakeable_unfrozen [OF assms(3,4)] c [of ?a] by (simp add: so_core_def)
  moreover have "staked E n2 S = staked E n1 S" using k(2) by (simp add: staked_def)
  ultimately show ?thesis
    using balance_of_move(1) [OF k(1)] staked_move(1) [OF k(1)] n1(3) balance_of_core [OF c] w(4)
      untouched_trans [OF untouched_core [OF k(1) c] untouched_move(1) [OF k(1)]]
    by (auto simp: conserves_def)
qed

lemma balance_of_sub:
  assumes "sdb_inv E l"
  shows "balance_of E (sdb_SubBalance E a x l) b = balance_of E l b - (if b = a \<and> \<not> so_freeze (sdb_obj E l a) then x else 0)"
  using assms by (auto simp: balance_of_def sdb_getters_obj sdb_SubBalance_obj)

lemma delegate_no_redelegation:
  assumes "VerifyAndDelegateFromMsg E epoch m ds cfg l = Some (Inr (ws, x, lk), n)" and "\<not> IsRedelegation cfg epoch"
  shows "x = de_Amount m"
  using assms unfolding VerifyAndDelegateFromMsg_def redelegate_def Let_def
  by (auto simp: go_ok split: if_splits)

text \<open>What a delegation takes from the balance of the delegator, when the delegator is not frozen, is
  what the validators get.\<close>

lemma delegate_effect:
  assumes "staking_env E" and "sdb_inv E l" and "stakeable E l S" and "de_ValidatorAddress m \<in> S"
    and "delegated_to bc (de_DelegatorAddress m) \<subseteq> S"
    and "\<And>ds. ReadDelegationsByDelegator bc (de_DelegatorAddress m) = Inr ds \<Longrightarrow> distinct (map di_ValidatorAddress ds)"
    and "verifyAndApplyDelegateTx E (Some bc) V m l = Some (Inr (), l')"
  obtains x where "staked E l' S = staked E l S + x"
    and "\<And>b. balance_of E l' b = balance_of E l b
      - (if b = de_DelegatorAddress m \<and> \<not> so_freeze (sdb_obj E l (de_DelegatorAddress m)) then x else 0)"
    and "\<not> IsRedelegation (evm_Config V) (EpochNumber V) \<Longrightarrow> x = de_Amount m" and "untouched E l l'"
proof -
  let ?a = "de_DelegatorAddress m"
  from assms(7) obtain ds ws x lk n n1 where w: "ReadDelegationsByDelegator bc ?a = Inr ds"
      "VerifyAndDelegateFromMsg E (EpochNumber V) m ds (evm_Config V) l = Some (Inr (ws, x, lk), n)"
      "go_fold (\<lambda>w _. update_wrapper E w) ws () n = Some (Inr (), n1)"
      "l' = redelegation_logs E ?a (BlockNumber V) lk (sdb_SubBalance E ?a x n1)"
    by (auto simp: verifyAndApplyDelegateTx_def go_ok)
  have S: "di_ValidatorAddress ` set ds \<subseteq> S" using assms(5) w(1) by (simp add: delegated_to_def)
  then have r: "\<forall>x\<in>set ds. readable E l (di_ValidatorAddress x)" "readable E l (de_ValidatorAddress m)"
    using assms(3,4) by (auto simp: stakeable_def)
  from delegate_gain [OF w(2) assms(6) [OF w(1)] r] have g: "sdb_same E l n" "distinct (map vw_Address ws)"
      "vw_Address ` set ws \<subseteq> insert (de_ValidatorAddress m) (di_ValidatorAddress ` set ds)"
      "\<forall>w\<in>set ws. rates_present w" "gain E l ws = x" by blast+
  have "insert (de_ValidatorAddress m) (di_ValidatorAddress ` set ds) \<subseteq> S" using S assms(4) by simp
  with g(3) have "vw_Address ` set ws \<subseteq> S" by (rule subset_trans)
  with g(4) have "\<forall>w\<in>set ws. vw_Address w \<in> S \<and> rates_present w" by (simp add: image_subset_iff)
  from store_validators [OF assms(1-3) g(1) w(3) g(2) this]
  have n1: "sdb_inv E n1" "\<And>a. sdb_core E n1 a = sdb_core E l a" "staked E n1 S = staked E l S + x"
    unfolding g(5) by blast+
  have f: "so_freeze (sdb_obj E n1 ?a) = so_freeze (sdb_obj E l ?a)" using n1(2) [of ?a] by (simp add: so_core_def)
  show thesis
  proof (rule that)
    show "staked E l' S = staked E l S + x"
      by (simp add: quiet_staked [OF logs_quiet] staked_move(1) [OF n1(1)] n1(3) w(4))
    show "balance_of E l' b = balance_of E l b - (if b = ?a \<and> \<not> so_freeze (sdb_obj E l ?a) then x else 0)" for b
      by (simp only: w(4) quiet_balance [OF logs_quiet] balance_of_sub [OF n1(1)] balance_of_core [OF n1(2)] f)
    show "\<not> IsRedelegation (evm_Config V) (EpochNumber V) \<Longrightarrow> x = de_Amount m"
      by (rule delegate_no_redelegation [OF w(2)])
    show "untouched E l l'"
      unfolding w(4) using untouched_core [OF n1(1,2)] untouched_move(1) [OF n1(1)] untouched_logs
      by (meson untouched_def untouched_trans)
  qed
qed

lemma delegate_conserves:
  assumes "staking_env E" and "sdb_inv E l" and "stakeable E l S" and "de_ValidatorAddress m \<in> S"
    and "delegated_to bc (de_DelegatorAddress m) \<subseteq> S" and "\<not> so_freeze (sdb_obj E l (de_DelegatorAddress m))"
    and "\<And>ds. ReadDelegationsByDelegator bc (de_DelegatorAddress m) = Inr ds \<Longrightarrow> distinct (map di_ValidatorAddress ds)"
    and "verifyAndApplyDelegateTx E (Some bc) V m l = Some (Inr (), l')"
  shows "conserves E (de_DelegatorAddress m) S l l'"
  by (rule delegate_effect [OF assms(1-5,7,8)]) (use assms(6) in \<open>simp_all add: conserves_def\<close>)

lemma collect_conserves:
  assumes "staking_env E" and "sdb_inv E l" and "stakeable E l S"
    and "delegated_to bc (co_DelegatorAddress m) \<subseteq> S" and "\<not> so_freeze (sdb_obj E l (co_DelegatorAddress m))"
    and "\<And>ds. ReadDelegationsByDelegator bc (co_DelegatorAddress m) = Inr ds \<Longrightarrow> distinct (map di_ValidatorAddress ds)"
    and "verifyAndApplyCollectRewards E (Some bc) V m l = Some (Inr y, l')"
  shows "conserves E (co_DelegatorAddress m) S l l'"
proof -
  let ?a = "co_DelegatorAddress m"
  from assms(7) obtain ds ws x n n1 lg where w: "ReadDelegationsByDelegator bc ?a = Inr ds"
      "VerifyAndCollectRewardsFromDelegation E ds l = Some (Inr (ws, x), n)"
      "go_fold (\<lambda>w _. update_wrapper E w) ws () n = Some (Inr (), n1)"
      "l' = sdb_AddLog lg (sdb_AddBalance E ?a x n1)"
    by (auto simp: verifyAndApplyCollectRewards_def go_ok)
  have S: "di_ValidatorAddress ` set ds \<subseteq> S" using assms(4) w(1) by (simp add: delegated_to_def)
  then have r: "\<forall>x\<in>set ds. readable E l (di_ValidatorAddress x)"
    using assms(3) by (auto simp: stakeable_def)
  from collect_gain [OF w(2) r] have g: "sdb_same E l n" "map vw_Address ws = map di_ValidatorAddress ds"
      "\<forall>w\<in>set ws. rates_present w" "gain E l ws = - x" by blast+
  have "vw_Address ` set ws = di_ValidatorAddress ` set ds" using g(2) by (metis list.set_map)
  with S have "vw_Address ` set ws \<subseteq> S" by simp
  with g(3) have "\<forall>w\<in>set ws. vw_Address w \<in> S \<and> rates_present w" by (simp add: image_subset_iff)
  from store_validators [OF assms(1-3) g(1) w(3) _ this] g(2) assms(6) [OF w(1)]
  have n1: "sdb_inv E n1" "\<And>a. sdb_core E n1 a = sdb_core E l a" "staked E n1 S = staked E l S + gain E l ws"
    by simp_all
  have f: "\<not> so_freeze (sdb_obj E n1 ?a)" using assms(5) n1(2) [of ?a] by (simp add: so_core_def)
  have "balance_of E l' b = balance_of E l b + (if b = ?a then x else 0)" for b
    by (simp add: quiet_balance [OF log_quiet] balance_of_move(2) [OF n1(1) f] balance_of_core [OF n1(2)] w(4))
  moreover have "staked E l' S = staked E l S - x"
    by (simp add: quiet_staked [OF log_quiet] staked_move(2) [OF n1(1)] n1(3) g(4) w(4))
  moreover have "untouched E l l'"
    unfolding w(4) using untouched_core [OF n1(1,2)] untouched_move(2) [OF n1(1)] untouched_log
    by (meson untouched_def untouched_trans)
  ultimately show ?thesis by (simp add: conserves_def)
qed

section \<open>A state with a validator\<close>

text \<open>
  A concrete account state with a validator at address 9 and a plain account at address 5, both with
  10000 ONE. The validator codec is a table of the three validators that occur.
\<close>

definition demo_undelegated :: ValidatorWrapper where
  "demo_undelegated = demo_wrapper\<lparr>vw_Delegations := [\<lparr>dg_DelegatorAddress = 9, dg_Amount = 19 * 10 ^ 21, dg_Reward = 0,
     dg_Undelegations = [\<lparr>ud_Amount = 10 ^ 21, ud_Epoch = 200\<rparr>]\<rparr>]\<rparr>"

definition demo_delegated :: ValidatorWrapper where
  "demo_delegated = demo_wrapper\<lparr>vw_Delegations := [NewDelegation 9 (2 * 10 ^ 22), NewDelegation 5 (10 ^ 21)]\<rparr>"

definition stk_demo_env ::
    "((hash, bytes) gomap, (address, bytes) gomap \<times> (hash, bytes) gomap) senv" where
  "stk_demo_env = \<lparr>OpenTrie = (\<lambda>_ _. Inr ([(9, [1]), (5, [7])], [])),
     TryGet = (\<lambda>t k. (gm_getd [] (fst t) k, None)),
     TryUpdate = (\<lambda>t k v. (None, (gm_set k v (fst t), snd t))),
     TryDelete = (\<lambda>t k. (None, (gm_del k (fst t), snd t))),
     TrieHash = (\<lambda>t. of_nat (length (fst t))),
     TrieCommit = (\<lambda>t f d. ((of_nat (length (fst t)), None), t, d)),
     Keccak256Address = ucast,
     OpenStorageTrie = (\<lambda>_ _ _. Inr ([], [])),
     TryGetSlot = (\<lambda>t k. ([28], None)),
     TryUpdateSlot = (\<lambda>t k v. (None, (fst t, gm_set k v (snd t)))),
     TryDeleteSlot = (\<lambda>t k. (None, (fst t, gm_del k (snd t)))),
     ContractCode = (\<lambda>_ _ _. (Some [1], None)),
     ContractCodeSize = (\<lambda>d _ h. (int (length (gm_getd [] d h)), None)),
     InsertBlob = (\<lambda>d h c. gm_set h c d),
     Reference = (\<lambda>d _ _. d),
     Keccak256Hash = (\<lambda>b. of_nat (length b)),
     EncodeAccount = (\<lambda>acc. Inr [of_int (acc_Balance acc)]),
     DecodeAccount = (\<lambda>b. Inr \<lparr>raw_Nonce = 0, raw_Balance = Some (10 ^ 22), raw_Root = 0,
        raw_CodeHash = (if hd b = 1 then Some (hash_bytes 1) else None)\<rparr>),
     RlpSplit = (\<lambda>b. (b, None)), RlpEncodeBytes = (\<lambda>b. b),
     ValidatorSanityCheck = (\<lambda>w. case vw_SanityCheck w of Some r \<Rightarrow> r | None \<Rightarrow> None),
     EncodeValidator = (\<lambda>w. if w = demo_wrapper then Inr [1] else if w = demo_undelegated then Inr [2]
        else if w = demo_delegated then Inr [3] else Inl ''rlp''),
     DecodeValidator = (\<lambda>b. if b = [1] then Inr demo_wrapper else if b = [2] then Inr demo_undelegated
        else if b = [3] then Inr demo_delegated else Inl ''rlp'')\<rparr>"

definition stk_demo :: "((hash, bytes) gomap, (address, bytes) gomap \<times> (hash, bytes) gomap) SDB" where
  "stk_demo = projr (sdb_New stk_demo_env 0 [])"

lemma stk_demo_new: "sdb_New stk_demo_env 0 [] = Inr stk_demo"
  by (simp add: stk_demo_def sdb_New_def stk_demo_env_def)

lemma stk_demo_reachable: "sdb_reachable stk_demo_env stk_demo"
  by (rule sdb_reachable.st_new [OF stk_demo_new])

lemma stk_demo_tries: "account_tries_ok stk_demo_env"
  by (simp add: account_tries_ok_def so_trie_ok_def stk_demo_env_def)

lemma stk_demo_inv: "sdb_inv stk_demo_env stk_demo"
  using sdb_reachable_inv [OF stk_demo_tries stk_demo_reachable] by simp

lemma stk_demo_not_frozen: "\<not> fst (sdb_GetFreezeState stk_demo_env a stk_demo)"
  by (rule sdb_uncached_not_frozen) (simp add: stk_demo_def sdb_New_def stk_demo_env_def)

lemma demo_rates: "rates_present demo_wrapper" "rates_present demo_undelegated" "rates_present demo_delegated"
  by (simp_all add: rates_present_def demo_wrapper_def demo_undelegated_def demo_delegated_def)

lemma stk_demo_staking_env: "staking_env stk_demo_env"
proof -
  have "vw_SanityCheck w = Some (case vw_SanityCheck w of Some r \<Rightarrow> r | None \<Rightarrow> None)" if "rates_present w" for w
    using that va_check_total [of "vw_Validator w"] vw_check_total [of w] by (auto simp: rates_present_def)
  then show ?thesis using demo_rates by (simp add: staking_env_def stk_demo_env_def)
qed

lemma hash_bytes_demo: "hash_bytes 1 \<noteq> hash_bytes 0"
proof
  assume "hash_bytes 1 = hash_bytes 0"
  then have "last (hash_bytes 1) = last (hash_bytes 0)" by simp
  then show False by (simp add: hash_bytes_def last_map last_rev)
qed

lemma stk_demo_stored: "stored stk_demo_env stk_demo 9 = Inr demo_wrapper"
  by (simp add: stored_def sdb_ValidatorWrapperCopy_def sdb_GetCode_def sdb_getStateObject_def sdb_getDeletedStateObject_def
      so_Code_def so_CodeHash_def so_newObject_def emptyCodeHash_def gm_getd_def hash_bytes_demo
      stk_demo_def sdb_New_def stk_demo_env_def Let_def)

lemma stk_demo_validator: "\<exists>l1. sdb_IsValidator stk_demo_env 9 stk_demo = Some (True, l1)"
  by (simp add: sdb_IsValidator_def so_IsValidator_def so_GetState_def so_GetCommittedState_def so_getTrie_def
      sdb_getStateObject_def sdb_getDeletedStateObject_def so_newObject_def gm_getd_def BytesToHash_def word_rcat_def
      stk_demo_def sdb_New_def stk_demo_env_def Let_def)

lemma demo_wrapper_dels: "dels_ok demo_wrapper"
  by (simp add: dels_ok_def demo_wrapper_def NewDelegation_def dg_wf_def)

lemma stk_demo_readable: "readable stk_demo_env stk_demo 9"
  using stk_demo_stored demo_rates(1) demo_wrapper_dels by (simp add: readable_def) (simp add: demo_wrapper_def)

lemma stk_demo_stakeable: "stakeable stk_demo_env stk_demo {9}"
  using stk_demo_not_frozen stk_demo_readable stk_demo_validator IsValidator_flag by (fastforce simp: stakeable_def)

lemma stk_demo_balance: "balance_of stk_demo_env stk_demo 5 = 10 ^ 22"
  by (simp add: balance_of_def sdb_GetBalance_def sdb_getStateObject_def sdb_getDeletedStateObject_def
      stk_demo_def sdb_New_def stk_demo_env_def gm_getd_def so_newObject_def so_Balance_def Let_def)

section \<open>Conservation\<close>

text \<open>The staking operation of a message, in a state that satisfies the invariant.\<close>

lemma staking_op_conserves:
  assumes "staking_env E" and "sdb_inv E l"
    and "stakeable E l S" and "staking_validators C bc msg \<subseteq> S"
    and "\<not> fst (sdb_GetFreezeState E (msg_From msg) l)"
    and "\<forall>ds. ReadDelegationsByDelegator bc (msg_From msg) = Inr ds \<longrightarrow> distinct (map di_ValidatorAddress ds)"
    and "staking_op E B C (Some bc) V msg = Inr m" and "m l = Some (Inr (), l')"
  shows "conserves E (msg_From msg) S l l'"
proof -
  have f: "\<not> so_freeze (sdb_obj E l (msg_From msg))" using assms(5) by (simp add: sdb_getters_obj)
  note c = create_conserves [OF assms(1-3)] edit_conserves [OF assms(1-3)]
    delegate_conserves [OF assms(1-3)] undelegate_conserves [OF assms(1-3)]
    collect_conserves [OF assms(1-3)]
  show ?thesis
  proof (cases "msg_Type msg")
    case StakeCreateVal
    then obtain x where "rlp_CreateValidator C (msg_Data msg) = Inr x" "msg_From msg = cv_ValidatorAddress x"
        "m = verifyAndApplyCreateValidatorTx E B (Some bc) V x (msg_BlockNum msg)"
      using assms(7) by (auto simp: staking_op_def split: sum.splits if_splits)
    then show ?thesis using c(1) [of x] assms(4,8) StakeCreateVal by (simp add: staking_validators_def)
  next
    case StakeEditVal
    then obtain x where "rlp_EditValidator C (msg_Data msg) = Inr x"
        "m = verifyAndApplyEditValidatorTx E B (Some bc) V x (msg_BlockNum msg)"
      using assms(7) by (auto simp: staking_op_def split: sum.splits if_splits)
    then show ?thesis using c(2) [of x] assms(4,8) StakeEditVal by (simp add: staking_validators_def)
  next
    case Delegate
    then obtain x where x: "rlp_Delegate C (msg_Data msg) = Inr x" "de_DelegatorAddress x = msg_From msg"
        "m = verifyAndApplyDelegateTx E (Some bc) V x"
      using assms(7) by (auto simp: staking_op_def split: sum.splits if_splits)
    then show ?thesis
      using c(3) [of x bc V l'] assms(4,6,8) f Delegate by (simp add: staking_validators_def)
  next
    case Undelegate
    then obtain x where "rlp_Undelegate C (msg_Data msg) = Inr x" "m = verifyAndApplyUndelegateTx E V x"
      using assms(7) by (auto simp: staking_op_def split: sum.splits if_splits)
    then show ?thesis using c(4) [of x] assms(4,8) Undelegate by (simp add: staking_validators_def)
  next
    case CollectRewards
    then obtain x where x: "co_DelegatorAddress x = msg_From msg"
        "m = go_bind (verifyAndApplyCollectRewards E (Some bc) V x) (\<lambda>_. go_return ())"
      using assms(7) by (auto simp: staking_op_def split: sum.splits if_splits)
    then obtain y where "verifyAndApplyCollectRewards E (Some bc) V x l = Some (Inr y, l')"
      using assms(8) by (auto simp: go_ok)
    then show ?thesis
      using c(5) [of bc x V y l'] x(1) assms(4,6) f CollectRewards by (simp add: staking_validators_def)
  qed (use assms(7) in \<open>simp_all add: staking_op_def\<close>)
qed

text \<open>Every staking operation that succeeds conserves tokens. In a reachable state in which the
  sender and the validators that the message touches are not frozen, creating or editing a
  validator, delegating, undelegating and collecting rewards keep the sum of the balance of the
  sender and of all tokens of the validators: delegated, on their way back, or rewards. No other
  balance changes.\<close>

lemma staking_conserves:
  assumes "staking_env E" and "account_tries_ok E" and "sdb_reachable E l"
    and "stakeable E l S" and "staking_validators C bc msg \<subseteq> S"
    and "\<not> fst (sdb_GetFreezeState E (msg_From msg) l)"
    and "\<forall>ds. ReadDelegationsByDelegator bc (msg_From msg) = Inr ds \<longrightarrow> distinct (map di_ValidatorAddress ds)"
    and "staking_op E B C (Some bc) V msg = Inr m" and "m l = Some (Inr (), l')"
  shows "balance_of E l' (msg_From msg) + staked E l' S = balance_of E l (msg_From msg) + staked E l S
    \<and> (\<forall>b. b \<noteq> msg_From msg \<longrightarrow> balance_of E l' b = balance_of E l b)"
  using staking_op_conserves [OF assms(1) _ assms(4-9)] sdb_reachable_inv [OF assms(2,3)] by (simp add: conserves_def)

text \<open>A frozen account stakes for free. When the delegator is frozen and tokens on their way back
  may not be used, a delegation that succeeds adds its whole amount to what the validators hold and
  takes nothing from any balance: SubBalance leaves a frozen account as it is and reports nothing.\<close>

lemma frozen_delegator_pays_nothing:
  assumes "staking_env E" and "account_tries_ok E" and "sdb_reachable E l"
    and "stakeable E l S" and "insert (de_ValidatorAddress m) (delegated_to bc (de_DelegatorAddress m)) \<subseteq> S"
    and "fst (sdb_GetFreezeState E (de_DelegatorAddress m) l)"
    and "\<forall>ds. ReadDelegationsByDelegator bc (de_DelegatorAddress m) = Inr ds \<longrightarrow> distinct (map di_ValidatorAddress ds)"
    and "\<not> IsRedelegation (evm_Config V) (EpochNumber V)"
    and "verifyAndApplyDelegateTx E (Some bc) V m l = Some (Inr (), l')"
  shows "staked E l' S = staked E l S + de_Amount m \<and> (\<forall>b. balance_of E l' b = balance_of E l b)"
proof -
  have inv: "sdb_inv E l" using sdb_reachable_inv [OF assms(2,3)] by simp
  have f: "so_freeze (sdb_obj E l (de_DelegatorAddress m))" using assms(6) by (simp add: sdb_getters_obj)
  show ?thesis
    by (rule delegate_effect [OF assms(1) inv assms(4) _ _ _ assms(9)]) (use assms(5,7,8) f in auto)
qed

lemma demo_checks: "vw_SanityCheck demo_undelegated = Some None" "vw_SanityCheck demo_delegated = Some None"
  by (simp_all add: vw_check_ok vw_ok_def va_ok_def rates_ok_def desc_ok_def demo_undelegated_def demo_delegated_def
      demo_wrapper_def NewDelegation_def TotalDelegation_def)

lemma stk_demo_update:
  assumes "w \<in> {demo_undelegated, demo_delegated}"
  shows "\<exists>n. update_wrapper stk_demo_env w l = Some (Inr (), n)"
proof -
  have "ValidatorSanityCheck stk_demo_env w = None" and "\<exists>by. EncodeValidator stk_demo_env w = Inr by"
    using assms demo_checks by (auto simp: stk_demo_env_def)
  then show ?thesis
    by (auto simp: update_wrapper_def go_call_err_def go_return_def sdb_UpdateValidatorWrapper_def Let_def)
qed

definition stk_demo_evm :: "((hash, bytes) gomap, (address, bytes) gomap \<times> (hash, bytes) gomap) evm_env" where
  "stk_demo_evm = \<lparr>EpochNumber = Some 200, BlockNumber = 7, Coinbase = 2, evm_Config = MainnetChainConfig,
     evm_Create = (\<lambda>_ _ _ _ _. None), evm_Call = (\<lambda>_ _ _ _ _ _. None)\<rparr>"

definition demo_undelegate :: Undelegate where
  "demo_undelegate = \<lparr>un_DelegatorAddress = 9, un_ValidatorAddress = 9, un_Amount = 10 ^ 21\<rparr>"

lemma stk_demo_undelegates:
  assumes "stored stk_demo_env l 9 = Inr demo_wrapper" and "stakeable stk_demo_env l {9}"
  shows "\<exists>n. verifyAndApplyUndelegateTx stk_demo_env stk_demo_evm demo_undelegate l = Some (Inr (), n)"
proof -
  have u: "undelegate_from 200 demo_undelegate demo_wrapper l = Some (Inr demo_undelegated, l)"
    for l :: "((hash, bytes) gomap, (address, bytes) gomap \<times> (hash, bytes) gomap) SDB"
  proof -
    have "demo_wrapper\<lparr>vw_Delegations := [\<lparr>dg_DelegatorAddress = 9, dg_Amount = 19 * 10 ^ 21, dg_Reward = 0,
       dg_Undelegations = [\<lparr>ud_Amount = 10 ^ 21, ud_Epoch = 200\<rparr>]\<rparr>]\<rparr> = demo_undelegated"
      by (simp add: demo_undelegated_def)
    moreover have "vw_Delegations demo_wrapper = [NewDelegation 9 (2 * 10 ^ 22)]" by (simp add: demo_wrapper_def)
    ultimately show ?thesis using demo_checks(1)
      by (simp add: undelegate_from_def demo_undelegate_def NewDelegation_def dg_Undelegate_def
          go_try_def go_opt_def go_return_def)
  qed
  from assms obtain l1 where l1: "sdb_IsValidator stk_demo_env 9 l = Some (True, l1)"
    using flag_IsValidator by (fastforce simp: stakeable_def)
  then have "sdb_same stk_demo_env l l1" by (rule IsValidator_same)
  then obtain l2 where "sdb_ValidatorWrapperCopy stk_demo_env 9 l1 = (Inr demo_wrapper, l2)"
    using sdb_same_stored [of stk_demo_env l l1 9] assms(1)
    by (cases "sdb_ValidatorWrapperCopy stk_demo_env 9 l1") (simp add: stored_def)
  moreover have "un_ValidatorAddress demo_undelegate = 9" "\<not> un_Amount demo_undelegate < 0"
    and "EpochNumber stk_demo_evm = Some 200"
    by (simp_all add: demo_undelegate_def stk_demo_evm_def)
  ultimately show ?thesis using l1 u stk_demo_update [of demo_undelegated]
    by (simp add: verifyAndApplyUndelegateTx_def VerifyAndUndelegateFromMsg_def
        go_bind_def go_get_opt_def go_check_def go_call_def)
qed

definition stk_demo_chain :: chain_env where
  "stk_demo_chain = \<lparr>ReadValidatorList = Inr [9], ReadValidatorSnapshot = (\<lambda>_. Inr demo_wrapper),
     ReadDelegationsByDelegator = (\<lambda>_. Inr []), ctx_Config = MainnetChainConfig\<rparr>"

definition stk_demo_codec :: stk_codec where
  "stk_demo_codec = \<lparr>rlp_CreateValidator = (\<lambda>_. Inl ''rlp''), rlp_EditValidator = (\<lambda>_. Inl ''rlp''),
     rlp_Delegate = (\<lambda>_. Inl ''rlp''), rlp_Undelegate = (\<lambda>_. Inr demo_undelegate), rlp_CollectRewards = (\<lambda>_. Inl ''rlp'')\<rparr>"

definition stk_demo_msg :: Message where
  "stk_demo_msg = \<lparr>msg_From = 9, msg_To = None, msg_GasPrice = 1, msg_Gas = 30000, msg_Value = 0, msg_Nonce = 0,
     msg_CheckNonce = True, msg_Data = [], msg_Type = TransactionType.Undelegate, msg_BlockNum = Some 7\<rparr>"

lemma stk_demo_msg_ok:
  "staking_validators stk_demo_codec stk_demo_chain stk_demo_msg \<subseteq> {9}"
  "staking_op stk_demo_env B stk_demo_codec (Some stk_demo_chain) stk_demo_evm stk_demo_msg
     = Inr (verifyAndApplyUndelegateTx stk_demo_env stk_demo_evm demo_undelegate)"
  "\<forall>ds. ReadDelegationsByDelegator stk_demo_chain (msg_From stk_demo_msg) = Inr ds \<longrightarrow> distinct (map di_ValidatorAddress ds)"
  "msg_From stk_demo_msg = 9"
  by (simp_all add: staking_validators_def staking_op_def stk_demo_codec_def stk_demo_msg_def stk_demo_chain_def)
    (simp_all add: demo_undelegate_def)

lemma staking_conserves_example:
  "\<exists>n. verifyAndApplyUndelegateTx stk_demo_env stk_demo_evm demo_undelegate stk_demo = Some (Inr (), n)
     \<and> balance_of stk_demo_env n 9 + staked stk_demo_env n {9}
       = balance_of stk_demo_env stk_demo 9 + staked stk_demo_env stk_demo {9}"
proof -
  from stk_demo_undelegates [OF stk_demo_stored stk_demo_stakeable] obtain n
    where n: "verifyAndApplyUndelegateTx stk_demo_env stk_demo_evm demo_undelegate stk_demo = Some (Inr (), n)" by blast
  show ?thesis
    using staking_conserves [OF stk_demo_staking_env stk_demo_tries stk_demo_reachable stk_demo_stakeable
        stk_demo_msg_ok(1) stk_demo_not_frozen stk_demo_msg_ok(3,2), of n] n by (simp add: stk_demo_msg_ok(4))
qed

text \<open>The same state with the plain account 5 frozen, from which account 5 delegates 1000 ONE.\<close>

definition stk_demo_frozen where
  "stk_demo_frozen = sdb_SetFreezeState stk_demo_env 5 True stk_demo"

definition demo_delegate :: Delegate where
  "demo_delegate = \<lparr>de_DelegatorAddress = 5, de_ValidatorAddress = 9, de_Amount = 10 ^ 21\<rparr>"

lemma stk_demo_frozen_reachable: "sdb_reachable stk_demo_env stk_demo_frozen"
  unfolding stk_demo_frozen_def
  by (rule sdb_reachable.st_step [OF stk_demo_reachable, where x = "StSetFreezeState 5 True"]) simp

lemma stk_demo_frozen_state: "fst (sdb_GetFreezeState stk_demo_env a stk_demo_frozen) \<longleftrightarrow> a = 5"
  using stk_demo_not_frozen [of a]
  by (auto simp: stk_demo_frozen_def sdb_getters_obj sdb_SetFreezeState_obj [OF stk_demo_inv] so_setFreezeState_def)

lemma stk_demo_frozen_eq:
  obtains ob j where "stk_demo_frozen = stk_demo\<lparr>stateObjects := [(5, ob)], sdb_journal := j\<rparr>"
  by (simp add: stk_demo_frozen_def sdb_SetFreezeState_def sdb_GetOrNewStateObject_def sdb_getStateObject_def
      sdb_getDeletedStateObject_def so_SetFreezeState_def gm_getd_def so_newObject_def sdb_write_def sdb_append_def
      sdb_setStateObject_def stk_demo_def sdb_New_def stk_demo_env_def Let_def)

lemma stk_demo_frozen_stored: "stored stk_demo_env stk_demo_frozen 9 = Inr demo_wrapper"
proof -
  obtain ob j where e: "stk_demo_frozen = stk_demo\<lparr>stateObjects := [(5, ob)], sdb_journal := j\<rparr>"
    by (rule stk_demo_frozen_eq)
  show ?thesis
    unfolding e by (simp add: stored_def sdb_ValidatorWrapperCopy_def sdb_GetCode_def sdb_getStateObject_def sdb_getDeletedStateObject_def
      so_Code_def so_CodeHash_def so_newObject_def emptyCodeHash_def gm_getd_def hash_bytes_demo
      stk_demo_def sdb_New_def stk_demo_env_def Let_def)
qed

lemma stk_demo_frozen_validator: "\<exists>l1. sdb_IsValidator stk_demo_env 9 stk_demo_frozen = Some (True, l1)"
proof -
  obtain ob j where e: "stk_demo_frozen = stk_demo\<lparr>stateObjects := [(5, ob)], sdb_journal := j\<rparr>"
    by (rule stk_demo_frozen_eq)
  show ?thesis
    unfolding e by (simp add: sdb_IsValidator_def so_IsValidator_def so_GetState_def so_GetCommittedState_def so_getTrie_def
      sdb_getStateObject_def sdb_getDeletedStateObject_def so_newObject_def gm_getd_def BytesToHash_def word_rcat_def
      stk_demo_def sdb_New_def stk_demo_env_def Let_def)
qed

lemma stk_demo_frozen_stakeable: "stakeable stk_demo_env stk_demo_frozen {9}"
  using stk_demo_frozen_state [of 9] stk_demo_frozen_stored stk_demo_frozen_validator stk_demo_readable stk_demo_stored
    IsValidator_flag by (fastforce simp: stakeable_def readable_def)

lemma stk_demo_frozen_balance: "balance_of stk_demo_env stk_demo_frozen 5 = 10 ^ 22"
  using stk_demo_balance
  by (simp add: balance_of_def sdb_getters_obj stk_demo_frozen_def sdb_SetFreezeState_obj [OF stk_demo_inv]
      so_Balance_def so_setFreezeState_def)

lemma demo_adds: "add_delegation demo_delegate demo_wrapper s = Some (Inr demo_delegated, s)"
proof -
  have "demo_wrapper\<lparr>vw_Delegations := [NewDelegation 9 (2 * 10 ^ 22), NewDelegation 5 (10 ^ 21)]\<rparr> = demo_delegated"
    by (simp add: demo_delegated_def)
  moreover have "vw_Delegations demo_wrapper = [NewDelegation 9 (2 * 10 ^ 22)]" by (simp add: demo_wrapper_def)
  moreover have "dg_DelegatorAddress (NewDelegation 9 x) = 9" for x by (simp add: NewDelegation_def)
  ultimately show ?thesis using demo_checks(2)
    by (simp add: add_delegation_def add_delegation_body_def demo_delegate_def go_bind_def go_opt_def go_try_def go_return_def)
qed

lemma stk_demo_delegates:
  "\<exists>n. verifyAndApplyDelegateTx stk_demo_env (Some stk_demo_chain) stk_demo_evm demo_delegate stk_demo_frozen
     = Some (Inr (), n)"
proof -
  have d: "de_ValidatorAddress demo_delegate = 9" "de_DelegatorAddress demo_delegate = 5" "de_Amount demo_delegate = 10 ^ 21"
    by (simp_all add: demo_delegate_def)
  have c: "delegation_too_small (evm_Config stk_demo_evm) (EpochNumber stk_demo_evm) (10 ^ 21) = None"
    "\<not> IsRedelegation (evm_Config stk_demo_evm) (EpochNumber stk_demo_evm)"
    "ReadDelegationsByDelegator stk_demo_chain 5 = Inr []"
    by (simp_all add: delegation_too_small_def minimumDelegation_def denominations_One_def stk_demo_evm_def stk_demo_chain_def
        IsRedelegation_def isForked_def MainnetChainConfig_def)
  from stk_demo_frozen_validator obtain l1
    where l1: "sdb_IsValidator stk_demo_env 9 stk_demo_frozen = Some (True, l1)" by blast
  then have s1: "sdb_same stk_demo_env stk_demo_frozen l1" by (rule IsValidator_same)
  then obtain l2 where l2: "sdb_ValidatorWrapperCopy stk_demo_env 9 l1 = (Inr demo_wrapper, l2)"
    using sdb_same_stored [of stk_demo_env stk_demo_frozen l1 9] stk_demo_frozen_stored
    by (cases "sdb_ValidatorWrapperCopy stk_demo_env 9 l1") (simp add: stored_def)
  have "balance_of stk_demo_env l2 5 = 10 ^ 22"
    using stk_demo_frozen_balance s1 wrapper_copy [OF l2] quiet_balance unfolding sdb_same_def by metis
  then obtain l3 where "CanTransfer stk_demo_env 5 (10 ^ 21) l2 = (True, l3)"
    by (cases "sdb_GetBalance stk_demo_env 5 l2") (simp add: CanTransfer_def balance_of_def)
  with l1 l2 d c
  have "VerifyAndDelegateFromMsg stk_demo_env (EpochNumber stk_demo_evm) demo_delegate [] (evm_Config stk_demo_evm) stk_demo_frozen
      = Some (Inr ([demo_delegated], 10 ^ 21, []), l3)"
    by (simp add: VerifyAndDelegateFromMsg_def redelegate_def demo_adds go_bind_def go_get_opt_def go_check_def go_call_def
        go_try_def go_get_def go_return_def)
  moreover obtain n where "update_wrapper stk_demo_env demo_delegated l3 = Some (Inr (), n)"
    using stk_demo_update [of demo_delegated] by blast
  ultimately show ?thesis using d c
    by (simp add: verifyAndApplyDelegateTx_def go_opt_def go_sum_def go_bind_def go_do_def go_return_def)
qed

lemma frozen_delegator_pays_nothing_example:
  "\<exists>n. verifyAndApplyDelegateTx stk_demo_env (Some stk_demo_chain) stk_demo_evm demo_delegate stk_demo_frozen = Some (Inr (), n)
     \<and> staked stk_demo_env n {9} = staked stk_demo_env stk_demo_frozen {9} + 10 ^ 21
     \<and> balance_of stk_demo_env n 5 = 10 ^ 22"
proof -
  from stk_demo_delegates obtain n where n: "verifyAndApplyDelegateTx stk_demo_env (Some stk_demo_chain) stk_demo_evm
      demo_delegate stk_demo_frozen = Some (Inr (), n)" by blast
  have d: "de_ValidatorAddress demo_delegate = 9" "de_DelegatorAddress demo_delegate = 5" "de_Amount demo_delegate = 10 ^ 21"
    by (simp_all add: demo_delegate_def)
  have c: "delegated_to stk_demo_chain 5 = {}" "ReadDelegationsByDelegator stk_demo_chain 5 = Inr []"
    "\<not> IsRedelegation (evm_Config stk_demo_evm) (EpochNumber stk_demo_evm)"
    by (simp_all add: delegated_to_def stk_demo_chain_def stk_demo_evm_def IsRedelegation_def isForked_def
        MainnetChainConfig_def)
  from frozen_delegator_pays_nothing [OF stk_demo_staking_env stk_demo_tries stk_demo_frozen_reachable
      stk_demo_frozen_stakeable _ _ _ c(3) n]
  show ?thesis using d c stk_demo_frozen_state [of 5] stk_demo_frozen_balance n by simp
qed

end
