(* ===== verification/Staking_Rewards.thy ===== *)
theory Staking_Rewards
  imports Staking_Props Decimal_Props
begin

text \<open>
  Block rewards (\<open>AddReward\<close> of \<open>core/state/statedb.go\<close>): the whole reward is paid out, and what is
  paid beyond it is rounding only, at most half a unit for a delegation. A delegator without a
  share ends the distribution early without an error.
\<close>

definition total_rewards :: "Delegation list \<Rightarrow> int" where
  "total_rewards ds = (\<Sum>d\<leftarrow>ds. dg_Reward d)"

definition share_of :: "(address, Dec) gomap \<Rightarrow> Delegation \<Rightarrow> int" where
  "share_of shareLookup d = (case gm_get shareLookup (dg_DelegatorAddress d) of Some (Some p) \<Rightarrow> p | _ \<Rightarrow> 0)"

text \<open>What a delegation holds apart from its reward.\<close>

definition unrewarded :: "Delegation \<Rightarrow> Delegation" where
  "unrewarded d = d\<lparr>dg_Reward := 0\<rparr>"

lemma sum_list_update_int: "i < length xs \<Longrightarrow> sum_list (xs[i := y]) = sum_list xs - xs ! i + (y :: int)"
  by (induction xs arbitrary: i) (auto split: nat.split)

lemma pay_reward_total:
  assumes "pay_reward i x ds = Some ds'"
  shows "total_rewards ds' = total_rewards ds + x \<and> map unrewarded ds' = map unrewarded ds"
proof -
  from assms have i: "i < length ds" and ds': "ds' = ds[i := (ds ! i)\<lparr>dg_Reward := dg_Reward (ds ! i) + x\<rparr>]"
    by (auto simp: pay_reward_def split: if_splits)
  have "map unrewarded ds' = map unrewarded ds"
    using i by (intro nth_equalityI) (auto simp: ds' unrewarded_def nth_list_update)
  with i show ?thesis by (simp add: total_rewards_def ds' map_update sum_list_update_int)
qed

lemma reward_share_near:
  assumes "reward_share (Some p) t = Some x"
  shows "2 * \<bar>p * t - x * precisionReuse\<bar> \<le> precisionReuse"
proof -
  have "x = chopPrecisionAndRound (p * t)"
    using assms by (auto simp: reward_share_def dec_MulInt_def dec_RoundInt_def dec_lift2_def dec_check_def
        split: if_splits option.splits)
  with chop_round_nearest [of "p * t"] show ?thesis by (simp add: nearest_even_def)
qed

lemma reward_loop_total:
  assumes "reward_loop sh t i snap pool ds = Some (z, pool', ds')"
  shows "total_rewards ds' - total_rewards ds = pool - pool' \<and> map unrewarded ds' = map unrewarded ds"
  using assms
proof (induction snap arbitrary: i pool ds)
  case (Cons d snap)
  show ?case
  proof (cases "gm_get sh (dg_DelegatorAddress d)")
    case (Some p)
    with Cons.prems obtain x ds1 where x: "pay_reward i x ds = Some ds1"
        "reward_loop sh t (Suc i) snap (pool - x) ds1 = Some (z, pool', ds')"
      by (auto split: option.splits)
    from Cons.IH [OF x(2)] pay_reward_total [OF x(1)] show ?thesis by simp
  qed (use Cons.prems in simp)
qed simp

lemma near_add:
  assumes "2 * \<bar>a - x * P\<bar> \<le> P" and "2 * \<bar>b - y * P\<bar> \<le> n * P"
  shows "2 * \<bar>(a + b) - (x + y) * P\<bar> \<le> (1 + n) * (P :: int)"
proof -
  have "\<bar>(a + b) - (x + y) * P\<bar> = \<bar>(a - x * P) + (b - y * P)\<bar>" by (simp add: algebra_simps)
  also have "\<dots> \<le> \<bar>a - x * P\<bar> + \<bar>b - y * P\<bar>" by (rule abs_triangle_ineq)
  finally show ?thesis using assms by (simp add: distrib_right)
qed

lemma reward_loop_near:
  assumes "reward_loop sh t i snap pool ds = Some (True, pool', ds')"
    and "\<forall>d\<in>set snap. \<exists>p. gm_get sh (dg_DelegatorAddress d) = Some (Some p)"
  shows "2 * \<bar>(\<Sum>d\<leftarrow>snap. share_of sh d) * t - (pool - pool') * precisionReuse\<bar> \<le> int (length snap) * precisionReuse"
  using assms
proof (induction snap arbitrary: i pool ds)
  case (Cons d snap)
  from Cons.prems(2) obtain p where p: "gm_get sh (dg_DelegatorAddress d) = Some (Some p)" by auto
  with Cons.prems(1) obtain x ds1 where x: "reward_share (Some p) t = Some x"
      "reward_loop sh t (Suc i) snap (pool - x) ds1 = Some (True, pool', ds')"
    by (auto split: option.splits)
  have "share_of sh d = p" using p by (simp add: share_of_def)
  moreover have "x + (pool - x - pool') = pool - pool'" by simp
  ultimately show ?case
    using near_add [OF reward_share_near [OF x(1)] Cons.IH [OF x(2)]] Cons.prems(2) by (simp add: distrib_right)
qed simp

lemma round_below:
  assumes "2 * \<bar>a - x * P\<bar> \<le> n * P" and "a \<le> t * P" and "0 < (P :: int)"
  shows "2 * x \<le> 2 * t + n"
proof -
  have "2 * (x * P - a) \<le> n * P" using assms(1) abs_ge_minus_self [of "a - x * P"] by simp
  then have "(2 * x) * P \<le> (2 * t + n) * P" using assms(2) by (simp add: distrib_right)
  then show ?thesis using assms(3) mult_le_cancel_right by fastforce
qed

lemma commission_total:
  assumes "pay_commission (Some r) reward ds = Some (pool, ds')" and "0 \<le> reward" and "r \<le> precisionReuse"
  shows "total_rewards ds' = total_rewards ds + (reward - pool) \<and> 0 \<le> pool \<and> map unrewarded ds' = map unrewarded ds"
proof (cases "0 < r")
  case True
  then obtain c where c: "reward_share (Some r) reward = Some c" "pool = reward - c" "pay_reward 0 c ds = Some ds'"
    using assms(1) by (auto simp: pay_commission_def dec_GT_def dec_cmp_def dec_lift2_def ZeroDec_def bind_eq_Some_conv)
  have "r * reward \<le> reward * precisionReuse" using assms(2,3) by (simp add: mult.commute [of reward] mult_right_mono)
  with reward_share_near [OF c(1)] have "2 * c \<le> 2 * reward + 1"
    using round_below [of "r * reward" c precisionReuse 1 reward] precision_pos by simp
  then show ?thesis using c(2) pay_reward_total [OF c(3)] by simp
next
  case False
  then show ?thesis using assms(1,2) by (simp add: pay_commission_def dec_GT_def dec_cmp_def dec_lift2_def ZeroDec_def)
qed

definition shares_ok :: "(address, Dec) gomap \<Rightarrow> Delegation list \<Rightarrow> bool" where
  "shares_ok sh snap \<longleftrightarrow> (\<forall>d\<in>set snap. \<exists>p. gm_get sh (dg_DelegatorAddress d) = Some (Some p))
     \<and> (\<Sum>d\<leftarrow>snap. share_of sh d) \<le> precisionReuse"

lemma reward_loop_end:
  assumes "reward_loop sh t i snap pool ds = Some (z, pool', ds')"
    and "\<forall>d\<in>set snap. \<exists>p. gm_get sh (dg_DelegatorAddress d) = Some (Some p)"
  shows z
  using assms by (induction snap arbitrary: i pool ds) (auto split: option.splits)

lemma distribute_total:
  assumes "distribute_reward snap reward sh cur = Some cur'" and "0 < reward"
    and "Rate (va_Commission (vw_Validator snap)) = Some r" and "r \<le> precisionReuse"
    and "shares_ok sh (vw_Delegations snap)"
  shows "reward \<le> total_rewards (vw_Delegations cur') - total_rewards (vw_Delegations cur)
    \<and> 2 * (total_rewards (vw_Delegations cur') - total_rewards (vw_Delegations cur) - reward) \<le> int (length (vw_Delegations snap))
    \<and> map unrewarded (vw_Delegations cur') = map unrewarded (vw_Delegations cur)
    \<and> vw_Validator cur' = vw_Validator cur \<and> vw_BlockReward cur' = vw_BlockReward cur + reward"
proof -
  let ?ds = "vw_Delegations cur" let ?sn = "vw_Delegations snap"
  from assms(1,3) obtain pool ds1 z pool' ds2
    where c: "pay_commission (Some r) reward ?ds = Some (pool, ds1)" "reward_loop sh pool 0 ?sn pool ds1 = Some (z, pool', ds2)"
      and k: "vw_Validator cur' = vw_Validator cur \<and> vw_BlockReward cur' = vw_BlockReward cur + reward"
        "z \<longrightarrow> (if 0 < pool' then pay_reward 0 pool' ds2 else Some ds2) = Some (vw_Delegations cur')"
    by (auto simp: distribute_reward_def Let_def split: option.splits prod.splits bool.splits if_splits)
  have sh: "\<forall>d\<in>set ?sn. \<exists>p. gm_get sh (dg_DelegatorAddress d) = Some (Some p)"
    "(\<Sum>d\<leftarrow>?sn. share_of sh d) \<le> precisionReuse"
    using assms(5) by (simp_all add: shares_ok_def)
  have z: z by (rule reward_loop_end [OF c(2) sh(1)])
  note ct = commission_total [OF c(1) less_imp_le [OF assms(2)] assms(4)] and lt = reward_loop_total [OF c(2)]
  have "(\<Sum>d\<leftarrow>?sn. share_of sh d) * pool \<le> pool * precisionReuse"
    using sh(2) ct mult_right_mono [of "\<Sum>d\<leftarrow>?sn. share_of sh d" precisionReuse pool] by (simp add: mult.commute)
  with reward_loop_near [of sh pool 0 ?sn pool ds1 pool' ds2] c(2) z sh(1)
  have near: "2 * (pool - pool') \<le> 2 * pool + int (length ?sn)"
    using round_below [of _ "pool - pool'" precisionReuse "int (length ?sn)" pool] precision_pos by simp
  have "total_rewards (vw_Delegations cur') = total_rewards ds2 + (if 0 < pool' then pool' else 0)
      \<and> map unrewarded (vw_Delegations cur') = map unrewarded ds2"
    using k(2) z by (auto split: if_splits dest!: pay_reward_total)
  then show ?thesis using ct lt near k(1) by (simp split: if_splits)
qed

text \<open>(C15) A block reward is paid out in full, up to rounding. For a positive reward, a commission rate of
  at most one and shares of the delegators of the snapshot that sum up to at most one, the rewards
  of the delegations of the validator grow by at least the reward, and by at most half a unit more
  for each delegation. Nothing but the rewards and the reward counter of the validator changes.\<close>

theorem reward_distributed:
  assumes "AddReward E snap reward sh db = Some (err, db')" and "sdb_ValidatorWrapper E (vw_Address snap) db = (Inr cur, db1)"
    and "0 < reward" and "va_Status (vw_Validator cur) \<noteq> Banned"
    and "Rate (va_Commission (vw_Validator snap)) = Some r" and "r \<le> precisionReuse"
    and "shares_ok sh (vw_Delegations snap)"
  shows "err = None \<and> (\<exists>cur'. gm_get (stateValidators db') (vw_Address snap) = Some cur'
    \<and> db' = db1\<lparr>stateValidators := stateValidators db'\<rparr>
    \<and> reward \<le> total_rewards (vw_Delegations cur') - total_rewards (vw_Delegations cur)
    \<and> 2 * (total_rewards (vw_Delegations cur') - total_rewards (vw_Delegations cur) - reward) \<le> int (length (vw_Delegations snap))
    \<and> map unrewarded (vw_Delegations cur') = map unrewarded (vw_Delegations cur)
    \<and> vw_Validator cur' = vw_Validator cur \<and> vw_BlockReward cur' = vw_BlockReward cur + reward)"
proof -
  from assms(1-4) obtain cur' where d: "distribute_reward snap reward sh cur = Some cur'"
    and db': "err = None" "db' = db1\<lparr>stateValidators := gm_set (vw_Address snap) cur' (stateValidators db1)\<rparr>"
    by (auto simp: AddReward_def)
  from distribute_total [OF d assms(3,5-7)] show ?thesis using db' by simp
qed

text \<open>A share of a demo reward of 1000, and its distribution.\<close>

lemma demo_share: "\<exists>x. reward_share (Some p) t = Some x" if "\<bar>p * t\<bar> < dec_limit"
  using that by (simp add: reward_share_def dec_MulInt_def dec_RoundInt_def dec_lift2_def dec_check_eq)

lemma demo_reward: "\<exists>c. distribute_reward demo_wrapper 1000 [(9, Some (10 ^ 18))] demo_wrapper = Some c"
proof -
  obtain c where c: "reward_share (Some (10 ^ 17)) 1000 = Some c" using demo_share by (fastforce simp: dec_limit_def)
  then have "2 * \<bar>10 ^ 17 * 1000 - c * precisionReuse\<bar> \<le> precisionReuse" by (rule reward_share_near)
  then have "c = 100" by (simp add: precisionReuse_def Precision_def)
  moreover obtain x where "reward_share (Some (10 ^ 18)) 900 = Some x" using demo_share by (fastforce simp: dec_limit_def)
  ultimately show ?thesis using c
    by (simp add: distribute_reward_def pay_commission_def pay_reward_def dec_GT_def dec_cmp_def dec_lift2_def ZeroDec_def
        NewDelegation_def demo_wrapper_def Let_def)
qed

lemma stk_demo_wrapper: "\<exists>db1. sdb_ValidatorWrapper stk_demo_env 9 stk_demo = (Inr demo_wrapper, db1)"
proof -
  have "stateValidators stk_demo = []" by (simp add: stk_demo_def sdb_New_def stk_demo_env_def)
  then show ?thesis using stk_demo_stored
    by (cases "sdb_ValidatorWrapperCopy stk_demo_env 9 stk_demo") (simp add: sdb_ValidatorWrapper_def stored_def)
qed

theorem reward_distributed_witness:
  "\<exists>db' cur'. AddReward stk_demo_env demo_wrapper 1000 [(9, Some (10 ^ 18))] stk_demo = Some (None, db')
     \<and> gm_get (stateValidators db') 9 = Some cur' \<and> total_rewards (vw_Delegations cur') = 1000"
proof -
  from stk_demo_wrapper obtain db1 where w: "sdb_ValidatorWrapper stk_demo_env 9 stk_demo = (Inr demo_wrapper, db1)" by blast
  from demo_reward obtain c where c: "distribute_reward demo_wrapper 1000 [(9, Some (10 ^ 18))] demo_wrapper = Some c" by blast
  have d: "vw_Address demo_wrapper = 9" "va_Status (vw_Validator demo_wrapper) \<noteq> Banned"
    "vw_Delegations demo_wrapper = [NewDelegation 9 (2 * 10 ^ 22)]"
    "Rate (va_Commission (vw_Validator demo_wrapper)) = Some (10 ^ 17)"
    by (simp_all add: demo_wrapper_def Active_def Banned_def)
  from w d(1,2) c obtain db' where "AddReward stk_demo_env demo_wrapper 1000 [(9, Some (10 ^ 18))] stk_demo = Some (None, db')"
    by (simp add: AddReward_def)
  moreover from reward_distributed [OF this, of demo_wrapper db1 "10 ^ 17"] w d obtain cur' where
    "gm_get (stateValidators db') 9 = Some cur'" "1000 \<le> total_rewards (vw_Delegations cur')"
    "2 * (total_rewards (vw_Delegations cur') - 1000) \<le> 1"
    by (auto simp: shares_ok_def share_of_def total_rewards_def NewDelegation_def precisionReuse_def Precision_def)
  ultimately show ?thesis by auto
qed

text \<open>A delegator of the snapshot without a share: the distribution stops there, the rest of the
  reward is paid to nobody, and \<open>errors.Wrapf\<close> of the nil error of the lookup reports success.\<close>

lemma reward_missing_share:
  assumes "sdb_ValidatorWrapper E (vw_Address snap) db = (Inr cur, db1)" and "reward \<noteq> 0"
    and "va_Status (vw_Validator cur) \<noteq> Banned" and "Rate (va_Commission (vw_Validator snap)) = ZeroDec"
    and "vw_Delegations snap = d # ds" and "gm_get sh (dg_DelegatorAddress d) = None"
  shows "\<exists>cur' db'. AddReward E snap reward sh db = Some (None, db')
    \<and> gm_get (stateValidators db') (vw_Address snap) = Some cur' \<and> vw_Delegations cur' = vw_Delegations cur"
  using assms by (simp add: AddReward_def distribute_reward_def pay_commission_def dec_GT_def dec_cmp_def dec_lift2_def ZeroDec_def)

end
