(* ===== verification/Tx_Validate.thy ===== *)
theory Tx_Validate
  imports State_Transition
begin

text \<open>
  Admission to the transaction pool: \<open>validateTx\<close> and \<open>validateStakingTx\<close> of \<open>core/tx_pool.go\<close> on the
  two kinds of pool transaction, \<open>core/types/transaction.go\<close> and \<open>staking/types/transaction.go\<close>. An error is
  given by its cause; the text of \<open>ErrAddrHasFreezed\<close>, which is Chinese, is translated. Recovering the
  sender from a signature is a function \<open>recover\<close>.
\<close>

section \<open>Transactions\<close>

type_synonym Directive = u8

definition DirectiveCreateValidator :: Directive where "DirectiveCreateValidator = 0"
definition DirectiveEditValidator :: Directive where "DirectiveEditValidator = 1"
definition DirectiveDelegate :: Directive where "DirectiveDelegate = 2"
definition DirectiveUndelegate :: Directive where "DirectiveUndelegate = 3"
definition DirectiveCollectRewards :: Directive where "DirectiveCollectRewards = 4"

definition BeaconChainShardID :: u32 where "BeaconChainShardID = 0"
definition MaxPoolTransactionDataSize :: nat where "MaxPoolTransactionDataSize = 1280 * 1024"

text \<open>The fields that a plain and a staking transaction share, and those of one kind only. The size
  and the hash are those of the encoding; \<open>txc_V\<close> is the recovery value of the signature.\<close>

record TxCommon =
  txc_AccountNonce :: u64
  txc_Price :: int
  txc_GasLimit :: u64
  txc_V :: nat
  txc_Size :: nat
  txc_Hash :: hash

datatype PoolTransaction =
  PlainTx (tx_common: TxCommon) u32 u32 "address option" int bytes
| StakingTx (tx_common: TxCommon) Directive bytes

fun tx_ShardID :: "PoolTransaction \<Rightarrow> u32" where
  "tx_ShardID (PlainTx _ s _ _ _ _) = s"
| "tx_ShardID (StakingTx _ _ _) = BeaconChainShardID"

fun tx_ToShardID :: "PoolTransaction \<Rightarrow> u32" where
  "tx_ToShardID (PlainTx _ _ t _ _ _) = t"
| "tx_ToShardID (StakingTx _ _ _) = BeaconChainShardID"

fun tx_To :: "PoolTransaction \<Rightarrow> address option" where
  "tx_To (PlainTx _ _ _ to _ _) = to"
| "tx_To (StakingTx _ _ _) = None"

fun tx_Value :: "PoolTransaction \<Rightarrow> int" where
  "tx_Value (PlainTx _ _ _ _ v _) = v"
| "tx_Value (StakingTx _ _ _) = 0"

fun tx_Data :: "PoolTransaction \<Rightarrow> bytes" where
  "tx_Data (PlainTx _ _ _ _ _ d) = d"
| "tx_Data (StakingTx _ _ d) = d"

definition tx_Nonce :: "PoolTransaction \<Rightarrow> u64" where "tx_Nonce tx = txc_AccountNonce (tx_common tx)"
definition tx_GasPrice :: "PoolTransaction \<Rightarrow> int" where "tx_GasPrice tx = txc_Price (tx_common tx)"
definition tx_GasLimit :: "PoolTransaction \<Rightarrow> u64" where "tx_GasLimit tx = txc_GasLimit (tx_common tx)"
definition tx_Size :: "PoolTransaction \<Rightarrow> nat" where "tx_Size tx = txc_Size (tx_common tx)"
definition tx_Hash :: "PoolTransaction \<Rightarrow> hash" where "tx_Hash tx = txc_Hash (tx_common tx)"

section \<open>Senders\<close>

datatype Signer = FrontierSigner | HomesteadSigner | EIP155Signer int

definition NewEIP155Signer :: "int option \<Rightarrow> Signer" where
  "NewEIP155Signer chainID = EIP155Signer (case chainID of None \<Rightarrow> 0 | Some c \<Rightarrow> c)"

definition isProtectedV :: "nat \<Rightarrow> bool" where
  "isProtectedV v = (if v < 2 ^ 8 then v \<noteq> 27 \<and> v \<noteq> 28 else True)"

text \<open>Up to 64 bits the subtraction is that of \<open>uint64\<close> and wraps around below 35; \<open>Div\<close> is Euclidean.\<close>

definition deriveChainID :: "nat \<Rightarrow> int" where
  "deriveChainID v =
     (if v < 2 ^ 64
      then if v = 27 \<or> v = 28 then 0 else uint ((of_nat v - 35 :: u64) div 2)
      else (int v - 35) div 2)"

definition tx_ChainID :: "PoolTransaction \<Rightarrow> int" where
  "tx_ChainID tx = deriveChainID (txc_V (tx_common tx))"

fun tx_Protected :: "PoolTransaction \<Rightarrow> bool" where
  "tx_Protected (PlainTx c _ _ _ _ _) = isProtectedV (txc_V c)"
| "tx_Protected (StakingTx _ _ _) = True"

type_synonym recover = "Signer \<Rightarrow> PoolTransaction \<Rightarrow> error + address"

definition MakeSigner :: "ChainConfig \<Rightarrow> int option \<Rightarrow> Signer" where
  "MakeSigner config epochNumber =
     (if IsEIP155 config epochNumber then NewEIP155Signer (ChainID config) else FrontierSigner)"

text \<open>\<open>SenderAddress\<close>: with an error, the address is the zero address.\<close>

definition tx_SenderAddress :: "recover \<Rightarrow> PoolTransaction \<Rightarrow> address \<times> error option" where
  "tx_SenderAddress K tx =
     (case K (if tx_Protected tx then NewEIP155Signer (Some (tx_ChainID tx)) else HomesteadSigner) tx of
        Inl err \<Rightarrow> (0, Some err)
      | Inr a \<Rightarrow> (a, None))"

fun tx_Cost :: "stk_codec \<Rightarrow> PoolTransaction \<Rightarrow> error + int" where
  "tx_Cost C (PlainTx c _ _ _ amount _) = Inr (txc_Price c * uint (txc_GasLimit c) + amount)"
| "tx_Cost C (StakingTx c d stakeMsg) =
     (let total = txc_Price c * uint (txc_GasLimit c)
      in if d = DirectiveCreateValidator
         then (case rlp_CreateValidator C stakeMsg of Inl err \<Rightarrow> Inl err | Inr m \<Rightarrow> Inr (total + cv_Amount m))
         else Inr total)"

section \<open>The pool\<close>

definition ErrInvalidSender :: error where "ErrInvalidSender = ''invalid sender''"
definition ErrInvalidShard :: error where "ErrInvalidShard = ''invalid shard''"
definition ErrUnderpriced :: error where "ErrUnderpriced = ''transaction underpriced''"
definition ErrInsufficientFunds :: error where "ErrInsufficientFunds = ''insufficient funds for gas * price + value''"
definition ErrIntrinsicGas :: error where "ErrIntrinsicGas = ''intrinsic gas too low''"
definition ErrGasLimit :: error where "ErrGasLimit = ''exceeds block gas limit''"
definition ErrNegativeValue :: error where "ErrNegativeValue = ''negative value''"
definition ErrOversizedData :: error where "ErrOversizedData = ''oversized data''"
definition ErrBlacklistFrom :: error where "ErrBlacklistFrom = ''`from` address of transaction in blacklist''"
definition ErrBlacklistTo :: error where "ErrBlacklistTo = ''`to` address of transaction in blacklist''"
definition ErrAddrHasFreezed :: error where "ErrAddrHasFreezed = ''err: address is freezed''"
definition errNotEnoughForDelegation :: error where "errNotEnoughForDelegation = ''not enough balance for delegation''"

text \<open>What validation reads of the pool and of the chain it follows: the current block, the sharding
  schedule, the chain context if the chain is one, the configuration and the limits.\<close>

record TxPool =
  pool_ShardID :: u32
  pool_Number :: int
  pool_Epoch :: int
  pool_IsLastBlock :: "u64 \<Rightarrow> bool"
  pool_chain :: "chain_env option"
  pool_chainconfig :: ChainConfig
  pool_gasPrice :: int
  pool_currentMaxGas :: u64
  pool_Blacklist :: "address list"
  pool_locals :: "address list"
  pool_homestead :: bool
  pool_istanbul :: bool

definition pendingEpoch :: "TxPool \<Rightarrow> int" where
  "pendingEpoch P = (if pool_IsLastBlock P (word_of_int (pool_Number P)) then pool_Epoch P + 1 else pool_Epoch P)"

text \<open>A call of which only the error counts.\<close>

definition go_ignore :: "('s, 'a) go \<Rightarrow> ('s, unit) go" where
  "go_ignore m = go_bind m (\<lambda>_. go_return ())"

definition validate_delegate ::
    "('d, 'tr) senv \<Rightarrow> TxPool \<Rightarrow> PoolTransaction \<Rightarrow> address \<Rightarrow> Delegate \<Rightarrow> (('d, 'tr) SDB, unit) go" where
  "validate_delegate E P tx from stkMsg =
     (case pool_chain P of
        None \<Rightarrow> go_return ()
      | Some chain \<Rightarrow>
          go_sum (ReadDelegationsByDelegator chain (de_DelegatorAddress stkMsg)) (\<lambda>delegations.
          go_bind (VerifyAndDelegateFromMsg E (Some (pendingEpoch P)) stkMsg delegations (pool_chainconfig P)) (\<lambda>(_, delegateAmt, _).
          let totalAmt = delegateAmt + tx_GasPrice tx * uint (tx_GasLimit tx)
          in go_get (sdb_GetBalance E from) (\<lambda>bal.
             go_check (totalAmt \<le> bal) errNotEnoughForDelegation (go_return ())))))"

definition validateStakingTx ::
    "('d, 'tr) senv \<Rightarrow> ('pk, 'sg) bls_env \<Rightarrow> stk_codec \<Rightarrow> recover \<Rightarrow> TxPool \<Rightarrow> PoolTransaction \<Rightarrow> Directive \<Rightarrow>
      (('d, 'tr) SDB, unit) go" where
  "validateStakingTx E B C K P tx d =
     (let from = fst (tx_SenderAddress K tx); pendingBlockNumber = pool_Number P + 1
      in if d = DirectiveCreateValidator
         then go_sum (rlp_CreateValidator C (tx_Data tx)) (\<lambda>stkMsg.
              go_check (from = cv_ValidatorAddress stkMsg) ErrInvalidSender
             (go_ignore (VerifyAndCreateValidatorFromMsg E B (pool_chain P) (Some (pendingEpoch P)) (Some pendingBlockNumber) stkMsg)))
         else if d = DirectiveEditValidator
         then go_sum (rlp_EditValidator C (tx_Data tx)) (\<lambda>stkMsg.
              go_check (from = ev_ValidatorAddress stkMsg) ErrInvalidSender
             (go_ignore (VerifyAndEditValidatorFromMsg E B (pool_chain P) (Some (pool_Epoch P)) (Some pendingBlockNumber) stkMsg)))
         else if d = DirectiveDelegate
         then go_sum (rlp_Delegate C (tx_Data tx)) (\<lambda>stkMsg.
              go_check (from = de_DelegatorAddress stkMsg) ErrInvalidSender (validate_delegate E P tx from stkMsg))
         else if d = DirectiveUndelegate
         then go_sum (rlp_Undelegate C (tx_Data tx)) (\<lambda>stkMsg.
              go_check (from = un_DelegatorAddress stkMsg) ErrInvalidSender
             (go_ignore (VerifyAndUndelegateFromMsg E (Some (pendingEpoch P)) stkMsg)))
         else if d = DirectiveCollectRewards
         then go_sum (rlp_CollectRewards C (tx_Data tx)) (\<lambda>stkMsg.
              go_check (from = co_DelegatorAddress stkMsg) ErrInvalidSender
             (case pool_chain P of
                None \<Rightarrow> go_return ()
              | Some chain \<Rightarrow>
                  go_sum (ReadDelegationsByDelegator chain (co_DelegatorAddress stkMsg)) (\<lambda>delegations.
                  go_ignore (VerifyAndCollectRewardsFromDelegation E delegations))))
         else go_fail ErrInvalidStakingKind)"

text \<open>The freeze check: the recipient is dereferenced when the sender is not frozen.\<close>

definition any_frozen :: "('d, 'tr) senv \<Rightarrow> address \<Rightarrow> address option \<Rightarrow> (('d, 'tr) SDB, bool) go" where
  "any_frozen E from to =
     go_get (sdb_GetFreezeState E from) (\<lambda>z.
     if z then go_return True
     else go_opt to (\<lambda>to. go_get (sdb_GetFreezeState E to) go_return))"

definition check_funds :: "('d, 'tr) senv \<Rightarrow> PoolTransaction \<Rightarrow> address \<Rightarrow> int \<Rightarrow> (('d, 'tr) SDB, unit) go" where
  "check_funds E tx from cost =
     (case tx of
        StakingTx _ d _ \<Rightarrow>
          if d = DirectiveDelegate then go_return ()
          else go_get (sdb_GetBalance E from) (\<lambda>b. go_check (cost \<le> b) ErrInsufficientFunds (go_return ()))
      | _ \<Rightarrow> go_get (sdb_GetBalance E from) (\<lambda>b. go_check (cost \<le> b) ErrInsufficientFunds (go_return ())))"

definition pool_intrinsic :: "TxPool \<Rightarrow> PoolTransaction \<Rightarrow> error + u64" where
  "pool_intrinsic P tx =
     (case tx of
        StakingTx _ d _ \<Rightarrow>
          IntrinsicGas (tx_Data tx) False (pool_homestead P) (pool_istanbul P) (d = DirectiveCreateValidator)
      | _ \<Rightarrow> IntrinsicGas (tx_Data tx) (tx_To tx = None) (pool_homestead P) (pool_istanbul P) False)"

text \<open>The checks up to the price, none of which reads the state.\<close>

definition static_checks :: "recover \<Rightarrow> TxPool \<Rightarrow> bool \<Rightarrow> PoolTransaction \<Rightarrow> error + address" where
  "static_checks K P local tx =
     (if MaxPoolTransactionDataSize \<le> tx_Size tx then Inl ErrOversizedData
      else if tx_Value tx < 0 then Inl ErrNegativeValue
      else if pool_currentMaxGas P < tx_GasLimit tx then Inl ErrGasLimit
      else case tx_SenderAddress K tx of
        (_, Some _) \<Rightarrow> Inl ErrInvalidSender
      | (from, None) \<Rightarrow>
          if from \<in> set (pool_Blacklist P) then Inl ErrBlacklistFrom
          else if (case tx_To tx of None \<Rightarrow> False | Some to \<Rightarrow> to \<in> set (pool_Blacklist P)) then Inl ErrBlacklistTo
          else if \<not> (local \<or> from \<in> set (pool_locals P)) \<and> tx_GasPrice tx < pool_gasPrice P then Inl ErrUnderpriced
          else Inr from)"

definition validateTx ::
    "('d, 'tr) senv \<Rightarrow> ('pk, 'sg) bls_env \<Rightarrow> stk_codec \<Rightarrow> recover \<Rightarrow> TxPool \<Rightarrow> PoolTransaction \<Rightarrow> bool \<Rightarrow>
      (('d, 'tr) SDB, unit) go" where
  "validateTx E B C K P tx local =
     go_check (tx_ShardID tx = pool_ShardID P) ErrInvalidShard
    (go_bind (any_frozen E (fst (tx_SenderAddress K tx)) (tx_To tx)) (\<lambda>frozen.
     go_check (\<not> frozen) ErrAddrHasFreezed
    (go_sum (static_checks K P local tx) (\<lambda>from.
     go_get (sdb_GetNonce E from) (\<lambda>nonce.
     go_check (nonce \<le> tx_Nonce tx) ErrNonceTooLow
    (go_sum (tx_Cost C tx) (\<lambda>cost.
     go_bind (check_funds E tx from cost) (\<lambda>_.
     go_sum (pool_intrinsic P tx) (\<lambda>intrGas.
     go_check (intrGas \<le> tx_GasLimit tx) ErrIntrinsicGas
    (case tx of
       StakingTx _ d _ \<Rightarrow> validateStakingTx E B C K P tx d
     | _ \<Rightarrow> go_return ()))))))))))"

end
