(* ===== verification/Block_Process.thy ===== *)
theory Block_Process
  imports Tx_Validate State_Transfer
begin

text \<open>
  Executing the transactions of a block, \<open>core/state_processor.go\<close>: \<open>ApplyTransaction\<close>,
  \<open>ApplyStakingTransaction\<close> and the loops of \<open>Process1\<close> over plain transactions, staking
  transactions, state transfers and incoming receipts, in this order.
\<close>

section \<open>Messages\<close>

text \<open>The header fields that execution reads besides the shard and the epoch.\<close>

record BlockHeader = Header +
  hd_Number :: int
  hd_Hash :: hash

text \<open>\<open>AsMessage\<close> of a plain transaction. The type and the block number keep their zero values.\<close>

fun tx_AsMessage :: "recover \<Rightarrow> Signer \<Rightarrow> PoolTransaction \<Rightarrow> error + Message" where
  "tx_AsMessage K s (PlainTx c sh tsh to amount payload) =
     (case K s (PlainTx c sh tsh to amount payload) of
        Inl err \<Rightarrow> Inl err
      | Inr from \<Rightarrow> Inr \<lparr>msg_From = from, msg_To = to, msg_GasPrice = txc_Price c, msg_Gas = txc_GasLimit c, msg_Value = amount,
          msg_Nonce = txc_AccountNonce c, msg_CheckNonce = True, msg_Data = payload, msg_Type = SameShardTx, msg_BlockNum = None\<rparr>)"
| "tx_AsMessage K s (StakingTx c d by) = Inl ''not a plain transaction''"

definition StakingTypeMap :: "(Directive, TransactionType) gomap" where
  "StakingTypeMap = [(DirectiveCreateValidator, StakeCreateVal), (DirectiveEditValidator, StakeEditVal),
     (DirectiveDelegate, TransactionType.Delegate), (DirectiveUndelegate, TransactionType.Undelegate),
     (DirectiveCollectRewards, TransactionType.CollectRewards)]"

definition NewStakingMessage :: "address \<Rightarrow> u64 \<Rightarrow> u64 \<Rightarrow> int \<Rightarrow> bytes \<Rightarrow> int option \<Rightarrow> Message" where
  "NewStakingMessage from nonce gasLimit gasPrice data blockNum =
     \<lparr>msg_From = from, msg_To = None, msg_GasPrice = gasPrice, msg_Gas = gasLimit, msg_Value = 0, msg_Nonce = nonce,
      msg_CheckNonce = True, msg_Data = data, msg_Type = SameShardTx, msg_BlockNum = blockNum\<rparr>"

fun StakingToMessage :: "recover \<Rightarrow> PoolTransaction \<Rightarrow> int option \<Rightarrow> error + Message" where
  "StakingToMessage K (StakingTx c d payload) blockNum =
     (case tx_SenderAddress K (StakingTx c d payload) of
        (_, Some err) \<Rightarrow> Inl err
      | (from, None) \<Rightarrow>
          let msg = NewStakingMessage from (txc_AccountNonce c) (txc_GasLimit c) (txc_Price c) payload blockNum
          in case gm_get StakingTypeMap d of
               None \<Rightarrow> Inl ErrInvalidStakingKind
             | Some t \<Rightarrow> Inr (msg\<lparr>msg_Type := t\<rparr>))"
| "StakingToMessage K (PlainTx c sh tsh to amount payload) blockNum = Inl ''not a staking transaction''"

section \<open>One transaction\<close>

text \<open>The virtual machine, and the address of a contract that an account creates.\<close>

record ('d, 'tr) machine =
  vm_Create :: "TransactionType \<Rightarrow> BlockHeader \<Rightarrow> address \<Rightarrow> bytes \<Rightarrow> u64 \<Rightarrow> int \<Rightarrow> ('d, 'tr) SDB \<Rightarrow>
    ((bytes \<times> address \<times> u64 \<times> error option) \<times> ('d, 'tr) SDB) option"
  vm_Call :: "TransactionType \<Rightarrow> BlockHeader \<Rightarrow> address \<Rightarrow> address \<Rightarrow> bytes \<Rightarrow> u64 \<Rightarrow> int \<Rightarrow> ('d, 'tr) SDB \<Rightarrow>
    ((bytes \<times> u64 \<times> error option) \<times> ('d, 'tr) SDB) option"
  CreateAddress :: "address \<Rightarrow> u64 \<Rightarrow> address"

definition NewEVM ::
    "('d, 'tr) machine \<Rightarrow> ChainConfig \<Rightarrow> BlockHeader \<Rightarrow> address \<Rightarrow> TransactionType \<Rightarrow> ('d, 'tr) evm_env" where
  "NewEVM M config header author txType =
     \<lparr>EpochNumber = hd_Epoch header, BlockNumber = hd_Number header, Coinbase = author, evm_Config = config,
      evm_Create = vm_Create M txType header, evm_Call = vm_Call M txType header\<rparr>"

text \<open>What processing a block changes: the gas pool, the gas used, the account state, the load map.\<close>

record ('d, 'tr, 'e, 'tl) BlockState =
  bs_gp :: u64
  bs_usedGas :: u64
  bs_statedb :: "('d, 'tr) SDB"
  bs_loadmapdb :: "('e, 'tl) LoadMapDB"

text \<open>What processing reads: the chain, the signature recovery, the codecs, the machine and the block.\<close>

record ('d, 'tr, 'e, 'tl, 'pk, 'sg) processor =
  pr_state :: "('d, 'tr) senv"
  pr_load :: "('e, 'tl) lm_env"
  pr_tx :: tx_env
  pr_bls :: "('pk, 'sg) bls_env"
  pr_codec :: stk_codec
  pr_recover :: recover
  pr_machine :: "('d, 'tr) machine"
  pr_bc :: "chain_env option"
  pr_config :: ChainConfig
  pr_numShards :: "int option \<Rightarrow> u32"
  pr_author :: address

definition errInvalidTxType :: error where "errInvalidTxType = ''Invalid Transaction Type''"
definition errCrossTxTooEarly :: error where "errCrossTxTooEarly = ''cannot handle cross-shard transaction until after epoch''"
definition errEthTxTooEarly :: error where
  "errEthTxTooEarly = ''ethereum compatible transactions not supported at current epoch''"

definition tx_signer :: "ChainConfig \<Rightarrow> int option \<Rightarrow> PoolTransaction \<Rightarrow> ('s, Signer) go" where
  "tx_signer config epoch tx =
     go_opt (IsEthCompatible_chain (Some (tx_ChainID tx))) (\<lambda>eth.
     if eth
     then go_check (IsEthCompatible config epoch) errEthTxTooEarly
            (go_return (NewEIP155Signer (EthCompatibleChainID config)))
     else go_return (MakeSigner config epoch))"

text \<open>Running a message on the state of the block: the pool and the account state are shared.\<close>

definition run_message ::
    "(u64 \<Rightarrow> ('d, 'tr) SDB \<Rightarrow> ((error + 'a) \<times> ('d, 'tr) StateTransition) option) \<Rightarrow> (('d, 'tr, 'e, 'tl) BlockState, 'a) go" where
  "run_message f s =
     map_option (\<lambda>(r, st). (r, s\<lparr>bs_gp := st_gp st, bs_statedb := st_state st\<rparr>)) (f (bs_gp s) (bs_statedb s))"

text \<open>The end of a transaction: the state is finalised, the gas added up, the receipt made.\<close>

definition make_receipt ::
    "('d, 'tr, 'e, 'tl, 'pk, 'sg) processor \<Rightarrow> BlockHeader \<Rightarrow> PoolTransaction \<Rightarrow> bool \<Rightarrow> u64 \<Rightarrow> address \<Rightarrow>
      (('d, 'tr, 'e, 'tl) BlockState, Receipt) go" where
  "make_receipt p header tx failed gas contract s =
     (case sdb_settle (pr_state p) (IsS3 (pr_config p) (hd_Epoch header)) (bs_statedb s) of
        None \<Rightarrow> None
      | Some (root, db) \<Rightarrow>
          let used = bs_usedGas s + gas;
              receipt = (NewReceipt root failed used)\<lparr>rc_TxHash := tx_Hash tx, rc_GasUsed := gas, rc_ContractAddress := contract\<rparr>;
              receipt = (if IsReceiptLog (pr_config p) (hd_Epoch header)
                         then receipt\<lparr>rc_Logs := sdb_GetLogs (tx_Hash tx) db\<rparr> else receipt)
          in go_return receipt (s\<lparr>bs_usedGas := used, bs_statedb := db\<rparr>))"

definition ApplyTransaction ::
    "('d, 'tr, 'e, 'tl, 'pk, 'sg) processor \<Rightarrow> BlockHeader \<Rightarrow> PoolTransaction \<Rightarrow>
      (('d, 'tr, 'e, 'tl) BlockState, Receipt \<times> CXReceipt option \<times> u64) go" where
  "ApplyTransaction p header tx =
     go_opt (getTransactionType (pr_numShards p) (pr_config p) (Header.truncate header) (tx_ShardID tx) (tx_ToShardID tx)) (\<lambda>txType.
     go_check (txType \<noteq> InvalidTx) errInvalidTxType
    (go_opt (AcceptsCrossTx (pr_config p) (hd_Epoch header)) (\<lambda>cross.
     go_check (txType = SameShardTx \<or> cross) errCrossTxTooEarly
    (go_bind (tx_signer (pr_config p) (hd_Epoch header) tx) (\<lambda>signer.
     go_sum (tx_AsMessage (pr_recover p) signer tx) (\<lambda>msg.
     go_bind (run_message (ApplyMessage (pr_state p)
                (NewEVM (pr_machine p) (pr_config p) header (pr_author p) txType) msg)) (\<lambda>result.
     let failedExe = (er_VMErr result \<noteq> None);
         contract = (case msg_To msg of None \<Rightarrow> CreateAddress (pr_machine p) (msg_From msg) (tx_Nonce tx) | Some _ \<Rightarrow> 0)
     in go_bind (make_receipt p header tx failedExe (er_UsedGas result) contract) (\<lambda>receipt.
        let cxReceipt = (if txType = SubtractionOnly \<and> \<not> failedExe
              then Some \<lparr>cx_TxHash = tx_Hash tx, cx_From = msg_From msg, cx_To = msg_To msg, cx_ShardID = tx_ShardID tx,
                         cx_ToShardID = tx_ToShardID tx, cx_Amount = msg_Value msg\<rparr>
              else None)
        in go_return (receipt, cxReceipt, er_UsedGas result)))))))))"

definition ApplyStakingTransaction ::
    "('d, 'tr, 'e, 'tl, 'pk, 'sg) processor \<Rightarrow> BlockHeader \<Rightarrow> PoolTransaction \<Rightarrow>
      (('d, 'tr, 'e, 'tl) BlockState, Receipt \<times> u64) go" where
  "ApplyStakingTransaction p header tx =
     go_sum (StakingToMessage (pr_recover p) tx (Some (hd_Number header))) (\<lambda>msg.
     go_bind (run_message (ApplyStakingMessage (pr_state p) (pr_bls p) (pr_codec p) (pr_bc p)
                (NewEVM (pr_machine p) (pr_config p) header (pr_author p) SameShardTx) msg)) (\<lambda>(gas, err).
     go_try err
    (go_bind (make_receipt p header tx False gas 0) (\<lambda>receipt.
     go_return (receipt, gas)))))"

section \<open>The loops\<close>

text \<open>Before each transaction \<open>Prepare\<close> stores its hash, the hash of the block and its position.\<close>

definition prepare :: "hash \<Rightarrow> BlockHeader \<Rightarrow> nat \<Rightarrow> ('d, 'tr, 'e, 'tl) BlockState \<Rightarrow> ('d, 'tr, 'e, 'tl) BlockState" where
  "prepare h header i s = s\<lparr>bs_statedb := sdb_Prepare h (hd_Hash header) (int i) (bs_statedb s)\<rparr>"

type_synonym outcome = "Receipt list \<times> CXReceipt list \<times> Log list"

definition process_tx ::
    "('d, 'tr, 'e, 'tl, 'pk, 'sg) processor \<Rightarrow> BlockHeader \<Rightarrow> nat \<times> PoolTransaction \<Rightarrow> outcome \<Rightarrow>
      (('d, 'tr, 'e, 'tl) BlockState, outcome) go" where
  "process_tx p header = (\<lambda>(i, tx) (receipts, outcxs, logs).
     go_do (prepare (tx_Hash tx) header i)
    (go_bind (ApplyTransaction p header tx) (\<lambda>(receipt, cxReceipt, _).
     go_return (receipts @ [receipt],
       outcxs @ (case cxReceipt of None \<Rightarrow> [] | Some cx \<Rightarrow> [cx]), logs @ rc_Logs receipt))))"

definition process_staking ::
    "('d, 'tr, 'e, 'tl, 'pk, 'sg) processor \<Rightarrow> BlockHeader \<Rightarrow> nat \<times> PoolTransaction \<Rightarrow> outcome \<Rightarrow>
      (('d, 'tr, 'e, 'tl) BlockState, outcome) go" where
  "process_staking p header = (\<lambda>(i, tx) (receipts, outcxs, logs).
     go_do (prepare (tx_Hash tx) header i)
    (go_bind (ApplyStakingTransaction p header tx) (\<lambda>(receipt, _).
     go_return (receipts @ [receipt], outcxs, logs @ rc_Logs receipt))))"

text \<open>A nil receipt, that of a nil transaction, is dereferenced.\<close>

definition process_transfer ::
    "('d, 'tr, 'e, 'tl, 'pk, 'sg) processor \<Rightarrow> BlockHeader \<Rightarrow> nat \<times> StateTransferTransaction \<Rightarrow> outcome \<Rightarrow>
      (('d, 'tr, 'e, 'tl) BlockState, outcome) go" where
  "process_transfer p header = (\<lambda>(i, ss) (receipts, outcxs, logs) s.
     let s = prepare (fst (sttx_Hash (pr_tx p) ss)) header i s
     in case ApplyStateTransferTransaction (pr_state p) (pr_load p) (pr_tx p) (pr_config p) (bs_statedb s)
               (Header.truncate header) (bs_loadmapdb s) (Some (snd (sttx_Hash (pr_tx p) ss))) of
          None \<Rightarrow> None
        | Some (receipt, db, lm, _) \<Rightarrow>
            go_opt receipt (\<lambda>receipt. go_return (receipts @ [receipt], outcxs, logs @ rc_Logs receipt))
              (s\<lparr>bs_statedb := db, bs_loadmapdb := lm\<rparr>))"

definition errIncomingReceipts :: error where "errIncomingReceipts = ''[Process] Cannot apply incoming receipts''"

definition process_incoming ::
    "('d, 'tr, 'e, 'tl, 'pk, 'sg) processor \<Rightarrow> BlockHeader \<Rightarrow> CXReceipt option list option \<Rightarrow> unit \<Rightarrow>
      (('d, 'tr, 'e, 'tl) BlockState, unit) go" where
  "process_incoming p header cx u s =
     (case ApplyIncomingReceipt (pr_state p) (pr_config p) (Header.truncate header) cx (bs_statedb s) of
        None \<Rightarrow> None
      | Some (Some _, db) \<Rightarrow> go_fail errIncomingReceipts (s\<lparr>bs_statedb := db\<rparr>)
      | Some (None, db) \<Rightarrow> go_return () (s\<lparr>bs_statedb := db\<rparr>))"

record Block =
  bk_header :: BlockHeader
  bk_Transactions :: "PoolTransaction list"
  bk_StakingTransactions :: "PoolTransaction list"
  bk_StateTransferTransactions :: "StateTransferTransaction list"
  bk_IncomingReceipts :: "CXReceipt option list option list"

text \<open>The positions go on from one kind of transaction to the next.\<close>

definition Process1_transactions ::
    "('d, 'tr, 'e, 'tl, 'pk, 'sg) processor \<Rightarrow> Block \<Rightarrow> (('d, 'tr, 'e, 'tl) BlockState, outcome) go" where
  "Process1_transactions p block =
     (let header = bk_header block; L = length (bk_Transactions block); LStake = length (bk_StakingTransactions block)
      in go_bind (go_fold (process_tx p header) (enumerate 0 (bk_Transactions block)) ([], [], [])) (\<lambda>out.
         go_bind (go_fold (process_staking p header) (enumerate L (bk_StakingTransactions block)) out) (\<lambda>out.
         go_bind (go_fold (process_transfer p header) (enumerate (L + LStake) (bk_StateTransferTransactions block)) out) (\<lambda>out.
         go_bind (go_fold (process_incoming p header) (bk_IncomingReceipts block) ()) (\<lambda>_.
         go_return out)))))"

end
