(* ===== verification/State_Transition_Props.thy ===== *)
theory State_Transition_Props
  imports Staking_Props
begin

text \<open>
  Properties of executing one transaction: the intrinsic gas is computed without wrapping around,
  the gas pool and the sender are charged for exactly the gas used, and a staking transaction that
  succeeds conserves tokens up to its fee.
\<close>

section \<open>Intrinsic gas\<close>

text \<open>The same amount over the natural numbers.\<close>

definition intrinsic_total :: "bytes \<Rightarrow> bool \<Rightarrow> bool \<Rightarrow> bool \<Rightarrow> bool \<Rightarrow> nat" where
  "intrinsic_total data contractCreation homestead istanbul isValidatorCreation =
     (if contractCreation \<and> homestead then 53000 else if isValidatorCreation then 5300000 else 21000)
     + length (filter (\<lambda>b. b \<noteq> 0) data) * (if istanbul then 16 else 68)
     + length (filter (\<lambda>b. b = 0) data) * 4"

lemma count_nonzero_eq: "count_nonzero data nz = nz + of_nat (length (filter (\<lambda>b. b \<noteq> 0) data))"
  by (induction data arbitrary: nz) auto

text \<open>The test before a multiplication and an addition.\<close>

lemma mul_add_fits:
  assumes "0 < unat (c :: u64)" and "n < 2 ^ 64"
  shows "(MaxUint64 - g) div c < of_nat n \<longleftrightarrow> 2 ^ 64 \<le> unat g + n * unat c"
    and "unat g + n * unat c < 2 ^ 64 \<Longrightarrow> unat (g + of_nat n * c) = unat g + n * unat c"
proof -
  have m: "unat (MaxUint64 - g) = 2 ^ 64 - 1 - unat g"
    by (simp add: MaxUint64_def unat_sub unsigned_minus_1_eq_mask mask_eq_exp_minus_1)
  have "(MaxUint64 - g) div c < of_nat n \<longleftrightarrow> (2 ^ 64 - 1 - unat g) div unat c < n"
    using assms(2) by (simp add: word_less_nat_alt unat_div m unat_of_nat)
  also have "\<dots> \<longleftrightarrow> 2 ^ 64 - 1 - unat g < n * unat c" using assms(1) by (simp add: div_less_iff_less_mult)
  also have "\<dots> \<longleftrightarrow> 2 ^ 64 \<le> unat g + n * unat c" using unsigned_less [of g, where ?'a = nat] by (simp, arith)
  finally show "(MaxUint64 - g) div c < of_nat n \<longleftrightarrow> 2 ^ 64 \<le> unat g + n * unat c" .
  assume s: "unat g + n * unat c < 2 ^ 64"
  have "g + of_nat n * c = of_nat (unat g + n * unat c)" by simp
  then show "unat (g + of_nat n * c) = unat g + n * unat c" using s by (simp only: unat_of_nat) simp
qed

lemma gas_sum:
  assumes "0 < unat (c :: u64)" and "0 < unat d" and "nz < 2 ^ 64" and "z < 2 ^ 64"
  shows "(if (MaxUint64 - g) div c < of_nat nz then Inl e
      else if (MaxUint64 - (g + of_nat nz * c)) div d < of_nat z then Inl e
      else Inr (g + of_nat nz * c + of_nat z * d))
    = (let n = unat g + nz * unat c + z * unat d in if n < 2 ^ 64 then Inr (of_nat n) else Inl e)"
proof (cases "unat g + nz * unat c < 2 ^ 64")
  case True
  note t = mul_add_fits(2) [OF assms(1,3) True]
  have "g + of_nat nz * c + of_nat z * d = of_nat (unat g + nz * unat c + z * unat d)" by simp
  then show ?thesis
    using True unfolding mul_add_fits(1) [OF assms(1,3)] mul_add_fits(1) [OF assms(2,4)] t Let_def
    by (simp only: not_less [symmetric] simp_thms if_True if_False) simp
next
  case False
  then have "\<not> unat g + nz * unat c + z * unat d < 2 ^ 64" by simp
  with False show ?thesis
    unfolding mul_add_fits(1) [OF assms(1,3)] Let_def by (simp only: not_less [symmetric] if_True if_False simp_thms)
qed

lemma gas_constants:
  "unat (if cc \<and> hs then TxGasContractCreation else if vc then TxGasValidatorCreation else TxGas)
     = (if cc \<and> hs then 53000 else if vc then 5300000 else 21000)"
  "unat (if ist then TxDataNonZeroGasEIP2028 else TxDataNonZeroGasFrontier) = (if ist then 16 else 68)"
  "unat TxDataZeroGas = 4"
  by (simp_all add: TxGasContractCreation_def TxGasValidatorCreation_def TxGas_def TxDataNonZeroGasEIP2028_def
      TxDataNonZeroGasFrontier_def TxDataZeroGas_def)

lemma zero_bytes: "of_nat (length data) - of_nat (length (filter (\<lambda>b. b \<noteq> 0) data)) = (of_nat (length (filter (\<lambda>b. b = 0) data)) :: u64)"
  using sum_length_filter_compl [of "\<lambda>b. b \<noteq> 0" data] by (metis (no_types, lifting) add_diff_cancel_left' of_nat_add not_not filter_cong)

lemma IntrinsicGas_eq:
  "IntrinsicGas data cc hs ist vc =
    (let g = (if cc \<and> hs then TxGasContractCreation else if vc then TxGasValidatorCreation else TxGas);
         c = (if ist then TxDataNonZeroGasEIP2028 else TxDataNonZeroGasFrontier);
         nz = length (filter (\<lambda>b. b \<noteq> 0) data); z = length (filter (\<lambda>b. b = 0) data)
     in if (MaxUint64 - g) div c < of_nat nz then Inl ErrOutOfGas
        else if (MaxUint64 - (g + of_nat nz * c)) div TxDataZeroGas < of_nat z then Inl ErrOutOfGas
        else Inr (g + of_nat nz * c + of_nat z * TxDataZeroGas))"
proof (cases data)
  case (Cons b bs)
  then have "0 < length data" by simp
  then show ?thesis unfolding IntrinsicGas_def Let_def count_nonzero_eq zero_bytes add_0 by (simp only: if_True)
qed (simp add: IntrinsicGas_def)

text \<open>(C21) The intrinsic gas never wraps around: for data that a slice can hold, IntrinsicGas gives the
  exact sum of the base price, the price of the bytes that are not zero and the price of the zero
  bytes when it fits into 64 bits, and the out-of-gas error exactly when it does not.\<close>

theorem intrinsic_gas_exact:
  assumes "length data < 2 ^ 63"
  shows "IntrinsicGas data cc hs ist vc =
    (let n = intrinsic_total data cc hs ist vc in if n < 2 ^ 64 then Inr (of_nat n) else Inl ErrOutOfGas)"
proof -
  have l: "length (filter P data) < 2 ^ 64" for P
    by (rule le_less_trans [OF length_filter_le]) (use assms in simp)
  have c: "0 < unat (if ist then TxDataNonZeroGasEIP2028 else TxDataNonZeroGasFrontier)" "0 < unat TxDataZeroGas"
    unfolding gas_constants by simp_all
  show ?thesis
    unfolding IntrinsicGas_eq intrinsic_total_def Let_def gas_sum [OF c l l, unfolded Let_def gas_constants] gas_constants by (rule refl)
qed

theorem intrinsic_gas_exact_witness:
  "IntrinsicGas [0, 1, 2] False True True False = Inr 21036 \<and> IntrinsicGas [] True True True False = Inr 53000"
  using intrinsic_gas_exact [of "[0, 1, 2]" False True True False] intrinsic_gas_exact [of "[]" True True True False]
  by (simp add: intrinsic_total_def)

section \<open>Buying and refunding gas\<close>

lemma buyGas_ok:
  assumes "st_buyGas E msg st = Some (Inr (), st')"
  obtains db where "snd (sdb_GetBalance E (msg_From msg) (st_state st)) = db"
    and "uint (msg_Gas msg) * msg_GasPrice msg \<le> fst (sdb_GetBalance E (msg_From msg) (st_state st))"
    and "msg_Gas msg \<le> st_gp st"
    and "st' = \<lparr>st_gp = st_gp st - msg_Gas msg, st_gas = st_gas st + msg_Gas msg, st_initialGas = msg_Gas msg,
           st_state = sdb_SubBalance E (msg_From msg) (uint (msg_Gas msg) * msg_GasPrice msg) db\<rparr>"
  using assms unfolding st_buyGas_def gp_SubGas_def Let_def
  by (cases "sdb_GetBalance E (msg_From msg) (st_state st)") (auto simp: go_ok not_less split: if_splits)

lemma getters_same:
  "sdb_same E l (snd (sdb_GetBalance E a l))" "sdb_same E l (snd (sdb_GetNonce E a l))"
  using sdb_loaded_inv [of E l a]
  by (auto simp: sdb_same_def sdb_GetBalance_def sdb_GetNonce_def sdb_get_eq split: option.splits)

lemma same_nonce: "sdb_same E l l' \<Longrightarrow> nonce_of E l' a = nonce_of E l a"
  by (rule nonce_of_core) (rule sdb_same_core)

lemma same_balance: "sdb_same E l l' \<Longrightarrow> balance_of E l' a = balance_of E l a"
  by (rule balance_of_core) (rule sdb_same_core)

lemma preCheck_ok:
  assumes "st_preCheck E msg (NewStateTransition gp l) = Some (Inr (), st)"
  obtains db where "sdb_same E l db" and "msg_CheckNonce msg \<longrightarrow> nonce_of E l (msg_From msg) = msg_Nonce msg"
    and "uint (msg_Gas msg) * msg_GasPrice msg \<le> balance_of E l (msg_From msg)" and "msg_Gas msg \<le> gp"
    and "st = \<lparr>st_gp = gp - msg_Gas msg, st_gas = msg_Gas msg, st_initialGas = msg_Gas msg,
           st_state = sdb_SubBalance E (msg_From msg) (uint (msg_Gas msg) * msg_GasPrice msg) db\<rparr>"
proof -
  have "\<exists>l1. sdb_same E l l1 \<and> (msg_CheckNonce msg \<longrightarrow> nonce_of E l (msg_From msg) = msg_Nonce msg)
      \<and> st_buyGas E msg (NewStateTransition gp l1) = Some (Inr (), st)"
  proof (cases "msg_CheckNonce msg")
    case True
    obtain n l1 where n: "sdb_GetNonce E (msg_From msg) l = (n, l1)" by fastforce
    with True assms have "n = msg_Nonce msg" "st_buyGas E msg (NewStateTransition gp l1) = Some (Inr (), st)"
      by (auto simp: st_preCheck_def NewStateTransition_def Let_def go_ok split: if_splits)
    with n getters_same(2) [of E l "msg_From msg"] show ?thesis by (auto simp: nonce_of_def)
  qed (use assms sdb_same_refl in \<open>force simp: st_preCheck_def\<close>)
  then obtain l1 where l1: "sdb_same E l l1" "msg_CheckNonce msg \<longrightarrow> nonce_of E l (msg_From msg) = msg_Nonce msg"
    "st_buyGas E msg (NewStateTransition gp l1) = Some (Inr (), st)" by blast
  let ?db = "snd (sdb_GetBalance E (msg_From msg) l1)"
  have "sdb_same E l ?db" using l1(1) getters_same(1) by (rule sdb_same_trans)
  moreover have "uint (msg_Gas msg) * msg_GasPrice msg \<le> balance_of E l (msg_From msg) \<and> msg_Gas msg \<le> gp
      \<and> st = \<lparr>st_gp = gp - msg_Gas msg, st_gas = msg_Gas msg, st_initialGas = msg_Gas msg,
           st_state = sdb_SubBalance E (msg_From msg) (uint (msg_Gas msg) * msg_GasPrice msg) ?db\<rparr>"
    unfolding same_balance [OF l1(1), symmetric]
    by (rule buyGas_ok [OF l1(3)]) (simp add: balance_of_def NewStateTransition_def)
  ultimately show thesis using that l1(2) by blast
qed

lemma AddGas_ok: "unat left + unat gp < 2 ^ 64 \<Longrightarrow> gp_AddGas left gp = Some (gp + left)"
proof -
  assume a: "unat left + unat gp < 2 ^ 64"
  have "unat (MaxUint64 - left) = 2 ^ 64 - 1 - unat left"
    by (simp add: MaxUint64_def unat_sub unsigned_minus_1_eq_mask mask_eq_exp_minus_1)
  with a show ?thesis by (simp add: gp_AddGas_def word_less_nat_alt)
qed

text \<open>The refund: at most half of the gas used so far goes back, and the pool cannot overflow.\<close>

lemma refund_amount:
  fixes i g c :: u64
  assumes "g \<le> i"
  defines "r \<equiv> if c < (i - g) div 2 then c else (i - g) div 2"
  shows "unat (g + r) = unat g + unat r" and "g \<le> g + r" and "g + r \<le> i" and "2 * unat r \<le> unat i - unat g"
proof -
  have "unat r \<le> unat ((i - g) div 2)" unfolding r_def by (simp add: word_less_nat_alt)
  also have "\<dots> = (unat i - unat g) div 2" using unat_sub [OF assms(1)] by (simp add: unat_div)
  finally show r: "2 * unat r \<le> unat i - unat g" by linarith
  have "unat g + unat r \<le> unat i" using r assms(1) unfolding word_le_nat_alt by linarith
  then have "unat g + unat r < 2 ^ LENGTH(64)" using unsigned_less [of i, where ?'a = nat] by (rule le_less_trans)
  then show s: "unat (g + r) = unat g + unat r" by (simp only: unat_add_lem [symmetric])
  show "g \<le> g + r" "g + r \<le> i" using s \<open>unat g + unat r \<le> unat i\<close> by (simp_all only: word_le_nat_alt)
qed

lemma refundGas_ok:
  assumes "st_gas st \<le> st_initialGas st" and "st_gp st = gp - st_initialGas st" and "st_initialGas st \<le> gp"
  shows "\<exists>left. st_refundGas E msg st = Some (st\<lparr>st_gas := left, st_gp := st_gp st + left,
        st_state := sdb_AddBalance E (msg_From msg) (uint left * msg_GasPrice msg) (st_state st)\<rparr>)
      \<and> st_gas st \<le> left \<and> left \<le> st_initialGas st
      \<and> unat (st_initialGas st - st_gas st) \<le> 2 * unat (st_initialGas st - left)
      \<and> unat (st_gp st + left) + unat (st_initialGas st - left) = unat gp"
proof -
  define i g where "i = st_initialGas st" and "g = st_gas st"
  define r where "r = (if sdb_GetRefund (st_state st) < (i - g) div 2 then sdb_GetRefund (st_state st) else (i - g) div 2)"
  have gi: "g \<le> i" "i \<le> gp" "st_gp st = gp - i" using assms by (simp_all add: i_def g_def)
  note a = refund_amount [OF gi(1), of "sdb_GetRefund (st_state st)", folded r_def]
  have gp: "unat (gp - i) = unat gp - unat i" by (rule unat_sub [OF gi(2)])
  have le: "unat (g + r) \<le> unat i" "unat i \<le> unat gp" using a(3) gi(2) by (simp_all only: word_le_nat_alt)
  have fits: "unat (g + r) + unat (gp - i) \<le> unat gp" using gp le by linarith
  then have lt: "unat (g + r) + unat (gp - i) < 2 ^ LENGTH(64)"
    using unsigned_less [of gp, where ?'a = nat] by (rule le_less_trans)
  have "st_refundGas E msg st = Some (st\<lparr>st_gas := g + r, st_gp := gp - i + (g + r),
        st_state := sdb_AddBalance E (msg_From msg) (uint (g + r) * msg_GasPrice msg) (st_state st)\<rparr>)"
    using AddGas_ok [of "g + r" "gp - i"] lt gi(3)
    by (simp add: st_refundGas_def st_gasUsed_def Let_def i_def [symmetric] g_def [symmetric] r_def [symmetric])
  moreover have "unat (gp - i + (g + r)) = unat (gp - i) + unat (g + r)"
    using lt by (simp only: unat_add_lem [symmetric] add.commute)
  moreover have "unat (i - g) = unat i - unat g" "unat (i - (g + r)) = unat i - unat (g + r)"
    using unat_sub [OF gi(1)] unat_sub [OF a(3)] .
  ultimately show ?thesis
    using a gp le by (intro exI [of _ "g + r"]) (simp add: i_def [symmetric] g_def [symmetric] gi(3))
qed

section \<open>A transaction\<close>

text \<open>The virtual machine returns, with at most the gas it was given.\<close>

definition evm_ok :: "('d, 'tr) evm_env \<Rightarrow> bool" where
  "evm_ok V \<longleftrightarrow>
     (\<forall>from data gas v db. \<exists>ret a left err db'. evm_Create V from data gas v db = Some ((ret, a, left, err), db') \<and> left \<le> gas)
   \<and> (\<forall>from to data gas v db. \<exists>ret left err db'. evm_Call V from to data gas v db = Some ((ret, left, err), db') \<and> left \<le> gas)"

lemma run_ok:
  assumes "evm_ok V"
  obtains ret vmErr left db where "st_run E V msg st = Some (Inr (ret, vmErr), st\<lparr>st_gas := left, st_state := db\<rparr>)"
    and "left \<le> st_gas st"
proof (cases "msg_To msg")
  case None
  from assms obtain ret a left err db where "evm_Create V (msg_From msg) (msg_Data msg) (st_gas st) (msg_Value msg) (st_state st)
      = Some ((ret, a, left, err), db)" "left \<le> st_gas st" unfolding evm_ok_def by blast
  then show thesis using that None by (simp add: st_run_def go_return_def)
next
  case (Some t)
  let ?st = "st_incNonce E msg st"
  from assms obtain ret left err db where r: "evm_Call V (msg_From msg) (st_to msg) (msg_Data msg) (st_gas ?st) (msg_Value msg) (st_state ?st)
      = Some ((ret, left, err), db)" "left \<le> st_gas ?st" unfolding evm_ok_def by blast
  have "?st = st\<lparr>st_state := st_state ?st\<rparr>" by (simp add: st_incNonce_def split: prod.split)
  then have "?st\<lparr>st_gas := left, st_state := db\<rparr> = st\<lparr>st_gas := left, st_state := db\<rparr>" "st_gas ?st = st_gas st"
    by (metis StateTransition.update_convs(2,4) StateTransition.surjective StateTransition.select_convs)+
  then show thesis using that r Some by (simp add: st_run_def go_return_def Let_def)
qed

abbreviation intrinsic_of where
  "intrinsic_of V msg cc vc \<equiv> IntrinsicGas (msg_Data msg) cc (IsS3 (evm_Config V) (EpochNumber V))
     (IsIstanbul (evm_Config V) (EpochNumber V)) vc"

lemma intrinsic_ok:
  "st_intrinsic V msg cc vc st = Some (Inr (), st') \<longleftrightarrow>
     (\<exists>gas. intrinsic_of V msg cc vc = Inr gas \<and> gas \<le> st_gas st \<and> st' = st\<lparr>st_gas := st_gas st - gas\<rparr>)"
  by (cases "intrinsic_of V msg cc vc") (auto simp: st_intrinsic_def st_useGas_def go_sum_def go_ok not_less split: if_splits)

lemma checks_return:
  "\<exists>r st'. st_preCheck E msg st = Some (r, st')" "\<exists>r st'. st_intrinsic V msg cc vc st = Some (r, st')"
  unfolding st_preCheck_def st_buyGas_def st_intrinsic_def st_useGas_def go_sum_def Let_def
  by (auto simp: go_fail_def go_return_def split: prod.split sum.split option.split)

text \<open>Gas before the run: the gas of the message less the intrinsic gas.\<close>

lemma start_ok:
  assumes "st_preCheck E msg (NewStateTransition gp l) = Some (Inr (), st)" and "st_intrinsic V msg cc vc st = Some (Inr (), st1)"
  obtains gas where "intrinsic_of V msg cc vc = Inr gas" and "gas \<le> msg_Gas msg" and "msg_Gas msg \<le> gp"
    and "st_gas st1 = msg_Gas msg - gas" and "st_initialGas st1 = msg_Gas msg" and "st_gp st1 = gp - msg_Gas msg"
    and "st_state st1 = st_state st" and "st_gas st1 \<le> st_initialGas st1"
proof -
  from assms(2) obtain gas where g: "intrinsic_of V msg cc vc = Inr gas" "gas \<le> st_gas st"
      "st1 = st\<lparr>st_gas := st_gas st - gas\<rparr>" unfolding intrinsic_ok by blast
  show thesis
    by (rule preCheck_ok [OF assms(1)]; rule that [OF g(1)])
      (use g(2) word_sub_le [of gas "msg_Gas msg"] in \<open>simp_all add: g(3)\<close>)
qed

lemma used_at_least:
  assumes "(gas :: u64) \<le> i" and "left \<le> i - gas" and "unat (i - left) \<le> 2 * used"
  shows "unat gas \<le> 2 * used"
proof -
  have "unat left \<le> unat i - unat gas" using assms(2) unat_sub [OF assms(1)] by (simp add: word_le_nat_alt)
  moreover have "left \<le> i" using assms(1,2) word_sub_le order_trans by blast
  ultimately show ?thesis using assms(1,3) unat_sub [of left i] by (simp add: word_le_nat_alt)
qed

lemma refund_after:
  assumes "gas \<le> i" and "i \<le> gp" and "st_gas st \<le> i - gas" and "st_initialGas st = i" and "st_gp st = gp - i"
  obtains st' where "st_refundGas E msg st = Some st'" and "unat gas \<le> 2 * unat (st_gasUsed st')" and "st_gasUsed st' \<le> i"
    and "unat (st_gp st') + unat (st_gasUsed st') = unat gp"
    and "st_state st' = sdb_AddBalance E (msg_From msg) (uint (i - st_gasUsed st') * msg_GasPrice msg) (st_state st)"
proof -
  have g: "st_gas st \<le> i" using assms(1,3) word_sub_le order_trans by blast
  with refundGas_ok [of st gp E msg] assms obtain left where
    r: "st_refundGas E msg st = Some (st\<lparr>st_gas := left, st_gp := st_gp st + left,
        st_state := sdb_AddBalance E (msg_From msg) (uint left * msg_GasPrice msg) (st_state st)\<rparr>)"
      "left \<le> i" "unat (i - st_gas st) \<le> 2 * unat (i - left)" "unat (st_gp st + left) + unat (i - left) = unat gp"
    by auto
  show thesis
    by (rule that [OF r(1)])
      (use r(2-4) assms(4) used_at_least [OF assms(1,3) r(3)] word_sub_le [OF r(2)] in \<open>simp_all add: st_gasUsed_def\<close>)
qed

lemma transition_run:
  assumes "st_preCheck E msg (NewStateTransition gp l) = Some (Inr (), st)"
    and "st_intrinsic V msg (msg_To msg = None) False st = Some (Inr (), st1)"
    and "st_run E V msg st1 = Some (Inr (ret, err), st1\<lparr>st_gas := left, st_state := db\<rparr>)" and "left \<le> st_gas st1"
  obtains gas st4 where "intrinsic_of V msg (msg_To msg = None) False = Inr gas" and "unat gas \<le> 2 * unat (st_gasUsed st4)"
    and "st_gasUsed st4 \<le> msg_Gas msg" and "unat (st_gp st4) + unat (st_gasUsed st4) = unat gp"
    and "TransitionDb E V msg (NewStateTransition gp l) =
      (if err = Some ErrInsufficientBalance then Some (Inl ErrInsufficientBalance, st1\<lparr>st_gas := left, st_state := db\<rparr>)
       else Some (Inr \<lparr>er_ReturnData = ret, er_UsedGas = st_gasUsed st4, er_VMErr = err\<rparr>, st4))"
proof -
  from assms(1,2) obtain gas where gas: "intrinsic_of V msg (msg_To msg = None) False = Inr gas" "gas \<le> msg_Gas msg"
      "msg_Gas msg \<le> gp" "st_gas st1 = msg_Gas msg - gas" "st_initialGas st1 = msg_Gas msg" "st_gp st1 = gp - msg_Gas msg"
    by (rule start_ok)
  let ?st2 = "st1\<lparr>st_gas := left, st_state := db\<rparr>"
  obtain st3 where st3: "st_refundGas E msg ?st2 = Some st3" "unat gas \<le> 2 * unat (st_gasUsed st3)"
      "st_gasUsed st3 \<le> msg_Gas msg" "unat (st_gp st3) + unat (st_gasUsed st3) = unat gp"
    using refund_after [of gas "msg_Gas msg" gp ?st2 E msg] gas assms(4) by auto
  have pay: "st_gasUsed (st_payCoinbase E V msg st3) = st_gasUsed st3" "st_gp (st_payCoinbase E V msg st3) = st_gp st3"
    by (simp_all add: st_payCoinbase_def st_gasUsed_def)
  show thesis
    by (rule that [OF gas(1), of "st_payCoinbase E V msg st3"]) (use assms(1-3) st3 in
      \<open>simp_all add: pay TransitionDb_def go_bind_def go_fail_def go_do_opt_def go_do_def go_return_def\<close>)
qed

text \<open>(C10) A transaction accounts for its gas exactly. With a virtual machine that returns with at most
  the gas it was given, TransitionDb does not panic, in particular not when gas goes back to the
  pool of the block. When it succeeds, the gas used is at most the gas of the message and at least
  half of the intrinsic gas, and the pool has lost exactly the gas used.\<close>

theorem transition_gas_exact:
  assumes "evm_ok V"
  shows "\<exists>res st'. TransitionDb E V msg (NewStateTransition gp l) = Some (res, st')
    \<and> (\<forall>r. res = Inr r \<longrightarrow> (\<exists>gas. intrinsic_of V msg (msg_To msg = None) False = Inr gas
         \<and> unat gas \<le> 2 * unat (er_UsedGas r) \<and> er_UsedGas r \<le> msg_Gas msg
         \<and> unat (st_gp st') + unat (er_UsedGas r) = unat gp))"
proof -
  let ?T = "TransitionDb E V msg (NewStateTransition gp l)" and ?cc = "msg_To msg = None"
  obtain r0 st where p: "st_preCheck E msg (NewStateTransition gp l) = Some (r0, st)" using checks_return(1) by blast
  obtain r1 st1 where q: "st_intrinsic V msg ?cc False st = Some (r1, st1)" using checks_return(2) by blast
  show ?thesis
  proof (cases "(\<exists>e. r0 = Inl e) \<or> (\<exists>e. r1 = Inl e)")
    case True
    then have "\<exists>e st'. ?T = Some (Inl e, st')" using p q by (cases r0) (auto simp: TransitionDb_def go_bind_def)
    then show ?thesis by auto
  next
    case False
    then have u: "r0 = Inr ()" "r1 = Inr ()" by (metis (full_types) old.unit.exhaust sum.exhaust)+
    obtain ret err left db where run: "st_run E V msg st1 = Some (Inr (ret, err), st1\<lparr>st_gas := left, st_state := db\<rparr>)"
        "left \<le> st_gas st1" using assms by (rule run_ok)
    from p q run show ?thesis unfolding u by (rule transition_run) simp
  qed
qed

lemma preCheck_succeeds:
  assumes "msg_CheckNonce msg \<longrightarrow> nonce_of E l (msg_From msg) = msg_Nonce msg"
    and "uint (msg_Gas msg) * msg_GasPrice msg \<le> balance_of E l (msg_From msg)" and "msg_Gas msg \<le> gp"
  shows "\<exists>st. st_preCheck E msg (NewStateTransition gp l) = Some (Inr (), st) \<and> st_gas st = msg_Gas msg"
proof -
  obtain n l1 where n: "sdb_GetNonce E (msg_From msg) l = (n, l1)" by fastforce
  have b: "\<exists>st. st_buyGas E msg (NewStateTransition gp m) = Some (Inr (), st) \<and> st_gas st = msg_Gas msg" if "sdb_same E l m" for m
  proof -
    have "uint (msg_Gas msg) * msg_GasPrice msg \<le> balance_of E m (msg_From msg)"
      using assms(2) same_balance [OF that] by simp
    then show ?thesis using assms(3)
      by (simp add: st_buyGas_def gp_SubGas_def NewStateTransition_def balance_of_def go_return_def Let_def not_less
          split: prod.splits) auto
  qed
  have "st_preCheck E msg (NewStateTransition gp l) = st_buyGas E msg (NewStateTransition gp (if msg_CheckNonce msg then l1 else l))"
    using assms(1) n by (simp add: st_preCheck_def NewStateTransition_def nonce_of_def Let_def)
  then show ?thesis using b [of l] b [of l1] getters_same(2) [of E l "msg_From msg"] n by simp
qed

section \<open>A staking transaction\<close>

text \<open>What the state shows of validators: nothing of it depends on balances and nonces.\<close>

definition keeps_validators :: "('d, 'tr) senv \<Rightarrow> ('d, 'tr) SDB \<Rightarrow> ('d, 'tr) SDB \<Rightarrow> bool" where
  "keeps_validators E l l' \<longleftrightarrow> sdb_inv E l' \<and> (\<forall>b. so_freeze (sdb_obj E l' b) = so_freeze (sdb_obj E l b)
     \<and> stored E l' b = stored E l b \<and> validator_flag E l' b = validator_flag E l b)"

lemma keeps_validators_trans: "keeps_validators E l m \<Longrightarrow> keeps_validators E m n \<Longrightarrow> keeps_validators E l n"
  by (simp add: keeps_validators_def)

lemma keeps_same: "sdb_same E l l' \<Longrightarrow> sdb_inv E l \<Longrightarrow> keeps_validators E l l'"
  using sdb_same_core [of E l l'] sdb_same_stored [of E l l'] flag_quiet [of E l l']
  by (auto simp: keeps_validators_def sdb_same_def so_core_def)

lemma so_code_view_setNonce [simp]: "so_code_view E d (so_setNonce n s) = so_code_view E d s"
  by (rule so_code_view_cong) (simp_all add: so_setNonce_def)

lemma keeps_setters:
  assumes "sdb_inv E l"
  shows "keeps_validators E l (sdb_SubBalance E a x l)" and "keeps_validators E l (sdb_AddBalance E a x l)"
    and "keeps_validators E l (sdb_SetNonce E a n l)"
proof -
  have k: "keeps_validators E l l'" if "sdb_safe E l l'" "sdb_local E a l l'"
      "\<And>b. so_freeze (sdb_obj E l' b) = so_freeze (sdb_obj E l b)"
      "so_code_view E (sdb_db l) (sdb_obj E l' a) = so_code_view E (sdb_db l) (sdb_obj E l a)"
      "so_state_view E (sdb_db l) (sdb_obj E l' a) = so_state_view E (sdb_db l) (sdb_obj E l a)" for l'
    using that(1,3) stored_same_code [OF that(2,4)] flag_local [OF that(2,5)]
    by (simp add: keeps_validators_def sdb_safe_def)
  show "keeps_validators E l (sdb_SubBalance E a x l)"
    by (rule k [OF sdb_setters_safe(2) [OF assms] sdb_setters_local(2) [OF assms]]) (simp_all add: sdb_SubBalance_obj [OF assms])
  show "keeps_validators E l (sdb_AddBalance E a x l)"
    by (rule k [OF sdb_setters_safe(1) [OF assms] sdb_setters_local(1) [OF assms]]) (simp_all add: sdb_AddBalance_obj [OF assms])
  show "keeps_validators E l (sdb_SetNonce E a n l)"
    by (rule k [OF sdb_setters_safe(4) [OF assms] sdb_setters_local(4) [OF assms]]) (simp_all add: sdb_SetNonce_obj [OF assms])
qed

lemma keeps_stakeable: "keeps_validators E l l' \<Longrightarrow> stakeable E l' S = stakeable E l S"
  by (simp add: keeps_validators_def stakeable_def readable_def sdb_getters_obj)

lemma keeps_staked: "keeps_validators E l l' \<Longrightarrow> staked E l' S = staked E l S"
  by (simp add: keeps_validators_def staked_def)

text \<open>Before the staking operation: gas is paid and the nonce advanced, unless the sender is frozen.\<close>

lemma start_effect:
  assumes "sdb_inv E l" and "st_preCheck E msg (NewStateTransition gp l) = Some (Inr (), st)" and "st_state st1 = st_state st"
  shows "keeps_validators E l (st_state (st_incNonce E msg st1))
    \<and> (\<forall>b. balance_of E (st_state (st_incNonce E msg st1)) b = balance_of E l b
        - (if b = msg_From msg \<and> \<not> so_freeze (sdb_obj E l (msg_From msg)) then uint (msg_Gas msg) * msg_GasPrice msg else 0))
    \<and> (\<forall>b. nonce_of E (st_state (st_incNonce E msg st1)) b = nonce_of E l b
        + (if b = msg_From msg \<and> \<not> so_freeze (sdb_obj E l (msg_From msg)) then 1 else 0))"
proof -
  let ?a = "msg_From msg" and ?x = "uint (msg_Gas msg) * msg_GasPrice msg"
  obtain db where db: "sdb_same E l db" "st_state st = sdb_SubBalance E ?a ?x db"
    by (rule preCheck_ok [OF assms(2)]) simp
  define m where "m = sdb_SubBalance E ?a ?x db"
  obtain n m' where n: "sdb_GetNonce E ?a m = (n, m')" by fastforce
  have s: "sdb_same E m m'" using getters_same(2) [of E m ?a] n by simp
  note k1 = keeps_same [OF db(1) assms(1)]
  then have i1: "sdb_inv E db" by (simp add: keeps_validators_def)
  note k2 = keeps_setters(1) [OF i1, of ?a ?x, folded m_def]
  then have i2: "sdb_inv E m" by (simp add: keeps_validators_def)
  note k3 = keeps_same [OF s i2]
  then have i3: "sdb_inv E m'" by (simp add: keeps_validators_def)
  note k4 = keeps_setters(3) [OF i3, of ?a "n + 1"]
  have f: "so_freeze (sdb_obj E db ?a) = so_freeze (sdb_obj E l ?a)" "so_freeze (sdb_obj E m' ?a) = so_freeze (sdb_obj E l ?a)"
    using k1 k2 k3 by (simp_all add: keeps_validators_def)
  have st: "st_state (st_incNonce E msg st1) = sdb_SetNonce E ?a (n + 1) m'"
    using n by (simp add: st_incNonce_def assms(3) db(2) m_def)
  have "keeps_validators E l (sdb_SetNonce E ?a (n + 1) m')" using k1 k2 k3 k4 by (blast intro: keeps_validators_trans)
  moreover have "balance_of E (sdb_SetNonce E ?a (n + 1) m') b = balance_of E m' b" for b
    by (simp add: balance_of_def sdb_getters_obj sdb_SetNonce_obj [OF i3])
  moreover have "balance_of E m' b = balance_of E l b - (if b = ?a \<and> \<not> so_freeze (sdb_obj E l ?a) then ?x else 0)" for b
    unfolding same_balance [OF s] m_def balance_of_sub [OF i1] f(1) same_balance [OF db(1)] by (rule refl)
  moreover have n': "nonce_of E m' b = nonce_of E l b" for b
    unfolding same_nonce [OF s] m_def nonce_of_move(1) [OF i1] by (rule same_nonce [OF db(1)])
  moreover have "n = nonce_of E m' ?a" using n same_nonce [OF s] by (simp add: nonce_of_def)
  then have "nonce_of E (sdb_SetNonce E ?a (n + 1) m') b
      = nonce_of E m' b + (if b = ?a \<and> \<not> so_freeze (sdb_obj E l ?a) then 1 else 0)" for b
    using f(2) by (simp add: nonce_of_def sdb_getters_obj sdb_SetNonce_obj [OF i3])
  ultimately show ?thesis unfolding st by simp
qed

lemma on_state_ok:
  "on_state (go_result m) st = Some (Inr None, st') \<longleftrightarrow> (\<exists>db. m (st_state st) = Some (Inr (), db) \<and> st' = st\<lparr>st_state := db\<rparr>)"
proof (cases "m (st_state st)")
  case (Some p)
  then show ?thesis by (cases p; cases "fst p") (auto simp: on_state_def go_result_def)
qed (simp add: on_state_def go_result_def)

lemma staking_transition_ok:
  assumes "StakingTransitionDb E B C bc V msg (NewStateTransition gp l) = Some (Inr (used, None), st')"
  obtains st st1 gas m db where "st_preCheck E msg (NewStateTransition gp l) = Some (Inr (), st)"
    and "st_state st1 = st_state st" and "intrinsic_of V msg False (msg_Type msg = StakeCreateVal) = Inr gas"
    and "staking_op E B C bc V msg = Inr m" and "m (st_state (st_incNonce E msg st1)) = Some (Inr (), db)"
    and "st_state st' = sdb_AddBalance E (msg_From msg) (uint (msg_Gas msg - used) * msg_GasPrice msg) db"
    and "unat gas \<le> 2 * unat used" and "used \<le> msg_Gas msg" and "unat (st_gp st') + unat used = unat gp"
proof -
  from assms obtain st st1 m st3 where p: "st_preCheck E msg (NewStateTransition gp l) = Some (Inr (), st)"
      "st_intrinsic V msg False (msg_Type msg = StakeCreateVal) st = Some (Inr (), st1)"
    and m: "staking_op E B C bc V msg = Inr m" "on_state (go_result m) (st_incNonce E msg st1) = Some (Inr None, st3)"
    and r: "st_refundGas E msg st3 = Some st'" "used = st_gasUsed st'"
    by (auto simp: StakingTransitionDb_def go_ok)
  from p obtain gas where gas: "intrinsic_of V msg False (msg_Type msg = StakeCreateVal) = Inr gas" "gas \<le> msg_Gas msg"
      "msg_Gas msg \<le> gp" "st_gas st1 = msg_Gas msg - gas" "st_initialGas st1 = msg_Gas msg" "st_gp st1 = gp - msg_Gas msg"
      "st_state st1 = st_state st"
    by (rule start_ok)
  from m(2) obtain db where db: "m (st_state (st_incNonce E msg st1)) = Some (Inr (), db)"
      "st3 = (st_incNonce E msg st1)\<lparr>st_state := db\<rparr>" unfolding on_state_ok by blast
  have st3: "st_gas st3 = st_gas st1" "st_initialGas st3 = st_initialGas st1" "st_gp st3 = st_gp st1" "st_state st3 = db"
    by (simp_all add: db(2) st_incNonce_def split: prod.split)
  show thesis
    by (rule refund_after [of gas "msg_Gas msg" gp st3 E msg])
      (use gas st3 r that [OF p(1) gas(7,1) m(1) db(1)] in simp_all)
qed

text \<open>(C6) A staking transaction conserves tokens up to its fee. When StakingTransitionDb reports success
  for a sender that is not frozen, the balance of the sender, the tokens of the validators and the
  fee add up to what the sender and the validators had before; no other balance changes, the nonce of the
  sender grows by one, the gas used is between half of the intrinsic gas and the gas of the
  message, and the pool of the block loses exactly the gas used.\<close>

theorem staking_transaction_conserves:
  assumes "staking_env E" and "account_tries_ok E" and "sdb_reachable E l"
    and "stakeable E l S" and "staking_validators C bc msg \<subseteq> S"
    and "\<not> fst (sdb_GetFreezeState E (msg_From msg) l)"
    and "\<forall>ds. ReadDelegationsByDelegator bc (msg_From msg) = Inr ds \<longrightarrow> distinct (map di_ValidatorAddress ds)"
    and "ApplyStakingMessage E B C (Some bc) V msg gp l = Some (Inr (used, None), st')"
  shows "balance_of E (st_state st') (msg_From msg) + staked E (st_state st') S + uint used * msg_GasPrice msg
      = balance_of E l (msg_From msg) + staked E l S
    \<and> (\<forall>b. b \<noteq> msg_From msg \<longrightarrow> balance_of E (st_state st') b = balance_of E l b)
    \<and> nonce_of E (st_state st') (msg_From msg) = nonce_of E l (msg_From msg) + 1
    \<and> (\<exists>gas. intrinsic_of V msg False (msg_Type msg = StakeCreateVal) = Inr gas \<and> unat gas \<le> 2 * unat used)
    \<and> used \<le> msg_Gas msg \<and> unat (st_gp st') + unat used = unat gp"
proof -
  let ?a = "msg_From msg"
  have inv: "sdb_inv E l" using sdb_reachable_inv [OF assms(2,3)] by simp
  obtain st st1 gas m db where t: "st_preCheck E msg (NewStateTransition gp l) = Some (Inr (), st)" "st_state st1 = st_state st"
      "intrinsic_of V msg False (msg_Type msg = StakeCreateVal) = Inr gas"
      "staking_op E B C (Some bc) V msg = Inr m" "m (st_state (st_incNonce E msg st1)) = Some (Inr (), db)"
      "st_state st' = sdb_AddBalance E ?a (uint (msg_Gas msg - used) * msg_GasPrice msg) db"
      "unat gas \<le> 2 * unat used" "used \<le> msg_Gas msg" "unat (st_gp st') + unat used = unat gp"
    using assms(8) unfolding ApplyStakingMessage_def by (rule staking_transition_ok)
  define l2 where "l2 = st_state (st_incNonce E msg st1)"
  note se = start_effect [OF inv t(1,2), folded l2_def]
  then have k: "keeps_validators E l l2" by blast
  have f: "\<not> so_freeze (sdb_obj E l ?a)" using assms(6) by (simp add: sdb_getters_obj)
  have "conserves E ?a S l2 db"
    by (rule staking_op_conserves [OF assms(1) _ _ assms(5) _ assms(7) t(4) t(5) [folded l2_def]])
      (use k f assms(4) in \<open>simp_all add: keeps_stakeable [OF k] sdb_getters_obj, simp_all add: keeps_validators_def\<close>)
  then have c: "balance_of E db ?a + staked E db S = balance_of E l2 ?a + staked E l2 S"
      "\<And>b. b \<noteq> ?a \<Longrightarrow> balance_of E db b = balance_of E l2 b" and u: "untouched E l2 db"
    by (simp_all add: conserves_def)
  have db: "sdb_inv E db" "\<not> so_freeze (sdb_obj E db ?a)" "nonce_of E db ?a = nonce_of E l2 ?a"
    using u k f by (simp_all add: untouched_def keeps_validators_def)
  have fee: "uint (msg_Gas msg - used) = uint (msg_Gas msg) - uint used" using t(8) by (simp add: uint_minus_simple_alt)
  have "balance_of E l2 ?a = balance_of E l ?a - uint (msg_Gas msg) * msg_GasPrice msg"
    "\<And>b. b \<noteq> ?a \<Longrightarrow> balance_of E l2 b = balance_of E l b" "nonce_of E l2 ?a = nonce_of E l ?a + 1"
    using se f by simp_all
  moreover have "balance_of E (st_state st') b = balance_of E db b
      + (if b = ?a then uint (msg_Gas msg - used) * msg_GasPrice msg else 0)" for b
    unfolding t(6) by (rule balance_of_move(2) [OF db(1,2)])
  moreover have "staked E (st_state st') S = staked E db S" "nonce_of E (st_state st') ?a = nonce_of E db ?a"
    unfolding t(6) by (rule staked_move(2) [OF db(1)], rule nonce_of_move(2) [OF db(1)])
  ultimately show ?thesis
    using c db(3) keeps_staked [OF k, of S] t(3,7-9) by (simp add: fee left_diff_distrib)
qed

text \<open>(C38) Execution does not stop a frozen sender: a frozen account that passes the checks of a transaction
  pays nothing for its gas and its nonce does not advance, since SubBalance and SetNonce leave a
  frozen account as it is, so the same message passes the checks again.\<close>

theorem frozen_sender_replays:
  assumes "account_tries_ok E" and "sdb_reachable E l" and "fst (sdb_GetFreezeState E (msg_From msg) l)"
    and "st_preCheck E msg (NewStateTransition gp l) = Some (Inr (), st)"
    and "st_intrinsic V msg cc vc st = Some (Inr (), st1)"
  shows "(\<forall>b. balance_of E (st_state (st_incNonce E msg st1)) b = balance_of E l b
        \<and> nonce_of E (st_state (st_incNonce E msg st1)) b = nonce_of E l b)
    \<and> (\<exists>st2. st_preCheck E msg (NewStateTransition gp (st_state (st_incNonce E msg st1))) = Some (Inr (), st2))"
proof -
  have inv: "sdb_inv E l" using sdb_reachable_inv [OF assms(1,2)] by simp
  have f: "so_freeze (sdb_obj E l (msg_From msg))" using assms(3) by (simp add: sdb_getters_obj)
  have "st_state st1 = st_state st" using start_ok [OF assms(4,5)] by blast
  from start_effect [OF inv assms(4) this] f have e:
    "balance_of E (st_state (st_incNonce E msg st1)) b = balance_of E l b"
    "nonce_of E (st_state (st_incNonce E msg st1)) b = nonce_of E l b" for b by simp_all
  have "\<exists>st2. st_preCheck E msg (NewStateTransition gp (st_state (st_incNonce E msg st1))) = Some (Inr (), st2)"
    by (rule preCheck_ok [OF assms(4)]) (use preCheck_succeeds [of msg E _ gp] e in metis)
  with e show ?thesis by blast
qed

section \<open>Concrete transactions\<close>

lemma stk_demo_nonce: "nonce_of stk_demo_env stk_demo a = 0"
  by (simp add: nonce_of_def sdb_GetNonce_def sdb_getStateObject_def sdb_getDeletedStateObject_def
      stk_demo_def sdb_New_def stk_demo_env_def gm_getd_def so_newObject_def so_Nonce_def Let_def split: option.split)

definition demo_call_evm :: "((hash, bytes) gomap, (address, bytes) gomap \<times> (hash, bytes) gomap) evm_env" where
  "demo_call_evm = stk_demo_evm\<lparr>evm_Create := (\<lambda>_ _ gas _ db. Some (([], 0, gas, None), db)),
     evm_Call := (\<lambda>_ _ _ gas _ db. Some (([], gas, None), db))\<rparr>"

definition demo_call :: Message where
  "demo_call = \<lparr>msg_From = 5, msg_To = Some 9, msg_GasPrice = 1, msg_Gas = 30000, msg_Value = 0, msg_Nonce = 0,
     msg_CheckNonce = True, msg_Data = [], msg_Type = SameShardTx, msg_BlockNum = Some 7\<rparr>"

lemma demo_call_starts:
  assumes "nonce_of stk_demo_env l 5 = 0" and "balance_of stk_demo_env l 5 = 10 ^ 22"
  obtains st st1 where "st_preCheck stk_demo_env demo_call (NewStateTransition 80000 l) = Some (Inr (), st)"
    and "st_intrinsic demo_call_evm demo_call (msg_To demo_call = None) False st = Some (Inr (), st1)"
proof -
  obtain st where st: "st_preCheck stk_demo_env demo_call (NewStateTransition 80000 l) = Some (Inr (), st)" "st_gas st = 30000"
    using preCheck_succeeds [of demo_call stk_demo_env l 80000] assms by (auto simp: demo_call_def)
  moreover have "intrinsic_of demo_call_evm demo_call (msg_To demo_call = None) False = Inr 21000"
    by (simp add: IntrinsicGas_def demo_call_def TxGas_def)
  ultimately show thesis using that unfolding intrinsic_ok by force
qed

lemma demo_evm_ok: "evm_ok demo_call_evm"
  by (simp add: evm_ok_def demo_call_evm_def)

theorem transition_gas_exact_witness:
  "\<exists>r st'. TransitionDb stk_demo_env demo_call_evm demo_call (NewStateTransition 80000 stk_demo) = Some (Inr r, st')
     \<and> 10500 \<le> unat (er_UsedGas r) \<and> unat (st_gp st') + unat (er_UsedGas r) = 80000"
proof -
  let ?T = "TransitionDb stk_demo_env demo_call_evm demo_call (NewStateTransition 80000 stk_demo)"
  obtain st st1 where p: "st_preCheck stk_demo_env demo_call (NewStateTransition 80000 stk_demo) = Some (Inr (), st)"
      "st_intrinsic demo_call_evm demo_call (msg_To demo_call = None) False st = Some (Inr (), st1)"
    using stk_demo_nonce stk_demo_balance by (rule demo_call_starts)
  have run: "st_run stk_demo_env demo_call_evm demo_call st1 = Some (Inr ([], None),
      st1\<lparr>st_gas := st_gas st1, st_state := st_state (st_incNonce stk_demo_env demo_call st1)\<rparr>)"
    by (simp add: st_run_def demo_call_evm_def demo_call_def go_return_def st_incNonce_def split: prod.split)
  have "\<exists>r st'. ?T = Some (Inr r, st')"
    by (rule transition_run [OF p run order_refl]) simp
  then obtain r st' where s: "?T = Some (Inr r, st')" by blast
  have "intrinsic_of demo_call_evm demo_call (msg_To demo_call = None) False = Inr 21000"
    by (simp add: IntrinsicGas_def demo_call_def TxGas_def)
  with transition_gas_exact [OF demo_evm_ok, of stk_demo_env demo_call 80000 stk_demo] s show ?thesis by simp
qed

theorem frozen_sender_replays_witness:
  "\<exists>st st1 st2. st_preCheck stk_demo_env demo_call (NewStateTransition 80000 stk_demo_frozen) = Some (Inr (), st)
     \<and> st_intrinsic demo_call_evm demo_call (msg_To demo_call = None) False st = Some (Inr (), st1)
     \<and> balance_of stk_demo_env (st_state (st_incNonce stk_demo_env demo_call st1)) 5 = 10 ^ 22
     \<and> st_preCheck stk_demo_env demo_call (NewStateTransition 80000 (st_state (st_incNonce stk_demo_env demo_call st1))) = Some (Inr (), st2)"
proof -
  have n: "nonce_of stk_demo_env stk_demo_frozen 5 = 0"
    using stk_demo_nonce [of 5] by (simp add: stk_demo_frozen_def nonce_of_def sdb_getters_obj sdb_SetFreezeState_obj [OF stk_demo_inv])
  obtain st st1 where p: "st_preCheck stk_demo_env demo_call (NewStateTransition 80000 stk_demo_frozen) = Some (Inr (), st)"
      "st_intrinsic demo_call_evm demo_call (msg_To demo_call = None) False st = Some (Inr (), st1)"
    using n stk_demo_frozen_balance by (rule demo_call_starts)
  have f: "fst (sdb_GetFreezeState stk_demo_env (msg_From demo_call) stk_demo_frozen)"
    using stk_demo_frozen_state by (simp add: demo_call_def)
  note r = frozen_sender_replays [OF stk_demo_tries stk_demo_frozen_reachable f p]
  then have b: "balance_of stk_demo_env (st_state (st_incNonce stk_demo_env demo_call st1)) 5 = 10 ^ 22"
    using stk_demo_frozen_balance by simp
  from r obtain st2 where
    "st_preCheck stk_demo_env demo_call (NewStateTransition 80000 (st_state (st_incNonce stk_demo_env demo_call st1))) = Some (Inr (), st2)"
    by blast
  with p b show ?thesis by blast
qed

definition demo_bls :: "(unit, unit) bls_env" where
  "demo_bls = \<lparr>BytesToBLSPublicKey = (\<lambda>_. Inr ()), SigDeserialize = (\<lambda>_. Inr ()), VerifyHash = (\<lambda>_ _ _. True),
     bls_Keccak256 = (\<lambda>b. b), HmyAccounts = (\<lambda>_. [])\<rparr>"

lemma stk_demo_transaction:
  "\<exists>used st'. ApplyStakingMessage stk_demo_env demo_bls stk_demo_codec (Some stk_demo_chain) stk_demo_evm stk_demo_msg 80000 stk_demo
     = Some (Inr (used, None), st')"
proof -
  let ?E = stk_demo_env and ?m = stk_demo_msg and ?V = stk_demo_evm
  have m: "msg_Gas ?m = 30000" "msg_GasPrice ?m = 1" "msg_Nonce ?m = 0" "msg_Data ?m = []" "msg_From ?m = 9"
    "(msg_Type ?m = StakeCreateVal) = False" by (simp_all add: stk_demo_msg_def)
  have b: "balance_of ?E stk_demo 9 = 10 ^ 22"
    by (simp add: balance_of_def sdb_GetBalance_def sdb_getStateObject_def sdb_getDeletedStateObject_def
      stk_demo_def sdb_New_def stk_demo_env_def gm_getd_def so_newObject_def so_Balance_def Let_def)
  then obtain st where st: "st_preCheck ?E ?m (NewStateTransition 80000 stk_demo) = Some (Inr (), st)" "st_gas st = 30000"
    using preCheck_succeeds [of ?m ?E stk_demo 80000] stk_demo_nonce m by auto
  have "intrinsic_of ?V ?m False False = Inr 21000" by (simp add: IntrinsicGas_def m TxGas_def)
  with st(2) obtain st1 where st1: "st_intrinsic ?V ?m False False st = Some (Inr (), st1)" unfolding intrinsic_ok by force
  from st(1) st1 obtain gas where gas: "gas \<le> msg_Gas ?m" "msg_Gas ?m \<le> 80000" "st_gas st1 = msg_Gas ?m - gas"
      "st_initialGas st1 = msg_Gas ?m" "st_gp st1 = 80000 - msg_Gas ?m" "st_state st1 = st_state st" by (rule start_ok)
  let ?st2 = "st_incNonce ?E ?m st1"
  have k: "keeps_validators ?E stk_demo (st_state ?st2)" using start_effect [OF stk_demo_inv st(1) gas(6)] by blast
  then have "stored ?E (st_state ?st2) 9 = Inr demo_wrapper" "stakeable ?E (st_state ?st2) {9}"
    using stk_demo_stored stk_demo_stakeable keeps_stakeable by (auto simp: keeps_validators_def)
  from stk_demo_undelegates [OF this] obtain db
    where db: "verifyAndApplyUndelegateTx ?E ?V demo_undelegate (st_state ?st2) = Some (Inr (), db)" by blast
  let ?st3 = "?st2\<lparr>st_state := db\<rparr>"
  have "st_gas ?st3 = st_gas st1" "st_initialGas ?st3 = st_initialGas st1" "st_gp ?st3 = st_gp st1"
    by (simp_all add: st_incNonce_def split: prod.split)
  then obtain st4 where st4: "st_refundGas ?E ?m ?st3 = Some st4"
    using refund_after [of gas "msg_Gas ?m" 80000 ?st3 ?E ?m] gas by auto
  have "on_state (go_result (verifyAndApplyUndelegateTx ?E ?V demo_undelegate)) ?st2 = Some (Inr None, ?st3)"
    using db unfolding on_state_ok by blast
  then show ?thesis using st(1) st1 st4
    by (simp add: ApplyStakingMessage_def StakingTransitionDb_def m(6) stk_demo_msg_ok(2) go_bind_def go_do_def go_sum_def
        go_do_opt_def go_return_def)
qed

theorem staking_transaction_conserves_witness:
  "\<exists>used st'. ApplyStakingMessage stk_demo_env demo_bls stk_demo_codec (Some stk_demo_chain)
       stk_demo_evm stk_demo_msg 80000 stk_demo = Some (Inr (used, None), st')
     \<and> balance_of stk_demo_env (st_state st') 9 + staked stk_demo_env (st_state st') {9} + uint used
       = balance_of stk_demo_env stk_demo 9 + staked stk_demo_env stk_demo {9}"
proof -
  obtain used st' where t: "ApplyStakingMessage stk_demo_env demo_bls stk_demo_codec
      (Some stk_demo_chain) stk_demo_evm stk_demo_msg 80000 stk_demo = Some (Inr (used, None), st')"
    using stk_demo_transaction by blast
  have "msg_GasPrice stk_demo_msg = 1" by (simp add: stk_demo_msg_def)
  then show ?thesis
    using staking_transaction_conserves [OF stk_demo_staking_env stk_demo_tries stk_demo_reachable stk_demo_stakeable
        stk_demo_msg_ok(1) stk_demo_not_frozen stk_demo_msg_ok(3) t] t by (simp add: stk_demo_msg_ok(4))
qed

end
