(* ===== verification/Block_Props.thy ===== *)
theory Block_Props
  imports Block_Process State_Transition_Props
begin

text \<open>
  Properties of executing a block: the gas of its transactions adds up.
\<close>

section \<open>Gas\<close>

text \<open>The virtual machine never returns more gas than it was given.\<close>

definition machine_ok :: "('d, 'tr) machine \<Rightarrow> bool" where
  "machine_ok M \<longleftrightarrow>
     (\<forall>t h from data gas v db ret a left err db'.
        vm_Create M t h from data gas v db = Some ((ret, a, left, err), db') \<longrightarrow> left \<le> gas)
   \<and> (\<forall>t h from to data gas v db ret left err db'.
        vm_Call M t h from to data gas v db = Some ((ret, left, err), db') \<longrightarrow> left \<le> gas)"

lemma run_gas:
  assumes "machine_ok M" and "st_run E (NewEVM M config header author t) msg st = Some (Inr (ret, err), st')"
  shows "\<exists>left db. st' = st\<lparr>st_gas := left, st_state := db\<rparr> \<and> left \<le> st_gas st"
proof (cases "msg_To msg")
  case None
  then obtain a left db where "vm_Create M t header (msg_From msg) (msg_Data msg) (st_gas st) (msg_Value msg) (st_state st)
      = Some ((ret, a, left, err), db)" "st' = st\<lparr>st_gas := left, st_state := db\<rparr>"
    using assms(2) by (auto simp: st_run_def NewEVM_def go_ok split: option.splits)
  moreover from this(1) have "left \<le> st_gas st" by (rule conjunct1 [OF assms(1) [unfolded machine_ok_def], rule_format])
  ultimately show ?thesis by blast
next
  case (Some a)
  let ?st = "st_incNonce E msg st"
  have st: "st_gas ?st = st_gas st" "?st\<lparr>st_gas := g, st_state := db\<rparr> = st\<lparr>st_gas := g, st_state := db\<rparr>" for g db
    by (simp_all add: st_incNonce_def split: prod.split)
  from Some obtain left db where "vm_Call M t header (msg_From msg) (st_to msg) (msg_Data msg) (st_gas ?st) (msg_Value msg) (st_state ?st)
      = Some ((ret, left, err), db)" "st' = ?st\<lparr>st_gas := left, st_state := db\<rparr>"
    using assms(2) by (auto simp: st_run_def NewEVM_def go_ok Let_def split: option.splits)
  moreover from this(1) have "left \<le> st_gas ?st" by (rule conjunct2 [OF assms(1) [unfolded machine_ok_def], rule_format])
  ultimately show ?thesis unfolding st by blast
qed

lemma message_gas:
  assumes "machine_ok M" and "ApplyMessage E (NewEVM M config header author t) msg gp db = Some (Inr r, st)"
  shows "unat (st_gp st) + unat (er_UsedGas r) = unat gp"
proof -
  let ?V = "NewEVM M config header author t"
  from assms(2) obtain st0 st1 ret err st2 where
    p: "st_preCheck E msg (NewStateTransition gp db) = Some (Inr (), st0)"
      "st_intrinsic ?V msg (msg_To msg = None) False st0 = Some (Inr (), st1)"
      "st_run E ?V msg st1 = Some (Inr (ret, err), st2)"
    by (auto simp: ApplyMessage_def TransitionDb_def go_ok split: if_splits)
  from run_gas [OF assms(1) p(3)] obtain left db' where l: "st2 = st1\<lparr>st_gas := left, st_state := db'\<rparr>" "left \<le> st_gas st1"
    by blast
  show ?thesis
    by (rule transition_run [OF p(1,2) p(3) [unfolded l(1)] l(2)])
      (use assms(2) in \<open>auto simp: ApplyMessage_def split: if_splits\<close>)
qed

lemma staking_message_gas:
  assumes "ApplyStakingMessage E B C bc V msg gp db = Some (Inr (used, None), st)"
  shows "unat (st_gp st) + unat used = unat gp"
  using assms unfolding ApplyStakingMessage_def by (rule staking_transition_ok)

text \<open>The gas that is left and the gas used make up \<open>limit\<close>, and the gas used is that of the receipts.\<close>

definition gas_balanced :: "u64 \<Rightarrow> nat \<Rightarrow> outcome \<Rightarrow> ('d, 'tr, 'e, 'tl) BlockState \<Rightarrow> bool" where
  "gas_balanced limit n out s \<longleftrightarrow> unat (bs_gp s) + unat (bs_usedGas s) = unat limit
     \<and> unat (bs_usedGas s) = (\<Sum>r\<leftarrow>fst out. unat (rc_GasUsed r)) \<and> length (fst out) = n"

lemma used_add:
  assumes "unat (gp :: u64) + unat used = unat (limit :: u64)" and "unat gp' + unat gas = unat gp"
  shows "unat (used + gas) = unat used + unat (gas :: u64)"
proof -
  have "unat used + unat gas \<le> unat limit" using assms by linarith
  then have "unat used + unat gas < 2 ^ LENGTH(64)" using unsigned_less [of limit, where ?'a = nat] by (rule le_less_trans)
  then show ?thesis by (simp only: unat_add_lem [symmetric])
qed

lemma make_receipt_ok:
  assumes "make_receipt p header tx failed gas contract s = Some (Inr r, s')"
  shows "bs_gp s' = bs_gp s \<and> bs_usedGas s' = bs_usedGas s + gas \<and> rc_GasUsed r = gas
    \<and> rc_CumulativeGasUsed r = bs_usedGas s + gas \<and> bs_loadmapdb s' = bs_loadmapdb s"
  using assms unfolding make_receipt_def Let_def
  by (auto simp: go_ok NewReceipt_def split: option.splits if_splits)

lemma run_message_ok:
  "run_message f s = Some (Inr r, s') \<longleftrightarrow>
     (\<exists>st. f (bs_gp s) (bs_statedb s) = Some (Inr r, st) \<and> s' = s\<lparr>bs_gp := st_gp st, bs_statedb := st_state st\<rparr>)"
  by (auto simp: run_message_def)

lemma tx_signer_ok: "tx_signer config epoch tx s = Some (Inr sg, s') \<Longrightarrow> s' = s"
  by (auto simp: tx_signer_def go_ok split: if_splits)

lemma apply_gas:
  assumes "machine_ok (pr_machine p)" and "ApplyTransaction p header tx s = Some (Inr (r, cx, gas), s')"
  shows "unat (bs_gp s') + unat gas = unat (bs_gp s) \<and> bs_usedGas s' = bs_usedGas s + gas \<and> rc_GasUsed r = gas"
proof -
  from assms(2) obtain t sg s0 msg res s1 b c where "tx_signer (pr_config p) (hd_Epoch header) tx s = Some (Inr sg, s0)"
    and m: "run_message (ApplyMessage (pr_state p) (NewEVM (pr_machine p) (pr_config p) header (pr_author p) t) msg) s0 = Some (Inr res, s1)"
      "gas = er_UsedGas res"
    and k: "make_receipt p header tx b (er_UsedGas res) c s1 = Some (Inr r, s')"
    unfolding ApplyTransaction_def Let_def by (simp only: go_ok) blast
  from this(1) have "s0 = s" by (rule tx_signer_ok)
  with make_receipt_ok [OF k] m message_gas [OF assms(1)] show ?thesis by (auto simp: run_message_ok)
qed

lemma staking_apply_gas:
  assumes "ApplyStakingTransaction p header tx s = Some (Inr (r, gas), s')"
  shows "unat (bs_gp s') + unat gas = unat (bs_gp s) \<and> bs_usedGas s' = bs_usedGas s + gas \<and> rc_GasUsed r = gas"
proof -
  from assms obtain V msg s1 where
    m: "run_message (ApplyStakingMessage (pr_state p) (pr_bls p) (pr_codec p) (pr_bc p) V msg) s = Some (Inr (gas, None), s1)"
    and k: "make_receipt p header tx False gas 0 s1 = Some (Inr r, s')"
    unfolding ApplyStakingTransaction_def by (auto simp: go_ok)
  from m obtain st where st: "ApplyStakingMessage (pr_state p) (pr_bls p) (pr_codec p) (pr_bc p) V msg (bs_gp s) (bs_statedb s)
      = Some (Inr (gas, None), st)" "s1 = s\<lparr>bs_gp := st_gp st, bs_statedb := st_state st\<rparr>" by (auto simp: run_message_ok)
  with make_receipt_ok [OF k] staking_message_gas [OF st(1)] show ?thesis by simp
qed

lemma balanced_step:
  assumes "gas_balanced limit n (rs, cxs, ls) s" and "unat (bs_gp s') + unat gas = unat (bs_gp s)"
    and "bs_usedGas s' = bs_usedGas s + gas" and "rc_GasUsed r = gas"
  shows "gas_balanced limit (Suc n) (rs @ [r], cxs', ls') s'"
  using assms used_add [of "bs_gp s" "bs_usedGas s" limit "bs_gp s'" gas] by (simp add: gas_balanced_def)

lemma prepare_sel [simp]: "bs_gp (prepare h header i s) = bs_gp s" "bs_usedGas (prepare h header i s) = bs_usedGas s"
  by (simp_all add: prepare_def)

lemma process_tx_gas:
  assumes "machine_ok (pr_machine p)" and "gas_balanced limit n out s" and "process_tx p header x out s = Some (Inr out', s')"
  shows "gas_balanced limit (Suc n) out' s'"
proof -
  obtain i tx rs cxs ls where [simp]: "x = (i, tx)" "out = (rs, cxs, ls)" by (cases x, cases out) auto
  from assms(3) obtain r cx gas where a: "ApplyTransaction p header tx (prepare (tx_Hash tx) header i s) = Some (Inr (r, cx, gas), s')"
    and out': "\<exists>cxs' ls'. out' = (rs @ [r], cxs', ls')"
    by (auto simp: process_tx_def go_ok)
  from apply_gas [OF assms(1) a] balanced_step [of limit n rs cxs ls s s' gas r] assms(2) out' show ?thesis by auto
qed

lemma process_staking_gas:
  assumes "gas_balanced limit n out s" and "process_staking p header x out s = Some (Inr out', s')"
  shows "gas_balanced limit (Suc n) out' s'"
proof -
  obtain i tx rs cxs ls where [simp]: "x = (i, tx)" "out = (rs, cxs, ls)" by (cases x, cases out) auto
  from assms(2) obtain r gas where a: "ApplyStakingTransaction p header tx (prepare (tx_Hash tx) header i s) = Some (Inr (r, gas), s')"
    and out': "\<exists>cxs' ls'. out' = (rs @ [r], cxs', ls')"
    by (auto simp: process_staking_def go_ok)
  from staking_apply_gas [OF a] balanced_step [of limit n rs cxs ls s s' gas r] assms(1) out' show ?thesis by auto
qed

lemma transfer_receipt:
  assumes "ApplyStateTransferTransaction E F T config db header lm (Some stx) = Some (Some r, db', lm', stx')"
  shows "rc_GasUsed r = 0"
  using assms by (cases "sttx_Hash T stx") (auto simp: ApplyStateTransferTransaction_def Let_def)

lemma process_transfer_gas:
  assumes "gas_balanced limit n out s" and "process_transfer p header x out s = Some (Inr out', s')"
  shows "gas_balanced limit (Suc n) out' s'"
proof -
  obtain i ss rs cxs ls where [simp]: "x = (i, ss)" "out = (rs, cxs, ls)" by (cases x, cases out) auto
  from assms(2) obtain r cxs' ls' where "rc_GasUsed r = 0" "out' = (rs @ [r], cxs', ls')" "bs_gp s' = bs_gp s" "bs_usedGas s' = bs_usedGas s"
    unfolding process_transfer_def Let_def
    by (auto simp: go_ok split: option.splits dest!: transfer_receipt)
  with balanced_step [of limit n rs cxs ls s s' 0 r] assms(1) show ?thesis by simp
qed

lemma process_incoming_gas:
  assumes "process_incoming p header cx u s = Some (Inr u', s')"
  shows "bs_gp s' = bs_gp s \<and> bs_usedGas s' = bs_usedGas s"
  using assms by (auto simp: process_incoming_def go_ok split: option.splits)

text \<open>A loop that counts: each step adds one to the number of receipts.\<close>

lemma counted:
  assumes "go_fold f xs out s = Some (Inr out', s')" and "gas_balanced limit n out s"
    and "\<And>x n out s out' s'. gas_balanced limit n out s \<Longrightarrow> f x out s = Some (Inr out', s') \<Longrightarrow> gas_balanced limit (Suc n) out' s'"
  shows "gas_balanced limit (n + length xs) out' s'"
  using assms(1,2)
proof (induction xs arbitrary: n out s)
  case (Cons x xs)
  then obtain out1 s1 where s1: "f x out s = Some (Inr out1, s1)" "go_fold f xs out1 s1 = Some (Inr out', s')"
    by (auto simp: go_ok)
  from Cons.IH [OF s1(2) assms(3) [OF Cons.prems(2) s1(1)]] show ?case by simp
qed (simp add: go_ok)

text \<open>(C8) The gas of a block adds up. When all transactions of a block are executed, starting from a pool
  with the gas limit of the block, there is one receipt for each transaction, the gas used is the
  sum of the gas of the receipts, without wrapping around, and together with the gas left in the
  pool it is the gas limit.\<close>

theorem block_gas_adds_up:
  assumes "machine_ok (pr_machine p)" and "bs_usedGas s = 0"
    and "Process1_transactions p block s = Some (Inr (receipts, outcxs, logs), s')"
  shows "unat (bs_gp s') + unat (bs_usedGas s') = unat (bs_gp s)
    \<and> unat (bs_usedGas s') = (\<Sum>r\<leftarrow>receipts. unat (rc_GasUsed r))
    \<and> length receipts = length (bk_Transactions block) + length (bk_StakingTransactions block)
        + length (bk_StateTransferTransactions block)"
proof -
  let ?h = "bk_header block" and ?L = "length (bk_Transactions block)" and ?M = "length (bk_StakingTransactions block)"
  from assms(3) obtain o1 s1 o2 s2 s3 where
    l: "go_fold (process_tx p ?h) (enumerate 0 (bk_Transactions block)) ([], [], []) s = Some (Inr o1, s1)"
      "go_fold (process_staking p ?h) (enumerate ?L (bk_StakingTransactions block)) o1 s1 = Some (Inr o2, s2)"
      "go_fold (process_transfer p ?h) (enumerate (?L + ?M) (bk_StateTransferTransactions block)) o2 s2 = Some (Inr (receipts, outcxs, logs), s3)"
      "go_fold (process_incoming p ?h) (bk_IncomingReceipts block) () s3 = Some (Inr (), s')"
    unfolding Process1_transactions_def Let_def by (auto simp: go_ok)
  have "gas_balanced (bs_gp s) 0 ([], [], []) s" using assms(2) by (simp add: gas_balanced_def)
  from l(1) this have b1: "gas_balanced (bs_gp s) (0 + length (enumerate 0 (bk_Transactions block))) o1 s1"
    by (rule counted) (rule process_tx_gas [OF assms(1)])
  from l(2) b1 have b2: "gas_balanced (bs_gp s) (0 + length (enumerate 0 (bk_Transactions block))
      + length (enumerate ?L (bk_StakingTransactions block))) o2 s2"
    by (rule counted) (rule process_staking_gas)
  from l(3) b2 have b3: "gas_balanced (bs_gp s) (0 + length (enumerate 0 (bk_Transactions block))
      + length (enumerate ?L (bk_StakingTransactions block))
      + length (enumerate (?L + ?M) (bk_StateTransferTransactions block))) (receipts, outcxs, logs) s3"
    by (rule counted) (rule process_transfer_gas)
  have "bs_gp s' = bs_gp s3 \<and> bs_usedGas s' = bs_usedGas s3"
    using l(4) by (rule go_fold_inv) (auto dest: process_incoming_gas)
  with b3 show ?thesis by (simp add: gas_balanced_def)
qed

section \<open>A concrete block\<close>

text \<open>A block of epoch 200 of the main network with one staking transaction, in which account 9
  undelegates 1000 ONE.\<close>

definition demo_stx :: PoolTransaction where
  "demo_stx = StakingTx \<lparr>txc_AccountNonce = 0, txc_Price = 1, txc_GasLimit = 30000, txc_V = 37, txc_Size = 100, txc_Hash = 0\<rparr>
     DirectiveUndelegate []"

definition demo_block :: Block where
  "demo_block = \<lparr>bk_header = \<lparr>hd_ShardID = 0, hd_Epoch = Some 200, hd_Number = 7, hd_Hash = 0\<rparr>, bk_Transactions = [],
     bk_StakingTransactions = [demo_stx], bk_StateTransferTransactions = [], bk_IncomingReceipts = []\<rparr>"

definition demo_processor where
  "demo_processor = \<lparr>pr_state = stk_demo_env, pr_load = lm_demo_env, pr_tx = tx_demo_env, pr_bls = demo_bls,
     pr_codec = stk_demo_codec, pr_recover = (\<lambda>_ _. Inr 9),
     pr_machine = \<lparr>vm_Create = (\<lambda>_ _ _ _ _ _ _. None), vm_Call = (\<lambda>_ _ _ _ _ _ _ _. None), CreateAddress = (\<lambda>_ _. 0)\<rparr>,
     pr_bc = Some stk_demo_chain, pr_config = MainnetChainConfig, pr_numShards = (\<lambda>_. 4), pr_author = 2\<rparr>"

definition demo_start where
  "demo_start = \<lparr>bs_gp = 80000, bs_usedGas = 0, bs_statedb = stk_demo, bs_loadmapdb = lm_demo\<rparr>"

lemma demo_staking_applies: "\<exists>r gas s'. ApplyStakingTransaction demo_processor (bk_header demo_block) demo_stx demo_start = Some (Inr (r, gas), s')"
proof -
  let ?p = demo_processor and ?h = "bk_header demo_block"
  have V: "NewEVM (pr_machine ?p) (pr_config ?p) ?h (pr_author ?p) SameShardTx = stk_demo_evm"
    by (simp add: NewEVM_def demo_processor_def demo_block_def stk_demo_evm_def)
  have m: "StakingToMessage (pr_recover ?p) demo_stx (Some (hd_Number ?h)) = Inr stk_demo_msg"
    by (simp add: demo_stx_def tx_SenderAddress_def demo_processor_def NewStakingMessage_def StakingTypeMap_def
        DirectiveCreateValidator_def DirectiveEditValidator_def DirectiveDelegate_def DirectiveUndelegate_def
        demo_block_def stk_demo_msg_def)
  obtain used st where "ApplyStakingMessage stk_demo_env demo_bls stk_demo_codec (Some stk_demo_chain) stk_demo_evm stk_demo_msg 80000 stk_demo
      = Some (Inr (used, None), st)" using stk_demo_transaction by blast
  then have r: "run_message (ApplyStakingMessage (pr_state ?p) (pr_bls ?p) (pr_codec ?p) (pr_bc ?p) stk_demo_evm stk_demo_msg) demo_start
      = Some (Inr (used, None), demo_start\<lparr>bs_gp := st_gp st, bs_statedb := st_state st\<rparr>)"
    by (simp add: run_message_ok demo_start_def) (simp add: demo_processor_def)
  have "IsS3 (pr_config ?p) (hd_Epoch ?h)"
    by (simp add: demo_processor_def demo_block_def IsS3_def isForked_def MainnetChainConfig_def)
  then have "\<exists>r s'. make_receipt ?p ?h demo_stx False used 0 s = Some (Inr r, s')" for s
    by (simp add: make_receipt_def sdb_settle_def go_return_def Let_def)
  then obtain r s' where "make_receipt ?p ?h demo_stx False used 0 (demo_start\<lparr>bs_gp := st_gp st, bs_statedb := st_state st\<rparr>) = Some (Inr r, s')"
    by blast
  with m r show ?thesis
    by (simp add: ApplyStakingTransaction_def V go_sum_def go_bind_def go_try_def go_return_def)
qed

theorem block_gas_adds_up_witness:
  "\<exists>receipts outcxs logs s'. Process1_transactions demo_processor demo_block demo_start = Some (Inr (receipts, outcxs, logs), s')
     \<and> unat (bs_gp s') + unat (bs_usedGas s') = 80000 \<and> length receipts = 1"
proof -
  have ok: "machine_ok (pr_machine demo_processor)" by (simp add: machine_ok_def demo_processor_def)
  obtain r gas s' where a: "ApplyStakingTransaction demo_processor (bk_header demo_block) demo_stx demo_start = Some (Inr (r, gas), s')"
    using demo_staking_applies by blast
  have "prepare (tx_Hash demo_stx) (bk_header demo_block) 0 demo_start = demo_start"
    by (simp add: prepare_def tx_Hash_def demo_stx_def demo_block_def demo_start_def sdb_Prepare_def stk_demo_def
        sdb_New_def stk_demo_env_def)
  with a have "\<exists>out. Process1_transactions demo_processor demo_block demo_start = Some (Inr out, s')"
    by (simp add: Process1_transactions_def Let_def process_staking_def go_bind_def go_do_def go_return_def demo_block_def)
  then obtain receipts outcxs logs where
    p: "Process1_transactions demo_processor demo_block demo_start = Some (Inr (receipts, outcxs, logs), s')" by auto
  from block_gas_adds_up [OF ok _ p] p show ?thesis by (simp add: demo_start_def demo_block_def)
qed

end
