(* ===== verification/Tx_Validate_Props.thy ===== *)
theory Tx_Validate_Props
  imports Block_Props
begin

text \<open>
  Properties of admission: what \<open>validateTx\<close> accepts, that what it accepts can be executed, and the
  transactions on which it panics.
\<close>

section \<open>Reading the freeze state\<close>

lemma GetFreezeState_obj:
  assumes "sdb_inv E l"
  shows "sdb_inv E (snd (sdb_GetFreezeState E a l))" and "sdb_obj E (snd (sdb_GetFreezeState E a l)) b = sdb_obj E l b"
proof -
  obtain m where m: "sdb_GetOrNewStateObject E a l = (sdb_obj E l a, m)" "sdb_peek E m = (sdb_peek E l)(a := Some (sdb_obj E l a))"
    "sdb_holds E (sdb_obj E l a) m"
    using assms by (rule sdb_GetOrNew_cases)
  then have "snd (sdb_GetFreezeState E a l) = m" by (simp add: sdb_GetFreezeState_def split: prod.split)
  with m sdb_obj_upd [OF m(2)] show "sdb_inv E (snd (sdb_GetFreezeState E a l))"
    "sdb_obj E (snd (sdb_GetFreezeState E a l)) b = sdb_obj E l b" by (simp_all add: sdb_holds_def)
qed

lemma any_frozen_ok:
  assumes "sdb_inv E l"
  shows "any_frozen E a (Some to) l = Some (Inr z, l') \<Longrightarrow>
      z = (so_freeze (sdb_obj E l a) \<or> so_freeze (sdb_obj E l to)) \<and> sdb_inv E l' \<and> sdb_obj E l' = sdb_obj E l"
    and "\<exists>z l'. any_frozen E a (Some to) l = Some (Inr z, l')"
    and "any_frozen E a None l = Some (Inr z, l') \<Longrightarrow> z"
proof -
  let ?m = "snd (sdb_GetFreezeState E a l)"
  obtain m where m: "sdb_GetFreezeState E a l = (so_freeze (sdb_obj E l a), m)" "m = ?m"
    using sdb_getters_obj(3) [of E a l] by (cases "sdb_GetFreezeState E a l") simp
  then have im: "sdb_inv E m" "sdb_obj E m = sdb_obj E l" using GetFreezeState_obj [OF assms, of a] by auto
  obtain n where n: "sdb_GetFreezeState E to m = (so_freeze (sdb_obj E m to), n)"
    using sdb_getters_obj(3) [of E to m] by (cases "sdb_GetFreezeState E to m") simp
  then have "sdb_inv E n" "sdb_obj E n = sdb_obj E m" using GetFreezeState_obj [OF im(1), of to] by auto
  with m(1) n im show "any_frozen E a (Some to) l = Some (Inr z, l') \<Longrightarrow>
      z = (so_freeze (sdb_obj E l a) \<or> so_freeze (sdb_obj E l to)) \<and> sdb_inv E l' \<and> sdb_obj E l' = sdb_obj E l"
    "\<exists>z l'. any_frozen E a (Some to) l = Some (Inr z, l')"
    "any_frozen E a None l = Some (Inr z, l') \<Longrightarrow> z"
    by (auto simp: any_frozen_def go_get_def go_opt_def go_return_def split: if_splits)
qed

section \<open>Plain transactions\<close>

definition statically_ok :: "recover \<Rightarrow> TxPool \<Rightarrow> bool \<Rightarrow> PoolTransaction \<Rightarrow> address \<Rightarrow> bool" where
  "statically_ok K P local tx from \<longleftrightarrow> tx_Size tx < MaxPoolTransactionDataSize \<and> 0 \<le> tx_Value tx
     \<and> tx_GasLimit tx \<le> pool_currentMaxGas P \<and> tx_SenderAddress K tx = (from, None)
     \<and> from \<notin> set (pool_Blacklist P) \<and> (\<forall>to. tx_To tx = Some to \<longrightarrow> to \<notin> set (pool_Blacklist P))
     \<and> (local \<or> from \<in> set (pool_locals P) \<or> pool_gasPrice P \<le> tx_GasPrice tx)"

lemma static_checks_ok: "static_checks K P local tx = Inr from \<longleftrightarrow> statically_ok K P local tx from"
  by (auto simp: static_checks_def statically_ok_def not_less not_le split: prod.splits option.splits)

lemma plain_tx_admitted:
  assumes "sdb_inv E l" and "tx = PlainTx c sh tsh (Some to) v d"
  shows "(\<exists>l'. validateTx E B C K P tx local l = Some (Inr (), l')) \<longleftrightarrow>
    (\<exists>from gas. sh = pool_ShardID P \<and> statically_ok K P local tx from
      \<and> \<not> fst (sdb_GetFreezeState E from l) \<and> \<not> fst (sdb_GetFreezeState E to l)
      \<and> nonce_of E l from \<le> tx_Nonce tx \<and> tx_GasPrice tx * uint (tx_GasLimit tx) + v \<le> balance_of E l from
      \<and> IntrinsicGas d False (pool_homestead P) (pool_istanbul P) False = Inr gas \<and> gas \<le> tx_GasLimit tx)"
    (is "?L \<longleftrightarrow> ?R")
proof -
  let ?f = "fst (tx_SenderAddress K tx)"
  have to: "tx_To tx = Some to" using assms(2) by simp
  have plain: "tx_ShardID tx = sh" "tx_Cost C tx = Inr (tx_GasPrice tx * uint (tx_GasLimit tx) + v)"
    "check_funds E tx a cost = go_get (sdb_GetBalance E a) (\<lambda>b. go_check (cost \<le> b) ErrInsufficientFunds (go_return ()))"
    "pool_intrinsic P tx = IntrinsicGas d False (pool_homestead P) (pool_istanbul P) False"
    "(case tx of PlainTx _ _ _ _ _ _ \<Rightarrow> go_return () | StakingTx _ dr _ \<Rightarrow> validateStakingTx E B C K P tx dr) = go_return ()" for a cost
    using assms(2) by (simp_all add: tx_GasPrice_def tx_GasLimit_def check_funds_def pool_intrinsic_def)
  obtain z m where af: "any_frozen E ?f (tx_To tx) l = Some (Inr z, m)"
    using any_frozen_ok(2) [OF assms(1)] unfolding to by blast
  then have z: "z = (so_freeze (sdb_obj E l ?f) \<or> so_freeze (sdb_obj E l to))" and m: "sdb_obj E m = sdb_obj E l"
    using any_frozen_ok(1) [OF assms(1), of ?f to z m] unfolding to by simp_all
  show ?thesis
  proof (cases "static_checks K P local tx")
    case (Inl e)
    then have "\<not> statically_ok K P local tx a" for a using static_checks_ok [of K P local tx a] by simp
    then show ?thesis using Inl by (auto simp: validateTx_def go_ok)
  next
    case (Inr a)
    then have a: "statically_ok K P local tx b \<longleftrightarrow> b = a" for b
      using static_checks_ok [of K P local tx b] by auto
    then have "statically_ok K P local tx a" by simp
    then have f: "?f = a" by (simp add: statically_ok_def)
    obtain n m1 where n: "sdb_GetNonce E a m = (n, m1)" by fastforce
    obtain x m2 where x: "sdb_GetBalance E a m1 = (x, m2)" by fastforce
    have nx: "n = nonce_of E l a" "x = balance_of E l a"
      using n x m getters_same(2) [of E m a] same_balance [of E m m1 a] sdb_getters_obj(2) [of E a m]
      by (auto simp: nonce_of_def balance_of_def sdb_getters_obj)
    have L: "?L \<longleftrightarrow> sh = pool_ShardID P \<and> \<not> z \<and> n \<le> tx_Nonce tx
        \<and> tx_GasPrice tx * uint (tx_GasLimit tx) + v \<le> x
        \<and> (\<exists>gas. IntrinsicGas d False (pool_homestead P) (pool_istanbul P) False = Inr gas \<and> gas \<le> tx_GasLimit tx)"
      using Inr af n x by (auto simp: validateTx_def plain f go_ok)
    show ?thesis unfolding L unfolding z f nx a sdb_getters_obj by auto
  qed
qed

text \<open>(C11) What the pool admits. A plain transaction with a recipient is admitted exactly when it is for
  the shard, neither the sender nor the recipient is frozen, it is below the size limit, its value
  is not negative, its gas limit is within the block limit, its signature gives a sender, no
  address is on the blacklist, it is local or pays the price of the pool, its nonce is not used
  up, the balance covers its value and gas, and its gas covers the intrinsic gas. The
  comparisons of the gas limit, price, nonce, balance and intrinsic gas admit equality, where the
  comments of \<open>validateTx\<close> state them as strict inequalities.\<close>

theorem plain_tx_admitted_iff:
  assumes "account_tries_ok E" and "sdb_reachable E l" and "tx = PlainTx c sh tsh (Some to) v d"
  shows "(\<exists>l'. validateTx E B C K P tx local l = Some (Inr (), l')) \<longleftrightarrow>
    (\<exists>from gas. sh = pool_ShardID P \<and> statically_ok K P local tx from
      \<and> \<not> fst (sdb_GetFreezeState E from l) \<and> \<not> fst (sdb_GetFreezeState E to l)
      \<and> nonce_of E l from \<le> tx_Nonce tx \<and> tx_GasPrice tx * uint (tx_GasLimit tx) + v \<le> balance_of E l from
      \<and> IntrinsicGas d False (pool_homestead P) (pool_istanbul P) False = Inr gas \<and> gas \<le> tx_GasLimit tx)"
  using sdb_reachable_inv [OF assms(1,2)] by (intro plain_tx_admitted [OF _ assms(3)]) simp

text \<open>(C37) The pool panics on every staking transaction and on every contract creation of a sender that is
  not frozen: the freeze check dereferences the recipient, and a staking transaction and a contract
  creation have none.\<close>

theorem no_recipient_panics:
  assumes "tx_ShardID tx = pool_ShardID P" and "\<not> fst (sdb_GetFreezeState E (fst (tx_SenderAddress K tx)) l)"
    and "tx = StakingTx c d m \<or> tx = PlainTx c sh tsh None v d'"
  shows "validateTx E B C K P tx local l = None"
proof -
  have "tx_To tx = None" using assms(3) by auto
  then have "any_frozen E (fst (tx_SenderAddress K tx)) (tx_To tx) l = None"
    using assms(2) by (cases "sdb_GetFreezeState E (fst (tx_SenderAddress K tx)) l") (simp add: any_frozen_def go_get_def go_opt_def)
  then show ?thesis using assms(1) by (simp add: validateTx_def go_check_def go_bind_def)
qed

section \<open>From admission to execution\<close>

text \<open>A call fails for lack of balance only when the balance of the caller is below the value, the
  test that the virtual machine makes with \<open>CanTransfer\<close> before anything else.\<close>

definition evm_covers :: "('d, 'tr) senv \<Rightarrow> ('d, 'tr) evm_env \<Rightarrow> bool" where
  "evm_covers E V \<longleftrightarrow> (\<forall>from to data gas v db ret left db'.
     evm_Call V from to data gas v db = Some ((ret, left, Some ErrInsufficientBalance), db') \<longrightarrow> balance_of E db from < v)"

text \<open>(C7) What the pool admits can be executed. A plain transaction with a recipient that the pool admits
  in a state, with the next nonce of its sender, executes in that state without an error, when
  the block has the gas left, the signer gives the same sender, and pool and block follow the same
  rules for the intrinsic gas: the balance covers the gas and then still the value.\<close>

theorem admitted_tx_executes:
  assumes "account_tries_ok E" and "sdb_reachable E l" and "tx = PlainTx c sh tsh (Some to) v d"
    and "validateTx E B C K P tx local l = Some (Inr (), l')"
    and "tx_AsMessage K signer tx = Inr msg" and "msg_From msg = fst (tx_SenderAddress K tx)"
    and "tx_Nonce tx = nonce_of E l (msg_From msg)" and "tx_GasLimit tx \<le> gp"
    and "pool_homestead P = IsS3 (evm_Config V) (EpochNumber V)" and "pool_istanbul P = IsIstanbul (evm_Config V) (EpochNumber V)"
    and "evm_ok V" and "evm_covers E V"
  shows "\<exists>r st. ApplyMessage E V msg gp l = Some (Inr r, st) \<and> er_UsedGas r \<le> tx_GasLimit tx"
proof -
  have inv: "sdb_inv E l" using sdb_reachable_inv [OF assms(1,2)] by simp
  have ex: "\<exists>l'. validateTx E B C K P tx local l = Some (Inr (), l')" using assms(4) by blast
  have "\<exists>a gas. tx_SenderAddress K tx = (a, None) \<and> 0 \<le> v \<and> \<not> so_freeze (sdb_obj E l a) \<and> tx_GasPrice tx * uint (tx_GasLimit tx) + v \<le> balance_of E l a
      \<and> IntrinsicGas d False (pool_homestead P) (pool_istanbul P) False = Inr gas \<and> gas \<le> tx_GasLimit tx"
    using iffD1 [OF plain_tx_admitted [OF inv assms(3)] ex] assms(3)
    by (auto simp: statically_ok_def sdb_getters_obj)
  then obtain gas where a: "0 \<le> v" "tx_GasPrice tx * uint (tx_GasLimit tx) + v \<le> balance_of E l (msg_From msg)"
      "IntrinsicGas d False (pool_homestead P) (pool_istanbul P) False = Inr gas" "gas \<le> tx_GasLimit tx" "\<not> so_freeze (sdb_obj E l (msg_From msg))"
    using assms(6) by auto
  have m: "msg_To msg = Some to" "msg_GasPrice msg = tx_GasPrice tx" "msg_Gas msg = tx_GasLimit tx" "msg_Nonce msg = tx_Nonce tx"
    "msg_Data msg = d" "msg_Value msg = v"
    using assms(3,5) by (auto simp: tx_GasPrice_def tx_GasLimit_def tx_Nonce_def split: sum.splits)
  obtain st where st: "st_preCheck E msg (NewStateTransition gp l) = Some (Inr (), st)" "st_gas st = msg_Gas msg"
    using preCheck_succeeds [of msg E l gp] a(1,2) assms(7,8) m by (auto simp: mult.commute)
  have "intrinsic_of V msg (msg_To msg = None) False = Inr gas" using a(3) m by (simp add: assms(9,10))
  then obtain st1 where st1: "st_intrinsic V msg (msg_To msg = None) False st = Some (Inr (), st1)"
    using a(4) st(2) m unfolding intrinsic_ok by auto
  obtain ret err left db where run: "st_run E V msg st1 = Some (Inr (ret, err), st1\<lparr>st_gas := left, st_state := db\<rparr>)"
      "left \<le> st_gas st1" using assms(11) by (rule run_ok)
  have "st_state st1 = st_state st" using st1 unfolding intrinsic_ok by auto
  from start_effect [OF inv st(1) this] a(5)
  have "balance_of E (st_state (st_incNonce E msg st1)) (msg_From msg) = balance_of E l (msg_From msg) - uint (msg_Gas msg) * msg_GasPrice msg"
    by simp
  with a(2) have "\<not> balance_of E (st_state (st_incNonce E msg st1)) (msg_From msg) < msg_Value msg"
    by (simp add: m mult.commute)
  then have "err \<noteq> Some ErrInsufficientBalance" using run(1) m(1)
    by (auto simp: st_run_def go_ok Let_def split: option.splits dest: assms(12) [unfolded evm_covers_def, rule_format])
  with st(1) st1 run show ?thesis unfolding ApplyMessage_def by (rule_tac transition_run) (auto simp: m)
qed

section \<open>Concrete transactions\<close>

text \<open>A pool of shard 0 at epoch 200 of the main network; account 5 sends 1000 units to account 9.\<close>

definition demo_pool :: TxPool where
  "demo_pool = \<lparr>pool_ShardID = 0, pool_Number = 6, pool_Epoch = 200, pool_IsLastBlock = (\<lambda>_. False),
     pool_chain = Some stk_demo_chain, pool_chainconfig = MainnetChainConfig, pool_gasPrice = 1, pool_currentMaxGas = 80000000,
     pool_Blacklist = [], pool_locals = [], pool_homestead = True, pool_istanbul = False\<rparr>"

definition demo_recover :: recover where
  "demo_recover = (\<lambda>_ _. Inr 5)"

definition demo_tx :: PoolTransaction where
  "demo_tx = PlainTx \<lparr>txc_AccountNonce = 0, txc_Price = 1, txc_GasLimit = 30000, txc_V = 37, txc_Size = 100, txc_Hash = 0\<rparr>
     0 0 (Some 9) 1000 []"

lemma demo_tx_conditions:
  "0 = pool_ShardID demo_pool" "statically_ok demo_recover demo_pool False demo_tx 5"
  "\<not> fst (sdb_GetFreezeState stk_demo_env 5 stk_demo)" "\<not> fst (sdb_GetFreezeState stk_demo_env 9 stk_demo)"
  "nonce_of stk_demo_env stk_demo 5 \<le> tx_Nonce demo_tx"
  "tx_GasPrice demo_tx * uint (tx_GasLimit demo_tx) + 1000 \<le> balance_of stk_demo_env stk_demo 5"
  "IntrinsicGas [] False (pool_homestead demo_pool) (pool_istanbul demo_pool) False = Inr 21000" "21000 \<le> tx_GasLimit demo_tx"
  using stk_demo_not_frozen [of 5] stk_demo_not_frozen [of 9] stk_demo_nonce [of 5] stk_demo_balance
  by (simp_all add: statically_ok_def demo_pool_def demo_tx_def demo_recover_def tx_Size_def tx_GasLimit_def tx_GasPrice_def
      tx_Nonce_def tx_SenderAddress_def MaxPoolTransactionDataSize_def IntrinsicGas_def TxGas_def)

theorem plain_tx_admitted_iff_witness:
  "\<exists>l'. validateTx stk_demo_env demo_bls stk_demo_codec demo_recover demo_pool demo_tx False stk_demo = Some (Inr (), l')"
  using plain_tx_admitted_iff [OF stk_demo_tries stk_demo_reachable demo_tx_def, of demo_bls stk_demo_codec demo_recover demo_pool False]
    demo_tx_conditions by blast

theorem no_recipient_panics_witness:
  "validateTx stk_demo_env demo_bls stk_demo_codec demo_recover demo_pool demo_stx False stk_demo = None"
  by (rule no_recipient_panics [OF _ stk_demo_not_frozen, where c = "tx_common demo_stx" and d = DirectiveUndelegate and m = "[]"])
    (simp_all add: demo_stx_def demo_pool_def BeaconChainShardID_def)

theorem admitted_tx_executes_witness:
  "\<exists>msg r st. tx_AsMessage demo_recover HomesteadSigner demo_tx = Inr msg
     \<and> ApplyMessage stk_demo_env demo_call_evm msg 80000 stk_demo = Some (Inr r, st) \<and> er_UsedGas r \<le> 30000"
proof -
  let ?msg = "\<lparr>msg_From = 5, msg_To = Some 9, msg_GasPrice = 1, msg_Gas = 30000, msg_Value = 1000, msg_Nonce = 0,
    msg_CheckNonce = True, msg_Data = [], msg_Type = SameShardTx, msg_BlockNum = None\<rparr>"
  obtain l' where a: "validateTx stk_demo_env demo_bls stk_demo_codec demo_recover demo_pool demo_tx False stk_demo = Some (Inr (), l')"
    using plain_tx_admitted [OF stk_demo_inv demo_tx_def, of demo_bls stk_demo_codec demo_recover demo_pool False]
      demo_tx_conditions by blast
  have m: "tx_AsMessage demo_recover HomesteadSigner demo_tx = Inr ?msg" by (simp add: demo_tx_def demo_recover_def)
  have c: "evm_covers stk_demo_env demo_call_evm" by (simp add: evm_covers_def demo_call_evm_def)
  have r: "pool_homestead demo_pool = IsS3 (evm_Config demo_call_evm) (EpochNumber demo_call_evm)"
    "pool_istanbul demo_pool = IsIstanbul (evm_Config demo_call_evm) (EpochNumber demo_call_evm)"
    by (simp_all add: demo_pool_def demo_call_evm_def stk_demo_evm_def IsS3_def IsIstanbul_def isForked_def MainnetChainConfig_def)
  have t: "msg_From ?msg = fst (tx_SenderAddress demo_recover demo_tx)" "tx_Nonce demo_tx = nonce_of stk_demo_env stk_demo (msg_From ?msg)"
    "tx_GasLimit demo_tx = 30000"
    by (simp_all add: tx_SenderAddress_def demo_recover_def demo_tx_def tx_Nonce_def tx_GasLimit_def stk_demo_nonce)
  from admitted_tx_executes [OF stk_demo_tries stk_demo_reachable demo_tx_def a m t(1,2) _ r demo_evm_ok c, of 80000] t(3) m
  show ?thesis by auto
qed

end
