(* ===== verification/Spec2Isabelle.thy ===== *)
theory Spec2Isabelle
  imports Load_Map_Props State_DB_Props Managed_State Migration Chain_Config Decimal_Props Staking_Rewards Tx_Validate_Props
begin

text \<open>
  A verification development for DyShard, a sharded blockchain (a fork of Harmony) in which the
  account of a user can be moved from one shard to another. The sources are under \<open>src/\<close>.

  \<^bold>\<open>The program.\<close> A coordinator (\<open>atomic/serverShard.go\<close>) moves an account in two phases. It
  sends a propose to followers of the source and the target shard. At a source follower the commit
  pool (\<open>atomic/commit_pool.go\<close>) hands a freeze transaction to the block proposer, and the handler
  (\<open>atomic/commit_handler.go\<close>) waits until a block contains it, reads balance and nonce, and
  acknowledges. When all followers have acknowledged, the coordinator sends a commit with that
  data, and commit transactions take effect at both shards. The transactions are executed by
  \<open>core/state_processor.go\<close> on two stores with the same journal discipline: the account state
  (\<open>core/state\<close>), in which a frozen account refuses changes, and the load map
  (\<open>shard/mapping/load\<close>), which says where an address has been moved to. Around it is the usual
  life of a transaction: the pool admits it (\<open>core/tx_pool.go\<close>), the processor turns it into a
  message and executes it with gas accounting (\<open>core/state_transition.go\<close>), and a staking
  transaction changes validators and delegations (\<open>staking/types\<close>), which are stored in the account
  state and checked by \<open>core/staking_verifier.go\<close>.

  \<^bold>\<open>Conventions.\<close> A Go panic, and an operation that blocks for ever, is the value \<open>None\<close> of an
  option type; an \<open>error\<close> result is a string, \<open>nil\<close> is \<open>None\<close>. \<open>uint32\<close>, \<open>uint64\<close>, addresses and
  hashes are words of 32, 64, 160 and 256 bits, so that arithmetic wraps around as in Go; \<open>big.Int\<close>
  is \<open>int\<close>, a pointer that may be nil an option. A Go map is an association list whose order is the
  order in which \<open>range\<close> visits it: a theorem about all maps is a theorem about all such orders.
  Objects behind pointers are values in the map that owns them. Tries, the database, RLP, hashing
  and the network are parameters, records of functions with named laws (\<open>trie_stores\<close>, \<open>trie_total\<close>,
  \<open>account_tries_ok\<close>, \<open>rlp_codes\<close>), as are the virtual machine (\<open>evm_ok\<close>, \<open>machine_ok\<close>,
  \<open>evm_covers\<close>), BLS, and the recovery of a sender from a signature.
  Concurrent parts are event relations: one event is one access to what goroutines share,
  one section under a lock, or one wait, so that a theorem about all event lists covers all
  interleavings of these. A \<open>select\<close> keeps the channel it found when it was entered.
  Locks that only make these pieces atomic, logging and time measurements are left out.

  \<^bold>\<open>The theories.\<close>
  \<^item> \<open>Go_Base\<close>: the prelude, with maps, panicking loops, \<open>sort.Search\<close>, bytes.
  \<^item> \<open>Undo_Log\<close>: the journal of \<open>core/state/journal.go\<close> and \<open>shard/mapping/load/journal.go\<close>, the
    locales \<open>undo_log\<close>, \<open>snapshot_store\<close> and \<open>journalled_store\<close>, and in them the proof that a revert
    undoes every properly nested run since its snapshot, and that the dirty counts of the journal
    are the numbers of its entries at every time, so that a revert gives them back too. Both stores
    interpret them (\<open>lmlog\<close>, \<open>lmdb\<close>, \<open>lmjournal\<close>, and \<open>stlog\<close>, \<open>stdb\<close>, \<open>stjournal\<close>). A revert of
    the account state does not give back the count that \<open>touch\<close> raises by hand, and the cache of
    validator wrappers, which the journal does not record.
  \<^item> \<open>Trie_Env\<close>: the interfaces of \<open>core/state/database.go\<close>.
  \<^item> \<open>Load_Map\<close>, \<open>Load_Map_Undo\<close>, \<open>Load_Map_Props\<close>: \<open>load_map.go\<close> and \<open>load_map_db.go\<close>, the
    invariant of all reachable load maps, snapshots, writing to the trie, and that reloading
    forgets the mapping.
  \<^item> \<open>State_Object\<close>, \<open>State_DB\<close>: \<open>state_object.go\<close> and \<open>statedb.go\<close>. \<open>State_DB_View\<close>,
    \<open>State_DB_Undo\<close>, \<open>State_DB_Store\<close> and \<open>State_DB_Ops\<close> show that every operation keeps the
    journal's contract; \<open>State_DB_Reach\<close> gives the invariant of reachable states;
    \<open>State_DB_Effects\<close> and \<open>State_DB_Final\<close> say what each method, \<open>Finalise\<close> and
    \<open>IntermediateRoot\<close> do to the accounts; \<open>State_DB_Props\<close> has the properties: snapshots,
    frozen accounts, transfers and the conservation of the total balance.
  \<^item> \<open>Managed_State\<close>: \<open>managed_state.go\<close>, which hands out consecutive nonces.
  \<^item> \<open>Transfer_Tx\<close>: state transfer transactions (\<open>atomic/types\<close>), their encodings and the caches.
    The data decoded up to an error and the sizes of RLP items are parameters too.
  \<^item> \<open>State_Transfer\<close>: their execution, and that of incoming cross-shard receipts. A commit
    transaction with a nil balance, as one that went through a block body has, ends the model's run.
  \<^item> \<open>Commit_Pool\<close>, \<open>Commit_Handler\<close>: the follower as a state machine. \<open>Commit_Handler_Inv\<close> proves
    its invariant for every interleaving, \<open>Commit_Handler_Props\<close> what an acknowledgement means,
    and that an undisturbed migration ends; \<open>Commit_Handler_Errors\<close> the ways to crash or block.
  \<^item> \<open>Coordinator\<close>, \<open>Coordinator_Props\<close>: \<open>StateTransfer\<close> of \<open>serverShard.go\<close>.
  \<^item> \<open>Migration\<close>: a migration from the answers of the followers to the execution of the commit
    transaction at the target, which ends with the balance and nonce that the source read.
  \<^item> \<open>Decimal\<close>, \<open>Decimal_Props\<close>: the 18-digit decimals of \<open>numeric/decimal.go\<close>.
  \<^item> \<open>Go_Result\<close>: code that threads a state, returns early with an error and may panic, as a monad
    with the rules that execute it.
  \<^item> \<open>Chain_Config\<close>: the network configurations and fork predicates of \<open>internal/params\<close>.
  \<^item> \<open>Validator\<close>, \<open>Validator_Props\<close>: validators and delegations of \<open>staking/types\<close>; the sanity
    check accepts exactly the well-formed validators, undelegating keeps what a delegator holds.
  \<^item> \<open>Staking_Verify\<close>: \<open>core/staking_verifier.go\<close> and \<open>AddReward\<close>. \<open>Staking_State\<close> says what the
    account state stores of a validator, \<open>Staking_Conserve\<close> and \<open>Staking_Props\<close> that every staking
    operation conserves tokens, \<open>Staking_Rewards\<close> how a block reward is distributed.
  \<^item> \<open>State_Transition\<close>, \<open>State_Transition_Props\<close>: \<open>core/state_transition.go\<close> and
    \<open>core/gaspool.go\<close>; gas is accounted for exactly, a staking transaction conserves tokens up to
    its fee, and a frozen sender executes for free.
  \<^item> \<open>Tx_Validate\<close>, \<open>Tx_Validate_Props\<close>: admission to the pool, exactly when it succeeds, when it
    panics, and that an admitted transaction can be executed.
  \<^item> \<open>Block_Process\<close>, \<open>Block_Props\<close>: \<open>ApplyTransaction\<close>, \<open>ApplyStakingTransaction\<close> and the loops of
    \<open>Process1\<close>; the gas of a block adds up.

  \<^bold>\<open>Bounds.\<close> No definition uses fuel. The one loop that may run for ever, the retry of a propose,
  is a \<open>partial_function\<close>, and \<open>propose_goroutine_ends\<close> says exactly when it returns.

  \<^bold>\<open>Not modelled.\<close> The EVM; the queues of the transaction pool, with promotion,
  replacement and eviction; the end of a block, with slashing, rewards and committees
  (\<open>Finalize1\<close>), of which only \<open>AddReward\<close> is modelled; the chain store and the
  consensus protocol; networking, RPC, command line tools and key management, which are input and output or
  calls of libraries; iterators and proofs of tries, which only call the trie library; and generated code.
\<close>

end
